(* ===== verification/Prelude.thy ===== *)
theory Prelude
  imports Main "HOL-Library.Word" "HOL-Library.Monad_Syntax"
begin

text \<open>
  Shared vocabulary of the development: the C fixed-width integer types, the
  collections that carry the component proofs, and the generic facts on words, bit
  fields and arrays that several components use.

  A C \<open>uintN_t\<close> is an \<open>N word\<close>: \<open>+\<close>, \<open>-\<close> and \<open>*\<close> wrap, \<open>push_bit\<close> and
  \<open>drop_bit\<close> are the unsigned shifts, \<open>signed_drop_bit\<close> is the arithmetic one. An
  \<open>intN_t\<close> comparison reads the same word through \<open>sint\<close>. A C array of fixed size is
  a list whose length is part of the component's invariant; an array indexed by a
  whole machine word (guest RAM) is a function.
\<close>

section \<open>Machine types\<close>

type_synonym u8 = "8 word"
type_synonym u16 = "16 word"
type_synonym u32 = "32 word"
type_synonym u64 = "64 word"

unbundle bit_operations_syntax

section \<open>Collections of facts\<close>

named_theorems unat_fields \<open>bit-field reads and writes of a word as arithmetic on \<open>unat\<close>\<close>
named_theorems frame \<open>what an operation leaves unchanged\<close>
named_theorems inv_intros \<open>operations that keep a component's invariant\<close>

section \<open>C booleans and signed reads\<close>

definition truth :: "'a::len word \<Rightarrow> bool" where
  "truth w \<longleftrightarrow> w \<noteq> 0"

definition word_of_bool :: "bool \<Rightarrow> 'a::len word" where
  "word_of_bool b = (if b then 1 else 0)"

lemma truth_word_of_bool [simp]: "truth (word_of_bool b) = b"
  by (simp add: truth_def word_of_bool_def)

section \<open>Register accesses\<close>

text \<open>
  A device declines an address that is not its own or performs the access; an access outside the
  C array behind a register is a third outcome.
\<close>

datatype 'a outcome = Declined | Overrun | Done 'a

section \<open>Words, shifts and masks\<close>

lemma unat_less_2p: "unat (w :: 'a::len word) < 2 ^ LENGTH('a)"
  by (rule unsigned_less)

lemma unat_u32 [simp]: "unat (w :: u32) < 4294967296"
  using unat_less_2p [of w] by simp

lemma unat_eqI: "unat a = unat b \<Longrightarrow> a = (b :: 'a::len word)"
  by (simp add: word_unat_eq_iff)

lemma unat_word_of_nat32 [simp]: "n < 4294967296 \<Longrightarrow> unat (word_of_nat n :: u32) = n"
  by (simp add: unat_of_nat)

lemma unat_word_of_nat64 [simp]: "n < 18446744073709551616 \<Longrightarrow> unat (word_of_nat n :: u64) = n"
  by (simp add: unat_of_nat)

lemma pack_div: "(r :: nat) < m \<Longrightarrow> (s * m + r) div m = s"
  by simp

lemma pack_mod: "(r :: nat) < m \<Longrightarrow> (s * m + r) mod m = r"
  by simp

lemma mixed_radix: "(i :: nat) < m \<Longrightarrow> i' < m \<Longrightarrow> a * m + i = a' * m + i' \<Longrightarrow> a = a' \<and> i = i'"
  by (metis pack_div pack_mod)

lemma unat_drop_bit [unat_fields]: "unat (drop_bit n (w :: 'a::len word)) = unat w div 2 ^ n"
  by (simp only: unat_drop_bit_eq) (simp add: drop_bit_eq_div)

lemma unat_take_bit [unat_fields]: "unat (take_bit n (w :: 'a::len word)) = unat w mod 2 ^ n"
  by (simp only: unsigned_take_bit_eq) (simp add: take_bit_eq_mod)

lemma and_mask_eq: "w AND mask n = take_bit n (w :: 'a::len word)"
  by (simp add: take_bit_eq_mask)

lemma nat_take_or_push: "take_bit n (x :: nat) OR push_bit n y = take_bit n x + push_bit n y"
  by (rule disjunctive_add_eq_or [symmetric]) (auto simp: bit_eq_iff bit_simps)

lemma unat_push_bit:
  assumes "unat y * 2 ^ n < 2 ^ LENGTH('a)"
  shows "unat (push_bit n (y :: 'a::len word)) = 2 ^ n * unat y"
proof -
  have "unat (push_bit n y) = take_bit LENGTH('a) (push_bit n (unat y))"
    by (rule unsigned_push_bit_eq)
  also have "\<dots> = push_bit n (unat y)"
    using assms by (intro take_bit_nat_eq_self) (simp add: push_bit_eq_mult)
  finally show ?thesis by (simp add: push_bit_eq_mult mult.commute)
qed

lemma unat_or_push:
  assumes "unat (x :: 'a::len word) < 2 ^ n" and "unat y * 2 ^ n < 2 ^ LENGTH('a)"
  shows "unat (x OR push_bit n y) = unat x + 2 ^ n * unat y"
proof -
  have "unat (x OR push_bit n y) = unat x OR unat (push_bit n y)"
    by (rule unsigned_or_eq)
  also have "\<dots> = take_bit n (unat x) OR push_bit n (unat y)"
    using assms by (simp only: unat_push_bit take_bit_nat_eq_self) (simp add: push_bit_eq_mult mult.commute)
  also have "\<dots> = unat x + 2 ^ n * unat y"
    unfolding nat_take_or_push using assms(1)
    by (simp only: take_bit_nat_eq_self) (simp add: push_bit_eq_mult mult.commute)
  finally show ?thesis .
qed

lemma word_clear_field:
  "(w :: 'a::len word) AND NOT (push_bit m (mask n))
     = take_bit m w OR push_bit (m + n) (drop_bit (m + n) w)"
proof (rule bit_word_eqI)
  fix k
  assume "k < LENGTH('a)"
  then show "bit (w AND NOT (push_bit m (mask n))) k
    = bit (take_bit m w OR push_bit (m + n) (drop_bit (m + n) w)) k"
    by (cases "m + n \<le> k") (auto simp: bit_simps)
qed

text \<open>The sum of an unsigned bounds check wraps for the last four offsets.\<close>

lemma wrap4:
  assumes "0xFFFFFFFC \<le> unat (off :: u32)"
  shows "unat (off + 4) < 4" and "off + 4 < off"
proof -
  define j where "j = unat off - 0xFFFFFFFC"
  have j: "unat off = 4294967292 + j" "j < 4" using assms unat_u32 [of off] unfolding j_def by linarith+
  then show "unat (off + 4) < 4" "off + 4 < off" by (simp_all add: word_less_nat_alt unat_word_ariths)
qed

section \<open>Bytes of a word\<close>

lemma ucast_low_byte: "(ucast (w AND 0xFF) :: u8) = ucast (w :: 'a::len word)"
proof (rule bit_word_eqI)
  have m: "(0xFF :: 'a word) = mask 8" by (simp add: mask_eq_exp_minus_1)
  fix k
  assume "k < LENGTH(8)"
  then show "bit (ucast (w AND 0xFF) :: u8) k = bit (ucast w :: u8) k"
    unfolding m by (auto simp: bit_simps dest: bit_imp_le_length)
qed

lemma word32_of_bytes:
  "ucast (ucast v :: u8) OR push_bit 8 (ucast (ucast (drop_bit 8 v) :: u8))
     OR push_bit 16 (ucast (ucast (drop_bit 16 v) :: u8)) OR push_bit 24 (ucast (ucast (drop_bit 24 v) :: u8))
   = (v :: u32)"
proof (rule bit_word_eqI)
  fix k
  assume "k < LENGTH(32)"
  then consider "k < 8" | "8 \<le> k" "k < 16" | "16 \<le> k" "k < 24" | "24 \<le> k" "k < 32"
    by fastforce
  then show "bit ((ucast (ucast v :: u8) :: u32) OR push_bit 8 (ucast (ucast (drop_bit 8 v) :: u8))
      OR push_bit 16 (ucast (ucast (drop_bit 16 v) :: u8)) OR push_bit 24 (ucast (ucast (drop_bit 24 v) :: u8))) k
    = bit v k"
    by cases (auto simp: bit_simps)
qed

section \<open>Arrays and loops over them\<close>

fun list_find_index :: "('a \<Rightarrow> bool) \<Rightarrow> 'a list \<Rightarrow> nat option" where
  "list_find_index p [] = None"
| "list_find_index p (x # xs) =
     (if p x then Some 0 else map_option Suc (list_find_index p xs))"

lemma list_find_index_Some:
  "list_find_index p xs = Some i
     \<Longrightarrow> i < length xs \<and> p (xs ! i) \<and> (\<forall>j < i. \<not> p (xs ! j))"
proof (induction xs arbitrary: i)
  case Nil
  then show ?case by simp
next
  case (Cons x xs)
  show ?case
  proof (cases "p x")
    case True
    with Cons.prems show ?thesis by simp
  next
    case False
    with Cons.prems obtain k where k: "list_find_index p xs = Some k" "i = Suc k"
      by auto
    from Cons.IH [OF k(1)] False k(2) show ?thesis
      by (auto simp: less_Suc_eq_0_disj)
  qed
qed

lemma list_find_index_None:
  "list_find_index p xs = None \<longleftrightarrow> (\<forall>x \<in> set xs. \<not> p x)"
  by (induction xs) auto

lemma list_find_index_nth_None:
  "list_find_index p xs = None \<longleftrightarrow> (\<forall>i < length xs. \<not> p (xs ! i))"
  by (auto simp: list_find_index_None all_set_conv_all_nth)

lemma nth_list_update_if:
  "i < length xs \<Longrightarrow> xs[j := v] ! i = (if i = j then v else xs ! i)"
  by (simp add: nth_list_update)

end
