(* ===== verification/Iop_Heap.thy ===== *)
theory Iop_Heap
  imports Prelude
begin

text \<open>
  The IOP heap allocator, \<open>source/hw/iop_heap.c\<close>: SYSMEM's free-list algorithm.

  The allocator's state is a chain of host-allocated tables of 31 slots. The code never
  relinks a slot: \<open>new_table\<close> links the slots of one table in order,
  \<open>do_maintain\<close> links the last slot of a table to the first of the next, and
  \<open>do_alloc\<close> and \<open>do_free\<close> only move \<open>info\<close> words between slots. So the whole
  chain \<open>a = a->next\<close> walks is the list of the tables' \<open>info\<close> words in order, a
  \<open>u32 list\<close> whose length is a multiple of \<open>SM_MAX\<close>, and \<open>[]\<close> is
  \<open>g_alloclist == NULL\<close>. Slot \<open>j\<close> of table \<open>k\<close> is element
  \<open>k * SM_MAX + j\<close>. Whether \<open>malloc\<close> succeeds is an argument of the operations
  that call it.

  An \<open>info\<close> word packs a block: \<open>[size:15 | unused:1 | address:15 | allocated:1]\<close>,
  address and size in units of 256 bytes.
\<close>

section \<open>The info word and the table constants\<close>

definition M_ALLOCATED :: "u32 \<Rightarrow> u32" where
  "M_ALLOCATED info = info AND 1"

definition M_ADDRESS :: "u32 \<Rightarrow> u32" where
  "M_ADDRESS info = drop_bit 1 info AND 0x7FFF"

definition M_SIZE :: "u32 \<Rightarrow> u32" where
  "M_SIZE info = drop_bit 17 info"

abbreviation (input) SM_FIRST :: nat where "SM_FIRST \<equiv> 0"
abbreviation (input) SM_CHECK :: nat where "SM_CHECK \<equiv> 27"
abbreviation (input) SM_LAST :: nat where "SM_LAST \<equiv> 30"
abbreviation (input) SM_MAX :: nat where "SM_MAX \<equiv> 31"

definition IOP_HEAP_BASE :: u32 where "IOP_HEAP_BASE = 0x00020000"
definition IOP_HEAP_SIZE :: u32 where "IOP_HEAP_SIZE = 0x000D0000"

datatype alloc_mode = ALLOC_FIRST | ALLOC_LAST | ALLOC_LATER

text \<open>The \<open>flags\<close> argument of the C functions is an \<open>int\<close>; 0, 1 and 2 are the modes.\<close>

definition alloc_mode_of :: "int \<Rightarrow> alloc_mode option" where
  "alloc_mode_of flags =
     (if flags = 0 then Some ALLOC_FIRST
      else if flags = 1 then Some ALLOC_LAST
      else if flags = 2 then Some ALLOC_LATER
      else None)"

section \<open>Tables and initialisation\<close>

definition new_table :: "bool \<Rightarrow> u32 list option" where
  "new_table malloc_ok = (if malloc_ok then Some (replicate SM_MAX 0) else None)"

definition iop_heap_init :: "bool \<Rightarrow> u32 list" where
  "iop_heap_init malloc_ok =
     (case new_table malloc_ok of
        None \<Rightarrow> []
      | Some t \<Rightarrow> t[SM_FIRST := push_bit 17 (drop_bit 8 IOP_HEAP_SIZE)
                              OR push_bit 1 (drop_bit 8 IOP_HEAP_BASE) OR 0])"

section \<open>Allocation\<close>

text \<open>
  The loop \<open>while (a && M_SIZE(i) > 0)\<close>, run on the slots from \<open>a\<close> on: \<open>i\<close> is
  written over the slot and the slot's old word is carried to the next one, until the
  carried word is empty.
\<close>

fun shuffle :: "u32 \<Rightarrow> u32 list \<Rightarrow> u32 list" where
  "shuffle i [] = []"
| "shuffle i (x # xs) = (if M_SIZE i > 0 then i # shuffle x xs else x # xs)"

text \<open>The free-block test the FIRST and LAST loops share.\<close>

definition fits :: "u32 \<Rightarrow> u32 \<Rightarrow> bool" where
  "fits bsize info \<longleftrightarrow> M_ALLOCATED info = 0 \<and> M_SIZE info \<ge> bsize"

text \<open>
  Taking \<open>bsize\<close> units from the front of the free block \<open>a\<close>: the slots from \<open>a\<close> on
  afterwards, and the address. The code of \<open>ALLOC_FIRST\<close> and the tail of
  \<open>ALLOC_LATER\<close> are the same statements.
\<close>

fun carve_front :: "u32 \<Rightarrow> u32 list \<Rightarrow> u32 list \<times> u32" where
  "carve_front bsize [] = ([], 0)"
| "carve_front bsize (a # rest) =
     (if M_SIZE a = bsize then ((a OR 1) # rest, push_bit 8 (M_ADDRESS (a OR 1)))
      else
        let address = push_bit 8 (M_ADDRESS a);
            i = (a AND 0xFFFF0001) OR push_bit 1 ((M_ADDRESS a + bsize) AND 0x7FFF);
            i = (i AND 0x1FFFF) OR push_bit 17 (M_SIZE i - bsize)
        in ((((a OR 1) AND 0x1FFFF) OR push_bit 17 bsize) # shuffle i rest, address))"

fun alloc_first :: "u32 \<Rightarrow> u32 list \<Rightarrow> u32 list \<times> u32" where
  "alloc_first bsize [] = ([], 0)"
| "alloc_first bsize (a # rest) =
     (if fits bsize a then carve_front bsize (a # rest)
      else let (rest', r) = alloc_first bsize rest in (a # rest', r))"

text \<open>Taking \<open>bsize\<close> units from the end of the free block \<open>a\<close>.\<close>

fun carve_back :: "u32 \<Rightarrow> u32 list \<Rightarrow> u32 list \<times> u32" where
  "carve_back bsize [] = ([], 0)"
| "carve_back bsize (a # rest) =
     (if M_SIZE a = bsize then ((a OR 1) # rest, push_bit 8 (M_ADDRESS (a OR 1)))
      else
        let a' = (a AND 0x0001FFFF) OR push_bit 17 (M_SIZE a - bsize);
            i = (push_bit 1 ((M_ADDRESS a' + M_SIZE a') AND 0x7FFF) AND 0x0001FFFF)
                  OR push_bit 17 bsize OR 1
        in (a' # shuffle i rest, push_bit 8 (M_ADDRESS i)))"

text \<open>The loop keeps the last slot that fits: the recursion acts on a slot when no later one does.\<close>

fun alloc_last :: "u32 \<Rightarrow> u32 list \<Rightarrow> u32 list \<times> u32" where
  "alloc_last bsize [] = ([], 0)"
| "alloc_last bsize (a # rest) =
     (if fits bsize a \<and> (\<forall>x \<in> set rest. \<not> fits bsize x) then carve_back bsize (a # rest)
      else let (rest', r) = alloc_last bsize rest in (a # rest', r))"

fun alloc_later :: "u32 \<Rightarrow> u32 \<Rightarrow> u32 list \<Rightarrow> u32 list \<times> u32" where
  "alloc_later baddress bsize [] = ([], 0)"
| "alloc_later baddress bsize (a # rest) =
     (if baddress < M_ADDRESS a then (a # rest, 0)
      else if M_ALLOCATED a = 0 \<and> M_SIZE a + M_ADDRESS a \<ge> baddress + bsize then
        (if M_ADDRESS a < baddress then
           let tmp = M_ADDRESS a + M_SIZE a - baddress;
               a' = (a AND 0x1FFFF) OR push_bit 17 (M_SIZE a - tmp);
               i = (push_bit 1 ((M_ADDRESS a' + M_SIZE a') AND 0x7FFF) AND 0x1FFFE)
                     OR push_bit 17 tmp;
               (rest', r) = carve_front bsize (shuffle i rest)
           in (a' # rest', r)
         else carve_front bsize (a # rest))
      else let (rest', r) = alloc_later baddress bsize rest in (a # rest', r))"

definition do_alloc :: "int \<Rightarrow> u32 \<Rightarrow> u32 \<Rightarrow> u32 list \<Rightarrow> u32 list \<times> u32" where
  "do_alloc flags sz mem h =
     (if h = [] then (h, 0)
      else let bsize = drop_bit 8 (sz + 255) in
        if bsize = 0 then (h, 0)
        else case alloc_mode_of flags of
          Some ALLOC_FIRST \<Rightarrow> alloc_first bsize h
        | Some ALLOC_LAST \<Rightarrow> alloc_last bsize h
        | Some ALLOC_LATER \<Rightarrow>
            if mem AND 0xFF \<noteq> 0 then (h, 0) else alloc_later (drop_bit 8 mem) bsize h
        | None \<Rightarrow> (h, 0))"

section \<open>Growing and shrinking the chain\<close>

text \<open>
  \<open>do_maintain\<close>: a table is appended when slot \<open>SM_CHECK\<close> of the last table is in
  use, then the last table is dropped when there is a table before it and slot
  \<open>SM_CHECK\<close> of that one is empty.
\<close>

definition last_table_check :: "u32 list \<Rightarrow> u32" where
  "last_table_check h = h ! (length h - SM_MAX + SM_CHECK)"

definition do_maintain :: "bool \<Rightarrow> u32 list \<Rightarrow> u32 list" where
  "do_maintain malloc_ok h =
     (if h = [] then h
      else
        let h1 = (if M_SIZE (last_table_check h) > 0
                  then (case new_table malloc_ok of Some t \<Rightarrow> h @ t | None \<Rightarrow> h)
                  else h)
        in if length h1 > SM_MAX \<and> M_SIZE (h1 ! (length h1 - 2 * SM_MAX + SM_CHECK)) = 0
           then take (length h1 - SM_MAX) h1
           else h1)"

section \<open>Freeing\<close>

text \<open>
  The closing loop of \<open>do_free\<close> copies the slots \<open>skip\<close> places to the left from
  \<open>n\<close> on; the last \<open>skip\<close> slots keep their words.
\<close>

definition shift_left :: "nat \<Rightarrow> u32 list \<Rightarrow> u32 list" where
  "shift_left skip xs = drop skip xs @ drop (length xs - skip) xs"

text \<open>
  \<open>free_at p a rest\<close> is the body of \<open>do_free\<close> after the search: \<open>p\<close> the slot
  before (none for the first), \<open>a\<close> the block's slot, \<open>rest\<close> the slots after. The
  result is the words of these slots afterwards.
\<close>

definition free_at :: "u32 option \<Rightarrow> u32 \<Rightarrow> u32 list \<Rightarrow> u32 list" where
  "free_at p a rest =
     (let a1 = a AND 0xFFFFFFFE;
          with_next = (rest \<noteq> [] \<and> M_ALLOCATED (hd rest) = 0);
          a2 = (if with_next
                then (a1 AND 0x1FFFE) OR push_bit 17 (M_SIZE a1 + M_SIZE (hd rest))
                else a1)
      in case p of
           Some q \<Rightarrow>
             if M_ALLOCATED q = 0 then
               let q' = (q AND 0x1FFFF) OR push_bit 17 (M_SIZE q + M_SIZE a2)
               in q' # shift_left (if with_next then 2 else 1) (a2 # rest)
             else if with_next then q # a2 # shift_left 1 rest
             else q # a2 # rest
         | None \<Rightarrow> if with_next then a2 # shift_left 1 rest else a2 # rest)"

text \<open>
  The search loop: \<open>p\<close> is the slot before the current one. \<open>None\<close> is the -1 of the
  code, for no such block and for a block that is already free.
\<close>

fun free_loop :: "u32 \<Rightarrow> u32 option \<Rightarrow> u32 list \<Rightarrow> u32 list option" where
  "free_loop m p [] = None"
| "free_loop m p (a # rest) =
     (if M_SIZE a \<noteq> 0 \<and> M_ADDRESS a = m
      then (if M_ALLOCATED a = 0 then None else Some (free_at p a rest))
      else map_option (\<lambda>xs. (case p of Some q \<Rightarrow> q # xs | None \<Rightarrow> xs)) (free_loop m (Some a) rest))"

definition do_free :: "u32 \<Rightarrow> u32 list \<Rightarrow> u32 list option" where
  "do_free mem h =
     (if h = [] then None
      else if mem AND 0xFF \<noteq> 0 then None
      else free_loop (drop_bit 8 mem) None h)"

section \<open>The public operations\<close>

definition iop_heap_alloc :: "bool \<Rightarrow> int \<Rightarrow> u32 \<Rightarrow> u32 \<Rightarrow> u32 list \<Rightarrow> u32 list \<times> u32" where
  "iop_heap_alloc malloc_ok flags sz mem h =
     (if h = [] \<or> flags \<ge> 3 then (h, 0)
      else let (h', r) = do_alloc flags sz mem h in (do_maintain malloc_ok h', r))"

definition iop_heap_free :: "bool \<Rightarrow> u32 \<Rightarrow> u32 list \<Rightarrow> u32 list \<times> int" where
  "iop_heap_free malloc_ok mem h =
     (case do_free mem h of
        None \<Rightarrow> (h, -1)
      | Some h' \<Rightarrow> (do_maintain malloc_ok h', 0))"

fun max_free_units :: "u32 \<Rightarrow> u32 list \<Rightarrow> u32" where
  "max_free_units maxfree [] = maxfree"
| "max_free_units maxfree (p # ps) =
     max_free_units (if M_ALLOCATED p = 0 \<and> M_SIZE p > maxfree then M_SIZE p else maxfree) ps"

definition iop_heap_query_max_free :: "u32 list \<Rightarrow> u32" where
  "iop_heap_query_max_free h = push_bit 8 (max_free_units 0 h)"

fun total_free_units :: "u32 \<Rightarrow> u32 list \<Rightarrow> u32" where
  "total_free_units freesize [] = freesize"
| "total_free_units freesize (p # ps) =
     total_free_units (if M_ALLOCATED p = 0 then freesize + M_SIZE p else freesize) ps"

definition iop_heap_query_total_free :: "u32 list \<Rightarrow> u32" where
  "iop_heap_query_total_free h = push_bit 8 (total_free_units 0 h)"

fun findblock :: "u32 \<Rightarrow> u32 list \<Rightarrow> u32 option" where
  "findblock a_addr [] = None"
| "findblock a_addr (p # ps) =
     (if push_bit 8 (M_ADDRESS p) \<le> a_addr
         \<and> a_addr < push_bit 8 (M_ADDRESS p) + push_bit 8 (M_SIZE p)
      then Some p else findblock a_addr ps)"

text \<open>The \<open>int32_t\<close> result as its 32 bits: -1 is all ones, \<open>IOP_HEAP_FREE\<close> is bit 31.\<close>

definition iop_heap_query_block_size :: "u32 \<Rightarrow> u32 list \<Rightarrow> u32" where
  "iop_heap_query_block_size address h =
     (case findblock address h of
        None \<Rightarrow> -1
      | Some p \<Rightarrow> push_bit 8 (M_SIZE p) OR (if M_ALLOCATED p \<noteq> 0 then 0 else 0x80000000))"

section \<open>Snapshots\<close>

text \<open>
  The buffer is the sequence of 32-bit words that \<open>memcpy\<close> moves: the table count, then the
  \<open>info\<close> words in chain order. Loading from a buffer that is too short reads past its end;
  that is \<open>None\<close>. \<open>malloc_ok tidx\<close> says whether the table with that index can be
  allocated; the load stops at the first that cannot.
\<close>

definition iop_heap_snapshot_size :: "u32 list \<Rightarrow> u32" where
  "iop_heap_snapshot_size h = 4 + word_of_nat (length h div SM_MAX) * 124"

definition iop_heap_snapshot_save :: "u32 list \<Rightarrow> u32 list" where
  "iop_heap_snapshot_save h = word_of_nat (length h div SM_MAX) # h"

fun snapshot_tables :: "(nat \<Rightarrow> bool) \<Rightarrow> nat \<Rightarrow> nat \<Rightarrow> u32 list \<Rightarrow> u32 list option" where
  "snapshot_tables malloc_ok tidx 0 p = Some []"
| "snapshot_tables malloc_ok tidx (Suc n) p =
     (case new_table (malloc_ok tidx) of
        None \<Rightarrow> Some []
      | Some t \<Rightarrow>
          if length p < SM_MAX then None
          else map_option (append (take SM_MAX p))
                 (snapshot_tables malloc_ok (Suc tidx) n (drop SM_MAX p)))"

fun iop_heap_snapshot_load :: "(nat \<Rightarrow> bool) \<Rightarrow> u32 list \<Rightarrow> u32 list option" where
  "iop_heap_snapshot_load malloc_ok [] = None"
| "iop_heap_snapshot_load malloc_ok (count # p) = snapshot_tables malloc_ok 0 (unat count) p"

end
