(* ===== verification/Iop_Heap_Chain.thy ===== *)
theory Iop_Heap_Chain
  imports Iop_Heap
begin

text \<open>
  The chain of \<open>info\<close> words as a list of blocks. \<open>enc\<close> packs a block (allocated,
  address, size) the way the code packs an \<open>info\<close> word; a chain is \<^emph>\<open>represented\<close> when it
  is the encoding of a tiling of the arena followed by empty slots, with no two adjacent free
  blocks and enough empty slots at the end for the next split. The lemmas follow each loop of
  \<open>do_alloc\<close>, \<open>do_free\<close> and \<open>do_maintain\<close> on such a chain; \<open>carved\<close> is the
  abstract step, read forwards for an allocation and backwards for a release.
\<close>

section \<open>Info words as encoded blocks\<close>

type_synonym blk = "bool \<times> nat \<times> nat"

definition enc :: "blk \<Rightarrow> u32" where
  "enc b = (case b of (al, a, s) \<Rightarrow> word_of_nat (s * 131072 + (a * 2 + of_bool al)))"

definition small :: "blk \<Rightarrow> bool" where
  "small b = (case b of (al, a, s) \<Rightarrow> a < 32768 \<and> s < 32768)"

lemma small_triple [simp]: "small (al, a, s) \<longleftrightarrow> a < 32768 \<and> s < 32768"
  by (simp add: small_def)

lemma low_lt: "a < 32768 \<Longrightarrow> a * 2 + of_bool al < (131072 :: nat)"
  by (cases al) simp_all

lemma unat_enc: "small (al, a, s) \<Longrightarrow> unat (enc (al, a, s)) = s * 131072 + (a * 2 + of_bool al)"
  unfolding enc_def prod.case using low_lt [of a al]
  by (intro unat_word_of_nat32) simp

lemma unat_M_SIZE [unat_fields]: "unat (M_SIZE w) = unat w div 131072"
  by (simp add: M_SIZE_def unat_drop_bit)

lemma unat_M_ADDRESS [unat_fields]: "unat (M_ADDRESS w) = unat w div 2 mod 32768"
proof -
  have "M_ADDRESS w = take_bit 15 (drop_bit 1 w)"
    using and_mask_eq [of "drop_bit 1 w" 15] by (simp add: M_ADDRESS_def mask_eq_exp_minus_1 drop_bit_Suc)
  then show ?thesis by (simp only: unat_take_bit unat_drop_bit) simp
qed

lemma unat_M_ALLOCATED [unat_fields]: "unat (M_ALLOCATED w) = unat w mod 2"
  by (simp add: M_ALLOCATED_def and_one_eq unat_mod)

lemma M_SIZE_enc [simp]: "small (al, a, s) \<Longrightarrow> M_SIZE (enc (al, a, s)) = word_of_nat s"
  by (rule unat_eqI) (simp add: unat_M_SIZE unat_enc pack_div [OF low_lt])

lemma M_ADDRESS_enc [simp]: "small (al, a, s) \<Longrightarrow> M_ADDRESS (enc (al, a, s)) = word_of_nat a"
proof (rule unat_eqI)
  assume sm: "small (al, a, s)"
  have "(s * 131072 + (a * 2 + of_bool al)) div 2 = s * 65536 + a"
    by (cases al) simp_all
  then show "unat (M_ADDRESS (enc (al, a, s))) = unat (word_of_nat a :: u32)"
    using sm pack_mod [of a 32768 "s * 2"] by (simp add: unat_M_ADDRESS unat_enc mult.commute)
qed

lemma M_ALLOCATED_enc [simp]: "small (al, a, s) \<Longrightarrow> M_ALLOCATED (enc (al, a, s)) = of_bool al"
  by (rule unat_eqI) (cases al; simp add: unat_M_ALLOCATED unat_enc mod_Suc)

lemma unat_set_size:
  assumes "unat s < 32768"
  shows "unat ((w AND 0x1FFFF) OR push_bit 17 (s :: u32)) = unat s * 131072 + unat w mod 131072"
proof -
  have w: "w AND 0x1FFFF = take_bit 17 w"
    using and_mask_eq [of w 17] by (simp add: mask_eq_exp_minus_1)
  have "unat (take_bit 17 w) = unat w mod 131072" by (simp add: unat_take_bit)
  then show ?thesis unfolding w using assms by (subst unat_or_push) simp_all
qed

lemma set_size_enc:
  assumes "small (al, a, s)" and "small (al, a, s')"
  shows "(enc (al, a, s) AND 0x1FFFF) OR push_bit 17 (word_of_nat s') = enc (al, a, s')"
  using assms by (intro unat_eqI) (simp add: unat_set_size unat_enc pack_mod [OF low_lt])

lemma or_1_enc: 
  assumes "small (al, a, s)" 
  shows "enc (al, a, s) OR 1 = enc (True, a, s)"
proof (rule unat_eqI)
  have "unat (enc (al, a, s) OR 1) = (s * 131072 + (a * 2 + of_bool al)) OR 1"
    using assms by (simp add: unsigned_or_eq unat_enc)
  then show "unat (enc (al, a, s) OR 1) = unat (enc (True, a, s))"
    using assms unfolding or_one_eq by (cases al) (simp_all add: unat_enc)
qed

lemma clear_1_enc:
  assumes "small (al, a, s)"
  shows "enc (al, a, s) AND 0xFFFFFFFE = enc (False, a, s)"
proof (rule unat_eqI)
  let ?w = "enc (al, a, s)"
  have "(0xFFFFFFFE :: u32) = - 2" by simp
  then have e: "?w AND 0xFFFFFFFE = push_bit 1 (drop_bit 1 ?w)"
    using word_clear_field [of ?w 0 1] by (simp only:) simp
  have d: "unat (drop_bit 1 ?w) = s * 65536 + a"
    using assms by (cases al) (simp_all add: unat_drop_bit unat_enc del: One_nat_def)
  have "unat (push_bit 1 (drop_bit 1 ?w)) = 2 ^ 1 * unat (drop_bit 1 ?w)"
    unfolding d using assms d by (intro trans [OF unat_push_bit]) simp_all
  then show "unat (?w AND 0xFFFFFFFE) = unat (enc (False, a, s))"
    unfolding e d using assms by (simp add: unat_enc)
qed

lemma push_1_enc: "a < 32768 \<Longrightarrow> push_bit 1 (word_of_nat a) = enc (False, a, 0)"
  by (simp add: enc_def)

lemma set_size_free_enc:
  assumes "small (False, a, s)" and "small (False, a, s')"
  shows "(enc (False, a, s) AND 0x1FFFE) OR push_bit 17 (word_of_nat s') = enc (False, a, s')"
proof -
  have "enc (False, a, s) AND 0x1FFFE = (enc (False, a, s) AND 0xFFFFFFFE) AND 0x1FFFF"
    by (simp add: and.assoc)
  with assms show ?thesis by (simp only: clear_1_enc set_size_enc)
qed

lemma and_7FFF_of_nat: "a < 32768 \<Longrightarrow> (word_of_nat a :: u32) AND 0x7FFF = word_of_nat a"
proof (rule unat_eqI)
  assume "a < 32768"
  moreover have "(word_of_nat a :: u32) AND 0x7FFF = take_bit 15 (word_of_nat a)"
    using and_mask_eq [of "word_of_nat a :: u32" 15] by (simp add: mask_eq_exp_minus_1)
  ultimately show "unat ((word_of_nat a :: u32) AND 0x7FFF) = unat (word_of_nat a :: u32)"
    by (simp only: unat_take_bit) simp
qed

lemma set_addr_enc:
  assumes "small (al, a, s)" and "small (al, a', s)"
  shows "(enc (al, a, s) AND 0xFFFF0001) OR push_bit 1 (word_of_nat a') = enc (al, a', s)"
proof (rule unat_eqI)
  let ?w = "enc (al, a, s)"
  have m: "(0xFFFF0001 :: u32) = NOT (push_bit 1 (mask 15))" by (simp add: mask_eq_exp_minus_1)
  have c: "?w AND 0xFFFF0001 = take_bit 1 ?w OR push_bit 16 (drop_bit 16 ?w)"
    unfolding m by (subst word_clear_field) simp
  have t: "unat (take_bit 1 ?w) = of_bool al"
  proof -
    have "(s * 131072 + (a * 2 + of_bool al)) mod 2 = (of_bool al :: nat)"
      by (cases al) (simp_all add: mod_Suc)
    with assms show ?thesis by (simp add: unat_take_bit unat_enc del: One_nat_def)
  qed
  have d: "unat (drop_bit 16 ?w) = s * 2"
    using assms low_lt [of a al] pack_div [of "a * 2 + of_bool al" 65536 "s * 2"]
    by (cases al) (simp_all add: unat_drop_bit unat_enc)
  have lo: "unat (take_bit 1 ?w OR push_bit 1 (word_of_nat a')) = of_bool al + 2 * a'"
    using assms t by (subst unat_or_push) (simp_all del: One_nat_def)
  have "unat ((take_bit 1 ?w OR push_bit 1 (word_of_nat a')) OR push_bit 16 (drop_bit 16 ?w))
      = of_bool al + 2 * a' + 65536 * (s * 2)"
    using assms lo d by (subst unat_or_push) (cases al, simp_all)
  then show "unat ((?w AND 0xFFFF0001) OR push_bit 1 (word_of_nat a')) = unat (enc (al, a', s))"
    unfolding c using assms by (simp add: unat_enc or.assoc or.commute or.left_commute)
qed

section \<open>Allocation on an encoded chain\<close>

abbreviation zeros :: "nat \<Rightarrow> u32 list" where "zeros k \<equiv> replicate k 0"

fun tiled :: "nat \<Rightarrow> blk list \<Rightarrow> nat \<Rightarrow> bool" where
  "tiled a [] e = (a = e)"
| "tiled a ((al, ad, s) # bs) e = (ad = a \<and> 0 < s \<and> tiled (a + s) bs e)"

fun coalesced :: "blk list \<Rightarrow> bool" where
  "coalesced [] = True"
| "coalesced [b] = True"
| "coalesced (b # c # bs) = ((fst b \<or> fst c) \<and> coalesced (c # bs))"

definition carved :: "blk list \<Rightarrow> nat \<Rightarrow> nat \<Rightarrow> blk list \<Rightarrow> bool" where
  "carved bs n a bs' \<longleftrightarrow> (\<exists>pre l r post.
     bs = pre @ (False, a - l, l + n + r) # post \<and> l \<le> a \<and> 0 < n \<and>
     bs' = pre @ (if l = 0 then [] else [(False, a - l, l)]) @ [(True, a, n)]
             @ (if r = 0 then [] else [(False, a + n, r)]) @ post)"

definition alloc_result :: "nat \<Rightarrow> blk list \<Rightarrow> nat \<Rightarrow> u32 list \<times> u32 \<Rightarrow> bool" where
  "alloc_result n bs K res \<longleftrightarrow>
     res = (map enc bs @ zeros K, 0) \<or>
     (\<exists>bs' a. carved bs n a bs' \<and> length bs' \<le> length bs + K \<and>
        res = (map enc bs' @ zeros (length bs + K - length bs'), word_of_nat (a * 256)))"

lemma carved_Cons: "carved bs n a bs' \<Longrightarrow> carved (b # bs) n a (b # bs')"
  unfolding carved_def
  by (elim exE conjE, rule_tac x = "b # pre" in exI) fastforce

lemma carvedI:
  "0 < n \<Longrightarrow> carved ((False, a, l + n + r) # post) n (a + l)
     ((if l = 0 then [] else [(False, a, l)]) @ [(True, a + l, n)]
        @ (if r = 0 then [] else [(False, a + l + n, r)]) @ post)"
  unfolding carved_def by (rule exI [of _ "[]"], rule exI [of _ l]) auto

lemma alloc_resultI:
  "carved bs n a bs' \<Longrightarrow> length bs' \<le> length bs + K \<Longrightarrow>
   res = (map enc bs' @ zeros (length bs + K - length bs'), word_of_nat (a * 256)) \<Longrightarrow>
   alloc_result n bs K res"
  unfolding alloc_result_def by blast

lemma alloc_result_fail: "res = (map enc bs @ zeros K, 0) \<Longrightarrow> alloc_result n bs K res"
  unfolding alloc_result_def by blast

lemma alloc_result_Cons:
  assumes "alloc_result n bs K (h, r)"
  shows "alloc_result n (b # bs) K (enc b # h, r)"
  using assms unfolding alloc_result_def [of n bs]
proof (elim disjE exE conjE)
  assume "(h, r) = (map enc bs @ zeros K, 0)"
  then show ?thesis by (intro alloc_result_fail) simp
next
  fix bs' a
  assume c: "carved bs n a bs'" and "length bs' \<le> length bs + K"
    and "(h, r) = (map enc bs' @ zeros (length bs + K - length bs'), word_of_nat (a * 256))"
  then show ?thesis by (intro alloc_resultI [OF carved_Cons [OF c]]) simp_all
qed

definition all_small :: "blk list \<Rightarrow> bool" where
  "all_small bs \<longleftrightarrow> (\<forall>(al, a, s) \<in> set bs. 0 < s \<and> a + s < 32768)"

lemma all_small_Cons [simp]:
  "all_small ((al, a, s) # bs) \<longleftrightarrow> 0 < s \<and> a + s < 32768 \<and> all_small bs"
  by (auto simp: all_small_def)

lemma all_small_Nil [simp]: "all_small []"
  by (simp add: all_small_def)

lemma M_SIZE_0 [simp]: "M_SIZE 0 = 0" by (simp add: M_SIZE_def)
lemma M_ADDRESS_0 [simp]: "M_ADDRESS 0 = 0" by (simp add: M_ADDRESS_def)
lemma M_ALLOCATED_0 [simp]: "M_ALLOCATED 0 = 0" by (simp add: M_ALLOCATED_def)

lemma word_of_nat_pos: "0 < s \<Longrightarrow> s < 32768 \<Longrightarrow> 0 < (word_of_nat s :: u32)"
  by (simp add: word_less_nat_alt)

lemma shuffle_zeros: "shuffle 0 xs = xs"
  by (cases xs) simp_all

lemma shuffle_enc:
  "all_small (b # bs) \<Longrightarrow> 0 < K \<Longrightarrow>
   shuffle (enc b) (map enc bs @ zeros K) = enc b # map enc bs @ zeros (K - 1)"
proof (induction bs arbitrary: b)
  case Nil
  obtain al a s where b: "b = (al, a, s)" by (cases b)
  from Nil obtain K' where "K = Suc K'" by (cases K) auto
  with Nil b show ?case by (simp add: word_of_nat_pos shuffle_zeros)
next
  case (Cons c bs)
  obtain al a s where b: "b = (al, a, s)" by (cases b)
  from Cons.prems b have "all_small (c # bs)" by simp
  with Cons b show ?case by (simp add: word_of_nat_pos)
qed

lemma fits_enc:
  assumes "small (al, a, s)"
  shows "fits w (enc (al, a, s)) \<longleftrightarrow> \<not> al \<and> unat w \<le> s"
  using assms by (simp add: fits_def word_le_nat_alt)

lemma fits_0: "w \<noteq> 0 \<Longrightarrow> \<not> fits w 0"
  by (simp add: fits_def)

lemma of_nat_eq_iff32: "m < 4294967296 \<Longrightarrow> n < 4294967296 \<Longrightarrow> (word_of_nat m :: u32) = word_of_nat n \<longleftrightarrow> m = n"
  by (metis unat_word_of_nat32)

lemma of_nat_diff32: "n \<le> m \<Longrightarrow> (word_of_nat m :: u32) - word_of_nat n = word_of_nat (m - n)"
  by (simp add: of_nat_diff)

lemma push_8_of_nat: "push_bit 8 (word_of_nat a :: u32) = word_of_nat (a * 256)"
  by (simp add: push_bit_eq_mult)

lemma carve_front_eq:
  assumes sm: "all_small ((False, a, n + r) # bs)" and n: "0 < n" and K: "0 < K"
  shows "carve_front (word_of_nat n) (map enc ((False, a, n + r) # bs) @ zeros K)
    = (map enc ((True, a, n) # (if r = 0 then [] else [(False, a + n, r)]) @ bs)
         @ zeros (if r = 0 then K else K - 1), word_of_nat (a * 256))"
proof (cases "r = 0")
  case True
  with sm show ?thesis by (auto simp: or_1_enc push_8_of_nat)
next
  case False
  let ?i = "enc (False, a + n, r)"
  have "shuffle ?i (map enc bs @ zeros K) = ?i # map enc bs @ zeros (K - 1)"
    using sm False K by (intro shuffle_enc) auto
  moreover have "(enc (False, a, n + r) AND 0xFFFF0001)
      OR push_bit 1 ((word_of_nat a + word_of_nat n) AND 0x7FFF) = enc (False, a + n, n + r)"
    using sm and_7FFF_of_nat [of "a + n"] set_addr_enc [of False a "n + r" "a + n"] by simp
  moreover have "(enc (False, a + n, n + r) AND 0x1FFFF)
      OR push_bit 17 (word_of_nat (n + r) - word_of_nat n) = ?i"
    using sm set_size_enc [of False "a + n" "n + r" r] by simp
  moreover have "((enc (False, a, n + r) OR 1) AND 0x1FFFF) OR push_bit 17 (word_of_nat n)
      = enc (True, a, n)"
    using sm set_size_enc [of True a "n + r" n] by (simp add: or_1_enc)
  moreover have "(word_of_nat (n + r) :: u32) \<noteq> word_of_nat n"
    using sm False by (subst of_nat_eq_iff32) auto
  ultimately show ?thesis
    using sm False by (auto simp: push_8_of_nat Let_def)
qed

lemma carve_back_eq:
  assumes sm: "all_small ((False, a, l + n) # bs)" and n: "0 < n" and K: "0 < K"
  shows "carve_back (word_of_nat n) (map enc ((False, a, l + n) # bs) @ zeros K)
    = (map enc ((if l = 0 then [] else [(False, a, l)]) @ (True, a + l, n) # bs)
         @ zeros (if l = 0 then K else K - 1), word_of_nat ((a + l) * 256))"
proof (cases "l = 0")
  case True
  with sm show ?thesis by (auto simp: or_1_enc push_8_of_nat)
next
  case False
  let ?i = "enc (True, a + l, n)"
  have "shuffle ?i (map enc bs @ zeros K) = ?i # map enc bs @ zeros (K - 1)"
    using sm n K by (intro shuffle_enc) auto
  moreover have "(enc (False, a, l + n) AND 0x1FFFF)
      OR push_bit 17 (word_of_nat (l + n) - word_of_nat n) = enc (False, a, l)"
    using sm set_size_enc [of False a "l + n" l] by simp
  moreover have "(push_bit 1 ((word_of_nat a + word_of_nat l) AND 0x7FFF) AND 0x1FFFF)
      OR push_bit 17 (word_of_nat n) OR 1 = ?i"
    using sm and_7FFF_of_nat [of "a + l"] push_1_enc [of "a + l"]
      set_size_enc [of False "a + l" 0 n] or_1_enc [of False "a + l" n]
    by (simp flip: or.assoc del: push_bit_Suc)
  moreover have "(word_of_nat (l + n) :: u32) \<noteq> word_of_nat n"
    using sm False by (subst of_nat_eq_iff32) auto
  moreover have "push_bit 8 (word_of_nat a + word_of_nat l) = (word_of_nat ((a + l) * 256) :: u32)"
    using push_8_of_nat [of "a + l"] by simp
  ultimately show ?thesis
    using sm False by (auto simp: Let_def)
qed

lemma alloc_first_enc:
  assumes "all_small bs" and "w \<noteq> 0" and "0 < K"
  shows "alloc_result (unat w) bs K (alloc_first w (map enc bs @ zeros K))"
  using assms(1)
proof (induction bs)
  case Nil
  have "alloc_first w (zeros k) = (zeros k, 0)" for k
    using fits_0 [OF assms(2)] by (induction k) simp_all
  then show ?case by (intro alloc_result_fail) simp
next
  case (Cons b bs)
  obtain al a s where b: "b = (al, a, s)" by (cases b)
  have sm: "small (al, a, s)" using Cons.prems b by simp
  show ?case
  proof (cases "\<not> al \<and> unat w \<le> s")
    case True
    then obtain r where s: "s = unat w + r" by (metis le_add_diff_inverse)
    have w0: "0 < unat w" using assms(2) by (simp add: unat_gt_0)
    have c: "carved (b # bs) (unat w) a
        ((True, a, unat w) # (if r = 0 then [] else [(False, a + unat w, r)]) @ bs)"
      using carvedI [of "unat w" a 0 r bs] w0 True b s by (cases "r = 0") simp_all
    show ?thesis
      using True sm b s w0 Cons.prems assms(3) carve_front_eq [of a "unat w" r bs K]
      by (intro alloc_resultI [OF c]) (simp_all add: fits_enc)
  next
    case False
    then have "alloc_first w (map enc (b # bs) @ zeros K)
      = (case alloc_first w (map enc bs @ zeros K) of (h, r) \<Rightarrow> (enc b # h, r))"
      using fits_enc [OF sm, of w] b by (auto simp del: carve_front.simps)
    with Cons b show ?thesis
      by (auto split: prod.split intro: alloc_result_Cons)
  qed
qed

lemma no_fit_zeros: "w \<noteq> 0 \<Longrightarrow> (\<forall>x \<in> set (zeros K). \<not> fits w x)"
  by (auto simp: fits_0)

lemma alloc_last_enc:
  assumes "all_small bs" and "w \<noteq> 0" and "0 < K"
  shows "alloc_result (unat w) bs K (alloc_last w (map enc bs @ zeros K))"
  using assms(1)
proof (induction bs)
  case Nil
  have "alloc_last w (zeros k) = (zeros k, 0)" for k
    using fits_0 [OF assms(2)] by (induction k) simp_all
  then show ?case by (intro alloc_result_fail) simp
next
  case (Cons b bs)
  obtain al a s where b: "b = (al, a, s)" by (cases b)
  have sm: "small (al, a, s)" using Cons.prems b by simp
  show ?case
  proof (cases "fits w (enc b) \<and> (\<forall>x \<in> set (map enc bs @ zeros K). \<not> fits w x)")
    case True
    then have fit: "\<not> al \<and> unat w \<le> s" using sm b by (simp add: fits_enc)
    then obtain l where s: "s = l + unat w" by (metis le_add_diff_inverse2)
    have w0: "0 < unat w" using assms(2) by (simp add: unat_gt_0)
    have c: "carved (b # bs) (unat w) (a + l)
        ((if l = 0 then [] else [(False, a, l)]) @ (True, a + l, unat w) # bs)"
      using carvedI [of "unat w" a l 0 bs] w0 fit b s by simp
    show ?thesis
      using True fit sm b s w0 Cons.prems assms(3) carve_back_eq [of a l "unat w" bs K]
      by (intro alloc_resultI [OF c]) simp_all
  next
    case False
    then have "alloc_last w (map enc (b # bs) @ zeros K)
      = (case alloc_last w (map enc bs @ zeros K) of (h, r) \<Rightarrow> (enc b # h, r))"
      by auto
    with Cons b show ?thesis
      by (auto split: prod.split intro: alloc_result_Cons)
  qed
qed

lemma unat_add24: "unat x < 16777216 \<Longrightarrow> unat y < 16777216 \<Longrightarrow> unat (x + y :: u32) = unat x + unat y"
  by (simp add: unat_word_ariths)

lemma alloc_later_split:
  assumes sm: "all_small ((False, a, l + n + r) # bs)" and n: "0 < n" and l: "0 < l" and K: "1 < K"
  shows "alloc_later (word_of_nat (a + l)) (word_of_nat n) (map enc ((False, a, l + n + r) # bs) @ zeros K)
    = (map enc ((False, a, l) # (True, a + l, n) # (if r = 0 then [] else [(False, a + l + n, r)]) @ bs)
         @ zeros (if r = 0 then K - 1 else K - 2), word_of_nat ((a + l) * 256))"
proof -
  let ?i = "enc (False, a + l, n + r)" and ?a = "enc (False, a, l + n + r)"
  have lt: "\<not> (word_of_nat (a + l) :: u32) < word_of_nat a" "(word_of_nat a :: u32) < word_of_nat (a + l)"
    using sm l by (simp_all add: word_less_nat_alt del: of_nat_add)
  have ge: "(word_of_nat (a + l) :: u32) + word_of_nat n \<le> word_of_nat (l + n + r) + word_of_nat a"
    using sm by (simp add: word_le_nat_alt flip: of_nat_add)
  have tmp: "(word_of_nat a :: u32) + word_of_nat (l + n + r) - word_of_nat (a + l) = word_of_nat (n + r)"
    by simp
  have rem: "(word_of_nat (l + n + r) :: u32) - word_of_nat (n + r) = word_of_nat l"
    by simp
  have a': "(?a AND 0x1FFFF) OR push_bit 17 (word_of_nat l) = enc (False, a, l)"
    using sm by (intro set_size_enc) auto
  have i: "(push_bit 1 ((word_of_nat a + word_of_nat l) AND 0x7FFF) AND 0x1FFFE)
      OR push_bit 17 (word_of_nat (n + r)) = ?i"
    using sm and_7FFF_of_nat [of "a + l"] push_1_enc [of "a + l"] set_size_free_enc [of "a + l" 0 "n + r"]
    by (simp del: push_bit_Suc)
  have sh: "shuffle ?i (map enc bs @ zeros K) = map enc ((False, a + l, n + r) # bs) @ zeros (K - 1)"
    using sm n K by (subst shuffle_enc) auto
  have cf: "carve_front (word_of_nat n) (map enc ((False, a + l, n + r) # bs) @ zeros (K - 1))
    = (map enc ((True, a + l, n) # (if r = 0 then [] else [(False, a + l + n, r)]) @ bs)
         @ zeros (if r = 0 then K - 1 else K - 2), word_of_nat ((a + l) * 256))"
    using sm n K by (subst carve_front_eq) (auto simp: numeral_2_eq_2)
  have sz: "M_SIZE ?a = word_of_nat (l + n + r)" "M_ADDRESS ?a = word_of_nat a" "M_ALLOCATED ?a = 0"
    "M_SIZE (enc (False, a, l)) = word_of_nat l" "M_ADDRESS (enc (False, a, l)) = word_of_nat a"
    using sm by (simp_all del: of_nat_add)
  show ?thesis
    using lt ge
    by (simp only: list.map append_Cons alloc_later.simps sz tmp rem Let_def a' i sh
        cf [unfolded list.map append_Cons] if_True if_False prod.case simp_thms)
qed

lemma alloc_later_enc:
  assumes "all_small bs" and "w \<noteq> 0" and "unat w < 16777216" and "unat m < 16777216" and "1 < K"
  shows "alloc_result (unat w) bs K (alloc_later m w (map enc bs @ zeros K))"
  using assms(1)
proof (induction bs)
  case Nil
  have w0: "0 < unat w" using assms(2) by (simp add: unat_gt_0)
  have "alloc_later m w (zeros k) = (zeros k, 0)" for k
    using w0 unat_add24 [OF assms(4,3)] by (induction k) (simp_all add: word_le_nat_alt)
  then show ?case by (intro alloc_result_fail) simp
next
  case (Cons b bs)
  obtain al a s where b: "b = (al, a, s)" by (cases b)
  have sm: "small (al, a, s)" and sm': "a + s < 32768" using Cons.prems b by simp_all
  have w0: "0 < unat w" using assms(2) by (simp add: unat_gt_0)
  have mw: "unat (m + w) = unat m + unat w" by (rule unat_add24 [OF assms(4,3)])
  have as: "unat (word_of_nat s + word_of_nat a :: u32) = s + a"
    using sm' by (simp flip: of_nat_add)
  have sel: "M_SIZE (enc b) = word_of_nat s" "M_ADDRESS (enc b) = word_of_nat a"
    "M_ALLOCATED (enc b) = of_bool al"
    using sm b by simp_all
  consider (early) "unat m < a"
    | (hit) "\<not> unat m < a" "\<not> al" "unat m + unat w \<le> s + a"
    | (go_on) "\<not> unat m < a" "al \<or> \<not> unat m + unat w \<le> s + a"
    by blast
  then show ?case
  proof cases
    case early
    then have "alloc_later m w (map enc (b # bs) @ zeros K) = (map enc (b # bs) @ zeros K, 0)"
      using sm by (simp add: sel word_less_nat_alt)
    then show ?thesis by (rule alloc_result_fail)
  next
    case hit
    obtain l where l: "unat m = a + l" using hit(1) by (metis le_add_diff_inverse not_less)
    obtain r where r: "s = l + unat w + r" using hit(3) l by (metis add.commute add.left_commute add_le_cancel_left le_add_diff_inverse)
    have c: "carved (b # bs) (unat w) (a + l)
        ((if l = 0 then [] else [(False, a, l)]) @ [(True, a + l, unat w)]
           @ (if r = 0 then [] else [(False, a + l + unat w, r)]) @ bs)"
      using carvedI [of "unat w" a l r bs] w0 hit(2) b r by simp
    have m: "m = word_of_nat (a + l)" using l by (metis unat_eqI unat_word_of_nat32 unat_u32)
    show ?thesis
    proof (cases "l = 0")
      case True
      then have "alloc_later m w (map enc (b # bs) @ zeros K)
          = carve_front (word_of_nat (unat w)) (map enc ((False, a, unat w + r) # bs) @ zeros K)"
        using hit b r l sm mw as sel by (simp add: word_less_nat_alt word_le_nat_alt del: carve_front.simps)
      also have "\<dots> = (map enc ((True, a, unat w) # (if r = 0 then [] else [(False, a + unat w, r)]) @ bs)
          @ zeros (if r = 0 then K else K - 1), word_of_nat (a * 256))"
        using True w0 Cons.prems b hit(2) r assms(5) by (intro carve_front_eq) simp_all
      finally show ?thesis
        using True assms(5) by (intro alloc_resultI [OF c]) (simp_all del: alloc_later.simps)
    next
      case False
      then have "alloc_later m w (map enc (b # bs) @ zeros K)
        = (map enc ((False, a, l) # (True, a + l, unat w) # (if r = 0 then [] else [(False, a + l + unat w, r)]) @ bs)
         @ zeros (if r = 0 then K - 1 else K - 2), word_of_nat ((a + l) * 256))"
        using alloc_later_split [of a l "unat w" r bs K] Cons.prems b hit(2) r w0 m assms(5) by simp
      then show ?thesis
        using False assms(5)
        by (intro alloc_resultI [OF c]) (simp_all del: alloc_later.simps, auto simp: numeral_2_eq_2)
    qed
  next
    case go_on
    then have "alloc_later m w (map enc (b # bs) @ zeros K)
      = (case alloc_later m w (map enc bs @ zeros K) of (h, r) \<Rightarrow> (enc b # h, r))"
      using sm mw as sel
      by (auto simp: word_less_nat_alt word_le_nat_alt simp del: carve_front.simps)
    with Cons b show ?thesis
      by (auto split: prod.split intro: alloc_result_Cons)
  qed
qed

section \<open>The represented chain and its invariant\<close>

definition dec :: "u32 \<Rightarrow> blk" where
  "dec w = (M_ALLOCATED w \<noteq> 0, unat (M_ADDRESS w), unat (M_SIZE w))"

definition blocks :: "u32 list \<Rightarrow> blk list" where
  "blocks h = map dec (takeWhile (\<lambda>w. M_SIZE w \<noteq> 0) h)"

abbreviation (input) heap_lo :: nat where "heap_lo \<equiv> 512"
abbreviation (input) heap_hi :: nat where "heap_hi \<equiv> 3840"

definition heap_rep :: "nat \<Rightarrow> u32 list \<Rightarrow> bool" where
  "heap_rep k h \<longleftrightarrow>
     length h mod SM_MAX = 0 \<and> length (blocks h) + k \<le> length h \<and>
     h = map enc (blocks h) @ zeros (length h - length (blocks h)) \<and>
     tiled heap_lo (blocks h) heap_hi \<and> coalesced (blocks h)"

definition heap_inv :: "u32 list \<Rightarrow> bool" where
  "heap_inv h \<longleftrightarrow> heap_rep 4 h"

lemma dec_enc: "small b \<Longrightarrow> dec (enc b) = b"
  by (cases b) (simp add: dec_def)

lemma tiled_le: "tiled a bs e \<Longrightarrow> a \<le> e"
  by (induction a bs e rule: tiled.induct) auto

lemma tiled_all_small: "tiled a bs e \<Longrightarrow> e < 32768 \<Longrightarrow> all_small bs"
  by (induction a bs e rule: tiled.induct) (auto dest: tiled_le)

lemma tiled_append: "tiled a (xs @ ys) e \<longleftrightarrow> (\<exists>m. tiled a xs m \<and> tiled m ys e)"
  by (induction xs arbitrary: a) auto

lemma blocks_enc: "all_small bs \<Longrightarrow> blocks (map enc bs @ zeros K) = bs"
proof (induction bs)
  case Nil
  then show ?case by (cases K) (simp_all add: blocks_def)
next
  case (Cons b bs)
  obtain al a s where b: "b = (al, a, s)" by (cases b)
  with Cons.prems have "M_SIZE (enc b) \<noteq> 0" using of_nat_eq_iff32 [of s 0] by simp
  with Cons b show ?case by (simp add: blocks_def dec_enc)
qed

lemma heap_repI:
  assumes "tiled heap_lo bs heap_hi" and "coalesced bs" and "h = map enc bs @ zeros K"
    and "k \<le> K" and "length h mod SM_MAX = 0"
  shows "heap_rep k h" and "blocks h = bs"
proof -
  have "all_small bs" using assms(1) by (rule tiled_all_small) simp
  then show b: "blocks h = bs" unfolding assms(3) by (rule blocks_enc)
  show "heap_rep k h" using assms unfolding heap_rep_def b by simp
qed

lemma heap_repE:
  assumes "heap_rep k h"
  obtains K where "h = map enc (blocks h) @ zeros K" and "k \<le> K" and "length h mod SM_MAX = 0"
    and "tiled heap_lo (blocks h) heap_hi" and "coalesced (blocks h)" and "all_small (blocks h)"
proof (rule that)
  show t: "tiled heap_lo (blocks h) heap_hi" and "coalesced (blocks h)" and "length h mod SM_MAX = 0"
    and "h = map enc (blocks h) @ zeros (length h - length (blocks h))"
    using assms unfolding heap_rep_def by blast+
  from t show "all_small (blocks h)" by (rule tiled_all_small) simp
  have "length (blocks h) + k \<le> length h"
    using assms unfolding heap_rep_def by blast
  then show "k \<le> length h - length (blocks h)" by linarith
qed

section \<open>Carving keeps the chain tiled and coalesced\<close>

lemma carved_tiled: "carved bs n a bs' \<Longrightarrow> tiled b bs e \<longleftrightarrow> tiled b bs' e"
  unfolding carved_def by (auto simp: tiled_append add.assoc split: if_splits)

lemma coalesced_append:
  "coalesced (xs @ ys) \<longleftrightarrow> coalesced xs \<and> coalesced ys
     \<and> (xs = [] \<or> ys = [] \<or> fst (last xs) \<or> fst (hd ys))"
proof (induction xs rule: coalesced.induct)
  case (2 b)
  then show ?case by (cases ys) auto
qed auto

lemma coalesced_Cons:
  "coalesced (b # bs) \<longleftrightarrow> coalesced bs \<and> (bs = [] \<or> fst b \<or> fst (hd bs))"
  by (cases bs) auto

lemma carved_coalesced: "carved bs n a bs' \<Longrightarrow> coalesced bs \<Longrightarrow> coalesced bs'"
  unfolding carved_def by (auto simp: coalesced_append coalesced_Cons)

lemma carved_length: "carved bs n a bs' \<Longrightarrow> length bs \<le> length bs' \<and> length bs' \<le> length bs + 2"
  unfolding carved_def by auto

definition regions :: "blk list \<Rightarrow> (nat \<times> nat) set" where
  "regions bs = set (map snd (filter fst bs))"

lemma regions_alt: "regions bs = {(a, s). (True, a, s) \<in> set bs}"
  by (force simp: regions_def)

lemma carved_regions: "carved bs n a bs' \<Longrightarrow> regions bs' = insert (a, n) (regions bs)"
  unfolding carved_def regions_alt by (auto split: if_splits)

lemma tiled_bounds: "tiled b bs e \<Longrightarrow> (al, a, s) \<in> set bs \<Longrightarrow> b \<le> a \<and> 0 < s \<and> a + s \<le> e"
  by (induction b bs e rule: tiled.induct) (auto dest: tiled_le)

lemma tiled_disjoint:
  "tiled b bs e \<Longrightarrow> (al, a, s) \<in> set bs \<Longrightarrow> (al', a', s') \<in> set bs \<Longrightarrow>
   (al, a, s) = (al', a', s') \<or> a + s \<le> a' \<or> a' + s' \<le> a"
proof (induction b bs e rule: tiled.induct)
  case (2 b al0 ad s0 bs e)
  then show ?case using tiled_bounds [of "b + s0" bs e] by auto
qed simp

lemma carved_fresh: "carved bs n a bs' \<Longrightarrow> tiled b bs e \<Longrightarrow> (a, n) \<notin> regions bs"
proof -
  assume c: "carved bs n a bs'" and t: "tiled b bs e"
  then obtain pre l r post where bs: "bs = pre @ (False, a - l, l + n + r) # post" "l \<le> a" "0 < n"
    unfolding carved_def by blast
  show ?thesis
  proof
    assume "(a, n) \<in> regions bs"
    then have "(True, a, n) \<in> set bs" by (simp add: regions_alt)
    with tiled_disjoint [OF t this, of False "a - l" "l + n + r"] bs show False by auto
  qed
qed

section \<open>Allocation on a represented chain\<close>

lemma unat_bsize: "unat (drop_bit 8 (sz + 255 :: u32)) < 16777216"
  by (simp add: unat_drop_bit less_mult_imp_div_less)

lemma do_alloc_result:
  assumes "h = map enc bs @ zeros K" and "all_small bs" and "2 \<le> K"
  shows "do_alloc flags sz mem h = (h, 0) \<or>
    alloc_result (unat (drop_bit 8 (sz + 255 :: u32))) bs K (do_alloc flags sz mem h)"
proof -
  have m: "unat (drop_bit 8 mem) < 16777216" by (simp add: unat_drop_bit less_mult_imp_div_less)
  show ?thesis
    using assms alloc_first_enc [OF assms(2), of _ K] alloc_last_enc [OF assms(2), of _ K]
      alloc_later_enc [OF assms(2) _ unat_bsize m, of sz K]
    by (auto simp: do_alloc_def Let_def split: option.splits alloc_mode.splits)
qed

lemma do_alloc_cases:
  assumes "heap_rep k h" and "2 \<le> k"
  shows "do_alloc flags sz mem h = (h, 0) \<or>
    (\<exists>h' a. do_alloc flags sz mem h = (h', word_of_nat (a * 256)) \<and> heap_rep (k - 2) h' \<and>
       carved (blocks h) (unat (drop_bit 8 (sz + 255 :: u32))) a (blocks h'))"
proof -
  obtain K where K: "h = map enc (blocks h) @ zeros K" "k \<le> K" "length h mod SM_MAX = 0"
    "tiled heap_lo (blocks h) heap_hi" "coalesced (blocks h)" "all_small (blocks h)"
    using assms(1) by (rule heap_repE)
  have len: "length h = length (blocks h) + K" by (subst K(1)) simp
  let ?n = "unat (drop_bit 8 (sz + 255 :: u32))"
  consider "do_alloc flags sz mem h = (h, 0)"
    | bs' a where "carved (blocks h) ?n a bs'" "length bs' \<le> length (blocks h) + K"
      "do_alloc flags sz mem h
         = (map enc bs' @ zeros (length (blocks h) + K - length bs'), word_of_nat (a * 256))"
    using do_alloc_result [OF K(1,6), of flags sz mem] assms(2) K(1,2)
    unfolding alloc_result_def by fastforce
  then show ?thesis
  proof cases
    case 2
    let ?h' = "map enc bs' @ zeros (length (blocks h) + K - length bs')"
    have t: "tiled heap_lo bs' heap_hi" "coalesced bs'"
      using carved_tiled [OF 2(1)] carved_coalesced [OF 2(1)] K(4,5) by blast+
    have r: "heap_rep (k - 2) ?h'" "blocks ?h' = bs'"
      using K(2,3) 2(2) len carved_length [OF 2(1)] by (auto intro!: heap_repI [OF t])
    with 2(1,3) show ?thesis by auto
  qed simp
qed

section \<open>Growing and shrinking keep the blocks\<close>

lemma nth_enc_zeros:
  assumes "all_small bs" and "i < length bs + K"
  shows "M_SIZE ((map enc bs @ zeros K) ! i) = 0 \<longleftrightarrow> length bs \<le> i"
proof (cases "i < length bs")
  case True
  obtain al a s where b: "bs ! i = (al, a, s)" by (cases "bs ! i")
  with True assms(1) have "0 < s" "a + s < 32768"
    unfolding all_small_def using nth_mem [OF True] by fastforce+
  with True b show ?thesis using of_nat_eq_iff32 [of s 0] by (simp add: nth_append)
next
  case False
  with assms(2) show ?thesis by (simp add: nth_append)
qed

lemma do_maintain_rep:
  assumes "heap_rep 2 h"
  shows "heap_inv (do_maintain True h)" and "blocks (do_maintain True h) = blocks h"
proof -
  obtain K where K: "h = map enc (blocks h) @ zeros K" "2 \<le> K" "length h mod SM_MAX = 0"
    "tiled heap_lo (blocks h) heap_hi" "coalesced (blocks h)" "all_small (blocks h)"
    using assms(1) by (rule heap_repE)
  define bs where "bs = blocks h"
  have h: "h = map enc bs @ zeros K" and len: "length h = length bs + K"
    using K(1) unfolding bs_def by (simp, metis length_append length_map length_replicate)
  obtain q0 where q0: "length h = 31 * q0" using K(3) by (metis mod_0_imp_dvd dvdE)
  then obtain q where q: "length h = 31 * Suc q" using len K(2) by (cases q0) auto
  define h1 where "h1 = (if M_SIZE (last_table_check h) > 0 then h @ zeros 31 else h)"
  have sz: "M_SIZE (last_table_check h) = 0 \<longleftrightarrow> length bs \<le> length h - 31 + 27"
    unfolding last_table_check_def using nth_enc_zeros [of bs "length h - 31 + 27" K] K(6) q len
    unfolding bs_def [symmetric] h [symmetric] by simp
  define K1 where "K1 = length h1 - length bs"
  have h1: "h1 = map enc bs @ zeros K1" "4 \<le> K1"
    using sz q len K(2) unfolding h1_def K1_def
    by (auto simp: h replicate_add [symmetric] word_gt_0)
  have q1: "length h1 mod 31 = 0" using q unfolding h1_def by simp
  then obtain p where p: "length h1 = 31 * p" by (metis mod_0_imp_dvd dvdE)
  have len1: "length h1 = length bs + K1" using h1(1) by simp
  have t: "tiled heap_lo bs heap_hi" "coalesced bs" using K(4,5) by (simp_all add: bs_def)
  have dm: "do_maintain True h =
      (if length h1 > 31 \<and> M_SIZE (h1 ! (length h1 - 62 + 27)) = 0
       then take (length h1 - 31) h1 else h1)"
    using q unfolding do_maintain_def h1_def new_table_def Let_def by auto
  have "heap_rep 4 (do_maintain True h) \<and> blocks (do_maintain True h) = bs"
  proof (cases "length h1 > 31 \<and> M_SIZE (h1 ! (length h1 - 62 + 27)) = 0")
    case True
    define i where "i = length h1 - 62 + 27"
    have "i < length bs + K1" using True p len1 unfolding i_def by linarith
    with nth_enc_zeros [of bs i K1] K(6) True have "length bs \<le> i"
      unfolding h1(1) [symmetric] bs_def [symmetric] i_def by simp
    then have "length bs \<le> length h1 - 62 + 27" by (simp only: i_def)
    moreover have "2 \<le> p" using True p by auto
    ultimately have "length bs + 35 \<le> length h1" using p by linarith
    then have "take (length h1 - 31) h1 = map enc bs @ zeros (K1 - 31)" "4 \<le> K1 - 31"
      using len1 by (simp_all add: h1(1))
    moreover have "(length bs + K1 - 31) mod 31 = 0"
      using p len1 diff_mult_distrib2 [of 31 p 1] by simp
    ultimately show ?thesis
      using True dm by (auto intro!: heap_repI [OF t])
  next
    case False
    then show ?thesis using dm h1 q1 by (auto intro!: heap_repI [OF t])
  qed
  then show "heap_inv (do_maintain True h)" and "blocks (do_maintain True h) = blocks h"
    by (simp_all add: heap_inv_def bs_def)
qed

section \<open>Freeing on a represented chain\<close>

lemma shift_left_enc:
  "k \<le> length bs \<Longrightarrow> k \<le> K \<Longrightarrow> shift_left k (map enc bs @ zeros K) = map enc (drop k bs) @ zeros (K + k)"
  by (simp add: shift_left_def drop_map replicate_add [symmetric] add.commute)

lemma shift_left_zeros: "k \<le> K \<Longrightarrow> shift_left k (zeros K) = zeros K"
  by (simp add: shift_left_def replicate_add [symmetric])

text \<open>The neighbours of a block in a tiled, coalesced list: an optional free block on each side.\<close>

lemma free_after:
  assumes "tiled e post f" and "coalesced post"
  obtains r post' where "post = (if r = 0 then [] else [(False, e, r)]) @ post'"
    and "post' = [] \<or> fst (hd post')"
proof (cases "post = [] \<or> fst (hd post)")
  case True
  with that [of 0 post] show ?thesis by simp
next
  case False
  with assms obtain r post' where p: "post = (False, e, r) # post'" "0 < r"
    by (cases post) auto
  with assms(2) have "post' = [] \<or> fst (hd post')" by (simp add: coalesced_Cons)
  with p that [of r post'] show ?thesis by simp
qed

lemma free_before:
  assumes "tiled b pre e" and "coalesced pre"
  obtains l pre' where "pre = pre' @ (if l = 0 then [] else [(False, e - l, l)])" and "l \<le> e"
    and "pre' = [] \<or> fst (last pre')"
proof (cases "pre = [] \<or> fst (last pre)")
  case True
  with that [of pre 0] show ?thesis by simp
next
  case False
  then obtain pre' al c l where p: "pre = pre' @ [(al, c, l)]" by (metis prod_cases3 rev_exhaust)
  with False assms have "al = False" "c + l = e" "0 < l" by (auto simp: tiled_append)
  moreover from p assms(2) \<open>al = False\<close> have "pre' = [] \<or> fst (last pre')"
    by (auto simp: coalesced_append)
  ultimately show ?thesis using p that [of pre' l] by auto
qed

lemma free_at_parts:
  assumes post: "post = (if r = 0 then [] else [(False, a + s, r)]) @ post'"
    and bound: "post' = [] \<or> fst (hd post')"
    and sm: "all_small ((True, a, s) # post)" and K: "2 \<le> K"
  shows "(map enc post @ zeros K \<noteq> [] \<and> M_ALLOCATED (hd (map enc post @ zeros K)) = 0)
           \<longleftrightarrow> r \<noteq> 0 \<or> post' = []" (is ?N)
    and "r \<noteq> 0 \<or> post' = [] \<Longrightarrow>
         (enc (False, a, s) AND 0x1FFFE)
            OR push_bit 17 (M_SIZE (enc (False, a, s)) + M_SIZE (hd (map enc post @ zeros K)))
          = enc (False, a, s + r)" (is "_ \<Longrightarrow> ?A")
    and "enc (True, a, s) AND 0xFFFFFFFE = enc (False, a, s)"
proof -
  obtain k where k: "K = Suc k" using K by (cases K) auto
  show ?N
    using post bound sm k by (cases post') (auto simp: neq_Nil_conv)
  show ?A if "r \<noteq> 0 \<or> post' = []"
    using that post sm k set_size_free_enc [of a s "s + r"] by (cases "r = 0") auto
  show "enc (True, a, s) AND 0xFFFFFFFE = enc (False, a, s)"
    using sm by (intro clear_1_enc) auto
qed

lemma free_at_eq:
  assumes post: "post = (if r = 0 then [] else [(False, a + s, r)]) @ post'"
    and bound: "post' = [] \<or> fst (hd post')"
    and sm: "all_small ((True, a, s) # post)" and K: "2 \<le> K"
  shows "free_at p (enc (True, a, s)) (map enc post @ zeros K) =
    (case p of
       None \<Rightarrow> map enc ((False, a, s + r) # post') @ zeros (K + (if r = 0 then 0 else 1))
     | Some q \<Rightarrow>
         if M_ALLOCATED q = 0
         then ((q AND 0x1FFFF) OR push_bit 17 (M_SIZE q + word_of_nat (s + r)))
                # map enc post' @ zeros (K + (if r = 0 then 1 else 2))
         else q # map enc ((False, a, s + r) # post') @ zeros (K + (if r = 0 then 0 else 1)))"
proof -
  let ?rest = "map enc post @ zeros K"
  note parts = free_at_parts [OF assms]
  have sz: "M_SIZE (enc (False, a, s + r)) = word_of_nat (s + r)"
    using sm post by (intro M_SIZE_enc) (cases "r = 0", auto)
  show ?thesis
  proof (cases "r = 0")
    case r: True
    show ?thesis
    proof (cases "post' = []")
      case True
      then have "shift_left 2 (enc (False, a, s) # zeros K) = zeros (Suc K)"
      proof -
        obtain k where k: "K = k + 2" using K by (metis le_add_diff_inverse2)
        have "shift_left 2 (enc (False, a, s) # zeros K) = zeros (k + 1) @ zeros 2"
          unfolding k shift_left_def by (simp add: numeral_2_eq_2 del: replicate_Suc)
        then show ?thesis by (simp add: k flip: replicate_add)
      qed
      with True r post sm K parts sz show ?thesis
        unfolding free_at_def by (auto split: option.split simp: Let_def shift_left_zeros)
    next
      case False
      with r post K parts sz shift_left_enc [of 1 "(False, a, s) # post'" K] show ?thesis
        unfolding free_at_def by (auto split: option.split simp: Let_def)
    qed
  next
    case False
    with post sm K parts sz shift_left_enc [of 1 "(False, a + s, r) # post'" K]
      shift_left_enc [of 2 "(False, a, s + r) # (False, a + s, r) # post'" K]
    show ?thesis
      unfolding free_at_def by (auto split: option.split simp: Let_def numeral_2_eq_2)
  qed
qed

lemma free_loop_skip:
  assumes "all_small pre" and "\<forall>(al, c, s) \<in> set pre. c \<noteq> unat m" and "pre \<noteq> []"
  shows "free_loop m p (map enc pre @ rest) =
    map_option (\<lambda>xs. (case p of Some q \<Rightarrow> [q] | None \<Rightarrow> []) @ map enc (butlast pre) @ xs)
      (free_loop m (Some (enc (last pre))) rest)"
  using assms
proof (induction pre arbitrary: p)
  case (Cons b pre)
  obtain al c s where b: "b = (al, c, s)" by (cases b)
  have ne: "M_ADDRESS (enc b) \<noteq> m"
    using Cons.prems b by auto
  show ?case
  proof (cases "pre = []")
    case True
    with ne show ?thesis by (cases p) (auto simp: map_option.compositionality comp_def)
  next
    case False
    with Cons.IH [of "Some (enc b)"] Cons.prems b ne show ?thesis
      by (cases p) (auto simp: map_option.compositionality comp_def)
  qed
qed simp

lemma free_loop_miss:
  assumes "all_small bs" and "\<forall>(al, c, s) \<in> set bs. al \<longrightarrow> c \<noteq> unat m"
  shows "free_loop m p (map enc bs @ zeros K) = None"
  using assms
proof (induction bs arbitrary: p)
  case Nil
  have "free_loop m p (zeros k) = None" for p k
    by (induction k arbitrary: p) simp_all
  then show ?case by simp
next
  case (Cons b bs)
  obtain al c s where b: "b = (al, c, s)" by (cases b)
  with Cons show ?case by auto
qed

lemma tiled_pre_ne: "tiled b (pre @ (al, a, s) # post) e \<Longrightarrow> \<forall>(al, c, s) \<in> set pre. c \<noteq> a"
  by (auto simp: tiled_append dest: tiled_bounds)

lemma free_loop_hit:
  assumes t: "tiled heap_lo bs heap_hi" and co: "coalesced bs" and mem: "(True, a, s) \<in> set bs" and K: "2 \<le> K"
  shows "\<exists>bs'. free_loop (word_of_nat a) None (map enc bs @ zeros K)
      = Some (map enc bs' @ zeros (length bs + K - length bs')) \<and> carved bs' s a bs \<and> coalesced bs'"
proof -
  obtain pre post where bs: "bs = pre @ (True, a, s) # post" using mem by (meson split_list)
  have sm: "all_small bs" using t by (rule tiled_all_small) simp
  obtain t1: "tiled heap_lo pre a" "tiled (a + s) post heap_hi" and s: "0 < s"
    using t unfolding bs by (auto simp: tiled_append)
  have co1: "coalesced pre" "coalesced post" using co unfolding bs by (auto simp: coalesced_append coalesced_Cons)
  obtain r post' where post: "post = (if r = 0 then [] else [(False, a + s, r)]) @ post'"
    and bound: "post' = [] \<or> fst (hd post')" using t1(2) co1(2) by (rule free_after)
  obtain l pre' where pre: "pre = pre' @ (if l = 0 then [] else [(False, a - l, l)])" "l \<le> a"
    and bound': "pre' = [] \<or> fst (last pre')" using t1(1) co1(1) by (rule free_before)
  let ?bs' = "pre' @ (False, a - l, l + s + r) # post'"
  have c: "carved ?bs' s a bs"
    unfolding carved_def bs post pre(1)
    by (rule exI [of _ pre'], rule exI [of _ l], rule exI [of _ r], rule exI [of _ post'])
      (use s pre(2) in simp)
  have co': "coalesced ?bs'"
    using co bound bound' unfolding bs post pre(1)
    by (auto simp: coalesced_append coalesced_Cons split: if_splits)
  have sm1: "all_small ((True, a, s) # post)" "all_small pre"
    using sm unfolding bs all_small_def by auto
  have a: "a < 32768" using sm1 by simp
  note fa = free_at_eq [OF post bound sm1(1) K]
  have hit: "free_loop (word_of_nat a) p (map enc ((True, a, s) # post) @ zeros K)
      = Some (free_at p (enc (True, a, s)) (map enc post @ zeros K))" for p
    using sm1 of_nat_eq_iff32 [of s 0] by simp
  have "free_loop (word_of_nat a) None (map enc bs @ zeros K)
      = Some (map enc ?bs' @ zeros (length bs + K - length ?bs'))"
  proof (cases "pre = []")
    case True
    then have "l = 0" "pre' = []" using pre by (auto split: if_splits)
    with True show ?thesis unfolding bs using hit [of None] fa [of None] post by simp
  next
    case False
    have "\<forall>(al, c, s) \<in> set pre. c \<noteq> unat (word_of_nat a :: u32)"
      using tiled_pre_ne [OF t [unfolded bs]] a by simp
    from free_loop_skip [OF sm1(2) this False, of None "map enc ((True, a, s) # post) @ zeros K"]
    have "free_loop (word_of_nat a) None (map enc bs @ zeros K)
      = Some (map enc (butlast pre) @ free_at (Some (enc (last pre))) (enc (True, a, s)) (map enc post @ zeros K))"
      unfolding bs by (simp only: map_append append_assoc hit) simp
    also have "\<dots> = Some (map enc ?bs' @ zeros (length bs + K - length ?bs'))"
    proof (cases "l = 0")
      case True
      then have pp: "pre = pre'" using pre by simp
      obtain al c0 s0 where la: "last pre = (al, c0, s0)" by (cases "last pre")
      with pp False bound' have al: "al" by simp
      have "small (al, c0, s0)"
        using last_in_set [OF False] la sm1(2) unfolding all_small_def by fastforce
      then have "M_ALLOCATED (enc (last pre)) \<noteq> 0" using la al by simp
      then have "free_at (Some (enc (last pre))) (enc (True, a, s)) (map enc post @ zeros K)
        = enc (last pre) # map enc ((False, a, s + r) # post') @ zeros (K + (if r = 0 then 0 else 1))"
        unfolding fa by simp
      moreover have "map enc (butlast pre) @ enc (last pre) # xs = map enc pre @ xs" for xs
      proof -
        have "map enc pre = map enc (butlast pre @ [last pre])"
          by (subst append_butlast_last_id [OF False]) (rule refl)
        then show ?thesis by (simp only: map_append list.map append_assoc append_Cons append_Nil)
      qed
      moreover have "length bs + K - length ?bs' = K + (if r = 0 then 0 else 1)"
        using post by (simp add: bs pp)
      moreover have "?bs' = pre @ (False, a, s + r) # post'" using True pp by simp
      ultimately show ?thesis
        by (simp only: map_append append_assoc)
    next
      case l: False
      then have p: "pre = pre' @ [(False, a - l, l)]" using pre by simp
      have "(enc (False, a - l, l) AND 0x1FFFF) OR push_bit 17 (word_of_nat l + word_of_nat (s + r))
          = enc (False, a - l, l + (s + r))"
        using set_size_enc [of False "a - l" l "l + (s + r)"] sm1 pre(2) post
        by (cases "r = 0") (auto simp: p)
      moreover have "small (False, a - l, l)" using sm1 by (auto simp: p all_small_def)
      moreover have "length bs + K - length ?bs' = K + (if r = 0 then 1 else 2)"
        using post by (simp add: bs p)
      ultimately show ?thesis
        unfolding fa by (simp add: p add.assoc del: of_nat_add)
    qed
    finally show ?thesis .
  qed
  with c co' show ?thesis by blast
qed

end
