(* ===== verification/Iop_Heap_Spec.thy ===== *)
theory Iop_Heap_Spec
  imports Iop_Heap_Chain
begin

text \<open>
  What the heap promises its callers. The contract is the locale \<open>region_allocator\<close>: an
  allocation either fails and changes nothing or adds one region disjoint from every live
  one; a release succeeds on exactly the start addresses of live regions and removes that
  region. The locale is interpreted on \<open>iop_heap_alloc\<close> and \<open>iop_heap_free\<close>.
\<close>

section \<open>Releasing a block\<close>

lemma and_FF_unat: "mem AND 0xFF = 0 \<longleftrightarrow> unat (mem :: u32) mod 256 = 0"
proof -
  have "mem AND 0xFF = take_bit 8 mem"
    using and_mask_eq [of mem 8] by (simp add: mask_eq_exp_minus_1)
  then have "unat (mem AND 0xFF) = unat mem mod 256"
    by (simp only: unat_take_bit) simp
  then show ?thesis by (metis unat_0 unat_eqI)
qed

lemma do_free_hit:
  assumes "heap_rep k h" and "2 \<le> k" and "(True, a, s) \<in> set (blocks h)"
  shows "\<exists>h'. do_free (word_of_nat (a * 256)) h = Some h' \<and> heap_rep k h' \<and>
    carved (blocks h') s a (blocks h)"
proof -
  obtain K where K: "h = map enc (blocks h) @ zeros K" "k \<le> K" "length h mod SM_MAX = 0"
    "tiled heap_lo (blocks h) heap_hi" "coalesced (blocks h)" "all_small (blocks h)"
    using assms(1) by (rule heap_repE)
  obtain bs' where b: "free_loop (word_of_nat a) None (map enc (blocks h) @ zeros K)
      = Some (map enc bs' @ zeros (length (blocks h) + K - length bs'))"
    "carved bs' s a (blocks h)" "coalesced bs'"
    using free_loop_hit [OF K(4,5) assms(3), of K] assms(2) K(2) by auto
  let ?h' = "map enc bs' @ zeros (length (blocks h) + K - length bs')"
  have "a + s \<le> heap_hi" using tiled_bounds [OF K(4) assms(3)] by simp
  then have m: "unat (word_of_nat (a * 256) :: u32) = a * 256" 
    by (intro unat_word_of_nat32) simp
  then have d: "drop_bit 8 (word_of_nat (a * 256)) = (word_of_nat a :: u32)"
    using \<open>a + s \<le> heap_hi\<close> by (intro unat_eqI) (simp only: unat_drop_bit m, simp)
  have t: "tiled heap_lo bs' heap_hi" using carved_tiled [OF b(2)] K(4) by blast
  have len: "length h = length (blocks h) + K" by (subst K(1)) simp
  have r: "heap_rep k ?h'" "blocks ?h' = bs'"
    using K(2,3) len carved_length [OF b(2)] by (auto intro!: heap_repI [OF t b(3)])
  have "h \<noteq> []" using len assms(2) K(2) by auto
  then have "do_free (word_of_nat (a * 256)) h = Some ?h'"
    unfolding do_free_def d using b(1) and_FF_unat [of "word_of_nat (a * 256)"] m
    by (simp add: K(1) [symmetric])
  with r b(2) show ?thesis by auto
qed

lemma do_free_miss:
  assumes "heap_rep k h" and "\<forall>s. (True, unat mem div 256, s) \<notin> set (blocks h) \<or> unat mem mod 256 \<noteq> 0"
  shows "do_free mem h = None"
proof -
  obtain K where K: "h = map enc (blocks h) @ zeros K" "all_small (blocks h)"
    using assms(1) by (rule heap_repE)
  have "unat (drop_bit 8 mem) = unat mem div 256" by (simp add: unat_drop_bit)
  then have "unat mem mod 256 = 0 \<Longrightarrow> free_loop (drop_bit 8 mem) None (map enc (blocks h) @ zeros K) = None"
    using assms(2) by (intro free_loop_miss [OF K(2)]) auto
  then show ?thesis unfolding do_free_def and_FF_unat by (simp add: K(1) [symmetric])
qed

lemma tiled_post_ne: "tiled b (pre @ (al, a, s) # post) e \<Longrightarrow> \<forall>(al, c, s) \<in> set post. c \<noteq> a"
  by (fastforce simp: tiled_append dest: tiled_bounds)

lemma carved_unique:
  assumes c1: "carved bs n a bs1" and c2: "carved bs2 n a bs1"
    and co: "coalesced bs" "coalesced bs2" and t: "tiled b bs1 e"
  shows "bs2 = bs"
proof -
  obtain p l r q where 1: "bs = p @ (False, a - l, l + n + r) # q"
      "bs1 = (p @ (if l = 0 then [] else [(False, a - l, l)])) @ (True, a, n)
         # ((if r = 0 then [] else [(False, a + n, r)]) @ q)"
    using c1 unfolding carved_def by auto
  obtain p' l' r' q' where 2: "bs2 = p' @ (False, a - l', l' + n + r') # q'"
      "bs1 = (p' @ (if l' = 0 then [] else [(False, a - l', l')])) @ (True, a, n)
         # ((if r' = 0 then [] else [(False, a + n, r')]) @ q')"
    using c2 unfolding carved_def by auto
  have n1: "(True, a, n) \<notin> set (p @ (if l = 0 then [] else [(False, a - l, l)]))"
    using tiled_pre_ne [OF t [unfolded 1(2)]] by fastforce
  have n2: "(True, a, n) \<notin> set ((if r = 0 then [] else [(False, a + n, r)]) @ q)"
    using tiled_post_ne [OF t [unfolded 1(2)]] by fastforce
  have eqs: "p @ (if l = 0 then [] else [(False, a - l, l)]) = p' @ (if l' = 0 then [] else [(False, a - l', l')])"
    "(if r = 0 then [] else [(False, a + n, r)]) @ q = (if r' = 0 then [] else [(False, a + n, r')]) @ q'"
    using append_Cons_eq_iff [OF n1 n2] 1(2) 2(2) by blast+
  have ends: "p = [] \<or> fst (last p)" "q = [] \<or> fst (hd q)" "p' = [] \<or> fst (last p')" "q' = [] \<or> fst (hd q')"
    using co unfolding 1(1) 2(1) by (auto simp: coalesced_append coalesced_Cons)
  have "p = p' \<and> l = l'"
    using eqs(1) ends(1,3) by (auto split: if_splits)
  moreover have "q = q' \<and> r = r'"
    using eqs(2) ends(2,4) by (auto split: if_splits)
  ultimately show ?thesis using 1(1) 2(1) by simp
qed

section \<open>The queries on a represented chain\<close>

definition free_sizes :: "blk list \<Rightarrow> nat list" where
  "free_sizes bs = map (snd \<circ> snd) (filter (Not \<circ> fst) bs)"

lemma max_free_enc:
  assumes "all_small bs" and "m < 32768"
  shows "unat (max_free_units (word_of_nat m) (map enc bs @ zeros K)) = Max (set (m # free_sizes bs))"
  using assms
proof (induction bs arbitrary: m)
  case Nil
  have "max_free_units w (zeros k) = w" for w k by (induction k) simp_all
  with Nil show ?case by (simp add: free_sizes_def)
next
  case (Cons b bs)
  obtain al a s where b: "b = (al, a, s)" by (cases b)
  have s: "s < 32768" "small (al, a, s)" using Cons.prems b by auto
  have "(word_of_nat m :: u32) < word_of_nat s \<longleftrightarrow> m < s"
    using s Cons.prems by (simp add: word_less_nat_alt)
  then have "max_free_units (word_of_nat m) (map enc (b # bs) @ zeros K)
      = max_free_units (word_of_nat (if al then m else max m s)) (map enc bs @ zeros K)"
    using s b by (auto simp: max_def)
  moreover have "Max (set ((if al then m else max m s) # free_sizes bs)) = Max (set (m # free_sizes (b # bs)))"
    using b by (cases al; cases "free_sizes bs") (simp_all add: free_sizes_def max.assoc)
  ultimately show ?case
    using Cons.IH [of "if al then m else max m s"] Cons.prems b s by (simp split: if_splits)
qed

lemma total_free_enc:
  assumes "all_small bs"
  shows "total_free_units w (map enc bs @ zeros K) = w + word_of_nat (sum_list (free_sizes bs))"
  using assms
proof (induction bs arbitrary: w)
  case Nil
  have "total_free_units w (zeros k) = w" for w k by (induction k arbitrary: w) simp_all
  then show ?case by (simp add: free_sizes_def)
next
  case (Cons b bs)
  obtain al a s where b: "b = (al, a, s)" by (cases b)
  with Cons show ?case by (simp add: free_sizes_def)
qed

lemma tiled_sum: "tiled a bs e \<Longrightarrow>
   sum_list (free_sizes bs) + sum_list (map (snd \<circ> snd) (filter fst bs)) + a = e"
  by (induction a bs e rule: tiled.induct) (auto simp: free_sizes_def)

lemma tiled_distinct: "tiled a bs e \<Longrightarrow> distinct bs"
  by (induction a bs e rule: tiled.induct) (auto dest!: tiled_bounds)

lemma regions_sum:
  assumes "tiled a bs e"
  shows "sum_list (map (snd \<circ> snd) (filter fst bs)) = (\<Sum>(a, s) \<in> regions bs. s)"
proof -
  have d: "distinct (map snd (filter fst bs))"
    using tiled_distinct [OF assms] by (auto simp: distinct_map inj_on_def prod_eq_iff)
  have "regions bs = set (map snd (filter fst bs))"
    by (force simp: regions_alt)
  then have "(\<Sum>(a, s) \<in> regions bs. s) = sum_list (map snd (map snd (filter fst bs)))"
    using sum_list_distinct_conv_sum_set [OF d, of snd] by (simp add: case_prod_unfold)
  then show ?thesis by (simp add: comp_def)
qed

section \<open>First fit and last fit are complete\<close>

lemma alloc_first_hit:
  "\<forall>x \<in> set pre. \<not> fits w x \<Longrightarrow> fits w a \<Longrightarrow>
   alloc_first w (pre @ a # rest) = (pre @ fst (carve_front w (a # rest)), snd (carve_front w (a # rest)))"
  by (induction pre) (auto simp del: carve_front.simps split: prod.splits)

lemma alloc_last_hit:
  "\<forall>x \<in> set rest. \<not> fits w x \<Longrightarrow> fits w a \<Longrightarrow>
   alloc_last w (pre @ a # rest) = (pre @ fst (carve_back w (a # rest)), snd (carve_back w (a # rest)))"
  by (induction pre) (auto simp del: carve_back.simps split: prod.splits)

lemma alloc_miss: "\<forall>x \<in> set xs. \<not> fits w x \<Longrightarrow> alloc_first w xs = (xs, 0) \<and> alloc_last w xs = (xs, 0)"
  by (induction xs) (auto simp del: carve_front.simps carve_back.simps)

lemma of_nat_256_nonzero: "0 < a \<Longrightarrow> a < 32768 \<Longrightarrow> (word_of_nat (a * 256) :: u32) \<noteq> 0"
  using of_nat_eq_iff32 [of "a * 256" 0] by simp

lemma alloc_complete:
  assumes t: "tiled heap_lo bs heap_hi" and w: "w \<noteq> 0" and K: "0 < K"
  shows "snd (alloc_first w (map enc bs @ zeros K)) \<noteq> 0 \<longleftrightarrow> (\<exists>(al, a, s) \<in> set bs. \<not> al \<and> unat w \<le> s)"
    and "snd (alloc_last w (map enc bs @ zeros K)) \<noteq> 0 \<longleftrightarrow> (\<exists>(al, a, s) \<in> set bs. \<not> al \<and> unat w \<le> s)"
proof -
  define P where "P = (\<lambda>(al, a :: nat, s). \<not> al \<and> unat w \<le> s)"
  have sm: "all_small bs" using t by (rule tiled_all_small) simp
  have fit: "fits w (enc b) \<longleftrightarrow> P b" if "b \<in> set bs" for b
    using that sm fits_enc [of "fst b" "fst (snd b)" "snd (snd b)" w]
    by (auto simp: P_def all_small_def)
  have w0: "0 < unat w" using w by (simp add: unat_gt_0)
  have "(snd (alloc_first w (map enc bs @ zeros K)) \<noteq> 0 \<longleftrightarrow> (\<exists>b \<in> set bs. P b)) \<and>
    (snd (alloc_last w (map enc bs @ zeros K)) \<noteq> 0 \<longleftrightarrow> (\<exists>b \<in> set bs. P b))"
  proof (cases "\<exists>b \<in> set bs. P b")
    case True
    obtain p1 b1 q1 where 1: "bs = p1 @ b1 # q1" "P b1" "\<forall>b \<in> set p1. \<not> P b"
      using split_list_first_prop [OF True] by blast
    obtain p2 b2 q2 where 2: "bs = p2 @ b2 # q2" "P b2" "\<forall>b \<in> set q2. \<not> P b"
      using split_list_last_prop [OF True] by blast
    obtain a1 r1 where b1: "b1 = (False, a1, unat w + r1)"
      using 1(2) unfolding P_def by (cases b1) (auto simp: le_iff_add)
    obtain a2 l2 where b2: "b2 = (False, a2, l2 + unat w)"
      using 2(2) unfolding P_def by (cases b2) (auto simp: le_iff_add add.commute)
    have m1: "(False, a1, unat w + r1) \<in> set bs" using 1(1) b1 by simp
    have m2: "(False, a2, l2 + unat w) \<in> set bs" using 2(1) b2 by simp
    have a: "0 < a1" "a1 < 32768" "0 < a2 + l2" "a2 + l2 < 32768"
      using tiled_bounds [OF t m1] tiled_bounds [OF t m2] by auto
    have s1: "all_small ((False, a1, unat w + r1) # q1)" and s2: "all_small ((False, a2, l2 + unat w) # q2)"
      using sm [unfolded 1(1) b1] sm [unfolded 2(1) b2] unfolding all_small_def by auto
    have f1: "fits w (enc b1)" "\<forall>x \<in> set (map enc p1). \<not> fits w x"
      using fit 1 by auto
    have f2: "fits w (enc b2)" "\<forall>x \<in> set (map enc q2 @ zeros K). \<not> fits w x"
      using fit 2 no_fit_zeros [OF w, of K] by auto
    have "snd (alloc_first w (map enc p1 @ enc b1 # (map enc q1 @ zeros K))) = word_of_nat (a1 * 256)"
      unfolding alloc_first_hit [OF f1(2,1)] snd_conv
      using carve_front_eq [OF s1 w0 K] unfolding b1 by (simp del: carve_front.simps)
    then have "snd (alloc_first w (map enc bs @ zeros K)) = word_of_nat (a1 * 256)"
      unfolding 1(1) by simp
    moreover have "snd (alloc_last w (map enc p2 @ enc b2 # (map enc q2 @ zeros K))) = word_of_nat ((a2 + l2) * 256)"
      unfolding alloc_last_hit [OF f2(2,1)] snd_conv
      using carve_back_eq [OF s2 w0 K] unfolding b2 by (simp del: carve_back.simps of_nat_mult)
    then have "snd (alloc_last w (map enc bs @ zeros K)) = word_of_nat ((a2 + l2) * 256)"
      unfolding 2(1) by (simp del: of_nat_mult)
    moreover have nz: "\<And>x y. 0 < x \<Longrightarrow> x < 32768 \<Longrightarrow> y = (word_of_nat (x * 256) :: u32) \<Longrightarrow> y \<noteq> 0"
      using of_nat_256_nonzero by simp
    ultimately have "snd (alloc_first w (map enc bs @ zeros K)) \<noteq> 0" "snd (alloc_last w (map enc bs @ zeros K)) \<noteq> 0"
      using nz [OF a(1,2)] nz [OF a(3,4)] by metis+
    with True show ?thesis by simp
  next
    case False
    then have "\<forall>x \<in> set (map enc bs @ zeros K). \<not> fits w x"
      using fit no_fit_zeros [OF w, of K] by auto
    from alloc_miss [OF this] False show ?thesis by simp
  qed
  then show "snd (alloc_first w (map enc bs @ zeros K)) \<noteq> 0 \<longleftrightarrow> (\<exists>(al, a, s) \<in> set bs. \<not> al \<and> unat w \<le> s)"
    and "snd (alloc_last w (map enc bs @ zeros K)) \<noteq> 0 \<longleftrightarrow> (\<exists>(al, a, s) \<in> set bs. \<not> al \<and> unat w \<le> s)"
    unfolding P_def by blast+
qed

section \<open>The public operations on a heap that satisfies the invariant\<close>

definition live :: "u32 list \<Rightarrow> (nat \<times> nat) set" where
  "live h = regions (blocks h)"

definition units_wanted :: "u32 \<Rightarrow> nat" where
  "units_wanted sz = unat (drop_bit 8 (sz + 255))"

lemma heap_rep_mono: "heap_rep k h \<Longrightarrow> j \<le> k \<Longrightarrow> heap_rep j h"
  unfolding heap_rep_def by auto

lemma heap_inv_nonempty: "heap_inv h \<Longrightarrow> h \<noteq> []"
  unfolding heap_inv_def heap_rep_def by auto

lemma heap_inv_tiled: "heap_inv h \<Longrightarrow> tiled heap_lo (blocks h) heap_hi"
  unfolding heap_inv_def heap_rep_def by blast

lemma heap_inv_coalesced: "heap_inv h \<Longrightarrow> coalesced (blocks h)"
  unfolding heap_inv_def heap_rep_def by blast

lemma alloc_step:
  assumes "heap_inv h"
  shows "heap_inv (fst (iop_heap_alloc True flags sz mem h)) \<and>
    (snd (iop_heap_alloc True flags sz mem h) = 0 \<and> blocks (fst (iop_heap_alloc True flags sz mem h)) = blocks h \<or>
     (\<exists>a. snd (iop_heap_alloc True flags sz mem h) = word_of_nat (a * 256) \<and>
        carved (blocks h) (units_wanted sz) a (blocks (fst (iop_heap_alloc True flags sz mem h)))))"
proof (cases "flags \<ge> 3")
  case True
  with assms show ?thesis by (simp add: iop_heap_alloc_def)
next
  case False
  have r4: "heap_rep 4 h" using assms by (simp add: heap_inv_def)
  have eq: "iop_heap_alloc True flags sz mem h =
      (case do_alloc flags sz mem h of (h', r) \<Rightarrow> (do_maintain True h', r))"
    using False heap_inv_nonempty [OF assms] by (simp add: iop_heap_alloc_def)
  consider (fail) "do_alloc flags sz mem h = (h, 0)"
    | (ok) h' a where "do_alloc flags sz mem h = (h', word_of_nat (a * 256))" "heap_rep 2 h'"
        "carved (blocks h) (units_wanted sz) a (blocks h')"
    using do_alloc_cases [OF r4, of flags sz mem] unfolding units_wanted_def by auto
  then show ?thesis
  proof cases
    case fail
    with do_maintain_rep [OF heap_rep_mono [OF r4]] eq show ?thesis by simp
  next
    case ok
    with do_maintain_rep [OF ok(2)] eq show ?thesis by (auto simp del: of_nat_mult)
  qed
qed

lemma free_step_hit:
  assumes "heap_inv h" and "(a, s) \<in> live h"
  shows "snd (iop_heap_free True (word_of_nat (a * 256)) h) = 0 \<and>
    heap_inv (fst (iop_heap_free True (word_of_nat (a * 256)) h)) \<and>
    carved (blocks (fst (iop_heap_free True (word_of_nat (a * 256)) h))) s a (blocks h)"
proof -
  have r4: "heap_rep 4 h" using assms by (simp add: heap_inv_def)
  obtain h' where h': "do_free (word_of_nat (a * 256)) h = Some h'" "heap_rep 4 h'"
      "carved (blocks h') s a (blocks h)"
    using do_free_hit [OF r4] assms(2) by (auto simp: live_def regions_alt)
  with do_maintain_rep [OF heap_rep_mono [OF h'(2)]] show ?thesis
    by (simp add: iop_heap_free_def del: of_nat_mult)
qed

lemma free_step_miss:
  assumes "heap_inv h" and "\<forall>(a, s) \<in> live h. mem \<noteq> word_of_nat (a * 256)"
  shows "iop_heap_free True mem h = (h, -1)"
proof -
  have "unat mem mod 256 \<noteq> 0" if "(True, unat mem div 256, s) \<in> set (blocks h)" for s
  proof
    assume "unat mem mod 256 = 0"
    then have "mem = word_of_nat (unat mem div 256 * 256)"
      by (metis div_mult_mod_eq add.right_neutral of_nat_unat ucast_id)
    with that assms(2) show False by (auto simp: live_def regions_alt)
  qed
  then have "do_free mem h = None"
    using assms(1) by (intro do_free_miss [of 4]) (auto simp: heap_inv_def)
  then show ?thesis by (simp add: iop_heap_free_def)
qed

lemma live_bounds:
  "heap_inv h \<Longrightarrow> (a, s) \<in> live h \<Longrightarrow> heap_lo \<le> a \<and> 0 < s \<and> a + s \<le> heap_hi"
  using tiled_bounds [OF heap_inv_tiled] by (auto simp: live_def regions_alt)

lemma live_disjoint:
  "heap_inv h \<Longrightarrow> (a, s) \<in> live h \<Longrightarrow> (b, t) \<in> live h \<Longrightarrow>
   (a, s) = (b, t) \<or> a + s \<le> b \<or> b + t \<le> a"
  using tiled_disjoint [OF heap_inv_tiled] by (fastforce simp: live_def regions_alt)

lemma live_finite: "finite (live h)"
proof -
  have "live h \<subseteq> snd ` set (blocks h)" by (force simp: live_def regions_alt)
  then show ?thesis by (rule finite_subset) simp
qed

lemma heap_init_inv: "heap_inv (iop_heap_init True)" "live (iop_heap_init True) = {}"
proof -
  have z: "zeros 31 = 0 # zeros 30" using replicate_Suc [of 30 "0 :: u32"] by simp
  have h: "iop_heap_init True = map enc [(False, 512, 3328)] @ zeros 30"
    unfolding iop_heap_init_def new_table_def if_True option.case z
    by (simp add: IOP_HEAP_SIZE_def IOP_HEAP_BASE_def enc_def)
  have t: "tiled heap_lo [(False, 512, 3328)] heap_hi" "coalesced [(False, 512, 3328)]" by simp_all
  from heap_repI [OF t h, of 4] show "heap_inv (iop_heap_init True)" "live (iop_heap_init True) = {}"
    by (simp_all add: heap_inv_def live_def regions_alt h)
qed

section \<open>The contract\<close>

datatype ('q, 'p) region_op = Acquire 'q | Release 'p

fun run_ops :: "('q \<Rightarrow> 'h \<Rightarrow> 'h \<times> 'p) \<Rightarrow> ('p \<Rightarrow> 'h \<Rightarrow> 'h \<times> int) \<Rightarrow> ('q, 'p) region_op list \<Rightarrow> 'h \<Rightarrow> 'h" where
  "run_ops alloc release [] h = h"
| "run_ops alloc release (Acquire q # ops) h = run_ops alloc release ops (fst (alloc q h))"
| "run_ops alloc release (Release p # ops) h = run_ops alloc release ops (fst (release p h))"

locale region_allocator =
  fixes inv :: "'h \<Rightarrow> bool"
    and held :: "'h \<Rightarrow> (nat \<times> nat) set"
    and alloc :: "'q \<Rightarrow> 'h \<Rightarrow> 'h \<times> 'p"
    and release :: "'p \<Rightarrow> 'h \<Rightarrow> 'h \<times> int"
    and want :: "'q \<Rightarrow> nat"
    and ptr :: "nat \<Rightarrow> 'p"
    and null :: 'p
  assumes alloc_law: "inv h \<Longrightarrow> inv (fst (alloc q h)) \<and>
      (snd (alloc q h) = null \<and> held (fst (alloc q h)) = held h \<or>
       (\<exists>a. snd (alloc q h) = ptr a \<and> ptr a \<noteq> null \<and> (a, want q) \<notin> held h \<and>
          held (fst (alloc q h)) = insert (a, want q) (held h)))"
    and release_hit: "inv h \<Longrightarrow> (a, s) \<in> held h \<Longrightarrow> inv (fst (release (ptr a) h)) \<and>
      snd (release (ptr a) h) = 0 \<and> held (fst (release (ptr a) h)) = held h - {(a, s)}"
    and release_miss: "inv h \<Longrightarrow> \<forall>(a, s) \<in> held h. p \<noteq> ptr a \<Longrightarrow> release p h = (h, -1)"
    and held_disjoint: "inv h \<Longrightarrow> (a, s) \<in> held h \<Longrightarrow> (b, t) \<in> held h \<Longrightarrow>
      0 < s \<and> ((a, s) = (b, t) \<or> a + s \<le> b \<or> b + t \<le> a)"
    and ptr_inj: "inv h \<Longrightarrow> (a, s) \<in> held h \<Longrightarrow> (b, t) \<in> held h \<Longrightarrow> ptr a = ptr b \<Longrightarrow> a = b"
begin

lemma release_inv: "inv h \<Longrightarrow> inv (fst (release p h))"
  using release_hit [of h] release_miss [of h p] by (cases "\<forall>(a, s) \<in> held h. p \<noteq> ptr a") auto

lemma run_inv: "inv h \<Longrightarrow> inv (run_ops alloc release ops h)"
proof (induction ops arbitrary: h)
  case (Cons opn ops)
  then show ?case by (cases opn) (simp_all add: alloc_law release_inv)
qed simp

lemma alloc_success:
  assumes "inv h" and "snd (alloc q h) \<noteq> null"
  obtains a where "snd (alloc q h) = ptr a" and "(a, want q) \<notin> held h"
    and "held (fst (alloc q h)) = insert (a, want q) (held h)"
  using alloc_law [OF assms(1), of q] assms(2) by auto

lemma alloc_disjoint:
  assumes "inv h" and "snd (alloc q h) \<noteq> null"
  shows "\<exists>a. snd (alloc q h) = ptr a \<and> held (fst (alloc q h)) = insert (a, want q) (held h) \<and>
    0 < want q \<and> (\<forall>(b, t) \<in> held h. a + want q \<le> b \<or> b + t \<le> a)"
proof -
  obtain a where a: "snd (alloc q h) = ptr a" "(a, want q) \<notin> held h"
      "held (fst (alloc q h)) = insert (a, want q) (held h)"
    using assms by (rule alloc_success)
  have i: "inv (fst (alloc q h))" using alloc_law [OF assms(1)] by simp
  have m: "(a, want q) \<in> held (fst (alloc q h))" using a(3) by simp
  have "a + want q \<le> b \<or> b + t \<le> a" if "(b, t) \<in> held h" for b t
    using held_disjoint [OF i m, of b t] that a(2,3) by auto
  moreover have "0 < want q" using held_disjoint [OF i m m] by simp
  ultimately show ?thesis using a(1,3) by blast
qed

lemma alloc_release:
  assumes "inv h" and "snd (alloc q h) \<noteq> null"
  shows "snd (release (snd (alloc q h)) (fst (alloc q h))) = 0 \<and>
    held (fst (release (snd (alloc q h)) (fst (alloc q h)))) = held h"
proof -
  obtain a where a: "snd (alloc q h) = ptr a" "(a, want q) \<notin> held h"
      "held (fst (alloc q h)) = insert (a, want q) (held h)"
    using assms by (rule alloc_success)
  have "inv (fst (alloc q h))" using alloc_law [OF assms(1)] by simp
  from release_hit [OF this, of a "want q"] a show ?thesis by auto
qed

lemma double_release:
  assumes "inv h" and "(a, s) \<in> held h"
  shows "release (ptr a) (fst (release (ptr a) h)) = (fst (release (ptr a) h), -1)"
proof (rule release_miss)
  have hit: "inv (fst (release (ptr a) h))" "held (fst (release (ptr a) h)) = held h - {(a, s)}"
    using release_hit [OF assms] by auto
  then show "inv (fst (release (ptr a) h))" by simp
  show "\<forall>(b, t) \<in> held (fst (release (ptr a) h)). ptr a \<noteq> ptr b"
  proof (clarify, unfold hit(2))
    fix b t
    assume bt: "(b, t) \<in> held h - {(a, s)}" and "ptr a = ptr b"
    then have "a = b" using ptr_inj [OF assms] by blast
    with held_disjoint [OF assms(1), of a s b t] held_disjoint [OF assms(1), of b t a s] assms(2) bt
    show False by auto
  qed
qed

lemma release_succeeds_iff:
  assumes "inv h"
  shows "snd (release p h) = 0 \<longleftrightarrow> (\<exists>(a, s) \<in> held h. p = ptr a)"
proof (cases "\<exists>(a, s) \<in> held h. p = ptr a")
  case True
  with release_hit [OF assms] show ?thesis by auto
next
  case False
  then have "\<forall>(a, s) \<in> held h. p \<noteq> ptr a" by auto
  with release_miss [OF assms this] False show ?thesis by simp
qed

end

text \<open>The heap's request is the triple (flags, size, mem) of \<open>AllocSysMemory\<close>.\<close>

definition heap_acquire :: "int \<times> u32 \<times> u32 \<Rightarrow> u32 list \<Rightarrow> u32 list \<times> u32" where
  "heap_acquire = (\<lambda>(flags, sz, mem). iop_heap_alloc True flags sz mem)"

definition unit_ptr :: "nat \<Rightarrow> u32" where
  "unit_ptr a = word_of_nat (a * 256)"

lemma carved_removed:
  assumes "carved bs s a bs'" and "tiled lo bs hi"
  shows "regions bs = regions bs' - {(a, s)}"
  using carved_regions [OF assms(1)] carved_fresh [OF assms] by auto

lemma carved_bounds: "carved bs n a bs' \<Longrightarrow> tiled heap_lo bs heap_hi \<Longrightarrow> heap_lo \<le> a \<and> 0 < n \<and> a + n \<le> heap_hi"
  using tiled_bounds [of heap_lo bs' heap_hi True a n] carved_tiled [of bs n a bs' heap_lo heap_hi]
  unfolding carved_def by auto

lemma unit_ptr_inj: "a \<le> heap_hi \<Longrightarrow> b \<le> heap_hi \<Longrightarrow> unit_ptr a = unit_ptr b \<Longrightarrow> a = b"
  using of_nat_eq_iff32 [of "a * 256" "b * 256"] by (simp add: unit_ptr_def del: of_nat_mult)

interpretation heap: region_allocator heap_inv live heap_acquire "iop_heap_free True"
    "\<lambda>(flags, sz, mem). units_wanted sz" unit_ptr 0
proof
  fix h :: "u32 list" and q :: "int \<times> u32 \<times> u32" and a s b t p
  assume inv: "heap_inv h"
  obtain flags sz mem where q: "q = (flags, sz, mem)" by (cases q)
  have fresh: "word_of_nat (a * 256) \<noteq> (0 :: u32) \<and> (a, units_wanted sz) \<notin> live h \<and>
      live h' = insert (a, units_wanted sz) (live h)"
    if "carved (blocks h) (units_wanted sz) a (blocks h')" for h' a
    using that carved_bounds [OF that] carved_fresh [OF that] carved_regions [OF that]
      heap_inv_tiled [OF inv] of_nat_256_nonzero [of a]
    by (auto simp: live_def simp del: of_nat_mult)
  show "heap_inv (fst (heap_acquire q h)) \<and>
      (snd (heap_acquire q h) = 0 \<and> live (fst (heap_acquire q h)) = live h \<or>
       (\<exists>a. snd (heap_acquire q h) = unit_ptr a \<and> unit_ptr a \<noteq> 0 \<and>
          (a, case q of (flags, sz, mem) \<Rightarrow> units_wanted sz) \<notin> live h \<and>
          live (fst (heap_acquire q h))
            = insert (a, case q of (flags, sz, mem) \<Rightarrow> units_wanted sz) (live h)))"
    using alloc_step [OF inv, of flags sz mem] fresh
    by (auto simp: heap_acquire_def q unit_ptr_def live_def simp del: of_nat_mult)
  {
    assume "\<forall>(a, s) \<in> live h. p \<noteq> unit_ptr a"
    then show "iop_heap_free True p h = (h, -1)"
      using free_step_miss [OF inv, of p] by (simp add: unit_ptr_def)
  }
  assume as: "(a, s) \<in> live h"
  show "heap_inv (fst (iop_heap_free True (unit_ptr a) h)) \<and> snd (iop_heap_free True (unit_ptr a) h) = 0 \<and>
      live (fst (iop_heap_free True (unit_ptr a) h)) = live h - {(a, s)}"
    using free_step_hit [OF inv as] carved_removed heap_inv_tiled unfolding unit_ptr_def live_def by blast
  assume bt: "(b, t) \<in> live h"
  show "0 < s \<and> ((a, s) = (b, t) \<or> a + s \<le> b \<or> b + t \<le> a)"
    using live_bounds [OF inv as] live_disjoint [OF inv as bt] by blast
  show "a = b" if "unit_ptr a = unit_ptr b"
    using that live_bounds [OF inv as] live_bounds [OF inv bt] by (intro unit_ptr_inj) simp_all
qed
section \<open>Properties\<close>

text \<open>Any sequence of requests and releases, right or wrong, on a freshly initialised heap.\<close>

abbreviation heap_run :: "(int \<times> u32 \<times> u32, u32) region_op list \<Rightarrow> u32 list" where
  "heap_run ops \<equiv> run_ops heap_acquire (iop_heap_free True) ops (iop_heap_init True)"

lemma heap_run_inv: "heap_inv (heap_run ops)"
  by (rule heap.run_inv [OF heap_init_inv(1)])

text \<open>C1: After any sequence of allocations and releases, the live regions are whole 256-byte
  units inside the arena \<open>0x20000\<close> to \<open>0xF0000\<close> and pairwise disjoint, and the chain still
  tiles the arena with no two adjacent free blocks.\<close>

theorem heap_run_safe:
  assumes "(a, s) \<in> live (heap_run ops)" and "(b, t) \<in> live (heap_run ops)"
  shows "0x20000 \<le> 256 * a \<and> 0 < s \<and> 256 * (a + s) \<le> 0xF0000 \<and>
    ((a, s) = (b, t) \<or> 256 * (a + s) \<le> 256 * b \<or> 256 * (b + t) \<le> 256 * a) \<and>
    tiled 512 (blocks (heap_run ops)) 3840 \<and> coalesced (blocks (heap_run ops))"
  using live_bounds [OF heap_run_inv assms(1)] live_disjoint [OF heap_run_inv assms]
    heap_inv_tiled [OF heap_run_inv] heap_inv_coalesced [OF heap_run_inv]
  by auto

theorem heap_run_safe_witness:
  "(512, 1) \<in> live (heap_run [Acquire (0, 1, 0), Acquire (1, 0x300, 0)]) \<and>
   (3837, 3) \<in> live (heap_run [Acquire (0, 1, 0), Acquire (1, 0x300, 0)]) \<and>
   tiled 512 (blocks (heap_run [Acquire (0, 1, 0), Acquire (1, 0x300, 0)])) 3840"
proof -
  have 1: "(512, 1) \<in> live (heap_run [Acquire (0, 1, 0), Acquire (1, 0x300, 0)])" by code_simp
  have 2: "(3837, 3) \<in> live (heap_run [Acquire (0, 1, 0), Acquire (1, 0x300, 0)])" by code_simp
  from heap_run_safe [OF 1 2] 1 2 show ?thesis by blast
qed

lemma units_wanted_enough: "0 < units_wanted sz \<Longrightarrow> unat sz \<le> 256 * units_wanted sz"
proof -
  assume pos: "0 < units_wanted sz"
  have u: "units_wanted sz = unat (sz + 255) div 256"
    by (simp add: units_wanted_def unat_drop_bit)
  have "unat (sz + 255) = unat sz + 255"
    using pos unat_add_lem [of sz 255] unat_plus_if' [of sz 255] unat_u32 [of sz] unfolding u
    by (cases "unat sz < 4294967041") (auto simp: not_less)
  then show ?thesis unfolding u by simp
qed

text \<open>C22: A successful \<open>iop_heap_alloc\<close> in any mode returns a 256-byte aligned address; the
  region of the rounded-up size at that address lies in the arena, holds at least the requested
  bytes, is disjoint from every live region, and is the only change to the live set.\<close>

theorem heap_alloc_exclusive:
  assumes "snd (iop_heap_alloc True flags sz mem (heap_run ops)) \<noteq> 0"
  shows "\<exists>a. let r = snd (iop_heap_alloc True flags sz mem (heap_run ops)) in
     unat r = 256 * a \<and> 0x20000 \<le> unat r \<and> unat r + 256 * units_wanted sz \<le> 0xF0000 \<and>
     unat sz \<le> 256 * units_wanted sz \<and>
     (\<forall>(b, t) \<in> live (heap_run ops). a + units_wanted sz \<le> b \<or> b + t \<le> a) \<and>
     live (fst (iop_heap_alloc True flags sz mem (heap_run ops)))
       = insert (a, units_wanted sz) (live (heap_run ops))"
proof -
  let ?q = "(flags, sz, mem)" and ?h = "heap_run ops"
  have eq: "heap_acquire ?q ?h = iop_heap_alloc True flags sz mem ?h"
    by (simp add: heap_acquire_def)
  obtain a where a: "snd (heap_acquire ?q ?h) = unit_ptr a" "0 < units_wanted sz"
      "live (fst (heap_acquire ?q ?h)) = insert (a, units_wanted sz) (live ?h)"
      "\<forall>(b, t) \<in> live ?h. a + units_wanted sz \<le> b \<or> b + t \<le> a"
    using heap.alloc_disjoint [OF heap_run_inv, of ?q ops] assms unfolding eq by auto
  have i: "heap_inv (fst (heap_acquire ?q ?h))"
    using heap.alloc_law [OF heap_run_inv] by blast
  have b: "512 \<le> a" "a + units_wanted sz \<le> 3840"
    using live_bounds [OF i, of a "units_wanted sz"] a(3) by auto
  then have r: "unat (unit_ptr a) = 256 * a" by (simp add: unit_ptr_def del: of_nat_mult)
  have "unat sz \<le> 256 * units_wanted sz" using a(2) by (rule units_wanted_enough)
  with a b r show ?thesis unfolding eq Let_def by (intro exI [of _ a]) auto
qed
theorem heap_alloc_exclusive_witness:
  "snd (iop_heap_alloc True 2 0x180 0x50000 (heap_run [Acquire (0, 1, 0)])) = 0x50000 \<and>
   (\<exists>a. (0x50000 :: nat) = 256 * a)"
proof -
  have r: "snd (iop_heap_alloc True 2 0x180 0x50000 (heap_run [Acquire (0, 1, 0)])) = 0x50000"
    by code_simp
  show ?thesis
    using heap_alloc_exclusive [of 2 "0x180" "0x50000" "[Acquire (0, 1, 0)]"]
    unfolding r Let_def by auto
qed

text \<open>C24: \<open>iop_heap_free\<close> returns 0 exactly when its argument is the start address of a live
  region; it then removes that region and no other, and a second release of the same address
  returns -1 and changes nothing. In every other case it returns -1 and changes nothing.\<close>

theorem heap_free_exact:
  "(snd (iop_heap_free True mem (heap_run ops)) = 0
      \<longleftrightarrow> (\<exists>(a, s) \<in> live (heap_run ops). mem = word_of_nat (256 * a))) \<and>
   (if \<exists>(a, s) \<in> live (heap_run ops). mem = word_of_nat (256 * a)
    then \<exists>a s h'. (a, s) \<in> live (heap_run ops) \<and> mem = word_of_nat (256 * a) \<and>
           iop_heap_free True mem (heap_run ops) = (h', 0) \<and>
           live h' = live (heap_run ops) - {(a, s)} \<and> iop_heap_free True mem h' = (h', -1)
    else iop_heap_free True mem (heap_run ops) = (heap_run ops, -1))"
proof -
  have p: "word_of_nat (256 * a) = unit_ptr a" for a by (simp add: unit_ptr_def mult.commute)
  note iff = heap.release_succeeds_iff [OF heap_run_inv, of mem ops]
  show ?thesis
  proof (cases "\<exists>(a, s) \<in> live (heap_run ops). mem = unit_ptr a")
    case True
    then obtain a s where as: "(a, s) \<in> live (heap_run ops)" "mem = unit_ptr a" by auto
    have "\<exists>a s h'. (a, s) \<in> live (heap_run ops) \<and> mem = unit_ptr a \<and>
        iop_heap_free True mem (heap_run ops) = (h', 0) \<and>
        live h' = live (heap_run ops) - {(a, s)} \<and> iop_heap_free True mem h' = (h', -1)"
      using heap.release_hit [OF heap_run_inv as(1)] heap.double_release [OF heap_run_inv as(1)]
        as prod.collapse [of "iop_heap_free True mem (heap_run ops)"] by metis
    with True iff show ?thesis unfolding p by simp
  next
    case False
    then have "\<forall>(a, s) \<in> live (heap_run ops). mem \<noteq> unit_ptr a" by auto
    from heap.release_miss [OF heap_run_inv this] False show ?thesis unfolding p by simp
  qed
qed

text \<open>C11: Releasing what an allocation has just returned succeeds and restores the chain's blocks exactly, in any
  heap that a sequence of allocations and releases leads to: the pieces split off are merged again, whatever
  the mode was. The tables of the chain are assumed to get the host memory they ask for.\<close>

theorem heap_alloc_free_restores:
  assumes "snd (iop_heap_alloc True flags sz mem (heap_run ops)) \<noteq> 0"
  shows "snd (iop_heap_free True (snd (iop_heap_alloc True flags sz mem (heap_run ops)))
            (fst (iop_heap_alloc True flags sz mem (heap_run ops)))) = 0 \<and>
    blocks (fst (iop_heap_free True (snd (iop_heap_alloc True flags sz mem (heap_run ops)))
            (fst (iop_heap_alloc True flags sz mem (heap_run ops))))) = blocks (heap_run ops)"
proof -
  let ?h = "heap_run ops"
  define h' where "h' = fst (iop_heap_alloc True flags sz mem ?h)"
  obtain a where r: "snd (iop_heap_alloc True flags sz mem ?h) = word_of_nat (a * 256)"
      "heap_inv h'" "carved (blocks ?h) (units_wanted sz) a (blocks h')"
    using alloc_step [OF heap_run_inv, of flags sz mem ops] assms unfolding h'_def by blast
  have m: "(a, units_wanted sz) \<in> live h'"
    using carved_regions [OF r(3)] by (simp add: live_def)
  let ?h2 = "fst (iop_heap_free True (word_of_nat (a * 256)) h')"
  have f: "snd (iop_heap_free True (word_of_nat (a * 256)) h') = 0" "heap_inv ?h2"
      "carved (blocks ?h2) (units_wanted sz) a (blocks h')"
    using free_step_hit [OF r(2) m] by blast+
  have "blocks ?h2 = blocks ?h"
    using carved_unique [OF r(3) f(3) heap_inv_coalesced [OF heap_run_inv] heap_inv_coalesced [OF f(2)]
        heap_inv_tiled [OF r(2)]] .
  with f(1) show ?thesis unfolding r(1) h'_def by simp
qed

theorem heap_alloc_free_restores_witness:
  "snd (iop_heap_alloc True 1 0x1000 0 (heap_run [])) = 0xEF000 \<and>
   snd (iop_heap_free True 0xEF000 (fst (iop_heap_alloc True 1 0x1000 0 (heap_run [])))) = 0"
proof -
  have r: "snd (iop_heap_alloc True 1 0x1000 0 (heap_run [])) = 0xEF000" by code_simp
  show ?thesis using heap_alloc_free_restores [of 1 "0x1000" 0 "[]"] unfolding r by simp
qed

lemma unat_push_8: "unat w < 32768 \<Longrightarrow> unat (push_bit 8 (w :: u32)) = 256 * unat w"
  using unat_push_bit [of w 8] by simp

lemma max_free_units_bound:
  assumes "heap_inv h"
  shows "unat (max_free_units 0 h) = Max (set (0 # free_sizes (blocks h)))"
    and "unat (max_free_units 0 h) < 32768"
proof -
  obtain K where K: "h = map enc (blocks h) @ zeros K" "all_small (blocks h)"
    using assms unfolding heap_inv_def by (rule heap_repE)
  have "unat (max_free_units (word_of_nat 0) (map enc (blocks h) @ zeros K))
      = Max (set (0 # free_sizes (blocks h)))"
    by (rule max_free_enc [OF K(2)]) simp
  then show eq: "unat (max_free_units 0 h) = Max (set (0 # free_sizes (blocks h)))"
    by (simp flip: K(1))
  have "Max (set (0 # free_sizes (blocks h))) \<in> set (0 # free_sizes (blocks h))"
    by (rule Max_in) simp_all
  moreover have "x < 32768" if "x \<in> set (0 # free_sizes (blocks h))" for x
    using that K(2) by (auto simp: free_sizes_def all_small_def)
  ultimately show "unat (max_free_units 0 h) < 32768" unfolding eq by blast
qed

lemma free_sizes_fit:
  assumes "0 < n"
  shows "n \<le> Max (set (0 # free_sizes bs)) \<longleftrightarrow> (\<exists>(al, a, s) \<in> set bs. \<not> al \<and> n \<le> s)"
proof -
  have "n \<le> Max (set (0 # free_sizes bs)) \<longleftrightarrow> (\<exists>x \<in> set (0 # free_sizes bs). n \<le> x)"
    by (rule Max_ge_iff) simp_all
  also have "\<dots> \<longleftrightarrow> (\<exists>(al, a, s) \<in> set bs. \<not> al \<and> n \<le> s)"
    using assms by (force simp: free_sizes_def)
  finally show ?thesis .
qed

text \<open>First-fit and last-fit allocation fail only for lack of room: they succeed exactly
  when the rounded size is not zero and not larger than what \<open>iop_heap_query_max_free\<close>
  reports.\<close>

theorem heap_fit_complete:
  assumes "flags \<in> {0, 1}"
  shows "snd (iop_heap_alloc True flags sz mem (heap_run ops)) \<noteq> 0 \<longleftrightarrow>
    0 < units_wanted sz \<and> 256 * units_wanted sz \<le> unat (iop_heap_query_max_free (heap_run ops))"
proof -
  let ?h = "heap_run ops" and ?w = "drop_bit 8 (sz + 255)"
  have inv: "heap_inv ?h" by (rule heap_run_inv)
  obtain K where K: "?h = map enc (blocks ?h) @ zeros K" "4 \<le> K" "tiled heap_lo (blocks ?h) heap_hi"
    using inv unfolding heap_inv_def by (rule heap_repE)
  have mx: "256 * n \<le> unat (iop_heap_query_max_free ?h) \<longleftrightarrow>
      (\<exists>(al, a, s) \<in> set (blocks ?h). \<not> al \<and> n \<le> s)" if "0 < n" for n
    unfolding iop_heap_query_max_free_def unat_push_8 [OF max_free_units_bound(2) [OF inv]]
    using that free_sizes_fit [of n "blocks ?h"] max_free_units_bound(1) [OF inv] by simp
  have eq: "snd (iop_heap_alloc True flags sz mem ?h) = snd (do_alloc flags sz mem ?h)"
    using assms heap_inv_nonempty [OF inv] by (auto simp: iop_heap_alloc_def split: prod.split)
  show ?thesis
  proof (cases "?w = 0")
    case True
    then show ?thesis unfolding eq by (simp add: do_alloc_def units_wanted_def)
  next
    case False
    then have pos: "0 < units_wanted sz" by (simp add: units_wanted_def unat_gt_0)
    have "snd (alloc_first ?w ?h) \<noteq> 0 \<longleftrightarrow> (\<exists>(al, a, s) \<in> set (blocks ?h). \<not> al \<and> unat ?w \<le> s)"
      "snd (alloc_last ?w ?h) \<noteq> 0 \<longleftrightarrow> (\<exists>(al, a, s) \<in> set (blocks ?h). \<not> al \<and> unat ?w \<le> s)"
      using alloc_complete [OF K(3) False, of K] K(2) unfolding K(1) [symmetric] by simp_all
    with assms False pos mx [OF pos] show ?thesis
      unfolding eq by (auto simp: do_alloc_def alloc_mode_of_def heap_inv_nonempty [OF inv] units_wanted_def)
  qed
qed
theorem heap_fit_complete_witness:
  "iop_heap_query_max_free (heap_run []) = 0xD0000 \<and>
   snd (iop_heap_alloc True 0 0xD0000 0 (heap_run [])) \<noteq> 0 \<and>
   \<not> snd (iop_heap_alloc True 1 0xD0001 0 (heap_run [])) \<noteq> 0"
proof -
  have q: "iop_heap_query_max_free (heap_run []) = 0xD0000" by code_simp
  have u: "units_wanted 0xD0000 = 0xD00" "units_wanted 0xD0001 = 0xD01"
    by (simp_all add: units_wanted_def)
  show ?thesis
    using heap_fit_complete [of 0 "0xD0000" 0 "[]"] heap_fit_complete [of 1 "0xD0001" 0 "[]"]
    unfolding q u by simp
qed

text \<open>No byte of the arena is lost: what \<open>iop_heap_query_total_free\<close> reports and the
  sizes of the live regions always add up to the arena's \<open>0xD0000\<close> bytes.\<close>

theorem heap_accounting:
  "unat (iop_heap_query_total_free (heap_run ops)) + 256 * (\<Sum>(a, s) \<in> live (heap_run ops). s)
     = unat IOP_HEAP_SIZE"
proof -
  let ?h = "heap_run ops"
  obtain K where K: "?h = map enc (blocks ?h) @ zeros K" "all_small (blocks ?h)"
      "tiled heap_lo (blocks ?h) heap_hi"
    using heap_run_inv [of ops] unfolding heap_inv_def by (rule heap_repE)
  let ?f = "sum_list (free_sizes (blocks ?h))"
  have sum: "?f + (\<Sum>(a, s) \<in> live ?h. s) = 3328"
    using tiled_sum [OF K(3)] regions_sum [OF K(3)] by (simp add: live_def)
  have "total_free_units 0 ?h = word_of_nat ?f"
    using total_free_enc [OF K(2), of 0 K] unfolding K(1) [symmetric] by simp
  then have "unat (iop_heap_query_total_free ?h) = 256 * ?f"
    unfolding iop_heap_query_total_free_def using sum by (subst unat_push_8) simp_all
  with sum show ?thesis by (simp add: IOP_HEAP_SIZE_def)
qed

lemma findblock_append:
  "findblock x (xs @ ys) = (case findblock x xs of None \<Rightarrow> findblock x ys | Some p \<Rightarrow> Some p)"
  by (induction xs) auto

lemma in_block_enc:
  assumes "a + s < 32768"
  shows "push_bit 8 (M_ADDRESS (enc (al, a, s))) \<le> x
      \<and> x < push_bit 8 (M_ADDRESS (enc (al, a, s))) + push_bit 8 (M_SIZE (enc (al, a, s)))
    \<longleftrightarrow> 256 * a \<le> unat x \<and> unat x < 256 * (a + s)"
proof -
  have "push_bit 8 (M_ADDRESS (enc (al, a, s))) = word_of_nat (a * 256)"
    "push_bit 8 (M_ADDRESS (enc (al, a, s))) + push_bit 8 (M_SIZE (enc (al, a, s)))
       = (word_of_nat ((a + s) * 256) :: u32)"
    using assms push_8_of_nat [of a] push_8_of_nat [of s] by (simp_all add: algebra_simps)
  then show ?thesis
    using assms by (simp add: word_le_nat_alt word_less_nat_alt mult.commute del: of_nat_mult of_nat_add)
qed

lemma findblock_enc:
  assumes "all_small bs"
  shows "findblock x (map enc bs @ zeros K)
    = map_option enc (List.find (\<lambda>(al, a, s). 256 * a \<le> unat x \<and> unat x < 256 * (a + s)) bs)"
  using assms
proof (induction bs)
  case Nil
  have "findblock x (zeros k) = None" for k by (induction k) simp_all
  then show ?case by simp
next
  case (Cons b bs)
  obtain al a s where b: "b = (al, a, s)" by (cases b)
  have "a + s < 32768" using Cons.prems b by simp
  from in_block_enc [OF this, of al x] Cons b show ?case by simp
qed

lemma unat_or_bit31:
  assumes "s < 32768"
  shows "unat (push_bit 8 (word_of_nat s :: u32) OR 0x80000000) = 256 * s + 2 ^ 31"
proof -
  have "(0x80000000 :: u32) = push_bit 31 1" by simp
  moreover have "unat (push_bit 8 (word_of_nat s) OR push_bit 31 (1 :: u32))
      = unat (push_bit 8 (word_of_nat s :: u32)) + 2 ^ 31 * unat (1 :: u32)"
    using assms by (intro unat_or_push) (simp_all add: unat_push_8)
  ultimately show ?thesis using assms by (simp only: unat_push_8 unat_word_of_nat32) (simp add: unat_push_8)
qed

text \<open>\<open>iop_heap_query_block_size\<close> reports, for every address inside a block of the
  chain, the size of that block in bytes with bit 31 set exactly when the block is free, and -1
  for an address outside the arena.\<close>

theorem heap_query_block_size_exact:
  "(\<forall>(al, a, s) \<in> set (blocks (heap_run ops)). 256 * a \<le> unat x \<and> unat x < 256 * (a + s) \<longrightarrow>
      unat (iop_heap_query_block_size x (heap_run ops)) = 256 * s + (if al then 0 else 2 ^ 31)) \<and>
   (unat x < 0x20000 \<or> 0xF0000 \<le> unat x \<longrightarrow> iop_heap_query_block_size x (heap_run ops) = -1)"
proof -
  let ?h = "heap_run ops" and ?P = "\<lambda>(al, a, s). 256 * a \<le> unat x \<and> unat x < 256 * (a + s)"
  obtain K where K: "?h = map enc (blocks ?h) @ zeros K" "all_small (blocks ?h)"
      "tiled heap_lo (blocks ?h) heap_hi"
    using heap_run_inv [of ops] unfolding heap_inv_def by (rule heap_repE)
  have fb: "findblock x ?h = map_option enc (List.find ?P (blocks ?h))"
    using findblock_enc [OF K(2), of x K] unfolding K(1) [symmetric] .
  have hit: "unat (iop_heap_query_block_size x ?h) = 256 * s + (if al then 0 else 2 ^ 31)"
    if m: "(al, a, s) \<in> set (blocks ?h)" and r: "256 * a \<le> unat x" "unat x < 256 * (a + s)" for al a s
  proof -
    have "List.find ?P (blocks ?h) \<noteq> None" unfolding find_None_iff using m r by blast
    then obtain b where b: "List.find ?P (blocks ?h) = Some b" by blast
    then have bm: "b \<in> set (blocks ?h)" "?P b" unfolding find_Some_iff by (metis nth_mem)+
    obtain al' a' s' where b': "b = (al', a', s')" by (cases b)
    have "b = (al, a, s)"
      using tiled_disjoint [OF K(3) m bm(1) [unfolded b']] bm(2) r unfolding b' by auto
    moreover have "s < 32768" "a < 32768" using tiled_bounds [OF K(3) m] by auto
    ultimately have "iop_heap_query_block_size x ?h
        = push_bit 8 (word_of_nat s) OR (if al then 0 else 0x80000000)"
      unfolding iop_heap_query_block_size_def fb b by simp
    then show ?thesis using \<open>s < 32768\<close> unat_or_bit31 [of s] by (simp add: unat_push_8)
  qed
  have miss: "iop_heap_query_block_size x ?h = -1" if "unat x < 0x20000 \<or> 0xF0000 \<le> unat x"
  proof -
    have "List.find ?P (blocks ?h) = None"
      using that tiled_bounds [OF K(3)] by (fastforce simp: find_None_iff)
    then show ?thesis unfolding iop_heap_query_block_size_def fb by simp
  qed
  show ?thesis using hit miss by fast
qed

theorem heap_query_block_size_exact_witness:
  "(True, 512, 3) \<in> set (blocks (heap_run [Acquire (0, 0x300, 0)])) \<and>
   unat (iop_heap_query_block_size 0x20123 (heap_run [Acquire (0, 0x300, 0)])) = 0x300"
proof -
  have m: "(True, 512, 3) \<in> set (blocks (heap_run [Acquire (0, 0x300, 0)]))" by code_simp
  show ?thesis using bspec [OF conjunct1 [OF heap_query_block_size_exact] m, of "0x20123"] m by simp
qed

lemma snapshot_tables_all:
  "length p = SM_MAX * n \<Longrightarrow> snapshot_tables (\<lambda>_. True) tidx n p = Some p"
proof (induction n arbitrary: tidx p)
  case (Suc n)
  then have "snapshot_tables (\<lambda>_. True) (Suc tidx) n (drop SM_MAX p) = Some (drop SM_MAX p)"
    by (intro Suc.IH) simp
  with Suc.prems show ?case by (simp add: new_table_def)
qed simp

text \<open>Loading a saved snapshot with memory available rebuilds the very same chain, so every
  later operation behaves as it would have without the save; the declared size of the snapshot
  is the size of what was written. The chain may have any number of tables up to what the
  32-bit count can hold.\<close>

theorem heap_snapshot_roundtrip:
  assumes "heap_inv h" and "length h < 2 ^ 29"
  shows "iop_heap_snapshot_load (\<lambda>_. True) (iop_heap_snapshot_save h) = Some h \<and>
    unat (iop_heap_snapshot_size h) = 4 * length (iop_heap_snapshot_save h)"
proof -
  have "length h mod SM_MAX = 0" using assms(1) unfolding heap_inv_def heap_rep_def by blast
  then obtain n where n: "length h = SM_MAX * n" by (metis mod_0_imp_dvd dvdE)
  then have q: "length h div SM_MAX = n" "n < 2 ^ 29" using assms(2) by auto
  have "iop_heap_snapshot_load (\<lambda>_. True) (iop_heap_snapshot_save h) = Some h"
    using q by (simp add: iop_heap_snapshot_save_def snapshot_tables_all [OF n])
  moreover have "4 + n * 124 < 4294967296" using n assms(2) by simp
  then have "unat (word_of_nat (4 + n * 124) :: u32) = 4 + n * 124"
    by (rule unat_word_of_nat32)
  then have "unat (iop_heap_snapshot_size h) = 4 + n * 124"
    by (simp add: iop_heap_snapshot_size_def q(1))
  ultimately show ?thesis by (simp add: iop_heap_snapshot_save_def n)
qed

theorem heap_snapshot_roundtrip_witness:
  "iop_heap_snapshot_load (\<lambda>_. True) (iop_heap_snapshot_save (iop_heap_init True)) = Some (iop_heap_init True)"
  using heap_snapshot_roundtrip [OF heap_init_inv(1)]
  by (simp add: iop_heap_init_def new_table_def)

end
