(* ===== verification/Intc.thy ===== *)
theory Intc
  imports Prelude
begin

text \<open>
  The two interrupt controllers and the register that links them: \<open>source/hw/iop_intc.c\<close>,
  \<open>source/hw/ee_intc.c\<close> and \<open>source/hw/iop_icfg.c\<close>. A handler that answers "not my
  register" with 0 is \<open>None\<close> here; a read returns the value and the state after it, since
  reading \<open>I_CTRL\<close> clears it.
\<close>

section \<open>The register-block interface\<close>

text \<open>
  Every memory-mapped block is a pair of handlers that claim an address or decline it, and
  whether an address is claimed depends on the address alone. Blocks whose addresses are
  disjoint can be asked in any order.
\<close>

locale mmio_block =
  fixes load :: "u32 \<Rightarrow> 'd \<Rightarrow> (u32 \<times> 'd) option"
    and store :: "u32 \<Rightarrow> u32 \<Rightarrow> 'd \<Rightarrow> 'd option"
    and readable :: "u32 \<Rightarrow> bool"
    and writable :: "u32 \<Rightarrow> bool"
  assumes read_claims: "load addr d = None \<longleftrightarrow> \<not> readable addr"
    and write_claims: "store addr v d = None \<longleftrightarrow> \<not> writable addr"
begin

lemma read_claimed: "readable addr \<Longrightarrow> \<exists>v d'. load addr d = Some (v, d')"
  using read_claims [of addr d] by (cases "load addr d") auto

lemma write_claimed: "writable addr \<Longrightarrow> \<exists>d'. store addr v d = Some d'"
  using write_claims [of addr v d] by (cases "store addr v d") auto

lemma read_order:
  assumes "\<And>a. \<not> (readable a \<and> other a)" and "\<And>a e. other_read a e = None \<longleftrightarrow> \<not> other a"
  shows "(case load addr d of Some (v, d') \<Rightarrow> Some v | None \<Rightarrow> map_option fst (other_read addr e))
    = (case other_read addr e of Some (v, e') \<Rightarrow> Some v | None \<Rightarrow> map_option fst (load addr d))"
proof (cases "readable addr")
  case True
  then have "other_read addr e = None" using assms by blast
  then show ?thesis by (auto split: option.split)
next
  case False
  then have "load addr d = None" by (simp add: read_claims)
  then show ?thesis by (auto split: option.split)
qed

end

section \<open>The IOP interrupt controller\<close>

record iop_intc_state =
  istat :: u32
  imask :: u32
  ictrl :: u32
  istat_hi :: u32
  imask_hi :: u32

definition iop_intc_init :: iop_intc_state where
  "iop_intc_init = \<lparr>istat = 0, imask = 0, ictrl = 0, istat_hi = 0, imask_hi = 0\<rparr>"

definition iop_intc_raise :: "int \<Rightarrow> iop_intc_state \<Rightarrow> iop_intc_state" where
  "iop_intc_raise irq c =
     (if irq < 0 \<or> irq > 31 then c
      else c\<lparr>istat := istat c OR push_bit (nat irq) 1\<rparr>)"

definition iop_intc_raise_soft :: "int \<Rightarrow> iop_intc_state \<Rightarrow> iop_intc_state" where
  "iop_intc_raise_soft irq c =
     (if irq < 32 \<or> irq > 63 then c
      else c\<lparr>istat_hi := istat_hi c OR push_bit (nat (irq - 32)) 1\<rparr>)"

definition iop_intc_mmio_read32 :: "u32 \<Rightarrow> iop_intc_state \<Rightarrow> (u32 \<times> iop_intc_state) option" where
  "iop_intc_mmio_read32 addr c =
     (if addr = 0x1F801070 then Some (istat c, c)
      else if addr = 0x1F801074 then Some (imask c, c)
      else if addr = 0x1F801078 then Some (ictrl c, c\<lparr>ictrl := 0\<rparr>)
      else None)"

definition iop_intc_mmio_write32 :: "u32 \<Rightarrow> u32 \<Rightarrow> iop_intc_state \<Rightarrow> iop_intc_state option" where
  "iop_intc_mmio_write32 addr v c =
     (if addr = 0x1F801070 then Some (c\<lparr>istat := istat c AND v\<rparr>)
      else if addr = 0x1F801074 then Some (c\<lparr>imask := v\<rparr>)
      else if addr = 0x1F801078 then Some (c\<lparr>ictrl := v\<rparr>)
      else None)"

definition iop_intc_register :: "u32 \<Rightarrow> bool" where
  "iop_intc_register addr \<longleftrightarrow> addr \<in> {0x1F801070, 0x1F801074, 0x1F801078}"

interpretation iop_intc: mmio_block iop_intc_mmio_read32 iop_intc_mmio_write32
    iop_intc_register iop_intc_register
  by unfold_locales
    (auto simp: iop_intc_mmio_read32_def iop_intc_mmio_write32_def iop_intc_register_def)

section \<open>The EE interrupt controller\<close>

record ee_intc_state =
  stat :: u32
  emask :: u32
  raise_count :: "nat \<Rightarrow> u32"

definition ee_intc_init :: ee_intc_state where
  "ee_intc_init = \<lparr>stat = 0, emask = 0, raise_count = (\<lambda>_. 0)\<rparr>"

definition ee_intc_get_raise_count :: "int \<Rightarrow> ee_intc_state \<Rightarrow> u32" where
  "ee_intc_get_raise_count irq c = (if irq < 0 \<or> irq > 31 then 0 else raise_count c (nat irq))"

definition ee_intc_raise :: "int \<Rightarrow> ee_intc_state \<Rightarrow> ee_intc_state" where
  "ee_intc_raise irq c =
     (if irq < 0 \<or> irq > 31 then c
      else c\<lparr>stat := stat c OR push_bit (nat irq) 1,
             raise_count := (raise_count c)(nat irq := raise_count c (nat irq) + 1)\<rparr>)"

definition ee_intc_pending :: "ee_intc_state \<Rightarrow> bool" where
  "ee_intc_pending c \<longleftrightarrow> stat c AND emask c \<noteq> 0"

definition ee_intc_mmio_read32 :: "u32 \<Rightarrow> ee_intc_state \<Rightarrow> (u32 \<times> ee_intc_state) option" where
  "ee_intc_mmio_read32 addr c =
     (if addr = 0x1000F000 then Some (stat c, c)
      else if addr = 0x1000F010 then Some (emask c, c)
      else None)"

definition ee_intc_mmio_write32 :: "u32 \<Rightarrow> u32 \<Rightarrow> ee_intc_state \<Rightarrow> ee_intc_state option" where
  "ee_intc_mmio_write32 addr v c =
     (if addr = 0x1000F000 then Some (c\<lparr>stat := stat c AND NOT v\<rparr>)
      else if addr = 0x1000F010 then Some (c\<lparr>emask := emask c XOR (v AND 0xFFFF)\<rparr>)
      else None)"

definition ee_intc_register :: "u32 \<Rightarrow> bool" where
  "ee_intc_register addr \<longleftrightarrow> addr \<in> {0x1000F000, 0x1000F010}"

interpretation ee_intc: mmio_block ee_intc_mmio_read32 ee_intc_mmio_write32
    ee_intc_register ee_intc_register
  by unfold_locales
    (auto simp: ee_intc_mmio_read32_def ee_intc_mmio_write32_def ee_intc_register_def)

section \<open>ICFG, the IOP register that interrupts the EE\<close>

text \<open>The state is the register with the EE controller the write may raise a line of.\<close>

type_synonym icfg_state = "u32 \<times> ee_intc_state"

definition iop_icfg_mmio_read32 :: "u32 \<Rightarrow> icfg_state \<Rightarrow> (u32 \<times> icfg_state) option" where
  "iop_icfg_mmio_read32 addr = (\<lambda>(icfg, e).
     if addr AND 0x1FFFFFFF \<noteq> 0x1F801450 then None else Some (icfg, (icfg, e)))"

definition iop_icfg_mmio_write32 :: "u32 \<Rightarrow> u32 \<Rightarrow> icfg_state \<Rightarrow> icfg_state option" where
  "iop_icfg_mmio_write32 addr v = (\<lambda>(icfg, e).
     if addr AND 0x1FFFFFFF \<noteq> 0x1F801450 then None
     else Some (v, if v AND 2 \<noteq> 0 then ee_intc_raise 1 e else e))"

definition iop_icfg_register :: "u32 \<Rightarrow> bool" where
  "iop_icfg_register addr \<longleftrightarrow> addr AND 0x1FFFFFFF = 0x1F801450"

interpretation iop_icfg: mmio_block iop_icfg_mmio_read32 iop_icfg_mmio_write32
    iop_icfg_register iop_icfg_register
  by unfold_locales
    (auto simp: iop_icfg_mmio_read32_def iop_icfg_mmio_write32_def iop_icfg_register_def)

section \<open>Raising, masking and acknowledging\<close>

lemma bit_raise: "bit (w OR 2 ^ n) k \<longleftrightarrow> bit (w :: u32) k \<or> (k = n \<and> n < 32)"
  by (auto simp: bit_simps)

lemma bit_and_zero: "(w AND v = (0 :: u32)) \<longleftrightarrow> (\<forall>k. \<not> (bit w k \<and> bit v k))"
  using bit_imp_le_length [of w] by (auto simp: bit_eq_iff bit_simps)

text \<open>Raising a line on the IOP controller sets exactly that bit of \<open>I_STAT\<close>; writing a
  word to \<open>I_STAT\<close> afterwards keeps a bit pending exactly where the written bit is 1, so
  software acknowledges one line by writing the complement of its bit and loses no other.\<close>

theorem iop_intc_raise_ack:
  assumes "0 \<le> irq" and "irq \<le> 31"
  shows "iop_intc_mmio_write32 0x1F801070 (NOT (push_bit (nat irq) 1)) (iop_intc_raise irq c)
       = Some (c\<lparr>istat := istat c AND NOT (push_bit (nat irq) 1)\<rparr>) \<and>
     bit (istat (iop_intc_raise irq c)) (nat irq) \<and>
     (\<forall>k. k \<noteq> nat irq \<longrightarrow> bit (istat (iop_intc_raise irq c)) k = bit (istat c) k)"
proof -
  have "(istat c OR push_bit (nat irq) 1) AND NOT (push_bit (nat irq) 1)
      = istat c AND NOT (push_bit (nat irq) 1)"
    by (rule bit_word_eqI) (auto simp: bit_simps)
  with assms show ?thesis
    by (simp add: iop_intc_mmio_write32_def iop_intc_raise_def bit_raise nat_less_iff)
qed

theorem iop_intc_raise_ack_witness:
  "bit (istat (iop_intc_raise 4 iop_intc_init)) 4 \<and>
   iop_intc_mmio_write32 0x1F801070 (NOT (push_bit 4 1)) (iop_intc_raise 4 iop_intc_init)
     = Some (iop_intc_init\<lparr>istat := 0\<rparr>)"
  using iop_intc_raise_ack [of 4 iop_intc_init] by (simp add: iop_intc_init_def)

text \<open>The EE controller acknowledges with the opposite polarity: writing 1s to
  \<open>INTC_STAT\<close> clears exactly those bits, and writing \<open>INTC_MASK\<close> toggles the low 16 mask
  bits, so writing the same word twice changes nothing. A raised line is pending exactly when
  its mask bit is set or another unmasked line was pending.\<close>

theorem ee_intc_ack_toggle:
  assumes "0 \<le> irq" and "irq \<le> 31"
  shows "ee_intc_mmio_write32 0x1000F000 v c = Some (c\<lparr>stat := stat c AND NOT v\<rparr>) \<and>
    (ee_intc_mmio_write32 0x1000F010 v c \<bind> ee_intc_mmio_write32 0x1000F010 v) = Some c \<and>
    (ee_intc_pending (ee_intc_raise irq c) \<longleftrightarrow> bit (emask c) (nat irq) \<or> ee_intc_pending c) \<and>
    ee_intc_get_raise_count irq (ee_intc_raise irq c) = ee_intc_get_raise_count irq c + 1"
proof -
  have "(emask c XOR (v AND 0xFFFF)) XOR (v AND 0xFFFF) = emask c"
    by (rule bit_word_eqI) (auto simp: bit_simps)
  moreover have "ee_intc_pending (ee_intc_raise irq c) \<longleftrightarrow> bit (emask c) (nat irq) \<or> ee_intc_pending c"
    using assms bit_imp_le_length [of "emask c" "nat irq"]
    by (auto simp: ee_intc_pending_def ee_intc_raise_def bit_and_zero bit_raise nat_less_iff)
  ultimately show ?thesis
    using assms by (simp add: ee_intc_mmio_write32_def ee_intc_get_raise_count_def ee_intc_raise_def)
qed

theorem ee_intc_ack_toggle_witness:
  "ee_intc_pending (ee_intc_raise 1 (ee_intc_init\<lparr>emask := 2\<rparr>)) \<and> \<not> ee_intc_pending (ee_intc_raise 2 (ee_intc_init\<lparr>emask := 2\<rparr>))"
  using ee_intc_ack_toggle [of 1 0 "ee_intc_init\<lparr>emask := 2\<rparr>"] ee_intc_ack_toggle [of 2 0 "ee_intc_init\<lparr>emask := 2\<rparr>"]
  by (simp add: ee_intc_init_def ee_intc_pending_def)

end
