(* ===== verification/Timers.thy ===== *)
theory Timers
  imports Intc
begin

text \<open>
  The counter blocks: the six IOP counters of \<open>source/hw/iop_timers.c\<close> and the four EE
  counters of \<open>source/hw/ee_timers.c\<close>. A block is a list of counters (the C array) and each
  operation works on one element or runs over all of them in index order; a tick threads the
  interrupt controller through, because a match raises a line.
\<close>

section \<open>The IOP counters\<close>

record iop_timer =
  count :: u32
  mode :: u32
  target :: u32

definition iop_timers_init :: "iop_timer list" where
  "iop_timers_init = replicate 6 \<lparr>count = 0, mode = 0, target = 0\<rparr>"

definition iop_timer_base :: "u32 list" where
  "iop_timer_base = [0x1F801100, 0x1F801110, 0x1F801120, 0x1F801480, 0x1F801490, 0x1F8014A0]"

definition iop_timer_irq_bit :: "int list" where
  "iop_timer_irq_bit = [4, 5, 6, 14, 15, 16]"

abbreviation (input) IOP_CNT_MODE_ZERO_RETURN :: u32 where "IOP_CNT_MODE_ZERO_RETURN \<equiv> 0x0008"
abbreviation (input) IOP_CNT_MODE_TARGET_INTR :: u32 where "IOP_CNT_MODE_TARGET_INTR \<equiv> 0x0010"
abbreviation (input) IOP_CNT_MODE_OVERFL_INTR :: u32 where "IOP_CNT_MODE_OVERFL_INTR \<equiv> 0x0020"
abbreviation (input) IOP_CNT_MODE_REPEAT_INTR :: u32 where "IOP_CNT_MODE_REPEAT_INTR \<equiv> 0x0040"
abbreviation (input) IOP_CNT_MODE_INTR_ENABLE :: u32 where "IOP_CNT_MODE_INTR_ENABLE \<equiv> 0x0400"
abbreviation (input) IOP_CNT_MODE_TARGET_FLAG :: u32 where "IOP_CNT_MODE_TARGET_FLAG \<equiv> 0x0800"
abbreviation (input) IOP_CNT_MODE_OVERFLOW_FLAG :: u32 where "IOP_CNT_MODE_OVERFLOW_FLAG \<equiv> 0x1000"
abbreviation (input) IOP_CNT_MODE_STOPPED :: u32 where "IOP_CNT_MODE_STOPPED \<equiv> 0x8000"

text \<open>
  The search over \<open>s_ranges\<close> stops at the first window that contains the address; inside
  the window only the three register offsets are registers.
\<close>

fun find_window :: "u32 \<Rightarrow> u32 \<Rightarrow> nat \<Rightarrow> u32 list \<Rightarrow> (nat \<times> u32) option" where
  "find_window len phys i [] = None"
| "find_window len phys i (base # bases) =
     (if base \<le> phys \<and> phys < base + len then Some (i, phys - base)
      else find_window len phys (Suc i) bases)"

definition iop_find_timer :: "u32 \<Rightarrow> (nat \<times> u32) option" where
  "iop_find_timer addr =
     (case find_window 0x0C (addr AND 0x1FFFFFFF) 0 iop_timer_base of
        Some (i, off) \<Rightarrow> if off = 0 \<or> off = 4 \<or> off = 8 then Some (i, off) else None
      | None \<Rightarrow> None)"

definition iop_timers_mmio_read32 :: "u32 \<Rightarrow> iop_timer list \<Rightarrow> (u32 \<times> iop_timer list) option" where
  "iop_timers_mmio_read32 addr ts =
     (case iop_find_timer addr of
        None \<Rightarrow> None
      | Some (i, off) \<Rightarrow>
          Some (if off = 0 then count (ts ! i) else if off = 4 then mode (ts ! i) else target (ts ! i), ts))"

definition iop_timers_mmio_write32 :: "u32 \<Rightarrow> u32 \<Rightarrow> iop_timer list \<Rightarrow> iop_timer list option" where
  "iop_timers_mmio_write32 addr v ts =
     (case iop_find_timer addr of
        None \<Rightarrow> None
      | Some (i, off) \<Rightarrow>
          let t = ts ! i in
          Some (ts[i := if off = 0 then t\<lparr>count := v\<rparr>
                        else if off = 4 then t\<lparr>mode := (v AND 0x63FF) OR IOP_CNT_MODE_INTR_ENABLE, count := 0\<rparr>
                        else t\<lparr>target := v\<rparr>]))"

text \<open>One counter's share of \<open>iop_timers_tick\<close>: the target test, then the overflow test.\<close>

definition iop_timer_target :: "int \<Rightarrow> iop_timer \<times> iop_intc_state \<Rightarrow> iop_timer \<times> iop_intc_state" where
  "iop_timer_target irq = (\<lambda>(t, c).
     if mode t AND IOP_CNT_MODE_TARGET_FLAG = 0 \<and> count t \<ge> target t then
       let (t1, c1) =
             (if mode t AND IOP_CNT_MODE_TARGET_INTR \<noteq> 0 \<and> mode t AND IOP_CNT_MODE_INTR_ENABLE \<noteq> 0
              then (if mode t AND IOP_CNT_MODE_REPEAT_INTR = 0
                    then t\<lparr>mode := mode t AND NOT IOP_CNT_MODE_INTR_ENABLE\<rparr> else t,
                    iop_intc_raise irq c)
              else (t, c))
       in (if mode t1 AND IOP_CNT_MODE_ZERO_RETURN \<noteq> 0
           then t1\<lparr>count := if target t1 \<noteq> 0 then count t1 - target t1 else 0\<rparr>
           else t1\<lparr>mode := mode t1 OR IOP_CNT_MODE_TARGET_FLAG\<rparr>, c1)
     else (t, c))"

definition iop_timer_overflow :: "int \<Rightarrow> u32 \<Rightarrow> iop_timer \<times> iop_intc_state \<Rightarrow> iop_timer \<times> iop_intc_state" where
  "iop_timer_overflow irq max_count = (\<lambda>(t, c).
     if count t > max_count then
       let (t1, c1) =
             (if mode t AND IOP_CNT_MODE_OVERFL_INTR \<noteq> 0 \<and> mode t AND IOP_CNT_MODE_INTR_ENABLE \<noteq> 0
              then (if mode t AND IOP_CNT_MODE_REPEAT_INTR = 0
                    then t\<lparr>mode := mode t AND NOT IOP_CNT_MODE_INTR_ENABLE\<rparr> else t,
                    iop_intc_raise irq c)
              else (t, c))
       in (t1\<lparr>mode := (mode t1 OR IOP_CNT_MODE_OVERFLOW_FLAG) AND NOT IOP_CNT_MODE_TARGET_FLAG,
              count := count t1 - (max_count + 1)\<rparr>, c1)
     else (t, c))"

definition iop_timer_max :: "nat \<Rightarrow> u32" where
  "iop_timer_max i = (if i < 3 then 0xFFFF else 0xFFFFFFFF)"

definition iop_timer_tick :: "nat \<Rightarrow> iop_timer \<times> iop_intc_state \<Rightarrow> iop_timer \<times> iop_intc_state" where
  "iop_timer_tick i = (\<lambda>(t, c).
     if mode t AND IOP_CNT_MODE_STOPPED \<noteq> 0 then (t, c)
     else iop_timer_overflow (iop_timer_irq_bit ! i) (iop_timer_max i)
            (iop_timer_target (iop_timer_irq_bit ! i) (t\<lparr>count := count t + 1\<rparr>, c)))"

fun iop_timers_tick_from :: "nat \<Rightarrow> iop_timer list \<times> iop_intc_state \<Rightarrow> iop_timer list \<times> iop_intc_state" where
  "iop_timers_tick_from i ([], c) = ([], c)"
| "iop_timers_tick_from i (t # ts, c) =
     (let (t', c') = iop_timer_tick i (t, c);
          (ts', c'') = iop_timers_tick_from (Suc i) (ts, c')
      in (t' # ts', c''))"

definition iop_timers_tick :: "iop_timer list \<times> iop_intc_state \<Rightarrow> iop_timer list \<times> iop_intc_state" where
  "iop_timers_tick = iop_timers_tick_from 0"

definition iop_timers_register :: "u32 \<Rightarrow> bool" where
  "iop_timers_register addr \<longleftrightarrow> iop_find_timer addr \<noteq> None"

interpretation iop_timers: mmio_block iop_timers_mmio_read32 iop_timers_mmio_write32
    iop_timers_register iop_timers_register
  by unfold_locales
    (auto simp: iop_timers_mmio_read32_def iop_timers_mmio_write32_def iop_timers_register_def Let_def
      split: option.splits)

section \<open>The EE counters\<close>

record ee_timer =
  ecount :: u32
  emode :: u32
  comp :: u32
  hold :: u32

record ee_timers_state =
  et :: "ee_timer list"
  irq_count :: "nat \<Rightarrow> u32"
  bus_tick_counter :: u64

definition ee_timers_init :: ee_timers_state where
  "ee_timers_init = \<lparr>et = replicate 4 \<lparr>ecount = 0, emode = 0, comp = 0, hold = 0\<rparr>,
     irq_count = (\<lambda>_. 0), bus_tick_counter = 0\<rparr>"

definition ee_timers_get_irq_count :: "int \<Rightarrow> ee_timers_state \<Rightarrow> u32" where
  "ee_timers_get_irq_count idx s = (if idx < 0 \<or> idx \<ge> 4 then 0 else irq_count s (nat idx))"

definition ee_timer_base :: "u32 list" where
  "ee_timer_base = [0x10000000, 0x10000800, 0x10001000, 0x10001800]"

definition ee_timer_has_hold :: "nat \<Rightarrow> bool" where
  "ee_timer_has_hold i \<longleftrightarrow> i < 2"

definition ee_timer_irq_bit :: "int list" where
  "ee_timer_irq_bit = [9, 10, 11, 12]"

abbreviation (input) EE_CNT_MODE_CLKS :: u32 where "EE_CNT_MODE_CLKS \<equiv> 0x0003"
abbreviation (input) EE_CNT_MODE_ZERO_RETURN :: u32 where "EE_CNT_MODE_ZERO_RETURN \<equiv> 0x0040"
abbreviation (input) EE_CNT_MODE_CUE :: u32 where "EE_CNT_MODE_CUE \<equiv> 0x0080"
abbreviation (input) EE_CNT_MODE_CMP_ENABLE :: u32 where "EE_CNT_MODE_CMP_ENABLE \<equiv> 0x0100"
abbreviation (input) EE_CNT_MODE_OVF_ENABLE :: u32 where "EE_CNT_MODE_OVF_ENABLE \<equiv> 0x0200"
abbreviation (input) EE_CNT_MODE_EQUF :: u32 where "EE_CNT_MODE_EQUF \<equiv> 0x0400"
abbreviation (input) EE_CNT_MODE_OVFF :: u32 where "EE_CNT_MODE_OVFF \<equiv> 0x0800"

definition ee_find_timer :: "u32 \<Rightarrow> (nat \<times> u32) option" where
  "ee_find_timer addr =
     (case find_window 0x40 addr 0 ee_timer_base of
        Some (i, off) \<Rightarrow>
          if off = 0 \<or> off = 0x10 \<or> off = 0x20 \<or> off = 0x30 then Some (i, off) else None
      | None \<Rightarrow> None)"

definition ee_timers_mmio_read32 :: "u32 \<Rightarrow> ee_timers_state \<Rightarrow> (u32 \<times> ee_timers_state) option" where
  "ee_timers_mmio_read32 addr s =
     (case ee_find_timer addr of
        None \<Rightarrow> None
      | Some (i, off) \<Rightarrow>
          let t = et s ! i in
          Some (if off = 0 then ecount t else if off = 0x10 then emode t
                else if off = 0x20 then comp t
                else if ee_timer_has_hold i then hold t else 0, s))"

definition ee_timers_mmio_write32 :: "u32 \<Rightarrow> u32 \<Rightarrow> ee_timers_state \<Rightarrow> ee_timers_state option" where
  "ee_timers_mmio_write32 addr v s =
     (case ee_find_timer addr of
        None \<Rightarrow> None
      | Some (i, off) \<Rightarrow>
          let t = et s ! i; flags = EE_CNT_MODE_EQUF OR EE_CNT_MODE_OVFF in
          Some (s\<lparr>et := (et s)[i :=
            if off = 0 then t\<lparr>ecount := v\<rparr>
            else if off = 0x10 then
              t\<lparr>emode := (v AND NOT flags) OR (emode t AND flags AND NOT (v AND flags))\<rparr>
            else if off = 0x20 then t\<lparr>comp := v\<rparr>
            else if ee_timer_has_hold i then t\<lparr>hold := v\<rparr> else t]\<rparr>))"

definition ee_timer_clocked :: "u64 \<Rightarrow> u32 \<Rightarrow> bool" where
  "ee_timer_clocked n m \<longleftrightarrow>
     (let clks = m AND EE_CNT_MODE_CLKS in
      if clks = 0 then True
      else if clks = 1 then n mod 16 = 0
      else if clks = 2 then n mod 256 = 0
      else n mod 18743 = 0)"

text \<open>What one counter's share of a tick works on: the counter, its interrupt count, the controller.\<close>

definition ee_timer_compare :: "int \<Rightarrow> ee_timer \<times> u32 \<times> ee_intc_state \<Rightarrow> ee_timer \<times> u32 \<times> ee_intc_state" where
  "ee_timer_compare irq = (\<lambda>(t, n, c).
     if ecount t = comp t then
       let (t1, n1, c1) =
             (if emode t AND EE_CNT_MODE_CMP_ENABLE \<noteq> 0 \<and> emode t AND EE_CNT_MODE_EQUF = 0
              then (t\<lparr>emode := emode t OR EE_CNT_MODE_EQUF\<rparr>, n + 1, ee_intc_raise irq c)
              else (t, n, c))
       in (if emode t1 AND EE_CNT_MODE_ZERO_RETURN \<noteq> 0 then t1\<lparr>ecount := 0\<rparr> else t1, n1, c1)
     else (t, n, c))"

definition ee_timer_overflow :: "int \<Rightarrow> ee_timer \<times> u32 \<times> ee_intc_state \<Rightarrow> ee_timer \<times> u32 \<times> ee_intc_state" where
  "ee_timer_overflow irq = (\<lambda>(t, n, c).
     if ecount t > 0xFFFF then
       let (t1, n1, c1) =
             (if emode t AND EE_CNT_MODE_OVF_ENABLE \<noteq> 0 \<and> emode t AND EE_CNT_MODE_OVFF = 0
              then (t\<lparr>emode := emode t OR EE_CNT_MODE_OVFF\<rparr>, n + 1, ee_intc_raise irq c)
              else (t, n, c))
       in (t1\<lparr>ecount := ecount t1 - 0x10000\<rparr>, n1, c1)
     else (t, n, c))"

definition ee_timer_tick :: "u64 \<Rightarrow> nat \<Rightarrow> ee_timer \<times> u32 \<times> ee_intc_state \<Rightarrow> ee_timer \<times> u32 \<times> ee_intc_state" where
  "ee_timer_tick bus i = (\<lambda>(t, n, c).
     if emode t AND EE_CNT_MODE_CUE = 0 \<or> \<not> ee_timer_clocked bus (emode t) then (t, n, c)
     else ee_timer_overflow (ee_timer_irq_bit ! i)
            (ee_timer_compare (ee_timer_irq_bit ! i) (t\<lparr>ecount := ecount t + 1\<rparr>, n, c)))"

fun ee_timers_tick_from :: "u64 \<Rightarrow> nat \<Rightarrow> ee_timer list \<Rightarrow> (nat \<Rightarrow> u32) \<Rightarrow> ee_intc_state
    \<Rightarrow> ee_timer list \<times> (nat \<Rightarrow> u32) \<times> ee_intc_state" where
  "ee_timers_tick_from bus i [] ns c = ([], ns, c)"
| "ee_timers_tick_from bus i (t # ts) ns c =
     (let (t', n', c') = ee_timer_tick bus i (t, ns i, c);
          (ts', ns', c'') = ee_timers_tick_from bus (Suc i) ts (ns(i := n')) c'
      in (t' # ts', ns', c''))"

definition ee_timers_tick :: "ee_timers_state \<times> ee_intc_state \<Rightarrow> ee_timers_state \<times> ee_intc_state" where
  "ee_timers_tick = (\<lambda>(s, c).
     let bus = bus_tick_counter s + 1;
         (ts, ns, c') = ee_timers_tick_from bus 0 (et s) (irq_count s) c
     in (s\<lparr>et := ts, irq_count := ns, bus_tick_counter := bus\<rparr>, c'))"

definition ee_timers_register :: "u32 \<Rightarrow> bool" where
  "ee_timers_register addr \<longleftrightarrow> ee_find_timer addr \<noteq> None"

interpretation ee_timers: mmio_block ee_timers_mmio_read32 ee_timers_mmio_write32
    ee_timers_register ee_timers_register
  by unfold_locales
    (auto simp: ee_timers_mmio_read32_def ee_timers_mmio_write32_def ee_timers_register_def Let_def
      split: option.splits)

section \<open>IOP counters: bounds, period and the missing 32-bit overflow\<close>

lemma iop_intc_raise_idem [simp]: "iop_intc_raise irq (iop_intc_raise irq c) = iop_intc_raise irq c"
  by (simp add: iop_intc_raise_def or.assoc)

lemma word_max32: "\<not> (0xFFFFFFFF < (w :: u32))"
proof -
  have "(0xFFFFFFFF :: u32) = - 1" by simp
  then show ?thesis by (simp only: not_less word_order.extremum)
qed

text \<open>A counter programmed for periodic interrupts: running, target interrupt on, repeat, zero return.\<close>

definition periodic :: "u32 \<Rightarrow> bool" where
  "periodic m \<longleftrightarrow> m AND IOP_CNT_MODE_STOPPED = 0 \<and> m AND IOP_CNT_MODE_TARGET_FLAG = 0
     \<and> m AND IOP_CNT_MODE_TARGET_INTR \<noteq> 0 \<and> m AND IOP_CNT_MODE_INTR_ENABLE \<noteq> 0
     \<and> m AND IOP_CNT_MODE_REPEAT_INTR \<noteq> 0 \<and> m AND IOP_CNT_MODE_ZERO_RETURN \<noteq> 0"

lemma word_Suc_le:
  assumes "(a :: u32) < b"
  shows "b \<le> a + 1 \<longleftrightarrow> a + 1 = b" and "a + 1 \<le> b" and "unat (a + 1) = unat a + 1"
proof -
  have "unat a < unat b" using assms by (simp add: word_less_nat_alt)
  then have "unat a + 1 < 4294967296" using unat_u32 [of b] by linarith
  then show u: "unat (a + 1) = unat a + 1" by (simp add: unat_word_ariths)
  show "b \<le> a + 1 \<longleftrightarrow> a + 1 = b" "a + 1 \<le> b"
    using \<open>unat a < unat b\<close> u by (auto simp: word_le_nat_alt word_unat_eq_iff)
qed

lemma iop_timer_periodic_step:
  assumes "periodic (mode t)" and "count t < target t" and "i < 3 \<longrightarrow> target t \<le> 0x10000"
  shows "iop_timer_tick i (t, c) =
    (if count t + 1 = target t then (t\<lparr>count := 0\<rparr>, iop_intc_raise (iop_timer_irq_bit ! i) c)
     else (t\<lparr>count := count t + 1\<rparr>, c))"
proof -
  note s = word_Suc_le [OF assms(2)]
  have nz: "target t \<noteq> 0" using assms(2) by auto
  have ov: "\<not> iop_timer_max i < count t + 1" if "count t + 1 \<noteq> target t"
  proof (cases "i < 3")
    case True
    then have "unat (target t) \<le> 65536" using assms(3) by (simp add: word_le_nat_alt)
    moreover have "unat (count t + 1) \<noteq> unat (target t)" using that by (simp add: word_unat_eq_iff)
    ultimately have "unat (count t + 1) \<le> 65535"
      using s(2) by (simp add: word_le_nat_alt)
    with True show ?thesis by (simp add: iop_timer_max_def word_less_nat_alt)
  next
    case False
    then show ?thesis by (simp add: iop_timer_max_def word_max32)
  qed
  have t: "iop_timer_target irq (t\<lparr>count := count t + 1\<rparr>, c) =
      (if count t + 1 = target t then (t\<lparr>count := 0\<rparr>, iop_intc_raise irq c)
       else (t\<lparr>count := count t + 1\<rparr>, c))" for irq
    using assms(1) s(1) nz by (auto simp: iop_timer_target_def periodic_def Let_def)
  show ?thesis
    unfolding iop_timer_tick_def using assms(1) ov
    by (auto simp: t periodic_def iop_timer_overflow_def iop_timer_max_def)
qed

text \<open>A counter programmed for periodic interrupts with target \<open>T\<close> counts modulo \<open>T\<close>:
  after \<open>n\<close> ticks from 0 it holds \<open>n mod T\<close>, its mode is unchanged so that it goes on, and
  its interrupt line is raised from the \<open>T\<close>-th tick on and not before.\<close>

theorem iop_timer_period:
  assumes "periodic (mode t)" and "target t \<noteq> 0" and "i < 3 \<longrightarrow> target t \<le> 0x10000" and "count t = 0"
  shows "((iop_timer_tick i) ^^ n) (t, c) =
    (t\<lparr>count := word_of_nat (n mod unat (target t))\<rparr>,
     if unat (target t) \<le> n then iop_intc_raise (iop_timer_irq_bit ! i) c else c)"
proof (induction n)
  case 0
  have "t = t\<lparr>count := 0\<rparr>" using assms(4) by simp
  moreover have "0 < unat (target t)" using assms(2) by (simp add: unat_gt_0)
  ultimately show ?case by simp
next
  case (Suc n)
  let ?T = "unat (target t)" and ?k = "word_of_nat (n mod unat (target t)) :: u32"
  have T: "0 < ?T" "?T < 4294967296" using assms(2) by (simp_all add: unat_gt_0)
  have m: "n mod ?T < ?T" using T(1) by simp
  then have u: "unat ?k = n mod ?T" using T(2) by (intro unat_word_of_nat32) linarith
  have lt: "?k < target t" using m u by (simp add: word_less_nat_alt)
  have eq: "?k + 1 = target t \<longleftrightarrow> Suc (n mod ?T) = ?T"
    using word_Suc_le(3) [OF lt] u by (simp add: word_unat_eq_iff)
  have step: "iop_timer_tick i (t\<lparr>count := ?k\<rparr>, c') =
      (if Suc (n mod ?T) = ?T then (t\<lparr>count := 0\<rparr>, iop_intc_raise (iop_timer_irq_bit ! i) c')
       else (t\<lparr>count := ?k + 1\<rparr>, c'))" for c'
    using iop_timer_periodic_step [of "t\<lparr>count := ?k\<rparr>" i c'] assms(1,3) lt eq by simp
  have sm: "Suc n mod ?T = (if Suc (n mod ?T) = ?T then 0 else Suc (n mod ?T))"
    by (rule mod_Suc)
  have le: "?T \<le> Suc n \<longleftrightarrow> ?T \<le> n \<or> Suc (n mod ?T) = ?T"
    using m by (metis Suc_leI le_SucE le_SucI mod_less mod_less_eq_dividend not_le order_refl)
  show ?case
  proof (cases "Suc (n mod ?T) = ?T")
    case True
    with le sm show ?thesis unfolding funpow.simps comp_apply Suc.IH step by simp
  next
    case False
    have "?k + 1 = word_of_nat (Suc (n mod ?T))" by simp
    with False le sm show ?thesis unfolding funpow.simps comp_apply Suc.IH step by simp
  qed
qed

theorem iop_timer_period_witness:
  "((iop_timer_tick 0) ^^ 7) (\<lparr>count = 0, mode = 0x458, target = 5\<rparr>, iop_intc_init)
     = (\<lparr>count = 2, mode = 0x458, target = 5\<rparr>, iop_intc_raise 4 iop_intc_init)"
  using iop_timer_period [of "\<lparr>count = 0, mode = 0x458, target = 5\<rparr>" 0 7 iop_intc_init]
  by (simp add: periodic_def iop_timer_irq_bit_def)

text \<open>The 16-bit counters stay 16-bit: whatever the mode and target, a tick of counter 0, 1
  or 2 keeps the count at most \<open>0xFFFF\<close>.\<close>

theorem iop_timer16_bounded:
  assumes "i < 3" and "count t \<le> 0xFFFF"
  shows "count (fst (((iop_timer_tick i) ^^ n) (t, c))) \<le> 0xFFFF"
proof (induction n)
  case (Suc n)
  obtain t1 c1 where t1: "((iop_timer_tick i) ^^ n) (t, c) = (t1, c1)" by force
  then have b: "unat (count t1) \<le> 65535" using Suc by (simp add: word_le_nat_alt)
  then have u: "unat (count t1 + 1) = unat (count t1) + 1" by (simp add: unat_word_ariths)
  obtain t2 c2 where t2: "iop_timer_target (iop_timer_irq_bit ! i) (t1\<lparr>count := count t1 + 1\<rparr>, c1) = (t2, c2)"
    by force
  have "count t2 = count t1 + 1 \<or> count t2 = 0 \<or>
      (target t1 \<le> count t1 + 1 \<and> count t2 = count t1 + 1 - target t1)"
    using t2 by (auto simp: iop_timer_target_def Let_def split: if_splits)
  then have "unat (count t2) \<le> 65536"
    using u b by (auto simp: unat_sub word_le_nat_alt)
  then have "unat (count (fst (iop_timer_overflow (iop_timer_irq_bit ! i) 0xFFFF (t2, c2)))) \<le> 65535"
    by (auto simp: iop_timer_overflow_def Let_def word_less_nat_alt unat_sub word_le_nat_alt
        split: if_splits)
  then have "unat (count (fst (iop_timer_tick i (t1, c1)))) \<le> 65535"
    using b assms(1) by (simp add: t2 iop_timer_tick_def iop_timer_max_def)
  then show ?case by (simp add: t1 word_le_nat_alt)
qed (use assms in simp)

theorem iop_timer16_bounded_witness:
  "count (fst (((iop_timer_tick 2) ^^ 3) (\<lparr>count = 0xFFFF, mode = 0, target = 9\<rparr>, iop_intc_init))) \<le> 0xFFFF"
  using iop_timer16_bounded [of 2 "\<lparr>count = 0xFFFF, mode = 0, target = 9\<rparr>" 3 iop_intc_init] by simp

text \<open>The 32-bit counters 3 to 5 have no overflow at all: the test \<open>count > max_count\<close>
  cannot hold for \<open>max_count = 0xFFFFFFFF\<close>. A tick never sets their overflow flag and never
  clears their target flag, so with the overflow interrupt programmed and the count at its
  maximum a tick wraps the count to 0 and raises nothing.\<close>

theorem iop_timer32_never_overflows:
  assumes "3 \<le> i" and "mode t AND 0x8000 = 0" and "mode t AND 0x800 \<noteq> 0"
  shows "iop_timer_tick i (t, c) = (t\<lparr>count := count t + 1\<rparr>, c)"
  using assms
  by (auto simp: iop_timer_tick_def iop_timer_target_def iop_timer_overflow_def iop_timer_max_def word_max32)

theorem iop_timer32_never_overflows_witness:
  "iop_timer_tick 3 (\<lparr>count = 0xFFFFFFFF, mode = 0xC20, target = 1\<rparr>, iop_intc_init)
     = (\<lparr>count = 0, mode = 0xC20, target = 1\<rparr>, iop_intc_init)"
  using iop_timer32_never_overflows [of 3 "\<lparr>count = 0xFFFFFFFF, mode = 0xC20, target = 1\<rparr>" iop_intc_init]
  by simp

section \<open>EE counters\<close>

text \<open>Writing the mode register of an EE counter stores every configuration bit as written
  and treats the two flags as write-1-to-clear: a flag is set afterwards exactly when it was set
  and the written bit is 0. No other counter and no other register changes.\<close>

theorem ee_timer_mode_write:
  assumes "ee_find_timer addr = Some (i, 0x10)" and "i < length (et s)"
  shows "\<exists>s'. ee_timers_mmio_write32 addr v s = Some s' \<and>
    (\<forall>k. bit (emode (et s' ! i)) k =
       (if k = 10 \<or> k = 11 then bit (emode (et s ! i)) k \<and> \<not> bit v k else bit v k)) \<and>
    et s' = (et s)[i := (et s ! i)\<lparr>emode := emode (et s' ! i)\<rparr>] \<and>
    irq_count s' = irq_count s \<and> bus_tick_counter s' = bus_tick_counter s"
proof -
  have f: "(0x400 OR 0x800 :: u32) = push_bit 10 (mask 2)" by (simp add: mask_eq_exp_minus_1)
  have b: "bit (push_bit 10 (mask 2 :: u32)) k \<longleftrightarrow> k = 10 \<or> k = 11" for k
    by (auto simp: bit_simps)
  have "bit ((v AND NOT (0x400 OR 0x800)) OR (w AND (0x400 OR 0x800) AND NOT (v AND (0x400 OR 0x800)))) k
      = (if k = 10 \<or> k = 11 then bit w k \<and> \<not> bit v k else bit v k)" for w :: u32 and k
    using bit_imp_le_length [of w k] bit_imp_le_length [of v k]
    unfolding f by (auto simp: bit_and_iff bit_or_iff bit_not_iff b)
  with assms show ?thesis
    unfolding ee_timers_mmio_write32_def Let_def by simp
qed

theorem ee_timer_mode_write_witness:
  "ee_find_timer 0x10000810 = Some (1, 0x10) \<and>
   (\<exists>s'. ee_timers_mmio_write32 0x10000810 0x480 ee_timers_init = Some s' \<and> bit (emode (et s' ! 1)) 7)"
proof -
  have f: "ee_find_timer 0x10000810 = Some (1, 0x10)"
    by (simp add: ee_find_timer_def ee_timer_base_def)
  show ?thesis
    using ee_timer_mode_write [OF f, of ee_timers_init "0x480"] f
    by (auto simp: ee_timers_init_def)
qed

text \<open>A free-running counter: enabled, no zero return, both interrupts off.\<close>

definition free_running :: "u32 \<Rightarrow> bool" where
  "free_running m \<longleftrightarrow> m AND EE_CNT_MODE_CUE \<noteq> 0 \<and> m AND EE_CNT_MODE_ZERO_RETURN = 0
     \<and> m AND EE_CNT_MODE_CMP_ENABLE = 0 \<and> m AND EE_CNT_MODE_OVF_ENABLE = 0"

definition clock_divider :: "u32 \<Rightarrow> nat" where
  "clock_divider m = (let clks = m AND EE_CNT_MODE_CLKS in
     if clks = 0 then 1 else if clks = 1 then 16 else if clks = 2 then 256 else 18743)"

lemma ee_timer_clocked_iff: "ee_timer_clocked n m \<longleftrightarrow> clock_divider m dvd unat n"
proof -
  have "n mod d = 0 \<longleftrightarrow> unat d dvd unat n" for d :: u64
    by (simp add: dvd_eq_mod_eq_0 flip: unat_mod) (simp add: unat_eq_0)
  then show ?thesis by (simp add: ee_timer_clocked_def clock_divider_def Let_def)
qed

lemma ee_timer_free_step:
  assumes "free_running (emode t)" and "unat (ecount t) < 65536"
  shows "ee_timer_tick bus i (t, n, c) =
    (if clock_divider (emode t) dvd unat bus
     then (t\<lparr>ecount := word_of_nat ((unat (ecount t) + 1) mod 65536)\<rparr>, n, c) else (t, n, c))"
proof -
  have u: "unat (ecount t + 1) = unat (ecount t) + 1"
    using assms(2) by (simp add: unat_word_ariths)
  have "ee_timer_overflow irq (t\<lparr>ecount := ecount t + 1\<rparr>, n, c)
      = (t\<lparr>ecount := word_of_nat ((unat (ecount t) + 1) mod 65536)\<rparr>, n, c)" for irq
  proof (cases "unat (ecount t) = 65535")
    case True
    then have "ecount t = 65535" by (simp add: word_unat_eq_iff)
    then show ?thesis using assms(1) by (simp add: ee_timer_overflow_def free_running_def)
  next
    case False
    with assms(2) u show ?thesis
      by (simp add: ee_timer_overflow_def word_less_nat_alt)
  qed
  moreover have "ee_timer_compare irq (t\<lparr>ecount := ecount t + 1\<rparr>, n, c) = (t\<lparr>ecount := ecount t + 1\<rparr>, n, c)" for irq
    using assms(1) by (simp add: ee_timer_compare_def free_running_def)
  ultimately show ?thesis
    using assms(1) by (simp add: ee_timer_tick_def ee_timer_clocked_iff free_running_def)
qed

text \<open>A counter's new value does not depend on the interrupt state the tick threads through.\<close>

lemma ee_timer_tick_fst:
  "fst (ee_timer_tick bus i (t, n, c)) = fst (ee_timer_tick bus i (t, n', c'))"
  by (auto simp: ee_timer_tick_def ee_timer_compare_def ee_timer_overflow_def Let_def)

lemma ee_timers_tick_from_nth:
  "length (fst (ee_timers_tick_from bus i ts ns c)) = length ts \<and>
   (\<forall>j < length ts. fst (ee_timers_tick_from bus i ts ns c) ! j = fst (ee_timer_tick bus (i + j) (ts ! j, 0, ee_intc_init)))"
proof (induction ts arbitrary: i ns c)
  case (Cons t ts)
  obtain t' n' c' where t': "ee_timer_tick bus i (t, ns i, c) = (t', n', c')" by (metis prod_cases3)
  have "fst (ee_timer_tick bus i (t, 0, ee_intc_init)) = t'"
    using t' ee_timer_tick_fst [of bus i t "ns i" c 0 ee_intc_init] by simp
  moreover obtain ns' where "fst (ee_timers_tick_from bus i (t # ts) ns c) = t' # fst (ee_timers_tick_from bus (Suc i) ts ns' c')"
  proof
    show "fst (ee_timers_tick_from bus i (t # ts) ns c) = t' # fst (ee_timers_tick_from bus (Suc i) ts (ns(i := n')) c')"
      using t' by (simp add: Let_def split: prod.split)
  qed
  ultimately show ?case
    using Cons.IH [of "Suc i" ns' c'] by (auto simp: nth_Cons simp del: ee_timers_tick_from.simps split: nat.split)
qed simp

lemma ee_timers_tick_nth:
  assumes "ee_timers_tick (s, c) = (s', c')"
  shows "bus_tick_counter s' = bus_tick_counter s + 1" and "length (et s') = length (et s)"
    and "j < length (et s) \<Longrightarrow>
      et s' ! j = fst (ee_timer_tick (bus_tick_counter s + 1) j (et s ! j, 0, ee_intc_init))"
  using assms ee_timers_tick_from_nth [of "bus_tick_counter s + 1" 0 "et s" "irq_count s" c]
  by (auto simp: ee_timers_tick_def Let_def split: prod.splits)

lemma div_Suc_dvd: "0 < d \<Longrightarrow> Suc m div d = m div d + (if d dvd Suc m then 1 else 0)" for d m :: nat
  by (simp add: div_Suc dvd_eq_mod_eq_0)

text \<open>A free-running EE counter counts its selected clock: after \<open>n\<close> ticks of the block it
  has advanced, modulo 65536, by the number of multiples of its divider (1, 16, 256 or 18743
  cycles) that the bus counter passed, whatever the other counters do.\<close>

theorem ee_timer_counts_clock:
  assumes "free_running (emode (et s ! j))" and "j < length (et s)" and "unat (ecount (et s ! j)) < 65536"
    and "unat (bus_tick_counter s) + n < 2 ^ 64"
  shows "et (fst ((ee_timers_tick ^^ n) (s, c))) ! j = (et s ! j)\<lparr>ecount := word_of_nat
    ((unat (ecount (et s ! j)) + ((unat (bus_tick_counter s) + n) div clock_divider (emode (et s ! j))
        - unat (bus_tick_counter s) div clock_divider (emode (et s ! j)))) mod 65536)\<rparr>"
proof -
  let ?d = "clock_divider (emode (et s ! j))" and ?k = "unat (bus_tick_counter s)"
    and ?c0 = "unat (ecount (et s ! j))"
  have d: "0 < ?d" by (simp add: clock_divider_def Let_def)
  define adv where "adv n = (?k + n) div ?d - ?k div ?d" for n
  have adv_Suc: "adv (Suc m) = adv m + (if ?d dvd Suc (?k + m) then 1 else 0)" for m
    using div_Suc_dvd [OF d, of "?k + m"] div_le_mono [of ?k "?k + m" ?d] by (simp add: adv_def)
  have "et (fst ((ee_timers_tick ^^ n) (s, c))) ! j = (et s ! j)\<lparr>ecount := word_of_nat ((?c0 + adv n) mod 65536)\<rparr>
      \<and> bus_tick_counter (fst ((ee_timers_tick ^^ n) (s, c))) = word_of_nat (?k + n)
      \<and> length (et (fst ((ee_timers_tick ^^ n) (s, c)))) = length (et s)"
    using assms(4)
  proof (induction n)
    case 0
    then show ?case using assms(3) by (simp add: adv_def)
  next
    case (Suc n)
    obtain s1 c1 where s1: "(ee_timers_tick ^^ n) (s, c) = (s1, c1)" by force
    obtain s2 c2 where s2: "ee_timers_tick (s1, c1) = (s2, c2)" by force
    have IH: "et s1 ! j = (et s ! j)\<lparr>ecount := word_of_nat ((?c0 + adv n) mod 65536)\<rparr>"
        "bus_tick_counter s1 = word_of_nat (?k + n)" "length (et s1) = length (et s)"
      using Suc.IH Suc.prems s1 by simp_all
    have ub: "unat (bus_tick_counter s1 + 1) = Suc (?k + n)"
    proof -
      have "bus_tick_counter s1 + 1 = word_of_nat (Suc (?k + n))" using IH(2) by simp
      moreover have "unat (word_of_nat (Suc (?k + n)) :: u64) = Suc (?k + n)"
        using Suc.prems by (intro unat_word_of_nat64) simp
      ultimately show ?thesis by (simp only:)
    qed
    have step: "et s2 ! j = (et s ! j)\<lparr>ecount := word_of_nat ((?c0 + adv (Suc n)) mod 65536)\<rparr>"
      using ee_timers_tick_nth(3) [OF s2, of j] IH(1,3) assms(1,2)
        ee_timer_free_step [of "et s1 ! j" "bus_tick_counter s1 + 1" j 0 ee_intc_init]
      by (auto simp: ub adv_Suc mod_Suc_eq)
    show ?case
      using step ee_timers_tick_nth(1,2) [OF s2] IH s1 s2 by simp
  qed
  then show ?thesis by (simp add: adv_def)
qed

theorem ee_timer_counts_clock_witness:
  "et (fst ((ee_timers_tick ^^ 40) (ee_timers_init\<lparr>et := [\<lparr>ecount = 5, emode = 0x81, comp = 0, hold = 0\<rparr>]\<rparr>, ee_intc_init))) ! 0
     = \<lparr>ecount = 7, emode = 0x81, comp = 0, hold = 0\<rparr>"
  using ee_timer_counts_clock [of "ee_timers_init\<lparr>et := [\<lparr>ecount = 5, emode = 0x81, comp = 0, hold = 0\<rparr>]\<rparr>" 0 40 ee_intc_init]
  by (simp add: ee_timers_init_def free_running_def clock_divider_def)

end
