(* ===== verification/Rom.thy ===== *)
theory Rom
  imports Prelude
begin

text \<open>
  The BIOS image (\<open>include/core/bios_loader.h\<close>) that both processors read and execute; only offsets
  below \<open>bsize\<close> are ever used.
\<close>

record bios_image =
  bdata :: "u32 \<Rightarrow> u8"
  bsize :: u32

end
