(* ===== verification/Iop_Mem.thy ===== *)
theory Iop_Mem
  imports Timers Rom
begin

text \<open>
  The IOP's processor state (\<open>include/core/iop/iop_core.h\<close>) and its memory interface
  (\<open>source/core/iop/iop_core.c\<close>, \<open>iop_mem_ptr\<close> to \<open>iop_mem_write32\<close>).

  The processor state and the devices the memory interface reaches are one record. The
  interrupt controller, the counters and ICFG are modelled; the SIF mailbox, the DMA
  controller, the two SPU blocks, the two CD blocks and SIO2 are the handlers of an
  \<open>iop_bus\<close>, an argument of every access, over a device state of their own type. A handler
  that declines an address is \<open>None\<close>.

  RAM and the BIOS image are functions from the offset to the byte; only offsets below
  \<open>ram_size\<close> and \<open>bsize\<close> are ever used.
\<close>

section \<open>State\<close>

record 'x iop_state =
  gpr :: "nat \<Rightarrow> u32"
  pc :: u32
  next_pc :: u32
  hi :: u32
  lo :: u32
  cop0 :: "nat \<Rightarrow> u32"
  ram :: "u32 \<Rightarrow> u8"
  ram_size :: u32
  bios :: "bios_image option"
  instructions_executed :: u64
  halted :: bool
  halt_reason :: string
  sched_ticks :: u64
  idle :: bool
  exception_pending :: bool
  devtable_pending_image :: u32
  intc :: iop_intc_state
  timers :: "iop_timer list"
  icfg :: u32
  eintc :: ee_intc_state
  ext :: 'x

text \<open>The blocks that are not modelled, as the handlers the memory interface calls.\<close>

record 'x iop_bus =
  cdvd_read8 :: "u32 \<Rightarrow> 'x iop_state \<Rightarrow> (u8 \<times> 'x iop_state) option"
  cdvd_write8 :: "u32 \<Rightarrow> u8 \<Rightarrow> 'x iop_state \<Rightarrow> 'x iop_state option"
  cdrom_legacy_read8 :: "u32 \<Rightarrow> 'x iop_state \<Rightarrow> (u8 \<times> 'x iop_state) option"
  cdrom_legacy_write8 :: "u32 \<Rightarrow> u8 \<Rightarrow> 'x iop_state \<Rightarrow> 'x iop_state option"
  sio2_read8 :: "u32 \<Rightarrow> 'x iop_state \<Rightarrow> (u8 \<times> 'x iop_state) option"
  sio2_write8 :: "u32 \<Rightarrow> u8 \<Rightarrow> 'x iop_state \<Rightarrow> 'x iop_state option"
  sio2_read32 :: "u32 \<Rightarrow> 'x iop_state \<Rightarrow> (u32 \<times> 'x iop_state) option"
  sio2_write32 :: "u32 \<Rightarrow> u32 \<Rightarrow> 'x iop_state \<Rightarrow> 'x iop_state option"
  spu2_read16 :: "u32 \<Rightarrow> 'x iop_state \<Rightarrow> (u16 \<times> 'x iop_state) option"
  spu2_write16 :: "u32 \<Rightarrow> u16 \<Rightarrow> 'x iop_state \<Rightarrow> 'x iop_state option"
  spu2_read32 :: "u32 \<Rightarrow> 'x iop_state \<Rightarrow> (u32 \<times> 'x iop_state) option"
  spu2_write32 :: "u32 \<Rightarrow> u32 \<Rightarrow> 'x iop_state \<Rightarrow> 'x iop_state option"
  spu_legacy_read16 :: "u32 \<Rightarrow> 'x iop_state \<Rightarrow> (u16 \<times> 'x iop_state) option"
  spu_legacy_write16 :: "u32 \<Rightarrow> u16 \<Rightarrow> 'x iop_state \<Rightarrow> 'x iop_state option"
  spu_legacy_read32 :: "u32 \<Rightarrow> 'x iop_state \<Rightarrow> (u32 \<times> 'x iop_state) option"
  spu_legacy_write32 :: "u32 \<Rightarrow> u32 \<Rightarrow> 'x iop_state \<Rightarrow> 'x iop_state option"
  sif_read32 :: "u32 \<Rightarrow> 'x iop_state \<Rightarrow> (u32 \<times> 'x iop_state) option"
  sif_write32 :: "u32 \<Rightarrow> u32 \<Rightarrow> 'x iop_state \<Rightarrow> 'x iop_state option"
  dma_read32 :: "u32 \<Rightarrow> 'x iop_state \<Rightarrow> (u32 \<times> 'x iop_state) option"
  dma_write32 :: "u32 \<Rightarrow> u32 \<Rightarrow> 'x iop_state \<Rightarrow> 'x iop_state option"

section \<open>The modelled blocks as handlers on the whole state\<close>

definition intc_read32 :: "u32 \<Rightarrow> 'x iop_state \<Rightarrow> (u32 \<times> 'x iop_state) option" where
  "intc_read32 addr st = map_option (\<lambda>(v, c). (v, st\<lparr>intc := c\<rparr>)) (iop_intc_mmio_read32 addr (intc st))"

definition intc_write32 :: "u32 \<Rightarrow> u32 \<Rightarrow> 'x iop_state \<Rightarrow> 'x iop_state option" where
  "intc_write32 addr v st = map_option (\<lambda>c. st\<lparr>intc := c\<rparr>) (iop_intc_mmio_write32 addr v (intc st))"

definition timers_read32 :: "u32 \<Rightarrow> 'x iop_state \<Rightarrow> (u32 \<times> 'x iop_state) option" where
  "timers_read32 addr st = map_option (\<lambda>(v, t). (v, st\<lparr>timers := t\<rparr>)) (iop_timers_mmio_read32 addr (timers st))"

definition timers_write32 :: "u32 \<Rightarrow> u32 \<Rightarrow> 'x iop_state \<Rightarrow> 'x iop_state option" where
  "timers_write32 addr v st = map_option (\<lambda>t. st\<lparr>timers := t\<rparr>) (iop_timers_mmio_write32 addr v (timers st))"

definition icfg_read32 :: "u32 \<Rightarrow> 'x iop_state \<Rightarrow> (u32 \<times> 'x iop_state) option" where
  "icfg_read32 addr st =
     map_option (\<lambda>(v, i, e). (v, st\<lparr>icfg := i, eintc := e\<rparr>)) (iop_icfg_mmio_read32 addr (icfg st, eintc st))"

definition icfg_write32 :: "u32 \<Rightarrow> u32 \<Rightarrow> 'x iop_state \<Rightarrow> 'x iop_state option" where
  "icfg_write32 addr v st =
     map_option (\<lambda>(i, e). st\<lparr>icfg := i, eintc := e\<rparr>) (iop_icfg_mmio_write32 addr v (icfg st, eintc st))"

section \<open>Memory access\<close>

text \<open>Where an access of \<open>sz\<close> bytes lands: in RAM, in the BIOS image, or nowhere.\<close>

datatype mem_ptr = Ram u32 | Bios u32

definition iop_mem_ptr :: "'x iop_state \<Rightarrow> u32 \<Rightarrow> u32 \<Rightarrow> mem_ptr option" where
  "iop_mem_ptr st addr sz =
     (if addr \<ge> 0xBFC00000 then
        let off = addr - 0xBFC00000 in
        (case bios st of
           Some b \<Rightarrow> if off + sz \<le> bsize b then Some (Bios off) else None
         | None \<Rightarrow> None)
      else
        let phys = addr AND 0x1FFFFFFF in
        if phys + sz \<le> ram_size st then Some (Ram phys) else None)"

fun mem_byte :: "'x iop_state \<Rightarrow> mem_ptr \<Rightarrow> u32 \<Rightarrow> u8" where
  "mem_byte st (Ram p) k = ram st (p + k)"
| "mem_byte st (Bios p) k = (case bios st of Some b \<Rightarrow> bdata b (p + k) | None \<Rightarrow> 0)"

fun mem_set_byte :: "mem_ptr \<Rightarrow> u32 \<Rightarrow> u8 \<Rightarrow> 'x iop_state \<Rightarrow> 'x iop_state" where
  "mem_set_byte (Ram p) k v st = st\<lparr>ram := (ram st)(p + k := v)\<rparr>"
| "mem_set_byte (Bios p) k v st =
     st\<lparr>bios := map_option (\<lambda>b. b\<lparr>bdata := (bdata b)(p + k := v)\<rparr>) (bios st)\<rparr>"

text \<open>The handlers in the order the code asks them; the first that claims the address answers.\<close>

fun first_read :: "(u32 \<Rightarrow> 'x iop_state \<Rightarrow> ('v \<times> 'x iop_state) option) list \<Rightarrow> u32 \<Rightarrow> 'x iop_state \<Rightarrow> ('v \<times> 'x iop_state) option" where
  "first_read [] addr st = None"
| "first_read (h # hs) addr st = (case h addr st of Some r \<Rightarrow> Some r | None \<Rightarrow> first_read hs addr st)"

fun first_write :: "(u32 \<Rightarrow> 'v \<Rightarrow> 'x iop_state \<Rightarrow> 'x iop_state option) list \<Rightarrow> u32 \<Rightarrow> 'v \<Rightarrow> 'x iop_state \<Rightarrow> 'x iop_state option" where
  "first_write [] addr v st = None"
| "first_write (h # hs) addr v st = (case h addr v st of Some r \<Rightarrow> Some r | None \<Rightarrow> first_write hs addr v st)"

definition intc_window :: "u32 \<Rightarrow> bool" where
  "intc_window addr \<longleftrightarrow> 0x1F801070 \<le> addr \<and> addr \<le> 0x1F80107B"

definition read8_handlers :: "'x iop_bus \<Rightarrow> (u32 \<Rightarrow> 'x iop_state \<Rightarrow> (u8 \<times> 'x iop_state) option) list" where
  "read8_handlers bus = [cdvd_read8 bus, cdrom_legacy_read8 bus, sio2_read8 bus]"

definition read16_handlers :: "'x iop_bus \<Rightarrow> (u32 \<Rightarrow> 'x iop_state \<Rightarrow> (u16 \<times> 'x iop_state) option) list" where
  "read16_handlers bus = [spu2_read16 bus, spu_legacy_read16 bus,
     \<lambda>a st. if intc_window a then map_option (\<lambda>(v, s). (ucast v, s)) (intc_read32 a st) else None,
     \<lambda>a st. map_option (\<lambda>(v, s). (ucast v, s)) (timers_read32 a st)]"

definition read32_handlers :: "'x iop_bus \<Rightarrow> (u32 \<Rightarrow> 'x iop_state \<Rightarrow> (u32 \<times> 'x iop_state) option) list" where
  "read32_handlers bus = [sif_read32 bus, intc_read32, dma_read32 bus, timers_read32,
     spu2_read32 bus, spu_legacy_read32 bus, icfg_read32, sio2_read32 bus]"

definition write8_handlers :: "'x iop_bus \<Rightarrow> (u32 \<Rightarrow> u8 \<Rightarrow> 'x iop_state \<Rightarrow> 'x iop_state option) list" where
  "write8_handlers bus = [cdvd_write8 bus, cdrom_legacy_write8 bus, sio2_write8 bus]"

definition write16_handlers :: "'x iop_bus \<Rightarrow> (u32 \<Rightarrow> u16 \<Rightarrow> 'x iop_state \<Rightarrow> 'x iop_state option) list" where
  "write16_handlers bus = [spu2_write16 bus, spu_legacy_write16 bus,
     \<lambda>a v st. if intc_window a then intc_write32 a (ucast v) st else None,
     \<lambda>a v st. timers_write32 a (ucast v) st]"

definition write32_handlers :: "'x iop_bus \<Rightarrow> (u32 \<Rightarrow> u32 \<Rightarrow> 'x iop_state \<Rightarrow> 'x iop_state option) list" where
  "write32_handlers bus = [sif_write32 bus, intc_write32, dma_write32 bus, timers_write32,
     spu2_write32 bus, spu_legacy_write32 bus, icfg_write32, sio2_write32 bus]"

definition iop_mem_read8 :: "'x iop_bus \<Rightarrow> u32 \<Rightarrow> 'x iop_state \<Rightarrow> u8 \<times> 'x iop_state" where
  "iop_mem_read8 bus addr st =
     (case first_read (read8_handlers bus) addr st of
        Some r \<Rightarrow> r
      | None \<Rightarrow> (case iop_mem_ptr st addr 1 of None \<Rightarrow> 0 | Some p \<Rightarrow> mem_byte st p 0, st))"

definition iop_mem_read16 :: "'x iop_bus \<Rightarrow> u32 \<Rightarrow> 'x iop_state \<Rightarrow> u16 \<times> 'x iop_state" where
  "iop_mem_read16 bus addr st =
     (case first_read (read16_handlers bus) addr st of
        Some r \<Rightarrow> r
      | None \<Rightarrow> (case iop_mem_ptr st addr 2 of None \<Rightarrow> 0
          | Some p \<Rightarrow> ucast (mem_byte st p 0) OR push_bit 8 (ucast (mem_byte st p 1)), st))"

definition iop_mem_read32 :: "'x iop_bus \<Rightarrow> u32 \<Rightarrow> 'x iop_state \<Rightarrow> u32 \<times> 'x iop_state" where
  "iop_mem_read32 bus addr st =
     (case first_read (read32_handlers bus) addr st of
        Some r \<Rightarrow> r
      | None \<Rightarrow> (case iop_mem_ptr st addr 4 of None \<Rightarrow> 0
          | Some p \<Rightarrow> ucast (mem_byte st p 0) OR push_bit 8 (ucast (mem_byte st p 1))
                      OR push_bit 16 (ucast (mem_byte st p 2)) OR push_bit 24 (ucast (mem_byte st p 3)), st))"

text \<open>\<open>Status.IsC\<close>: with the cache isolated, stores that reach memory are dropped.\<close>

definition cache_isolated :: "'x iop_state \<Rightarrow> bool" where
  "cache_isolated st \<longleftrightarrow> cop0 st 12 AND 0x00010000 \<noteq> 0"

definition iop_mem_write8 :: "'x iop_bus \<Rightarrow> u32 \<Rightarrow> u8 \<Rightarrow> 'x iop_state \<Rightarrow> 'x iop_state" where
  "iop_mem_write8 bus addr v st =
     (case first_write (write8_handlers bus) addr v st of
        Some st' \<Rightarrow> st'
      | None \<Rightarrow>
          if cache_isolated st then st
          else case iop_mem_ptr st addr 1 of None \<Rightarrow> st | Some p \<Rightarrow> mem_set_byte p 0 v st)"

definition iop_mem_write16 :: "'x iop_bus \<Rightarrow> u32 \<Rightarrow> u16 \<Rightarrow> 'x iop_state \<Rightarrow> 'x iop_state" where
  "iop_mem_write16 bus addr v st =
     (case first_write (write16_handlers bus) addr v st of
        Some st' \<Rightarrow> st'
      | None \<Rightarrow>
          if cache_isolated st then st
          else case iop_mem_ptr st addr 2 of None \<Rightarrow> st
            | Some p \<Rightarrow> mem_set_byte p 1 (ucast (drop_bit 8 v AND 0xFF)) (mem_set_byte p 0 (ucast (v AND 0xFF)) st))"

definition iop_mem_write32 :: "'x iop_bus \<Rightarrow> u32 \<Rightarrow> u32 \<Rightarrow> 'x iop_state \<Rightarrow> 'x iop_state" where
  "iop_mem_write32 bus addr v st =
     (case first_write (write32_handlers bus) addr v st of
        Some st' \<Rightarrow> st'
      | None \<Rightarrow>
          if cache_isolated st then st
          else case iop_mem_ptr st addr 4 of None \<Rightarrow> st
            | Some p \<Rightarrow> mem_set_byte p 3 (ucast (drop_bit 24 v AND 0xFF))
                (mem_set_byte p 2 (ucast (drop_bit 16 v AND 0xFF))
                (mem_set_byte p 1 (ucast (drop_bit 8 v AND 0xFF)) (mem_set_byte p 0 (ucast (v AND 0xFF)) st))))"

section \<open>Addresses no block claims\<close>

definition bus_declines :: "'x iop_bus \<Rightarrow> u32 \<Rightarrow> bool" where
  "bus_declines bus addr \<longleftrightarrow>
     (\<forall>st. sif_read32 bus addr st = None \<and> dma_read32 bus addr st = None \<and> spu2_read32 bus addr st = None
        \<and> spu_legacy_read32 bus addr st = None \<and> sio2_read32 bus addr st = None
        \<and> spu2_read16 bus addr st = None \<and> spu_legacy_read16 bus addr st = None
        \<and> cdvd_read8 bus addr st = None \<and> cdrom_legacy_read8 bus addr st = None \<and> sio2_read8 bus addr st = None) \<and>
     (\<forall>v st. sif_write32 bus addr v st = None \<and> dma_write32 bus addr v st = None \<and> spu2_write32 bus addr v st = None
        \<and> spu_legacy_write32 bus addr v st = None \<and> sio2_write32 bus addr v st = None) \<and>
     (\<forall>v st. spu2_write16 bus addr v st = None \<and> spu_legacy_write16 bus addr v st = None) \<and>
     (\<forall>v st. cdvd_write8 bus addr v st = None \<and> cdrom_legacy_write8 bus addr v st = None \<and> sio2_write8 bus addr v st = None)"

definition no_devices :: "'x iop_bus" where
  "no_devices = \<lparr>cdvd_read8 = \<lambda>_ _. None, cdvd_write8 = \<lambda>_ _ _. None,
     cdrom_legacy_read8 = \<lambda>_ _. None, cdrom_legacy_write8 = \<lambda>_ _ _. None,
     sio2_read8 = \<lambda>_ _. None, sio2_write8 = \<lambda>_ _ _. None, sio2_read32 = \<lambda>_ _. None, sio2_write32 = \<lambda>_ _ _. None,
     spu2_read16 = \<lambda>_ _. None, spu2_write16 = \<lambda>_ _ _. None, spu2_read32 = \<lambda>_ _. None, spu2_write32 = \<lambda>_ _ _. None,
     spu_legacy_read16 = \<lambda>_ _. None, spu_legacy_write16 = \<lambda>_ _ _. None,
     spu_legacy_read32 = \<lambda>_ _. None, spu_legacy_write32 = \<lambda>_ _ _. None,
     sif_read32 = \<lambda>_ _. None, sif_write32 = \<lambda>_ _ _. None, dma_read32 = \<lambda>_ _. None, dma_write32 = \<lambda>_ _ _. None\<rparr>"

lemma no_devices_decline: "bus_declines no_devices addr"
  by (simp add: bus_declines_def no_devices_def)

text \<open>The modelled blocks sit at physical addresses from \<open>0x1F801070\<close> on, below the ROM.\<close>

definition register_free :: "u32 \<Rightarrow> bool" where
  "register_free addr \<longleftrightarrow> \<not> iop_intc_register addr \<and> \<not> iop_timers_register addr \<and> \<not> iop_icfg_register addr"

lemma and_mask29_le: "(w :: u32) AND 0x1FFFFFFF \<le> w"
proof -
  have "w AND 0x1FFFFFFF = take_bit 29 w"
    using and_mask_eq [of w 29] by (simp add: mask_eq_exp_minus_1)
  then have "unat (w AND 0x1FFFFFFF) \<le> unat w"
    by (simp only: unat_take_bit) simp
  then show ?thesis by (simp add: word_le_nat_alt)
qed

lemma low_register_free:
  assumes "addr AND 0x1FFFFFFF < 0x1F801070"
  shows "register_free addr"
proof -
  define p where "p = addr AND 0x1FFFFFFF"
  have "\<not> b \<le> p" if "0x1F801070 \<le> b" for b
    using that assms unfolding p_def by (meson leD order.trans)
  then have "find_window 0x0C p 0 iop_timer_base = None"
    by (simp add: iop_timer_base_def)
  then have "\<not> iop_timers_register addr"
    by (simp add: iop_timers_register_def iop_find_timer_def p_def)
  moreover have "\<not> iop_intc_register addr" "\<not> iop_icfg_register addr"
    using assms by (auto simp: iop_intc_register_def iop_icfg_register_def)
  ultimately show ?thesis by (simp add: register_free_def)
qed

lemmas modelled_blocks = intc_read32_def intc_write32_def timers_read32_def timers_write32_def
  icfg_read32_def icfg_write32_def

lemma handlers_decline:
  assumes "bus_declines bus addr" and "register_free addr"
  shows "first_read (read8_handlers bus) addr st = None" "first_read (read16_handlers bus) addr st = None"
    "first_read (read32_handlers bus) addr st = None" "first_write (write8_handlers bus) addr v8 st = None"
    "first_write (write16_handlers bus) addr v16 st = None" "first_write (write32_handlers bus) addr v32 st = None"
proof -
  have "iop_intc_mmio_read32 addr c = None" "iop_intc_mmio_write32 addr w c = None"
    "iop_timers_mmio_read32 addr t = None" "iop_timers_mmio_write32 addr w t = None"
    "iop_icfg_mmio_read32 addr i = None" "iop_icfg_mmio_write32 addr w i = None" for c t i w
    using assms(2) iop_intc.read_claims iop_intc.write_claims iop_timers.read_claims
      iop_timers.write_claims iop_icfg.read_claims iop_icfg.write_claims
    unfolding register_free_def by blast+
  with assms(1) show "first_read (read8_handlers bus) addr st = None" "first_read (read16_handlers bus) addr st = None"
    "first_read (read32_handlers bus) addr st = None" "first_write (write8_handlers bus) addr v8 st = None"
    "first_write (write16_handlers bus) addr v16 st = None" "first_write (write32_handlers bus) addr v32 st = None"
    by (simp_all add: bus_declines_def modelled_blocks read8_handlers_def read16_handlers_def
        read32_handlers_def write8_handlers_def write16_handlers_def write32_handlers_def)
qed

section \<open>Properties of the memory interface\<close>

lemma ram_ptr:
  assumes "addr < 0xBFC00000" and "addr AND 0x1FFFFFFF = p" and "p + sz \<le> ram_size st"
  shows "iop_mem_ptr st addr sz = Some (Ram p)"
  using assms by (auto simp: iop_mem_ptr_def Let_def dest: leD)

lemma ram_register_free:
  assumes "addr AND 0x1FFFFFFF = p" and "p \<le> p + 4" and "p + 4 \<le> ram_size st" and "ram_size st \<le> 0x1F801070"
  shows "register_free addr"
proof (rule low_register_free)
  have "p \<noteq> 0x1F801070"
  proof
    assume "p = 0x1F801070"
    with order.trans [OF assms(3,4)] have "(0x1F801074 :: u32) \<le> 0x1F801070" by simp
    then show False by simp
  qed
  moreover have "p \<le> 0x1F801070" using assms(2-4) by (auto intro: order.trans)
  ultimately show "addr AND 0x1FFFFFFF < 0x1F801070" unfolding assms(1) by (rule le_neq_trans [rotated])
qed

lemma mask29_no_wrap: "(w :: u32) AND 0x1FFFFFFF \<le> (w AND 0x1FFFFFFF) + 4"
proof -
  have "w AND 0x1FFFFFFF = take_bit 29 w"
    using and_mask_eq [of w 29] by (simp add: mask_eq_exp_minus_1)
  then have "unat (w AND 0x1FFFFFFF) < 2 ^ 29"
    by (simp only: unat_take_bit) simp
  then show ?thesis by (simp add: word_le_nat_alt unat_word_ariths)
qed

text \<open>C25: A word stored through one segment alias of a RAM location is read back through any
  other (KUSEG, KSEG0, KSEG1 give the same low 29 address bits); it is stored little-endian in
  exactly four bytes, and nothing else of the machine changes. The blocks that are not modelled
  are assumed to decline the two addresses.\<close>

theorem iop_mem_store_load32:
  assumes "bus_declines bus a" and "bus_declines bus b" and "a < 0xBFC00000" and "b < 0xBFC00000"
    and "a AND 0x1FFFFFFF = p" and "b AND 0x1FFFFFFF = p" and "p + 4 \<le> ram_size st"
    and "ram_size st \<le> 0x1F801070" and "\<not> cache_isolated st"
  shows "iop_mem_read32 bus b (iop_mem_write32 bus a v st) = (v, iop_mem_write32 bus a v st) \<and>
    iop_mem_write32 bus a v st = st\<lparr>ram := (ram st)(p := ucast v, p + 1 := ucast (drop_bit 8 v),
      p + 2 := ucast (drop_bit 16 v), p + 3 := ucast (drop_bit 24 v))\<rparr>"
proof -
  let ?r = "(ram st)(p := ucast v, p + 1 := ucast (drop_bit 8 v),
      p + 2 := ucast (drop_bit 16 v), p + 3 := ucast (drop_bit 24 v))"
  have le: "p \<le> p + 4" using mask29_no_wrap [of a] assms(5) by simp
  have free: "register_free a" "register_free b"
    using ram_register_free [OF assms(5) le assms(7,8)] ram_register_free [OF assms(6) le assms(7,8)] by blast+
  have w: "iop_mem_write32 bus a v st = st\<lparr>ram := ?r\<rparr>"
    using handlers_decline(6) [OF assms(1) free(1)] ram_ptr [OF assms(3,5,7)] assms(9)
    by (simp add: iop_mem_write32_def ucast_low_byte)
  have "iop_mem_ptr (st\<lparr>ram := ?r\<rparr>) b 4 = Some (Ram p)"
    using ram_ptr [OF assms(4,6), of 4 "st\<lparr>ram := ?r\<rparr>"] assms(7) by simp
  then have "iop_mem_read32 bus b (st\<lparr>ram := ?r\<rparr>) = (v, st\<lparr>ram := ?r\<rparr>)"
    using handlers_decline(3) [OF assms(2) free(2)] word32_of_bytes [of v]
    by (simp add: iop_mem_read32_def)
  with w show ?thesis by simp
qed

text \<open>A machine with 2 MB of RAM and nothing else set, for the examples.\<close>

definition blank_iop :: "'x \<Rightarrow> 'x iop_state" where
  "blank_iop x = \<lparr>gpr = \<lambda>_. 0, pc = 0, next_pc = 4, hi = 0, lo = 0, cop0 = \<lambda>_. 0, ram = \<lambda>_. 0,
     ram_size = 0x204000, bios = None, instructions_executed = 0, halted = False, halt_reason = [],
     sched_ticks = 0, idle = False, exception_pending = False, devtable_pending_image = 0,
     intc = iop_intc_init, timers = iop_timers_init, icfg = 0, eintc = ee_intc_init, ext = x\<rparr>"

theorem iop_mem_store_load32_witness:
  "fst (iop_mem_read32 no_devices 0xA0001234 (iop_mem_write32 no_devices 0x80001234 0xDEADBEEF (blank_iop ()))) = 0xDEADBEEF"
proof -
  have "ram_size (blank_iop ()) = 0x204000" "\<not> cache_isolated (blank_iop ())"
    by (simp_all add: blank_iop_def cache_isolated_def)
  then have "iop_mem_read32 no_devices 0xA0001234 (iop_mem_write32 no_devices 0x80001234 0xDEADBEEF (blank_iop ()))
      = (0xDEADBEEF, iop_mem_write32 no_devices 0x80001234 0xDEADBEEF (blank_iop ()))"
    by (intro conjunct1 [OF iop_mem_store_load32 [OF no_devices_decline no_devices_decline]]) auto
  then show ?thesis by (simp only: fst_conv)
qed

text \<open>C26: While \<open>Status.IsC\<close> isolates the cache, a store of any width that no block claims
  leaves the whole machine unchanged, so the boot code's cache-clearing loop cannot damage RAM.\<close>

theorem iop_mem_isolated_store:
  assumes "cop0 st 12 AND 0x00010000 \<noteq> 0" and "bus_declines bus addr" and "register_free addr"
  shows "iop_mem_write8 bus addr v8 st = st \<and> iop_mem_write16 bus addr v16 st = st \<and>
    iop_mem_write32 bus addr v32 st = st"
  using assms handlers_decline [OF assms(2,3)]
  by (simp add: iop_mem_write8_def iop_mem_write16_def iop_mem_write32_def cache_isolated_def)

theorem iop_mem_isolated_store_witness:
  "iop_mem_write32 no_devices 0x100 7 ((blank_iop ())\<lparr>cop0 := (\<lambda>_. 0)(12 := 0x10000)\<rparr>)
     = (blank_iop ())\<lparr>cop0 := (\<lambda>_. 0)(12 := 0x10000)\<rparr>"
  using iop_mem_isolated_store [of "(blank_iop ())\<lparr>cop0 := (\<lambda>_. 0)(12 := 0x10000)\<rparr>" no_devices "0x100"]
    no_devices_decline [where ?'a = unit, of "0x100"] low_register_free [of "0x100"] by simp

text \<open>The ROM is writable: a word store to an address inside the BIOS image replaces bytes
  of the image, although the image is read-only memory shared with the EE.\<close>

theorem iop_mem_store_rom:
  assumes "bus_declines bus addr" and "register_free addr" and "\<not> cache_isolated st"
    and "bios st = Some b" and "0xBFC00000 \<le> addr" and "addr - 0xBFC00000 + 4 \<le> bsize b"
  shows "map_option (\<lambda>b'. bdata b' (addr - 0xBFC00000)) (bios (iop_mem_write32 bus addr v st)) = Some (ucast v)"
  using assms handlers_decline(6) [OF assms(1,2)]
  by (simp add: iop_mem_write32_def iop_mem_ptr_def Let_def ucast_low_byte)

theorem iop_mem_store_rom_witness:
  "map_option (\<lambda>b'. bdata b' 0) (bios (iop_mem_write32 no_devices 0xBFC00000 0x11
     ((blank_iop ())\<lparr>bios := Some \<lparr>bdata = \<lambda>_. 0, bsize = 0x400000\<rparr>\<rparr>))) = Some 0x11"
proof -
  have rf: "register_free 0xBFC00000"
    by (simp add: register_free_def iop_intc_register_def iop_timers_register_def iop_icfg_register_def
        iop_find_timer_def iop_timer_base_def)
  show ?thesis
    using iop_mem_store_rom [of no_devices "0xBFC00000" "(blank_iop ())\<lparr>bios := Some \<lparr>bdata = \<lambda>_. 0, bsize = 0x400000\<rparr>\<rparr>"
        "\<lparr>bdata = \<lambda>_. 0, bsize = 0x400000\<rparr>" "0x11"] rf no_devices_decline [where ?'a = unit, of "0xBFC00000"]
    by (simp add: blank_iop_def cache_isolated_def)
qed

text \<open>A 16-bit store to \<open>I_STAT\<close> acknowledges lines it does not name: the value is
  zero-extended before it is ANDed in, so every pending line from 16 up is lost whatever is
  written, and the low lines follow the written bits.\<close>

theorem istat_store16_drops_high:
  assumes "\<forall>v st. spu2_write16 bus 0x1F801070 v st = None \<and> spu_legacy_write16 bus 0x1F801070 v st = None"
  shows "bit (istat (intc (iop_mem_write16 bus 0x1F801070 v st))) k
    \<longleftrightarrow> k < 16 \<and> bit (istat (intc st)) k \<and> bit v k"
  using assms bit_imp_le_length [of v k]
  by (auto simp: iop_mem_write16_def write16_handlers_def intc_window_def intc_write32_def
      iop_intc_mmio_write32_def bit_simps)

theorem istat_store16_drops_high_witness:
  "bit (istat (intc ((blank_iop ())\<lparr>intc := iop_intc_raise 16 iop_intc_init\<rparr>))) 16 \<and>
   \<not> bit (istat (intc (iop_mem_write16 no_devices 0x1F801070 0xFFFF ((blank_iop ())\<lparr>intc := iop_intc_raise 16 iop_intc_init\<rparr>)))) 16"
  using istat_store16_drops_high [of no_devices "0xFFFF" "(blank_iop ())\<lparr>intc := iop_intc_raise 16 iop_intc_init\<rparr>" 16]
  by (simp add: no_devices_def iop_intc_raise_def iop_intc_init_def)

end
