(* ===== verification/Iop_Hle_Heap.thy ===== *)
theory Iop_Hle_Heap
  imports Iop_Heap_Spec Iop_Mem
begin

text \<open>
  The SYSMEM call gates of \<open>source/hw/iop_hle_heap.c\<close>: the addresses import stubs are pointed
  at, and the handler that runs the heap operation when the processor fetches from one of them.
  The handler's state is the heap chain with the processor; \<open>None\<close> is the handler's 0, "not
  my address".
\<close>

text \<open>
  \<open>None\<close> for the module name is the null pointer. \<open>strncmp (name, "sysmem", 8)\<close> compares
  the terminator too, so it accepts exactly that name.
\<close>

definition iop_hle_heap_sentinel_for_import :: "string option \<Rightarrow> u32 \<Rightarrow> u32" where
  "iop_hle_heap_sentinel_for_import module_name ordinal =
     (case module_name of
        None \<Rightarrow> 0
      | Some nm \<Rightarrow>
          if nm = ''sysmem'' then
            if ordinal = 4 then 0x220
            else if ordinal = 5 then 0x224
            else if ordinal = 6 then 0x228
            else if ordinal = 7 then 0x22C
            else if ordinal = 8 then 0x230
            else 0
          else 0)"

text \<open>Setting \<open>$v0\<close> and returning to \<open>$ra\<close>, as every gate does.\<close>

definition gate_return :: "u32 \<Rightarrow> 'x iop_state \<Rightarrow> 'x iop_state" where
  "gate_return v st = st\<lparr>gpr := (gpr st)(2 := v), pc := gpr st 31, next_pc := gpr st 31 + 4\<rparr>"

definition iop_hle_heap_try_handle ::
  "bool \<Rightarrow> u32 \<Rightarrow> u32 list \<times> 'x iop_state \<Rightarrow> (u32 list \<times> 'x iop_state) option" where
  "iop_hle_heap_try_handle malloc_ok addr = (\<lambda>(h, st).
     if addr = 0x44C then Some (h, gate_return (iop_heap_query_block_size (gpr st 4) h) st)
     else if \<not> (0x220 \<le> addr \<and> addr \<le> 0x230) then None
     else if addr = 0x220 then
       let (h', r) = iop_heap_alloc malloc_ok (sint (gpr st 4)) (gpr st 5) (gpr st 6) h
       in Some (h', gate_return r st)
     else if addr = 0x224 then
       let (h', r) = iop_heap_free malloc_ok (gpr st 4) h in Some (h', gate_return (word_of_int r) st)
     else if addr = 0x228 then Some (h, gate_return 0x000D0000 st)
     else if addr = 0x22C then Some (h, gate_return (iop_heap_query_max_free h) st)
     else if addr = 0x230 then Some (h, gate_return (iop_heap_query_total_free h) st)
     else None)"

lemma gate_return_frame [frame]:
  "ram (gate_return v st) = ram st" "cop0 (gate_return v st) = cop0 st" "intc (gate_return v st) = intc st"
  "pc (gate_return v st) = gpr st 31" "next_pc (gate_return v st) = gpr st 31 + 4"
  "gpr (gate_return v st) 2 = v" "r \<noteq> 2 \<Longrightarrow> gpr (gate_return v st) r = gpr st r"
  by (simp_all add: gate_return_def)

text \<open>What each gate does, one equation per address.\<close>

lemma heap_gate:
  "iop_hle_heap_try_handle ok 0x220 (h, st) =
     Some (fst (iop_heap_alloc ok (sint (gpr st 4)) (gpr st 5) (gpr st 6) h),
           gate_return (snd (iop_heap_alloc ok (sint (gpr st 4)) (gpr st 5) (gpr st 6) h)) st)"
  "iop_hle_heap_try_handle ok 0x224 (h, st) =
     Some (fst (iop_heap_free ok (gpr st 4) h), gate_return (word_of_int (snd (iop_heap_free ok (gpr st 4) h))) st)"
  "iop_hle_heap_try_handle ok 0x228 (h, st) = Some (h, gate_return 0x000D0000 st)"
  "iop_hle_heap_try_handle ok 0x22C (h, st) = Some (h, gate_return (iop_heap_query_max_free h) st)"
  "iop_hle_heap_try_handle ok 0x230 (h, st) = Some (h, gate_return (iop_heap_query_total_free h) st)"
  by (simp_all add: iop_hle_heap_try_handle_def case_prod_beta)

text \<open>Every import of a SYSMEM heap function is bound to a gate the handler answers: for the
  ordinals 4 to 8 the sentinel is an address at which the handler runs, returns to \<open>$ra\<close> with
  only \<open>$v0\<close> and the program counters changed, and keeps the heap's invariant. Other names
  and ordinals are not bound.\<close>

theorem heap_gates_total:
  assumes "iop_hle_heap_sentinel_for_import nm ordinal \<noteq> 0" and "heap_inv h"
  shows "4 \<le> ordinal \<and> ordinal \<le> 8 \<and> (\<exists>h' r. iop_hle_heap_try_handle True
      (iop_hle_heap_sentinel_for_import nm ordinal) (h, st) = Some (h', gate_return r st) \<and> heap_inv h')"
proof -
  have "heap_inv (fst (iop_heap_alloc True f s m h))" for f s m
    using heap.alloc_law [OF assms(2), of "(f, s, m)"] by (simp add: heap_acquire_def)
  moreover have "heap_inv (fst (iop_heap_free True m h))" for m
    using heap.release_inv [OF assms(2)] .
  ultimately have gate: "\<exists>h' r. iop_hle_heap_try_handle True a (h, st) = Some (h', gate_return r st) \<and> heap_inv h'"
    if "a \<in> {0x220, 0x224, 0x228, 0x22C, 0x230}" for a
    using that assms(2) heap_gate [of True h st] by auto
  have "4 \<le> ordinal \<and> ordinal \<le> 8 \<and> iop_hle_heap_sentinel_for_import nm ordinal \<in> {0x220, 0x224, 0x228, 0x22C, 0x230}"
    using assms(1) by (auto simp: iop_hle_heap_sentinel_for_import_def split: option.splits if_splits)
  with gate show ?thesis by blast
qed

theorem heap_gates_total_witness:
  "\<exists>h' r. iop_hle_heap_try_handle True 0x220 (iop_heap_init True, blank_iop ()) = Some (h', gate_return r (blank_iop ())) \<and> heap_inv h'"
  using heap_gates_total [of "Some ''sysmem''" 4 "iop_heap_init True" "blank_iop ()"] heap_init_inv(1)
  by (simp add: iop_hle_heap_sentinel_for_import_def)

text \<open>A guest that calls AllocSysMemory and then passes the result to FreeSysMemory gets 0
  back, and the heap's live regions are what they were before the two calls.\<close>

theorem heap_gates_alloc_free:
  assumes "iop_hle_heap_try_handle True 0x220 (heap_run ops, st) = Some (h1, st1)"
    and "gpr st1 2 \<noteq> 0" and "gpr st2 4 = gpr st1 2"
  shows "\<exists>h2. iop_hle_heap_try_handle True 0x224 (h1, st2) = Some (h2, gate_return 0 st2)
    \<and> live h2 = live (heap_run ops)"
proof -
  let ?q = "(sint (gpr st 4), gpr st 5, gpr st 6)"
  have h1: "h1 = fst (heap_acquire ?q (heap_run ops))" "gpr st1 2 = snd (heap_acquire ?q (heap_run ops))"
    using assms(1) unfolding heap_gate by (auto simp: heap_acquire_def frame)
  have "snd (iop_heap_free True (gpr st1 2) h1) = 0 \<and> live (fst (iop_heap_free True (gpr st1 2) h1)) = live (heap_run ops)"
    using heap.alloc_release [OF heap_run_inv, of ?q ops] assms(2) unfolding h1 by blast
  then show ?thesis using assms(3) unfolding heap_gate by simp
qed

theorem heap_gates_alloc_free_witness:
  "\<exists>h2. iop_hle_heap_try_handle True 0x224
      (fst (iop_heap_alloc True 0 0x100 0 (heap_run [])), (blank_iop ())\<lparr>gpr := (\<lambda>_. 0)(4 := 0x20000)\<rparr>)
    = Some (h2, gate_return 0 ((blank_iop ())\<lparr>gpr := (\<lambda>_. 0)(4 := 0x20000)\<rparr>)) \<and> live h2 = live (heap_run [])"
proof -
  let ?st = "(blank_iop ())\<lparr>gpr := (\<lambda>_. 0)(5 := 0x100)\<rparr>"
  have r: "snd (iop_heap_alloc True 0 0x100 0 (heap_run [])) = 0x20000" by code_simp
  have "iop_hle_heap_try_handle True 0x220 (heap_run [], ?st)
      = Some (fst (iop_heap_alloc True 0 0x100 0 (heap_run [])), gate_return 0x20000 ?st)"
    unfolding heap_gate using r by simp
  from heap_gates_alloc_free [OF this, of "(blank_iop ())\<lparr>gpr := (\<lambda>_. 0)(4 := 0x20000)\<rparr>"]
  show ?thesis by (simp add: frame)
qed

end
