(* ===== verification/Ee_Misc.thy ===== *)
theory Ee_Misc
  imports Intc
begin

text \<open>
  Three small EE register blocks: the RDRAM initialisation registers (\<open>source/hw/mch.c\<close>), the
  debug serial port (\<open>source/hw/ee_sio.c\<close>) and the video-encoder stub
  (\<open>source/hw/ee_dve.c\<close>).
\<close>

section \<open>RDRAM initialisation\<close>

record mch_state =
  ricm :: u32
  drd :: u32
  sdevid_counter :: u32

definition mch_init :: mch_state where
  "mch_init = \<lparr>ricm = 0, drd = 0, sdevid_counter = 0\<rparr>"

definition mch_mmio_read32 :: "u32 \<Rightarrow> mch_state \<Rightarrow> (u32 \<times> mch_state) option" where
  "mch_mmio_read32 addr g =
     (if addr = 0x1000F430 then Some (0, g)
      else if addr = 0x1000F440 then
        let sop = drop_bit 6 (ricm g) AND 0xF;
            sa = drop_bit 16 (ricm g) AND 0xFFF
        in Some
          (if sop = 0 then
             if sa = 0x21 then
               (if sdevid_counter g < 2
                then (0x1F, g\<lparr>sdevid_counter := sdevid_counter g + 1\<rparr>) else (0, g))
             else if sa = 0x23 then (0x0D0D, g)
             else if sa = 0x24 then (0x0090, g)
             else if sa = 0x40 then (ricm g AND 0x1F, g)
             else (0, g)
           else (0, g))
      else None)"

definition mch_mmio_write32 :: "u32 \<Rightarrow> u32 \<Rightarrow> mch_state \<Rightarrow> mch_state option" where
  "mch_mmio_write32 addr v g =
     (if addr = 0x1000F430 then
        let sa = drop_bit 16 v AND 0xFFF;
            sbc = drop_bit 6 v AND 0xF;
            g1 = (if sa = 0x21 \<and> sbc = 1 \<and> drop_bit 7 (drd g) AND 1 = 0
                  then g\<lparr>sdevid_counter := 0\<rparr> else g)
        in Some (g1\<lparr>ricm := v AND NOT 0x80000000\<rparr>)
      else if addr = 0x1000F440 then Some (g\<lparr>drd := v\<rparr>)
      else None)"

interpretation mch: mmio_block mch_mmio_read32 mch_mmio_write32
    "\<lambda>a. a \<in> {0x1000F430, 0x1000F440}" "\<lambda>a. a \<in> {0x1000F430, 0x1000F440}"
  by unfold_locales (auto simp: mch_mmio_read32_def mch_mmio_write32_def Let_def)

text \<open>The values a sequence of \<open>n\<close> reads of one register returns.\<close>

fun reads :: "(u32 \<Rightarrow> 'd \<Rightarrow> ('v \<times> 'd) option) \<Rightarrow> u32 \<Rightarrow> nat \<Rightarrow> 'd \<Rightarrow> 'v list" where
  "reads f addr 0 d = []"
| "reads f addr (Suc n) d =
     (case f addr d of None \<Rightarrow> [] | Some (v, d') \<Rightarrow> v # reads f addr n d')"

lemma mch_drd_exhausted:
  assumes "drop_bit 6 (ricm g) AND 0xF = 0" and "drop_bit 16 (ricm g) AND 0xFFF = 0x21"
    and "\<not> sdevid_counter g < 2"
  shows "reads mch_mmio_read32 0x1000F440 n g = replicate n 0"
  using assms by (induction n) (simp_all add: mch_mmio_read32_def)

lemma mch_drd_device:
  assumes "drop_bit 6 (ricm g) AND 0xF = 0" and "drop_bit 16 (ricm g) AND 0xFFF = 0x21"
    and "sdevid_counter g < 2"
  shows "mch_mmio_read32 0x1000F440 g = Some (0x1F, g\<lparr>sdevid_counter := sdevid_counter g + 1\<rparr>)"
  using assms by (simp add: mch_mmio_read32_def)

text \<open>The RDRAM enumeration protocol: after an INIT strobe (write with SA \<open>0x21\<close>, SBC 1,
  \<open>MCH_DRD\<close> bit 7 clear) and selecting INIT readback (SA \<open>0x21\<close>, SOP 0), reading
  \<open>MCH_DRD\<close> reports exactly two devices (\<open>0x1F\<close> twice) and 0 from then on, whatever the
  block held before.\<close>

theorem mch_enumerates_two:
  assumes "drop_bit 16 v AND 0xFFF = 0x21" and "drop_bit 6 v AND 0xF = 1" and "drop_bit 7 (drd g) AND 1 = 0"
    and "drop_bit 16 w AND 0xFFF = 0x21" and "drop_bit 6 w AND 0xF = 0"
  shows "(mch_mmio_write32 0x1000F430 v g \<bind> mch_mmio_write32 0x1000F430 w
      \<bind> (\<lambda>g. Some (reads mch_mmio_read32 0x1000F440 (2 + n) g))) = Some ([0x1F, 0x1F] @ replicate n 0)"
proof -
  define m where "m = w AND NOT 0x80000000"
  have n31: "NOT 0x80000000 = (0x7FFFFFFF :: u32)" by simp
  have m: "drop_bit 6 m AND 0xF = 0" "drop_bit 16 m AND 0xFFF = 0x21"
    unfolding m_def n31 using assms(4,5) by (simp_all add: drop_bit_and and.assoc)
  let ?g = "\<lambda>k. g\<lparr>ricm := m, sdevid_counter := k\<rparr>"
  have "mch_mmio_write32 0x1000F430 v g \<bind> mch_mmio_write32 0x1000F430 w = Some (?g 0)"
    using assms by (simp add: mch_mmio_write32_def Let_def m_def)
  moreover have "reads mch_mmio_read32 0x1000F440 (2 + n) (?g 0) = 0x1F # 0x1F # reads mch_mmio_read32 0x1000F440 n (?g 2)"
    using mch_drd_device [of "?g 0"] mch_drd_device [of "?g 1"] m by simp
  moreover have "reads mch_mmio_read32 0x1000F440 n (?g 2) = replicate n 0"
    using m by (intro mch_drd_exhausted) simp_all
  ultimately show ?thesis by simp
qed

theorem mch_enumerates_two_witness:
  "(mch_mmio_write32 0x1000F430 0x80210040 mch_init \<bind> mch_mmio_write32 0x1000F430 0x80210000
      \<bind> (\<lambda>g. Some (reads mch_mmio_read32 0x1000F440 (2 + 1) g))) = Some [0x1F, 0x1F, 0]"
  using mch_enumerates_two [of "0x80210040" mch_init "0x80210000" 1] by (simp add: mch_init_def)

section \<open>The debug serial port\<close>

text \<open>
  \<open>console_buf\<close> is the C array of 8192 bytes. The byte is also sent to the host's standard
  error stream; \<open>stderr\<close> collects that output.
\<close>

abbreviation (input) EE_SIO_CONSOLE_BUF_SIZE :: nat where "EE_SIO_CONSOLE_BUF_SIZE \<equiv> 8192"

record ee_sio_state =
  lcr :: u32
  ier :: u32
  fcr :: u32
  bgr :: u32
  console_buf :: "u8 list"
  console_len :: u32
  bytes_written :: u32
  stderr :: "u8 list"

definition ee_sio_init :: ee_sio_state where
  "ee_sio_init = \<lparr>lcr = 0, ier = 0, fcr = 0, bgr = 0,
     console_buf = replicate EE_SIO_CONSOLE_BUF_SIZE 0, console_len = 0, bytes_written = 0, stderr = []\<rparr>"

definition ee_sio_get_console_text :: "ee_sio_state \<Rightarrow> u8 list" where
  "ee_sio_get_console_text s = takeWhile (\<lambda>b. b \<noteq> 0) (console_buf s)"

definition ee_sio_mmio_read32 :: "u32 \<Rightarrow> ee_sio_state \<Rightarrow> (u32 \<times> ee_sio_state) option" where
  "ee_sio_mmio_read32 addr s =
     (if addr = 0x1000F100 then Some (lcr s, s)
      else if addr = 0x1000F110 then Some (0, s)
      else if addr = 0x1000F120 then Some (ier s, s)
      else if addr = 0x1000F130 then Some (2, s)
      else if addr = 0x1000F140 then Some (fcr s, s)
      else if addr = 0x1000F150 then Some (bgr s, s)
      else if addr = 0x1000F1C0 then Some (0, s)
      else None)"

definition ee_sio_transmit :: "u8 \<Rightarrow> ee_sio_state \<Rightarrow> ee_sio_state" where
  "ee_sio_transmit byte s =
     (let s1 = s\<lparr>bytes_written := bytes_written s + 1\<rparr>;
          s2 = (if console_len s1 + 1 < word_of_nat EE_SIO_CONSOLE_BUF_SIZE
                then s1\<lparr>console_buf := (console_buf s1)[unat (console_len s1) := byte,
                                                       unat (console_len s1 + 1) := 0],
                        console_len := console_len s1 + 1\<rparr>
                else s1)
      in s2\<lparr>stderr := stderr s2 @ [byte]\<rparr>)"

definition ee_sio_mmio_write32 :: "u32 \<Rightarrow> u32 \<Rightarrow> ee_sio_state \<Rightarrow> ee_sio_state option" where
  "ee_sio_mmio_write32 addr v s =
     (if addr = 0x1000F100 then Some (s\<lparr>lcr := v\<rparr>)
      else if addr = 0x1000F110 then Some s
      else if addr = 0x1000F120 then Some (s\<lparr>ier := v\<rparr>)
      else if addr = 0x1000F130 then Some s
      else if addr = 0x1000F140 then Some (s\<lparr>fcr := v\<rparr>)
      else if addr = 0x1000F150 then Some (s\<lparr>bgr := v\<rparr>)
      else if addr = 0x1000F180 then Some (ee_sio_transmit (ucast (v AND 0xFF)) s)
      else if addr = 0x1000F1C0 then Some s
      else None)"

interpretation ee_sio: mmio_block ee_sio_mmio_read32 ee_sio_mmio_write32
    "\<lambda>a. a \<in> {0x1000F100, 0x1000F110, 0x1000F120, 0x1000F130, 0x1000F140, 0x1000F150, 0x1000F1C0}"
    "\<lambda>a. a \<in> {0x1000F100, 0x1000F110, 0x1000F120, 0x1000F130, 0x1000F140, 0x1000F150, 0x1000F180, 0x1000F1C0}"
  by unfold_locales (auto simp: ee_sio_mmio_read32_def ee_sio_mmio_write32_def)

fun sio_writes :: "u32 list \<Rightarrow> ee_sio_state \<Rightarrow> ee_sio_state option" where
  "sio_writes [] s = Some s"
| "sio_writes (v # vs) s = ee_sio_mmio_write32 0x1000F180 v s \<bind> sio_writes vs"

text \<open>The buffer holds a prefix of what was transmitted, terminated inside the array.\<close>

definition sio_inv :: "u8 list \<Rightarrow> ee_sio_state \<Rightarrow> bool" where
  "sio_inv sent s \<longleftrightarrow> length (console_buf s) = 8192 \<and> stderr s = sent \<and>
     unat (console_len s) = min (length sent) 8191 \<and>
     take (unat (console_len s)) (console_buf s) = take 8191 sent \<and>
     console_buf s ! unat (console_len s) = 0 \<and> bytes_written s = word_of_nat (length sent)"

lemma take_Suc_update:
  "n < length xs \<Longrightarrow> take (Suc n) (xs[n := a]) = take n xs @ [a]"
  by (simp add: take_Suc_conv_app_nth)

lemma sio_inv_transmit:
  assumes "sio_inv sent s"
  shows "sio_inv (sent @ [b]) (ee_sio_transmit b s)"
proof (cases "length sent < 8191")
  case True
  then have n: "unat (console_len s) = length sent" using assms by (simp add: sio_inv_def)
  then have n1: "unat (console_len s + 1) = Suc (length sent)"
    using True by (simp add: unat_word_ariths)
  with assms True n show ?thesis
    by (auto simp: sio_inv_def ee_sio_transmit_def Let_def word_less_nat_alt take_Suc_update)
next
  case False
  then have n: "unat (console_len s) = 8191" using assms by (simp add: sio_inv_def)
  then have "unat (console_len s + 1) = 8192" by (simp add: unat_word_ariths)
  with assms False n show ?thesis
    by (auto simp: sio_inv_def ee_sio_transmit_def Let_def word_less_nat_alt)
qed

text \<open>However many bytes are transmitted, the console buffer never overruns: it keeps the
  first 8191 bytes sent, followed by a terminator inside the 8192-byte array, while every byte
  still reaches the host stream and the total count is exact modulo 2^32.\<close>

theorem sio_console_prefix:
  "\<exists>s. sio_writes vs ee_sio_init = Some s \<and> sio_inv (map (\<lambda>v. ucast (v AND 0xFF)) vs) s"
proof -
  have "\<exists>s'. sio_writes vs s = Some s' \<and> sio_inv (sent @ map (\<lambda>v. ucast (v AND 0xFF)) vs) s'"
    if "sio_inv sent s" for sent s
    using that
  proof (induction vs arbitrary: sent s)
    case (Cons v vs)
    from Cons.IH [OF sio_inv_transmit [OF Cons.prems, of "ucast (v AND 0xFF)"]] show ?case
      by (simp add: ee_sio_mmio_write32_def)
  qed simp
  moreover have "sio_inv [] ee_sio_init" by (simp add: sio_inv_def ee_sio_init_def)
  ultimately show ?thesis by (metis append_Nil)
qed

section \<open>The video-encoder stub\<close>

text \<open>
  The command registers index \<open>s_dve_regs\<close> with a 16-bit value the guest wrote.
\<close>

record dve_state =
  ba :: "u16 list"
  dve_regs :: "u16 list"
  command_executing :: bool
  error_detected :: bool
  current_reg :: u16

definition ee_dve_init :: dve_state where
  "ee_dve_init = \<lparr>ba = (replicate 256 0)[0xA := 1], dve_regs = (replicate 256 0)[0x7E := 0x1C],
     command_executing = False, error_detected = False, current_reg = 0\<rparr>"

definition dve_claims :: "u32 \<Rightarrow> bool" where
  "dve_claims addr \<longleftrightarrow> 0x1A000000 \<le> addr \<and> addr < 0x1A000000 + 0x100"

definition ee_dve_mmio_read16 :: "u32 \<Rightarrow> dve_state \<Rightarrow> (u16 \<times> dve_state) option" where
  "ee_dve_mmio_read16 addr s =
     (if \<not> dve_claims addr then None
      else if addr = 0x1A000006 then
        Some ((ba s ! 6 AND 2) OR (if error_detected s then 1 else 0),
              if ba s ! 6 < 3 \<and> command_executing s then s\<lparr>ba := (ba s)[6 := ba s ! 6 + 1]\<rparr>
              else s\<lparr>command_executing := False\<rparr>)
      else Some (ba s ! unat (addr AND 0x1F), s))"

text \<open>The two copy loops: \<open>n\<close> iterations from index \<open>i\<close> on.\<close>

fun dve_copy_out :: "nat \<Rightarrow> nat \<Rightarrow> dve_state \<Rightarrow> dve_state" where
  "dve_copy_out i 0 s = s"
| "dve_copy_out i (Suc n) s =
     dve_copy_out (Suc i) n (s\<lparr>dve_regs := (dve_regs s)[unat (current_reg s) := ba s ! (0x12 + i)]\<rparr>)"

fun dve_copy_in :: "nat \<Rightarrow> nat \<Rightarrow> dve_state \<Rightarrow> dve_state" where
  "dve_copy_in i 0 s = s"
| "dve_copy_in i (Suc n) s =
     dve_copy_in (Suc i) n (s\<lparr>ba := (ba s)[0x10 + i := dve_regs s ! unat (current_reg s)]\<rparr>)"

definition dve_start :: "dve_state \<Rightarrow> dve_state outcome" where
  "dve_start s =
     (let len = unat (ba s ! 0 AND 0xF); ok = (\<lambda>s. s\<lparr>command_executing := True, error_detected := False\<rparr>) in
      if ba s ! 2 = 0x43 then
        let s1 = s\<lparr>current_reg := ba s ! 0x10\<rparr> in
        if len - 1 > 0 \<and> unat (current_reg s1) \<ge> length (dve_regs s1) then Overrun
        else Done (ok (dve_copy_out 0 (len - 1) s1))
      else if ba s ! 2 = 0x42 then
        if len > 0 \<and> unat (current_reg s) \<ge> length (dve_regs s) then Overrun
        else Done (ok (dve_copy_in 0 len s))
      else Done s)"

definition ee_dve_mmio_write16 :: "u32 \<Rightarrow> u16 \<Rightarrow> dve_state \<Rightarrow> dve_state outcome" where
  "ee_dve_mmio_write16 addr v s =
     (if \<not> dve_claims addr then Declined
      else
        let m = unat ((addr - 0x1A000000) AND 0xFF);
            s1 = (if m = 6 then s\<lparr>ba := (ba s)[6 := ba s ! 6 AND NOT 3]\<rparr> else s\<lparr>ba := (ba s)[m := v]\<rparr>)
        in if m = 0 then
             (if ba s1 ! 2 = 0x4F \<or> ba s1 ! 2 = 0x41 then Done (s1\<lparr>error_detected := True\<rparr>)
              else if ba s1 ! 0 AND 0x80 \<noteq> 0 then dve_start s1
              else Done s1)
           else if m = 0xA then Done (s1\<lparr>error_detected := (v = 0)\<rparr>)
           else Done s1)"

text \<open>The polling protocol the boot code relies on: once a command is executing and its
  status register has been cleared, the first two polls of \<open>0x1A000006\<close> report "not ready"
  and every later one "ready".\<close>

theorem dve_ready_on_third_poll:
  assumes "command_executing s" and "ba s ! 6 = 0" and "6 < length (ba s)" and "\<not> error_detected s"
  shows "reads ee_dve_mmio_read16 0x1A000006 (2 + n) s = [0, 0] @ replicate n 2"
proof -
  let ?a = "0x1A000006 :: u32"
  have step: "ee_dve_mmio_read16 ?a t = Some (k AND 2, if k < 3 \<and> command_executing t
      then t\<lparr>ba := (ba t)[6 := k + 1]\<rparr> else t\<lparr>command_executing := False\<rparr>)"
    if "ba t ! 6 = k" "\<not> error_detected t" for t k
    using that by (simp add: ee_dve_mmio_read16_def dve_claims_def)
  have ready: "reads ee_dve_mmio_read16 ?a n t = replicate n 2"
    if "ba t ! 6 = 2 \<or> ba t ! 6 = 3" "\<not> error_detected t" "6 < length (ba t)" for t n
    using that
  proof (induction n arbitrary: t)
    case (Suc n)
    then show ?case by (cases "ba t ! 6 = 2") (auto simp: step)
  qed simp
  define s1 where "s1 = s\<lparr>ba := (ba s)[6 := 1]\<rparr>"
  define s2 where "s2 = s1\<lparr>ba := (ba s1)[6 := 2]\<rparr>"
  have "ee_dve_mmio_read16 ?a s = Some (0, s1)" "ee_dve_mmio_read16 ?a s1 = Some (0, s2)"
    using assms step [of s 0] step [of s1 1] by (simp_all add: s1_def s2_def)
  moreover have "reads ee_dve_mmio_read16 ?a n s2 = replicate n 2"
    using assms by (intro ready) (simp_all add: s1_def s2_def)
  ultimately show ?thesis by simp
qed

theorem dve_ready_on_third_poll_witness:
  "reads ee_dve_mmio_read16 0x1A000006 (2 + 2) (ee_dve_init\<lparr>command_executing := True\<rparr>) = [0, 0, 2, 2]"
  using dve_ready_on_third_poll [of "ee_dve_init\<lparr>command_executing := True\<rparr>" 2]
  by (simp add: ee_dve_init_def numeral_2_eq_2)

text \<open>The write-mode command has no bound on the register number: after selecting a register
  of \<open>0x100\<close> or more in \<open>s_ba[0x10]\<close>, starting a write of at least one byte stores outside
  the 256-entry register array; below \<open>0x100\<close> it does not.\<close>

theorem dve_write_overrun_iff:
  assumes "length (ba s) = 256" and "length (dve_regs s) = 256" and "ba s ! 2 = 0x43" and "v AND 0x80 \<noteq> 0"
  shows "ee_dve_mmio_write16 0x1A000000 v s = Overrun \<longleftrightarrow> 2 \<le> unat (v AND 0xF) \<and> 0x100 \<le> unat (ba s ! 0x10)"
  using assms by (auto simp: ee_dve_mmio_write16_def dve_claims_def dve_start_def Let_def)

theorem dve_write_overrun_iff_witness:
  "ee_dve_mmio_write16 0x1A000000 0x82 (ee_dve_init\<lparr>ba := (ba ee_dve_init)[2 := 0x43, 0x10 := 0x100]\<rparr>) = Overrun"
  using dve_write_overrun_iff [of "ee_dve_init\<lparr>ba := (ba ee_dve_init)[2 := 0x43, 0x10 := 0x100]\<rparr>" "0x82"]
  by (simp add: ee_dve_init_def)

end
