(* ===== verification/Iop_Thread.thy ===== *)
theory Iop_Thread
  imports Iop_Mem
begin

text \<open>
  The IOP thread manager, \<open>source/hw/iop_hle_thread.c\<close>: threads, semaphores, event flags and
  alarms behind call gates, and the tick that wakes delayed threads and dispatches alarms.

  The static \<open>g\<close> is the record \<open>hle_threads\<close>; a handler maps the pair of it and the
  processor state to the pair after it. The C arrays are lists whose lengths (64, 64, 32, 16)
  are part of the invariant; slot ids are 1-based \<open>int\<close>s, 0 is "none". A
  \<open>gpr[4]\<close> cast to \<open>int\<close> is \<open>sint\<close>.
\<close>

section \<open>Constants\<close>

abbreviation (input) THS_RUN :: u32 where "THS_RUN \<equiv> 0x01"
abbreviation (input) THS_READY :: u32 where "THS_READY \<equiv> 0x02"
abbreviation (input) THS_WAIT :: u32 where "THS_WAIT \<equiv> 0x04"
abbreviation (input) THS_SUSPEND :: u32 where "THS_SUSPEND \<equiv> 0x08"
abbreviation (input) THS_DORMANT :: u32 where "THS_DORMANT \<equiv> 0x10"

abbreviation (input) TSW_SLEEP :: int where "TSW_SLEEP \<equiv> 1"
abbreviation (input) TSW_DELAY :: int where "TSW_DELAY \<equiv> 2"
abbreviation (input) TSW_SEMA :: int where "TSW_SEMA \<equiv> 3"
abbreviation (input) TSW_EVENTFLAG :: int where "TSW_EVENTFLAG \<equiv> 4"

abbreviation (input) WEF_OR :: u32 where "WEF_OR \<equiv> 0x01"
abbreviation (input) WEF_CLEAR :: u32 where "WEF_CLEAR \<equiv> 0x10"
abbreviation (input) EA_MULTI :: u32 where "EA_MULTI \<equiv> 0x02"

abbreviation (input) THREAD_STACK_ARENA_TOP :: u32 where "THREAD_STACK_ARENA_TOP \<equiv> 0x001F0000"
abbreviation (input) THREAD_STACK_ARENA_BOTTOM :: u32 where "THREAD_STACK_ARENA_BOTTOM \<equiv> 0x00180000"

abbreviation (input) ENTRY_RETURN_TRAMPOLINE :: u32 where "ENTRY_RETURN_TRAMPOLINE \<equiv> 0x1B0"
abbreviation (input) ALARM_RETURN_TRAMPOLINE :: u32 where "ALARM_RETURN_TRAMPOLINE \<equiv> 0x210"

section \<open>State\<close>

record iop_tcb =
  t_in_use :: bool
  t_status :: u32
  t_attr :: u32
  t_option :: u32
  t_entry :: u32
  t_stack_base :: u32
  t_stack_size :: u32
  t_priority :: u32
  t_init_priority :: u32
  t_wait_type :: int
  t_wait_id :: int
  t_wakeup_count :: u32
  t_delay_deadline :: u64
  t_ready_seq :: u32
  t_wait_evf_bits :: u32
  t_wait_evf_mode :: u32
  t_wait_evf_resptr :: u32
  t_gpr :: "nat \<Rightarrow> u32"
  t_pc :: u32
  t_next_pc :: u32
  t_hi :: u32
  t_lo :: u32

definition zero_tcb :: iop_tcb where
  "zero_tcb = \<lparr>t_in_use = False, t_status = 0, t_attr = 0, t_option = 0, t_entry = 0, t_stack_base = 0,
     t_stack_size = 0, t_priority = 0, t_init_priority = 0, t_wait_type = 0, t_wait_id = 0, t_wakeup_count = 0,
     t_delay_deadline = 0, t_ready_seq = 0, t_wait_evf_bits = 0, t_wait_evf_mode = 0, t_wait_evf_resptr = 0,
     t_gpr = \<lambda>_. 0, t_pc = 0, t_next_pc = 0, t_hi = 0, t_lo = 0\<rparr>"

text \<open>The semaphore's \<open>int32_t\<close> fields are kept as 32-bit words and compared with \<open>sint\<close>.\<close>

record iop_sema =
  s_in_use :: bool
  s_attr :: u32
  s_option :: u32
  s_initial :: u32
  s_max :: u32
  s_count :: u32
  s_num_wait_threads :: u32

definition zero_sema :: iop_sema where
  "zero_sema = \<lparr>s_in_use = False, s_attr = 0, s_option = 0, s_initial = 0, s_max = 0, s_count = 0, s_num_wait_threads = 0\<rparr>"

record iop_evf =
  e_in_use :: bool
  e_attr :: u32
  e_option :: u32
  e_init_bits :: u32
  e_bits :: u32
  e_num_wait_threads :: u32

definition zero_evf :: iop_evf where
  "zero_evf = \<lparr>e_in_use = False, e_attr = 0, e_option = 0, e_init_bits = 0, e_bits = 0, e_num_wait_threads = 0\<rparr>"

record iop_alarm =
  a_in_use :: bool
  a_handler :: u32
  a_common :: u32
  a_deadline :: u64

definition zero_alarm :: iop_alarm where
  "zero_alarm = \<lparr>a_in_use = False, a_handler = 0, a_common = 0, a_deadline = 0\<rparr>"

text \<open>The statistics structure: one counter per constructor.\<close>

datatype stat = threads_created | threads_started | threads_exited | threads_deleted | context_switches
  | semas_created | semas_deleted | wait_sema_blocked | wait_sema_immediate | sleep_thread_blocked
  | delay_thread_blocked | evflags_created | evflags_deleted | wait_evf_blocked | wait_evf_immediate
  | alarms_set | alarms_cancelled | alarms_fired

record hle_threads =
  threads :: "iop_tcb list"
  thread_count :: int
  current_thread_id :: int
  ready_seq_counter :: u32
  stack_bump_next :: u32
  semas :: "iop_sema list"
  evflags :: "iop_evf list"
  alarms :: "iop_alarm list"
  alarm_in_dispatch :: bool
  alarm_dispatch_slot :: int
  alarm_resume_pc :: u32
  alarm_resume_next_pc :: u32
  stats :: "stat \<Rightarrow> u32"

type_synonym 'x hle = "hle_threads \<times> 'x iop_state"

definition iop_hle_thread_init :: hle_threads where
  "iop_hle_thread_init = \<lparr>threads = replicate 64 zero_tcb, thread_count = 0, current_thread_id = 0,
     ready_seq_counter = 0, stack_bump_next = THREAD_STACK_ARENA_TOP, semas = replicate 64 zero_sema,
     evflags = replicate 32 zero_evf, alarms = replicate 16 zero_alarm, alarm_in_dispatch = False,
     alarm_dispatch_slot = 0, alarm_resume_pc = 0, alarm_resume_next_pc = 0, stats = \<lambda>_. 0\<rparr>"

definition bump :: "stat \<Rightarrow> hle_threads \<Rightarrow> hle_threads" where
  "bump k g = g\<lparr>stats := (stats g)(k := stats g k + 1)\<rparr>"

section \<open>Slots\<close>

definition tcb :: "int \<Rightarrow> hle_threads \<Rightarrow> iop_tcb option" where
  "tcb thid g = (if thid < 1 \<or> thid > 64 then None else Some (threads g ! nat (thid - 1)))"

definition set_tcb :: "int \<Rightarrow> iop_tcb \<Rightarrow> hle_threads \<Rightarrow> hle_threads" where
  "set_tcb thid t g = g\<lparr>threads := (threads g)[nat (thid - 1) := t]\<rparr>"

definition sema :: "int \<Rightarrow> hle_threads \<Rightarrow> iop_sema option" where
  "sema semid g = (if semid < 1 \<or> semid > 64 then None else Some (semas g ! nat (semid - 1)))"

definition set_sema :: "int \<Rightarrow> iop_sema \<Rightarrow> hle_threads \<Rightarrow> hle_threads" where
  "set_sema semid s g = g\<lparr>semas := (semas g)[nat (semid - 1) := s]\<rparr>"

definition evf :: "int \<Rightarrow> hle_threads \<Rightarrow> iop_evf option" where
  "evf efid g = (if efid < 1 \<or> efid > 32 then None else Some (evflags g ! nat (efid - 1)))"

definition set_evf :: "int \<Rightarrow> iop_evf \<Rightarrow> hle_threads \<Rightarrow> hle_threads" where
  "set_evf efid e g = g\<lparr>evflags := (evflags g)[nat (efid - 1) := e]\<rparr>"

definition alarm_slot :: "int \<Rightarrow> hle_threads \<Rightarrow> iop_alarm option" where
  "alarm_slot i g = (if i < 1 \<or> i > 16 then None else Some (alarms g ! nat (i - 1)))"

definition set_alarm :: "int \<Rightarrow> iop_alarm \<Rightarrow> hle_threads \<Rightarrow> hle_threads" where
  "set_alarm i a g = g\<lparr>alarms := (alarms g)[nat (i - 1) := a]\<rparr>"

definition slot_id :: "nat option \<Rightarrow> int" where
  "slot_id r = (case r of None \<Rightarrow> 0 | Some i \<Rightarrow> int i + 1)"

definition alloc_tcb_slot :: "hle_threads \<Rightarrow> int" where
  "alloc_tcb_slot g = slot_id (list_find_index (\<lambda>t. \<not> t_in_use t) (threads g))"

definition alloc_sema_slot :: "hle_threads \<Rightarrow> int" where
  "alloc_sema_slot g = slot_id (list_find_index (\<lambda>s. \<not> s_in_use s) (semas g))"

definition alloc_evf_slot :: "hle_threads \<Rightarrow> int" where
  "alloc_evf_slot g = slot_id (list_find_index (\<lambda>e. \<not> e_in_use e) (evflags g))"

definition alloc_alarm_slot :: "hle_threads \<Rightarrow> int" where
  "alloc_alarm_slot g = slot_id (list_find_index (\<lambda>a. \<not> a_in_use a) (alarms g))"

text \<open>\<open>g.ready_seq_counter++\<close>: the value before, stored in the thread.\<close>

definition next_seq :: "hle_threads \<Rightarrow> u32 \<times> hle_threads" where
  "next_seq g = (ready_seq_counter g, g\<lparr>ready_seq_counter := ready_seq_counter g + 1\<rparr>)"

section \<open>Contexts and scheduling\<close>

definition capture :: "'x iop_state \<Rightarrow> iop_tcb \<Rightarrow> iop_tcb" where
  "capture st t = t\<lparr>t_gpr := gpr st, t_pc := pc st, t_next_pc := next_pc st, t_hi := hi st, t_lo := lo st\<rparr>"

definition restore :: "iop_tcb \<Rightarrow> 'x iop_state \<Rightarrow> 'x iop_state" where
  "restore t st = st\<lparr>gpr := t_gpr t, pc := t_pc t, next_pc := t_next_pc t, hi := t_hi t, lo := t_lo t\<rparr>"

definition ensure_root_thread :: "'x hle \<Rightarrow> 'x hle" where
  "ensure_root_thread = (\<lambda>(g, st).
     if thread_count g > 0 then (g, st)
     else let (q, g1) = next_seq g in
       (set_tcb 1 (capture st (zero_tcb\<lparr>t_in_use := True, t_status := THS_RUN, t_priority := 64,
                      t_init_priority := 64, t_ready_seq := q\<rparr>)) g1
          \<lparr>thread_count := 1, current_thread_id := 1\<rparr>, st))"

definition save_context :: "'x iop_state \<Rightarrow> int \<Rightarrow> hle_threads \<Rightarrow> hle_threads" where
  "save_context st thid g = (case tcb thid g of None \<Rightarrow> g | Some t \<Rightarrow> set_tcb thid (capture st t) g)"

definition load_context :: "hle_threads \<Rightarrow> int \<Rightarrow> 'x iop_state \<Rightarrow> 'x iop_state" where
  "load_context g thid st = (case tcb thid g of None \<Rightarrow> st | Some t \<Rightarrow> restore t st)"

definition runnable :: "iop_tcb \<Rightarrow> bool" where
  "runnable t \<longleftrightarrow> t_in_use t \<and> (t_status t = THS_RUN \<or> t_status t = THS_READY)"

text \<open>The loop of \<open>pick_next_ready\<close> from slot \<open>i\<close> on, with the best so far.\<close>

fun pick_from :: "nat \<Rightarrow> iop_tcb list \<Rightarrow> int \<times> u32 \<times> u32 \<Rightarrow> int \<times> u32 \<times> u32" where
  "pick_from i [] b = b"
| "pick_from i (t # ts) (best, best_prio, best_seq) =
     pick_from (Suc i) ts
       (if runnable t \<and> (t_priority t < best_prio \<or> t_priority t = best_prio \<and> t_ready_seq t < best_seq)
        then (int i + 1, t_priority t, t_ready_seq t) else (best, best_prio, best_seq))"

definition pick_next_ready :: "hle_threads \<Rightarrow> int" where
  "pick_next_ready g = fst (pick_from 0 (threads g) (0, 0xFFFFFFFF, 0xFFFFFFFF))"

definition set_status :: "int \<Rightarrow> u32 \<Rightarrow> hle_threads \<Rightarrow> hle_threads" where
  "set_status thid s g = (case tcb thid g of None \<Rightarrow> g | Some t \<Rightarrow> set_tcb thid (t\<lparr>t_status := s\<rparr>) g)"

text \<open>Saving the live registers into the current thread, when it is the one they belong to.\<close>

definition running :: "int \<Rightarrow> hle_threads \<Rightarrow> bool" where
  "running thid g \<longleftrightarrow> thid \<noteq> 0 \<and> (case tcb thid g of Some t \<Rightarrow> t_status t = THS_RUN | None \<Rightarrow> False)"

definition reschedule :: "'x hle \<Rightarrow> 'x hle" where
  "reschedule = (\<lambda>(g, st).
     let nxt = pick_next_ready g; cur = current_thread_id g in
     if nxt = 0 then
       ((if running cur g then save_context st cur g else g)\<lparr>current_thread_id := 0\<rparr>, st\<lparr>idle := True\<rparr>)
     else if nxt \<noteq> cur then
       let g1 = (if running cur g then save_context st cur (set_status cur THS_READY g) else g);
           st1 = load_context g1 nxt st;
           g2 = set_status nxt THS_RUN g1
       in (bump context_switches (g2\<lparr>current_thread_id := nxt\<rparr>), st1\<lparr>idle := False\<rparr>)
     else (set_status cur THS_RUN g, st\<lparr>idle := False\<rparr>))"

section \<open>Waking waiters\<close>

definition waits_on_sema :: "int \<Rightarrow> iop_tcb \<Rightarrow> bool" where
  "waits_on_sema semid t \<longleftrightarrow> t_in_use t \<and> t_status t = THS_WAIT \<and> t_wait_type t = TSW_SEMA \<and> t_wait_id t = semid"

fun sema_pick_from :: "int \<Rightarrow> u32 \<Rightarrow> nat \<Rightarrow> iop_tcb list \<Rightarrow> int \<times> u32 \<times> u32 \<Rightarrow> int \<times> u32 \<times> u32" where
  "sema_pick_from semid attr i [] b = b"
| "sema_pick_from semid attr i (t # ts) (best, best_prio, best_seq) =
     sema_pick_from semid attr (Suc i) ts
       (if waits_on_sema semid t \<and>
           (best = 0 \<or>
            (if attr AND 1 \<noteq> 0
             then t_priority t < best_prio \<or> t_priority t = best_prio \<and> t_ready_seq t < best_seq
             else t_ready_seq t < best_seq))
        then (int i + 1, t_priority t, t_ready_seq t) else (best, best_prio, best_seq))"

text \<open>Making a waiting thread ready again, at the end of its priority's queue.\<close>

definition make_ready :: "int \<Rightarrow> hle_threads \<Rightarrow> hle_threads" where
  "make_ready thid g =
     (case tcb thid g of
        None \<Rightarrow> g
      | Some t \<Rightarrow>
          let (q, g1) = next_seq g in
          set_tcb thid (t\<lparr>t_status := THS_READY, t_wait_type := 0, t_wait_id := 0, t_ready_seq := q\<rparr>) g1)"

definition wake_one_sema_waiter :: "int \<Rightarrow> u32 \<Rightarrow> hle_threads \<Rightarrow> bool \<times> hle_threads" where
  "wake_one_sema_waiter semid attr g =
     (let best = fst (sema_pick_from semid attr 0 (threads g) (0, 0xFFFFFFFF, 0xFFFFFFFF)) in
      if best = 0 then (False, g)
      else
        let g1 = make_ready best g in
        (True, case sema semid g1 of
                 None \<Rightarrow> g1
               | Some s \<Rightarrow> set_sema semid (s\<lparr>s_num_wait_threads := s_num_wait_threads s - 1\<rparr>) g1))"

definition waits_on_evf :: "int \<Rightarrow> iop_tcb \<Rightarrow> bool" where
  "waits_on_evf efid t \<longleftrightarrow> t_in_use t \<and> t_status t = THS_WAIT \<and> t_wait_type t = TSW_EVENTFLAG \<and> t_wait_id t = efid"

definition evf_match :: "u32 \<Rightarrow> u32 \<Rightarrow> u32 \<Rightarrow> bool" where
  "evf_match cur_bits bits m \<longleftrightarrow>
     (if m AND WEF_OR \<noteq> 0 then cur_bits AND bits \<noteq> 0 else cur_bits AND bits = bits)"

text \<open>One iteration of the loop of \<open>wake_evf_waiters\<close>, on the thread with id \<open>thid\<close>.\<close>

definition wake_evf_step :: "'x iop_bus \<Rightarrow> int \<Rightarrow> int \<Rightarrow> 'x hle \<Rightarrow> 'x hle" where
  "wake_evf_step bus efid thid = (\<lambda>(g, st).
     case (evf efid g, tcb thid g) of
       (Some e, Some t) \<Rightarrow>
         if waits_on_evf efid t \<and> evf_match (e_bits e) (t_wait_evf_bits t) (t_wait_evf_mode t) then
           (set_evf efid (e\<lparr>e_bits := if t_wait_evf_mode t AND WEF_CLEAR \<noteq> 0 then 0 else e_bits e,
                             e_num_wait_threads := e_num_wait_threads e - 1\<rparr>) (make_ready thid g),
            if t_wait_evf_resptr t \<noteq> 0 then iop_mem_write32 bus (t_wait_evf_resptr t) (e_bits e) st else st)
         else (g, st)
     | _ \<Rightarrow> (g, st))"

fun wake_evf_from :: "'x iop_bus \<Rightarrow> int \<Rightarrow> nat \<Rightarrow> nat \<Rightarrow> 'x hle \<Rightarrow> 'x hle" where
  "wake_evf_from bus efid i 0 s = s"
| "wake_evf_from bus efid i (Suc n) s =
     (case evf efid (fst s) of
        None \<Rightarrow> s
      | Some e \<Rightarrow> if e_bits e = 0 then s else wake_evf_from bus efid (Suc i) n (wake_evf_step bus efid (int i + 1) s))"

definition wake_evf_waiters :: "'x iop_bus \<Rightarrow> int \<Rightarrow> 'x hle \<Rightarrow> 'x hle" where
  "wake_evf_waiters bus efid s = wake_evf_from bus efid 0 64 s"

section \<open>Thread gates\<close>

text \<open>Every gate reads the return address first and most end by returning a value to it.\<close>

definition ret :: "u32 \<Rightarrow> u32 \<Rightarrow> 'x iop_state \<Rightarrow> 'x iop_state" where
  "ret ra v st = st\<lparr>gpr := (gpr st)(2 := v), pc := ra, next_pc := ra + 4\<rparr>"

definition ERR :: u32 where "ERR = -1"

text \<open>The processor state in which a memory word was read, and the word.\<close>

definition read_param :: "'x iop_bus \<Rightarrow> u32 \<Rightarrow> u32 \<Rightarrow> 'x iop_state \<Rightarrow> u32 \<times> 'x iop_state" where
  "read_param bus ptr off st = iop_mem_read32 bus (ptr + off) st"

text \<open>Microseconds to processor cycles at 33.8688 MHz, in 64 bits.\<close>

definition usec_to_cycles :: "u32 \<Rightarrow> u64" where
  "usec_to_cycles usec = (ucast usec * 33868800) div 1000000"

definition gate_alarm_return :: "'x hle \<Rightarrow> 'x hle" where
  "gate_alarm_return = (\<lambda>(g, st).
     if alarm_in_dispatch g then
       let g1 = (case alarm_slot (alarm_dispatch_slot g) g of
                   Some a \<Rightarrow>
                     if a_in_use a then
                       set_alarm (alarm_dispatch_slot g)
                         (if gpr st 2 = 0 then a\<lparr>a_in_use := False\<rparr>
                          else a\<lparr>a_deadline := instructions_executed st + usec_to_cycles (gpr st 2)\<rparr>) g
                     else g
                 | None \<Rightarrow> g)
       in (bump alarms_fired (g1\<lparr>alarm_in_dispatch := False, alarm_dispatch_slot := 0\<rparr>),
           st\<lparr>pc := alarm_resume_pc g, next_pc := alarm_resume_next_pc g\<rparr>)
     else (g, st))"

definition gate_entry_return :: "'x hle \<Rightarrow> 'x hle" where
  "gate_entry_return = (\<lambda>(g, st).
     reschedule (bump threads_exited
       (if current_thread_id g \<noteq> 0 then set_status (current_thread_id g) THS_DORMANT g else g), st))"

definition gate_create_thread :: "'x iop_bus \<Rightarrow> 'x hle \<Rightarrow> 'x hle" where
  "gate_create_thread bus = (\<lambda>(g, st0).
     let ra = gpr st0 31; param = gpr st0 4;
         (attr, st1) = read_param bus param 0 st0;
         (optn, st2) = read_param bus param 4 st1;
         (entry, st3) = read_param bus param 8 st2;
         (ssize, st4) = read_param bus param 12 st3;
         (prio, st) = read_param bus param 16 st4;
         stacksize = (if ssize < 0x100 then 0x100 else ssize);
         slot = alloc_tcb_slot g
     in if slot = 0 \<or> stack_bump_next g < THREAD_STACK_ARENA_BOTTOM + stacksize then (g, ret ra ERR st)
        else
          let aligned = (stacksize + 15) AND NOT 15;
              base = stack_bump_next g - aligned
          in (bump threads_created
                ((set_tcb slot (zero_tcb\<lparr>t_in_use := True, t_status := THS_DORMANT, t_attr := attr,
                    t_option := optn, t_entry := entry, t_stack_base := base, t_stack_size := aligned,
                    t_priority := prio, t_init_priority := prio\<rparr>) g)
                 \<lparr>stack_bump_next := base, thread_count := max (thread_count g) slot\<rparr>),
              ret ra (word_of_int slot) st))"

definition gate_delete_thread :: "'x hle \<Rightarrow> 'x hle" where
  "gate_delete_thread = (\<lambda>(g, st).
     let ra = gpr st 31; thid = sint (gpr st 4) in
     case tcb thid g of
       Some t \<Rightarrow>
         if t_in_use t \<and> t_status t = THS_DORMANT
         then (bump threads_deleted (set_tcb thid (t\<lparr>t_in_use := False\<rparr>) g), ret ra 0 st)
         else (g, ret ra ERR st)
     | None \<Rightarrow> (g, ret ra ERR st))"

text \<open>\<open>args\<close> is \<open>StartThreadArgs\<close>.\<close>

definition gate_start_thread :: "bool \<Rightarrow> 'x hle \<Rightarrow> 'x hle" where
  "gate_start_thread args = (\<lambda>(g, st).
     let ra = gpr st 31; thid = sint (gpr st 4) in
     reschedule
       (case tcb thid g of
          Some t \<Rightarrow>
            if t_in_use t \<and> t_status t = THS_DORMANT then
              let regs = (\<lambda>_. 0)(29 := (t_stack_base t + t_stack_size t) AND NOT 7, 28 := gpr st 28,
                                  31 := ENTRY_RETURN_TRAMPOLINE, 4 := gpr st 5);
                  (q, g1) = next_seq g
              in (bump threads_started
                    (set_tcb thid (t\<lparr>t_gpr := if args then regs(5 := gpr st 6) else regs, t_pc := t_entry t,
                       t_next_pc := t_entry t + 4, t_status := THS_READY, t_ready_seq := q\<rparr>) g1),
                  ret ra 0 st)
            else (g, ret ra ERR st)
        | None \<Rightarrow> (g, ret ra ERR st)))"

text \<open>\<open>del\<close> is \<open>ExitDeleteThread\<close>.\<close>

definition gate_exit_thread :: "bool \<Rightarrow> 'x hle \<Rightarrow> 'x hle" where
  "gate_exit_thread del = (\<lambda>(g, st).
     reschedule (bump threads_exited
       (case tcb (current_thread_id g) g of
          Some t \<Rightarrow> set_tcb (current_thread_id g)
                      (t\<lparr>t_status := THS_DORMANT, t_in_use := (if del then False else t_in_use t)\<rparr>) g
        | None \<Rightarrow> g), st))"

definition gate_terminate_thread :: "'x hle \<Rightarrow> 'x hle" where
  "gate_terminate_thread = (\<lambda>(g, st).
     let ra = gpr st 31; thid = sint (gpr st 4) in
     case tcb thid g of
       Some t \<Rightarrow>
         if t_in_use t \<and> thid \<noteq> current_thread_id g
         then (set_tcb thid (t\<lparr>t_status := THS_DORMANT, t_wait_type := 0, t_wait_id := 0\<rparr>) g, ret ra 0 st)
         else (g, ret ra ERR st)
     | None \<Rightarrow> (g, ret ra ERR st))"

definition gate_const :: "u32 \<Rightarrow> 'x hle \<Rightarrow> 'x hle" where
  "gate_const v = (\<lambda>(g, st). (g, ret (gpr st 31) v st))"

definition gate_change_priority :: "'x hle \<Rightarrow> 'x hle" where
  "gate_change_priority = (\<lambda>(g, st).
     let ra = gpr st 31; thid = sint (gpr st 4) in
     reschedule
       (case tcb thid g of
          Some t \<Rightarrow> if t_in_use t then (set_tcb thid (t\<lparr>t_priority := gpr st 5\<rparr>) g, ret ra 0 st)
                     else (g, ret ra ERR st)
        | None \<Rightarrow> (g, ret ra ERR st)))"

fun earliest_from :: "u32 \<Rightarrow> nat \<Rightarrow> iop_tcb list \<Rightarrow> int \<times> u32 \<Rightarrow> int \<times> u32" where
  "earliest_from prio i [] b = b"
| "earliest_from prio i (t # ts) (best, best_seq) =
     earliest_from prio (Suc i) ts
       (if t_priority t = prio \<and> runnable t \<and> t_ready_seq t < best_seq
        then (int i + 1, t_ready_seq t) else (best, best_seq))"

definition gate_rotate :: "'x hle \<Rightarrow> 'x hle" where
  "gate_rotate = (\<lambda>(g, st).
     let ra = gpr st 31; cur = current_thread_id g;
         prio = (if gpr st 4 = 0 \<and> cur \<noteq> 0 then (case tcb cur g of Some t \<Rightarrow> t_priority t | None \<Rightarrow> gpr st 4)
                 else gpr st 4);
         earliest = fst (earliest_from prio 0 (threads g) (0, 0xFFFFFFFF));
         g1 = (if earliest = 0 then g
               else case tcb earliest g of
                      Some t \<Rightarrow> (let (q, g1) = next_seq g in set_tcb earliest (t\<lparr>t_ready_seq := q\<rparr>) g1)
                    | None \<Rightarrow> g)
     in reschedule (g1, ret ra 0 st))"

definition gate_release_wait :: "'x hle \<Rightarrow> 'x hle" where
  "gate_release_wait = (\<lambda>(g, st).
     let ra = gpr st 31; thid = sint (gpr st 4) in
     reschedule
       (case tcb thid g of
          Some t \<Rightarrow>
            if t_in_use t \<and> t_status t = THS_WAIT then
              let g1 = (if t_wait_type t = TSW_SEMA
                        then (case sema (t_wait_id t) g of
                                Some s \<Rightarrow> set_sema (t_wait_id t) (s\<lparr>s_num_wait_threads := s_num_wait_threads s - 1\<rparr>) g
                              | None \<Rightarrow> g)
                        else g)
              in (make_ready thid g1, ret ra 0 st)
            else (g, ret ra ERR st)
        | None \<Rightarrow> (g, ret ra ERR st)))"

definition gate_get_thread_id :: "'x hle \<Rightarrow> 'x hle" where
  "gate_get_thread_id = (\<lambda>(g, st). (g, ret (gpr st 31) (word_of_int (current_thread_id g)) st))"

definition gate_check_stack :: "'x hle \<Rightarrow> 'x hle" where
  "gate_check_stack = (\<lambda>(g, st).
     (g, ret (gpr st 31) (case tcb (current_thread_id g) g of Some t \<Rightarrow> t_stack_size t | None \<Rightarrow> 0) st))"

text \<open>Storing a list of words at consecutive addresses.\<close>

fun write_words :: "'x iop_bus \<Rightarrow> u32 \<Rightarrow> u32 list \<Rightarrow> 'x iop_state \<Rightarrow> 'x iop_state" where
  "write_words bus ptr [] st = st"
| "write_words bus ptr (w # ws) st = write_words bus (ptr + 4) ws (iop_mem_write32 bus ptr w st)"

definition gate_refer_thread :: "'x iop_bus \<Rightarrow> 'x hle \<Rightarrow> 'x hle" where
  "gate_refer_thread bus = (\<lambda>(g, st).
     let ra = gpr st 31; thid = sint (gpr st 4); info = gpr st 5 in
     case tcb thid g of
       Some t \<Rightarrow>
         if t_in_use t
         then (g, ret ra 0 (write_words bus info [t_attr t, t_option t, t_status t, t_entry t, t_stack_base t,
                t_stack_size t, t_gpr t 28, t_init_priority t, t_priority t, word_of_int (t_wait_type t),
                word_of_int (t_wait_id t), t_wakeup_count t, 0] st))
         else (g, ret ra ERR st)
     | None \<Rightarrow> (g, ret ra ERR st))"

text \<open>Blocking the calling thread: the context is saved as given, then the status changes.\<close>

definition block_current :: "'x iop_state \<Rightarrow> int \<Rightarrow> int \<Rightarrow> hle_threads \<Rightarrow> hle_threads" where
  "block_current st wtype wid g =
     (let cur = current_thread_id g; g1 = save_context st cur g in
      case tcb cur g1 of
        Some t \<Rightarrow> set_tcb cur (t\<lparr>t_status := THS_WAIT, t_wait_type := wtype, t_wait_id := wid\<rparr>) g1
      | None \<Rightarrow> g1)"

definition gate_sleep :: "'x hle \<Rightarrow> 'x hle" where
  "gate_sleep = (\<lambda>(g, st).
     let ra = gpr st 31; cur = current_thread_id g in
     case tcb cur g of
       Some t \<Rightarrow>
         if t_wakeup_count t > 0
         then (set_tcb cur (t\<lparr>t_wakeup_count := t_wakeup_count t - 1\<rparr>) g, ret ra 0 st)
         else let st1 = ret ra 0 st
              in reschedule (bump sleep_thread_blocked (block_current st1 TSW_SLEEP 0 g), st1)
     | None \<Rightarrow> (g, st\<lparr>pc := ra, next_pc := ra + 4\<rparr>))"

definition gate_wakeup :: "'x hle \<Rightarrow> 'x hle" where
  "gate_wakeup = (\<lambda>(g, st).
     let ra = gpr st 31; thid = sint (gpr st 4) in
     reschedule
       (case tcb thid g of
          Some t \<Rightarrow>
            if t_in_use t then
              (if t_status t = THS_WAIT \<and> t_wait_type t = TSW_SLEEP
               then (let (q, g1) = next_seq g in
                     set_tcb thid (t\<lparr>t_status := THS_READY, t_wait_type := 0, t_ready_seq := q\<rparr>) g1)
               else set_tcb thid (t\<lparr>t_wakeup_count := t_wakeup_count t + 1\<rparr>) g, ret ra 0 st)
            else (g, ret ra ERR st)
        | None \<Rightarrow> (g, ret ra ERR st)))"

definition gate_cancel_wakeup :: "'x hle \<Rightarrow> 'x hle" where
  "gate_cancel_wakeup = (\<lambda>(g, st).
     let ra = gpr st 31; thid = sint (gpr st 4) in
     case tcb thid g of
       Some t \<Rightarrow> if t_in_use t then (set_tcb thid (t\<lparr>t_wakeup_count := 0\<rparr>) g, ret ra (t_wakeup_count t) st)
                  else (g, ret ra ERR st)
     | None \<Rightarrow> (g, ret ra ERR st))"

definition gate_suspend :: "'x hle \<Rightarrow> 'x hle" where
  "gate_suspend = (\<lambda>(g, st).
     let ra = gpr st 31; thid = sint (gpr st 4) in
     reschedule
       (case tcb thid g of
          Some t \<Rightarrow> if t_in_use t \<and> t_status t \<noteq> THS_DORMANT
                     then (set_tcb thid (t\<lparr>t_status := t_status t OR THS_SUSPEND\<rparr>) g, ret ra 0 st)
                     else (g, ret ra ERR st)
        | None \<Rightarrow> (g, ret ra ERR st)))"

definition gate_resume :: "'x hle \<Rightarrow> 'x hle" where
  "gate_resume = (\<lambda>(g, st).
     let ra = gpr st 31; thid = sint (gpr st 4) in
     reschedule
       (case tcb thid g of
          Some t \<Rightarrow>
            if t_in_use t \<and> t_status t AND THS_SUSPEND \<noteq> 0 then
              let s0 = t_status t AND NOT THS_SUSPEND;
                  s1 = (if s0 = 0 then THS_READY else s0);
                  (q, g1) = next_seq g
              in (if s1 = THS_READY then set_tcb thid (t\<lparr>t_status := s1, t_ready_seq := q\<rparr>) g1
                  else set_tcb thid (t\<lparr>t_status := s1\<rparr>) g, ret ra 0 st)
            else (g, ret ra ERR st)
        | None \<Rightarrow> (g, ret ra ERR st)))"

definition gate_delay :: "'x hle \<Rightarrow> 'x hle" where
  "gate_delay = (\<lambda>(g, st).
     let ra = gpr st 31; cur = current_thread_id g in
     case tcb cur g of
       Some t \<Rightarrow>
         let g1 = set_tcb cur (t\<lparr>t_delay_deadline := instructions_executed st + usec_to_cycles (gpr st 4)\<rparr>) g
         in reschedule (bump delay_thread_blocked (block_current st TSW_DELAY 0 g1), ret ra 0 st)
     | None \<Rightarrow> (g, st\<lparr>pc := ra, next_pc := ra + 4\<rparr>))"

definition gate_system_time :: "'x iop_bus \<Rightarrow> 'x hle \<Rightarrow> 'x hle" where
  "gate_system_time bus = (\<lambda>(g, st).
     let v = instructions_executed st in
     (g, ret (gpr st 31) 0 (write_words bus (gpr st 4) [ucast v, ucast (drop_bit 32 v)] st)))"

section \<open>Semaphore gates\<close>

definition gate_create_sema :: "'x iop_bus \<Rightarrow> 'x hle \<Rightarrow> 'x hle" where
  "gate_create_sema bus = (\<lambda>(g, st0).
     let ra = gpr st0 31; param = gpr st0 4;
         (attr, st1) = read_param bus param 0 st0;
         (optn, st2) = read_param bus param 4 st1;
         (initial, st3) = read_param bus param 8 st2;
         (mx, st) = read_param bus param 12 st3;
         slot = alloc_sema_slot g
     in if slot = 0 then (g, ret ra ERR st)
        else (bump semas_created (set_sema slot (zero_sema\<lparr>s_in_use := True, s_attr := attr, s_option := optn,
                s_initial := initial, s_max := mx, s_count := initial\<rparr>) g),
              ret ra (word_of_int slot) st))"

definition gate_delete_sema :: "'x hle \<Rightarrow> 'x hle" where
  "gate_delete_sema = (\<lambda>(g, st).
     let ra = gpr st 31; semid = sint (gpr st 4) in
     case sema semid g of
       Some s \<Rightarrow> if s_in_use s then (bump semas_deleted (set_sema semid (s\<lparr>s_in_use := False\<rparr>) g), ret ra 0 st)
                  else (g, ret ra ERR st)
     | None \<Rightarrow> (g, ret ra ERR st))"

text \<open>The body of \<open>SignalSema\<close> and \<open>iSignalSema\<close>; only the first reschedules.\<close>

definition signal_sema :: "'x hle \<Rightarrow> 'x hle" where
  "signal_sema = (\<lambda>(g, st).
     let ra = gpr st 31; semid = sint (gpr st 4) in
     case sema semid g of
       Some s \<Rightarrow>
         if s_in_use s then
           (let (woken, g1) = wake_one_sema_waiter semid (s_attr s) g in
            if woken then g1
            else if sint (s_count s) < sint (s_max s) then set_sema semid (s\<lparr>s_count := s_count s + 1\<rparr>) g1
            else g1,
            ret ra 0 st)
         else (g, ret ra ERR st)
     | None \<Rightarrow> (g, ret ra ERR st))"

definition gate_signal_sema :: "bool \<Rightarrow> 'x hle \<Rightarrow> 'x hle" where
  "gate_signal_sema from_intr s = (if from_intr then signal_sema s else reschedule (signal_sema s))"

definition gate_wait_sema :: "'x hle \<Rightarrow> 'x hle" where
  "gate_wait_sema = (\<lambda>(g, st).
     let ra = gpr st 31; semid = sint (gpr st 4); cur = current_thread_id g in
     case sema semid g of
       None \<Rightarrow> (g, ret ra ERR st)
     | Some s \<Rightarrow>
         if \<not> s_in_use s then (g, ret ra ERR st)
         else if sint (s_count s) > 0
         then (bump wait_sema_immediate (set_sema semid (s\<lparr>s_count := s_count s - 1\<rparr>) g), ret ra 0 st)
         else
           let st1 = ret ra 0 st;
               g1 = (case tcb cur g of
                       None \<Rightarrow> g
                     | Some _ \<Rightarrow>
                         let (q, g0) = next_seq (block_current st1 TSW_SEMA semid g) in
                         (case tcb cur g0 of Some t \<Rightarrow> set_tcb cur (t\<lparr>t_ready_seq := q\<rparr>) g0 | None \<Rightarrow> g0))
           in reschedule (bump wait_sema_blocked
                (set_sema semid (s\<lparr>s_num_wait_threads := s_num_wait_threads s + 1\<rparr>) g1), st1))"

definition gate_poll_sema :: "'x hle \<Rightarrow> 'x hle" where
  "gate_poll_sema = (\<lambda>(g, st).
     let ra = gpr st 31; semid = sint (gpr st 4) in
     case sema semid g of
       Some s \<Rightarrow> if s_in_use s \<and> sint (s_count s) > 0
                  then (set_sema semid (s\<lparr>s_count := s_count s - 1\<rparr>) g, ret ra 0 st)
                  else (g, ret ra ERR st)
     | None \<Rightarrow> (g, ret ra ERR st))"

definition gate_refer_sema :: "'x iop_bus \<Rightarrow> 'x hle \<Rightarrow> 'x hle" where
  "gate_refer_sema bus = (\<lambda>(g, st).
     let ra = gpr st 31; semid = sint (gpr st 4) in
     case sema semid g of
       Some s \<Rightarrow> if s_in_use s
                  then (g, ret ra 0 (write_words bus (gpr st 5) [s_attr s, s_option s, s_initial s, s_max s,
                         s_count s, s_num_wait_threads s] st))
                  else (g, ret ra ERR st)
     | None \<Rightarrow> (g, ret ra ERR st))"

section \<open>Event-flag gates\<close>

definition gate_create_evf :: "'x iop_bus \<Rightarrow> 'x hle \<Rightarrow> 'x hle" where
  "gate_create_evf bus = (\<lambda>(g, st0).
     let ra = gpr st0 31; param = gpr st0 4;
         (attr, st1) = read_param bus param 0 st0;
         (optn, st2) = read_param bus param 4 st1;
         (bits, st) = read_param bus param 8 st2;
         slot = alloc_evf_slot g
     in if slot = 0 then (g, ret ra ERR st)
        else (bump evflags_created (set_evf slot (zero_evf\<lparr>e_in_use := True, e_attr := attr, e_option := optn,
                e_init_bits := bits, e_bits := bits\<rparr>) g),
              ret ra (word_of_int slot) st))"

fun delete_evf_from :: "int \<Rightarrow> nat \<Rightarrow> nat \<Rightarrow> hle_threads \<Rightarrow> hle_threads" where
  "delete_evf_from efid i 0 g = g"
| "delete_evf_from efid i (Suc n) g =
     delete_evf_from efid (Suc i) n
       (case tcb (int i + 1) g of
          Some t \<Rightarrow> if waits_on_evf efid t then make_ready (int i + 1) g else g
        | None \<Rightarrow> g)"

definition gate_delete_evf :: "'x hle \<Rightarrow> 'x hle" where
  "gate_delete_evf = (\<lambda>(g, st).
     let ra = gpr st 31; efid = sint (gpr st 4) in
     reschedule
       (case evf efid g of
          Some e \<Rightarrow> if e_in_use e
                     then (bump evflags_deleted (set_evf efid (e\<lparr>e_in_use := False\<rparr>) (delete_evf_from efid 0 64 g)), ret ra 0 st)
                     else (g, ret ra ERR st)
        | None \<Rightarrow> (g, ret ra ERR st)))"

definition set_event_flag :: "'x iop_bus \<Rightarrow> 'x hle \<Rightarrow> 'x hle" where
  "set_event_flag bus = (\<lambda>(g, st).
     let ra = gpr st 31; efid = sint (gpr st 4); bits = gpr st 5 in
     case evf efid g of
       Some e \<Rightarrow>
         if e_in_use e then
           let (g1, st1) = (if bits \<noteq> 0 then wake_evf_waiters bus efid (set_evf efid (e\<lparr>e_bits := e_bits e OR bits\<rparr>) g, st)
                            else (g, st))
           in (g1, ret ra 0 st1)
         else (g, ret ra ERR st)
     | None \<Rightarrow> (g, ret ra ERR st))"

definition gate_set_evf :: "'x iop_bus \<Rightarrow> bool \<Rightarrow> 'x hle \<Rightarrow> 'x hle" where
  "gate_set_evf bus from_intr s = (if from_intr then set_event_flag bus s else reschedule (set_event_flag bus s))"

definition gate_clear_evf :: "'x hle \<Rightarrow> 'x hle" where
  "gate_clear_evf = (\<lambda>(g, st).
     let ra = gpr st 31; efid = sint (gpr st 4) in
     case evf efid g of
       Some e \<Rightarrow> if e_in_use e then (set_evf efid (e\<lparr>e_bits := e_bits e AND gpr st 5\<rparr>) g, ret ra 0 st)
                  else (g, ret ra ERR st)
     | None \<Rightarrow> (g, ret ra ERR st))"

definition gate_wait_evf :: "'x iop_bus \<Rightarrow> 'x hle \<Rightarrow> 'x hle" where
  "gate_wait_evf bus = (\<lambda>(g, st).
     let ra = gpr st 31; efid = sint (gpr st 4); bits = gpr st 5; m = gpr st 6; resptr = gpr st 7;
         cur = current_thread_id g in
     case evf efid g of
       None \<Rightarrow> (g, ret ra ERR st)
     | Some e \<Rightarrow>
         if \<not> e_in_use e \<or> bits = 0 then (g, ret ra ERR st)
         else if e_attr e AND EA_MULTI = 0 \<and> sint (e_num_wait_threads e) > 0 then (g, ret ra ERR st)
         else if evf_match (e_bits e) bits m then
           (bump wait_evf_immediate
              (set_evf efid (e\<lparr>e_bits := if m AND WEF_CLEAR \<noteq> 0 then 0 else e_bits e\<rparr>) g),
            ret ra 0 (if resptr \<noteq> 0 then iop_mem_write32 bus resptr (e_bits e) st else st))
         else
           let st1 = ret ra 0 st;
               g1 = (case tcb cur g of
                       None \<Rightarrow> g
                     | Some _ \<Rightarrow>
                         let g0 = block_current st1 TSW_EVENTFLAG efid g in
                         (case tcb cur g0 of
                            Some t \<Rightarrow> set_tcb cur (t\<lparr>t_wait_evf_bits := bits, t_wait_evf_mode := m,
                                        t_wait_evf_resptr := resptr\<rparr>) g0
                          | None \<Rightarrow> g0))
           in reschedule (bump wait_evf_blocked
                (set_evf efid (e\<lparr>e_num_wait_threads := e_num_wait_threads e + 1\<rparr>) g1), st1))"

definition gate_poll_evf :: "'x iop_bus \<Rightarrow> 'x hle \<Rightarrow> 'x hle" where
  "gate_poll_evf bus = (\<lambda>(g, st).
     let ra = gpr st 31; efid = sint (gpr st 4); bits = gpr st 5; m = gpr st 6; resptr = gpr st 7 in
     case evf efid g of
       Some e \<Rightarrow>
         if e_in_use e \<and> bits \<noteq> 0 \<and> evf_match (e_bits e) bits m then
           (set_evf efid (e\<lparr>e_bits := if m AND WEF_CLEAR \<noteq> 0 then 0 else e_bits e\<rparr>) g,
            ret ra 0 (if resptr \<noteq> 0 then iop_mem_write32 bus resptr (e_bits e) st else st))
         else (g, ret ra ERR st)
     | None \<Rightarrow> (g, ret ra ERR st))"

definition gate_refer_evf :: "'x iop_bus \<Rightarrow> 'x hle \<Rightarrow> 'x hle" where
  "gate_refer_evf bus = (\<lambda>(g, st).
     let ra = gpr st 31; efid = sint (gpr st 4) in
     case evf efid g of
       Some e \<Rightarrow> if e_in_use e
                  then (g, ret ra 0 (write_words bus (gpr st 5) [e_attr e, e_option e, e_init_bits e, e_bits e,
                         e_num_wait_threads e] st))
                  else (g, ret ra ERR st)
     | None \<Rightarrow> (g, ret ra ERR st))"

section \<open>Alarm and clock gates\<close>

definition gate_set_alarm :: "'x hle \<Rightarrow> 'x hle" where
  "gate_set_alarm = (\<lambda>(g, st).
     let ra = gpr st 31; handler = gpr st 5; slot = alloc_alarm_slot g in
     if slot = 0 \<or> handler = 0 then (g, ret ra ERR st)
     else (bump alarms_set (set_alarm slot \<lparr>a_in_use = True, a_handler = handler, a_common = gpr st 6,
             a_deadline = instructions_executed st + usec_to_cycles (gpr st 4)\<rparr> g),
           ret ra (word_of_int slot) st))"

definition gate_cancel_alarm :: "'x hle \<Rightarrow> 'x hle" where
  "gate_cancel_alarm = (\<lambda>(g, st).
     let ra = gpr st 31 in
     case list_find_index (\<lambda>a. a_in_use a \<and> a_handler a = gpr st 4 \<and> a_common a = gpr st 5) (alarms g) of
       Some i \<Rightarrow> (bump alarms_cancelled (g\<lparr>alarms := (alarms g)[i := (alarms g ! i)\<lparr>a_in_use := False\<rparr>]\<rparr>), ret ra 0 st)
     | None \<Rightarrow> (g, ret ra ERR st))"

definition gate_usec2sysclock :: "'x iop_bus \<Rightarrow> 'x hle \<Rightarrow> 'x hle" where
  "gate_usec2sysclock bus = (\<lambda>(g, st).
     let cycles = usec_to_cycles (gpr st 4) in
     (g, ret (gpr st 31) 0 (write_words bus (gpr st 5) [ucast cycles, ucast (drop_bit 32 cycles)] st)))"

definition cycles_to_usec :: "u64 \<Rightarrow> u64" where
  "cycles_to_usec cycles = (cycles * 1000000) div 33868800"

definition gate_sysclock2usec :: "'x iop_bus \<Rightarrow> 'x hle \<Rightarrow> 'x hle" where
  "gate_sysclock2usec bus = (\<lambda>(g, st0).
     let ra = gpr st0 31; ptr = gpr st0 4; sec_ptr = gpr st0 5; usec_ptr = gpr st0 6;
         (lo32, st1) = read_param bus ptr 0 st0;
         (hi32, st2) = read_param bus ptr 4 st1;
         total = cycles_to_usec (ucast lo32 OR push_bit 32 (ucast hi32));
         st3 = (if sec_ptr \<noteq> 0 then iop_mem_write32 bus sec_ptr (ucast (total div 1000000)) st2 else st2);
         st4 = (if usec_ptr \<noteq> 0 then iop_mem_write32 bus usec_ptr (ucast (total mod 1000000)) st3 else st3)
     in (g, ret ra 0 st4))"

section \<open>The gate table\<close>

definition iop_hle_thread_in_range :: "u32 \<Rightarrow> bool" where
  "iop_hle_thread_in_range addr \<longleftrightarrow>
     (0x100 \<le> addr \<and> addr \<le> 0x1AC) \<or> addr = ENTRY_RETURN_TRAMPOLINE
     \<or> (0x1C0 \<le> addr \<and> addr \<le> 0x1E4) \<or> (0x1F0 \<le> addr \<and> addr \<le> 0x204)
     \<or> addr = ALARM_RETURN_TRAMPOLINE"

definition thread_gates :: "'x iop_bus \<Rightarrow> (u32 \<times> ('x hle \<Rightarrow> 'x hle)) list" where
  "thread_gates bus =
     [(ALARM_RETURN_TRAMPOLINE, gate_alarm_return), (ENTRY_RETURN_TRAMPOLINE, gate_entry_return),
      (0x100, gate_const 0), (0x104, gate_create_thread bus), (0x108, gate_delete_thread),
      (0x10C, gate_start_thread False), (0x110, gate_start_thread True),
      (0x114, gate_exit_thread False), (0x118, gate_exit_thread True),
      (0x11C, gate_terminate_thread), (0x120, gate_terminate_thread),
      (0x124, gate_const 0), (0x128, gate_const 0),
      (0x12C, gate_change_priority), (0x130, gate_change_priority),
      (0x134, gate_rotate), (0x138, gate_rotate),
      (0x13C, gate_release_wait), (0x140, gate_release_wait),
      (0x144, gate_get_thread_id), (0x148, gate_check_stack),
      (0x14C, gate_refer_thread bus), (0x150, gate_refer_thread bus),
      (0x154, gate_sleep), (0x158, gate_wakeup), (0x15C, gate_wakeup),
      (0x160, gate_cancel_wakeup), (0x164, gate_cancel_wakeup),
      (0x168, gate_suspend), (0x16C, gate_suspend), (0x170, gate_resume), (0x174, gate_resume),
      (0x178, gate_delay), (0x17C, gate_system_time bus), (0x180, gate_const 0),
      (0x190, gate_create_sema bus), (0x194, gate_delete_sema),
      (0x198, gate_signal_sema False), (0x19C, gate_signal_sema True),
      (0x1A0, gate_wait_sema), (0x1A4, gate_poll_sema), (0x1A8, gate_refer_sema bus), (0x1AC, gate_refer_sema bus),
      (0x1C0, gate_create_evf bus), (0x1C4, gate_delete_evf),
      (0x1C8, gate_set_evf bus False), (0x1CC, gate_set_evf bus True),
      (0x1D0, gate_clear_evf), (0x1D4, gate_clear_evf),
      (0x1D8, gate_wait_evf bus), (0x1DC, gate_poll_evf bus), (0x1E0, gate_refer_evf bus), (0x1E4, gate_refer_evf bus),
      (0x1F0, gate_set_alarm), (0x1F4, gate_set_alarm), (0x1F8, gate_cancel_alarm), (0x1FC, gate_cancel_alarm),
      (0x200, gate_usec2sysclock bus), (0x204, gate_sysclock2usec bus)]"

text \<open>
  The handler's 1 or 0 and the state after it. An address inside a range that is not a gate
  still creates the root thread before 0 is returned.
\<close>

definition iop_hle_thread_try_handle :: "'x iop_bus \<Rightarrow> u32 \<Rightarrow> 'x hle \<Rightarrow> bool \<times> 'x hle" where
  "iop_hle_thread_try_handle bus addr s =
     (if \<not> iop_hle_thread_in_range addr then (False, s)
      else let s1 = ensure_root_thread s in
        case map_of (thread_gates bus) addr of
          Some h \<Rightarrow> (True, h s1)
        | None \<Rightarrow> (False, s1))"

text \<open>The import table: the ordinals of the three libraries and their gates.\<close>

definition thbase_gates :: "(u32 \<times> u32) list" where
  "thbase_gates =
     [(3, 0x100), (4, 0x104), (5, 0x108), (6, 0x10C), (7, 0x110), (8, 0x114), (9, 0x118), (10, 0x11C), (11, 0x120),
      (12, 0x124), (13, 0x128), (14, 0x12C), (15, 0x130), (16, 0x134), (17, 0x138), (18, 0x13C), (19, 0x140),
      (20, 0x144), (21, 0x148), (22, 0x14C), (23, 0x150), (24, 0x154), (25, 0x158), (26, 0x15C), (27, 0x160),
      (28, 0x164), (29, 0x168), (30, 0x16C), (31, 0x170), (32, 0x174), (33, 0x178), (34, 0x17C),
      (35, 0x1F0), (36, 0x1F4), (37, 0x1F8), (38, 0x1FC), (39, 0x200), (40, 0x204), (41, 0x180)]"

definition thsemap_gates :: "(u32 \<times> u32) list" where
  "thsemap_gates = [(4, 0x190), (5, 0x194), (6, 0x198), (7, 0x19C), (8, 0x1A0), (9, 0x1A4), (11, 0x1A8), (12, 0x1AC)]"

definition thevent_gates :: "(u32 \<times> u32) list" where
  "thevent_gates = [(4, 0x1C0), (5, 0x1C4), (6, 0x1C8), (7, 0x1CC), (8, 0x1D0), (9, 0x1D4), (10, 0x1D8),
     (11, 0x1DC), (13, 0x1E0), (14, 0x1E4)]"

definition iop_hle_thread_sentinel_for_import :: "string option \<Rightarrow> u32 \<Rightarrow> u32" where
  "iop_hle_thread_sentinel_for_import module_name ordinal =
     (case module_name of
        None \<Rightarrow> 0
      | Some nm \<Rightarrow>
          let gates = (if nm = ''thbase'' then thbase_gates else if nm = ''thsemap'' then thsemap_gates
                       else if nm = ''thevent'' then thevent_gates else [])
          in case map_of gates ordinal of Some a \<Rightarrow> a | None \<Rightarrow> 0)"

section \<open>The tick\<close>

definition alarm_due :: "u64 \<Rightarrow> iop_alarm \<Rightarrow> bool" where
  "alarm_due now a \<longleftrightarrow> a_in_use a \<and> now \<ge> a_deadline a"

definition delay_over :: "u64 \<Rightarrow> iop_tcb \<Rightarrow> bool" where
  "delay_over now t \<longleftrightarrow> t_in_use t \<and> t_status t = THS_WAIT \<and> t_wait_type t = TSW_DELAY \<and> now \<ge> t_delay_deadline t"

fun wake_delayed_from :: "u64 \<Rightarrow> nat \<Rightarrow> nat \<Rightarrow> bool \<times> hle_threads \<Rightarrow> bool \<times> hle_threads" where
  "wake_delayed_from now i 0 s = s"
| "wake_delayed_from now i (Suc n) (woke, g) =
     wake_delayed_from now (Suc i) n
       (case tcb (int i + 1) g of
          Some t \<Rightarrow>
            if delay_over now t
            then (True, let (q, g1) = next_seq g in
                    set_tcb (int i + 1) (t\<lparr>t_status := THS_READY, t_wait_type := 0, t_ready_seq := q\<rparr>) g1)
            else (woke, g)
        | None \<Rightarrow> (woke, g))"

definition iop_hle_thread_tick :: "'x hle \<Rightarrow> 'x hle" where
  "iop_hle_thread_tick = (\<lambda>(g, st).
     if thread_count g = 0 then (g, st)
     else
       case (if alarm_in_dispatch g then None
             else list_find_index (alarm_due (instructions_executed st)) (alarms g)) of
         Some i \<Rightarrow>
           let a = alarms g ! i in
           (g\<lparr>alarm_in_dispatch := True, alarm_dispatch_slot := int i + 1,
              alarm_resume_pc := pc st, alarm_resume_next_pc := next_pc st\<rparr>,
            st\<lparr>gpr := (gpr st)(4 := a_common a, 31 := ALARM_RETURN_TRAMPOLINE),
               pc := a_handler a, next_pc := a_handler a + 4\<rparr>)
       | None \<Rightarrow>
           let (woke, g1) = wake_delayed_from (instructions_executed st) 0 64 (False, g)
           in if woke then reschedule (g1, st) else (g1, st))"

section \<open>Retiring the root thread, and the read-only accessors\<close>

text \<open>The flag \<open>g_root_thread_retired\<close> is passed and returned.\<close>

definition iop_hle_thread_retire_root_thread :: "bool \<times> 'x hle \<Rightarrow> bool \<times> 'x hle" where
  "iop_hle_thread_retire_root_thread = (\<lambda>(retired, g, st).
     if retired \<or> thread_count g = 0 \<or> current_thread_id g \<noteq> 1 then (retired, g, st)
     else case tcb 1 g of
            Some t \<Rightarrow> if t_status t \<noteq> THS_RUN then (retired, g, st)
                       else (True, reschedule (set_tcb 1 (t\<lparr>t_status := THS_DORMANT\<rparr>) g, st))
          | None \<Rightarrow> (retired, g, st))"

definition iop_hle_thread_get_status :: "int \<Rightarrow> hle_threads \<Rightarrow> u32" where
  "iop_hle_thread_get_status thid g = (case tcb thid g of Some t \<Rightarrow> if t_in_use t then t_status t else 0 | None \<Rightarrow> 0)"

definition iop_hle_thread_get_priority :: "int \<Rightarrow> hle_threads \<Rightarrow> u32" where
  "iop_hle_thread_get_priority thid g = (case tcb thid g of Some t \<Rightarrow> if t_in_use t then t_priority t else 0 | None \<Rightarrow> 0)"

definition iop_hle_thread_get_sema_count :: "hle_threads \<Rightarrow> nat" where
  "iop_hle_thread_get_sema_count g = length (filter s_in_use (semas g))"

definition iop_hle_thread_get_evf_count :: "hle_threads \<Rightarrow> nat" where
  "iop_hle_thread_get_evf_count g = length (filter e_in_use (evflags g))"

definition iop_hle_thread_get_alarm_count :: "hle_threads \<Rightarrow> nat" where
  "iop_hle_thread_get_alarm_count g = length (filter a_in_use (alarms g))"

definition iop_hle_thread_get_entry :: "int \<Rightarrow> hle_threads \<Rightarrow> u32" where
  "iop_hle_thread_get_entry thid g = (case tcb thid g of Some t \<Rightarrow> if t_in_use t then t_entry t else 0 | None \<Rightarrow> 0)"

definition iop_hle_thread_get_pc :: "int \<Rightarrow> hle_threads \<Rightarrow> u32" where
  "iop_hle_thread_get_pc thid g = (case tcb thid g of Some t \<Rightarrow> if t_in_use t then t_pc t else 0 | None \<Rightarrow> 0)"

definition iop_hle_thread_get_wait_type :: "int \<Rightarrow> hle_threads \<Rightarrow> int" where
  "iop_hle_thread_get_wait_type thid g = (case tcb thid g of Some t \<Rightarrow> if t_in_use t then t_wait_type t else 0 | None \<Rightarrow> 0)"

definition iop_hle_thread_get_wait_id :: "int \<Rightarrow> hle_threads \<Rightarrow> int" where
  "iop_hle_thread_get_wait_id thid g = (case tcb thid g of Some t \<Rightarrow> if t_in_use t then t_wait_id t else 0 | None \<Rightarrow> 0)"

end
