(* ===== verification/Iop_Thread_Inv.thy ===== *)
theory Iop_Thread_Inv
  imports Iop_Thread
begin

text \<open>
  The scheduler's invariant and its preservation by every gate and by the tick, and what the
  scheduler chooses.

  \<open>thr_wf\<close> is what holds at every point: array sizes, and a thread in status RUN is the current
  one. \<open>sched_inv\<close> adds that the current thread, if there is one, is in status RUN; it holds
  between calls. The lemmas of a first group say that each slot update keeps \<open>thr_wf\<close>, the second
  that \<open>reschedule\<close> turns \<open>thr_wf\<close> into \<open>sched_inv\<close>, the third follow the gates one by one.
  A thread's place in the ready queue is a 32-bit counter that the code never renormalises;
  \<open>room n\<close> says that \<open>n\<close> more tickets can be drawn before it wraps.
\<close>

section \<open>The invariant\<close>

definition slot_ok :: "hle_threads \<Rightarrow> nat \<Rightarrow> iop_tcb \<Rightarrow> bool" where
  "slot_ok g i t \<longleftrightarrow> t_ready_seq t \<le> ready_seq_counter g \<and>
     (t_in_use t \<and> t_status t = THS_RUN \<longrightarrow> current_thread_id g = int i + 1)"

definition thr_wf :: "hle_threads \<Rightarrow> bool" where
  "thr_wf g \<longleftrightarrow> length (threads g) = 64 \<and> length (semas g) = 64 \<and> length (evflags g) = 32 \<and> length (alarms g) = 16 \<and>
     0 \<le> current_thread_id g \<and> current_thread_id g \<le> 64 \<and> (\<forall>i < 64. slot_ok g i (threads g ! i))"

definition runs :: "iop_tcb \<Rightarrow> bool" where
  "runs t \<longleftrightarrow> t_in_use t \<and> t_status t = THS_RUN"

definition sched_inv :: "hle_threads \<Rightarrow> bool" where
  "sched_inv g \<longleftrightarrow> thr_wf g \<and> (current_thread_id g \<noteq> 0 \<longrightarrow> runs (threads g ! nat (current_thread_id g - 1)))"

definition room :: "nat \<Rightarrow> hle_threads \<Rightarrow> bool" where
  "room n g \<longleftrightarrow> unat (ready_seq_counter g) + n < 4294967296"

lemma sched_inv_wf: "sched_inv g \<Longrightarrow> thr_wf g"
  by (simp add: sched_inv_def)

lemma room_mono: "room n g \<Longrightarrow> m \<le> n \<Longrightarrow> room m g"
  by (simp add: room_def)

lemma tcb_Some: "tcb thid g = Some t \<longleftrightarrow> 1 \<le> thid \<and> thid \<le> 64 \<and> t = threads g ! nat (thid - 1)"
  by (auto simp: tcb_def)

lemma tcb_None: "tcb thid g = None \<longleftrightarrow> thid < 1 \<or> 64 < thid"
  by (simp add: tcb_def)

lemma slot_index: "1 \<le> thid \<Longrightarrow> thid \<le> 64 \<Longrightarrow> nat (thid - 1) < 64 \<and> int (nat (thid - 1)) + 1 = thid"
  by auto

text \<open>What the updates of other parts of the state leave alone.\<close>

lemma thread_frame [simp]:
  "threads (bump k g) = threads g" "current_thread_id (bump k g) = current_thread_id g"
  "ready_seq_counter (bump k g) = ready_seq_counter g" "semas (bump k g) = semas g"
  "evflags (bump k g) = evflags g" "alarms (bump k g) = alarms g"
  "threads (set_sema i s g) = threads g" "current_thread_id (set_sema i s g) = current_thread_id g"
  "ready_seq_counter (set_sema i s g) = ready_seq_counter g" "evflags (set_sema i s g) = evflags g"
  "alarms (set_sema i s g) = alarms g" "length (semas (set_sema i s g)) = length (semas g)"
  "threads (set_evf i e g) = threads g" "current_thread_id (set_evf i e g) = current_thread_id g"
  "ready_seq_counter (set_evf i e g) = ready_seq_counter g" "semas (set_evf i e g) = semas g"
  "alarms (set_evf i e g) = alarms g" "length (evflags (set_evf i e g)) = length (evflags g)"
  "threads (set_alarm i a g) = threads g" "current_thread_id (set_alarm i a g) = current_thread_id g"
  "ready_seq_counter (set_alarm i a g) = ready_seq_counter g" "semas (set_alarm i a g) = semas g"
  "evflags (set_alarm i a g) = evflags g" "length (alarms (set_alarm i a g)) = length (alarms g)"
  "current_thread_id (set_tcb i t g) = current_thread_id g" "ready_seq_counter (set_tcb i t g) = ready_seq_counter g"
  "semas (set_tcb i t g) = semas g" "evflags (set_tcb i t g) = evflags g" "alarms (set_tcb i t g) = alarms g"
  "threads (set_tcb i t g) = (threads g)[nat (i - 1) := t]"
  by (simp_all add: bump_def set_sema_def set_evf_def set_alarm_def set_tcb_def)

text \<open>A state with the same threads, current id, counter and array sizes.\<close>

definition same_sched :: "hle_threads \<Rightarrow> hle_threads \<Rightarrow> bool" where
  "same_sched g g' \<longleftrightarrow> threads g' = threads g \<and> current_thread_id g' = current_thread_id g \<and>
     ready_seq_counter g' = ready_seq_counter g \<and> length (semas g') = length (semas g) \<and>
     length (evflags g') = length (evflags g) \<and> length (alarms g') = length (alarms g)"

lemma same_sched_intros [simp, intro]:
  "same_sched g (bump k g)" "same_sched g (set_sema i s g)" "same_sched g (set_evf i e g)"
  "same_sched g (set_alarm i a g)" "same_sched g g"
  by (simp_all add: same_sched_def)

lemma same_sched_wf: "same_sched g g' \<Longrightarrow> thr_wf g' = thr_wf g"
  and same_sched_inv: "same_sched g g' \<Longrightarrow> sched_inv g' = sched_inv g"
  and same_sched_room: "same_sched g g' \<Longrightarrow> room n g' = room n g"
  by (simp_all add: same_sched_def thr_wf_def sched_inv_def room_def slot_ok_def)

lemma wf_simps [simp]:
  "thr_wf (bump k g) = thr_wf g" "thr_wf (set_sema i s g) = thr_wf g" "thr_wf (set_evf i e g) = thr_wf g" "thr_wf (set_alarm i a g) = thr_wf g"
  "sched_inv (bump k g) = sched_inv g" "sched_inv (set_sema i s g) = sched_inv g"
  "sched_inv (set_evf i e g) = sched_inv g" "sched_inv (set_alarm i a g) = sched_inv g"
  "room n (bump k g) = room n g" "room n (set_sema i s g) = room n g" "room n (set_evf i e g) = room n g"
  "room n (set_alarm i a g) = room n g"
  by (intro same_sched_wf same_sched_inv same_sched_room same_sched_intros)+

lemma room_set_tcb [simp]: "room n (set_tcb i t g) = room n g"
  by (simp add: room_def)

lemma wf_fields [simp]:
  "thr_wf (g\<lparr>thread_count := v\<rparr>) = thr_wf g" "thr_wf (g\<lparr>stack_bump_next := w\<rparr>) = thr_wf g"
  "thr_wf (g\<lparr>alarm_in_dispatch := b\<rparr>) = thr_wf g" "thr_wf (g\<lparr>alarm_dispatch_slot := v\<rparr>) = thr_wf g"
  "sched_inv (g\<lparr>thread_count := v\<rparr>) = sched_inv g" "sched_inv (g\<lparr>stack_bump_next := w\<rparr>) = sched_inv g"
  "sched_inv (g\<lparr>alarm_in_dispatch := b\<rparr>) = sched_inv g" "sched_inv (g\<lparr>alarm_dispatch_slot := v\<rparr>) = sched_inv g"
  "sched_inv (g\<lparr>alarm_resume_pc := w\<rparr>) = sched_inv g" "sched_inv (g\<lparr>alarm_resume_next_pc := w\<rparr>) = sched_inv g"
  by (simp_all add: thr_wf_def slot_ok_def sched_inv_def)

section \<open>Slot updates\<close>

lemma wf_slot: "thr_wf g \<Longrightarrow> tcb thid g = Some t \<Longrightarrow> slot_ok g (nat (thid - 1)) t"
  by (auto simp: thr_wf_def tcb_Some)

lemma wf_set_tcb:
  assumes "thr_wf g" and "1 \<le> thid" and "thid \<le> 64" and "slot_ok g (nat (thid - 1)) t"
  shows "thr_wf (set_tcb thid t g)"
  using assms by (auto simp: thr_wf_def nth_list_update slot_ok_def)

lemma sched_inv_set_tcb:
  assumes "sched_inv g" and "1 \<le> thid" and "thid \<le> 64" and "slot_ok g (nat (thid - 1)) t"
    and "thid = current_thread_id g \<Longrightarrow> runs t"
  shows "sched_inv (set_tcb thid t g)"
proof -
  have "thr_wf (set_tcb thid t g)" using assms by (intro wf_set_tcb) (simp_all add: sched_inv_def)
  moreover have "0 \<le> current_thread_id g" "current_thread_id g \<le> 64" "length (threads g) = 64"
    using assms(1) by (simp_all add: sched_inv_def thr_wf_def)
  ultimately show ?thesis
    using assms(1-3,5) by (auto simp: sched_inv_def nth_list_update)
qed

lemma next_seq_wf:
  assumes "thr_wf g" and "room 1 g" and "next_seq g = (q, g1)"
  shows "thr_wf g1" and "q \<le> ready_seq_counter g1" and "threads g1 = threads g"
    and "current_thread_id g1 = current_thread_id g" and "room n (g) \<Longrightarrow> 0 < n \<Longrightarrow> room (n - 1) g1"
    and "sched_inv g \<Longrightarrow> sched_inv g1"
proof -
  have g1: "g1 = g\<lparr>ready_seq_counter := ready_seq_counter g + 1\<rparr>" "q = ready_seq_counter g"
    using assms(3) by (auto simp: next_seq_def)
  have u: "unat (ready_seq_counter g + 1) = unat (ready_seq_counter g) + 1"
    using assms(2) by (simp add: room_def unat_word_ariths)
  then have le: "ready_seq_counter g \<le> ready_seq_counter g + 1" by (simp add: word_le_nat_alt)
  then show "thr_wf g1" using assms(1) by (auto simp: g1 thr_wf_def slot_ok_def intro: order.trans)
  then show "sched_inv g \<Longrightarrow> sched_inv g1" by (simp add: sched_inv_def g1)
  show "q \<le> ready_seq_counter g1" "threads g1 = threads g" "current_thread_id g1 = current_thread_id g"
    using le by (simp_all add: g1)
  show "room n (g) \<Longrightarrow> 0 < n \<Longrightarrow> room (n - 1) g1" using u by (simp add: room_def g1)
qed

lemma wf_lift:
  assumes "thr_wf g" and "tcb thid g = Some t" and "t_ready_seq t' = t_ready_seq t"
    and "t_status t' = t_status t \<and> t_in_use t' = t_in_use t \<or> t_status t' \<noteq> THS_RUN \<or> \<not> t_in_use t'"
  shows "thr_wf (set_tcb thid t' g)"
  using assms wf_slot [OF assms(1,2)] by (intro wf_set_tcb) (auto simp: tcb_Some slot_ok_def)

lemma wf_set_status: "thr_wf g \<Longrightarrow> s \<noteq> THS_RUN \<Longrightarrow> thr_wf (set_status thid s g)"
  by (auto simp: set_status_def split: option.split intro!: wf_lift)

lemma wf_save_context: "thr_wf g \<Longrightarrow> thr_wf (save_context st thid g)"
  by (auto simp: save_context_def capture_def split: option.split intro!: wf_lift)

lemma room_slots [simp]:
  "room n (set_status thid s g) = room n g" "room n (save_context st thid g) = room n g"
  "current_thread_id (set_status thid s g) = current_thread_id g"
  "current_thread_id (save_context st thid g) = current_thread_id g"
  "ready_seq_counter (set_status thid s g) = ready_seq_counter g"
  "ready_seq_counter (save_context st thid g) = ready_seq_counter g"
  by (simp_all add: set_status_def save_context_def split: option.split)

lemma wf_make_ready:
  assumes "thr_wf g" and "room 1 g"
  shows "thr_wf (make_ready thid g)"
proof (cases "tcb thid g")
  case None
  with assms show ?thesis by (simp add: make_ready_def)
next
  case (Some t)
  obtain q g1 where q: "next_seq g = (q, g1)" by force
  note n = next_seq_wf [OF assms q]
  have "1 \<le> thid" "thid \<le> 64" using Some by (simp_all add: tcb_Some)
  with n(1,2) show ?thesis
    using Some by (simp add: make_ready_def q wf_set_tcb slot_ok_def)
qed

lemma make_ready_frame:
  assumes "room (Suc n) g" and "thr_wf g"
  shows "room n (make_ready thid g)" "current_thread_id (make_ready thid g) = current_thread_id g"
  using assms next_seq_wf(5) [of g _ _ "Suc n"] room_mono [of "Suc n" g 1] room_mono [of "Suc n" g n]
  by (auto simp: make_ready_def next_seq_def split: option.split)

lemma sched_inv_make_ready:
  assumes "sched_inv g" and "room 1 g" and "tcb thid g = Some t" and "\<not> runs t"
  shows "sched_inv (make_ready thid g)"
proof -
  obtain q g1 where q: "next_seq g = (q, g1)" by force
  note n = next_seq_wf [OF sched_inv_wf [OF assms(1)] assms(2) q]
  have thid: "1 \<le> thid" "thid \<le> 64" "t = threads g ! nat (thid - 1)" using assms(3) by (simp_all add: tcb_Some)
  have "thid \<noteq> current_thread_id g"
    using assms(1,4) thid by (auto simp: sched_inv_def)
  with n(2,4) n(6) [OF assms(1)] thid show ?thesis
    using assms(3) by (simp add: make_ready_def q sched_inv_set_tcb slot_ok_def)
qed

lemma wf_block_current: "thr_wf g \<Longrightarrow> thr_wf (block_current st wt wid g)"
  using wf_save_context [of g st "current_thread_id g"]
  by (auto simp: block_current_def Let_def split: option.split intro!: wf_lift)

lemma block_current_frame [simp]:
  "room n (block_current st wt wid g) = room n g"
  "current_thread_id (block_current st wt wid g) = current_thread_id g"
  by (simp_all add: block_current_def Let_def split: option.split)

section \<open>What the scheduler picks\<close>

definition key_less :: "u32 \<times> u32 \<Rightarrow> u32 \<times> u32 \<Rightarrow> bool" where
  "key_less = (\<lambda>(p, s) (p', s'). p < p' \<or> p = p' \<and> s < s')"

definition key :: "iop_tcb \<Rightarrow> u32 \<times> u32" where
  "key t = (t_priority t, t_ready_seq t)"

lemma key_less_trans: "key_less a b \<Longrightarrow> key_less b c \<Longrightarrow> key_less a c"
  by (auto simp: key_less_def split: prod.splits)

lemma key_less_irrefl: "\<not> key_less a a"
  by (simp add: key_less_def split: prod.splits)

lemma key_not_less_trans: "\<not> key_less a b \<Longrightarrow> \<not> key_less b c \<Longrightarrow> \<not> key_less a c"
  by (auto simp: key_less_def split: prod.splits)

lemma pick_from_spec:
  "pick_from i ts (b, k) = (b', k') \<Longrightarrow>
     ((b', k') = (b, k) \<or> (\<exists>j < length ts. b' = int (i + j) + 1 \<and> runnable (ts ! j) \<and> k' = key (ts ! j)))
     \<and> (\<forall>j < length ts. runnable (ts ! j) \<longrightarrow> \<not> key_less (key (ts ! j)) k') \<and> \<not> key_less k k'"
proof (induction ts arbitrary: i b k)
  case (Cons t ts)
  obtain p s where k: "k = (p, s)" by force
  define bk where "bk = (if runnable t \<and> key_less (key t) k then (int i + 1, key t) else (b, k))"
  obtain b1 k1 where bk1: "bk = (b1, k1)" by (meson surj_pair)
  have rec: "pick_from (Suc i) ts (b1, k1) = (b', k')"
    using Cons.prems bk1 by (simp add: bk_def k key_def key_less_def split: if_splits)
  note IH = Cons.IH [OF rec]
  have le: "\<not> key_less k k1" "runnable t \<Longrightarrow> \<not> key_less (key t) k1"
    using bk1 by (auto simp: bk_def key_less_irrefl split: if_splits dest: key_less_trans)
  have "(b', k') = (b, k) \<or> (\<exists>j < length (t # ts). b' = int (i + j) + 1 \<and> runnable ((t # ts) ! j) \<and> k' = key ((t # ts) ! j))"
  proof (cases "(b', k') = (b1, k1)")
    case True
    with bk1 show ?thesis by (auto simp: bk_def split: if_splits)
  next
    case False
    with IH obtain j where "j < length ts" "b' = int (Suc i + j) + 1" "runnable (ts ! j)" "k' = key (ts ! j)"
      by blast
    then show ?thesis by (intro disjI2 exI [of _ "Suc j"]) simp
  qed
  moreover have nk: "\<not> key_less k1 k'" using IH by simp
  have "\<not> key_less k k'" by (rule key_not_less_trans [OF le(1) nk])
  moreover have "runnable t \<Longrightarrow> \<not> key_less (key t) k'" using key_not_less_trans [OF le(2) nk] .
  ultimately show ?case using IH by (auto simp: less_Suc_eq_0_disj)
qed (auto simp: key_less_irrefl)

lemma pick_next_ready_spec:
  assumes "thr_wf g" and "room 1 g"
  shows "pick_next_ready g = 0 \<longleftrightarrow> (\<forall>i < 64. \<not> runnable (threads g ! i))"
    and "pick_next_ready g = 0 \<or> (\<exists>t. tcb (pick_next_ready g) g = Some t \<and> runnable t \<and>
      (\<forall>j < 64. runnable (threads g ! j) \<longrightarrow> \<not> key_less (key (threads g ! j)) (key t)))"
proof -
  have len: "length (threads g) = 64" using assms(1) by (simp add: thr_wf_def)
  obtain b k where bk: "pick_from 0 (threads g) (0, (0xFFFFFFFF, 0xFFFFFFFF)) = (b, k)" by (meson surj_pair)
  have b: "pick_next_ready g = b" using bk by (simp add: pick_next_ready_def)
  note sp = conjunct1 [OF pick_from_spec [OF bk]] conjunct1 [OF conjunct2 [OF pick_from_spec [OF bk]]]
  have seq: "t_ready_seq (threads g ! i) < 0xFFFFFFFF" if "i < 64" for i
  proof -
    have "t_ready_seq (threads g ! i) \<le> ready_seq_counter g"
      using assms(1) that by (auto simp: thr_wf_def slot_ok_def)
    moreover have "ready_seq_counter g < 0xFFFFFFFF"
      using assms(2) by (simp add: room_def word_less_nat_alt)
    ultimately show ?thesis by (rule le_less_trans)
  qed
  have top: "key_less (key (threads g ! i)) (0xFFFFFFFF, 0xFFFFFFFF)" if "i < 64" for i
  proof (cases "t_priority (threads g ! i) = 0xFFFFFFFF")
    case True
    with seq [OF that] show ?thesis by (simp add: key_def key_less_def)
  next
    case False
    have "t_priority (threads g ! i) \<le> 0xFFFFFFFF" using word_max32 not_less by blast
    with False show ?thesis by (simp add: key_def key_less_def order.strict_iff_order)
  qed
  from sp(1) have "(b = 0 \<and> (\<forall>i < 64. \<not> runnable (threads g ! i))) \<or>
     (\<exists>j < 64. b = int j + 1 \<and> runnable (threads g ! j) \<and> k = key (threads g ! j))"
  proof
    assume "(b, k) = (0, 0xFFFFFFFF, 0xFFFFFFFF)"
    with sp(2) len top show ?thesis by auto
  qed (use len in auto)
  then show "pick_next_ready g = 0 \<longleftrightarrow> (\<forall>i < 64. \<not> runnable (threads g ! i))"
    and "pick_next_ready g = 0 \<or> (\<exists>t. tcb (pick_next_ready g) g = Some t \<and> runnable t \<and>
      (\<forall>j < 64. runnable (threads g ! j) \<longrightarrow> \<not> key_less (key (threads g ! j)) (key t)))"
    unfolding b using sp(2) len by (auto simp: tcb_Some)
qed

section \<open>Rescheduling\<close>

definition no_run :: "hle_threads \<Rightarrow> bool" where
  "no_run g \<longleftrightarrow> (\<forall>i < 64. \<not> runs (threads g ! i))"

lemma set_status_eq:
  "1 \<le> thid \<Longrightarrow> thid \<le> 64 \<Longrightarrow> set_status thid s g = set_tcb thid ((threads g ! nat (thid - 1))\<lparr>t_status := s\<rparr>) g"
  by (simp add: set_status_def tcb_def)

lemma save_context_eq:
  "1 \<le> thid \<Longrightarrow> thid \<le> 64 \<Longrightarrow> save_context st thid g = set_tcb thid (capture st (threads g ! nat (thid - 1))) g"
  by (simp add: save_context_def tcb_def)

lemma capture_fields [simp]:
  "t_status (capture st t) = t_status t" "t_in_use (capture st t) = t_in_use t" "t_priority (capture st t) = t_priority t"
  "t_ready_seq (capture st t) = t_ready_seq t" "runs (capture st t) = runs t" "key (capture st t) = key t"
  "runnable (capture st t) = runnable t"
  by (simp_all add: capture_def runs_def key_def runnable_def)

lemma wf_current:
  "thr_wf g \<Longrightarrow> no_run g \<Longrightarrow> 0 \<le> c \<Longrightarrow> c \<le> 64 \<Longrightarrow> thr_wf (g\<lparr>current_thread_id := c\<rparr>)"
  by (auto simp: thr_wf_def slot_ok_def no_run_def runs_def)

lemma no_run_save_context: "length (threads g) = 64 \<Longrightarrow> no_run g \<Longrightarrow> no_run (save_context st thid g)"
  by (auto simp: no_run_def save_context_def tcb_Some nth_list_update split: option.split if_splits)

lemma wf_no_run:
  assumes "thr_wf g" and "\<not> running (current_thread_id g) g"
  shows "no_run g"
  using assms by (auto simp: thr_wf_def slot_ok_def no_run_def runs_def running_def tcb_def)

text \<open>Taking the current thread off the processor: after it no thread is in status RUN.\<close>

definition switch_out :: "'x iop_state \<Rightarrow> hle_threads \<Rightarrow> hle_threads" where
  "switch_out st g = (if running (current_thread_id g) g
     then save_context st (current_thread_id g) (set_status (current_thread_id g) THS_READY g) else g)"

lemma switch_out_wf:
  assumes "thr_wf g"
  shows "thr_wf (switch_out st g)" and "no_run (switch_out st g)" and "room n (switch_out st g) = room n g"
proof -
  show "thr_wf (switch_out st g)" "room n (switch_out st g) = room n g"
    using assms by (simp_all add: switch_out_def wf_save_context wf_set_status)
  show "no_run (switch_out st g)"
  proof (cases "running (current_thread_id g) g")
    case True
    let ?c = "current_thread_id g"
    have c: "1 \<le> ?c" "?c \<le> 64" using True by (auto simp: running_def tcb_def split: if_splits)
    have len: "length (threads g) = 64" using assms by (simp add: thr_wf_def)
    have "no_run (set_status ?c THS_READY g)"
      using assms c len
      by (auto simp: no_run_def set_status_eq runs_def nth_list_update thr_wf_def slot_ok_def)
    moreover have "length (threads (set_status ?c THS_READY g)) = 64" using len c by (simp add: set_status_eq)
    ultimately show ?thesis using True by (simp add: switch_out_def no_run_save_context)
  next
    case False
    with wf_no_run [OF assms] show ?thesis by (simp add: switch_out_def)
  qed
qed

lemma switch_out_runnable:
  assumes "thr_wf g" and "tcb thid g = Some t" and "runnable t"
  shows "\<exists>t'. tcb thid (switch_out st g) = Some t' \<and> runnable t' \<and> key t' = key t"
proof (cases "running (current_thread_id g) g")
  case True
  let ?c = "current_thread_id g"
  have c: "1 \<le> ?c" "?c \<le> 64" using True by (auto simp: running_def tcb_def split: if_splits)
  have thid: "1 \<le> thid" "thid \<le> 64" "t = threads g ! nat (thid - 1)" using assms(2) by (simp_all add: tcb_Some)
  have len: "length (threads g) = 64" using assms(1) by (simp add: thr_wf_def)
  have "threads (switch_out st g) = (threads g)[nat (?c - 1) := capture st ((threads g ! nat (?c - 1))\<lparr>t_status := THS_READY\<rparr>)]"
    using True c len by (simp add: switch_out_def save_context_eq set_status_eq)
  moreover have "nat (?c - 1) = nat (thid - 1) \<longleftrightarrow> thid = ?c" "nat (?c - 1) < 64" using c thid by auto
  ultimately show ?thesis
    using thid len assms(3) by (cases "thid = ?c") (simp_all add: tcb_Some nth_list_update runnable_def key_def)
next
  case False
  with assms show ?thesis by (auto simp: switch_out_def)
qed

lemma reschedule_eq:
  "reschedule (g, st) =
    (let nxt = pick_next_ready g; cur = current_thread_id g in
     if nxt = 0 then
       ((if running cur g then save_context st cur g else g)\<lparr>current_thread_id := 0\<rparr>, st\<lparr>idle := True\<rparr>)
     else if nxt \<noteq> cur then
       (bump context_switches ((set_status nxt THS_RUN (switch_out st g))\<lparr>current_thread_id := nxt\<rparr>),
        (load_context (switch_out st g) nxt st)\<lparr>idle := False\<rparr>)
     else (set_status cur THS_RUN g, st\<lparr>idle := False\<rparr>))"
  by (simp add: reschedule_def switch_out_def Let_def)

lemma install_inv:
  assumes "thr_wf g" and "no_run g" and "tcb thid g = Some t" and "runnable t"
  shows "sched_inv ((set_status thid THS_RUN g)\<lparr>current_thread_id := thid\<rparr>)"
proof -
  have thid: "1 \<le> thid" "thid \<le> 64" "t = threads g ! nat (thid - 1)" using assms(3) by (simp_all add: tcb_Some)
  have wf1: "thr_wf (g\<lparr>current_thread_id := thid\<rparr>)" using assms(1,2) thid by (simp add: wf_current)
  have eq: "(set_status thid THS_RUN g)\<lparr>current_thread_id := thid\<rparr>
      = set_tcb thid (t\<lparr>t_status := THS_RUN\<rparr>) (g\<lparr>current_thread_id := thid\<rparr>)"
    using thid by (simp add: set_status_eq) (simp add: set_tcb_def)
  have "slot_ok (g\<lparr>current_thread_id := thid\<rparr>) (nat (thid - 1)) (t\<lparr>t_status := THS_RUN\<rparr>)"
    using wf_slot [OF assms(1,3)] thid by (simp add: slot_ok_def)
  then have "thr_wf ((set_status thid THS_RUN g)\<lparr>current_thread_id := thid\<rparr>)"
    unfolding eq using wf1 thid by (intro wf_set_tcb) simp_all
  moreover have "length (threads g) = 64" using assms(1) by (simp add: thr_wf_def)
  ultimately show ?thesis
    using assms(4) thid by (simp add: sched_inv_def eq runs_def runnable_def)
qed

lemma reschedule_inv:
  assumes "thr_wf g" and "room 1 g"
  shows "sched_inv (fst (reschedule (g, st)))"
proof -
  let ?n = "pick_next_ready g" and ?c = "current_thread_id g"
  note pick = pick_next_ready_spec [OF assms]
  consider "?n = 0" | "?n \<noteq> 0" "?n \<noteq> ?c" | "?n \<noteq> 0" "?n = ?c" by blast
  then show ?thesis
  proof cases
    case 1
    then have "no_run g" using pick(1) by (auto simp: no_run_def runs_def runnable_def)
    moreover have "length (threads g) = 64" using assms(1) by (simp add: thr_wf_def)
    ultimately have "thr_wf ((if running ?c g then save_context st ?c g else g)\<lparr>current_thread_id := 0\<rparr>)"
      using assms(1) by (intro wf_current) (simp_all add: wf_save_context no_run_save_context)
    with 1 show ?thesis by (simp add: reschedule_eq sched_inv_def Let_def)
  next
    case 2
    then obtain t where "tcb ?n g = Some t" "runnable t" using pick(2) by blast
    from switch_out_runnable [OF assms(1) this, of st] obtain t'
      where "tcb ?n (switch_out st g) = Some t'" "runnable t'" by blast
    with 2 switch_out_wf [OF assms(1), where st = st] install_inv show ?thesis
      by (simp add: reschedule_eq Let_def)
  next
    case 3
    then obtain t where t: "tcb ?c g = Some t" "runnable t" using pick(2) by force
    then have c: "1 \<le> ?c" "?c \<le> 64" "t = threads g ! nat (?c - 1)" by (simp_all add: tcb_Some)
    have "thr_wf (set_status ?c THS_RUN g)"
      using assms(1) c wf_slot [OF assms(1) t(1)] by (simp add: set_status_eq wf_set_tcb slot_ok_def)
    moreover have "length (threads g) = 64" using assms(1) by (simp add: thr_wf_def)
    ultimately show ?thesis
      using 3 c t(2) by (simp add: reschedule_eq sched_inv_def set_status_eq runs_def runnable_def Let_def)
  qed
qed

section \<open>Every gate keeps the invariant\<close>

lemma reschedule_inv_pair: "thr_wf (fst s) \<Longrightarrow> room 1 (fst s) \<Longrightarrow> sched_inv (fst (reschedule s))"
  by (metis prod.collapse reschedule_inv)

lemma room_66 [simp]:
  "room 66 g \<Longrightarrow> room (Suc 0) g" "room 66 g \<Longrightarrow> room 1 g" "room 66 g \<Longrightarrow> room (Suc (Suc 0)) g" "room 66 g \<Longrightarrow> room 2 g"
  by (auto elim: room_mono)

text \<open>A thread that draws a new ticket and does not become RUN.\<close>

lemma room_ticket [simp]:
  assumes "room 66 g"
  shows "room 65 (g\<lparr>ready_seq_counter := ready_seq_counter g + 1\<rparr>)"
    and "room (Suc 0) (g\<lparr>ready_seq_counter := ready_seq_counter g + 1\<rparr>)"
  using assms by (simp_all add: room_def unat_word_ariths)

lemma wf_ticket:
  assumes "thr_wf g" and "room 66 g" and "tcb thid g = Some t"
    and "t_ready_seq t' = ready_seq_counter g"
    and "t_status t' = t_status t \<and> t_in_use t' = t_in_use t \<or> t_status t' \<noteq> THS_RUN"
  shows "thr_wf (set_tcb thid t' (g\<lparr>ready_seq_counter := ready_seq_counter g + 1\<rparr>))"
proof -
  have q: "next_seq g = (ready_seq_counter g, g\<lparr>ready_seq_counter := ready_seq_counter g + 1\<rparr>)"
    by (simp add: next_seq_def)
  note n = next_seq_wf [OF assms(1) room_66(2) [OF assms(2)] q]
  have "slot_ok g (nat (thid - 1)) t" by (rule wf_slot [OF assms(1,3)])
  then have "slot_ok (g\<lparr>ready_seq_counter := ready_seq_counter g + 1\<rparr>) (nat (thid - 1)) t'"
    using n(2) assms(4,5) by (auto simp: slot_ok_def)
  then show ?thesis using n(1) assms(3) by (intro wf_set_tcb) (simp_all add: tcb_Some)
qed

lemma gate_entry_return_inv: "sched_inv g \<Longrightarrow> room 66 g \<Longrightarrow> sched_inv (fst (gate_entry_return (g, st)))"
  by (auto simp: gate_entry_return_def wf_set_status sched_inv_wf intro!: reschedule_inv)

lemma gate_exit_thread_inv: "sched_inv g \<Longrightarrow> room 66 g \<Longrightarrow> sched_inv (fst (gate_exit_thread del (g, st)))"
  by (auto simp: gate_exit_thread_def sched_inv_wf split: option.split intro!: reschedule_inv wf_lift)

lemma gate_start_thread_inv: "sched_inv g \<Longrightarrow> room 66 g \<Longrightarrow> sched_inv (fst (gate_start_thread args (g, st)))"
  unfolding gate_start_thread_def
  by (auto simp: Let_def next_seq_def sched_inv_wf split: option.split intro!: reschedule_inv_pair wf_ticket)

lemma gate_change_priority_inv: "sched_inv g \<Longrightarrow> room 66 g \<Longrightarrow> sched_inv (fst (gate_change_priority (g, st)))"
  by (auto simp: gate_change_priority_def Let_def sched_inv_wf split: option.split
      intro!: reschedule_inv_pair wf_lift)

lemma gate_rotate_inv: "sched_inv g \<Longrightarrow> room 66 g \<Longrightarrow> sched_inv (fst (gate_rotate (g, st)))"
  unfolding gate_rotate_def
  by (auto simp: Let_def next_seq_def sched_inv_wf split: option.split intro!: reschedule_inv_pair wf_ticket)

lemma gate_release_wait_inv: "sched_inv g \<Longrightarrow> room 66 g \<Longrightarrow> sched_inv (fst (gate_release_wait (g, st)))"
  by (auto simp: gate_release_wait_def Let_def sched_inv_wf split: option.split
      intro!: reschedule_inv_pair wf_make_ready make_ready_frame)

lemma wf_wakeup_count: "thr_wf g \<Longrightarrow> tcb thid g = Some t \<Longrightarrow> thr_wf (set_tcb thid (t\<lparr>t_wakeup_count := n\<rparr>) g)"
  by (auto intro: wf_lift)

lemma gate_wakeup_inv: "sched_inv g \<Longrightarrow> room 66 g \<Longrightarrow> sched_inv (fst (gate_wakeup (g, st)))"
  unfolding gate_wakeup_def
  by (auto simp: Let_def next_seq_def sched_inv_wf wf_wakeup_count split: option.split
      intro!: reschedule_inv_pair wf_ticket)

lemma gate_delay_inv: "sched_inv g \<Longrightarrow> room 66 g \<Longrightarrow> sched_inv (fst (gate_delay (g, st)))"
  by (auto simp: gate_delay_def Let_def sched_inv_wf split: option.split
      intro!: reschedule_inv_pair wf_block_current wf_lift)

lemma gate_sleep_inv: "sched_inv g \<Longrightarrow> room 66 g \<Longrightarrow> sched_inv (fst (gate_sleep (g, st)))"
  unfolding gate_sleep_def
  by (auto simp: Let_def sched_inv_wf split: option.split intro!: reschedule_inv_pair wf_block_current
      sched_inv_set_tcb dest: wf_slot [OF sched_inv_wf])
    (auto simp: tcb_Some slot_ok_def sched_inv_def runs_def thr_wf_def)

lemma gate_suspend_inv: "sched_inv g \<Longrightarrow> room 66 g \<Longrightarrow> sched_inv (fst (gate_suspend (g, st)))"
proof -
  assume a: "sched_inv g" "room 66 g"
  have "t_status t OR 8 \<noteq> 1" for t :: iop_tcb
  proof
    assume "t_status t OR 8 = (1 :: u32)"
    then have "bit (t_status t OR 8) 3 = bit (1 :: u32) 3" by simp
    then show False by (simp add: bit_or_iff)
  qed
  with a show ?thesis
    by (auto simp: gate_suspend_def Let_def sched_inv_wf split: option.split intro!: reschedule_inv_pair wf_lift)
qed

lemma gate_wait_sema_inv:
  assumes "sched_inv g" and "room 66 g"
  shows "sched_inv (fst (gate_wait_sema (g, st)))"
proof -
  let ?b = "block_current (ret (gpr st 31) 0 st) TSW_SEMA (sint (gpr st 4)) g"
  have b: "thr_wf ?b" "room 66 ?b"
    using assms by (simp_all add: wf_block_current sched_inv_wf)
  have c: "tcb cur (g'\<lparr>ready_seq_counter := k\<rparr>) = tcb cur g'" for cur g' k by (simp add: tcb_def)
  have w: "thr_wf (set_tcb cur (t\<lparr>t_ready_seq := ready_seq_counter ?b\<rparr>) (?b\<lparr>ready_seq_counter := ready_seq_counter ?b + 1\<rparr>))"
    if "tcb cur ?b = Some t" for cur t using wf_ticket [OF b that] by simp
  have n: "thr_wf (?b\<lparr>ready_seq_counter := ready_seq_counter ?b + 1\<rparr>)"
    using next_seq_wf(1) [OF b(1) room_66(2) [OF b(2)]] by (simp add: next_seq_def)
  show ?thesis
    using assms w n room_ticket(2) [OF b(2)]
    by (auto simp: gate_wait_sema_def Let_def next_seq_def c sched_inv_wf split: option.splits intro!: reschedule_inv_pair)
qed

text \<open>A step that keeps the invariant and draws at most one ticket.\<close>

definition keeps :: "nat \<Rightarrow> hle_threads \<Rightarrow> hle_threads \<Rightarrow> bool" where
  "keeps k g g' \<longleftrightarrow> (\<forall>m. sched_inv g \<and> room (k + m) g \<and> 0 < m \<longrightarrow> sched_inv g' \<and> room m g')"

lemma keepsD: "keeps k g g' \<Longrightarrow> sched_inv g \<Longrightarrow> room (k + m) g \<Longrightarrow> 0 < m \<Longrightarrow> sched_inv g' \<and> room m g'"
  by (simp add: keeps_def)

lemma keeps_refl [simp]: "keeps k g g"
  by (auto simp: keeps_def elim: room_mono)

lemma keeps_trans: "keeps j g g' \<Longrightarrow> keeps k g' g'' \<Longrightarrow> keeps (j + k) g g''"
  unfolding keeps_def by (metis add.assoc add_gr_0)

lemma keeps_make_ready: "tcb thid g = Some t \<Longrightarrow> \<not> runs t \<Longrightarrow> keeps (Suc 0) g (make_ready thid g)"
  unfolding keeps_def
  by (metis One_nat_def add_Suc add_0 make_ready_frame(1) room_mono sched_inv_make_ready sched_inv_wf Suc_le_mono zero_le)

lemma keeps_post [simp]:
  "keeps k g (bump c g') = keeps k g g'" "keeps k g (set_sema i s g') = keeps k g g'"
  "keeps k g (set_evf i e g') = keeps k g g'"
  by (simp_all add: keeps_def)

lemma keeps_wake_evf_step: "keeps (Suc 0) (fst s) (fst (wake_evf_step bus efid thid s))"
  by (cases s) (auto simp: wake_evf_step_def waits_on_evf_def runs_def intro: keeps_make_ready split: option.split)

lemma keeps_wake_evf_from: "keeps n (fst s) (fst (wake_evf_from bus efid i n s))"
proof (induction n arbitrary: i s)
  case (Suc n)
  have "keeps (Suc 0 + n) (fst s) (fst (wake_evf_from bus efid (Suc i) n (wake_evf_step bus efid (int i + 1) s)))"
    by (rule keeps_trans [OF keeps_wake_evf_step Suc.IH])
  then show ?case by (auto split: option.split)
qed simp

lemma keeps_delete_evf_from: "keeps n g (delete_evf_from efid i n g)"
proof (induction n arbitrary: i g)
  case (Suc n)
  have "keeps (Suc 0) g (case tcb (int i + 1) g of Some t \<Rightarrow> if waits_on_evf efid t then make_ready (int i + 1) g else g | None \<Rightarrow> g)"
    by (auto simp: waits_on_evf_def runs_def intro: keeps_make_ready split: option.split)
  from keeps_trans [OF this Suc.IH] show ?case by simp
qed simp

text \<open>The wake-up of a delayed thread keeps the wait id, so it is not quite \<open>make_ready\<close>.\<close>

lemma keeps_ticket:
  assumes "tcb thid g = Some t" and "\<not> runs t" and "t_status t' \<noteq> THS_RUN" and "t_ready_seq t' = ready_seq_counter g"
  shows "keeps (Suc 0) g (set_tcb thid t' (g\<lparr>ready_seq_counter := ready_seq_counter g + 1\<rparr>))"
  unfolding keeps_def
proof (intro allI impI)
  fix m
  assume a: "sched_inv g \<and> room (Suc 0 + m) g \<and> 0 < m"
  have q: "next_seq g = (ready_seq_counter g, g\<lparr>ready_seq_counter := ready_seq_counter g + 1\<rparr>)"
    by (simp add: next_seq_def)
  have r: "room 1 g" using a by (auto elim: room_mono)
  note n = next_seq_wf [OF sched_inv_wf r q]
  have "thid \<noteq> current_thread_id g" using a assms(1,2) by (auto simp: sched_inv_def tcb_Some)
  then have "sched_inv (set_tcb thid t' (g\<lparr>ready_seq_counter := ready_seq_counter g + 1\<rparr>))"
    using a n(2,6) assms by (intro sched_inv_set_tcb) (auto simp: tcb_Some slot_ok_def)
  with n(5) [of "Suc 0 + m"] a show "sched_inv (set_tcb thid t' (g\<lparr>ready_seq_counter := ready_seq_counter g + 1\<rparr>)) \<and>
      room m (set_tcb thid t' (g\<lparr>ready_seq_counter := ready_seq_counter g + 1\<rparr>))"
    by simp
qed

lemma keeps_wake_delayed_from: "keeps n (snd s) (snd (wake_delayed_from now i n s))"
proof (induction n arbitrary: i s)
  case (Suc n)
  obtain w g where s: "s = (w, g)" by force
  have "keeps (Suc 0) g (snd (case tcb (int i + 1) g of
      Some t \<Rightarrow> if delay_over now t then (True, let (q, g1) = next_seq g in
              set_tcb (int i + 1) (t\<lparr>t_status := THS_READY, t_wait_type := 0, t_ready_seq := q\<rparr>) g1) else (w, g)
    | None \<Rightarrow> (w, g)))"
    by (auto simp: delay_over_def runs_def next_seq_def intro!: keeps_ticket split: option.split)
  from keeps_trans [OF this Suc.IH] show ?case by (simp add: s)
qed simp

lemma sema_pick_spec:
  "fst (sema_pick_from semid attr i ts b) = fst b \<or>
   (\<exists>j < length ts. fst (sema_pick_from semid attr i ts b) = int (i + j) + 1 \<and> waits_on_sema semid (ts ! j))"
proof (induction ts arbitrary: i b)
  case (Cons t ts)
  obtain x p q where b: "b = (x, p, q)" by (metis prod_cases3)
  define b1 where "b1 = (if waits_on_sema semid t \<and> (x = 0 \<or> (if attr AND 1 \<noteq> 0
      then t_priority t < p \<or> t_priority t = p \<and> t_ready_seq t < q else t_ready_seq t < q))
      then (int i + 1, t_priority t, t_ready_seq t) else b)"
  have eq: "sema_pick_from semid attr i (t # ts) b = sema_pick_from semid attr (Suc i) ts b1"
    by (simp only: b b1_def sema_pick_from.simps)
  from Cons.IH [of "Suc i" b1] show ?case
  proof
    assume "fst (sema_pick_from semid attr (Suc i) ts b1) = fst b1"
    then show ?thesis unfolding eq by (auto simp: b1_def)
  next
    assume "\<exists>j < length ts. fst (sema_pick_from semid attr (Suc i) ts b1) = int (Suc i + j) + 1 \<and> waits_on_sema semid (ts ! j)"
    then obtain j where "j < length ts" "fst (sema_pick_from semid attr (Suc i) ts b1) = int (Suc i + j) + 1" "waits_on_sema semid (ts ! j)"
      by blast
    then show ?thesis unfolding eq by (intro disjI2 exI [of _ "Suc j"]) simp
  qed
qed simp

lemma keeps_wake_one:
  assumes "length (threads g) = 64"
  shows "keeps (Suc 0) g (snd (wake_one_sema_waiter semid attr g))"
proof -
  let ?b = "fst (sema_pick_from semid attr 0 (threads g) (0, 0xFFFFFFFF, 0xFFFFFFFF))"
  consider "?b = 0" | j where "j < 64" "?b = int j + 1" "waits_on_sema semid (threads g ! j)"
    using sema_pick_spec [of semid attr 0 "threads g" "(0, 0xFFFFFFFF, 0xFFFFFFFF)"] assms by auto
  then show ?thesis
  proof cases
    case 2
    then have "tcb ?b g = Some (threads g ! j)" "\<not> runs (threads g ! j)"
      by (simp_all add: tcb_def waits_on_sema_def runs_def)
    from keeps_make_ready [OF this] show ?thesis
      using 2 by (auto simp: wake_one_sema_waiter_def Let_def split: option.split)
  qed (simp add: wake_one_sema_waiter_def)
qed

end
