(* ===== verification/Iop_Thread_Gates.thy ===== *)
theory Iop_Thread_Gates
  imports Iop_Thread_Inv
begin

text \<open>
  The gates of the thread manager one by one: each keeps the scheduler's invariant, and so do
  the tick and the retirement of the root thread. The inductive predicate \<open>hle_reach\<close> collects the
  states that calls, ticks and retirement lead to, and the main theorem is that in all of them
  at most one thread has status RUN and that it is the current one.
\<close>

section \<open>Gates that reschedule after waking or blocking\<close>

lemma sched_inv_len: "sched_inv g \<Longrightarrow> length (threads g) = 64"
  by (simp add: sched_inv_def thr_wf_def)

lemma keeps_66:
  assumes "keeps k g g'" and "sched_inv g" and "room 66 g" and "k \<le> 64"
  shows "sched_inv g'" and "thr_wf g'" and "room 1 g'"
proof -
  have "room (k + 1) g" using assms(3,4) by (auto elim: room_mono)
  with keepsD [OF assms(1,2), of 1] show "sched_inv g'" "thr_wf g'" "room 1 g'"
    by (simp_all add: sched_inv_wf)
qed

lemma keeps_66_Suc: "keeps k g g' \<Longrightarrow> sched_inv g \<Longrightarrow> room 66 g \<Longrightarrow> k \<le> 64 \<Longrightarrow> room (Suc 0) g'"
  using keeps_66(3) by simp

lemma signal_sema_keeps:
  assumes "length (threads g) = 64"
  shows "keeps (Suc 0) g (fst (signal_sema (g, st)))"
proof -
  have "keeps (Suc 0) g g'" if "wake_one_sema_waiter semid attr g = (w, g')" for semid attr w g'
    using keeps_wake_one [OF assms, of semid attr] that by simp
  then show ?thesis
    by (auto simp: signal_sema_def Let_def split: option.split prod.split)
qed

lemma gate_signal_sema_inv: "sched_inv g \<Longrightarrow> room 66 g \<Longrightarrow> sched_inv (fst (gate_signal_sema i (g, st)))"
  using keeps_66 [OF signal_sema_keeps] sched_inv_len [of g]
  by (auto simp: gate_signal_sema_def intro!: reschedule_inv_pair)

lemma keeps_pre: "keeps k (set_evf i e g) g' = keeps k g g'"
  by (simp add: keeps_def)

lemma set_event_flag_keeps: "keeps 64 g (fst (set_event_flag bus (g, st)))"
proof -
  have w: "keeps 64 g (fst (wake_evf_waiters bus efid (set_evf efid e g, st)))" for efid e
  proof -
    have "keeps 64 (set_evf efid e g) (fst (wake_evf_waiters bus efid (set_evf efid e g, st)))"
      using keeps_wake_evf_from [of 64 "(set_evf efid e g, st)"] by (simp add: wake_evf_waiters_def)
    then show ?thesis by (simp only: keeps_pre)
  qed
  have "keeps 64 g g1" if "wake_evf_waiters bus efid (set_evf efid e g, st) = (g1, st1)" for efid e g1 st1
    using w [of efid e] that by simp
  then show ?thesis by (auto simp: set_event_flag_def Let_def split: option.split prod.split)
qed

lemma gate_set_evf_inv: "sched_inv g \<Longrightarrow> room 66 g \<Longrightarrow> sched_inv (fst (gate_set_evf bus i (g, st)))"
  using keeps_66 [OF set_event_flag_keeps, of g bus st]
  by (auto simp: gate_set_evf_def intro!: reschedule_inv_pair)

lemma gate_delete_evf_inv: "sched_inv g \<Longrightarrow> room 66 g \<Longrightarrow> sched_inv (fst (gate_delete_evf (g, st)))"
  using keeps_66 [OF keeps_delete_evf_from, of g 64]
  by (auto simp: gate_delete_evf_def Let_def sched_inv_wf split: option.split intro!: reschedule_inv_pair)

lemma gate_wait_evf_inv:
  assumes "sched_inv g" and "room 66 g"
  shows "sched_inv (fst (gate_wait_evf bus (g, st)))"
proof -
  let ?b = "block_current (ret (gpr st 31) 0 st) TSW_EVENTFLAG (sint (gpr st 4)) g"
  have b: "thr_wf ?b" "room (Suc 0) ?b" using assms by (simp_all add: wf_block_current sched_inv_wf)
  have w: "thr_wf (set_tcb cur (t\<lparr>t_wait_evf_bits := x, t_wait_evf_mode := y, t_wait_evf_resptr := z\<rparr>) ?b)"
    if "tcb cur ?b = Some t" for cur t x y z using wf_lift [OF b(1) that] by simp
  show ?thesis
    using assms w b
    by (auto simp: gate_wait_evf_def Let_def sched_inv_wf split: option.splits intro!: reschedule_inv_pair)
qed

section \<open>Gates that touch one thread and do not reschedule\<close>

lemma gate_create_thread_inv:
  assumes "sched_inv g"
  shows "sched_inv (fst (gate_create_thread bus (g, st)))"
proof -
  have slot: "1 \<le> alloc_tcb_slot g \<and> alloc_tcb_slot g \<le> 64 \<and> alloc_tcb_slot g \<noteq> current_thread_id g"
    if nz: "alloc_tcb_slot g \<noteq> 0"
  proof -
    obtain i where i: "list_find_index (\<lambda>t. \<not> t_in_use t) (threads g) = Some i" "alloc_tcb_slot g = int i + 1"
      using nz unfolding alloc_tcb_slot_def slot_id_def
      by (cases "list_find_index (\<lambda>t. \<not> t_in_use t) (threads g)") auto
    have "i < 64" "\<not> t_in_use (threads g ! i)"
      using list_find_index_Some [OF i(1)] sched_inv_len [OF assms] by auto
    have "alloc_tcb_slot g \<noteq> current_thread_id g"
    proof
      assume "alloc_tcb_slot g = current_thread_id g"
      then have "current_thread_id g \<noteq> 0" "nat (current_thread_id g - 1) = i" using i(2) by auto
      with assms \<open>\<not> t_in_use (threads g ! i)\<close> show False by (simp add: sched_inv_def runs_def)
    qed
    with \<open>i < 64\<close> i(2) show ?thesis by simp
  qed
  have "sched_inv (set_tcb (alloc_tcb_slot g) (zero_tcb\<lparr>t_in_use := True, t_status := THS_DORMANT, t_attr := a,
      t_option := b, t_entry := c, t_stack_base := d, t_stack_size := e, t_priority := p, t_init_priority := p\<rparr>) g)"
    if "alloc_tcb_slot g \<noteq> 0" for a b c d e p
    using slot [OF that] assms by (intro sched_inv_set_tcb) (auto simp: slot_ok_def zero_tcb_def)
  with assms show ?thesis
    by (auto simp: gate_create_thread_def Let_def split: prod.split)
qed

lemma sched_inv_other:
  assumes "sched_inv g" and "tcb thid g = Some t" and "thid \<noteq> current_thread_id g"
    and "t_ready_seq t' = t_ready_seq t" and "t_status t' \<noteq> THS_RUN \<or> \<not> t_in_use t'"
  shows "sched_inv (set_tcb thid t' g)"
  using assms wf_slot [OF sched_inv_wf [OF assms(1)] assms(2)]
  by (intro sched_inv_set_tcb) (auto simp: tcb_Some slot_ok_def)

lemma sched_inv_not_running: "sched_inv g \<Longrightarrow> tcb thid g = Some t \<Longrightarrow> \<not> runs t \<Longrightarrow> thid \<noteq> current_thread_id g"
  by (auto simp: sched_inv_def tcb_Some)

lemma gate_delete_thread_inv: "sched_inv g \<Longrightarrow> sched_inv (fst (gate_delete_thread (g, st)))"
  by (auto simp: gate_delete_thread_def Let_def split: option.split
      intro!: sched_inv_other dest: sched_inv_not_running simp: runs_def)

lemma gate_terminate_thread_inv: "sched_inv g \<Longrightarrow> sched_inv (fst (gate_terminate_thread (g, st)))"
  by (auto simp: gate_terminate_thread_def Let_def split: option.split intro!: sched_inv_other)

lemma gate_cancel_wakeup_inv: "sched_inv g \<Longrightarrow> sched_inv (fst (gate_cancel_wakeup (g, st)))"
proof -
  assume a: "sched_inv g"
  have "sched_inv (set_tcb thid (t\<lparr>t_wakeup_count := 0\<rparr>) g)" if t: "tcb thid g = Some t" for thid t
    using a t wf_slot [OF sched_inv_wf [OF a] t]
    by (intro sched_inv_set_tcb) (auto simp: tcb_Some slot_ok_def sched_inv_def runs_def)
  with a show ?thesis by (auto simp: gate_cancel_wakeup_def Let_def split: option.split)
qed

lemma gate_alarm_return_inv: "sched_inv g \<Longrightarrow> sched_inv (fst (gate_alarm_return (g, st)))"
  by (auto simp: gate_alarm_return_def Let_def split: option.split)

lemma gate_cancel_alarm_inv: "sched_inv g \<Longrightarrow> sched_inv (fst (gate_cancel_alarm (g, st)))"
  by (auto simp: gate_cancel_alarm_def Let_def sched_inv_def thr_wf_def slot_ok_def split: option.split)

lemma gates_same_inv:
  assumes "sched_inv g"
  shows "sched_inv (fst (gate_const v (g, st)))" "sched_inv (fst (gate_get_thread_id (g, st)))"
    "sched_inv (fst (gate_check_stack (g, st)))" "sched_inv (fst (gate_refer_thread bus (g, st)))"
    "sched_inv (fst (gate_system_time bus (g, st)))" "sched_inv (fst (gate_create_sema bus (g, st)))"
    "sched_inv (fst (gate_delete_sema (g, st)))" "sched_inv (fst (gate_poll_sema (g, st)))"
    "sched_inv (fst (gate_refer_sema bus (g, st)))" "sched_inv (fst (gate_create_evf bus (g, st)))"
    "sched_inv (fst (gate_clear_evf (g, st)))" "sched_inv (fst (gate_poll_evf bus (g, st)))"
    "sched_inv (fst (gate_refer_evf bus (g, st)))" "sched_inv (fst (gate_set_alarm (g, st)))"
    "sched_inv (fst (gate_usec2sysclock bus (g, st)))" "sched_inv (fst (gate_sysclock2usec bus (g, st)))"
  using assms
  by (auto simp: gate_const_def gate_get_thread_id_def gate_check_stack_def gate_refer_thread_def gate_system_time_def
      gate_create_sema_def gate_delete_sema_def gate_poll_sema_def gate_refer_sema_def gate_create_evf_def
      gate_clear_evf_def gate_poll_evf_def gate_refer_evf_def gate_set_alarm_def gate_usec2sysclock_def
      gate_sysclock2usec_def Let_def split: option.split prod.split)

lemma suspended_running: "w AND 8 \<noteq> 0 \<Longrightarrow> w AND NOT 8 = 1 \<Longrightarrow> w = (9 :: u32)"
proof -
  assume a: "w AND 8 \<noteq> 0" "w AND NOT 8 = 1"
  have b8: "bit (8 :: u32) n \<longleftrightarrow> n = 3" for n
    using bit_exp_iff [where ?'a = "32 word", of 3 n] by auto
  have "w AND 8 = (if bit w 3 then 8 else 0 :: u32)"
  proof (rule bit_word_eqI)
    fix n
    show "bit (w AND 8) n = bit (if bit w 3 then 8 else 0 :: u32) n"
      using b8 [of n] by (cases "n = 3") (auto simp: bit_and_iff)
  qed
  then have "w AND 8 = 8" using a(1) by (simp split: if_splits)
  moreover have "w = (w AND NOT 8) OR (w AND 8)"
    by (rule bit_word_eqI) (auto simp: bit_simps)
  ultimately show ?thesis using a(2) by simp
qed

lemma wf_new_status: "thr_wf g \<Longrightarrow> tcb thid g = Some t \<Longrightarrow> s \<noteq> THS_RUN \<Longrightarrow> thr_wf (set_tcb thid (t\<lparr>t_status := s\<rparr>) g)"
  by (rule wf_lift) auto

lemma gate_resume_inv:
  assumes "sched_inv g" and "room 66 g" and "\<And>t. tcb (sint (gpr st 4)) g = Some t \<Longrightarrow> t_in_use t \<Longrightarrow> t_status t \<noteq> 9"
  shows "sched_inv (fst (gate_resume (g, st)))"
proof -
  have "t_status t AND NOT 8 \<noteq> 1" if "tcb (sint (gpr st 4)) g = Some t" "t_in_use t" "t_status t AND 8 \<noteq> 0" for t
    using assms(3) [OF that(1,2)] suspended_running [OF that(3)] by auto
  with assms(1,2) show ?thesis
    unfolding gate_resume_def
    by (auto simp: Let_def next_seq_def sched_inv_wf wf_new_status split: option.split if_splits
        intro!: reschedule_inv_pair wf_ticket)
qed

section \<open>The root thread, the tick and retirement\<close>

text \<open>The thread count never falls, so the root thread is created once.\<close>

lemma thread_count_frame [simp]:
  "thread_count (bump k g) = thread_count g" "thread_count (set_sema i s g) = thread_count g"
  "thread_count (set_evf i e g) = thread_count g" "thread_count (set_alarm i a g) = thread_count g"
  "thread_count (set_tcb i t g) = thread_count g" "thread_count (set_status i w g) = thread_count g"
  "thread_count (save_context st i g) = thread_count g" "thread_count (make_ready i g) = thread_count g"
  "thread_count (block_current st x y g) = thread_count g"
  by (simp_all add: bump_def set_sema_def set_evf_def set_alarm_def set_tcb_def set_status_def save_context_def
      make_ready_def next_seq_def block_current_def Let_def split: option.split)

lemma thread_count_reschedule [simp]: "thread_count (fst (reschedule s)) = thread_count (fst s)"
  by (cases s) (simp add: reschedule_def Let_def)

lemma thread_count_wake_evf [simp]: "thread_count (fst (wake_evf_from bus efid i n s)) = thread_count (fst s)"
proof (induction n arbitrary: i s)
  case (Suc n)
  have "thread_count (fst (wake_evf_step bus efid thid s)) = thread_count (fst s)" for thid
    by (cases s) (simp add: wake_evf_step_def split: option.split)
  with Suc.IH show ?case by (simp split: option.split)
qed simp

lemma thread_count_delete_evf [simp]: "thread_count (delete_evf_from efid i n g) = thread_count g"
  by (induction n arbitrary: i g) (simp_all split: option.split)

lemma thread_count_wake_delayed [simp]: "thread_count (snd (wake_delayed_from now i n s)) = thread_count (snd s)"
proof (induction n arbitrary: i s)
  case (Suc n)
  obtain w g where "s = (w, g)" by force
  with Suc.IH show ?case by (auto simp: next_seq_def split: option.split)
qed simp

lemma thread_count_wake_one: "thread_count (snd (wake_one_sema_waiter semid attr g)) = thread_count g"
  by (simp add: wake_one_sema_waiter_def Let_def split: option.split)

lemma thread_count_signal [simp]: "thread_count (fst (signal_sema (g, st))) = thread_count g"
  using thread_count_wake_one [of _ _ g]
  by (auto simp: signal_sema_def Let_def split: option.split prod.split) (metis snd_conv)+

lemma thread_count_set_flag [simp]: "thread_count (fst (set_event_flag bus (g, st))) = thread_count g"
  by (simp add: set_event_flag_def wake_evf_waiters_def Let_def split: option.split prod.split)
    (metis fst_conv thread_count_frame(3) thread_count_wake_evf)

lemmas thread_gate_defs = gate_alarm_return_def gate_entry_return_def gate_create_thread_def gate_delete_thread_def
  gate_start_thread_def gate_exit_thread_def gate_terminate_thread_def gate_const_def gate_change_priority_def
  gate_rotate_def gate_release_wait_def gate_get_thread_id_def gate_check_stack_def gate_refer_thread_def
  gate_sleep_def gate_wakeup_def gate_cancel_wakeup_def gate_suspend_def gate_resume_def gate_delay_def
  gate_system_time_def

lemmas sync_gate_defs = gate_create_sema_def gate_delete_sema_def gate_signal_sema_def gate_wait_sema_def
  gate_poll_sema_def gate_refer_sema_def gate_create_evf_def gate_delete_evf_def gate_set_evf_def gate_clear_evf_def
  gate_wait_evf_def gate_poll_evf_def gate_refer_evf_def gate_set_alarm_def gate_cancel_alarm_def
  gate_usec2sysclock_def gate_sysclock2usec_def

lemma thread_count_thread_gates:
  "thread_count g \<le> thread_count (fst (gate_alarm_return (g, st)))" "thread_count g \<le> thread_count (fst (gate_entry_return (g, st)))"
  "thread_count g \<le> thread_count (fst (gate_create_thread bus (g, st)))" "thread_count g \<le> thread_count (fst (gate_delete_thread (g, st)))"
  "thread_count g \<le> thread_count (fst (gate_start_thread b (g, st)))" "thread_count g \<le> thread_count (fst (gate_exit_thread b (g, st)))"
  "thread_count g \<le> thread_count (fst (gate_terminate_thread (g, st)))" "thread_count g \<le> thread_count (fst (gate_const v (g, st)))"
  "thread_count g \<le> thread_count (fst (gate_change_priority (g, st)))" "thread_count g \<le> thread_count (fst (gate_rotate (g, st)))"
  "thread_count g \<le> thread_count (fst (gate_release_wait (g, st)))" "thread_count g \<le> thread_count (fst (gate_get_thread_id (g, st)))"
  "thread_count g \<le> thread_count (fst (gate_check_stack (g, st)))" "thread_count g \<le> thread_count (fst (gate_refer_thread bus (g, st)))"
  "thread_count g \<le> thread_count (fst (gate_sleep (g, st)))" "thread_count g \<le> thread_count (fst (gate_wakeup (g, st)))"
  "thread_count g \<le> thread_count (fst (gate_cancel_wakeup (g, st)))" "thread_count g \<le> thread_count (fst (gate_suspend (g, st)))"
  "thread_count g \<le> thread_count (fst (gate_resume (g, st)))" "thread_count g \<le> thread_count (fst (gate_delay (g, st)))"
  "thread_count g \<le> thread_count (fst (gate_system_time bus (g, st)))"
  by (simp_all add: thread_gate_defs Let_def next_seq_def split: option.split prod.split)

lemma thread_count_sync_gates:
  "thread_count g \<le> thread_count (fst (gate_create_sema bus (g, st)))" "thread_count g \<le> thread_count (fst (gate_delete_sema (g, st)))"
  "thread_count g \<le> thread_count (fst (gate_signal_sema b (g, st)))" "thread_count g \<le> thread_count (fst (gate_wait_sema (g, st)))"
  "thread_count g \<le> thread_count (fst (gate_poll_sema (g, st)))" "thread_count g \<le> thread_count (fst (gate_refer_sema bus (g, st)))"
  "thread_count g \<le> thread_count (fst (gate_create_evf bus (g, st)))" "thread_count g \<le> thread_count (fst (gate_delete_evf (g, st)))"
  "thread_count g \<le> thread_count (fst (gate_set_evf bus b (g, st)))" "thread_count g \<le> thread_count (fst (gate_clear_evf (g, st)))"
  "thread_count g \<le> thread_count (fst (gate_wait_evf bus (g, st)))" "thread_count g \<le> thread_count (fst (gate_poll_evf bus (g, st)))"
  "thread_count g \<le> thread_count (fst (gate_refer_evf bus (g, st)))" "thread_count g \<le> thread_count (fst (gate_set_alarm (g, st)))"
  "thread_count g \<le> thread_count (fst (gate_cancel_alarm (g, st)))" "thread_count g \<le> thread_count (fst (gate_usec2sysclock bus (g, st)))"
  "thread_count g \<le> thread_count (fst (gate_sysclock2usec bus (g, st)))"
  by (simp_all add: sync_gate_defs Let_def next_seq_def split: option.split prod.split)


text \<open>
  \<open>ResumeThread\<close> is the one gate that can produce a second running thread: on a thread that was
  suspended while it ran. \<open>resume_ok\<close> is what a caller must respect.
\<close>

definition resume_ok :: "u32 \<Rightarrow> 'x iop_state \<Rightarrow> hle_threads \<Rightarrow> bool" where
  "resume_ok addr st g \<longleftrightarrow> (addr = 0x170 \<or> addr = 0x174 \<longrightarrow>
     (case tcb (sint (gpr st 4)) g of Some t \<Rightarrow> t_in_use t \<longrightarrow> t_status t \<noteq> THS_RUN OR THS_SUSPEND | None \<Rightarrow> True))"

lemmas gate_invs = gate_alarm_return_inv gate_entry_return_inv gate_create_thread_inv gate_delete_thread_inv
  gate_start_thread_inv gate_exit_thread_inv gate_terminate_thread_inv gate_change_priority_inv gate_rotate_inv
  gate_release_wait_inv gate_sleep_inv gate_wakeup_inv gate_cancel_wakeup_inv gate_suspend_inv gate_delay_inv
  gate_signal_sema_inv gate_wait_sema_inv gate_delete_evf_inv gate_set_evf_inv gate_wait_evf_inv
  gate_cancel_alarm_inv gates_same_inv

lemma gate_table_inv:
  assumes "sched_inv g" and "room 66 g" and "resume_ok addr st g" and "(addr, h) \<in> set (thread_gates bus)"
  shows "sched_inv (fst (h (g, st)))"
proof (cases "addr = 0x170 \<or> addr = 0x174")
  case True
  with assms(4) have "h = gate_resume" unfolding thread_gates_def by auto
  with True assms(3) show ?thesis
    using gate_resume_inv [OF assms(1,2), of st] by (auto simp: resume_ok_def split: option.splits)
next
  case False
  with assms(4) show ?thesis unfolding thread_gates_def using assms(1,2) by (auto simp: gate_invs)
qed

lemma gate_table_count:
  assumes "(addr, h) \<in> set (thread_gates bus)"
  shows "thread_count g \<le> thread_count (fst (h (g, st)))"
  using assms unfolding thread_gates_def by (auto simp: thread_count_thread_gates thread_count_sync_gates)

text \<open>Before the first call there is no thread; after it there is one.\<close>

definition mgr_inv :: "hle_threads \<Rightarrow> bool" where
  "mgr_inv g \<longleftrightarrow> sched_inv g \<and> 0 \<le> thread_count g \<and> (thread_count g = 0 \<longrightarrow> current_thread_id g = 0)"

lemma mgr_inv_init: "mgr_inv iop_hle_thread_init"
  by (simp add: mgr_inv_def sched_inv_def thr_wf_def slot_ok_def iop_hle_thread_init_def zero_tcb_def)

lemma ensure_root_inv:
  assumes "mgr_inv g" and "room 67 g" and "ensure_root_thread (g, st) = (g1, st1)"
  shows "sched_inv g1" and "room 66 g1" and "0 < thread_count g1" and "st1 = st"
    and "resume_ok addr st g \<Longrightarrow> resume_ok addr st g1"
proof -
  have r: "room 66 g" "room 1 g" using assms(2) by (auto elim: room_mono)
  obtain q g0 where q: "next_seq g = (q, g0)" by force
  note n = next_seq_wf [OF _ r(2) q]
  let ?t = "capture st (zero_tcb\<lparr>t_in_use := True, t_status := THS_RUN, t_priority := 64, t_init_priority := 64, t_ready_seq := q\<rparr>)"
  have st: "st1 = st" using assms(3) by (auto simp: ensure_root_thread_def Let_def split: if_splits prod.splits)
  have "sched_inv g1 \<and> room 66 g1 \<and> 0 < thread_count g1 \<and> (resume_ok addr st g \<longrightarrow> resume_ok addr st g1)"
  proof (cases "0 < thread_count g")
    case True
    with assms r show ?thesis by (simp add: ensure_root_thread_def mgr_inv_def)
  next
    case False
    have wf: "thr_wf g" "current_thread_id g = 0" using False assms(1) by (simp_all add: mgr_inv_def sched_inv_def)
    have g1: "g1 = (set_tcb 1 ?t g0)\<lparr>thread_count := 1, current_thread_id := 1\<rparr>"
      using False q assms(3) by (auto simp: ensure_root_thread_def)
    have len: "length (threads g0) = 64" using n(1) [OF wf(1)] by (simp add: thr_wf_def)
    have "sched_inv g1"
      using n(1,2,4) [OF wf(1)] wf(2) len
      by (auto simp: g1 sched_inv_def thr_wf_def slot_ok_def runs_def nth_list_update)
    moreover have "room 66 g1" using n(5) [OF wf(1) assms(2)] by (simp add: g1 room_def)
    moreover have "tcb x g1 = (if x = 1 then Some ?t else tcb x g)" for x
      using len n(3) [OF wf(1)] by (auto simp: g1 tcb_def nth_list_update)
    then have "resume_ok addr st g \<longrightarrow> resume_ok addr st g1"
      by (auto simp: resume_ok_def split: option.splits)
    ultimately show ?thesis by (simp add: g1)
  qed
  with st show "sched_inv g1" "room 66 g1" "0 < thread_count g1" "st1 = st"
    "resume_ok addr st g \<Longrightarrow> resume_ok addr st g1" by auto
qed

lemma try_handle_inv:
  assumes "mgr_inv g" and "room 67 g" and "resume_ok addr st g"
  shows "mgr_inv (fst (snd (iop_hle_thread_try_handle bus addr (g, st))))"
proof -
  obtain g1 st1 where e: "ensure_root_thread (g, st) = (g1, st1)" by force
  note r = ensure_root_inv [OF assms(1,2) e]
  show ?thesis
  proof (cases "map_of (thread_gates bus) addr")
    case None
    with r assms(1) show ?thesis by (simp add: iop_hle_thread_try_handle_def e mgr_inv_def)
  next
    case (Some h)
    then have h: "(addr, h) \<in> set (thread_gates bus)" by (rule map_of_SomeD)
    have "sched_inv (fst (h (g1, st)))" by (rule gate_table_inv [OF r(1,2) r(5) [OF assms(3)] h])
    moreover have "0 < thread_count (fst (h (g1, st)))" using r(3) gate_table_count [OF h, of g1 st] by simp
    ultimately show ?thesis using Some r(4) assms(1) by (simp add: iop_hle_thread_try_handle_def e mgr_inv_def)
  qed
qed

lemma tick_inv:
  assumes "mgr_inv g" and "room 66 g"
  shows "mgr_inv (fst (iop_hle_thread_tick (g, st)))"
proof -
  obtain woke g1 where w: "wake_delayed_from (instructions_executed st) 0 64 (False, g) = (woke, g1)" by force
  have k: "keeps 64 g g1" and c: "thread_count g1 = thread_count g"
    using keeps_wake_delayed_from [of 64 "(False, g)" "instructions_executed st" 0]
      thread_count_wake_delayed [of "instructions_executed st" 0 64 "(False, g)"] w by simp_all
  have s: "sched_inv g" using assms(1) by (simp add: mgr_inv_def)
  note k1 = keeps_66 [OF k s assms(2)]
  have "sched_inv (fst (iop_hle_thread_tick (g, st)))"
    using s k1 by (auto simp: iop_hle_thread_tick_def w Let_def split: option.split intro!: reschedule_inv)
  moreover have "thread_count (fst (iop_hle_thread_tick (g, st))) = thread_count g"
    by (simp add: iop_hle_thread_tick_def w Let_def c split: option.split)
  moreover have "thread_count g = 0 \<Longrightarrow> iop_hle_thread_tick (g, st) = (g, st)"
    by (simp add: iop_hle_thread_tick_def)
  ultimately show ?thesis using assms(1) by (auto simp: mgr_inv_def)
qed

lemma retire_root_inv:
  assumes "mgr_inv g" and "room 66 g"
  shows "mgr_inv (fst (snd (iop_hle_thread_retire_root_thread (retired, g, st))))"
proof -
  have "sched_inv (fst (reschedule (set_tcb 1 (t\<lparr>t_status := THS_DORMANT\<rparr>) g, st)))" if "tcb 1 g = Some t" for t
    using assms that by (intro reschedule_inv_pair) (auto simp: mgr_inv_def sched_inv_wf wf_new_status)
  with assms(1) show ?thesis
    by (auto simp: iop_hle_thread_retire_root_thread_def mgr_inv_def split: option.split)
qed

section \<open>Reachable states\<close>

text \<open>
  A history of the manager: calls through any gate address with any registers and memory,
  ticks at any time, retirement of the root thread. Each step finds the ready counter at least
  67 below its wrap-around.
\<close>

inductive hle_reach :: "'x iop_bus \<Rightarrow> hle_threads \<Rightarrow> bool" for bus :: "'x iop_bus" where
  hle_start: "hle_reach bus iop_hle_thread_init"
| hle_call: "hle_reach bus g \<Longrightarrow> room 67 g \<Longrightarrow> resume_ok addr st g \<Longrightarrow>
    hle_reach bus (fst (snd (iop_hle_thread_try_handle bus addr (g, st))))"
| hle_tick: "hle_reach bus g \<Longrightarrow> room 67 g \<Longrightarrow> hle_reach bus (fst (iop_hle_thread_tick (g, st :: 'x iop_state)))"
| hle_retire: "hle_reach bus g \<Longrightarrow> room 67 g \<Longrightarrow>
    hle_reach bus (fst (snd (iop_hle_thread_retire_root_thread (retired, g, st :: 'x iop_state))))"

lemma hle_reach_inv: "hle_reach bus g \<Longrightarrow> mgr_inv g"
  by (induction rule: hle_reach.induct)
    (simp_all add: mgr_inv_init try_handle_inv tick_inv retire_root_inv room_mono [of 67 _ 66])

end
