(* ===== verification/Iop_Thread_Props.thy ===== *)
theory Iop_Thread_Props
  imports Iop_Thread_Gates
begin

text \<open>
  What the thread manager promises its callers: which thread runs, that a thread gets its
  registers back, what the semaphore, event-flag, sleep, delay and alarm calls do, and the two
  places where the code does not do what it means to (\<open>DelayThread\<close> and the alarm dispatch).
\<close>

section \<open>Scheduling\<close>

text \<open>The state after the first call, \<open>GetThreadId\<close>, on a processor with cleared registers.\<close>

definition booted :: hle_threads where
  "booted = fst (snd (iop_hle_thread_try_handle no_devices 0x144 (iop_hle_thread_init, blank_iop ())))"

lemma booted_eq:
  "booted = iop_hle_thread_init\<lparr>threads := (replicate 64 zero_tcb)[0 := capture (blank_iop ())
      (zero_tcb\<lparr>t_in_use := True, t_status := THS_RUN, t_priority := 64, t_init_priority := 64\<rparr>)],
    thread_count := 1, current_thread_id := 1, ready_seq_counter := 1\<rparr>"
  by (simp add: booted_def iop_hle_thread_try_handle_def iop_hle_thread_in_range_def ensure_root_thread_def
      iop_hle_thread_init_def next_seq_def thread_gates_def gate_get_thread_id_def set_tcb_def zero_tcb_def)

lemma booted_reach: "hle_reach (no_devices :: unit iop_bus) booted"
  unfolding booted_def
  by (rule hle_reach.hle_call [OF hle_reach.hle_start])
    (simp_all add: room_def resume_ok_def iop_hle_thread_init_def)

lemma booted_fields [simp]: "current_thread_id booted = 1" "ready_seq_counter booted = 1"
  "length (threads booted) = 64"
  by (simp_all add: booted_eq iop_hle_thread_init_def)

lemma booted_tcb [simp]: "tcb 1 booted = Some (capture (blank_iop ())
    (zero_tcb\<lparr>t_in_use := True, t_status := THS_RUN, t_priority := 64, t_init_priority := 64\<rparr>))"
  by (simp add: booted_eq tcb_def)

lemma booted_room: "room n booted \<longleftrightarrow> n < 4294967295"
  by (simp add: room_def)

lemma booted_inv: "sched_inv booted"
  using hle_reach_inv [OF booted_reach] by (simp add: mgr_inv_def)

text \<open>C2: There is never a second running thread, under two conditions on the history. In every state that gate calls
  (any gate, registers and memory), ticks and the retirement of the root thread lead to, a current
  thread is in status RUN, and every thread in use with status RUN is the current one, provided that (a)
  ResumeThread and iResumeThread were never called for a thread that was suspended while it was running
  (status RUN and SUSPEND together), and (b) at each step the 32-bit counter of ready tickets was at least 67
  below its wrap-around. Both conditions are part of \<^const>\<open>hle_reach\<close>. The code does not check (a), and
  \<open>resume_second_running\<close> below is a history where a second running thread comes of it.\<close>

theorem scheduler_invariant:
  assumes "hle_reach bus g"
  shows "(current_thread_id g \<noteq> 0 \<longrightarrow>
      (\<exists>t. tcb (current_thread_id g) g = Some t \<and> t_in_use t \<and> t_status t = THS_RUN)) \<and>
    (\<forall>thid t. tcb thid g = Some t \<and> t_in_use t \<and> t_status t = THS_RUN \<longrightarrow> thid = current_thread_id g)"
proof -
  have s: "sched_inv g" using hle_reach_inv [OF assms] by (simp add: mgr_inv_def)
  then have "thr_wf g" "0 \<le> current_thread_id g" "current_thread_id g \<le> 64"
    by (simp_all add: sched_inv_def thr_wf_def)
  moreover have "thid = current_thread_id g"
    if "tcb thid g = Some t" "t_in_use t" "t_status t = THS_RUN" for thid t
    using wf_slot [OF \<open>thr_wf g\<close> that(1)] that by (auto simp: slot_ok_def tcb_Some)
  ultimately show ?thesis using s by (auto simp: sched_inv_def runs_def tcb_def)
qed

theorem scheduler_invariant_witness:
  "hle_reach (no_devices :: unit iop_bus) booted \<and> tcb 1 booted \<noteq> None \<and>
   {thid. \<exists>t. tcb thid booted = Some t \<and> t_in_use t \<and> t_status t = THS_RUN} \<subseteq> {1}"
  using scheduler_invariant [OF booted_reach] booted_reach by (simp add: subset_iff)

text \<open>
  The history that condition (a) excludes: the root thread creates and starts thread 2, is suspended while
  it runs, thread 2 gets a better priority and resumes it. \<open>ResumeThread\<close> then gives the root
  thread the status RUN it was suspended with, while thread 2 stays the current one.
\<close>

definition kernel_call :: "u32 \<times> u32 \<times> u32 \<Rightarrow> hle_threads \<Rightarrow> hle_threads" where
  "kernel_call = (\<lambda>(addr, a0, a1) g. fst (snd (iop_hle_thread_try_handle (no_devices :: unit iop_bus) addr
     (g, (blank_iop ())\<lparr>gpr := (\<lambda>_. 0)(4 := a0, 5 := a1)\<rparr>))))"

theorem resume_second_running:
  "let g = fold kernel_call [(0x104, 0x1000, 0), (0x12C, 2, 70), (0x10C, 2, 0), (0x168, 1, 0), (0x12C, 2, 32), (0x170, 1, 0)] booted
   in current_thread_id g = 2 \<and> map t_status (take 2 (threads g)) = [THS_RUN, THS_RUN] \<and> map t_in_use (take 2 (threads g)) = [True, True]"
  by code_simp

lemma not_key_less: "\<not> key_less (key a) (key b) \<longleftrightarrow>
    t_priority b < t_priority a \<or> t_priority b = t_priority a \<and> t_ready_seq b \<le> t_ready_seq a"
  by (auto simp: key_less_def key_def not_less)

text \<open>C23: The scheduler is strict-priority with first-come order inside a priority: after \<open>reschedule\<close> the processor is idle exactly when no thread is runnable, and otherwise the current thread is a runnable one that no other runnable thread precedes in (priority, ready ticket).\<close>

theorem reschedule_runs_best:
  assumes "thr_wf g" and "room 1 g" and "reschedule (g, st) = (g', st')"
  shows "(idle st' \<longleftrightarrow> (\<forall>i < 64. \<not> runnable (threads g ! i))) \<and>
    (idle st' \<longrightarrow> current_thread_id g' = 0) \<and>
    (\<not> idle st' \<longrightarrow> (\<exists>t. tcb (current_thread_id g') g = Some t \<and> runnable t \<and>
      (\<forall>j < 64. runnable (threads g ! j) \<longrightarrow>
        t_priority t < t_priority (threads g ! j) \<or>
        t_priority t = t_priority (threads g ! j) \<and> t_ready_seq t \<le> t_ready_seq (threads g ! j))))"
proof -
  note pick = pick_next_ready_spec [OF assms(1,2)]
  have c: "current_thread_id g' = pick_next_ready g" "idle st' \<longleftrightarrow> pick_next_ready g = 0"
    using assms(3) by (auto simp: reschedule_def Let_def split: if_splits)
  show ?thesis
    unfolding c using pick by (auto simp: not_key_less)
qed

theorem reschedule_runs_best_witness:
  "\<not> idle (snd (reschedule (booted, blank_iop ())))"
proof -
  obtain g' st' where r: "reschedule (booted, blank_iop ()) = (g', st')" by force
  have "runnable (threads booted ! 0)"
    by (simp add: booted_eq runnable_def capture_def)
  with reschedule_runs_best [OF sched_inv_wf [OF booted_inv] _ r] r show ?thesis
    by (auto simp: booted_room)
qed

section \<open>Contexts\<close>

definition same_context :: "iop_tcb \<Rightarrow> iop_tcb \<Rightarrow> bool" where
  "same_context t t' \<longleftrightarrow> t_gpr t' = t_gpr t \<and> t_pc t' = t_pc t \<and> t_next_pc t' = t_next_pc t \<and> t_hi t' = t_hi t \<and> t_lo t' = t_lo t"

lemma tcb_set_tcb: "length (threads g) = 64 \<Longrightarrow> 1 \<le> a \<Longrightarrow> a \<le> 64 \<Longrightarrow>
    tcb b (set_tcb a t g) = (if b = a then Some t else tcb b g)"
  by (auto simp: tcb_def nth_list_update)

lemma tcb_fields [simp]: "tcb a (g\<lparr>current_thread_id := c\<rparr>) = tcb a g" "tcb a (g\<lparr>ready_seq_counter := q\<rparr>) = tcb a g"
  "tcb a (bump k g) = tcb a g" "tcb a (set_sema i s g) = tcb a g" "tcb a (set_evf i e g) = tcb a g"
  by (simp_all add: tcb_def)

lemma tcb_other: "b \<noteq> a \<Longrightarrow> 1 \<le> a \<Longrightarrow> tcb b (set_tcb a t g) = tcb b g"
  by (auto simp: tcb_def)

lemma tcb_other_helpers: "b \<noteq> a \<Longrightarrow> tcb b (set_status a s g) = tcb b g" "b \<noteq> a \<Longrightarrow> tcb b (save_context st a g) = tcb b g"
  by (auto simp: set_status_def save_context_def tcb_other tcb_Some split: option.split)

lemma switched_out:
  assumes "thr_wf g" and "running (current_thread_id g) g" and "reschedule (g, st) = (g1, st1)"
    and "current_thread_id g1 \<noteq> current_thread_id g"
  shows "\<exists>t1. tcb (current_thread_id g) g1 = Some t1 \<and> same_context (capture st zero_tcb) t1"
proof -
  let ?c = "current_thread_id g" and ?n = "pick_next_ready g"
  have c: "1 \<le> ?c" "?c \<le> 64" using assms(2) by (auto simp: running_def tcb_def split: if_splits)
  have len: "length (threads g) = 64" using assms(1) by (simp add: thr_wf_def)
  have n: "current_thread_id g1 = ?n" using assms(3) by (auto simp: reschedule_def Let_def split: if_splits)
  show ?thesis
    using assms(2-4) c len unfolding n
    by (auto simp: reschedule_def Let_def tcb_other_helpers save_context_eq set_status_eq tcb_set_tcb
        same_context_def capture_def split: if_splits)
qed

lemma switched_in:
  assumes "reschedule (g, st) = (g1, st1)" and "current_thread_id g1 = a" and "a \<noteq> current_thread_id g"
    and "tcb a g = Some t"
  shows "gpr st1 = t_gpr t \<and> pc st1 = t_pc t \<and> next_pc st1 = t_next_pc t \<and> hi st1 = t_hi t \<and> lo st1 = t_lo t"
proof -
  have "a \<noteq> 0" using assms(4) by (simp add: tcb_Some)
  with assms show ?thesis
    by (auto simp: reschedule_def Let_def load_context_def restore_def tcb_other_helpers split: if_splits)
qed

text \<open>C14: A thread that the scheduler takes off the processor and later puts back continues with exactly the registers it had: general registers, program counter, delay-slot counter, HI and LO, whatever ran and whatever happened to the manager in between, as long as its saved context was left alone.\<close>

theorem context_round_trip:
  assumes "thr_wf g" and "running (current_thread_id g) g" and "reschedule (g, st) = (g1, st1)"
    and "current_thread_id g1 \<noteq> current_thread_id g" and "tcb (current_thread_id g) g1 = Some t1"
    and "tcb (current_thread_id g) g2 = Some t2" and "same_context t1 t2"
    and "reschedule (g2, st2) = (g3, st3)" and "current_thread_id g2 \<noteq> current_thread_id g"
    and "current_thread_id g3 = current_thread_id g"
  shows "gpr st3 = gpr st \<and> pc st3 = pc st \<and> next_pc st3 = next_pc st \<and> hi st3 = hi st \<and> lo st3 = lo st"
proof -
  have "same_context (capture st zero_tcb) t1" using switched_out [OF assms(1-4)] assms(5) by simp
  with switched_in [OF assms(8,10) assms(9)[symmetric] assms(6)] assms(7) show ?thesis
    by (auto simp: same_context_def capture_def)
qed


text \<open>A manager with a given list of threads, for the examples below.\<close>

definition table :: "iop_tcb list \<Rightarrow> int \<Rightarrow> hle_threads" where
  "table ts cur = iop_hle_thread_init\<lparr>threads := ts @ replicate (64 - length ts) zero_tcb,
     thread_count := int (length ts), current_thread_id := cur, ready_seq_counter := 10\<rparr>"

definition thread :: "u32 \<Rightarrow> u32 \<Rightarrow> iop_tcb" where
  "thread status prio = zero_tcb\<lparr>t_in_use := True, t_status := status, t_priority := prio\<rparr>"

lemma pick_from_unused [simp]: "\<not> runnable t \<Longrightarrow> pick_from i (replicate n t) b = b"
proof (induction n arbitrary: i)
  case (Suc n)
  then show ?case by (cases b) simp
qed simp

lemma table_fields [simp]:
  "threads (table ts cur) = ts @ replicate (64 - length ts) zero_tcb" "current_thread_id (table ts cur) = cur"
  "ready_seq_counter (table ts cur) = 10" "semas (table ts cur) = replicate 64 zero_sema"
  "evflags (table ts cur) = replicate 32 zero_evf" "alarms (table ts cur) = replicate 16 zero_alarm"
  by (simp_all add: table_def iop_hle_thread_init_def)

lemma zero_tcb_fields [simp]: "\<not> t_in_use zero_tcb" "t_ready_seq zero_tcb = 0" "t_status zero_tcb = 0"
  "\<not> runnable zero_tcb" "t_wait_type zero_tcb = 0"
  by (simp_all add: zero_tcb_def runnable_def)

lemma table_wf: "length ts \<le> 64 \<Longrightarrow> 0 \<le> cur \<Longrightarrow> cur \<le> 64 \<Longrightarrow>
    (\<forall>i < length ts. t_ready_seq (ts ! i) \<le> 10 \<and> (runs (ts ! i) \<longrightarrow> cur = int i + 1)) \<Longrightarrow> thr_wf (table ts cur)"
  by (auto simp: thr_wf_def slot_ok_def runs_def nth_append)

lemmas table_simps = pick_next_ready_def runnable_def thread_def tcb_def capture_def restore_def zero_tcb_def
  running_def set_status_def save_context_def load_context_def set_tcb_def bump_def

theorem context_round_trip_witness:
  "pc (snd (reschedule (table [capture (blank_iop ()\<lparr>pc := 0x5000\<rparr>) (thread THS_READY 64), thread THS_WAIT 1] 2, blank_iop ()))) = 0x5000"
proof -
  let ?st = "blank_iop ()\<lparr>pc := 0x5000\<rparr>"
  let ?g = "table [thread THS_RUN 64, thread THS_READY 1] 1"
  let ?g2 = "table [capture ?st (thread THS_READY 64), thread THS_WAIT 1] 2"
  obtain g1 st1 where r1: "reschedule (?g, ?st) = (g1, st1)" by force
  obtain g3 st3 where r3: "reschedule (?g2, blank_iop ()) = (g3, st3)" by force
  have wf: "thr_wf ?g" by (rule table_wf) (auto simp: less_Suc_eq thread_def runs_def)
  have run: "running (current_thread_id ?g) ?g" by (simp add: running_def tcb_def thread_def)
  have "pick_next_ready ?g = 2" "pick_next_ready ?g2 = 1"
    by (simp_all add: table_simps)
  with r1 r3 have c: "current_thread_id g1 = 2" "current_thread_id g3 = 1"
    by (auto simp: reschedule_def Let_def)
  then obtain t1 where t1: "tcb 1 g1 = Some t1" "same_context (capture ?st zero_tcb) t1"
    using switched_out [OF wf run r1] by auto
  have "tcb 1 ?g2 = Some (capture ?st (thread THS_READY 64))" "same_context t1 (capture ?st (thread THS_READY 64))"
    using t1(2) by (simp_all add: tcb_def same_context_def capture_def)
  with context_round_trip [OF wf run r1 _ _ _ _ r3] c t1(1) have "pc st3 = 0x5000" by simp
  with r3 show ?thesis by simp
qed

section \<open>Semaphores\<close>

lemma semas_set_sema: "semas (set_sema i s g) = (semas g)[nat (i - 1) := s]"
  by (simp add: set_sema_def)

text \<open>The order among the waiters of a semaphore: by priority when the attribute asks for it, then by ticket.\<close>

definition sema_key :: "u32 \<Rightarrow> u32 \<times> u32 \<Rightarrow> u32 \<times> u32" where
  "sema_key attr k = (if attr AND 1 \<noteq> 0 then fst k else 0, snd k)"

definition before :: "u32 \<Rightarrow> iop_tcb \<Rightarrow> iop_tcb \<Rightarrow> bool" where
  "before attr t t' \<longleftrightarrow> key_less (sema_key attr (key t)) (sema_key attr (key t'))"

lemma sema_key_less: "key_less (sema_key attr (key t)) (sema_key attr (p, q)) \<longleftrightarrow>
   (if attr AND 1 \<noteq> 0 then t_priority t < p \<or> t_priority t = p \<and> t_ready_seq t < q else t_ready_seq t < q)"
  by (simp add: key_less_def sema_key_def key_def)

lemma sema_pick_best:
  "sema_pick_from semid attr i ts (b, k) = (b', k') \<Longrightarrow>
     ((b', k') = (b, k) \<or> (\<exists>j < length ts. b' = int (i + j) + 1 \<and> waits_on_sema semid (ts ! j) \<and> k' = key (ts ! j)))
     \<and> (\<forall>j < length ts. waits_on_sema semid (ts ! j) \<longrightarrow>
          b' \<noteq> 0 \<and> \<not> key_less (sema_key attr (key (ts ! j))) (sema_key attr k'))
     \<and> (b \<noteq> 0 \<longrightarrow> b' \<noteq> 0 \<and> \<not> key_less (sema_key attr k) (sema_key attr k'))"
proof (induction ts arbitrary: i b k)
  case (Cons t ts)
  define bk where "bk = (if waits_on_sema semid t \<and> (b = 0 \<or> key_less (sema_key attr (key t)) (sema_key attr k))
    then (int i + 1, key t) else (b, k))"
  obtain b1 k1 where bk1: "bk = (b1, k1)" by (meson surj_pair)
  obtain p q where k: "k = (p, q)" by force
  have "sema_pick_from semid attr i (t # ts) (b, k) = sema_pick_from semid attr (Suc i) ts bk"
    unfolding bk_def k sema_key_less sema_pick_from.simps by (auto simp: key_def)
  then have rec: "sema_pick_from semid attr (Suc i) ts (b1, k1) = (b', k')" using Cons.prems bk1 by simp
  note IH = Cons.IH [OF rec]
  have b1: "waits_on_sema semid t \<or> b \<noteq> 0 \<Longrightarrow> b1 \<noteq> 0"
    using bk1 by (auto simp: bk_def split: if_splits)
  have le: "b \<noteq> 0 \<Longrightarrow> \<not> key_less (sema_key attr k) (sema_key attr k1)"
    "waits_on_sema semid t \<Longrightarrow> \<not> key_less (sema_key attr (key t)) (sema_key attr k1)"
    using bk1 by (auto simp: bk_def key_less_irrefl split: if_splits dest: key_less_trans)
  have "(b', k') = (b, k) \<or> (\<exists>j < length (t # ts). b' = int (i + j) + 1 \<and> waits_on_sema semid ((t # ts) ! j) \<and> k' = key ((t # ts) ! j))"
  proof (cases "(b', k') = (b1, k1)")
    case True
    with bk1 show ?thesis by (auto simp: bk_def split: if_splits)
  next
    case False
    with IH obtain j where "j < length ts" "b' = int (Suc i + j) + 1" "waits_on_sema semid (ts ! j)" "k' = key (ts ! j)"
      by blast
    then show ?thesis by (intro disjI2 exI [of _ "Suc j"]) simp
  qed
  moreover have nk: "b1 \<noteq> 0 \<Longrightarrow> b' \<noteq> 0 \<and> \<not> key_less (sema_key attr k1) (sema_key attr k')" using IH by simp
  have "b \<noteq> 0 \<longrightarrow> b' \<noteq> 0 \<and> \<not> key_less (sema_key attr k) (sema_key attr k')"
    using b1 nk le(1) key_not_less_trans by blast
  moreover have "waits_on_sema semid t \<longrightarrow> b' \<noteq> 0 \<and> \<not> key_less (sema_key attr (key t)) (sema_key attr k')"
    using b1 nk le(2) key_not_less_trans by blast
  ultimately show ?case using IH by (auto simp: less_Suc_eq_0_disj)
qed (auto simp: key_less_irrefl)

text \<open>C27: SignalSema and iSignalSema on a live semaphore. With waiters, exactly one of them becomes ready (one that no other waiter precedes in the order its attribute selects), it goes to the end of the ready queue, and the count is unchanged; without waiters the count goes up by one unless it is at its maximum. The call returns 0 to its caller.\<close>

theorem signal_sema_spec:
  assumes "length (threads g) = 64" and "sema (sint (gpr st 4)) g = Some s" and "s_in_use s"
    and "signal_sema (g, st) = (g', st')"
  shows "((\<forall>i < 64. \<not> waits_on_sema (sint (gpr st 4)) (threads g ! i)) \<longrightarrow>
       g' = (if sint (s_count s) < sint (s_max s)
             then set_sema (sint (gpr st 4)) (s\<lparr>s_count := s_count s + 1\<rparr>) g else g)) \<and>
    ((\<exists>i < 64. waits_on_sema (sint (gpr st 4)) (threads g ! i)) \<longrightarrow>
       (\<exists>i < 64. waits_on_sema (sint (gpr st 4)) (threads g ! i) \<and>
         (\<forall>j < 64. waits_on_sema (sint (gpr st 4)) (threads g ! j) \<longrightarrow> \<not> before (s_attr s) (threads g ! j) (threads g ! i)) \<and>
         threads g' = (threads g)[i := (threads g ! i)\<lparr>t_status := THS_READY, t_wait_type := 0, t_wait_id := 0,
                                        t_ready_seq := ready_seq_counter g\<rparr>] \<and>
         semas g' = (semas g)[nat (sint (gpr st 4) - 1) := s\<lparr>s_num_wait_threads := s_num_wait_threads s - 1\<rparr>])) \<and>
    gpr st' 2 = 0 \<and> pc st' = gpr st 31"
proof -
  let ?id = "sint (gpr st 4)"
  obtain b k where bk: "sema_pick_from ?id (s_attr s) 0 (threads g) (0, (0xFFFFFFFF, 0xFFFFFFFF)) = (b, k)"
    by (meson surj_pair)
  note sp = sema_pick_best [OF bk]
  have "gpr st' 2 = 0 \<and> pc st' = gpr st 31"
    using assms(2-4) by (auto simp: signal_sema_def ret_def Let_def split: prod.splits)
  moreover have "g' = (if sint (s_count s) < sint (s_max s) then set_sema ?id (s\<lparr>s_count := s_count s + 1\<rparr>) g else g)"
    if "\<forall>i < 64. \<not> waits_on_sema ?id (threads g ! i)"
  proof -
    have "b = 0" using sp that assms(1) by auto
    with bk have "wake_one_sema_waiter ?id (s_attr s) g = (False, g)" by (simp add: wake_one_sema_waiter_def)
    with assms(2-4) show ?thesis by (auto simp: signal_sema_def)
  qed
  moreover have "\<exists>i < 64. waits_on_sema ?id (threads g ! i) \<and>
         (\<forall>j < 64. waits_on_sema ?id (threads g ! j) \<longrightarrow> \<not> before (s_attr s) (threads g ! j) (threads g ! i)) \<and>
         threads g' = (threads g)[i := (threads g ! i)\<lparr>t_status := THS_READY, t_wait_type := 0, t_wait_id := 0,
                                        t_ready_seq := ready_seq_counter g\<rparr>] \<and>
         semas g' = (semas g)[nat (?id - 1) := s\<lparr>s_num_wait_threads := s_num_wait_threads s - 1\<rparr>]"
    if "\<exists>i < 64. waits_on_sema ?id (threads g ! i)"
  proof -
    have "b \<noteq> 0" using sp that assms(1) by auto
    with sp assms(1) obtain i where i: "i < 64" "b = int i + 1" "waits_on_sema ?id (threads g ! i)" "k = key (threads g ! i)"
      by auto
    let ?t = "(threads g ! i)\<lparr>t_status := THS_READY, t_wait_type := 0, t_wait_id := 0, t_ready_seq := ready_seq_counter g\<rparr>"
    have mr: "make_ready b g = set_tcb b ?t (g\<lparr>ready_seq_counter := ready_seq_counter g + 1\<rparr>)"
      using i by (simp add: make_ready_def tcb_def next_seq_def)
    have s: "sema ?id (make_ready b g) = Some s" using assms(2) by (simp add: mr sema_def split: if_splits)
    have "wake_one_sema_waiter ?id (s_attr s) g = (True, set_sema ?id (s\<lparr>s_num_wait_threads := s_num_wait_threads s - 1\<rparr>) (make_ready b g))"
      using bk \<open>b \<noteq> 0\<close> s by (simp add: wake_one_sema_waiter_def)
    then have "g' = set_sema ?id (s\<lparr>s_num_wait_threads := s_num_wait_threads s - 1\<rparr>) (make_ready b g)"
      using assms(2-4) by (auto simp: signal_sema_def)
    then have "threads g' = (threads g)[i := ?t] \<and> semas g' = (semas g)[nat (?id - 1) := s\<lparr>s_num_wait_threads := s_num_wait_threads s - 1\<rparr>]"
      unfolding mr using i(2) by (simp add: semas_set_sema)
    with i sp assms(1) show ?thesis by (intro exI [of _ i]) (simp add: before_def)
  qed
  ultimately show ?thesis by blast
qed


text \<open>One waiter of two, in a first-come semaphore, and a live semaphore with no waiter.\<close>

definition live_sema :: "u32 \<Rightarrow> iop_sema" where
  "live_sema n = zero_sema\<lparr>s_in_use := True, s_max := 5, s_count := n\<rparr>"

theorem signal_sema_spec_witness:
  "s_count (semas (fst (signal_sema (set_sema 1 (live_sema 2) (table [thread THS_RUN 64] 1),
      blank_iop ()\<lparr>gpr := (\<lambda>_. 0)(4 := 1)\<rparr>))) ! 0) = 3"
proof -
  let ?st = "blank_iop ()\<lparr>gpr := (\<lambda>_. 0)(4 := 1)\<rparr>" and ?g = "set_sema 1 (live_sema 2) (table [thread THS_RUN 64] 1)"
  obtain g' st' where r: "signal_sema (?g, ?st) = (g', st')" by force
  have id: "sint (gpr ?st 4) = 1" by simp
  have "sema 1 ?g = Some (live_sema 2)" by (simp add: sema_def set_sema_def)
  moreover have "\<not> waits_on_sema 1 (threads ?g ! i)" if "i < 64" for i
    using that by (cases i) (simp_all add: waits_on_sema_def thread_def)
  ultimately have "g' = set_sema 1 (live_sema 3) ?g"
    using signal_sema_spec [OF _ _ _ r] unfolding id by (simp add: live_sema_def)
  with r show ?thesis by (simp add: set_sema_def live_sema_def)
qed

section \<open>Blocking calls\<close>

text \<open>A current thread that is no longer runnable loses the processor and keeps its saved context.\<close>

lemma blocked_reschedule:
  assumes "thr_wf g" and "room 1 g" and "tcb (current_thread_id g) g = Some t" and "\<not> runnable t"
    and "t_status t \<noteq> THS_RUN"
  shows "tcb (current_thread_id g) (fst (reschedule (g, st))) = Some t \<and>
    current_thread_id (fst (reschedule (g, st))) \<noteq> current_thread_id g"
proof -
  let ?c = "current_thread_id g" and ?n = "pick_next_ready g"
  have "?n \<noteq> ?c" using pick_next_ready_spec(2) [OF assms(1,2)] assms(3,4) by (auto simp: tcb_Some)
  moreover have "\<not> running ?c g" using assms(3,5) by (simp add: running_def)
  ultimately show ?thesis
    using assms(3) tcb_other_helpers(1) [of ?c ?n THS_RUN g]
    by (auto simp: reschedule_def Let_def)
qed

lemma block_current_eq:
  assumes "length (threads g) = 64" and "tcb (current_thread_id g) g = Some t"
  shows "block_current st wt wid g = set_tcb (current_thread_id g)
    ((capture st t)\<lparr>t_status := THS_WAIT, t_wait_type := wt, t_wait_id := wid\<rparr>) g"
proof -
  have "1 \<le> current_thread_id g" "current_thread_id g \<le> 64" using assms(2) by (simp_all add: tcb_Some)
  then show ?thesis
    using assms by (simp add: block_current_def Let_def save_context_def tcb_set_tcb) (simp add: set_tcb_def)
qed

text \<open>C28: WaitSema on a live semaphore: with a positive count it takes one and returns 0 at once; otherwise the calling thread waits on the semaphore, is not current after the call, and its saved context returns 0 to its caller when it runs again.\<close>

theorem wait_sema_spec:
  assumes "sched_inv g" and "room 66 g" and "current_thread_id g \<noteq> 0"
    and "sema (sint (gpr st 4)) g = Some s" and "s_in_use s" and "gate_wait_sema (g, st) = (g', st')"
  shows "(0 < sint (s_count s) \<longrightarrow>
       semas g' = (semas g)[nat (sint (gpr st 4) - 1) := s\<lparr>s_count := s_count s - 1\<rparr>] \<and> threads g' = threads g \<and>
       current_thread_id g' = current_thread_id g \<and> gpr st' 2 = 0 \<and> pc st' = gpr st 31) \<and>
    (\<not> 0 < sint (s_count s) \<longrightarrow> current_thread_id g' \<noteq> current_thread_id g \<and>
       (\<exists>t'. tcb (current_thread_id g) g' = Some t' \<and> waits_on_sema (sint (gpr st 4)) t' \<and>
          t_gpr t' = (gpr st)(2 := 0) \<and> t_pc t' = gpr st 31 \<and> t_next_pc t' = gpr st 31 + 4))"
proof (cases "0 < sint (s_count s)")
  case True
  with assms(4-6) show ?thesis
    by (auto simp: gate_wait_sema_def Let_def ret_def bump_def set_sema_def)
next
  case False
  let ?c = "current_thread_id g" and ?id = "sint (gpr st 4)" and ?st1 = "ret (gpr st 31) 0 st"
  have c: "1 \<le> ?c" "?c \<le> 64" using assms(1,3) by (auto simp: sched_inv_def thr_wf_def)
  then obtain t where t: "tcb ?c g = Some t" by (auto simp: tcb_def)
  have len: "length (threads g) = 64" by (rule sched_inv_len [OF assms(1)])
  have use: "t_in_use t" using assms(1,3) t by (simp add: sched_inv_def runs_def tcb_Some)
  let ?t = "(capture ?st1 t)\<lparr>t_status := THS_WAIT, t_wait_type := TSW_SEMA, t_wait_id := ?id\<rparr>"
  let ?t' = "?t\<lparr>t_ready_seq := ready_seq_counter g\<rparr>"
  let ?g1 = "bump wait_sema_blocked (set_sema ?id (s\<lparr>s_num_wait_threads := s_num_wait_threads s + 1\<rparr>)
      (set_tcb ?c ?t' ((set_tcb ?c ?t g)\<lparr>ready_seq_counter := ready_seq_counter g + 1\<rparr>)))"
  have "gate_wait_sema (g, st) = reschedule (?g1, ?st1)"
    using False assms(4,5) t c len
    by (simp add: gate_wait_sema_def Let_def block_current_eq next_seq_def tcb_set_tcb)
  then have g': "g' = fst (reschedule (?g1, ?st1))" using assms(6) by (metis fst_conv)
  have b: "thr_wf (set_tcb ?c ?t g)" "room 66 (set_tcb ?c ?t g)"
    using assms(1,2) t by (auto simp: sched_inv_wf intro!: wf_lift)
  have "thr_wf ?g1" using wf_ticket [OF b, of ?c ?t ?t'] len c by (simp add: tcb_set_tcb)
  moreover have "room 1 ?g1" using room_ticket(2) [OF b(2)] by simp
  moreover have "tcb ?c ?g1 = Some ?t'" using len c by (simp add: tcb_set_tcb)
  ultimately have "tcb ?c g' = Some ?t' \<and> current_thread_id g' \<noteq> ?c"
    using blocked_reschedule [of ?g1 ?t' ?st1] unfolding g' by (simp add: runnable_def)
  with False use show ?thesis by (simp add: waits_on_sema_def capture_def ret_def)
qed


theorem wait_sema_spec_witness:
  "current_thread_id (fst (gate_wait_sema (set_sema 1 (live_sema 0) (table [thread THS_RUN 64] 1),
      blank_iop ()\<lparr>gpr := (\<lambda>_. 0)(4 := 1, 31 := 0x2000)\<rparr>))) \<noteq> 1"
proof -
  let ?st = "blank_iop ()\<lparr>gpr := (\<lambda>_. 0)(4 := 1, 31 := 0x2000)\<rparr>"
  let ?g = "set_sema 1 (live_sema 0) (table [thread THS_RUN 64] 1)"
  obtain g' st' where r: "gate_wait_sema (?g, ?st) = (g', st')" by force
  have id: "sint (gpr ?st 4) = 1" by simp
  have "thr_wf (table [thread THS_RUN 64] 1)" by (rule table_wf) (auto simp: thread_def runs_def)
  then have inv: "sched_inv ?g" by (simp add: sched_inv_def runs_def thread_def)
  have room: "room 66 ?g" by (simp add: room_def)
  have "sema 1 ?g = Some (live_sema 0)" by (simp add: sema_def set_sema_def)
  then have "current_thread_id g' \<noteq> current_thread_id ?g"
    using wait_sema_spec [OF inv room _ _ _ r] unfolding id by (simp add: live_sema_def)
  with r show ?thesis by simp
qed

section \<open>Event flags\<close>

text \<open>
  The loop of \<open>wake_evf_waiters\<close>: the flag's bits stay what they were until a woken thread asked
  for them to be cleared, and then the loop stops.
\<close>

definition flag_bits :: "int \<Rightarrow> hle_threads \<Rightarrow> u32" where
  "flag_bits efid g = (case evf efid g of Some e \<Rightarrow> e_bits e | None \<Rightarrow> 0)"

definition satisfied :: "int \<Rightarrow> u32 \<Rightarrow> iop_tcb \<Rightarrow> bool" where
  "satisfied efid bits t \<longleftrightarrow> waits_on_evf efid t \<and> evf_match bits (t_wait_evf_bits t) (t_wait_evf_mode t)"

definition readied :: "iop_tcb \<Rightarrow> iop_tcb \<Rightarrow> bool" where
  "readied t t' \<longleftrightarrow> (\<exists>q. t' = t\<lparr>t_status := THS_READY, t_wait_type := 0, t_wait_id := 0, t_ready_seq := q\<rparr>)"

lemma evf_frame [simp]: "evf i (set_tcb j t g) = evf i g" "evf i (bump k g) = evf i g"
  "evf i (g\<lparr>ready_seq_counter := q\<rparr>) = evf i g"
  by (simp_all add: evf_def)

lemma evf_set_evf: "length (evflags g) = 32 \<Longrightarrow> 1 \<le> i \<Longrightarrow> i \<le> 32 \<Longrightarrow> evf i (set_evf i e g) = Some e"
  by (simp add: evf_def set_evf_def)

lemma make_ready_slot:
  "thid = int i + 1 \<Longrightarrow> i < 64 \<Longrightarrow> make_ready thid g = set_tcb thid ((threads g ! i)\<lparr>t_status := THS_READY, t_wait_type := 0,
     t_wait_id := 0, t_ready_seq := ready_seq_counter g\<rparr>) (g\<lparr>ready_seq_counter := ready_seq_counter g + 1\<rparr>)"
  by (simp add: make_ready_def tcb_def next_seq_def)

lemma wake_evf_step_eff:
  assumes "length (threads g) = 64" and "length (evflags g) = 32" and "i < 64" and "flag_bits efid g \<noteq> 0"
    and "wake_evf_step bus efid (int i + 1) (g, st) = (g', st')"
  shows "length (threads g') = 64 \<and> length (evflags g') = 32 \<and>
    (\<forall>j. j \<noteq> i \<longrightarrow> threads g' ! j = threads g ! j) \<and>
    (if satisfied efid (flag_bits efid g) (threads g ! i)
     then readied (threads g ! i) (threads g' ! i) \<and> flag_bits efid g' \<in> {0, flag_bits efid g}
     else threads g' = threads g \<and> flag_bits efid g' = flag_bits efid g)"
proof -
  obtain e where e: "evf efid g = Some e" "e_bits e = flag_bits efid g"
    using assms(4) by (auto simp: flag_bits_def split: option.splits)
  then have id: "1 \<le> efid" "efid \<le> 32" by (auto simp: evf_def split: if_splits)
  have t: "tcb (int i + 1) g = Some (threads g ! i)" using assms(3) by (simp add: tcb_def)
  show ?thesis
  proof (cases "satisfied efid (flag_bits efid g) (threads g ! i)")
    case True
    let ?e = "e\<lparr>e_bits := if t_wait_evf_mode (threads g ! i) AND WEF_CLEAR \<noteq> 0 then 0 else e_bits e,
        e_num_wait_threads := e_num_wait_threads e - 1\<rparr>"
    let ?t = "(threads g ! i)\<lparr>t_status := THS_READY, t_wait_type := 0, t_wait_id := 0, t_ready_seq := ready_seq_counter g\<rparr>"
    have "g' = set_evf efid ?e (make_ready (int i + 1) g)"
      using True assms(5) t e by (auto simp: wake_evf_step_def satisfied_def)
    then have g': "g' = set_evf efid ?e (make_ready (int i + 1) g)" .
    have "threads g' = (threads g)[i := ?t]" "length (evflags g') = 32"
      using assms(2,3) by (simp_all add: g' make_ready_slot)
    moreover have "evf efid g' = Some ?e" using assms(2,3) id by (simp add: g' make_ready_slot evf_set_evf)
    then have "flag_bits efid g' \<in> {0, flag_bits efid g}" using e(2) by (simp add: flag_bits_def)
    moreover have "readied (threads g ! i) ?t" unfolding readied_def by blast
    ultimately show ?thesis using True assms(1,3) by simp
  next
    case False
    with assms(1,2,5) t e show ?thesis by (auto simp: wake_evf_step_def satisfied_def)
  qed
qed

lemma wake_evf_from_eff:
  assumes "length (threads g) = 64" and "length (evflags g) = 32" and "i + n = 64"
    and "wake_evf_from bus efid i n (g, st) = (g', st')"
  shows "(\<forall>j < i. threads g' ! j = threads g ! j) \<and>
    (\<forall>j. i \<le> j \<and> j < 64 \<longrightarrow> threads g' ! j = threads g ! j \<or>
        satisfied efid (flag_bits efid g) (threads g ! j) \<and> readied (threads g ! j) (threads g' ! j)) \<and>
    flag_bits efid g' \<in> {0, flag_bits efid g} \<and>
    (flag_bits efid g' \<noteq> 0 \<longrightarrow> (\<forall>j. i \<le> j \<and> j < 64 \<longrightarrow> satisfied efid (flag_bits efid g) (threads g ! j) \<longrightarrow>
        readied (threads g ! j) (threads g' ! j)))"
  using assms
proof (induction n arbitrary: i g st)
  case 0
  then show ?case by auto
next
  case (Suc n)
  show ?case
  proof (cases "flag_bits efid g = 0")
    case True
    then have "g' = g" using Suc.prems(4) by (auto simp: flag_bits_def split: option.splits)
    with True show ?thesis by simp
  next
    case False
    obtain g1 st1 where s: "wake_evf_step bus efid (int i + 1) (g, st) = (g1, st1)" by force
    have i: "i < 64" "Suc i + n = 64" using Suc.prems(3) by simp_all
    note e = wake_evf_step_eff [OF Suc.prems(1,2) i(1) False s]
    have rec: "wake_evf_from bus efid (Suc i) n (g1, st1) = (g', st')"
      using Suc.prems(4) False s by (auto simp: flag_bits_def split: option.splits)
    have len: "length (threads g1) = 64" "length (evflags g1) = 32" using e by simp_all
    note IH = Suc.IH [OF len i(2) rec]
    have at: "threads g' ! i = threads g1 ! i" using IH by simp
    have stop: "g' = g1" if "flag_bits efid g1 = 0"
      using rec that by (cases n) (auto simp: flag_bits_def split: option.splits)
    have j: "(threads g' ! j = threads g ! j \<or> satisfied efid (flag_bits efid g) (threads g ! j) \<and> readied (threads g ! j) (threads g' ! j)) \<and>
      (flag_bits efid g' \<noteq> 0 \<longrightarrow> satisfied efid (flag_bits efid g) (threads g ! j) \<longrightarrow> readied (threads g ! j) (threads g' ! j))"
      if ij: "i \<le> j" "j < 64" for j
    proof (cases "j = i")
      case True
      with e at show ?thesis by (simp split: if_splits)
    next
      case False
      then have same: "threads g1 ! j = threads g ! j" "Suc i \<le> j" using e ij by simp_all
      have "flag_bits efid g1 = 0 \<or> flag_bits efid g1 = flag_bits efid g" using e by (auto split: if_splits)
      then show ?thesis using IH stop same ij(2) by force
    qed
    have "flag_bits efid g' \<in> {0, flag_bits efid g}" using IH e by (auto split: if_splits)
    moreover have "\<forall>j < i. threads g' ! j = threads g ! j" using IH e by simp
    ultimately show ?thesis using j by blast
  qed
qed


text \<open>SetEventFlag: the new bits are or-ed in, a thread changes only if it waits on this flag and the bits satisfy its request (it becomes ready), and when the call is over either a woken thread asked for the bits to be cleared and they are 0, or they are the or-ed bits and no thread whose request they satisfy is left waiting.\<close>

theorem set_event_flag_spec:
  assumes "length (threads g) = 64" and "length (evflags g) = 32" and "evf (sint (gpr st 4)) g = Some e"
    and "e_in_use e" and "gpr st 5 \<noteq> 0" and "set_event_flag bus (g, st) = (g', st')"
  shows "(\<forall>j < 64. threads g' ! j = threads g ! j \<or>
      satisfied (sint (gpr st 4)) (e_bits e OR gpr st 5) (threads g ! j) \<and> readied (threads g ! j) (threads g' ! j)) \<and>
    (flag_bits (sint (gpr st 4)) g' = 0 \<or>
      flag_bits (sint (gpr st 4)) g' = e_bits e OR gpr st 5 \<and>
      (\<forall>j < 64. \<not> satisfied (sint (gpr st 4)) (e_bits e OR gpr st 5) (threads g' ! j)))"
proof -
  let ?id = "sint (gpr st 4)" and ?b = "e_bits e OR gpr st 5"
  let ?g = "set_evf ?id (e\<lparr>e_bits := ?b\<rparr>) g"
  have id: "1 \<le> ?id" "?id \<le> 32" using assms(3) by (auto simp: evf_def split: if_splits)
  obtain st1 where w: "wake_evf_from bus ?id 0 64 (?g, st) = (g', st1)"
    using assms(3-6) by (auto simp: set_event_flag_def wake_evf_waiters_def Let_def split: prod.splits)
  have b: "flag_bits ?id ?g = ?b" using id assms(2) by (simp add: flag_bits_def evf_set_evf)
  have "length (threads ?g) = 64" "length (evflags ?g) = 32" using assms(1,2) by simp_all
  note eff = wake_evf_from_eff [OF this _ w, unfolded b]
  have r: "\<not> satisfied ?id ?b t'" if "readied t t'" for t t'
    using that by (auto simp: readied_def satisfied_def waits_on_evf_def)
  have "\<not> satisfied ?id ?b (threads g' ! j)" if "j < 64" "flag_bits ?id g' \<noteq> 0" for j
  proof (cases "satisfied ?id ?b (threads g ! j)")
    case True
    with eff that have "readied (threads g ! j) (threads g' ! j)" by simp
    then show ?thesis by (rule r)
  next
    case False
    with eff that r show ?thesis by (metis add_0 le0 thread_frame(13))
  qed
  with eff show ?thesis by auto
qed

definition live_evf :: "u32 \<Rightarrow> iop_evf" where
  "live_evf b = zero_evf\<lparr>e_in_use := True, e_bits := b\<rparr>"

theorem set_event_flag_spec_witness:
  "flag_bits 1 (fst (set_event_flag no_devices (set_evf 1 (live_evf 1) (table
      [(thread THS_WAIT 64)\<lparr>t_wait_type := TSW_EVENTFLAG, t_wait_id := 1, t_wait_evf_bits := 2\<rparr>] 0),
      blank_iop ()\<lparr>gpr := (\<lambda>_. 0)(4 := 1, 5 := 2)\<rparr>))) \<in> {0, 3}"
proof -
  let ?st = "blank_iop ()\<lparr>gpr := (\<lambda>_. 0)(4 := 1, 5 := 2)\<rparr>"
  let ?g = "set_evf 1 (live_evf 1) (table
      [(thread THS_WAIT 64)\<lparr>t_wait_type := TSW_EVENTFLAG, t_wait_id := 1, t_wait_evf_bits := 2\<rparr>] 0)"
  obtain g' st' where r: "set_event_flag no_devices (?g, ?st) = (g', st')" by force
  have id: "sint (gpr ?st 4) = 1" "gpr ?st 5 = 2" by simp_all
  have "evf 1 ?g = Some (live_evf 1)" by (simp add: evf_def set_evf_def)
  with r show ?thesis
    using set_event_flag_spec [OF _ _ _ _ _ r] unfolding id by (auto simp: live_evf_def)
qed

section \<open>Sleep and wake-up\<close>

lemma reschedule_same:
  assumes "reschedule (g, st) = (g1, st1)" and "current_thread_id g1 = current_thread_id g" and "current_thread_id g \<noteq> 0"
  shows "g1 = set_status (current_thread_id g) THS_RUN g"
proof -
  have "current_thread_id g1 = pick_next_ready g"
    using assms(1) by (auto simp: reschedule_def Let_def split: if_splits)
  with assms show ?thesis by (simp add: reschedule_def)
qed

text \<open>A wake-up that comes before the sleep is not lost: after WakeupThread on the current thread, its next SleepThread returns 0 at once without giving up the processor, and the pending count is what it was before.\<close>

theorem wakeup_before_sleep:
  assumes "sched_inv g" and "current_thread_id g \<noteq> 0" and "tcb (current_thread_id g) g = Some t"
    and "sint (gpr st 4) = current_thread_id g" and "t_wakeup_count t + 1 \<noteq> 0"
    and "gate_wakeup (g, st) = (g1, st1)" and "current_thread_id g1 = current_thread_id g"
    and "gate_sleep (g1, st2) = (g2, st3)"
  shows "current_thread_id g2 = current_thread_id g \<and> gpr st3 2 = 0 \<and> pc st3 = gpr st2 31 \<and>
    map_option t_wakeup_count (tcb (current_thread_id g) g2) = Some (t_wakeup_count t)"
proof -
  let ?c = "current_thread_id g" and ?t1 = "t\<lparr>t_wakeup_count := t_wakeup_count t + 1\<rparr>"
  let ?g0 = "set_tcb ?c ?t1 g"
  have c: "1 \<le> ?c" "?c \<le> 64" and len: "length (threads g) = 64"
    using assms(1,2) by (auto simp: sched_inv_def thr_wf_def)
  have t: "t_in_use t" "t_status t = THS_RUN"
    using assms(1-3) by (auto simp: sched_inv_def runs_def tcb_Some)
  have "gate_wakeup (g, st) = reschedule (?g0, ret (gpr st 31) 0 st)"
    using assms(3,4) t by (simp add: gate_wakeup_def Let_def)
  then have r: "reschedule (?g0, ret (gpr st 31) 0 st) = (g1, st1)" using assms(6) by simp
  have "g1 = set_status ?c THS_RUN ?g0"
    using reschedule_same [OF r] assms(2,7) by simp
  then have "tcb ?c g1 = Some ?t1" using c len t by (simp add: set_status_def tcb_set_tcb)
  moreover have "0 < t_wakeup_count t + 1" by (rule iffD1 [OF word_neq_0_conv assms(5)])
  moreover have "length (threads g1) = 64" using \<open>g1 = set_status ?c THS_RUN ?g0\<close> len by (simp add: set_status_def split: option.split)
  ultimately show ?thesis
    using assms(7,8) c by (auto simp: gate_sleep_def Let_def ret_def tcb_set_tcb)
qed

lemma table_inv:
  assumes "length ts \<le> 64" and "1 \<le> cur" and "cur \<le> int (length ts)" and "runs (ts ! nat (cur - 1))"
    and "\<forall>i < length ts. t_ready_seq (ts ! i) \<le> 10 \<and> (runs (ts ! i) \<longrightarrow> cur = int i + 1)"
  shows "sched_inv (table ts cur)"
proof -
  have "0 \<le> cur" "cur \<le> 64" "nat (cur - 1) < length ts" using assms(1-3) by linarith+
  with table_wf [OF assms(1) _ _ assms(5)] assms(4) show ?thesis by (simp add: sched_inv_def nth_append)
qed

lemma table_one: "sched_inv (table [thread THS_RUN p] 1)"
  by (rule table_inv) (simp_all add: thread_def runs_def)

theorem wakeup_before_sleep_witness:
  "\<exists>g1 st1. gate_wakeup (table [thread THS_RUN 64] 1, blank_iop ()\<lparr>gpr := (\<lambda>_. 0)(4 := 1)\<rparr>) = (g1, st1) \<and>
     current_thread_id (fst (gate_sleep (g1, st1))) = 1"
proof -
  let ?g = "table [thread THS_RUN 64] 1" and ?st = "blank_iop ()\<lparr>gpr := (\<lambda>_. 0)(4 := 1)\<rparr>"
  obtain g1 st1 where w: "gate_wakeup (?g, ?st) = (g1, st1)" by force
  obtain g2 st3 where s: "gate_sleep (g1, st1) = (g2, st3)" by force
  have "current_thread_id g1 = current_thread_id ?g"
    using w by (auto simp: gate_wakeup_def Let_def reschedule_def table_simps)
  with wakeup_before_sleep [OF table_one _ _ _ _ w _ s] have "current_thread_id g2 = 1"
    by (simp add: tcb_def thread_def zero_tcb_def)
  with w s show ?thesis by simp
qed

section \<open>Delay\<close>

lemma gate_delay_eq:
  assumes "sched_inv g" and "tcb (current_thread_id g) g = Some t"
  shows "gate_delay (g, st) = reschedule (bump delay_thread_blocked (set_tcb (current_thread_id g)
     ((capture st (t\<lparr>t_delay_deadline := instructions_executed st + usec_to_cycles (gpr st 4)\<rparr>))\<lparr>t_status := THS_WAIT,
        t_wait_type := TSW_DELAY, t_wait_id := 0\<rparr>) g), ret (gpr st 31) 0 st)"
proof -
  let ?c = "current_thread_id g" and ?t = "t\<lparr>t_delay_deadline := instructions_executed st + usec_to_cycles (gpr st 4)\<rparr>"
  have c: "1 \<le> ?c" "?c \<le> 64" using assms(2) by (simp_all add: tcb_Some)
  have len: "length (threads g) = 64" by (rule sched_inv_len [OF assms(1)])
  have "tcb ?c (set_tcb ?c ?t g) = Some ?t" using c len by (simp add: tcb_set_tcb)
  then have "block_current st TSW_DELAY 0 (set_tcb ?c ?t g) = set_tcb ?c
     ((capture st ?t)\<lparr>t_status := THS_WAIT, t_wait_type := TSW_DELAY, t_wait_id := 0\<rparr>) (set_tcb ?c ?t g)"
    using block_current_eq [of "set_tcb ?c ?t g" ?t st TSW_DELAY 0] len by simp
  then show ?thesis using assms(2) by (simp add: gate_delay_def Let_def capture_def set_tcb_def)
qed

text \<open>DelayThread blocks its caller until the deadline, but it saves the caller's registers before it sets the return: the saved program counter is the address of the gate itself and the saved argument is the delay, so the thread executes DelayThread again when it is woken (compare WaitSema, which saves the return address).\<close>

theorem delay_saves_gate_address:
  assumes "sched_inv g" and "room 66 g" and "current_thread_id g \<noteq> 0" and "gate_delay (g, st) = (g', st')"
  shows "current_thread_id g' \<noteq> current_thread_id g \<and>
    (\<exists>t'. tcb (current_thread_id g) g' = Some t' \<and> t_status t' = THS_WAIT \<and> t_wait_type t' = TSW_DELAY \<and>
      t_delay_deadline t' = instructions_executed st + usec_to_cycles (gpr st 4) \<and>
      t_pc t' = pc st \<and> t_gpr t' = gpr st)"
proof -
  let ?c = "current_thread_id g"
  have c: "1 \<le> ?c" "?c \<le> 64" using assms(1,3) by (auto simp: sched_inv_def thr_wf_def)
  then obtain t where t: "tcb ?c g = Some t" by (auto simp: tcb_def)
  have len: "length (threads g) = 64" by (rule sched_inv_len [OF assms(1)])
  let ?t = "(capture st (t\<lparr>t_delay_deadline := instructions_executed st + usec_to_cycles (gpr st 4)\<rparr>))\<lparr>t_status := THS_WAIT,
        t_wait_type := TSW_DELAY, t_wait_id := 0\<rparr>"
  let ?g1 = "bump delay_thread_blocked (set_tcb ?c ?t g)"
  have wf: "thr_wf ?g1" "room 1 ?g1" using assms(1,2) t by (auto simp: sched_inv_wf intro!: wf_lift)
  have "tcb ?c ?g1 = Some ?t" using c len by (simp add: tcb_set_tcb)
  then have "tcb ?c g' = Some ?t \<and> current_thread_id g' \<noteq> ?c"
    using blocked_reschedule [OF wf, of ?t "ret (gpr st 31) 0 st"] gate_delay_eq [OF assms(1) t, of st, symmetric] assms(4)
    by (simp add: runnable_def)
  then show ?thesis by (auto simp: capture_def)
qed

theorem delay_saves_gate_address_witness:
  "current_thread_id (fst (gate_delay (table [thread THS_RUN 64] 1, blank_iop ()\<lparr>pc := 0x178\<rparr>))) \<noteq> 1"
proof -
  let ?st = "blank_iop ()\<lparr>pc := 0x178\<rparr>"
  obtain g' st' where r: "gate_delay (table [thread THS_RUN 64] 1, ?st) = (g', st')" by force
  have "room 66 (table [thread THS_RUN 64] 1)" by (simp add: room_def)
  from delay_saves_gate_address [OF table_one this _ r] r show ?thesis by simp
qed

section \<open>The tick\<close>

lemma wake_delayed_eff:
  assumes "length (threads g) = 64" and "i + n = 64" and "wake_delayed_from now i n (w, g) = (w', g')"
  shows "length (threads g') = 64 \<and> (\<forall>j < i. threads g' ! j = threads g ! j) \<and>
    (\<forall>j < 64. i \<le> j \<longrightarrow> (if delay_over now (threads g ! j) then runnable (threads g' ! j) \<and> w'
       else threads g' ! j = threads g ! j)) \<and> (w \<longrightarrow> w')"
  using assms
proof (induction n arbitrary: i g w)
  case 0
  then show ?case by auto
next
  case (Suc n)
  have i: "i < 64" "Suc i + n = 64" using Suc.prems(2) by simp_all
  let ?t = "(threads g ! i)\<lparr>t_status := THS_READY, t_wait_type := 0, t_ready_seq := ready_seq_counter g\<rparr>"
  define g1 where "g1 = (if delay_over now (threads g ! i)
    then set_tcb (int i + 1) ?t (g\<lparr>ready_seq_counter := ready_seq_counter g + 1\<rparr>) else g)"
  define w1 where "w1 = (w \<or> delay_over now (threads g ! i))"
  have rec: "wake_delayed_from now (Suc i) n (w1, g1) = (w', g')"
    using Suc.prems(3) i by (cases "delay_over now (threads g ! i)") (simp_all add: g1_def w1_def tcb_def next_seq_def)
  have g1: "length (threads g1) = 64" "\<And>j. j \<noteq> i \<Longrightarrow> threads g1 ! j = threads g ! j"
    "delay_over now (threads g ! i) \<Longrightarrow> runnable (threads g1 ! i)"
    "\<not> delay_over now (threads g ! i) \<Longrightarrow> threads g1 ! i = threads g ! i"
    using Suc.prems(1) i(1) by (simp_all add: g1_def runnable_def) (simp add: delay_over_def)
  note IH = Suc.IH [OF g1(1) i(2) rec]
  have at: "threads g' ! i = threads g1 ! i" using IH by simp
  have "if delay_over now (threads g ! j) then runnable (threads g' ! j) \<and> w' else threads g' ! j = threads g ! j"
    if "j < 64" "i \<le> j" for j
  proof (cases "j = i")
    case True
    with at g1(3,4) IH show ?thesis by (auto simp: w1_def)
  next
    case False
    with that have "Suc i \<le> j" by simp
    with IH that g1(2) [OF False] show ?thesis by (metis (no_types, lifting))
  qed
  moreover have "\<forall>j < i. threads g' ! j = threads g ! j" using IH g1(2) by simp
  ultimately show ?case using IH by (auto simp: w1_def)
qed

lemma reschedule_runnable:
  assumes "length (threads g) = 64" and "j < 64" and "runnable (threads g ! j)"
  shows "runnable (threads (fst (reschedule (g, st))) ! j)"
proof -
  have st: "runnable (threads (set_status thid s g) ! j) \<and> length (threads (set_status thid s g)) = 64"
    if "runnable (threads g ! j)" "s = THS_READY \<or> s = THS_RUN" "length (threads g) = 64" for thid s g
    using that assms(2) by (auto simp: set_status_def tcb_Some nth_list_update runnable_def split: option.split if_splits)
  have sv: "runnable (threads (save_context st thid g) ! j) \<and> length (threads (save_context st thid g)) = 64"
    if "runnable (threads g ! j)" "length (threads g) = 64" for thid g
    using that assms(2) by (auto simp: save_context_def tcb_Some nth_list_update split: option.split)
  show ?thesis using st sv assms(1,3) by (auto simp: reschedule_def Let_def)
qed

text \<open>A tick with no alarm to dispatch makes every thread runnable whose delay is over, and the processor is then rescheduled.\<close>

theorem tick_wakes_delayed:
  assumes "length (threads g) = 64" and "thread_count g \<noteq> 0"
    and "alarm_in_dispatch g \<or> (\<forall>a \<in> set (alarms g). \<not> alarm_due (instructions_executed st) a)"
    and "j < 64" and "delay_over (instructions_executed st) (threads g ! j)"
  shows "runnable (threads (fst (iop_hle_thread_tick (g, st))) ! j)"
proof -
  obtain w g1 where w: "wake_delayed_from (instructions_executed st) 0 64 (False, g) = (w, g1)" by force
  have e: "length (threads g1) = 64" "runnable (threads g1 ! j)" "w"
    using wake_delayed_eff [OF assms(1) _ w] assms(4,5) by auto
  have "list_find_index (alarm_due (instructions_executed st)) (alarms g) = None \<or> alarm_in_dispatch g"
    using assms(3) list_find_index_None [of "alarm_due (instructions_executed st)" "alarms g"] by auto
  then have "iop_hle_thread_tick (g, st) = reschedule (g1, st)"
    using assms(2) e(3) w by (auto simp: iop_hle_thread_tick_def)
  with reschedule_runnable [OF e(1) assms(4) e(2)] show ?thesis by simp
qed

theorem tick_wakes_delayed_witness:
  "runnable (threads (fst (iop_hle_thread_tick (table [(thread THS_WAIT 64)\<lparr>t_wait_type := TSW_DELAY\<rparr>] 0, blank_iop ()))) ! 0)"
  by (rule tick_wakes_delayed)
    (simp_all add: thread_def delay_over_def table_def iop_hle_thread_init_def zero_alarm_def alarm_due_def zero_tcb_def)

section \<open>Alarms\<close>

text \<open>Dispatching a due alarm and returning from its handler brings the processor back to the interrupted instruction, ends the dispatch, and frees the alarm when the handler returned 0 or re-arms it that many microseconds later; but the interrupted code's registers $a0 and $ra hold the handler's argument and the return trampoline afterwards, because only the program counters were saved.\<close>

theorem alarm_round_trip:
  assumes "thread_count g \<noteq> 0" and "\<not> alarm_in_dispatch g" and "length (alarms g) = 16"
    and "list_find_index (alarm_due (instructions_executed st)) (alarms g) = Some i"
    and "iop_hle_thread_tick (g, st) = (g1, st1)"
    and "gpr st2 = (gpr st1)(2 := v)"
    and "gate_alarm_return (g1, st2) = (g2, st3)"
  shows "pc st1 = a_handler (alarms g ! i) \<and> pc st3 = pc st \<and> next_pc st3 = next_pc st \<and> \<not> alarm_in_dispatch g2 \<and>
    alarms g2 = (alarms g)[i := if v = 0 then (alarms g ! i)\<lparr>a_in_use := False\<rparr>
       else (alarms g ! i)\<lparr>a_deadline := instructions_executed st2 + usec_to_cycles v\<rparr>] \<and>
    gpr st3 4 = a_common (alarms g ! i) \<and> gpr st3 31 = ALARM_RETURN_TRAMPOLINE"
proof -
  have i: "i < 16" "a_in_use (alarms g ! i)"
    using list_find_index_Some [OF assms(4)] assms(3) by (auto simp: alarm_due_def)
  let ?g1 = "g\<lparr>alarm_in_dispatch := True, alarm_dispatch_slot := int i + 1, alarm_resume_pc := pc st, alarm_resume_next_pc := next_pc st\<rparr>"
  have t: "g1 = ?g1" "st1 = st\<lparr>gpr := (gpr st)(4 := a_common (alarms g ! i), 31 := ALARM_RETURN_TRAMPOLINE),
      pc := a_handler (alarms g ! i), next_pc := a_handler (alarms g ! i) + 4\<rparr>"
    using assms(1,2,4,5) by (auto simp: iop_hle_thread_tick_def Let_def)
  have "alarm_slot (int i + 1) ?g1 = Some (alarms g ! i)" using i(1) by (simp add: alarm_slot_def)
  then show ?thesis
    using assms(6,7) i by (auto simp: gate_alarm_return_def Let_def t bump_def set_alarm_def)
qed

text \<open>An alarm due at once, on a processor about to execute the instruction at 0x8000.\<close>

theorem alarm_round_trip_witness:
  "gpr (snd (gate_alarm_return (iop_hle_thread_tick ((table [thread THS_RUN 64] 1)\<lparr>alarms :=
       (replicate 16 zero_alarm)[0 := \<lparr>a_in_use = True, a_handler = 0x9000, a_common = 7, a_deadline = 0\<rparr>]\<rparr>,
     blank_iop ()\<lparr>pc := 0x8000\<rparr>)))) 4 = 7"
proof -
  let ?a = "\<lparr>a_in_use = True, a_handler = 0x9000, a_common = 7, a_deadline = 0\<rparr>"
  let ?g = "(table [thread THS_RUN 64] 1)\<lparr>alarms := (replicate 16 zero_alarm)[0 := ?a]\<rparr>"
  let ?st = "blank_iop ()\<lparr>pc := 0x8000\<rparr>"
  obtain g1 st1 where t: "iop_hle_thread_tick (?g, ?st) = (g1, st1)" by force
  obtain g2 st3 where r: "gate_alarm_return (g1, st1) = (g2, st3)" by force
  have "list_find_index (alarm_due (instructions_executed ?st)) (alarms ?g) = Some 0"
    by (simp add: alarm_due_def numeral_eq_Suc)
  moreover have "gpr st1 = (gpr st1)(2 := gpr st1 2)" by simp
  ultimately have "gpr st3 4 = 7"
    using alarm_round_trip [OF _ _ _ _ t _ r, of 0 "gpr st1 2"] by (simp add: table_def iop_hle_thread_init_def)
  with t r show ?thesis by simp
qed

section \<open>The clock\<close>

lemma usec_to_cycles_unat: "unat (usec_to_cycles u) = unat u * 33868800 div 1000000"
proof -
  have "unat u * 33868800 < 18446744073709551616" using unat_u32 [of u] by linarith
  then have "unat (ucast u * 33868800 :: u64) = unat u * 33868800"
    by (simp add: unat_word_ariths unsigned_ucast_eq take_bit_nat_eq_self)
  then show ?thesis by (simp add: usec_to_cycles_def unat_div)
qed

text \<open>Converting a 32-bit number of microseconds to processor cycles and back loses at most one microsecond and never gains one; neither step overflows its 64-bit arithmetic.\<close>

theorem usec_round_trip:
  "unat (cycles_to_usec (usec_to_cycles u)) \<le> unat u \<and> unat u \<le> unat (cycles_to_usec (usec_to_cycles u)) + 1"
proof -
  define n c where "n = unat u" and "c = n * 33868800 div 1000000"
  have n: "n < 4294967296" by (simp add: n_def)
  have c: "c * 1000000 \<le> n * 33868800" "n * 33868800 < (c + 1) * 1000000"
    using dividend_less_div_times [of 1000000 "n * 33868800"] by (simp_all add: c_def)
  have "c * 1000000 < 18446744073709551616" using c(1) n by linarith
  then have "unat (usec_to_cycles u * 1000000 :: u64) = c * 1000000"
    by (simp add: unat_word_ariths usec_to_cycles_unat n_def [symmetric] c_def [symmetric])
  then have d: "unat (cycles_to_usec (usec_to_cycles u)) = c * 1000000 div 33868800"
    by (simp add: cycles_to_usec_def unat_div)
  define k where "k = c * 1000000 div 33868800"
  have "k * 33868800 \<le> c * 1000000" "c * 1000000 < 33868800 + k * 33868800"
    using dividend_less_div_times [of 33868800 "c * 1000000"] by (simp_all add: k_def)
  with c have "k * 33868800 \<le> n * 33868800" "n * 33868800 < (k + 2) * 33868800" by simp_all
  then have "k \<le> n" "n < k + 2" unfolding mult_le_cancel2 mult_less_cancel2 by simp_all
  then show ?thesis unfolding d by (simp add: k_def n_def)
qed

section \<open>Imports and errors\<close>

text \<open>Every address that the import table hands out for a thread, semaphore or event-flag function is an address the handler takes: no imported call falls through to ordinary execution.\<close>

theorem imports_are_handled:
  assumes "iop_hle_thread_sentinel_for_import nm ordinal = a" and "a \<noteq> 0"
  shows "fst (iop_hle_thread_try_handle bus a s)"
proof -
  have "(ordinal, a) \<in> set thbase_gates \<or> (ordinal, a) \<in> set thsemap_gates \<or> (ordinal, a) \<in> set thevent_gates"
    using assms by (auto simp: iop_hle_thread_sentinel_for_import_def Let_def split: option.splits if_splits
        dest: map_of_SomeD)
  then have "a \<in> snd ` set thbase_gates \<union> snd ` set thsemap_gates \<union> snd ` set thevent_gates" by force
  then show ?thesis
    unfolding thbase_gates_def thsemap_gates_def thevent_gates_def
    by (auto simp: iop_hle_thread_try_handle_def iop_hle_thread_in_range_def thread_gates_def)
qed

theorem imports_are_handled_witness:
  "fst (iop_hle_thread_try_handle no_devices 0x1A0 (iop_hle_thread_init, blank_iop ()))"
  by (rule imports_are_handled [of "Some ''thsemap''" 8])
    (simp_all add: iop_hle_thread_sentinel_for_import_def thsemap_gates_def)

text \<open>A semaphore call on an id that is out of range or not in use returns -1 to its caller and changes nothing in the manager: WaitSema does not block, SignalSema from an interrupt wakes nobody.\<close>

theorem dead_sema_rejected:
  assumes "\<forall>s. sema (sint (gpr st 4)) g = Some s \<longrightarrow> \<not> s_in_use s"
    and "h \<in> {gate_wait_sema, gate_poll_sema, gate_delete_sema, gate_signal_sema True, gate_refer_sema bus}"
  shows "h (g, st) = (g, ret (gpr st 31) (-1) st)"
  using assms
  by (auto simp: gate_wait_sema_def gate_poll_sema_def gate_delete_sema_def gate_signal_sema_def signal_sema_def
      gate_refer_sema_def ERR_def Let_def split: option.split)

theorem dead_sema_rejected_witness:
  "gate_wait_sema (table [thread THS_RUN 64] 1, blank_iop ()\<lparr>gpr := (\<lambda>_. 0)(4 := 65)\<rparr>)
     = (table [thread THS_RUN 64] 1, ret 0 (-1) (blank_iop ()\<lparr>gpr := (\<lambda>_. 0)(4 := 65)\<rparr>))"
  using dead_sema_rejected [of "blank_iop ()\<lparr>gpr := (\<lambda>_. 0)(4 := 65)\<rparr>" "table [thread THS_RUN 64] 1"
      gate_wait_sema no_devices]
  by (simp add: sema_def)


section \<open>Thread stacks\<close>

lemma align16_unat: "unat (((w :: u32) + 15) AND NOT 15) = unat (w + 15) div 16 * 16"
proof -
  have m: "(15 :: u32) = push_bit 0 (mask 4)" by (simp add: mask_eq_exp_minus_1)
  have "(w + 15) AND NOT 15 = push_bit 4 (drop_bit 4 (w + 15))"
    using word_clear_field [of "w + 15" 0 4] unfolding m [symmetric] by simp
  moreover have "unat (drop_bit 4 (w + 15)) * 2 ^ 4 < 2 ^ 32"
    using unat_u32 [of "w + 15"] by (simp add: unat_drop_bit div_times_less_eq_dividend le_less_trans del: unat_u32)
  ultimately show ?thesis by (simp add: unat_push_bit unat_drop_bit)
qed

text \<open>What the bump pointer satisfies from initialisation on.\<close>

definition stacks_ok :: "hle_threads \<Rightarrow> bool" where
  "stacks_ok g \<longleftrightarrow> THREAD_STACK_ARENA_BOTTOM \<le> stack_bump_next g \<and> stack_bump_next g \<le> THREAD_STACK_ARENA_TOP \<and>
     unat (stack_bump_next g) mod 16 = 0"

text \<open>The stack size the caller asked for, read fourth from the parameter block.\<close>

definition requested_stack :: "'x iop_bus \<Rightarrow> 'x iop_state \<Rightarrow> u32" where
  "requested_stack bus st0 =
     (let (_, st1) = read_param bus (gpr st0 4) 0 st0; (_, st2) = read_param bus (gpr st0 4) 4 st1;
          (_, st3) = read_param bus (gpr st0 4) 8 st2
      in fst (read_param bus (gpr st0 4) 12 st3))"

lemma stack_arith:
  assumes "0x180000 \<le> (b :: u32)" and "b \<le> 0x1F0000" and "unat b mod 16 = 0" and "s < 0xFFE80000"
    and "\<not> b < 0x180000 + s" and "d = (s + 15) AND NOT 15"
  shows "unat d mod 16 = 0" and "unat s \<le> unat d" and "0x180000 + unat d \<le> unat b"
    and "unat (b - d) = unat b - unat d"
proof -
  have s: "unat s < 0xFFE80000" using assms(4) by (simp add: word_less_nat_alt)
  then have "unat (0x180000 + s) = 0x180000 + unat s" by (simp add: unat_word_ariths)
  with assms(5) have sb: "0x180000 + unat s \<le> unat b" by (simp add: word_less_nat_alt)
  have b: "unat b \<le> 0x1F0000" using assms(2) by (simp add: word_le_nat_alt)
  have "unat (s + 15) = unat s + 15" using sb b by (simp add: unat_word_ariths)
  then have d: "unat d = (unat s + 15) div 16 * 16" unfolding assms(6) align16_unat by simp
  then show "unat d mod 16 = 0" by simp
  obtain k where k: "unat b = 16 * k" using assms(3) by auto
  show "unat s \<le> unat d" unfolding d by presburger
  have "(unat s + 15) div 16 \<le> k - 0x18000" using sb k by simp
  with sb k show le: "0x180000 + unat d \<le> unat b" unfolding d by simp
  then have "d \<le> b" by (simp add: word_le_nat_alt)
  then show "unat (b - d) = unat b - unat d" by (rule unat_sub)
qed

text \<open>CreateThread carves stacks downwards out of the arena: for a stack size below 0xFFE80000, a call that does not return -1 gives the new dormant thread at least the bytes it asked for, ending where the previous stack began, inside the arena and 16-aligned, so stacks never overlap; a call that fails leaves the manager as it was.\<close>

theorem create_thread_stack:
  assumes "stacks_ok g" and "length (threads g) = 64" and "requested_stack bus st < 0xFFE80000"
    and "gate_create_thread bus (g, st) = (g', st')"
  shows "gpr st' 2 = -1 \<and> g' = g \<or>
    stacks_ok g' \<and> (\<exists>slot t. tcb slot g' = Some t \<and> t_status t = THS_DORMANT \<and> gpr st' 2 = word_of_int slot \<and>
      t_stack_base t = stack_bump_next g' \<and> unat (requested_stack bus st) \<le> unat (t_stack_size t) \<and>
      unat (t_stack_base t) + unat (t_stack_size t) = unat (stack_bump_next g))"
proof -
  obtain attr st1 where r1: "read_param bus (gpr st 4) 0 st = (attr, st1)" by force
  obtain optn st2 where r2: "read_param bus (gpr st 4) 4 st1 = (optn, st2)" by force
  obtain entry st3 where r3: "read_param bus (gpr st 4) 8 st2 = (entry, st3)" by force
  obtain ssize st4 where r4: "read_param bus (gpr st 4) 12 st3 = (ssize, st4)" by force
  obtain prio st5 where r5: "read_param bus (gpr st 4) 16 st4 = (prio, st5)" by force
  note rs = r1 r2 r3 r4 r5
  have rq: "requested_stack bus st = ssize" by (simp add: requested_stack_def rs)
  define s d slot where "s = (if ssize < 0x100 then 0x100 else ssize)" and "d = (s + 15) AND NOT 15"
    and "slot = alloc_tcb_slot g"
  show ?thesis
  proof (cases "slot = 0 \<or> stack_bump_next g < THREAD_STACK_ARENA_BOTTOM + s")
    case True
    with assms(4) show ?thesis
      by (auto simp: gate_create_thread_def Let_def rs s_def slot_def ret_def ERR_def)
  next
    case False
    have sl: "s < 0xFFE80000" "ssize \<le> s" using assms(3) by (auto simp: s_def rq)
    note ar = stack_arith [of "stack_bump_next g" s d] assms(1) [unfolded stacks_ok_def]
    have arith: "unat d mod 16 = 0" "unat s \<le> unat d" "0x180000 + unat d \<le> unat (stack_bump_next g)"
      "unat (stack_bump_next g - d) = unat (stack_bump_next g) - unat d"
      using ar sl False d_def by auto
    let ?t = "zero_tcb\<lparr>t_in_use := True, t_status := THS_DORMANT, t_attr := attr, t_option := optn, t_entry := entry,
       t_stack_base := stack_bump_next g - d, t_stack_size := d, t_priority := prio, t_init_priority := prio\<rparr>"
    have d': "(s + 15) AND -16 = d" by (simp add: d_def)
    have "gate_create_thread bus (g, st) = (bump threads_created ((set_tcb slot ?t g)\<lparr>stack_bump_next := stack_bump_next g - d,
        thread_count := max (thread_count g) slot\<rparr>), ret (gpr st 31) (word_of_int slot) st5)"
      using False by (simp add: gate_create_thread_def Let_def rs s_def [symmetric] slot_def [symmetric] d')
    then have g': "g' = bump threads_created ((set_tcb slot ?t g)\<lparr>stack_bump_next := stack_bump_next g - d,
        thread_count := max (thread_count g) slot\<rparr>)" "gpr st' 2 = word_of_int slot"
      using assms(4) by (simp_all add: ret_def)
    obtain i where i: "list_find_index (\<lambda>t. \<not> t_in_use t) (threads g) = Some i" "slot = int i + 1"
      using False unfolding slot_def alloc_tcb_slot_def slot_id_def
      by (cases "list_find_index (\<lambda>t. \<not> t_in_use t) (threads g)") auto
    have "i < 64" using list_find_index_Some [OF i(1)] assms(2) by simp
    then have "tcb slot g' = Some ?t" using assms(2) i(2) by (simp add: g' tcb_def)
    moreover have nb: "stack_bump_next g' = stack_bump_next g - d" by (simp add: g' bump_def)
    moreover have "stacks_ok g'"
    proof -
      have "16 dvd unat (stack_bump_next g) - unat d"
        using arith(1) assms(1) by (intro dvd_diff_nat) (simp_all add: stacks_ok_def mod_eq_0_iff_dvd)
      moreover have "unat (stack_bump_next g) \<le> 0x1F0000" using assms(1) by (simp add: stacks_ok_def word_le_nat_alt)
      ultimately show ?thesis using arith(3,4) unfolding stacks_ok_def nb word_le_nat_alt
        by (simp add: mod_eq_0_iff_dvd) linarith
    qed
    moreover have "unat ssize \<le> unat s" using sl(2) by (simp add: word_le_nat_alt)
    ultimately show ?thesis using arith g'(2) unfolding rq by (intro disjI2 conjI exI [of _ slot] exI [of _ ?t]) simp_all
  qed
qed


lemma gpr_blank: "gpr (blank_iop x) r = 0"
  by (simp add: blank_iop_def)

lemma blank_read32:
  assumes "a AND 0x1FFFFFFF < 0x1F801070"
  shows "iop_mem_read32 no_devices a (blank_iop ()) = (0, blank_iop ())"
  using handlers_decline(3) [OF no_devices_decline [where ?'a = unit, of a] low_register_free [OF assms], of "blank_iop ()"]
  by (auto simp: iop_mem_read32_def iop_mem_ptr_def blank_iop_def Let_def split: option.split)

theorem create_thread_stack_witness:
  "stacks_ok (fst (gate_create_thread no_devices (iop_hle_thread_init, blank_iop ())))"
proof -
  obtain g' st' where r: "gate_create_thread no_devices (iop_hle_thread_init, blank_iop ()) = (g', st')" by force
  have ok: "stacks_ok iop_hle_thread_init" by (simp add: stacks_ok_def iop_hle_thread_init_def)
  have "requested_stack no_devices (blank_iop ()) < 0xFFE80000"
    by (simp add: requested_stack_def read_param_def blank_read32 gpr_blank)
  with create_thread_stack [OF ok _ _ r] ok r show ?thesis by (auto simp: iop_hle_thread_init_def)
qed

end
