(* ===== verification/Iop_Elf.thy ===== *)
theory Iop_Elf
  imports Iop_Mem
begin

text \<open>
  The loader and relocator of IOP modules, \<open>source/hw/iop_elf.c\<close>: header checks, the loading of the
  \<open>PT_LOAD\<close> segments, the module name, the four MIPS relocation types and the search for the import
  and export tables.

  Both callers pass a pointer into the BIOS image, so an image is the offset \<open>rom\<close> of its first byte
  there. A read behind the BIOS image has no defined result: the loader is \<open>None\<close> there. A load that
  fails keeps the memory it has written and gives the text of the error. The scan of the section name,
  which has no effect, is left out.
\<close>

section \<open>Reading the image\<close>

definition img_byte :: "'x iop_state \<Rightarrow> u32 \<Rightarrow> u32 \<Rightarrow> u8 option" where
  "img_byte st rom off =
     (case bios st of None \<Rightarrow> None
      | Some b \<Rightarrow> if unat rom + unat off < unat (bsize b) then Some (bdata b (rom + off)) else None)"

text \<open>The second option is the \<open>ok\<close> flag of the C code. The reads go on after a failure.\<close>

definition img_u32 :: "'x iop_state \<Rightarrow> u32 \<Rightarrow> u32 \<Rightarrow> u32 \<Rightarrow> u32 option option" where
  "img_u32 st rom image_size off =
     (if off + 4 > image_size then Some None
      else do {
        b0 \<leftarrow> img_byte st rom off;
        b1 \<leftarrow> img_byte st rom (off + 1);
        b2 \<leftarrow> img_byte st rom (off + 2);
        b3 \<leftarrow> img_byte st rom (off + 3);
        Some (Some (ucast b0 OR push_bit 8 (ucast b1) OR push_bit 16 (ucast b2) OR push_bit 24 (ucast b3)))
      })"

definition img_u16 :: "'x iop_state \<Rightarrow> u32 \<Rightarrow> u32 \<Rightarrow> u32 \<Rightarrow> u32 option option" where
  "img_u16 st rom image_size off =
     (if off + 2 > image_size then Some None
      else do {
        b0 \<leftarrow> img_byte st rom off;
        b1 \<leftarrow> img_byte st rom (off + 1);
        Some (Some (ucast b0 OR push_bit 8 (ucast b1)))
      })"

fun img_u32s :: "'x iop_state \<Rightarrow> u32 \<Rightarrow> u32 \<Rightarrow> u32 list \<Rightarrow> u32 list option option" where
  "img_u32s st rom image_size [] = Some (Some [])"
| "img_u32s st rom image_size (off # offs) = do {
     v \<leftarrow> img_u32 st rom image_size off;
     vs \<leftarrow> img_u32s st rom image_size offs;
     Some (do { x \<leftarrow> v; xs \<leftarrow> vs; Some (x # xs) })
   }"

record elf_header =
  e_machine :: u32
  e_entry :: u32
  e_phoff :: u32
  e_shoff :: u32
  e_phentsize :: u32
  e_phnum :: u32
  e_shentsize :: u32
  e_shnum :: u32
  e_shstrndx :: u32

type_synonym elf_error = string

definition elf_magic :: "'x iop_state \<Rightarrow> u32 \<Rightarrow> bool option" where
  "elf_magic st rom = do {
     b0 \<leftarrow> img_byte st rom 0; b1 \<leftarrow> img_byte st rom 1; b2 \<leftarrow> img_byte st rom 2; b3 \<leftarrow> img_byte st rom 3;
     Some (b0 = 0x7F \<and> b1 = 0x45 \<and> b2 = 0x4C \<and> b3 = 0x46) }"

definition read_header :: "'x iop_state \<Rightarrow> u32 \<Rightarrow> u32 \<Rightarrow> elf_header option option" where
  "read_header st rom sz = do {
     machine \<leftarrow> img_u16 st rom sz 18; entry \<leftarrow> img_u32 st rom sz 24;
     phoff \<leftarrow> img_u32 st rom sz 28; shoff \<leftarrow> img_u32 st rom sz 32;
     phentsize \<leftarrow> img_u16 st rom sz 42; phnum \<leftarrow> img_u16 st rom sz 44;
     shentsize \<leftarrow> img_u16 st rom sz 46; shnum \<leftarrow> img_u16 st rom sz 48; shstrndx \<leftarrow> img_u16 st rom sz 50;
     Some (do {
       m \<leftarrow> machine; en \<leftarrow> entry; po \<leftarrow> phoff; so \<leftarrow> shoff; pe \<leftarrow> phentsize; pn \<leftarrow> phnum; se \<leftarrow> shentsize; sn \<leftarrow> shnum; sx \<leftarrow> shstrndx;
       Some \<lparr>e_machine = m, e_entry = en, e_phoff = po, e_shoff = so, e_phentsize = pe, e_phnum = pn,
         e_shentsize = se, e_shnum = sn, e_shstrndx = sx\<rparr> }) }"

definition check_header :: "'x iop_state \<Rightarrow> u32 \<Rightarrow> u32 \<Rightarrow> (elf_error + elf_header) option" where
  "check_header st rom sz =
     (if sz < 52 then Some (Inl ''image too small for an ELF header'')
      else do {
        magic \<leftarrow> elf_magic st rom;
        if \<not> magic then Some (Inl ''bad ELF magic'')
        else do {
          cls \<leftarrow> img_byte st rom 4;
          dat \<leftarrow> (if cls \<noteq> 1 then Some 0 else img_byte st rom 5);
          if cls \<noteq> 1 \<or> dat \<noteq> 1 then Some (Inl ''not ELF32 little-endian'')
          else do {
            hdr \<leftarrow> read_header st rom sz;
            Some (case hdr of None \<Rightarrow> Inl ''truncated ELF header''
              | Some h \<Rightarrow> if e_machine h \<noteq> 8 then Inl ''not a MIPS ELF'' else Inr h)
          }
        }
      })"

section \<open>Segments\<close>

fun copy_image :: "'x iop_bus \<Rightarrow> u32 \<Rightarrow> u32 \<Rightarrow> u32 \<Rightarrow> nat \<Rightarrow> nat \<Rightarrow> 'x iop_state \<Rightarrow> 'x iop_state option" where
  "copy_image bus rom src dst b 0 st = Some st"
| "copy_image bus rom src dst b (Suc n) st = do {
     v \<leftarrow> img_byte st rom (src + word_of_nat b);
     copy_image bus rom src dst (Suc b) n (iop_mem_write8 bus (dst + word_of_nat b) v st) }"

fun zero_fill :: "'x iop_bus \<Rightarrow> u32 \<Rightarrow> nat \<Rightarrow> nat \<Rightarrow> 'x iop_state \<Rightarrow> 'x iop_state" where
  "zero_fill bus dst b 0 st = st"
| "zero_fill bus dst b (Suc n) st = zero_fill bus dst (Suc b) n (iop_mem_write8 bus (dst + word_of_nat b) 0 st)"

record segment =
  p_offset :: u32
  p_vaddr :: u32
  p_filesz :: u32
  p_memsz :: u32

definition load_bytes :: "'x iop_bus \<Rightarrow> u32 \<Rightarrow> u32 \<Rightarrow> segment \<Rightarrow> 'x iop_state \<Rightarrow> 'x iop_state option" where
  "load_bytes bus rom load_addr sg st = do {
     st1 \<leftarrow> copy_image bus rom (p_offset sg) (load_addr + p_vaddr sg) 0 (unat (p_filesz sg)) st;
     Some (zero_fill bus (load_addr + p_vaddr sg) (unat (p_filesz sg)) (unat (p_memsz sg) - unat (p_filesz sg)) st1) }"

text \<open>One program header: \<open>Inr None\<close> is a header that is not \<open>PT_LOAD\<close>.\<close>

definition read_segment :: "'x iop_state \<Rightarrow> u32 \<Rightarrow> u32 \<Rightarrow> u32 \<Rightarrow> (elf_error + segment option) option" where
  "read_segment st rom sz ph = do {
     f \<leftarrow> img_u32s st rom sz [ph, ph + 4, ph + 8, ph + 16, ph + 20];
     Some (case f of
         Some [ty, po, va, fs, ms] \<Rightarrow>
           Inr (if ty \<noteq> 1 then None else Some \<lparr>p_offset = po, p_vaddr = va, p_filesz = fs, p_memsz = ms\<rparr>)
       | _ \<Rightarrow> Inl ''truncated program header'') }"

text \<open>The loop over the headers: the error if any, and the highest \<open>vaddr + memsz\<close> and \<open>vaddr + filesz\<close>.\<close>

type_synonym extents = "u32 \<times> u32"

definition add_extent :: "segment \<Rightarrow> extents \<Rightarrow> extents" where
  "add_extent sg x = (max (fst x) (p_vaddr sg + p_memsz sg), max (snd x) (p_vaddr sg + p_filesz sg))"

fun load_segments :: "'x iop_bus \<Rightarrow> u32 \<Rightarrow> u32 \<Rightarrow> u32 \<Rightarrow> u32 list \<Rightarrow> extents \<Rightarrow> 'x iop_state \<Rightarrow> ((elf_error + extents) \<times> 'x iop_state) option" where
  "load_segments bus rom sz load_addr [] x st = Some (Inr x, st)"
| "load_segments bus rom sz load_addr (ph # phs) x st = do {
     r \<leftarrow> read_segment st rom sz ph;
     case r of
       Inl e \<Rightarrow> Some (Inl e, st)
     | Inr None \<Rightarrow> load_segments bus rom sz load_addr phs x st
     | Inr (Some sg) \<Rightarrow>
         if p_offset sg + p_filesz sg > sz then Some (Inl ''PT_LOAD segment exceeds image size'', st)
         else if unat load_addr + unat (p_vaddr sg) + unat (p_memsz sg) > unat (ram_size st) then
           Some (Inl ''PT_LOAD segment exceeds IOP RAM'', st)
         else do {
           st1 \<leftarrow> load_bytes bus rom load_addr sg st;
           load_segments bus rom sz load_addr phs (add_extent sg x) st1 } }"

text \<open>The addresses of \<open>n\<close> table entries of size \<open>sz\<close> from \<open>base\<close> on.\<close>

definition entry_addrs :: "u32 \<Rightarrow> u32 \<Rightarrow> u32 \<Rightarrow> u32 list" where
  "entry_addrs base n sz = map (\<lambda>i. base + word_of_nat i * sz) [0..<unat n]"

section \<open>Relocations\<close>

definition reloc26 :: "u32 \<Rightarrow> u32 \<Rightarrow> u32" where
  "reloc26 load_addr w =
     (let addr26 = push_bit 2 (w AND 0x03FFFFFF) + load_addr
      in (w AND 0xFC000000) OR (drop_bit 2 addr26 AND 0x03FFFFFF))"

text \<open>The constant a \<open>lui\<close>/\<open>addiu\<close> pair builds, and the pair after the relocation.\<close>

definition hilo_value :: "u32 \<Rightarrow> u32 \<Rightarrow> u32" where
  "hilo_value hi_instr lo_instr = push_bit 16 (hi_instr AND 0xFFFF) + scast (ucast lo_instr :: u16)"

definition reloc_hilo :: "u32 \<Rightarrow> u32 \<Rightarrow> u32 \<Rightarrow> u32 \<times> u32" where
  "reloc_hilo load_addr hi_instr lo_instr =
     (let newval = hilo_value hi_instr lo_instr + load_addr
      in ((hi_instr AND 0xFFFF0000) OR (drop_bit 16 (newval + 0x8000) AND 0xFFFF),
          (lo_instr AND 0xFFFF0000) OR (newval AND 0xFFFF)))"

definition rebase_word :: "'x iop_bus \<Rightarrow> (u32 \<Rightarrow> u32) \<Rightarrow> u32 \<Rightarrow> 'x iop_state \<Rightarrow> 'x iop_state" where
  "rebase_word bus f addr st = (let (w, st1) = iop_mem_read32 bus addr st in iop_mem_write32 bus addr (f w) st1)"

definition rebase_pair :: "'x iop_bus \<Rightarrow> u32 \<Rightarrow> u32 \<Rightarrow> u32 \<Rightarrow> 'x iop_state \<Rightarrow> 'x iop_state" where
  "rebase_pair bus load_addr hi_addr lo_addr st =
     (let (hi_instr, st1) = iop_mem_read32 bus hi_addr st; (lo_instr, st2) = iop_mem_read32 bus lo_addr st1;
          (h, l) = reloc_hilo load_addr hi_instr lo_instr
      in iop_mem_write32 bus lo_addr l (iop_mem_write32 bus hi_addr h st2))"

text \<open>Entry \<open>r\<close> of a relocation section; the number of entries it has consumed, or the error.\<close>

definition reloc_entry :: "'x iop_bus \<Rightarrow> u32 \<Rightarrow> u32 \<Rightarrow> u32 \<Rightarrow> u32 \<Rightarrow> nat \<Rightarrow> nat \<Rightarrow> 'x iop_state \<Rightarrow> ((elf_error + nat) \<times> 'x iop_state) option" where
  "reloc_entry bus rom sz load_addr sh_offset cnt r st = do {
     let re = sh_offset + word_of_nat r * 8;
     ent \<leftarrow> img_u32s st rom sz [re, re + 4];
     case ent of
       Some [r_offset, r_info] \<Rightarrow>
         let r_type = r_info AND 0xFF; patch_addr = load_addr + r_offset in
         if r_type = 2 then Some (Inr 1, rebase_word bus (\<lambda>w. w + load_addr) patch_addr st)
         else if r_type = 4 then Some (Inr 1, rebase_word bus (reloc26 load_addr) patch_addr st)
         else if r_type = 5 then
           if Suc r \<ge> cnt then Some (Inl ''R_MIPS_HI16 with no following relocation'', st)
           else do {
             let re2 = sh_offset + word_of_nat (Suc r) * 8;
             ent2 \<leftarrow> img_u32s st rom sz [re2, re2 + 4];
             case ent2 of
               Some [r_offset2, r_info2] \<Rightarrow>
                 if r_info2 AND 0xFF \<noteq> 6 then Some (Inl ''R_MIPS_HI16 not followed by R_MIPS_LO16'', st)
                 else Some (Inr 2, rebase_pair bus load_addr patch_addr (load_addr + r_offset2) st)
             | _ \<Rightarrow> Some (Inl ''R_MIPS_HI16 not followed by R_MIPS_LO16'', st) }
         else if r_type = 6 then Some (Inl ''unpaired R_MIPS_LO16 (unsupported)'', st)
         else Some (Inl ''unsupported relocation type'', st)
     | _ \<Rightarrow> Some (Inl ''truncated relocation entry'', st) }"

text \<open>\<open>n\<close> bounds the iterations: one entry at least is consumed by each, so \<open>cnt\<close>, their number, is enough.\<close>

fun apply_relocs :: "'x iop_bus \<Rightarrow> u32 \<Rightarrow> u32 \<Rightarrow> u32 \<Rightarrow> u32 \<Rightarrow> nat \<Rightarrow> nat \<Rightarrow> nat \<Rightarrow> 'x iop_state \<Rightarrow> (elf_error option \<times> 'x iop_state) option" where
  "apply_relocs bus rom sz load_addr sh_offset cnt r 0 st = Some (None, st)"
| "apply_relocs bus rom sz load_addr sh_offset cnt r (Suc n) st =
     (if r \<ge> cnt then Some (None, st)
      else do {
        (res, st1) \<leftarrow> reloc_entry bus rom sz load_addr sh_offset cnt r st;
        case res of Inl e \<Rightarrow> Some (Some e, st1)
          | Inr k \<Rightarrow> apply_relocs bus rom sz load_addr sh_offset cnt (r + k) n st1 })"

section \<open>Sections\<close>

text \<open>The module name: at most 31 characters up to the end of the image or a zero byte.\<close>

fun read_name :: "'x iop_state \<Rightarrow> u32 \<Rightarrow> u32 \<Rightarrow> u32 \<Rightarrow> nat \<Rightarrow> u8 list option" where
  "read_name st rom sz off 0 = Some []"
| "read_name st rom sz off (Suc n) =
     (if off \<ge> sz then Some []
      else do {
        c \<leftarrow> img_byte st rom off;
        if c = 0 then Some [] else do { cs \<leftarrow> read_name st rom sz (off + 1) n; Some (c # cs) } })"

text \<open>The sections in order; \<open>Inr\<close> is the last module name found.\<close>

fun load_sections :: "'x iop_bus \<Rightarrow> u32 \<Rightarrow> u32 \<Rightarrow> u32 \<Rightarrow> u32 list \<Rightarrow> u8 list \<Rightarrow> 'x iop_state \<Rightarrow> ((elf_error + u8 list) \<times> 'x iop_state) option" where
  "load_sections bus rom sz load_addr [] nm st = Some (Inr nm, st)"
| "load_sections bus rom sz load_addr (sh # shs) nm st = do {
     f \<leftarrow> img_u32s st rom sz [sh, sh + 4, sh + 16, sh + 20];
     case f of
       Some [sh_name, sh_type, sh_offset, sh_size] \<Rightarrow> do {
         nm1 \<leftarrow> (if sh_type = 0x70000080 \<and> sh_size \<ge> 26 then read_name st rom sz (sh_offset + 26) 31 else Some nm);
         (err, st1) \<leftarrow>
           (if sh_type = 9
            then apply_relocs bus rom sz load_addr sh_offset (unat (sh_size div 8)) 0 (unat (sh_size div 8)) st
            else Some (None, st));
         case err of Some e \<Rightarrow> Some (Inl e, st1) | None \<Rightarrow> load_sections bus rom sz load_addr shs nm1 st1 }
     | _ \<Rightarrow> Some (Inr nm, st) }"

section \<open>Import and export tables\<close>

record irx_table =
  t_addr :: u32
  t_name :: "u8 list"
  t_count :: nat

fun read_bytes :: "'x iop_bus \<Rightarrow> u32 \<Rightarrow> nat \<Rightarrow> 'x iop_state \<Rightarrow> u8 list \<times> 'x iop_state" where
  "read_bytes bus addr 0 st = ([], st)"
| "read_bytes bus addr (Suc n) st =
     (let (c, st1) = iop_mem_read8 bus addr st; (cs, st2) = read_bytes bus (addr + 1) n st1 in (c # cs, st2))"

text \<open>
  The entries of a table up to a zero entry, the end of the file data or the cap: the loops stop
  when the count exceeds 512, so 513 rounds are all there are.
\<close>

fun count_fptrs :: "'x iop_bus \<Rightarrow> u32 \<Rightarrow> u32 \<Rightarrow> nat \<Rightarrow> 'x iop_state \<Rightarrow> nat \<times> 'x iop_state" where
  "count_fptrs bus limit fp 0 st = (0, st)"
| "count_fptrs bus limit fp (Suc n) st =
     (if fp + 4 > limit then (0, st)
      else let (w, st1) = iop_mem_read32 bus fp st in
        if w = 0 then (0, st1) else let (k, st2) = count_fptrs bus limit (fp + 4) n st1 in (Suc k, st2))"

fun count_stubs :: "'x iop_bus \<Rightarrow> u32 \<Rightarrow> u32 \<Rightarrow> nat \<Rightarrow> 'x iop_state \<Rightarrow> nat \<times> 'x iop_state" where
  "count_stubs bus limit sp 0 st = (0, st)"
| "count_stubs bus limit sp (Suc n) st =
     (if sp + 8 > limit then (0, st)
      else let (w0, st1) = iop_mem_read32 bus sp st; (w1, st2) = iop_mem_read32 bus (sp + 4) st1 in
        if w0 = 0 \<and> w1 = 0 then (0, st2) else let (k, st3) = count_stubs bus limit (sp + 8) n st2 in (Suc k, st3))"

definition read_table :: "'x iop_bus \<Rightarrow> (nat \<Rightarrow> 'x iop_state \<Rightarrow> nat \<times> 'x iop_state) \<Rightarrow> u32 \<Rightarrow> 'x iop_state \<Rightarrow> irx_table \<times> 'x iop_state" where
  "read_table bus entries addr st =
     (let (nm, st1) = read_bytes bus (addr + 12) 8 st; (k, st2) = entries 513 st1
      in (\<lparr>t_addr = addr, t_name = nm, t_count = k\<rparr>, st2))"

type_synonym irx_tables = "irx_table list \<times> irx_table list"

definition scan_word :: "'x iop_bus \<Rightarrow> u32 \<Rightarrow> u32 \<Rightarrow> irx_tables \<Rightarrow> 'x iop_state \<Rightarrow> irx_tables \<times> 'x iop_state" where
  "scan_word bus limit addr t st =
     (let (magic, st1) = iop_mem_read32 bus addr st in
      if magic = 0x41C00000 \<and> length (fst t) < 8 then
        let (z, st2) = iop_mem_read32 bus (addr + 4) st1 in
        if z \<noteq> 0 then (t, st2)
        else let (e, st3) = read_table bus (count_fptrs bus limit (addr + 20)) addr st2 in ((fst t @ [e], snd t), st3)
      else if magic = 0x41E00000 \<and> length (snd t) < 8 then
        let (z, st2) = iop_mem_read32 bus (addr + 4) st1 in
        if z \<noteq> 0 then (t, st2)
        else let (m, st3) = read_table bus (count_stubs bus limit (addr + 20)) addr st2 in ((fst t, snd t @ [m]), st3)
      else (t, st1))"

fun scan_tables :: "'x iop_bus \<Rightarrow> u32 \<Rightarrow> u32 list \<Rightarrow> irx_tables \<Rightarrow> 'x iop_state \<Rightarrow> irx_tables \<times> 'x iop_state" where
  "scan_tables bus limit [] t st = (t, st)"
| "scan_tables bus limit (a # as) t st = (let (t1, st1) = scan_word bus limit a t st in scan_tables bus limit as t1 st1)"

text \<open>
  The addresses scanned: \<open>load_addr + off\<close> for the multiples \<open>off\<close> of 4 with \<open>off + 20\<close> at most the
  extent. (The C loop would not end for an extent within 3 of \<open>2\<^sup>3\<^sup>2\<close>; no load gets there.)
\<close>

definition scan_addrs :: "u32 \<Rightarrow> u32 \<Rightarrow> u32 list" where
  "scan_addrs load_addr extent = map (\<lambda>k. load_addr + word_of_nat (4 * k)) [0..<(unat extent - 16) div 4]"

section \<open>Loading a module\<close>

record elf_result =
  r_entry :: u32
  r_load_addr :: u32
  r_load_end :: u32
  iopmod_name :: "u8 list"
  r_exports :: "irx_table list"
  r_imports :: "irx_table list"

definition find_sections :: "elf_header \<Rightarrow> 'x iop_state \<Rightarrow> u32 \<Rightarrow> u32 \<Rightarrow> u32 list option" where
  "find_sections h st rom sz =
     (if e_shoff h \<noteq> 0 \<and> e_shnum h \<noteq> 0 then do {
        shstr \<leftarrow> img_u32 st rom sz (e_shoff h + e_shstrndx h * e_shentsize h + 16);
        Some (if shstr = None then [] else entry_addrs (e_shoff h) (e_shnum h) (e_shentsize h)) }
      else Some [])"

definition finish_load :: "'x iop_bus \<Rightarrow> u32 \<Rightarrow> elf_header \<Rightarrow> extents \<Rightarrow> u8 list \<Rightarrow> 'x iop_state \<Rightarrow> elf_result \<times> 'x iop_state" where
  "finish_load bus load_addr h x nm st =
     (let (t, st1) = scan_tables bus (load_addr + snd x) (scan_addrs load_addr (snd x)) ([], []) st
      in (\<lparr>r_entry = load_addr + e_entry h, r_load_addr = load_addr, r_load_end = load_addr + fst x,
           iopmod_name = nm, r_exports = fst t, r_imports = snd t\<rparr>, st1))"

definition iop_elf_load :: "'x iop_bus \<Rightarrow> u32 \<Rightarrow> u32 \<Rightarrow> u32 \<Rightarrow> 'x iop_state \<Rightarrow> ((elf_error + elf_result) \<times> 'x iop_state) option" where
  "iop_elf_load bus rom sz load_addr st = do {
     hdr \<leftarrow> check_header st rom sz;
     case hdr of Inl e \<Rightarrow> Some (Inl e, st)
     | Inr h \<Rightarrow> do {
         (res, st1) \<leftarrow> load_segments bus rom sz load_addr (entry_addrs (e_phoff h) (e_phnum h) (e_phentsize h)) (0, 0) st;
         case res of Inl e \<Rightarrow> Some (Inl e, st1)
         | Inr x \<Rightarrow>
             if fst x = 0 then Some (Inl ''no PT_LOAD segments found'', st1)
             else do {
               shs \<leftarrow> find_sections h st1 rom sz;
               (res2, st2) \<leftarrow> load_sections bus rom sz load_addr shs [] st1;
               Some (case res2 of Inl e \<Rightarrow> (Inl e, st2)
                 | Inr nm \<Rightarrow> let (r, st3) = finish_load bus load_addr h x nm st2 in (Inr r, st3)) } } }"

end
