(* ===== verification/Iop_Cpu.thy ===== *)
theory Iop_Cpu
  imports Iop_Elf "HOL-Library.Signed_Division"
begin

text \<open>
  The instruction set of the IOP interpreter: the \<open>switch (op)\<close> of \<open>iop_step\<close> in
  \<open>source/core/iop/iop_core.c\<close>.

  An instruction word is executed on the processor state after the prologue has advanced the
  two program counters. The result is \<open>None\<close> where the C program has no defined behaviour,
  which is the signed division of \<open>-2\<^sup>31\<close> by \<open>-1\<close> and, at the one JALR that loads an embedded
  ELF image, where the loader has none.
\<close>

section \<open>Fields of an instruction word\<close>

definition f_op :: "u32 \<Rightarrow> u32" where "f_op i = drop_bit 26 i AND 0x3F"
definition f_rs :: "u32 \<Rightarrow> nat" where "f_rs i = unat (drop_bit 21 i AND 0x1F)"
definition f_rt :: "u32 \<Rightarrow> nat" where "f_rt i = unat (drop_bit 16 i AND 0x1F)"
definition f_rd :: "u32 \<Rightarrow> nat" where "f_rd i = unat (drop_bit 11 i AND 0x1F)"
definition f_sa :: "u32 \<Rightarrow> nat" where "f_sa i = unat (drop_bit 6 i AND 0x1F)"
definition f_imm :: "u32 \<Rightarrow> u32" where "f_imm i = scast (ucast i :: u16)"
definition f_uimm :: "u32 \<Rightarrow> u32" where "f_uimm i = i AND 0xFFFF"
definition f_funct :: "u32 \<Rightarrow> u32" where "f_funct i = i AND 0x3F"

section \<open>Small steps of the switch\<close>

text \<open>\<open>if (r) GPR(r) = v\<close>, \<open>BRANCH_TO\<close>, \<open>LINK\<close>, the exception entry and the return from exception.\<close>

definition set_gpr :: "nat \<Rightarrow> u32 \<Rightarrow> 'x iop_state \<Rightarrow> 'x iop_state" where
  "set_gpr r v st = st\<lparr>gpr := (gpr st)(r := v)\<rparr>"

definition wr :: "nat \<Rightarrow> u32 \<Rightarrow> 'x iop_state \<Rightarrow> 'x iop_state" where
  "wr r v st = (if r \<noteq> 0 then set_gpr r v st else st)"

definition branch_to :: "u32 \<Rightarrow> 'x iop_state \<Rightarrow> 'x iop_state" where
  "branch_to t st = st\<lparr>next_pc := t\<rparr>"

definition go :: "u32 \<Rightarrow> 'x iop_state \<Rightarrow> 'x iop_state" where
  "go a st = st\<lparr>pc := a, next_pc := a + 4\<rparr>"

definition status_push :: "u32 \<Rightarrow> u32" where
  "status_push s = (s AND NOT 0x3F) OR push_bit 2 (s AND 0x0F)"

definition status_pop :: "u32 \<Rightarrow> u32" where
  "status_pop s = (s AND NOT 0x0F) OR drop_bit 2 (s AND 0x3C)"

definition exc_vector :: "'x iop_state \<Rightarrow> u32" where
  "exc_vector st = (if cop0 st 12 AND 0x400000 \<noteq> 0 then 0xBFC00180 else 0x80000080)"

text \<open>\<open>code\<close> is the exception code already shifted to its place in Cause.\<close>

definition raise_exc :: "u32 \<Rightarrow> u32 \<Rightarrow> 'x iop_state \<Rightarrow> 'x iop_state" where
  "raise_exc code this_pc st =
     go (exc_vector st)
       (st\<lparr>cop0 := (cop0 st)(13 := (cop0 st 13 AND NOT 0x7F) OR code, 14 := this_pc, 12 := status_push (cop0 st 12)),
           exception_pending := True\<rparr>)"

definition rfe :: "'x iop_state \<Rightarrow> 'x iop_state" where
  "rfe st = st\<lparr>cop0 := (cop0 st)(12 := status_pop (cop0 st 12)), exception_pending := False\<rparr>"

definition reserved :: "u32 \<Rightarrow> 'x iop_state \<Rightarrow> 'x iop_state" where
  "reserved = raise_exc 0x28"

section \<open>SPECIAL\<close>

text \<open>
  Two jumps of the boot ROM go to a device driver that has to be loaded first: the target is then the
  entry point of the module the loader has placed, if it could.
\<close>

definition jalr_target :: "'x iop_bus \<Rightarrow> u32 \<Rightarrow> u32 \<Rightarrow> 'x iop_state \<Rightarrow> (u32 \<times> 'x iop_state) option" where
  "jalr_target bus this_pc tgt st =
     (if cop0 st 15 = 0x1F \<and> (this_pc = 0xBFC4A39C \<or> this_pc = 0xBFC4A44C) \<and> devtable_pending_image st \<noteq> 0 then
        let raw = devtable_pending_image st; st1 = st\<lparr>devtable_pending_image := 0\<rparr>; rom_off = raw - 0xBFC00000 in
        case bios st of
          None \<Rightarrow> Some (tgt, st1)
        | Some b \<Rightarrow>
            if raw \<ge> 0xBFC00000 \<and> rom_off < bsize b then
              let size0 = bsize b - rom_off; image_size = (if size0 > 0x8000 then 0x8000 else size0);
                  load_addr = (if this_pc = 0xBFC4A39C then 0x001C0000 else 0x001C8000)
              in map_option (\<lambda>(res, st2). case res of Inr r \<Rightarrow> (r_entry r, st2) | Inl _ \<Rightarrow> (tgt, st2))
                   (iop_elf_load bus rom_off image_size load_addr st1)
            else Some (tgt, st1)
      else Some (tgt, st))"

definition exec_syscall :: "u32 \<Rightarrow> 'x iop_state \<Rightarrow> 'x iop_state" where
  "exec_syscall this_pc st =
     (let n = gpr st 2 in
      if n = 0x08 then
        go (this_pc + 4) (set_gpr 2 0 (st\<lparr>cop0 := (cop0 st)(12 := cop0 st 12 OR (0x1 OR 0x400))\<rparr>))
      else if n = 0x10 \<or> n = 0x14 then go (this_pc + 4) (set_gpr 2 0 st)
      else raise_exc 0x20 this_pc st)"

definition exec_break :: "u32 \<Rightarrow> 'x iop_state \<Rightarrow> 'x iop_state" where
  "exec_break this_pc st =
     (if exception_pending st \<and> cop0 st 13 AND 0x7C = 0x20
      then go (cop0 st 14 + 4) (rfe (set_gpr 2 0 st))
      else raise_exc 0x24 this_pc st)"

definition mult64 :: "int \<Rightarrow> 'x iop_state \<Rightarrow> 'x iop_state" where
  "mult64 res st = st\<lparr>lo := word_of_int res, hi := word_of_int (res div 2 ^ 32)\<rparr>"

definition exec_div :: "u32 \<Rightarrow> u32 \<Rightarrow> 'x iop_state \<Rightarrow> 'x iop_state option" where
  "exec_div a b st =
     (if b = 0 then Some st
      else if a = 0x80000000 \<and> b = 0xFFFFFFFF then None
      else Some (st\<lparr>lo := word_of_int (sint a sdiv sint b), hi := word_of_int (sint a smod sint b)\<rparr>))"

definition exec_divu :: "u32 \<Rightarrow> u32 \<Rightarrow> 'x iop_state \<Rightarrow> 'x iop_state" where
  "exec_divu a b st = (if b = 0 then st else st\<lparr>lo := a div b, hi := a mod b\<rparr>)"

text \<open>The three-register operations, by their function code.\<close>

definition alu :: "u32 \<Rightarrow> u32 \<Rightarrow> u32 \<Rightarrow> nat \<Rightarrow> u32 option" where
  "alu funct rs32 rt32 sa =
     (if funct = 0x00 then Some (push_bit sa rt32)
      else if funct = 0x02 then Some (drop_bit sa rt32)
      else if funct = 0x03 then Some (signed_drop_bit sa rt32)
      else if funct = 0x04 then Some (push_bit (unat (rs32 AND 0x1F)) rt32)
      else if funct = 0x06 then Some (drop_bit (unat (rs32 AND 0x1F)) rt32)
      else if funct = 0x07 then Some (signed_drop_bit (unat (rs32 AND 0x1F)) rt32)
      else if funct = 0x20 \<or> funct = 0x21 then Some (rs32 + rt32)
      else if funct = 0x22 \<or> funct = 0x23 then Some (rs32 - rt32)
      else if funct = 0x24 then Some (rs32 AND rt32)
      else if funct = 0x25 then Some (rs32 OR rt32)
      else if funct = 0x26 then Some (rs32 XOR rt32)
      else if funct = 0x27 then Some (NOT (rs32 OR rt32))
      else if funct = 0x2A then Some (if sint rs32 < sint rt32 then 1 else 0)
      else if funct = 0x2B then Some (if rs32 < rt32 then 1 else 0)
      else None)"

definition exec_special :: "'x iop_bus \<Rightarrow> u32 \<Rightarrow> u32 \<Rightarrow> 'x iop_state \<Rightarrow> 'x iop_state option" where
  "exec_special bus instr this_pc st =
     (let funct = f_funct instr; rd = f_rd instr; rs32 = gpr st (f_rs instr); rt32 = gpr st (f_rt instr) in
      case alu funct rs32 rt32 (f_sa instr) of
        Some v \<Rightarrow> Some (wr rd v st)
      | None \<Rightarrow>
          if funct = 0x08 then Some (branch_to rs32 st)
          else if funct = 0x09 then
            map_option (\<lambda>(tgt, st1). branch_to tgt (wr rd (this_pc + 8) st1)) (jalr_target bus this_pc rs32 st)
          else if funct = 0x0C then Some (exec_syscall this_pc st)
          else if funct = 0x0D then Some (exec_break this_pc st)
          else if funct = 0x10 then Some (wr rd (hi st) st)
          else if funct = 0x11 then Some (st\<lparr>hi := rs32\<rparr>)
          else if funct = 0x12 then Some (wr rd (lo st) st)
          else if funct = 0x13 then Some (st\<lparr>lo := rs32\<rparr>)
          else if funct = 0x18 then Some (mult64 (sint rs32 * sint rt32) st)
          else if funct = 0x19 then Some (mult64 (uint rs32 * uint rt32) st)
          else if funct = 0x1A then exec_div rs32 rt32 st
          else if funct = 0x1B then Some (exec_divu rs32 rt32 st)
          else if funct = 0x30 then Some (if sint rs32 \<ge> sint rt32 then raise_exc 0x34 this_pc st else st)
          else Some (reserved this_pc st))"

section \<open>REGIMM, jumps and branches\<close>

definition branch_target :: "u32 \<Rightarrow> u32 \<Rightarrow> u32" where
  "branch_target this_pc instr = this_pc + 4 + push_bit 2 (f_imm instr)"

definition jump_target :: "u32 \<Rightarrow> u32 \<Rightarrow> u32" where
  "jump_target this_pc instr = (this_pc AND 0xF0000000) OR push_bit 2 (instr AND 0x03FFFFFF)"

definition branch_if :: "bool \<Rightarrow> u32 \<Rightarrow> 'x iop_state \<Rightarrow> 'x iop_state" where
  "branch_if c t st = (if c then branch_to t st else st)"

text \<open>The linking forms write $ra first and then test \<open>rs\<close>, which may be $ra.\<close>

definition exec_regimm :: "u32 \<Rightarrow> u32 \<Rightarrow> 'x iop_state \<Rightarrow> 'x iop_state" where
  "exec_regimm instr this_pc st =
     (let rt = f_rt instr; rs = f_rs instr; t = branch_target this_pc instr; lk = set_gpr 31 (this_pc + 8) st in
      if rt = 0x00 then branch_if (sint (gpr st rs) < 0) t st
      else if rt = 0x01 then branch_if (sint (gpr st rs) \<ge> 0) t st
      else if rt = 0x10 then branch_if (sint (gpr lk rs) < 0) t lk
      else if rt = 0x11 then branch_if (sint (gpr lk rs) \<ge> 0) t lk
      else reserved this_pc st)"

definition exec_jal :: "u32 \<Rightarrow> u32 \<Rightarrow> 'x iop_state \<Rightarrow> 'x iop_state" where
  "exec_jal instr this_pc st =
     (let t = jump_target this_pc instr;
          st1 = (if cop0 st 15 = 0x1F \<and> t = 0xBFC4A600 then st\<lparr>devtable_pending_image := gpr st 4\<rparr> else st)
      in branch_to t (set_gpr 31 (this_pc + 8) st1))"

section \<open>COP0\<close>

definition exec_cop0 :: "u32 \<Rightarrow> u32 \<Rightarrow> 'x iop_state \<Rightarrow> 'x iop_state" where
  "exec_cop0 instr this_pc st =
     (let rs = f_rs instr; rt = f_rt instr; rd = f_rd instr in
      if rs = 0x00 then wr rt (cop0 st rd) st
      else if rs = 0x04 then st\<lparr>cop0 := (cop0 st)(rd := gpr st rt)\<rparr>
      else if rs = 0x10 then (if f_funct instr = 0x10 then rfe st else reserved this_pc st)
      else reserved this_pc st)"

section \<open>Loads and stores\<close>

definition exec_load :: "'x iop_bus \<Rightarrow> u32 \<Rightarrow> 'x iop_state \<Rightarrow> 'x iop_state" where
  "exec_load bus instr st =
     (let op = f_op instr; rt = f_rt instr; addr = gpr st (f_rs instr) + f_imm instr in
      if op = 0x20 then (let (v, st1) = iop_mem_read8 bus addr st in wr rt (scast v) st1)
      else if op = 0x21 then (let (v, st1) = iop_mem_read16 bus addr st in wr rt (scast v) st1)
      else if op = 0x23 then (let (v, st1) = iop_mem_read32 bus addr st in wr rt v st1)
      else if op = 0x24 then (let (v, st1) = iop_mem_read8 bus addr st in wr rt (ucast v) st1)
      else (let (v, st1) = iop_mem_read16 bus addr st in wr rt (ucast v) st1))"

text \<open>The bit position of the addressed byte in its word.\<close>

definition byte_shift :: "u32 \<Rightarrow> nat" where
  "byte_shift addr = 8 * unat (addr AND 3)"

definition exec_lwl :: "'x iop_bus \<Rightarrow> u32 \<Rightarrow> 'x iop_state \<Rightarrow> 'x iop_state" where
  "exec_lwl bus instr st =
     (let rt = f_rt instr; addr = gpr st (f_rs instr) + f_imm instr; s = byte_shift addr;
          (m, st1) = iop_mem_read32 bus (addr AND NOT 3) st
      in wr rt ((gpr st rt AND drop_bit s 0x00FFFFFF) OR push_bit (24 - s) m) st1)"

definition exec_lwr :: "'x iop_bus \<Rightarrow> u32 \<Rightarrow> 'x iop_state \<Rightarrow> 'x iop_state" where
  "exec_lwr bus instr st =
     (let rt = f_rt instr; addr = gpr st (f_rs instr) + f_imm instr; s = byte_shift addr;
          (m, st1) = iop_mem_read32 bus (addr AND NOT 3) st
      in wr rt ((gpr st rt AND push_bit (24 - s) 0xFFFFFF00) OR drop_bit s m) st1)"

definition exec_store :: "'x iop_bus \<Rightarrow> u32 \<Rightarrow> 'x iop_state \<Rightarrow> 'x iop_state" where
  "exec_store bus instr st =
     (let op = f_op instr; v = gpr st (f_rt instr); addr = gpr st (f_rs instr) + f_imm instr in
      if op = 0x28 then iop_mem_write8 bus addr (ucast v) st
      else if op = 0x29 then iop_mem_write16 bus addr (ucast v) st
      else iop_mem_write32 bus addr v st)"

definition exec_swl :: "'x iop_bus \<Rightarrow> u32 \<Rightarrow> 'x iop_state \<Rightarrow> 'x iop_state" where
  "exec_swl bus instr st =
     (let addr = gpr st (f_rs instr) + f_imm instr; s = byte_shift addr; v = gpr st (f_rt instr);
          (m, st1) = iop_mem_read32 bus (addr AND NOT 3) st
      in iop_mem_write32 bus (addr AND NOT 3) (drop_bit (24 - s) v OR (m AND push_bit s 0xFFFFFF00)) st1)"

definition exec_swr :: "'x iop_bus \<Rightarrow> u32 \<Rightarrow> 'x iop_state \<Rightarrow> 'x iop_state" where
  "exec_swr bus instr st =
     (let addr = gpr st (f_rs instr) + f_imm instr; s = byte_shift addr; v = gpr st (f_rt instr);
          (m, st1) = iop_mem_read32 bus (addr AND NOT 3) st
      in iop_mem_write32 bus (addr AND NOT 3) (push_bit s v OR (m AND drop_bit (24 - s) 0x00FFFFFF)) st1)"

section \<open>The switch\<close>

definition exec_imm :: "u32 \<Rightarrow> 'x iop_state \<Rightarrow> 'x iop_state" where
  "exec_imm instr st =
     (let op = f_op instr; rt = f_rt instr; a = gpr st (f_rs instr); imm = f_imm instr; uimm = f_uimm instr in
      if op = 0x08 \<or> op = 0x09 then wr rt (a + imm) st
      else if op = 0x0A then wr rt (if sint a < sint imm then 1 else 0) st
      else if op = 0x0B then wr rt (if a < imm then 1 else 0) st
      else if op = 0x0C then wr rt (a AND uimm) st
      else if op = 0x0D then wr rt (a OR uimm) st
      else if op = 0x0E then wr rt (a XOR uimm) st
      else wr rt (push_bit 16 uimm) st)"

definition exec_branch :: "u32 \<Rightarrow> u32 \<Rightarrow> 'x iop_state \<Rightarrow> 'x iop_state" where
  "exec_branch instr this_pc st =
     (let op = f_op instr; a = gpr st (f_rs instr); b = gpr st (f_rt instr); t = branch_target this_pc instr in
      branch_if (if op = 0x04 then a = b else if op = 0x05 then a \<noteq> b
                 else if op = 0x06 then sint a \<le> 0 else sint a > 0) t st)"

definition iop_exec :: "'x iop_bus \<Rightarrow> u32 \<Rightarrow> u32 \<Rightarrow> 'x iop_state \<Rightarrow> 'x iop_state option" where
  "iop_exec bus instr this_pc st =
     (let op = f_op instr in
      if op = 0x00 then exec_special bus instr this_pc st
      else if op = 0x01 then Some (exec_regimm instr this_pc st)
      else if op = 0x02 then Some (branch_to (jump_target this_pc instr) st)
      else if op = 0x03 then Some (exec_jal instr this_pc st)
      else if op = 0x04 \<or> op = 0x05 \<or> op = 0x06 \<or> op = 0x07 then Some (exec_branch instr this_pc st)
      else if 0x08 \<le> op \<and> op \<le> 0x0F then Some (exec_imm instr st)
      else if op = 0x10 then Some (exec_cop0 instr this_pc st)
      else if op = 0x20 \<or> op = 0x21 \<or> op = 0x23 \<or> op = 0x24 \<or> op = 0x25 then Some (exec_load bus instr st)
      else if op = 0x22 then Some (exec_lwl bus instr st)
      else if op = 0x26 then Some (exec_lwr bus instr st)
      else if op = 0x28 \<or> op = 0x29 \<or> op = 0x2B then Some (exec_store bus instr st)
      else if op = 0x2A then Some (exec_swl bus instr st)
      else if op = 0x2E then Some (exec_swr bus instr st)
      else if op = 0x2F then Some st
      else Some (reserved this_pc st))"

text \<open>
  The prologue (the two program counters advance), the switch, and \<open>st->gpr[0] = 0\<close>: one
  instruction without fetch and without the interrupt check.
\<close>

definition iop_run_instr :: "'x iop_bus \<Rightarrow> u32 \<Rightarrow> 'x iop_state \<Rightarrow> 'x iop_state option" where
  "iop_run_instr bus instr st =
     map_option (set_gpr 0 0) (iop_exec bus instr (pc st) (st\<lparr>pc := next_pc st, next_pc := next_pc st + 4\<rparr>))"

end
