(* ===== verification/Iop_Cpu_Props.thy ===== *)
theory Iop_Cpu_Props
  imports Iop_Cpu
begin

text \<open>
  What the IOP's instructions do: the unaligned-load pair, division, delay slots, and exception
  entry and return.
\<close>

section \<open>Unaligned loads\<close>

definition cat4 :: "u8 \<Rightarrow> u8 \<Rightarrow> u8 \<Rightarrow> u8 \<Rightarrow> u32" where
  "cat4 a b c d = ucast a OR push_bit 8 (ucast b) OR push_bit 16 (ucast c) OR push_bit 24 (ucast d)"

definition ram_word :: "'x iop_state \<Rightarrow> u32 \<Rightarrow> u32" where
  "ram_word st p = cat4 (ram st p) (ram st (p + 1)) (ram st (p + 2)) (ram st (p + 3))"

text \<open>The four ways an unaligned word lies across two aligned ones.\<close>

lemma bit_cat4: "bit (cat4 a b c d) n \<longleftrightarrow> (if n < 8 then bit a n else if n < 16 then bit b (n - 8)
    else if n < 24 then bit c (n - 16) else n < 32 \<and> bit d (n - 24))"
  by (auto simp: cat4_def bit_simps dest: bit_imp_le_length)

lemma low24: "(0x00FFFFFF :: u32) = mask 24"
  by (simp add: mask_eq_exp_minus_1)

lemma high24: "(0xFFFFFF00 :: u32) = NOT (mask 8)"
  by (simp add: mask_eq_exp_minus_1)

lemma splice:
  fixes v :: u32 and b0 b1 b2 b3 b4 b5 b6 b7 :: u8
  defines "w0 \<equiv> cat4 b0 b1 b2 b3" and "w1 \<equiv> cat4 b4 b5 b6 b7"
  shows "(((v AND push_bit 24 (NOT (mask 8))) OR drop_bit 0 w0) AND drop_bit 24 (mask 24)) OR push_bit 0 w0 = cat4 b0 b1 b2 b3"
    and "(((v AND push_bit 16 (NOT (mask 8))) OR drop_bit 8 w0) AND drop_bit 0 (mask 24)) OR push_bit 24 w1 = cat4 b1 b2 b3 b4"
    and "(((v AND push_bit 8 (NOT (mask 8))) OR drop_bit 16 w0) AND drop_bit 8 (mask 24)) OR push_bit 16 w1 = cat4 b2 b3 b4 b5"
    and "(((v AND push_bit 0 (NOT (mask 8))) OR drop_bit 24 w0) AND drop_bit 16 (mask 24)) OR push_bit 8 w1 = cat4 b3 b4 b5 b6"
proof -
  note bs = w0_def w1_def bit_cat4
  show "(((v AND push_bit 24 (NOT (mask 8))) OR drop_bit 0 w0) AND drop_bit 24 (mask 24)) OR push_bit 0 w0 = cat4 b0 b1 b2 b3"
    by (rule bit_word_eqI) (auto simp: bs bit_simps)
  show "(((v AND push_bit 16 (NOT (mask 8))) OR drop_bit 8 w0) AND drop_bit 0 (mask 24)) OR push_bit 24 w1 = cat4 b1 b2 b3 b4"
    by (rule bit_word_eqI) (auto simp: bs bit_simps)
  show "(((v AND push_bit 8 (NOT (mask 8))) OR drop_bit 16 w0) AND drop_bit 8 (mask 24)) OR push_bit 16 w1 = cat4 b2 b3 b4 b5"
    by (rule bit_word_eqI) (auto simp: bs bit_simps)
  show "(((v AND push_bit 0 (NOT (mask 8))) OR drop_bit 24 w0) AND drop_bit 16 (mask 24)) OR push_bit 8 w1 = cat4 b3 b4 b5 b6"
    by (rule bit_word_eqI) (auto simp: bs bit_simps)
qed


lemma unat_and_mask: "unat ((w :: 'a::len word) AND mask n) = unat w mod 2 ^ n"
  by (simp only: and_mask_eq unat_take_bit)

lemma unat_clear_low:
  fixes w :: u32
  shows "unat (w AND NOT (mask n)) = unat w div 2 ^ n * 2 ^ n"
proof -
  have "w AND NOT (mask n) = push_bit n (drop_bit n w)"
    using word_clear_field [of w 0 n] by simp
  moreover have "unat (drop_bit n w) * 2 ^ n < 2 ^ 32"
    using le_less_trans [OF div_times_less_eq_dividend [of "unat w" "2 ^ n"] unat_u32 [of w]]
    by (simp only: unat_drop_bit) simp
  ultimately show ?thesis by (simp add: unat_push_bit unat_drop_bit)
qed

lemma low_bits: "unat ((w :: u32) AND 3) = unat w mod 4" "unat ((w :: u32) AND NOT 3) = unat w div 4 * 4"
proof -
  have m: "(3 :: u32) = mask 2" by (simp add: mask_eq_exp_minus_1)
  show "unat (w AND 3) = unat w mod 4" "unat (w AND NOT 3) = unat w div 4 * 4"
    unfolding m unat_and_mask unat_clear_low by simp_all
qed

lemma mask29_id: "unat (x :: u32) < 2 ^ 29 \<Longrightarrow> x AND 0x1FFFFFFF = x"
proof -
  assume a: "unat x < 2 ^ 29"
  have m: "(0x1FFFFFFF :: u32) = mask 29" by (simp add: mask_eq_exp_minus_1)
  show ?thesis unfolding m by (rule unat_eqI) (use a in \<open>simp add: unat_and_mask\<close>)
qed

lemma read_ram32:
  assumes "bus_declines bus x" and "unat x + 4 \<le> unat (ram_size st)" and "ram_size st \<le> 0x1F801070"
  shows "iop_mem_read32 bus x st = (ram_word st x, st)"
proof -
  have r: "unat (ram_size st) \<le> 0x1F801070" using assms(3) by (simp add: word_le_nat_alt)
  then have u: "unat (x + 4) = unat x + 4" using assms(2) by (simp add: unat_word_ariths)
  have "unat x < 2 ^ 29" using assms(2) r by simp
  then have "x AND 0x1FFFFFFF = x" by (rule mask29_id)
  moreover have "x \<le> x + 4" "x + 4 \<le> ram_size st" "x < 0xBFC00000"
    using assms(2) r u by (simp_all add: word_le_nat_alt word_less_nat_alt)
  ultimately have x: "x AND 0x1FFFFFFF = x" "x \<le> x + 4" "x + 4 \<le> ram_size st" "x < 0xBFC00000" by blast+
  have "register_free x" by (rule ram_register_free [OF x(1-3) assms(3)])
  then show ?thesis
    using handlers_decline(3) [OF assms(1)] ram_ptr [OF x(4,1,3)]
    by (simp add: iop_mem_read32_def ram_word_def cat4_def)
qed


text \<open>The pair \<open>LWR rt, imm(rs); LWL rt, (imm + 3)(rs)\<close> as the functions that execute it.\<close>

lemma exec_lwr_ram:
  assumes "gpr st (f_rs i) + f_imm i = a" and "x = a AND NOT 3"
    and "bus_declines bus x" and "unat x + 4 \<le> unat (ram_size st)" and "ram_size st \<le> 0x1F801070"
  shows "exec_lwr bus i st = wr (f_rt i)
    ((gpr st (f_rt i) AND push_bit (24 - byte_shift a) (NOT (mask 8))) OR drop_bit (byte_shift a) (ram_word st x)) st"
  using read_ram32 [OF assms(3-5)] assms(1,2) by (simp add: exec_lwr_def high24 Let_def)

lemma exec_lwl_ram:
  assumes "gpr st (f_rs i) + f_imm i = a" and "x = a AND NOT 3"
    and "bus_declines bus x" and "unat x + 4 \<le> unat (ram_size st)" and "ram_size st \<le> 0x1F801070"
  shows "exec_lwl bus i st = wr (f_rt i)
    ((gpr st (f_rt i) AND drop_bit (byte_shift a) (mask 24)) OR push_bit (24 - byte_shift a) (ram_word st x)) st"
  using read_ram32 [OF assms(3-5)] assms(1,2) by (simp add: exec_lwl_def low24 Let_def)

lemma ram_word_wr [simp]: "ram_word (wr r v st) x = ram_word st x" "ram_size (wr r v st) = ram_size st"
  by (simp_all add: ram_word_def wr_def set_gpr_def)

lemma gpr_wr: "gpr (wr r v st) q = (if q = r \<and> r \<noteq> 0 then v else gpr st q)"
  by (simp add: wr_def set_gpr_def)

lemma wr_wr: "wr r v (wr r w st) = wr r v st"
  by (simp add: wr_def set_gpr_def)

text \<open>Where the four bytes from address \<open>a\<close> lie.\<close>

lemma unaligned_cases:
  fixes a :: u32
  assumes "unat a + 3 < 4294967296" and "x = a AND NOT 3" and "y = (a + 3) AND NOT 3"
  obtains "byte_shift a = 0" "byte_shift (a + 3) = 24" "y = x" "a = x"
  | "byte_shift a = 8" "byte_shift (a + 3) = 0" "y = x + 4" "a = x + 1"
  | "byte_shift a = 16" "byte_shift (a + 3) = 8" "y = x + 4" "a = x + 2"
  | "byte_shift a = 24" "byte_shift (a + 3) = 16" "y = x + 4" "a = x + 3"
proof -
  define k r where "k = unat a div 4" and "r = unat a mod 4"
  have a: "unat a = 4 * k + r" "r < 4" by (simp_all add: k_def r_def)
  have a3: "unat (a + 3) = 4 * k + r + 3" using assms(1) a by (simp add: unat_word_ariths)
  have x: "unat x = 4 * k" using low_bits(2) [of a] by (simp add: assms(2) k_def)
  have y: "unat y = (4 * k + r + 3) div 4 * 4" using low_bits(2) [of "a + 3"] a3 by (simp add: assms(3))
  have s: "byte_shift a = 8 * r" "byte_shift (a + 3) = 8 * ((4 * k + r + 3) mod 4)"
    unfolding byte_shift_def low_bits a3 by (simp_all add: r_def)
  have x4: "unat (x + 4) = 4 * k + 4" if "r \<noteq> 0" using that x a assms(1) by (simp add: unat_word_ariths)
  have xr: "unat (x + word_of_nat r) = 4 * k + r" using x a assms(1) by (simp add: unat_word_ariths unat_of_nat)
  have ax: "a = x + word_of_nat r" using a xr by (intro unat_eqI) simp
  consider "r = 0" | "r = 1" | "r = 2" | "r = 3" using a(2) by linarith
  then show ?thesis
  proof cases
    case 1
    then have "(4 * k + r + 3) div 4 = k" "(4 * k + r + 3) mod 4 = 3" by simp_all
    with 1 show ?thesis using that(1) s x y ax by (simp add: unat_eqI)
  next
    case 2
    then have "(4 * k + r + 3) div 4 = k + 1" "(4 * k + r + 3) mod 4 = 0" by simp_all
    with 2 show ?thesis using that(2) s x4 y ax by (simp add: unat_eqI)
  next
    case 3
    then have "(4 * k + r + 3) div 4 = k + 1" "(4 * k + r + 3) mod 4 = 1" by simp_all
    with 3 show ?thesis using that(3) s x4 y ax by (simp add: unat_eqI)
  next
    case 4
    then have "(4 * k + r + 3) div 4 = k + 1" "(4 * k + r + 3) mod 4 = 2" by simp_all
    with 4 show ?thesis using that(4) s x4 y ax by (simp add: unat_eqI)
  qed
qed

text \<open>C15: The LWR/LWL pair loads an unaligned word: at any alignment, executing LWR at the address and LWL three bytes further on leaves in the register exactly the four bytes from that address, little-endian, and changes nothing else.\<close>

theorem unaligned_load:
  assumes "gpr st (f_rs i) + f_imm i = a" and "f_imm j = f_imm i + 3" and "f_rs j = f_rs i" and "f_rt j = f_rt i"
    and "f_rt i \<noteq> 0" and "f_rt i \<noteq> f_rs i"
    and "bus_declines bus (a AND NOT 3)" and "bus_declines bus ((a + 3) AND NOT 3)"
    and "unat a + 7 \<le> unat (ram_size st)" and "ram_size st \<le> 0x1F801070"
  shows "exec_lwl bus j (exec_lwr bus i st) = wr (f_rt i) (ram_word st a) st"
proof -
  define x y where xy: "x = a AND NOT 3" "y = (a + 3) AND NOT 3"
  let ?r = "f_rt i"
  have r: "unat (ram_size st) \<le> 0x1F801070" using assms(10) by (simp add: word_le_nat_alt)
  have a3: "unat (a + 3) = unat a + 3" using assms(9) r by (simp add: unat_word_ariths)
  have fits: "unat x + 4 \<le> unat (ram_size st)" "unat y + 4 \<le> unat (ram_size st)"
    unfolding xy low_bits a3
    using assms(9) div_times_less_eq_dividend [of "unat a" 4] div_times_less_eq_dividend [of "unat a + 3" 4] by linarith+
  define v where "v = (gpr st ?r AND push_bit (24 - byte_shift a) (NOT (mask 8))) OR drop_bit (byte_shift a) (ram_word st x)"
  have lwr: "exec_lwr bus i st = wr ?r v st"
    unfolding v_def by (rule exec_lwr_ram [OF assms(1) xy(1) assms(7) [folded xy] fits(1) assms(10)])
  have "gpr (wr ?r v st) (f_rs j) + f_imm j = a + 3"
    using assms(1-3,6) by (simp add: gpr_wr add.assoc [symmetric])
  from exec_lwl_ram [OF this xy(2) assms(8) [folded xy]] fits(2) assms(4,5,10)
  have lwl: "exec_lwl bus j (wr ?r v st) = wr ?r
     ((v AND drop_bit (byte_shift (a + 3)) (mask 24)) OR push_bit (24 - byte_shift (a + 3)) (ram_word st y)) st"
    by (simp add: gpr_wr wr_wr)
  have "unat a + 3 < 4294967296" using assms(9) r by simp
  then have "(v AND drop_bit (byte_shift (a + 3)) (mask 24)) OR push_bit (24 - byte_shift (a + 3)) (ram_word st y) = ram_word st a"
  proof (rule unaligned_cases [OF _ xy])
    assume "byte_shift a = 0" "byte_shift (a + 3) = 24" "y = x" "a = x"
    then show ?thesis unfolding v_def using splice(1) [of "gpr st ?r"] by (simp add: ram_word_def add.commute)
  next
    assume "byte_shift a = 8" "byte_shift (a + 3) = 0" "y = x + 4" "a = x + 1"
    then show ?thesis unfolding v_def using splice(2) [of "gpr st ?r"] by (simp add: ram_word_def add.commute)
  next
    assume "byte_shift a = 16" "byte_shift (a + 3) = 8" "y = x + 4" "a = x + 2"
    then show ?thesis unfolding v_def using splice(3) [of "gpr st ?r"] by (simp add: ram_word_def add.commute)
  next
    assume "byte_shift a = 24" "byte_shift (a + 3) = 16" "y = x + 4" "a = x + 3"
    then show ?thesis unfolding v_def using splice(4) [of "gpr st ?r"] by (simp add: ram_word_def add.commute)
  qed
  with lwr lwl show ?thesis by simp
qed


lemma f_fields_example:
  "f_rs 0x98220000 = 1" "f_rt 0x98220000 = 2" "f_imm 0x98220000 = 0"
  "f_rs 0x88220003 = 1" "f_rt 0x88220003 = 2" "f_imm 0x88220003 = 3"
  by (simp_all add: f_rs_def f_rt_def f_imm_def)

theorem unaligned_load_witness:
  "gpr (exec_lwl no_devices 0x88220003 (exec_lwr no_devices 0x98220000
      ((blank_iop ())\<lparr>gpr := (\<lambda>_. 0)(1 := 0x101), ram := ucast\<rparr>))) 2 = 0x04030201"
proof -
  let ?st = "(blank_iop ())\<lparr>gpr := (\<lambda>_. 0)(1 := 0x101), ram := ucast\<rparr>"
  have "exec_lwl no_devices 0x88220003 (exec_lwr no_devices 0x98220000 ?st) = wr 2 (ram_word ?st 0x101) ?st"
    using unaligned_load [of ?st "0x98220000" "0x101" "0x88220003" no_devices]
      no_devices_decline [where ?'a = unit] by (simp add: f_fields_example blank_iop_def)
  moreover have "ram_word ?st 0x101 = 0x04030201" by (simp add: ram_word_def cat4_def)
  ultimately show ?thesis by (simp add: gpr_wr)
qed

section \<open>Multiplication and division\<close>

lemma sint32_word_of_int: "-2147483648 \<le> q \<Longrightarrow> q < 2147483648 \<Longrightarrow> sint (word_of_int q :: u32) = q"
  by (simp add: signed_of_int signed_take_bit_int_eq_self)

lemma sint32_range: "-2147483648 \<le> sint (w :: u32)" "sint (w :: u32) < 2147483648"
  using sint_ge [of w] sint_lt [of w] by simp_all

lemma sint32_eqI: "sint a = sint b \<Longrightarrow> a = (b :: u32)"
  by (rule signed_word_eqI)

lemma abs_smod_less: "(b :: int) \<noteq> 0 \<Longrightarrow> \<bar>a smod b\<bar> < \<bar>b\<bar>"
  by (simp add: smod_int_alt_def abs_mult sgn_if)

lemma abs_sdiv: "\<bar>(a :: int) sdiv b\<bar> \<le> \<bar>a\<bar> div \<bar>b\<bar>"
proof -
  have "0 \<le> \<bar>a\<bar> div \<bar>b\<bar>" by (cases "b = 0") (simp_all add: pos_imp_zdiv_nonneg_iff)
  then show ?thesis by (auto simp: signed_divide_int_def abs_mult sgn_if)
qed

text \<open>The only quotient of two 32-bit numbers that does not fit.\<close>

lemma sdiv_fits:
  assumes "(b :: u32) \<noteq> 0" and "\<not> ((a :: u32) = 0x80000000 \<and> b = 0xFFFFFFFF)"
  shows "-2147483648 \<le> sint a sdiv sint b" "sint a sdiv sint b < 2147483648"
proof -
  have b: "sint b \<noteq> 0" using assms(1) sint32_eqI [of b 0] by auto
  note ra = sint32_range [of a]
  consider "sint b = 1" | "sint b = -1" | "2 \<le> \<bar>sint b\<bar>" using b by linarith
  then have "-2147483648 \<le> sint a sdiv sint b \<and> sint a sdiv sint b < 2147483648"
  proof cases
    case 1
    with ra show ?thesis by simp
  next
    case 2
    then have "b = 0xFFFFFFFF" by (intro sint32_eqI) simp
    then have "sint a \<noteq> -2147483648" using assms(2) sint32_eqI [of a "0x80000000"] by auto
    with 2 ra show ?thesis by simp
  next
    case 3
    have "\<bar>sint a\<bar> div \<bar>sint b\<bar> \<le> \<bar>sint a\<bar> div 2" by (rule zdiv_mono2) (use 3 in auto)
    also have "\<bar>sint a\<bar> div 2 \<le> 1073741824" using ra by linarith
    finally show ?thesis using abs_sdiv [of "sint a" "sint b"] by linarith
  qed
  then show "-2147483648 \<le> sint a sdiv sint b" "sint a sdiv sint b < 2147483648" by blast+
qed

text \<open>DIV leaves quotient and remainder of the signed operands in LO and HI: the dividend is LO times the divisor plus HI, and HI is smaller than the divisor in absolute value. It changes nothing for divisor 0, and the C program has no defined result exactly for -2^31 / -1, which the guard lets through.\<close>

theorem div_spec:
  "(exec_div a b st = None \<longleftrightarrow> a = 0x80000000 \<and> b = 0xFFFFFFFF) \<and>
   (b = 0 \<longrightarrow> exec_div a b st = Some st) \<and>
   (\<forall>st'. b \<noteq> 0 \<and> exec_div a b st = Some st' \<longrightarrow>
      sint a = sint (lo st') * sint b + sint (hi st') \<and> \<bar>sint (hi st')\<bar> < \<bar>sint b\<bar>)"
proof -
  have "sint a = sint (lo st') * sint b + sint (hi st') \<and> \<bar>sint (hi st')\<bar> < \<bar>sint b\<bar>"
    if b: "b \<noteq> 0" and e: "exec_div a b st = Some st'" for st'
  proof -
    have ne: "\<not> (a = 0x80000000 \<and> b = 0xFFFFFFFF)" using e b by (auto simp: exec_div_def)
    have b0: "sint b \<noteq> 0" using b sint32_eqI [of b 0] by auto
    have l: "sint (lo st') = sint a sdiv sint b"
      using e b ne sint32_word_of_int [OF sdiv_fits [OF b ne]] by (auto simp: exec_div_def)
    have m: "\<bar>sint a smod sint b\<bar> < \<bar>sint b\<bar>" by (rule abs_smod_less [OF b0])
    have "sint (word_of_int (sint a smod sint b) :: u32) = sint a smod sint b"
      using m sint32_range [of b] by (intro sint32_word_of_int) linarith+
    then have h: "sint (hi st') = sint a smod sint b" using e b ne by (auto simp: exec_div_def)
    show ?thesis unfolding l h using m by (simp add: sdiv_mult_smod_eq)
  qed
  then show ?thesis by (auto simp: exec_div_def)
qed

theorem div_spec_witness:
  "\<exists>st'. exec_div 7 0xFFFFFFFE (blank_iop ()) = Some st' \<and> 7 = sint (lo st') * -2 + sint (hi st') \<and> \<bar>sint (hi st')\<bar> < 2"
proof -
  have s: "sint (0xFFFFFFFE :: u32) = -2" "sint (7 :: u32) = 7" by simp_all
  obtain st' where e: "exec_div 7 0xFFFFFFFE (blank_iop ()) = Some st'" by (simp add: exec_div_def)
  have "sint (7 :: u32) = sint (lo st') * sint (0xFFFFFFFE :: u32) + sint (hi st') \<and> \<bar>sint (hi st')\<bar> < \<bar>sint (0xFFFFFFFE :: u32)\<bar>"
    using div_spec [of 7 "0xFFFFFFFE" "blank_iop ()"] e by simp
  then have "7 = sint (lo st') * -2 + sint (hi st') \<and> \<bar>sint (hi st')\<bar> < 2" unfolding s by simp
  with e show ?thesis by blast
qed

section \<open>Exception entry and return\<close>

lemma status_bits:
  "bit (status_push s) k \<longleftrightarrow> (if k < 2 then False else if k < 6 then bit s (k - 2) else bit s k)"
  "bit (status_pop s) k \<longleftrightarrow> (if k < 4 then bit s (k + 2) else bit s k)"
proof -
  have m: "(0x3F :: u32) = mask 6" "(0x0F :: u32) = mask 4" "(0x3C :: u32) = push_bit 2 (mask 4)"
    by (simp_all add: mask_eq_exp_minus_1 push_bit_eq_mult)
  show "bit (status_push s) k \<longleftrightarrow> (if k < 2 then False else if k < 6 then bit s (k - 2) else bit s k)"
    unfolding status_push_def m by (auto simp: bit_simps dest: bit_imp_le_length)
  show "bit (status_pop s) k \<longleftrightarrow> (if k < 4 then bit s (k + 2) else bit s k)"
    unfolding status_pop_def m by (auto simp: bit_simps dest: bit_imp_le_length)
qed

text \<open>Entering an exception disables interrupts, records the faulting address and vectors by the BEV bit; the return from exception restores every Status bit except the oldest pair (bits 4 and 5), which the three-deep stack loses, and ends the pending state.\<close>

theorem exception_round_trip:
  "\<not> bit (cop0 (raise_exc code a st) 12) 0 \<and> cop0 (raise_exc code a st) 14 = a \<and>
   pc (raise_exc code a st) = (if bit (cop0 st 12) 22 then 0xBFC00180 else 0x80000080) \<and>
   cop0 (rfe (raise_exc code a st)) 12 AND NOT 0x30 = cop0 st 12 AND NOT 0x30 \<and>
   \<not> exception_pending (rfe (raise_exc code a st)) \<and> gpr (rfe (raise_exc code a st)) = gpr st"
proof -
  have bev: "cop0 st 12 AND 0x400000 \<noteq> 0 \<longleftrightarrow> bit (cop0 st 12) 22"
    using bit_iff_and_push_bit_not_eq_0 [of "cop0 st 12" 22] by (simp add: push_bit_eq_mult)
  have m: "(0x30 :: u32) = push_bit 4 (mask 2)" by (simp add: mask_eq_exp_minus_1 push_bit_eq_mult)
  have "status_pop (status_push s) AND NOT 0x30 = s AND NOT 0x30" for s
    unfolding m by (rule bit_word_eqI) (auto simp: status_bits bit_simps)
  then show ?thesis
    by (simp add: raise_exc_def rfe_def go_def exc_vector_def bev status_bits)
qed

section \<open>Delay slots\<close>

text \<open>The target of a taken branch or jump, and the instructions that only compute.\<close>

definition taken :: "u32 \<Rightarrow> 'x iop_state \<Rightarrow> u32 option" where
  "taken i st =
     (let op = f_op i; a = gpr st (f_rs i); b = gpr st (f_rt i) in
      if op = 0 \<and> (f_funct i = 8 \<or> f_funct i = 9 \<and> cop0 st 15 \<noteq> 0x1F) then Some a
      else if op = 2 \<or> op = 3 then Some (jump_target (pc st) i)
      else if op = 1 \<and> (f_rt i = 0 \<and> sint a < 0 \<or> f_rt i = 1 \<and> sint a \<ge> 0) then Some (branch_target (pc st) i)
      else if op = 4 \<and> a = b \<or> op = 5 \<and> a \<noteq> b \<or> op = 6 \<and> sint a \<le> 0 \<or> op = 7 \<and> sint a > 0
        then Some (branch_target (pc st) i)
      else None)"

definition straight :: "u32 \<Rightarrow> bool" where
  "straight i \<longleftrightarrow> f_op i = 0 \<and> alu (f_funct i) 0 0 0 \<noteq> None \<or> 8 \<le> f_op i \<and> f_op i \<le> 15"

lemma pcs_frame [simp]: "pc (wr r v st) = pc st" "next_pc (wr r v st) = next_pc st" "pc (set_gpr r v st) = pc st"
  "next_pc (set_gpr r v st) = next_pc st" "pc (branch_to t st) = pc st" "next_pc (branch_to t st) = t"
  "gpr (branch_to t st) = gpr st"
  by (simp_all add: wr_def set_gpr_def branch_to_def)

lemma alu_defined: "alu f a b n = None \<longleftrightarrow> alu f 0 0 0 = None"
  by (simp add: alu_def)

lemma straight_steps:
  assumes "straight i" and "iop_run_instr bus i st = Some st'"
  shows "pc st' = next_pc st \<and> next_pc st' = next_pc st + 4"
proof -
  consider "f_op i = 0" "alu (f_funct i) 0 0 0 \<noteq> None" | "8 \<le> f_op i" "f_op i \<le> 15" using assms(1) by (auto simp: straight_def)
  then show ?thesis
  proof cases
    case 1
    then obtain v where "alu (f_funct i) (gpr st (f_rs i)) (gpr st (f_rt i)) (f_sa i) = Some v"
      by (metis alu_defined not_None_eq)
    with 1 assms(2) show ?thesis by (auto simp: iop_run_instr_def iop_exec_def exec_special_def Let_def)
  next
    case 2
    then have "f_op i \<noteq> 0" "f_op i \<noteq> 1" "f_op i \<noteq> 2" "f_op i \<noteq> 3" "f_op i \<noteq> 4" "f_op i \<noteq> 5" "f_op i \<noteq> 6" "f_op i \<noteq> 7"
      by (auto simp: word_le_nat_alt)
    with 2 assms(2) show ?thesis by (auto simp: iop_run_instr_def iop_exec_def exec_imm_def Let_def)
  qed
qed

lemma taken_steps:
  assumes "taken i st = Some t" and "iop_run_instr bus i st = Some st'"
  shows "pc st' = next_pc st \<and> next_pc st' = t"
proof -
  let ?st = "st\<lparr>pc := next_pc st, next_pc := next_pc st + 4\<rparr>"
  obtain s where s: "iop_exec bus i (pc st) ?st = Some s" "pc st' = pc s" "next_pc st' = next_pc s"
    using assms(2) by (auto simp: iop_run_instr_def)
  consider "f_op i = 0" "f_funct i = 8" "t = gpr st (f_rs i)" | "f_op i = 0" "f_funct i = 9" "cop0 st 15 \<noteq> 0x1F" "t = gpr st (f_rs i)"
    | "f_op i = 2 \<or> f_op i = 3" "t = jump_target (pc st) i"
    | "f_op i = 1" "f_rt i = 0 \<and> sint (gpr st (f_rs i)) < 0 \<or> f_rt i = 1 \<and> sint (gpr st (f_rs i)) \<ge> 0" "t = branch_target (pc st) i"
    | "f_op i = 4 \<and> gpr st (f_rs i) = gpr st (f_rt i) \<or> f_op i = 5 \<and> gpr st (f_rs i) \<noteq> gpr st (f_rt i) \<or>
        f_op i = 6 \<and> sint (gpr st (f_rs i)) \<le> 0 \<or> f_op i = 7 \<and> sint (gpr st (f_rs i)) > 0" "t = branch_target (pc st) i"
    using assms(1) unfolding taken_def Let_def by (auto split: if_splits)
  then have "pc s = next_pc st \<and> next_pc s = t"
  proof cases
    case 1
    with s(1) show ?thesis by (auto simp: iop_exec_def exec_special_def alu_def)
  next
    case 2
    with s(1) show ?thesis by (auto simp: iop_exec_def exec_special_def alu_def jalr_target_def)
  next
    case 3
    with s(1) show ?thesis by (auto simp: iop_exec_def exec_jal_def Let_def)
  next
    case 4
    with s(1) show ?thesis by (auto simp: iop_exec_def exec_regimm_def Let_def branch_if_def)
  next
    case 5
    with s(1) show ?thesis by (auto simp: iop_exec_def exec_branch_def Let_def branch_if_def)
  qed
  with s show ?thesis by simp
qed

text \<open>Branches and jumps have one delay slot: after a taken branch or jump the next instruction executed is the one in the slot, and when that instruction only computes, execution continues at the target.\<close>

theorem delay_slot:
  assumes "taken b st = Some t" and "iop_run_instr bus b st = Some st1"
    and "straight i" and "iop_run_instr bus i st1 = Some st2"
  shows "pc st1 = next_pc st \<and> pc st2 = t \<and> next_pc st2 = t + 4"
  using taken_steps [OF assms(1,2)] straight_steps [OF assms(3,4)] by simp

text \<open>A kernel call (SYSCALL with $v0 = 0x10 or 0x14) in the delay slot of a taken branch or jump loses the branch: the program continues after the slot instead of at the target.\<close>

theorem syscall_in_delay_slot:
  assumes "taken b st = Some t" and "iop_run_instr bus b st = Some st1" and "next_pc st = pc st + 4"
    and "f_op i = 0" and "f_funct i = 0x0C" and "gpr st1 2 = 0x10 \<or> gpr st1 2 = 0x14"
    and "iop_run_instr bus i st1 = Some st2"
  shows "pc st2 = pc st + 8 \<and> next_pc st2 = pc st + 12"
  using taken_steps [OF assms(1,2)] assms(3-7)
  by (auto simp: iop_run_instr_def iop_exec_def exec_special_def alu_def exec_syscall_def go_def Let_def set_gpr_def)


definition at_pc :: "u32 \<Rightarrow> u32 \<Rightarrow> unit iop_state" where
  "at_pc a v0 = (blank_iop ())\<lparr>pc := a, next_pc := a + 4, gpr := (\<lambda>_. 0)(2 := v0)\<rparr>"

lemma f_fields_jump:
  "f_op 0x08000800 = 2" "f_op 0x24420001 = 9" "f_rs 0x24420001 = 2" "f_rt 0x24420001 = 2" "f_imm 0x24420001 = 1"
  "f_op 0x0C = 0" "f_funct 0x0C = 0x0C"
  by (simp_all add: f_op_def f_rs_def f_rt_def f_imm_def f_funct_def)

lemma jump_example: "taken 0x08000800 (at_pc 0x1000 v) = Some 0x2000"
  "iop_run_instr no_devices 0x08000800 (at_pc 0x1000 v)
     = Some (set_gpr 0 0 ((at_pc 0x1000 v)\<lparr>pc := 0x1004, next_pc := 0x2000\<rparr>))"
  by (simp_all add: taken_def iop_run_instr_def iop_exec_def f_fields_jump jump_target_def branch_to_def at_pc_def set_gpr_def)

theorem delay_slot_witness:
  "map_option pc (Option.bind (iop_run_instr no_devices 0x08000800 (at_pc 0x1000 5))
     (iop_run_instr no_devices 0x24420001)) = Some 0x2000"
proof -
  let ?st1 = "set_gpr 0 0 ((at_pc 0x1000 5)\<lparr>pc := 0x1004, next_pc := 0x2000\<rparr>)"
  obtain st2 where r: "iop_run_instr no_devices 0x24420001 ?st1 = Some st2"
    by (simp add: iop_run_instr_def iop_exec_def f_fields_jump)
  have "straight 0x24420001" by (simp add: straight_def f_fields_jump)
  from delay_slot [OF jump_example this r] r jump_example(2) [of 5] show ?thesis by simp
qed

theorem syscall_in_delay_slot_witness:
  "map_option pc (Option.bind (iop_run_instr no_devices 0x08000800 (at_pc 0x1000 0x10))
     (iop_run_instr no_devices 0x0C)) = Some 0x1008"
proof -
  let ?st1 = "set_gpr 0 0 ((at_pc 0x1000 0x10)\<lparr>pc := 0x1004, next_pc := 0x2000\<rparr>)"
  obtain st2 where r: "iop_run_instr no_devices 0x0C ?st1 = Some st2"
    by (simp add: iop_run_instr_def iop_exec_def f_fields_jump exec_special_def alu_def)
  have "gpr ?st1 2 = 0x10" "next_pc (at_pc 0x1000 0x10) = pc (at_pc 0x1000 0x10) + 4" "pc (at_pc 0x1000 0x10) = 0x1000"
    by (simp_all add: set_gpr_def at_pc_def)
  with syscall_in_delay_slot [OF jump_example _ _ _ _ r] r jump_example(2) [of "0x10"] show ?thesis
    by (simp add: f_fields_jump)
qed

end
