(* ===== verification/Iop_Events.thy ===== *)
theory Iop_Events
  imports Iop_Mem
begin

text \<open>
  The event control blocks of the BIOS calls, \<open>source/hw/iop_hle_events.c\<close>, and the IRX module
  registry, \<open>source/hw/iop_hle_modules.c\<close>.

  The table \<open>g_evcb\<close> is a function from event and specification index; the clamps keep every
  access inside 512 by 18. A call maps the table and the processor state to the pair after it.
\<close>

section \<open>Event control blocks\<close>

abbreviation (input) EV_UNUSED :: u32 where "EV_UNUSED \<equiv> 0x0000"
abbreviation (input) EV_WAIT :: u32 where "EV_WAIT \<equiv> 0x1000"
abbreviation (input) EV_ACTIVE :: u32 where "EV_ACTIVE \<equiv> 0x2000"
abbreviation (input) EV_ALREADY :: u32 where "EV_ALREADY \<equiv> 0x4000"
abbreviation (input) EV_MODE_INTR :: u32 where "EV_MODE_INTR \<equiv> 0x1000"
abbreviation (input) EV_MODE_NOINTR :: u32 where "EV_MODE_NOINTR \<equiv> 0x2000"

record evcb =
  ev_status :: u32
  ev_mode :: u32
  ev_fhandler :: u32

type_synonym evtable = "int \<Rightarrow> int \<Rightarrow> evcb"

definition iop_hle_events_init :: evtable where
  "iop_hle_events_init = (\<lambda>_ _. \<lparr>ev_status = 0, ev_mode = 0, ev_fhandler = 0\<rparr>)"

definition ev_set :: "int \<Rightarrow> int \<Rightarrow> evcb \<Rightarrow> evtable \<Rightarrow> evtable" where
  "ev_set ev sp e t = t(ev := (t ev)(sp := e))"

definition hash_ev :: "u32 \<Rightarrow> int" where
  "hash_ev class_code =
     (let e = uint (drop_bit 24 class_code AND 0xF); e1 = (if e = 0xF then 5 else e)
      in e1 * 32 + uint (class_code AND 0x1F))"

definition hash_spec :: "u32 \<Rightarrow> int" where
  "hash_spec spec_mask =
     (if spec_mask = 0x0301 then 16
      else if spec_mask = 0x0302 then 17
      else case list_find_index (\<lambda>i. spec_mask AND push_bit i 1 \<noteq> 0) [0..<16] of
             Some i \<Rightarrow> int i
           | None \<Rightarrow> 0)"

definition clamp_ev :: "int \<Rightarrow> int" where
  "clamp_ev ev = (if ev < 0 \<or> ev \<ge> 512 then 0 else ev)"

definition clamp_spec :: "int \<Rightarrow> int" where
  "clamp_spec sp = (if sp < 0 \<or> sp \<ge> 18 then 0 else sp)"

definition deliver_ev_spec :: "int \<Rightarrow> int \<Rightarrow> evtable \<Rightarrow> evtable" where
  "deliver_ev_spec ev0 sp0 t =
     (let ev = clamp_ev ev0; sp = clamp_spec sp0; e = t ev sp in
      if ev_status e \<noteq> EV_ACTIVE then t
      else if ev_mode e = EV_MODE_INTR then t
      else ev_set ev sp (e\<lparr>ev_status := EV_ALREADY\<rparr>) t)"

definition result :: "u32 \<Rightarrow> 'x iop_state \<Rightarrow> 'x iop_state" where
  "result v st = st\<lparr>gpr := (gpr st)(2 := v)\<rparr>"

definition iop_hle_event_deliver :: "evtable \<times> 'x iop_state \<Rightarrow> evtable \<times> 'x iop_state" where
  "iop_hle_event_deliver = (\<lambda>(t, st). (deliver_ev_spec (hash_ev (gpr st 4)) (hash_spec (gpr st 5)) t, result 0 st))"

definition iop_hle_event_deliver_raw :: "u32 \<Rightarrow> u32 \<Rightarrow> evtable \<Rightarrow> evtable" where
  "iop_hle_event_deliver_raw class_code spec_mask t = deliver_ev_spec (hash_ev class_code) (hash_spec spec_mask) t"

definition iop_hle_event_open :: "evtable \<times> 'x iop_state \<Rightarrow> evtable \<times> 'x iop_state" where
  "iop_hle_event_open = (\<lambda>(t, st).
     let ev = clamp_ev (hash_ev (gpr st 4)); sp = clamp_spec (hash_spec (gpr st 5)) in
     (ev_set ev sp \<lparr>ev_status = EV_WAIT, ev_mode = gpr st 6, ev_fhandler = gpr st 7\<rparr> t,
      result (word_of_int ev OR push_bit 8 (word_of_int sp)) st))"

text \<open>The two indices a handle stands for.\<close>

definition handle_ev :: "u32 \<Rightarrow> int" where
  "handle_ev h = clamp_ev (uint (h AND 0xFF))"

definition handle_spec :: "u32 \<Rightarrow> int" where
  "handle_spec h = clamp_spec (uint (drop_bit 8 h AND 0xFF))"

definition ev_set_status :: "u32 \<Rightarrow> u32 \<Rightarrow> evtable \<Rightarrow> evtable" where
  "ev_set_status h s t = ev_set (handle_ev h) (handle_spec h) ((t (handle_ev h) (handle_spec h))\<lparr>ev_status := s\<rparr>) t"

definition iop_hle_event_close :: "evtable \<times> 'x iop_state \<Rightarrow> evtable \<times> 'x iop_state" where
  "iop_hle_event_close = (\<lambda>(t, st). (ev_set_status (gpr st 4) EV_UNUSED t, result 1 st))"

definition iop_hle_event_wait :: "evtable \<times> 'x iop_state \<Rightarrow> evtable \<times> 'x iop_state" where
  "iop_hle_event_wait = (\<lambda>(t, st). (ev_set_status (gpr st 4) EV_ACTIVE t, result 1 st))"

definition iop_hle_event_test :: "evtable \<times> 'x iop_state \<Rightarrow> evtable \<times> 'x iop_state" where
  "iop_hle_event_test = (\<lambda>(t, st).
     if ev_status (t (handle_ev (gpr st 4)) (handle_spec (gpr st 4))) = EV_ALREADY
     then (ev_set_status (gpr st 4) EV_ACTIVE t, result 1 st)
     else (t, result 0 st))"

definition iop_hle_event_enable :: "evtable \<times> 'x iop_state \<Rightarrow> evtable \<times> 'x iop_state" where
  "iop_hle_event_enable = (\<lambda>(t, st). (ev_set_status (gpr st 4) EV_ACTIVE t, result 1 st))"

definition iop_hle_event_disable :: "evtable \<times> 'x iop_state \<Rightarrow> evtable \<times> 'x iop_state" where
  "iop_hle_event_disable = (\<lambda>(t, st). (ev_set_status (gpr st 4) EV_WAIT t, result 1 st))"

definition iop_hle_event_undeliver :: "evtable \<times> 'x iop_state \<Rightarrow> evtable \<times> 'x iop_state" where
  "iop_hle_event_undeliver = (\<lambda>(t, st).
     let ev = clamp_ev (hash_ev (gpr st 4)); sp = clamp_spec (hash_spec (gpr st 5)); e = t ev sp in
     (if ev_status e = EV_ALREADY \<and> ev_mode e = EV_MODE_NOINTR then ev_set ev sp (e\<lparr>ev_status := EV_ACTIVE\<rparr>) t else t,
      result 0 st))"

section \<open>The module registry\<close>

text \<open>
  At most \<open>IOP_HLE_MAX_MODULES\<close> entries, found by the first \<open>IOP_HLE_MODULE_NAME_MAX\<close> characters
  (\<open>strncmp\<close>) and stored cut to one less. A name is the C string before its terminator.
\<close>

record hle_module =
  mod_name :: string
  mod_version :: u32

definition find_module :: "string \<Rightarrow> hle_module list \<Rightarrow> nat option" where
  "find_module name reg = list_find_index (\<lambda>e. take 32 (mod_name e) = take 32 name) reg"

text \<open>\<open>None\<close> is the null pointer. The result is the C function's 1 or 0.\<close>

definition iop_hle_module_register :: "string option \<Rightarrow> u32 \<Rightarrow> hle_module list \<Rightarrow> bool \<times> hle_module list" where
  "iop_hle_module_register name version reg =
     (case name of
        None \<Rightarrow> (False, reg)
      | Some nm \<Rightarrow>
          if nm = [] then (False, reg)
          else case find_module nm reg of
                 Some i \<Rightarrow> (True, reg[i := (reg ! i)\<lparr>mod_version := version\<rparr>])
               | None \<Rightarrow> if length reg \<ge> 32 then (False, reg)
                          else (True, reg @ [\<lparr>mod_name = take 31 nm, mod_version = version\<rparr>]))"

definition iop_hle_module_is_registered :: "string option \<Rightarrow> hle_module list \<Rightarrow> u32 option" where
  "iop_hle_module_is_registered name reg =
     (case name of
        None \<Rightarrow> None
      | Some nm \<Rightarrow> map_option (\<lambda>i. mod_version (reg ! i)) (find_module nm reg))"

section \<open>Properties\<close>

lemma hash_ev_range: "0 \<le> hash_ev c" "hash_ev c < 480"
proof -
  have "uint (drop_bit 24 c AND 0xF) \<le> 15" "uint (c AND 0x1F) \<le> 31"
    by (simp_all add: uint_and flip: mask_eq_exp_minus_1)
  then show "0 \<le> hash_ev c" "hash_ev c < 480" by (auto simp: hash_ev_def Let_def)
qed

lemma hash_spec_range: "0 \<le> hash_spec s" "hash_spec s < 18"
  by (auto simp: hash_spec_def split: option.split dest!: list_find_index_Some)


lemma clamp_id [simp]: "clamp_ev (hash_ev c) = hash_ev c" "clamp_spec (hash_spec s) = hash_spec s"
  using hash_ev_range [of c] hash_spec_range [of s] by (simp_all add: clamp_ev_def clamp_spec_def)

text \<open>The handle that OpenEvent returns.\<close>

definition ev_handle :: "u32 \<Rightarrow> u32 \<Rightarrow> u32" where
  "ev_handle c s = word_of_int (hash_ev c) OR push_bit 8 (word_of_int (hash_spec s))"

lemma unat_word_of_int32: "0 \<le> k \<Longrightarrow> k < 4294967296 \<Longrightarrow> unat (word_of_int k :: u32) = nat k"
  by (simp add: unsigned_of_int take_bit_int_eq_self)

lemma byte_mask: "unat ((w :: u32) AND 0xFF) = unat w mod 256"
proof -
  have m: "(0xFF :: u32) = mask 8" by (simp add: mask_eq_exp_minus_1)
  show ?thesis unfolding m and_mask_eq unat_take_bit by simp
qed

lemma ev_handle_fields:
  assumes "hash_ev c < 256"
  shows "handle_ev (ev_handle c s) = hash_ev c" and "handle_spec (ev_handle c s) = hash_spec s"
proof -
  note e = hash_ev_range [of c] and p = hash_spec_range [of s]
  have ue: "unat (word_of_int (hash_ev c) :: u32) = nat (hash_ev c)" by (rule unat_word_of_int32) (use e in linarith)+
  have up: "unat (word_of_int (hash_spec s) :: u32) = nat (hash_spec s)" by (rule unat_word_of_int32) (use p in linarith)+
  have h: "unat (ev_handle c s) = nat (hash_ev c) + 2 ^ 8 * nat (hash_spec s)"
    unfolding ev_handle_def using unat_or_push [of "word_of_int (hash_ev c) :: u32" 8 "word_of_int (hash_spec s)"] ue up assms p
    by (simp add: nat_less_iff)
  have "unat (ev_handle c s AND 0xFF) = nat (hash_ev c)"
    unfolding byte_mask h using assms e by (simp add: nat_less_iff)
  then have "uint (ev_handle c s AND 0xFF) = hash_ev c" using e(1) by (simp add: uint_nat)
  then show "handle_ev (ev_handle c s) = hash_ev c" by (simp add: handle_ev_def)
  have "unat (drop_bit 8 (ev_handle c s) AND 0xFF) = nat (hash_spec s)"
    unfolding byte_mask unat_drop_bit h using assms e p by (simp add: nat_less_iff)
  then have "uint (drop_bit 8 (ev_handle c s) AND 0xFF) = hash_spec s" using p(1) by (simp add: uint_nat)
  then show "handle_spec (ev_handle c s) = hash_spec s" by (simp add: handle_spec_def)
qed

lemma ev_set_same [simp]: "ev_set e s x t e s = x" "ev_set e s x (ev_set e s y t) = ev_set e s x t"
  by (simp_all add: ev_set_def)

definition call1 :: "u32 \<Rightarrow> 'x iop_state \<Rightarrow> 'x iop_state" where
  "call1 a0 st = st\<lparr>gpr := (gpr st)(4 := a0)\<rparr>"

text \<open>C29: The life of an event whose index fits its handle: opened (not for interrupt mode) and enabled through the handle OpenEvent returned, it is not seen by TestEvent until it is delivered; after a delivery TestEvent reports it once, and not again.\<close>

theorem event_reported_once:
  assumes "hash_ev (gpr st 4) < 256" and "gpr st 6 \<noteq> EV_MODE_INTR"
    and "iop_hle_event_open (t, st) = (t1, st1)" and "gpr st1 2 = h"
    and "iop_hle_event_enable (t1, call1 h st1) = (t2, st2)"
    and "iop_hle_event_deliver_raw (gpr st 4) (gpr st 5) t2 = t3"
    and "iop_hle_event_test (t3, call1 h st2) = (t4, st4)"
    and "iop_hle_event_test (t4, call1 h st4) = (t5, st5)"
  shows "gpr (snd (iop_hle_event_test (t2, call1 h st2))) 2 = 0 \<and> gpr st4 2 = 1 \<and> gpr st5 2 = 0"
proof -
  let ?e = "hash_ev (gpr st 4)" and ?s = "hash_spec (gpr st 5)"
  have t1: "t1 = ev_set ?e ?s \<lparr>ev_status = EV_WAIT, ev_mode = gpr st 6, ev_fhandler = gpr st 7\<rparr> t"
    and h: "h = ev_handle (gpr st 4) (gpr st 5)"
    using assms(3,4) by (auto simp: iop_hle_event_open_def ev_handle_def result_def Let_def)
  note hf = ev_handle_fields [OF assms(1), of "gpr st 5", folded h]
  have t2: "t2 = ev_set ?e ?s \<lparr>ev_status = EV_ACTIVE, ev_mode = gpr st 6, ev_fhandler = gpr st 7\<rparr> t"
    using assms(5) hf by (auto simp: iop_hle_event_enable_def ev_set_status_def call1_def t1)
  have t3: "t3 = ev_set ?e ?s \<lparr>ev_status = EV_ALREADY, ev_mode = gpr st 6, ev_fhandler = gpr st 7\<rparr> t"
    using assms(2,6) by (auto simp: iop_hle_event_deliver_raw_def deliver_ev_spec_def t2 Let_def)
  have t4: "t4 = t2" "gpr st4 2 = 1"
    using assms(7) hf by (auto simp: iop_hle_event_test_def call1_def t2 t3 ev_set_status_def result_def)
  have "gpr st5 2 = 0"
    using assms(8) hf by (auto simp: iop_hle_event_test_def call1_def t2 t4(1) result_def)
  with t4 show ?thesis using hf by (simp add: iop_hle_event_test_def call1_def t2 result_def)
qed

theorem event_reported_once_witness:
  "\<exists>t1 st1 t2 st2 t4 st4. iop_hle_event_open (iop_hle_events_init, (blank_iop ())\<lparr>gpr := (\<lambda>_. 0)(4 := 0xF0000003, 5 := 0x10, 6 := 0x2000)\<rparr>) = (t1, st1) \<and>
     iop_hle_event_enable (t1, call1 (gpr st1 2) st1) = (t2, st2) \<and>
     iop_hle_event_test (iop_hle_event_deliver_raw 0xF0000003 0x10 t2, call1 (gpr st1 2) st2) = (t4, st4) \<and> gpr st4 2 = 1"
proof -
  let ?st = "(blank_iop ())\<lparr>gpr := (\<lambda>_. 0)(4 := 0xF0000003, 5 := 0x10, 6 := 0x2000)\<rparr>"
  obtain t1 st1 where o: "iop_hle_event_open (iop_hle_events_init, ?st) = (t1, st1)" by force
  obtain t2 st2 where e: "iop_hle_event_enable (t1, call1 (gpr st1 2) st1) = (t2, st2)" by force
  obtain t4 st4 where q: "iop_hle_event_test (iop_hle_event_deliver_raw (gpr ?st 4) (gpr ?st 5) t2, call1 (gpr st1 2) st2) = (t4, st4)" by force
  obtain t5 st5 where q2: "iop_hle_event_test (t4, call1 (gpr st1 2) st4) = (t5, st5)" by force
  have "hash_ev (gpr ?st 4) < 256" by (simp add: hash_ev_def)
  from event_reported_once [OF this _ o refl e refl q q2] have r: "gpr st4 2 = 1" by simp
  have "iop_hle_event_test (iop_hle_event_deliver_raw 0xF0000003 0x10 t2, call1 (gpr st1 2) st2) = (t4, st4)"
    using q by simp
  then show ?thesis by (intro exI conjI) (rule o, rule e, assumption, rule r)
qed

text \<open>A class code whose hash is 256 or more does not fit the low byte of the handle: the handle that OpenEvent returns stands for a different control block than the one it opened.\<close>

theorem event_handle_alias:
  assumes "256 \<le> hash_ev c"
  shows "handle_ev (ev_handle c s) \<noteq> hash_ev c"
proof -
  have "unat (ev_handle c s AND 0xFF) < 256" unfolding byte_mask by simp
  then have "uint (ev_handle c s AND 0xFF) < 256" unfolding uint_nat by linarith
  with assms show ?thesis by (auto simp: handle_ev_def clamp_ev_def)
qed

theorem event_handle_alias_witness: "handle_ev (ev_handle 0xF8000000 1) \<noteq> 256"
  using event_handle_alias [of "0xF8000000" 1] by (simp add: hash_ev_def)

lemma find_index_append: "list_find_index p xs = None \<Longrightarrow>
    list_find_index p (xs @ [x]) = (if p x then Some (length xs) else None)"
  by (induction xs) (auto split: if_splits)

lemma find_index_update: "i < length xs \<Longrightarrow> p x = p (xs ! i) \<Longrightarrow> list_find_index p (xs[i := x]) = list_find_index p xs"
  by (induction xs arbitrary: i) (auto split: nat.split)

text \<open>A registered module is found again with the version of its last registration; but a name of 32 or more characters is stored cut to 31 and is not found.\<close>

theorem module_register_lookup:
  assumes "iop_hle_module_register (Some nm) v reg = (True, reg')"
  shows "(length nm < 32 \<longrightarrow> iop_hle_module_is_registered (Some nm) reg' = Some v) \<and>
    (32 \<le> length nm \<and> find_module nm reg = None \<longrightarrow> iop_hle_module_is_registered (Some nm) reg' = None)"
proof (cases "find_module nm reg")
  case None
  then have "reg' = reg @ [\<lparr>mod_name = take 31 nm, mod_version = v\<rparr>]"
    using assms by (auto simp: iop_hle_module_register_def split: if_splits)
  moreover have "take 32 (take 31 nm) = take 32 nm \<longleftrightarrow> length nm < 32"
  proof
    assume "take 32 (take 31 nm) = take 32 nm"
    then have "length (take 32 (take 31 nm)) = length (take 32 nm)" by (rule arg_cong)
    then show "length nm < 32" by simp
  qed simp
  ultimately have "find_module nm reg' = (if length nm < 32 then Some (length reg) else None)"
    and "reg' ! length reg = \<lparr>mod_name = take 31 nm, mod_version = v\<rparr>"
    using None by (simp_all add: find_module_def find_index_append)
  then show ?thesis by (simp add: iop_hle_module_is_registered_def)
next
  case (Some i)
  then have i: "i < length reg" and r: "reg' = reg[i := (reg ! i)\<lparr>mod_version := v\<rparr>]"
    using assms list_find_index_Some [of _ reg i]
    by (auto simp: iop_hle_module_register_def find_module_def split: if_splits)
  have "find_module nm reg' = Some i"
    using Some i by (simp add: r find_module_def find_index_update)
  with Some i show ?thesis by (simp add: iop_hle_module_is_registered_def r)
qed

theorem module_register_lookup_witness:
  "iop_hle_module_is_registered (Some ''sifman'') (snd (iop_hle_module_register (Some ''sifman'') 0x101 [])) = Some 0x101"
  using module_register_lookup [of "''sifman''" "0x101" "[]"]
  by (simp add: iop_hle_module_register_def find_module_def)

end
