(* ===== verification/Ee_Dma.thy ===== *)
theory Ee_Dma
  imports Prelude
begin

text \<open>
  The EE DMA controller, \<open>source/hw/dma.c\<close>: channel registers, the resolution of a DMA address
  to main memory or scratchpad, the normal and chain transfer modes, completion status and the
  memory-mapped registers.

  The devices that consume a channel's data (\<open>g_sinks\<close>) are an argument: a sink gets the
  channel, the host pointer and the number of quadwords and may change the whole state. A host
  pointer is an offset into one of the two buffers.
\<close>

section \<open>State\<close>

record dma_channel =
  ch_chcr :: u32
  ch_madr :: u32
  ch_qwc :: u32
  ch_tadr :: u32
  ch_asr0 :: u32
  ch_asr1 :: u32
  ch_sadr :: u32
  last_error :: u32
  quadwords_transferred :: u32

record 'w ee_dma =
  chan :: "dma_channel list"
  d_ctrl :: u32
  d_stat :: u32
  d_pcr :: u32
  d_sqwc :: u32
  d_rbsr :: u32
  d_rbor :: u32
  d_stadr :: u32
  d_enable_state :: u32
  ee_ram :: "(u32 \<Rightarrow> u8) option"
  ee_ram_size :: u32
  ee_scratch :: "(u32 \<Rightarrow> u8) option"
  ee_scratch_size :: u32
  dworld :: 'w

datatype dma_ptr = Ram_At u32 | Scratch_At u32

type_synonym 'w dma_sink = "nat \<Rightarrow> dma_ptr \<Rightarrow> u32 \<Rightarrow> 'w ee_dma \<Rightarrow> 'w ee_dma"
type_synonym 'w dma_sinks = "nat \<Rightarrow> 'w dma_sink option"

abbreviation (input) DMA_CHANNEL_COUNT :: nat where "DMA_CHANNEL_COUNT \<equiv> 10"
abbreviation (input) DMA_ERR_NONE :: u32 where "DMA_ERR_NONE \<equiv> 0"
abbreviation (input) DMA_ERR_UNSUPPORTED_TAG :: u32 where "DMA_ERR_UNSUPPORTED_TAG \<equiv> 1"
abbreviation (input) DMA_ERR_NO_RAM_BOUND :: u32 where "DMA_ERR_NO_RAM_BOUND \<equiv> 2"
abbreviation (input) DMA_ERR_OUT_OF_BOUNDS :: u32 where "DMA_ERR_OUT_OF_BOUNDS \<equiv> 3"
abbreviation (input) EE_SCRATCH_SIZE :: u32 where "EE_SCRATCH_SIZE \<equiv> 0x4000"
abbreviation (input) MAX_TAGS_PER_KICK :: nat where "MAX_TAGS_PER_KICK \<equiv> 4096"

definition zero_channel :: dma_channel where
  "zero_channel = \<lparr>ch_chcr = 0, ch_madr = 0, ch_qwc = 0, ch_tadr = 0, ch_asr0 = 0, ch_asr1 = 0, ch_sadr = 0,
     last_error = 0, quadwords_transferred = 0\<rparr>"

text \<open>\<open>dma_init\<close> clears the registers and the sinks and leaves the bound buffers alone.\<close>

definition dma_init :: "'w ee_dma \<Rightarrow> 'w ee_dma \<times> 'w dma_sinks" where
  "dma_init s = (s\<lparr>chan := replicate DMA_CHANNEL_COUNT zero_channel, d_ctrl := 0, d_stat := 0, d_pcr := 0, d_sqwc := 0,
      d_rbsr := 0, d_rbor := 0, d_stadr := 0, d_enable_state := 0x1201\<rparr>, \<lambda>_. None)"

definition dma_bind_ee_ram :: "(u32 \<Rightarrow> u8) option \<Rightarrow> u32 \<Rightarrow> 'w ee_dma \<Rightarrow> 'w ee_dma" where
  "dma_bind_ee_ram r n s = s\<lparr>ee_ram := r, ee_ram_size := n\<rparr>"

definition dma_bind_scratchpad :: "(u32 \<Rightarrow> u8) option \<Rightarrow> u32 \<Rightarrow> 'w ee_dma \<Rightarrow> 'w ee_dma" where
  "dma_bind_scratchpad r n s = s\<lparr>ee_scratch := r, ee_scratch_size := n\<rparr>"

definition dma_set_sink :: "int \<Rightarrow> 'w dma_sink option \<Rightarrow> 'w dma_sinks \<Rightarrow> 'w dma_sinks" where
  "dma_set_sink channel f sinks = (if 0 \<le> channel \<and> channel < 10 then sinks(nat channel := f) else sinks)"

definition upd_chan :: "nat \<Rightarrow> (dma_channel \<Rightarrow> dma_channel) \<Rightarrow> 'w ee_dma \<Rightarrow> 'w ee_dma" where
  "upd_chan c f s = s\<lparr>chan := (chan s)[c := f (chan s ! c)]\<rparr>"

section \<open>Addresses\<close>

definition dma_resolve_ptr :: "u32 \<Rightarrow> u32 \<Rightarrow> 'w ee_dma \<Rightarrow> dma_ptr option" where
  "dma_resolve_ptr raw len s =
     (let addr = raw AND 0x7FFFFFFF in
      if raw AND 0x80000000 \<noteq> 0 then
        if ee_scratch s = None then None
        else let off = addr AND (EE_SCRATCH_SIZE - 1) in
          if off + len > ee_scratch_size s \<or> off + len > EE_SCRATCH_SIZE then None else Some (Scratch_At off)
      else if ee_ram s = None \<or> addr + len > ee_ram_size s then None
      else Some (Ram_At addr))"

definition ptr_byte :: "'w ee_dma \<Rightarrow> dma_ptr \<Rightarrow> u32 \<Rightarrow> u8" where
  "ptr_byte s p i = (case p of
       Ram_At a \<Rightarrow> (case ee_ram s of Some m \<Rightarrow> m (a + i) | None \<Rightarrow> 0)
     | Scratch_At a \<Rightarrow> (case ee_scratch s of Some m \<Rightarrow> m (a + i) | None \<Rightarrow> 0))"

definition ram_read32 :: "u32 \<Rightarrow> 'w ee_dma \<Rightarrow> u32 option" where
  "ram_read32 raw s = (case dma_resolve_ptr raw 4 s of
       None \<Rightarrow> None
     | Some p \<Rightarrow> Some (ucast (ptr_byte s p 0) OR push_bit 8 (ucast (ptr_byte s p 1)) OR
         push_bit 16 (ucast (ptr_byte s p 2)) OR push_bit 24 (ucast (ptr_byte s p 3))))"

definition ram_ptr :: "u32 \<Rightarrow> u32 \<Rightarrow> 'w ee_dma \<Rightarrow> dma_ptr option" where
  "ram_ptr raw len s = dma_resolve_ptr raw len s"

section \<open>Transfers\<close>

definition transfer_quadwords :: "'w dma_sinks \<Rightarrow> nat \<Rightarrow> u32 \<Rightarrow> u32 \<Rightarrow> 'w ee_dma \<Rightarrow> bool \<times> 'w ee_dma" where
  "transfer_quadwords sinks c addr qwc s =
     (if qwc = 0 then (True, s)
      else case ram_ptr addr (qwc * 16) s of
        None \<Rightarrow> (False, s)
      | Some p \<Rightarrow>
          (True, upd_chan c (\<lambda>ch. ch\<lparr>quadwords_transferred := quadwords_transferred ch + qwc\<rparr>)
             (case sinks c of Some f \<Rightarrow> f c p qwc s | None \<Rightarrow> s)))"

text \<open>The quadword count, the tag id and the address word; the interrupt bit is read and not used.\<close>

definition read_chain_tag :: "u32 \<Rightarrow> 'w ee_dma \<Rightarrow> (u32 \<times> u32 \<times> u32) option" where
  "read_chain_tag t s = (case ram_read32 t s of
       None \<Rightarrow> None
     | Some ctrl \<Rightarrow> (case ram_read32 (t + 4) s of
         None \<Rightarrow> None
       | Some w \<Rightarrow> Some (ctrl AND 0xFFFF, drop_bit 28 ctrl AND 7, w)))"

definition dma_channel_signal_done :: "int \<Rightarrow> 'w ee_dma \<Rightarrow> 'w ee_dma" where
  "dma_channel_signal_done channel s =
     (if channel < 0 \<or> channel \<ge> 10 then s else s\<lparr>d_stat := d_stat s OR push_bit (nat channel) 1\<rparr>)"

definition set_error :: "nat \<Rightarrow> u32 \<Rightarrow> 'w ee_dma \<Rightarrow> 'w ee_dma" where
  "set_error c e = upd_chan c (\<lambda>ch. ch\<lparr>last_error := e\<rparr>)"

definition clear_str :: "nat \<Rightarrow> 'w ee_dma \<Rightarrow> 'w ee_dma" where
  "clear_str c = upd_chan c (\<lambda>ch. ch\<lparr>ch_chcr := ch_chcr ch AND NOT 0x100\<rparr>)"

definition set_tadr :: "nat \<Rightarrow> (u32 \<Rightarrow> u32) \<Rightarrow> 'w ee_dma \<Rightarrow> 'w ee_dma" where
  "set_tadr c f = upd_chan c (\<lambda>ch. ch\<lparr>ch_tadr := f (ch_tadr ch)\<rparr>)"

text \<open>
  The chain walk; the number counts the remaining turns of the loop. A tag that cannot be read
  leaves the loop like the exhausted guard does, which stores its own error code last.
\<close>

fun chain_walk :: "'w dma_sinks \<Rightarrow> nat \<Rightarrow> nat \<Rightarrow> 'w ee_dma \<Rightarrow> 'w ee_dma" where
  "chain_walk sinks c 0 s = clear_str c (set_error c DMA_ERR_UNSUPPORTED_TAG s)"
| "chain_walk sinks c (Suc n) s =
     (let t = ch_tadr (chan s ! c) in
      case read_chain_tag t s of
        None \<Rightarrow> clear_str c (set_error c DMA_ERR_UNSUPPORTED_TAG (set_error c DMA_ERR_OUT_OF_BOUNDS s))
      | Some (qwc, tid, addr) \<Rightarrow>
          if tid = 0 then
            let (ok, s1) = transfer_quadwords sinks c addr qwc s in
            dma_channel_signal_done (int c) (clear_str c (set_tadr c (\<lambda>t. t + 16)
              (if ok then s1 else set_error c DMA_ERR_OUT_OF_BOUNDS s1)))
          else if tid = 1 then
            let (ok, s1) = transfer_quadwords sinks c (t + 16) qwc s in
            if ok then chain_walk sinks c n (set_tadr c (\<lambda>t. t + 16 + qwc * 16) s1)
            else set_error c DMA_ERR_OUT_OF_BOUNDS s1
          else if tid = 2 then
            let (ok, s1) = transfer_quadwords sinks c (t + 16) qwc s in
            if ok then chain_walk sinks c n (set_tadr c (\<lambda>_. addr) s1)
            else set_error c DMA_ERR_OUT_OF_BOUNDS s1
          else if tid = 7 then
            let (ok, s1) = transfer_quadwords sinks c (t + 16) qwc s in
            dma_channel_signal_done (int c) (clear_str c (set_tadr c (\<lambda>t. t + (16 + qwc * 16))
              (if ok then s1 else set_error c DMA_ERR_OUT_OF_BOUNDS s1)))
          else if tid = 3 \<or> tid = 4 then
            let (ok, s1) = transfer_quadwords sinks c addr qwc s in
            if ok then chain_walk sinks c n (set_tadr c (\<lambda>t. t + 16) s1)
            else set_error c DMA_ERR_OUT_OF_BOUNDS s1
          else clear_str c (set_error c DMA_ERR_UNSUPPORTED_TAG s))"

definition normal_transfer :: "'w dma_sinks \<Rightarrow> nat \<Rightarrow> 'w ee_dma \<Rightarrow> 'w ee_dma" where
  "normal_transfer sinks c s =
     (let (ok, s1) = transfer_quadwords sinks c (ch_madr (chan s ! c)) (ch_qwc (chan s ! c)) s;
          s2 = (if ok then upd_chan c (\<lambda>ch. ch\<lparr>ch_madr := ch_madr ch + ch_qwc ch * 16, ch_qwc := 0\<rparr>) s1
                else set_error c DMA_ERR_OUT_OF_BOUNDS s1)
      in dma_channel_signal_done (int c) (clear_str c s2))"

definition dma_channel_kick :: "'w dma_sinks \<Rightarrow> int \<Rightarrow> 'w ee_dma \<Rightarrow> 'w ee_dma" where
  "dma_channel_kick sinks channel s =
     (if channel < 0 \<or> channel \<ge> 10 then s
      else let c = nat channel; s1 = set_error c DMA_ERR_NONE s in
        if ee_ram s1 = None then clear_str c (set_error c DMA_ERR_NO_RAM_BOUND s1)
        else let md = drop_bit 2 (ch_chcr (chan s1 ! c)) AND 3 in
          if md = 0 then normal_transfer sinks c s1
          else if md = 1 then chain_walk sinks c MAX_TAGS_PER_KICK s1
          else clear_str c (set_error c DMA_ERR_UNSUPPORTED_TAG s1))"

definition copy_bytes :: "nat \<Rightarrow> (u32 \<Rightarrow> u8) \<Rightarrow> u32 \<Rightarrow> (u32 \<Rightarrow> u8) \<Rightarrow> u32 \<Rightarrow> u8" where
  "copy_bytes n src dst m = (\<lambda>a. if unat (a - dst) < n then src (a - dst) else m a)"

text \<open>\<open>data i\<close> is the byte at offset \<open>i\<close> of the sender's buffer.\<close>

definition dma_channel_receive_quadwords :: "int \<Rightarrow> (u32 \<Rightarrow> u8) \<Rightarrow> u32 \<Rightarrow> 'w ee_dma \<Rightarrow> bool \<times> 'w ee_dma" where
  "dma_channel_receive_quadwords channel data qwc s =
     (if channel < 0 \<or> channel \<ge> 10 then (False, s)
      else case ee_ram s of
        None \<Rightarrow> (False, s)
      | Some m \<Rightarrow>
          if qwc = 0 then (True, s)
          else let c = nat channel; ch = chan s ! c; len = qwc * 16 in
            if unat (ch_madr ch) + unat len > unat (ee_ram_size s) then (False, s)
            else (True, dma_channel_signal_done channel
                    (upd_chan c (\<lambda>ch. ch\<lparr>ch_madr := ch_madr ch + len,
                        ch_qwc := if ch_qwc ch > qwc then ch_qwc ch - qwc else 0,
                        quadwords_transferred := quadwords_transferred ch + qwc\<rparr>)
                      (s\<lparr>ee_ram := Some (copy_bytes (unat len) data (ch_madr ch) m)\<rparr>))))"

definition dma_channel_note_reply_delivered :: "int \<Rightarrow> u32 \<Rightarrow> u32 \<Rightarrow> 'w ee_dma \<Rightarrow> 'w ee_dma" where
  "dma_channel_note_reply_delivered channel dest_addr nbytes s =
     (if channel < 0 \<or> channel \<ge> 10 then s
      else let qwc = (nbytes + 15) div 16 in
        dma_channel_signal_done channel
          (upd_chan (nat channel) (\<lambda>ch. ch\<lparr>ch_madr := dest_addr + qwc * 16,
              ch_qwc := if ch_qwc ch > qwc then ch_qwc ch - qwc else 0,
              quadwords_transferred := quadwords_transferred ch + qwc\<rparr>) s))"

section \<open>Interrupt status\<close>

definition dma_channel_set_irq_enable :: "int \<Rightarrow> bool \<Rightarrow> 'w ee_dma \<Rightarrow> 'w ee_dma" where
  "dma_channel_set_irq_enable channel enabled s =
     (if channel < 0 \<or> channel \<ge> 10 then s
      else let b = push_bit (16 + nat channel) 1 in
        s\<lparr>d_stat := if enabled then d_stat s OR b else d_stat s AND NOT b\<rparr>)"

definition dma_dmac_interrupt_pending :: "'w ee_dma \<Rightarrow> bool" where
  "dma_dmac_interrupt_pending s =
     (let status_low = d_stat s AND 0xFFFF; enable_high = drop_bit 16 (d_stat s) AND 0xFFFF in
      d_ctrl s AND 1 \<noteq> 0 \<and> drop_bit 16 (d_enable_state s) AND 0xFF \<noteq> 1 \<and>
      (status_low AND enable_high \<noteq> 0 \<or> status_low AND 0x8000 \<noteq> 0))"

section \<open>Registers\<close>

definition dma_ranges :: "(u32 \<times> u32 \<times> nat) list" where
  "dma_ranges = [(0x10008000, 0x1000, 0), (0x10009000, 0x1000, 1), (0x1000A000, 0x1000, 2), (0x1000B000, 0x400, 3),
     (0x1000B400, 0x400, 4), (0x1000C000, 0x400, 5), (0x1000C400, 0x400, 6), (0x1000C800, 0x400, 7),
     (0x1000D000, 0x400, 8), (0x1000D400, 0x400, 9)]"

fun decode_in :: "u32 \<Rightarrow> (u32 \<times> u32 \<times> nat) list \<Rightarrow> (nat \<times> u32) option" where
  "decode_in addr [] = None"
| "decode_in addr ((base, sz, c) # rs) =
     (if base \<le> addr \<and> addr < base + sz then Some (c, addr - base) else decode_in addr rs)"

definition decode_channel :: "u32 \<Rightarrow> (nat \<times> u32) option" where
  "decode_channel addr = decode_in addr dma_ranges"

text \<open>\<open>channel_reg_ptr\<close> and \<open>ctrl_reg_ptr\<close> as a pair of a reader and a writer.\<close>

definition channel_reg_get :: "u32 \<Rightarrow> dma_channel \<Rightarrow> u32 option" where
  "channel_reg_get off c =
     (if off = 0x00 then Some (ch_chcr c) else if off = 0x10 then Some (ch_madr c) else if off = 0x20 then Some (ch_qwc c)
      else if off = 0x30 then Some (ch_tadr c) else if off = 0x40 then Some (ch_asr0 c) else if off = 0x50 then Some (ch_asr1 c)
      else if off = 0x80 then Some (ch_sadr c) else None)"

definition channel_reg_set :: "u32 \<Rightarrow> u32 \<Rightarrow> dma_channel \<Rightarrow> dma_channel" where
  "channel_reg_set off v c =
     (if off = 0x00 then c\<lparr>ch_chcr := v\<rparr> else if off = 0x10 then c\<lparr>ch_madr := v\<rparr> else if off = 0x20 then c\<lparr>ch_qwc := v\<rparr>
      else if off = 0x30 then c\<lparr>ch_tadr := v\<rparr> else if off = 0x40 then c\<lparr>ch_asr0 := v\<rparr> else if off = 0x50 then c\<lparr>ch_asr1 := v\<rparr>
      else if off = 0x80 then c\<lparr>ch_sadr := v\<rparr> else c)"

definition ctrl_reg_get :: "u32 \<Rightarrow> 'w ee_dma \<Rightarrow> u32 option" where
  "ctrl_reg_get addr s =
     (if addr = 0x1000E000 then Some (d_ctrl s) else if addr = 0x1000E010 then Some (d_stat s)
      else if addr = 0x1000E020 then Some (d_pcr s) else if addr = 0x1000E030 then Some (d_sqwc s)
      else if addr = 0x1000E040 then Some (d_rbsr s) else if addr = 0x1000E050 then Some (d_rbor s)
      else if addr = 0x1000E060 then Some (d_stadr s) else None)"

definition ctrl_reg_set :: "u32 \<Rightarrow> u32 \<Rightarrow> 'w ee_dma \<Rightarrow> 'w ee_dma" where
  "ctrl_reg_set addr v s =
     (if addr = 0x1000E000 then s\<lparr>d_ctrl := v\<rparr> else if addr = 0x1000E010 then s\<lparr>d_stat := v\<rparr>
      else if addr = 0x1000E020 then s\<lparr>d_pcr := v\<rparr> else if addr = 0x1000E030 then s\<lparr>d_sqwc := v\<rparr>
      else if addr = 0x1000E040 then s\<lparr>d_rbsr := v\<rparr> else if addr = 0x1000E050 then s\<lparr>d_rbor := v\<rparr>
      else if addr = 0x1000E060 then s\<lparr>d_stadr := v\<rparr> else s)"

definition dma_mmio_read32 :: "u32 \<Rightarrow> 'w ee_dma \<Rightarrow> (u32 \<times> 'w ee_dma) option" where
  "dma_mmio_read32 addr s =
     (if 0x10008000 \<le> addr \<and> addr < 0x1000E000 then
        Some (case decode_channel addr of
            None \<Rightarrow> 0
          | Some (c, off) \<Rightarrow> (case channel_reg_get off (chan s ! c) of Some v \<Rightarrow> v | None \<Rightarrow> 0), s)
      else if 0x1000E000 \<le> addr \<and> addr < 0x1000F000 then
        Some (case ctrl_reg_get addr s of Some v \<Rightarrow> v | None \<Rightarrow> 0, s)
      else if addr = 0x1000F520 \<or> addr = 0x1000F590 then Some (d_enable_state s, s)
      else None)"

definition dma_mmio_write32 :: "'w dma_sinks \<Rightarrow> u32 \<Rightarrow> u32 \<Rightarrow> 'w ee_dma \<Rightarrow> 'w ee_dma option" where
  "dma_mmio_write32 sinks addr v s =
     (if 0x10008000 \<le> addr \<and> addr < 0x1000E000 then
        Some (case decode_channel addr of
            None \<Rightarrow> s
          | Some (c, off) \<Rightarrow>
              let s1 = upd_chan c (channel_reg_set off v) s in
              if off = 0 \<and> v AND 0x100 \<noteq> 0 then dma_channel_kick sinks (int c) s1 else s1)
      else if addr = 0x1000E010 then
        let status_low = (d_stat s AND 0xFFFF) AND NOT (v AND 0xFFFF);
            enable_high = (drop_bit 16 (d_stat s) AND 0xFFFF) XOR (drop_bit 16 v AND 0xFFFF)
        in Some (s\<lparr>d_stat := status_low OR push_bit 16 enable_high\<rparr>)
      else if 0x1000E000 \<le> addr \<and> addr < 0x1000F000 then Some (ctrl_reg_set addr v s)
      else if addr = 0x1000F520 \<or> addr = 0x1000F590 then Some (s\<lparr>d_enable_state := v\<rparr>)
      else None)"

end
