(* ===== verification/Ee_Dma_Props.thy ===== *)
theory Ee_Dma_Props
  imports Ee_Dma
begin

text \<open>
  Properties of the EE DMA controller: a chain transfer hands the device exactly the segments
  its tags describe and ends; which transfers stay inside the memory they name; what a receive
  writes; how a transfer can fail.
\<close>

section \<open>Devices\<close>

text \<open>
  A device sink consumes the bytes it is given and changes nothing but the device's own state.
\<close>

definition quad_bytes :: "'w ee_dma \<Rightarrow> dma_ptr \<Rightarrow> u32 \<Rightarrow> u8 list" where
  "quad_bytes s p q = map (\<lambda>i. ptr_byte s p (word_of_nat i)) [0..<16 * unat q]"

definition device_sink :: "(u8 list \<Rightarrow> 'w \<Rightarrow> 'w) \<Rightarrow> 'w dma_sink" where
  "device_sink F c p q s = s\<lparr>dworld := F (quad_bytes s p q) (dworld s)\<rparr>"

definition seg_ok :: "'w ee_dma \<Rightarrow> u32 \<times> u32 \<Rightarrow> bool" where
  "seg_ok s = (\<lambda>(a, n). n = 0 \<or> ram_ptr a (n * 16) s \<noteq> None)"

definition consume :: "(u8 list \<Rightarrow> 'w \<Rightarrow> 'w) \<Rightarrow> 'w ee_dma \<Rightarrow> u32 \<times> u32 \<Rightarrow> 'w \<Rightarrow> 'w" where
  "consume F s = (\<lambda>(a, n) w. if n = 0 then w else F (quad_bytes s (the (ram_ptr a (n * 16) s)) n) w)"

text \<open>The bound memory of two states agrees.\<close>

definition mem_eq :: "'w ee_dma \<Rightarrow> 'w ee_dma \<Rightarrow> bool" where
  "mem_eq s s' \<longleftrightarrow> ee_ram s' = ee_ram s \<and> ee_ram_size s' = ee_ram_size s \<and>
     ee_scratch s' = ee_scratch s \<and> ee_scratch_size s' = ee_scratch_size s"

lemma mem_eq_reads:
  assumes "mem_eq s s'"
  shows "ram_ptr a l s' = ram_ptr a l s" and "read_chain_tag t s' = read_chain_tag t s"
    and "quad_bytes s' p q = quad_bytes s p q" and "seg_ok s' x = seg_ok s x" and "consume F s' = consume F s"
proof -
  have r: "dma_resolve_ptr a l s' = dma_resolve_ptr a l s" for a l
    using assms by (simp add: mem_eq_def dma_resolve_ptr_def Let_def)
  have b: "ptr_byte s' p i = ptr_byte s p i" for p i
    using assms by (simp add: mem_eq_def ptr_byte_def split: dma_ptr.split)
  show ptr: "ram_ptr a l s' = ram_ptr a l s" for a l by (simp add: ram_ptr_def r)
  have "ram_read32 t s' = ram_read32 t s" for t by (simp add: ram_read32_def r b split: option.split)
  then show "read_chain_tag t s' = read_chain_tag t s" by (simp add: read_chain_tag_def split: option.split)
  show q: "quad_bytes s' p q = quad_bytes s p q" for p q by (simp add: quad_bytes_def b)
  show "seg_ok s' x = seg_ok s x" by (simp add: seg_ok_def ptr split: prod.split)
  show "consume F s' = consume F s" by (simp add: consume_def ptr q fun_eq_iff)
qed

lemma transfer_device:
  assumes "sinks c = Some (device_sink F)" and "seg_ok s (a, n)"
  shows "transfer_quadwords sinks c a n s =
    (True, s\<lparr>dworld := consume F s (a, n) (dworld s),
             chan := (chan s)[c := (chan s ! c)\<lparr>quadwords_transferred := quadwords_transferred (chan s ! c) + n\<rparr>]\<rparr>)"
  using assms
  by (auto simp: transfer_quadwords_def seg_ok_def consume_def device_sink_def upd_chan_def)

section \<open>Chains\<close>

text \<open>
  The tag at \<open>t\<close> starts a chain that describes the given segments (address and quadwords) and
  leaves the tag address at \<open>e\<close>.
\<close>

inductive dma_chain :: "'w ee_dma \<Rightarrow> u32 \<Rightarrow> (u32 \<times> u32) list \<Rightarrow> u32 \<Rightarrow> bool" for s where
  tag_end: "read_chain_tag t s = Some (n, 7, a) \<Longrightarrow> dma_chain s t [(t + 16, n)] (t + (16 + n * 16))"
| tag_refe: "read_chain_tag t s = Some (n, 0, a) \<Longrightarrow> dma_chain s t [(a, n)] (t + 16)"
| tag_cnt: "read_chain_tag t s = Some (n, 1, a) \<Longrightarrow> dma_chain s (t + 16 + n * 16) segs e
    \<Longrightarrow> dma_chain s t ((t + 16, n) # segs) e"
| tag_next: "read_chain_tag t s = Some (n, 2, a) \<Longrightarrow> dma_chain s a segs e \<Longrightarrow> dma_chain s t ((t + 16, n) # segs) e"
| tag_ref: "read_chain_tag t s = Some (n, i, a) \<Longrightarrow> i = 3 \<or> i = 4 \<Longrightarrow> dma_chain s (t + 16) segs e
    \<Longrightarrow> dma_chain s t ((a, n) # segs) e"

text \<open>What a completed chain leaves behind.\<close>

definition chain_done :: "(u8 list \<Rightarrow> 'w \<Rightarrow> 'w) \<Rightarrow> nat \<Rightarrow> (u32 \<times> u32) list \<Rightarrow> u32 \<Rightarrow> 'w ee_dma \<Rightarrow> 'w ee_dma" where
  "chain_done F c segs e s =
     s\<lparr>dworld := fold (consume F s) segs (dworld s),
       chan := (chan s)[c := (chan s ! c)\<lparr>quadwords_transferred := quadwords_transferred (chan s ! c) + sum_list (map snd segs),
          ch_tadr := e, ch_chcr := ch_chcr (chan s ! c) AND NOT 0x100\<rparr>],
       d_stat := d_stat s OR push_bit c 1\<rparr>"

definition seg_moved :: "(u8 list \<Rightarrow> 'w \<Rightarrow> 'w) \<Rightarrow> nat \<Rightarrow> u32 \<times> u32 \<Rightarrow> u32 \<Rightarrow> 'w ee_dma \<Rightarrow> 'w ee_dma" where
  "seg_moved F c seg e s = s\<lparr>dworld := consume F s seg (dworld s),
     chan := (chan s)[c := (chan s ! c)\<lparr>quadwords_transferred := quadwords_transferred (chan s ! c) + snd seg,
        ch_tadr := e\<rparr>]\<rparr>"

lemma seg_moved_simps [simp]:
  "mem_eq s (seg_moved F c seg e s)" "length (chan (seg_moved F c seg e s)) = length (chan s)"
  "c < length (chan s) \<Longrightarrow> ch_tadr (chan (seg_moved F c seg e s) ! c) = e"
  by (simp_all add: seg_moved_def mem_eq_def)

lemma seg_moved_done:
  assumes "c < length (chan s)"
  shows "chain_done F c segs e (seg_moved F c seg t s) = chain_done F c (seg # segs) e s"
proof -
  have "consume F (seg_moved F c seg t s) = consume F s" by (rule mem_eq_reads) simp
  then show ?thesis using assms unfolding chain_done_def by (simp add: seg_moved_def add.assoc)
qed

lemma last_segment:
  assumes "c < length (chan s)" and "c < 10"
  shows "dma_channel_signal_done (int c) (clear_str c (set_tadr c f (s\<lparr>dworld := consume F s (a, n) (dworld s),
      chan := (chan s)[c := (chan s ! c)\<lparr>quadwords_transferred := quadwords_transferred (chan s ! c) + n\<rparr>]\<rparr>)))
    = chain_done F c [(a, n)] (f (ch_tadr (chan s ! c))) s"
  using assms by (simp add: dma_channel_signal_done_def clear_str_def set_tadr_def upd_chan_def chain_done_def)

lemma middle_segment:
  assumes "c < length (chan s)"
  shows "set_tadr c f (s\<lparr>dworld := consume F s (a, n) (dworld s),
      chan := (chan s)[c := (chan s ! c)\<lparr>quadwords_transferred := quadwords_transferred (chan s ! c) + n\<rparr>]\<rparr>)
    = seg_moved F c (a, n) (f (ch_tadr (chan s ! c))) s"
  using assms by (simp add: set_tadr_def upd_chan_def seg_moved_def)

lemma chain_walk_delivers:
  assumes "dma_chain s0 t segs e" and "sinks c = Some (device_sink F)" and "c < 10"
    and "mem_eq s0 s" and "c < length (chan s)" and "ch_tadr (chan s ! c) = t"
    and "length segs \<le> n" and "list_all (seg_ok s0) segs"
  shows "chain_walk sinks c n s = chain_done F c segs e s"
  using assms
proof (induction arbitrary: s n rule: dma_chain.induct)
  case (tag_end t k a)
  then obtain m where n: "n = Suc m" by (cases n) auto
  have "seg_ok s (t + 16, k)" using tag_end mem_eq_reads(4) [OF tag_end.prems(3)] by simp
  from transfer_device [of sinks c F, OF tag_end.prems(1) this] tag_end.prems last_segment [OF tag_end.prems(4,2), where f = "\<lambda>t. t + (16 + k * 16)"]
  show ?case using tag_end.hyps by (simp add: n mem_eq_reads(2) [OF tag_end.prems(3)])
next
  case (tag_refe t k a)
  then obtain m where n: "n = Suc m" by (cases n) auto
  have "seg_ok s (a, k)" using tag_refe mem_eq_reads(4) [OF tag_refe.prems(3)] by simp
  from transfer_device [of sinks c F, OF tag_refe.prems(1) this] tag_refe.prems last_segment [OF tag_refe.prems(4,2), where f = "\<lambda>t. t + 16"]
  show ?case using tag_refe.hyps by (simp add: n mem_eq_reads(2) [OF tag_refe.prems(3)])
next
  case (tag_cnt t k a segs e)
  then obtain m where n: "n = Suc m" and m: "length segs \<le> m" by (cases n) auto
  have ok: "seg_ok s (t + 16, k)" using tag_cnt mem_eq_reads(4) [OF tag_cnt.prems(3)] by simp
  let ?s' = "seg_moved F c (t + 16, k) (t + 16 + k * 16) s"
  have me: "mem_eq s0 ?s'" using tag_cnt.prems(3) by (simp add: mem_eq_def seg_moved_def)
  have "chain_walk sinks c m ?s' = chain_done F c segs e ?s'"
    using tag_cnt.prems m by (intro tag_cnt.IH me) simp_all
  then show ?case
    using tag_cnt.hyps tag_cnt.prems transfer_device [of sinks c F, OF tag_cnt.prems(1) ok] middle_segment [OF tag_cnt.prems(4), where f = "\<lambda>t. t + 16 + k * 16" and F = F and n = k]
    by (simp add: n mem_eq_reads(2) [OF tag_cnt.prems(3)] seg_moved_done)
next
  case (tag_next t k a segs e)
  then obtain m where n: "n = Suc m" and m: "length segs \<le> m" by (cases n) auto
  have ok: "seg_ok s (t + 16, k)" using tag_next mem_eq_reads(4) [OF tag_next.prems(3)] by simp
  let ?s' = "seg_moved F c (t + 16, k) a s"
  have me: "mem_eq s0 ?s'" using tag_next.prems(3) by (simp add: mem_eq_def seg_moved_def)
  have "chain_walk sinks c m ?s' = chain_done F c segs e ?s'"
    using tag_next.prems m by (intro tag_next.IH me) simp_all
  then show ?case
    using tag_next.hyps tag_next.prems transfer_device [of sinks c F, OF tag_next.prems(1) ok] middle_segment [OF tag_next.prems(4), where f = "\<lambda>_. a" and F = F and n = k]
    by (simp add: n mem_eq_reads(2) [OF tag_next.prems(3)] seg_moved_done)
next
  case (tag_ref t k i a segs e)
  then obtain m where n: "n = Suc m" and m: "length segs \<le> m" by (cases n) auto
  have ok: "seg_ok s (a, k)" using tag_ref mem_eq_reads(4) [OF tag_ref.prems(3)] by simp
  let ?s' = "seg_moved F c (a, k) (t + 16) s"
  have me: "mem_eq s0 ?s'" using tag_ref.prems(3) by (simp add: mem_eq_def seg_moved_def)
  have "chain_walk sinks c m ?s' = chain_done F c segs e ?s'"
    using tag_ref.prems m by (intro tag_ref.IH me) simp_all
  then show ?case
    using tag_ref.hyps tag_ref.prems transfer_device [of sinks c F, OF tag_ref.prems(1) ok] middle_segment [OF tag_ref.prems(4), where f = "\<lambda>t. t + 16" and F = F and n = k]
    by (auto simp: n mem_eq_reads(2) [OF tag_ref.prems(3)] seg_moved_done)
qed


lemma set_error_simps [simp]:
  "mem_eq s (set_error c x s)" "length (chan (set_error c x s)) = length (chan s)"
  "ee_ram (set_error c x s) = ee_ram s" "dworld (set_error c x s) = dworld s" "d_stat (set_error c x s) = d_stat s"
  by (simp_all add: set_error_def upd_chan_def mem_eq_def)

lemma set_error_chan [simp]:
  "c < length (chan s) \<Longrightarrow> chan (set_error c x s) ! c = (chan s ! c)\<lparr>last_error := x\<rparr>"
  by (simp add: set_error_def upd_chan_def)

lemma bit8_cleared [simp]: "\<not> bit (w AND - 257 :: u32) 8"
proof -
  have "(- 257 :: u32) = NOT (push_bit 8 1)" by (simp add: push_bit_eq_mult)
  then show ?thesis by (simp only: bit_simps) simp
qed

text \<open>C8: A chain-mode transfer refines the abstract transfer its tags describe: if the tag address starts a chain of at most 4096 tags whose segments lie in memory, one kick hands the device exactly the bytes of those segments in chain order, leaves the tag address after the last tag, stops the channel without error, reports completion and changes no memory.\<close>

theorem dma_chain_delivers:
  assumes "c < 10" and "length (chan s) = 10" and "sinks c = Some (device_sink F)" and "ee_ram s \<noteq> None"
    and "drop_bit 2 (ch_chcr (chan s ! c)) AND 3 = 1"
    and "dma_chain s (ch_tadr (chan s ! c)) segs e" and "length segs \<le> 4096" and "list_all (seg_ok s) segs"
    and "s' = dma_channel_kick sinks (int c) s"
  shows "dworld s' = fold (consume F s) segs (dworld s) \<and> ch_tadr (chan s' ! c) = e \<and>
    \<not> bit (ch_chcr (chan s' ! c)) 8 \<and> last_error (chan s' ! c) = DMA_ERR_NONE \<and> bit (d_stat s') c \<and> mem_eq s s'"
proof -
  let ?s = "set_error c DMA_ERR_NONE s"
  have c: "c < length (chan s)" using assms(1,2) by simp
  have "chain_walk sinks c 4096 ?s = chain_done F c segs e ?s"
    using assms c by (intro chain_walk_delivers [where sinks = sinks and c = c, OF assms(6,3,1)]) simp_all
  moreover obtain m where "ee_ram s = Some m" using assms(4) by blast
  ultimately have s': "s' = chain_done F c segs e ?s"
    using assms(1,5,9) c by (simp add: dma_channel_kick_def Let_def)
  have "consume F ?s = consume F s" by (rule mem_eq_reads) simp
  then show ?thesis
    using c assms(1) by (simp add: s' chain_done_def mem_eq_def bit_simps)
      (simp add: set_error_def upd_chan_def)
qed

definition demo_dma :: "(u32 \<Rightarrow> u8) \<Rightarrow> u32 \<Rightarrow> u8 list ee_dma" where
  "demo_dma m chcr = \<lparr>chan = (replicate 10 zero_channel)[2 := zero_channel\<lparr>ch_chcr := chcr\<rparr>],
     d_ctrl = 1, d_stat = 0, d_pcr = 0, d_sqwc = 0, d_rbsr = 0, d_rbor = 0, d_stadr = 0, d_enable_state = 0x1201,
     ee_ram = Some m, ee_ram_size = 64, ee_scratch = None, ee_scratch_size = 0, dworld = []\<rparr>"

text \<open>A CNT tag with one quadword, then an END tag without data.\<close>

definition demo_mem :: "u32 \<Rightarrow> u8" where
  "demo_mem a = (if a = 0 then 1 else if a = 3 then 0x10 else if a = 35 then 0x70
     else if 16 \<le> a \<and> a < 32 then ucast a else 0)"

lemma demo_tags:
  "read_chain_tag 0 (demo_dma demo_mem x) = Some (1, 1, 0)"
  "read_chain_tag 32 (demo_dma demo_mem x) = Some (0, 7, 0)"
  by (simp_all add: read_chain_tag_def ram_read32_def dma_resolve_ptr_def demo_dma_def ptr_byte_def demo_mem_def word_le_nat_alt)

theorem dma_chain_delivers_witness:
  "dworld (dma_channel_kick (\<lambda>_. Some (device_sink (\<lambda>d w. w @ d))) 2 (demo_dma demo_mem 0x105))
     = [16, 17, 18, 19, 20, 21, 22, 23, 24, 25, 26, 27, 28, 29, 30, 31]"
proof -
  let ?s = "demo_dma demo_mem 0x105"
  have ch: "chan ?s ! 2 = zero_channel\<lparr>ch_chcr := 0x105\<rparr>" by (simp add: demo_dma_def)
  have "dma_chain ?s 32 [(32 + 16, 0)] (32 + (16 + 0 * 16))" by (rule dma_chain.tag_end) (rule demo_tags)
  then have "dma_chain ?s 0 [(0 + 16, 1), (48, 0)] 48"
    by (intro dma_chain.tag_cnt [OF demo_tags(1)]) simp
  then have cc: "dma_chain ?s (ch_tadr (chan ?s ! 2)) [(16, 1), (48, 0)] 48"
    by (simp add: ch zero_channel_def)
  have p: "ram_ptr 16 (1 * 16) ?s = Some (Ram_At 16)"
    by (simp add: ram_ptr_def dma_resolve_ptr_def demo_dma_def)
  have q: "quad_bytes ?s (Ram_At 16) 1 = [16, 17, 18, 19, 20, 21, 22, 23, 24, 25, 26, 27, 28, 29, 30, 31]"
    by (simp add: quad_bytes_def ptr_byte_def demo_dma_def demo_mem_def upt_rec)
  have ok: "list_all (seg_ok ?s) [(16, 1), (48, 0)]" using p by (simp add: seg_ok_def)
  have m: "drop_bit 2 (ch_chcr (chan ?s ! 2)) AND 3 = 1" by (simp add: ch)
  have l: "length (chan ?s) = 10" "ee_ram ?s \<noteq> None" by (simp_all add: demo_dma_def)
  from dma_chain_delivers [where sinks = "\<lambda>_. Some (device_sink (\<lambda>d w. w @ d))", OF _ l(1) refl l(2) m cc _ ok refl]
  have "dworld (dma_channel_kick (\<lambda>_. Some (device_sink (\<lambda>d w. w @ d))) 2 ?s) = fold (consume (\<lambda>d w. w @ d) ?s) [(16, 1), (48, 0)] (dworld ?s)"
    by simp
  also have "\<dots> = quad_bytes ?s (Ram_At 16) 1" using p by (simp add: consume_def) (simp add: demo_dma_def)
  finally show ?thesis unfolding q .
qed


section \<open>Ends of a transfer\<close>

definition stopped :: "nat \<Rightarrow> 'w ee_dma \<Rightarrow> bool" where
  "stopped c s \<longleftrightarrow> length (chan s) = 10 \<and>
     (\<not> bit (ch_chcr (chan s ! c)) 8 \<or> last_error (chan s ! c) = DMA_ERR_OUT_OF_BOUNDS)"

lemma stopped_simps:
  assumes "c < 10"
  shows "length (chan s) = 10 \<Longrightarrow> stopped c (clear_str c s)"
    and "length (chan s) = 10 \<Longrightarrow> stopped c (set_error c DMA_ERR_OUT_OF_BOUNDS s)"
    and "stopped c (dma_channel_signal_done i s) = stopped c s"
  using assms by (simp_all add: stopped_def clear_str_def upd_chan_def dma_channel_signal_done_def)

lemma length_chan [simp]:
  "length (chan (set_tadr c f s)) = length (chan s)" "length (chan (clear_str c s)) = length (chan s)"
  "length (chan (upd_chan c g s)) = length (chan s)"
  by (simp_all add: set_tadr_def clear_str_def upd_chan_def)

definition sinks_keep_channels :: "'w dma_sinks \<Rightarrow> bool" where
  "sinks_keep_channels sinks \<longleftrightarrow> (\<forall>c f p q s. sinks c = Some f \<longrightarrow> length (chan (f c p q s)) = length (chan s))"

lemma length_transfer:
  assumes "sinks_keep_channels sinks" and "transfer_quadwords sinks c a n s = (ok, s1)"
  shows "length (chan s1) = length (chan s)"
  using assms by (auto simp: transfer_quadwords_def sinks_keep_channels_def split: if_splits option.splits)

lemma chain_walk_stops:
  assumes "sinks_keep_channels sinks" and "c < 10"
  shows "length (chan s) = 10 \<Longrightarrow> stopped c (chain_walk sinks c n s)"
proof (induction n arbitrary: s)
  case 0
  then show ?case using assms(2) by (simp add: stopped_simps)
next
  case (Suc n)
  have l: "length (chan s1) = 10" if "transfer_quadwords sinks c a k s = (ok, s1)" for a k ok s1
    using length_transfer [OF assms(1) that] Suc.prems by simp
  show ?case
    using Suc.prems assms(2)
    by (auto simp: Let_def stopped_simps Suc.IH l split: option.split prod.split)
qed

text \<open>C30: A kick ends, whatever the chain in memory looks like (the walk stops after 4096 tags): afterwards the channel is stopped, or its error register says out of bounds.\<close>

theorem dma_kick_stops:
  assumes "sinks_keep_channels sinks" and "c < 10" and "length (chan s) = 10"
    and "s' = dma_channel_kick sinks (int c) s"
  shows "\<not> bit (ch_chcr (chan s' ! c)) 8 \<or> last_error (chan s' ! c) = DMA_ERR_OUT_OF_BOUNDS"
proof -
  have "stopped c (normal_transfer sinks c s1)" if "length (chan s1) = 10" for s1
    using that assms(2) length_transfer [OF assms(1)]
    by (auto simp: normal_transfer_def Let_def stopped_simps split: prod.split)
  then have "stopped c s'"
    using assms by (auto simp: dma_channel_kick_def Let_def stopped_simps chain_walk_stops)
  then show ?thesis by (simp add: stopped_def)
qed

text \<open>A NEXT tag that points to itself.\<close>

theorem dma_kick_stops_witness:
  "let m = (\<lambda>a. if a = 3 then 0x20 else 0); s' = dma_channel_kick (\<lambda>_. None) 2 (demo_dma m 0x105)
   in \<not> bit (ch_chcr (chan s' ! 2)) 8 \<or> last_error (chan s' ! 2) = DMA_ERR_OUT_OF_BOUNDS"
proof -
  have "length (chan (demo_dma (\<lambda>a. if a = 3 then 0x20 else 0) 0x105)) = 10" by (simp add: demo_dma_def)
  from dma_kick_stops [OF _ _ this refl, of "\<lambda>_. None" 2] show ?thesis
    by (simp add: sinks_keep_channels_def Let_def)
qed

text \<open>
  Data that lies out of bounds behind a CNT tag ends the walk with the channel still marked
  busy and without a completion.
\<close>

lemma cnt_out_of_bounds_busy:
  assumes "c < length (chan s)" and "read_chain_tag (ch_tadr (chan s ! c)) s = Some (n, 1, a)"
    and "\<not> seg_ok s (ch_tadr (chan s ! c) + 16, n)"
  shows "ch_chcr (chan (chain_walk sinks c (Suc k) s) ! c) = ch_chcr (chan s ! c)"
    and "d_stat (chain_walk sinks c (Suc k) s) = d_stat s"
  using assms by (auto simp: transfer_quadwords_def seg_ok_def)

text \<open>The error code for a tag outside memory is overwritten by the code for an unsupported tag.\<close>

lemma bad_tag_error:
  assumes "c < length (chan s)" and "read_chain_tag (ch_tadr (chan s ! c)) s = None"
  shows "last_error (chan (chain_walk sinks c (Suc k) s) ! c) = DMA_ERR_UNSUPPORTED_TAG"
  using assms by (simp add: clear_str_def upd_chan_def)

section \<open>Bounds\<close>

text \<open>C31: A transfer from main memory of fewer than 2^27 quadwords whose address is accepted stays inside the bound memory. A larger count is not caught: with QWC = 0x10000000 the byte count wraps to 0, the check passes at every address inside memory, and the device is handed 4 GiB.\<close>

theorem dma_transfer_bounds:
  assumes "ee_ram s \<noteq> None" and "a AND 0x80000000 = 0"
  shows "(unat q < 2 ^ 27 \<and> ram_ptr a (q * 16) s \<noteq> None \<longrightarrow> unat (a AND 0x7FFFFFFF) + 16 * unat q \<le> unat (ee_ram_size s)) \<and>
    (a AND 0x7FFFFFFF \<le> ee_ram_size s \<longrightarrow>
       transfer_quadwords sinks c a 0x10000000 s =
         (True, upd_chan c (\<lambda>ch. ch\<lparr>quadwords_transferred := quadwords_transferred ch + 0x10000000\<rparr>)
           (case sinks c of Some f \<Rightarrow> f c (Ram_At (a AND 0x7FFFFFFF)) 0x10000000 s | None \<Rightarrow> s)))"
proof (intro conjI impI)
  assume q: "unat q < 2 ^ 27 \<and> ram_ptr a (q * 16) s \<noteq> None"
  have m: "(0x7FFFFFFF :: u32) = mask 31" by (simp add: mask_eq_exp_minus_1)
  have a: "unat (a AND 0x7FFFFFFF) < 2 ^ 31" unfolding m and_mask_eq unat_take_bit by simp
  have l: "unat (q * 16) = 16 * unat q" using q by (simp add: unat_word_ariths)
  have "(a AND 0x7FFFFFFF) + q * 16 \<le> ee_ram_size s"
    using q assms by (auto simp: ram_ptr_def dma_resolve_ptr_def Let_def split: if_splits)
  then show "unat (a AND 0x7FFFFFFF) + 16 * unat q \<le> unat (ee_ram_size s)"
    using a l q by (simp add: word_le_nat_alt unat_word_ariths)
next
  assume "a AND 0x7FFFFFFF \<le> ee_ram_size s"
  moreover have z: "(0x10000000 * 16 :: u32) = 0" by simp
  ultimately show "transfer_quadwords sinks c a 0x10000000 s =
         (True, upd_chan c (\<lambda>ch. ch\<lparr>quadwords_transferred := quadwords_transferred ch + 0x10000000\<rparr>)
           (case sinks c of Some f \<Rightarrow> f c (Ram_At (a AND 0x7FFFFFFF)) 0x10000000 s | None \<Rightarrow> s))"
    unfolding transfer_quadwords_def ram_ptr_def dma_resolve_ptr_def z using assms by (auto simp: Let_def not_less)
qed

theorem dma_transfer_bounds_witness:
  "fst (transfer_quadwords (\<lambda>_. None) 2 32 0x10000000 (demo_dma demo_mem 0x101)) \<and>
   unat (32 AND 0x7FFFFFFF :: u32) + 16 * unat (2 :: u32) \<le> unat (ee_ram_size (demo_dma demo_mem 0x101))"
  using dma_transfer_bounds [of "demo_dma demo_mem 0x101" 32 2 "\<lambda>_. None" 2]
  by (simp add: demo_dma_def ram_ptr_def dma_resolve_ptr_def)

text \<open>A receive stores the sender's bytes at MADR, in memory, and nothing else; a refused one changes nothing.\<close>

lemma dma_receive_spec:
  assumes "dma_channel_receive_quadwords (int c) data q s = (ok, s')" and "c < 10" and "length (chan s) = 10"
    and "q \<noteq> 0" and "ee_ram s = Some m" and "len = q * 16" and "madr = ch_madr (chan s ! c)"
  shows "ok \<longleftrightarrow> unat madr + unat len \<le> unat (ee_ram_size s)"
    and "\<not> ok \<Longrightarrow> s' = s"
    and "ok \<Longrightarrow> ee_ram s' = Some (copy_bytes (unat len) data madr m) \<and>
      ch_madr (chan s' ! c) = madr + len \<and> bit (d_stat s') c"
  using assms by (auto simp: dma_channel_receive_quadwords_def Let_def dma_channel_signal_done_def upd_chan_def bit_simps split: if_splits)

lemma copy_bytes_inside: "i < n \<Longrightarrow> n \<le> 2 ^ 32 \<Longrightarrow> copy_bytes n src dst m (dst + word_of_nat i) = src (word_of_nat i)"
  by (simp add: copy_bytes_def unat_of_nat take_bit_nat_eq_self)

lemma copy_bytes_outside: "n \<le> unat (a - dst) \<Longrightarrow> copy_bytes n src dst m a = m a"
  by (simp add: copy_bytes_def)

section \<open>Registers\<close>

text \<open>Writing D\_STAT clears the status bits written as 1 and flips the enable bits written as 1.\<close>

lemma dma_stat_write:
  assumes "dma_mmio_write32 sinks 0x1000E010 v s = Some s'" and "k < 16"
  shows "bit (d_stat s') k \<longleftrightarrow> bit (d_stat s) k \<and> \<not> bit v k"
    and "bit (d_stat s') (k + 16) \<longleftrightarrow> bit (d_stat s) (k + 16) \<noteq> bit v (k + 16)"
proof -
  have m: "(0xFFFF :: u32) = mask 16" by (simp add: mask_eq_exp_minus_1)
  have s': "d_stat s' = ((d_stat s AND 0xFFFF) AND NOT (v AND 0xFFFF)) OR
      push_bit 16 ((drop_bit 16 (d_stat s) AND 0xFFFF) XOR (drop_bit 16 v AND 0xFFFF))"
    using assms(1) by (auto simp: dma_mmio_write32_def Let_def)
  show "bit (d_stat s') k \<longleftrightarrow> bit (d_stat s) k \<and> \<not> bit v k"
    unfolding s' m using assms(2) by (auto simp: bit_simps)
  show "bit (d_stat s') (k + 16) \<longleftrightarrow> bit (d_stat s) (k + 16) \<noteq> bit v (k + 16)"
    unfolding s' m using assms(2) by (auto simp: bit_simps add.commute)
qed

end
