(* ===== verification/Spu2.thy ===== *)
theory Spu2
  imports Prelude "HOL-Library.Signed_Division"
begin

text \<open>
  The sound processor: the register file of \<open>source/hw/iop_spu2.c\<close>, the synthesis engine of
  \<open>source/hw/spu2_mixer.c\<close> (ADPCM decoding, envelopes, pitch, mixing) and the register file of
  the older sound processor, \<open>source/hw/iop_spu_legacy.c\<close>.

  Signed C variables of the engine are integers; the bounds that make them fit their C types are
  lemmas. The C division is \<open>sdiv\<close>, which rounds towards zero. The register array is a function
  on offsets; the memory-mapped accesses check its 0x800 bytes and give \<open>Overrun\<close> outside them.
\<close>

section \<open>State\<close>

datatype env_phase = ENV_OFF | ENV_ATTACK | ENV_DECAY | ENV_SUSTAIN | ENV_RELEASE

record voice_runtime =
  v_active :: bool
  v_phase :: env_phase
  v_level :: int
  v_adsr_counter :: u32
  v_cur_addr :: u32
  v_repeat_addr :: u32
  v_hist1 :: int
  v_hist2 :: int
  v_block :: "int list"
  v_block_valid :: bool
  v_block_pos :: int
  v_pending_loop_end :: bool
  v_pending_loop_repeat :: bool
  v_pitch_counter :: u32

record spu2 =
  regs :: "u32 \<Rightarrow> u8"
  spu2_ram :: "u32 \<Rightarrow> u8"
  voices :: "nat \<Rightarrow> nat \<Rightarrow> voice_runtime"
  total_kon :: u64
  total_frames :: u64

abbreviation (input) IOP_SPU2_BASE :: u32 where "IOP_SPU2_BASE \<equiv> 0x1F900000"
abbreviation (input) IOP_SPU2_SIZE :: u32 where "IOP_SPU2_SIZE \<equiv> 0x800"
abbreviation (input) SPU2_MIXER_RAM_SIZE :: u32 where "SPU2_MIXER_RAM_SIZE \<equiv> 0x200000"
abbreviation (input) SPU2_C_CTRL :: u32 where "SPU2_C_CTRL \<equiv> 0x19A"
abbreviation (input) SPU2_C_KON0 :: u32 where "SPU2_C_KON0 \<equiv> 0x1A0"
abbreviation (input) SPU2_C_KON1 :: u32 where "SPU2_C_KON1 \<equiv> 0x1A2"
abbreviation (input) SPU2_C_KOFF0 :: u32 where "SPU2_C_KOFF0 \<equiv> 0x1A4"
abbreviation (input) SPU2_C_KOFF1 :: u32 where "SPU2_C_KOFF1 \<equiv> 0x1A6"
abbreviation (input) SPU2_C_TSA_HI :: u32 where "SPU2_C_TSA_HI \<equiv> 0x1A8"
abbreviation (input) SPU2_C_TSA_LO :: u32 where "SPU2_C_TSA_LO \<equiv> 0x1AA"
abbreviation (input) SPU2_C_ENDX0 :: u32 where "SPU2_C_ENDX0 \<equiv> 0x340"
abbreviation (input) SPU2_C_ENDX1 :: u32 where "SPU2_C_ENDX1 \<equiv> 0x342"
abbreviation (input) SPU2_C_STATX :: u32 where "SPU2_C_STATX \<equiv> 0x344"

definition zero_voice :: voice_runtime where
  "zero_voice = \<lparr>v_active = False, v_phase = ENV_OFF, v_level = 0, v_adsr_counter = 0, v_cur_addr = 0, v_repeat_addr = 0,
     v_hist1 = 0, v_hist2 = 0, v_block = replicate 28 0, v_block_valid = False, v_block_pos = 0,
     v_pending_loop_end = False, v_pending_loop_repeat = False, v_pitch_counter = 0\<rparr>"

definition spu2_mixer_init :: "spu2 \<Rightarrow> spu2" where
  "spu2_mixer_init s = s\<lparr>spu2_ram := \<lambda>_. 0, voices := \<lambda>_ _. zero_voice, total_kon := 0, total_frames := 0\<rparr>"

definition iop_spu2_init :: "spu2 \<Rightarrow> spu2" where
  "iop_spu2_init s = spu2_mixer_init (s\<lparr>regs := \<lambda>_. 0\<rparr>)"

definition upd_voice :: "nat \<Rightarrow> nat \<Rightarrow> (voice_runtime \<Rightarrow> voice_runtime) \<Rightarrow> spu2 \<Rightarrow> spu2" where
  "upd_voice c v f s = s\<lparr>voices := (voices s)(c := (voices s c)(v := f (voices s c v)))\<rparr>"

section \<open>The register file\<close>

definition spu2_core_base :: "nat \<Rightarrow> u32" where
  "spu2_core_base core = IOP_SPU2_BASE + (if core \<noteq> 0 then 0x400 else 0)"

definition iop_spu2_voice_reg_addr :: "nat \<Rightarrow> nat \<Rightarrow> u32 \<Rightarrow> u32" where
  "iop_spu2_voice_reg_addr core voice off = spu2_core_base core + word_of_nat voice * 0x10 + off"

definition iop_spu2_voice_addr_reg_addr :: "nat \<Rightarrow> nat \<Rightarrow> u32 \<Rightarrow> u32" where
  "iop_spu2_voice_addr_reg_addr core voice off = spu2_core_base core + 0x1C0 + word_of_nat voice * 0xC + off"

definition iop_spu2_core_reg_addr :: "nat \<Rightarrow> u32 \<Rightarrow> u32" where
  "iop_spu2_core_reg_addr core off = spu2_core_base core + off"

definition raw_read16 :: "u32 \<Rightarrow> spu2 \<Rightarrow> u16" where
  "raw_read16 off s = ucast (regs s off) OR push_bit 8 (ucast (regs s (off + 1)))"

definition raw_write16 :: "u32 \<Rightarrow> u16 \<Rightarrow> spu2 \<Rightarrow> spu2" where
  "raw_write16 off v s = s\<lparr>regs := (regs s)(off := ucast (v AND 0xFF), off + 1 := ucast (drop_bit 8 v AND 0xFF))\<rparr>"

definition spu2_claims :: "u32 \<Rightarrow> bool" where
  "spu2_claims addr \<longleftrightarrow> IOP_SPU2_BASE \<le> addr \<and> addr < IOP_SPU2_BASE + IOP_SPU2_SIZE"

definition iop_spu2_mmio_read16 :: "u32 \<Rightarrow> spu2 \<Rightarrow> u16 outcome" where
  "iop_spu2_mmio_read16 addr s =
     (if \<not> spu2_claims addr then Declined
      else let off = addr - IOP_SPU2_BASE in
        if off + 1 \<ge> IOP_SPU2_SIZE then Overrun else Done (raw_read16 off s))"

text \<open>The engine's register reads start from 0, which a declined address leaves.\<close>

definition read_reg16 :: "u32 \<Rightarrow> spu2 \<Rightarrow> u16" where
  "read_reg16 addr s = (case iop_spu2_mmio_read16 addr s of Done v \<Rightarrow> v | _ \<Rightarrow> 0)"

definition read_voice_reg16 :: "nat \<Rightarrow> nat \<Rightarrow> u32 \<Rightarrow> spu2 \<Rightarrow> u16" where
  "read_voice_reg16 core voice off = read_reg16 (iop_spu2_voice_reg_addr core voice off)"

definition read_vaddr_reg16 :: "nat \<Rightarrow> nat \<Rightarrow> u32 \<Rightarrow> spu2 \<Rightarrow> u16" where
  "read_vaddr_reg16 core voice off = read_reg16 (iop_spu2_voice_addr_reg_addr core voice off)"

definition read_core_reg16 :: "nat \<Rightarrow> u32 \<Rightarrow> spu2 \<Rightarrow> u16" where
  "read_core_reg16 core off = read_reg16 (iop_spu2_core_reg_addr core off)"

definition read_shared_reg16 :: "u32 \<Rightarrow> spu2 \<Rightarrow> u16" where
  "read_shared_reg16 off = read_reg16 (IOP_SPU2_BASE + off)"

section \<open>Key on and key off\<close>

definition start_voice :: "nat \<Rightarrow> nat \<Rightarrow> spu2 \<Rightarrow> spu2" where
  "start_voice core voice s =
     (let ssa_hi = read_vaddr_reg16 core voice 0 s; ssa_lo = read_vaddr_reg16 core voice 2 s;
          ssa_units = push_bit 16 (ucast ssa_hi) OR ucast ssa_lo :: u32;
          ssa_addr = ((ssa_units * 8) mod SPU2_MIXER_RAM_SIZE) AND NOT 0xF
      in (upd_voice core voice (\<lambda>_. zero_voice\<lparr>v_active := True, v_phase := ENV_ATTACK, v_level := 0,
            v_cur_addr := ssa_addr, v_repeat_addr := ssa_addr, v_block_pos := 28\<rparr>) s)
         \<lparr>total_kon := total_kon s + 1\<rparr>)"

definition kon_bit :: "nat \<Rightarrow> nat \<Rightarrow> u16 \<Rightarrow> nat \<Rightarrow> spu2 \<Rightarrow> spu2" where
  "kon_bit core base bits b s =
     (if bits AND push_bit b 1 = 0 \<or> base + b \<ge> 24 then s else start_voice core (base + b) s)"

definition spu2_mixer_on_kon :: "int \<Rightarrow> bool \<Rightarrow> u16 \<Rightarrow> spu2 \<Rightarrow> spu2" where
  "spu2_mixer_on_kon core is_upper_half bits s =
     (if core < 0 \<or> core \<ge> 2 then s
      else fold (kon_bit (nat core) (if is_upper_half then 16 else 0) bits) [0..<16] s)"

definition koff_bit :: "nat \<Rightarrow> nat \<Rightarrow> u16 \<Rightarrow> nat \<Rightarrow> spu2 \<Rightarrow> spu2" where
  "koff_bit core base bits b s =
     (if bits AND push_bit b 1 = 0 \<or> base + b \<ge> 24 then s
      else let v = voices s core (base + b) in
        if v_active v \<and> v_phase v \<noteq> ENV_OFF \<and> v_phase v \<noteq> ENV_RELEASE
        then upd_voice core (base + b) (\<lambda>v. v\<lparr>v_phase := ENV_RELEASE, v_adsr_counter := 0\<rparr>) s
        else s)"

definition spu2_mixer_on_koff :: "int \<Rightarrow> bool \<Rightarrow> u16 \<Rightarrow> spu2 \<Rightarrow> spu2" where
  "spu2_mixer_on_koff core is_upper_half bits s =
     (if core < 0 \<or> core \<ge> 2 then s
      else fold (koff_bit (nat core) (if is_upper_half then 16 else 0) bits) [0..<16] s)"

section \<open>Register writes\<close>

definition write_effects_core :: "u32 \<Rightarrow> u16 \<Rightarrow> nat \<Rightarrow> spu2 \<Rightarrow> spu2" where
  "write_effects_core addr value core s =
     (let endx0_off = iop_spu2_core_reg_addr core SPU2_C_ENDX0 - IOP_SPU2_BASE;
          endx1_off = iop_spu2_core_reg_addr core SPU2_C_ENDX1 - IOP_SPU2_BASE;
          statx_off = iop_spu2_core_reg_addr core SPU2_C_STATX - IOP_SPU2_BASE in
      if addr = iop_spu2_core_reg_addr core SPU2_C_KON0 then
        spu2_mixer_on_kon (int core) False value (raw_write16 endx0_off (raw_read16 endx0_off s AND NOT value) s)
      else if addr = iop_spu2_core_reg_addr core SPU2_C_KON1 then
        spu2_mixer_on_kon (int core) True value (raw_write16 endx1_off (raw_read16 endx1_off s AND NOT value) s)
      else if addr = iop_spu2_core_reg_addr core SPU2_C_KOFF0 then spu2_mixer_on_koff (int core) False value s
      else if addr = iop_spu2_core_reg_addr core SPU2_C_KOFF1 then spu2_mixer_on_koff (int core) True value s
      else if addr = iop_spu2_core_reg_addr core SPU2_C_CTRL then
        raw_write16 statx_off ((raw_read16 statx_off s AND NOT 0x3F) OR (value AND 0x3F)) s
      else s)"

definition apply_write_side_effects :: "u32 \<Rightarrow> u16 \<Rightarrow> spu2 \<Rightarrow> spu2" where
  "apply_write_side_effects addr value s = write_effects_core addr value 1 (write_effects_core addr value 0 s)"

definition iop_spu2_mmio_write16 :: "u32 \<Rightarrow> u16 \<Rightarrow> spu2 \<Rightarrow> spu2 outcome" where
  "iop_spu2_mmio_write16 addr value s =
     (if \<not> spu2_claims addr then Declined
      else let off = addr - IOP_SPU2_BASE in
        if off + 1 \<ge> IOP_SPU2_SIZE then Overrun
        else Done (apply_write_side_effects addr value (raw_write16 off value s)))"

definition iop_spu2_mmio_read32 :: "u32 \<Rightarrow> spu2 \<Rightarrow> u32 outcome" where
  "iop_spu2_mmio_read32 addr s =
     (if \<not> spu2_claims addr then Declined
      else let off = addr - IOP_SPU2_BASE in
        if off + 3 \<ge> IOP_SPU2_SIZE then Overrun
        else Done (ucast (regs s off) OR push_bit 8 (ucast (regs s (off + 1))) OR
               push_bit 16 (ucast (regs s (off + 2))) OR push_bit 24 (ucast (regs s (off + 3)))))"

text \<open>The two halves in turn; the second may lie behind the end of the block and is then declined.\<close>

definition iop_spu2_mmio_write32 :: "u32 \<Rightarrow> u32 \<Rightarrow> spu2 \<Rightarrow> spu2 outcome" where
  "iop_spu2_mmio_write32 addr value s =
     (if \<not> spu2_claims addr then Declined
      else case iop_spu2_mmio_write16 addr (ucast (value AND 0xFFFF)) s of
          Done s1 \<Rightarrow>
            (case iop_spu2_mmio_write16 (addr + 2) (ucast (drop_bit 16 value AND 0xFFFF)) s1 of
               Declined \<Rightarrow> Done s1 | r \<Rightarrow> r)
        | r \<Rightarrow> r)"

definition write_core_reg16 :: "nat \<Rightarrow> u32 \<Rightarrow> u16 \<Rightarrow> spu2 \<Rightarrow> spu2" where
  "write_core_reg16 core off value s =
     (case iop_spu2_mmio_write16 (iop_spu2_core_reg_addr core off) value s of Done s1 \<Rightarrow> s1 | _ \<Rightarrow> s)"

definition spu2_set_endx_bit :: "nat \<Rightarrow> nat \<Rightarrow> spu2 \<Rightarrow> spu2" where
  "spu2_set_endx_bit core voice s =
     (let off = (if voice < 16 then SPU2_C_ENDX0 else SPU2_C_ENDX1); b = (if voice < 16 then voice else voice - 16)
      in write_core_reg16 core off (read_core_reg16 core off s OR push_bit b 1) s)"

section \<open>ADPCM\<close>

definition clamp16 :: "int \<Rightarrow> int" where
  "clamp16 s = (let s1 = (if s > 32767 then 32767 else s) in if s1 < -32768 then -32768 else s1)"

definition adpcm_shift :: "u8 \<Rightarrow> nat" where
  "adpcm_shift b0 = (let sh = 12 - int (unat (b0 AND 0x0F)); s1 = (if sh < 0 then 0 else sh); s2 = (if s1 > 12 then 12 else s1) in nat s2)"

definition adpcm_filter :: "u8 \<Rightarrow> nat" where
  "adpcm_filter b0 = (let f = unat (drop_bit 4 b0 AND 0x07) in if f > 4 then 4 else f)"

definition adpcm_nibble :: "(nat \<Rightarrow> u8) \<Rightarrow> nat \<Rightarrow> int" where
  "adpcm_nibble blk i =
     (let byte = blk (2 + i div 2); raw = (if odd i then drop_bit 4 byte else byte AND 0x0F)
      in (uint raw XOR 8) - 8)"

definition adpcm_sample :: "(nat \<Rightarrow> u8) \<Rightarrow> nat \<Rightarrow> int \<Rightarrow> int \<Rightarrow> int" where
  "adpcm_sample blk i old older =
     (let f0 = [0, 60, 115, 98, 122] ! adpcm_filter (blk 0); f1 = [0, 0, -52, -55, -60] ! adpcm_filter (blk 0)
      in clamp16 (adpcm_nibble blk i * 2 ^ adpcm_shift (blk 0) + (old * f0 + older * f1 + 32) sdiv 64))"

fun adpcm_from :: "(nat \<Rightarrow> u8) \<Rightarrow> nat \<Rightarrow> nat \<Rightarrow> int \<Rightarrow> int \<Rightarrow> int list \<times> int \<times> int" where
  "adpcm_from blk i 0 old older = ([], old, older)"
| "adpcm_from blk i (Suc n) old older =
     (let s = adpcm_sample blk i old older; (xs, h) = adpcm_from blk (Suc i) n s old in (s # xs, h))"

definition decode_adpcm_block :: "(nat \<Rightarrow> u8) \<Rightarrow> int \<Rightarrow> int \<Rightarrow> int list \<times> int \<times> int \<times> u8" where
  "decode_adpcm_block blk hist1 hist2 =
     (let (xs, h1, h2) = adpcm_from blk 0 28 hist1 hist2 in (xs, h1, h2, blk 1))"

section \<open>Envelopes\<close>

definition envelope_step :: "bool \<Rightarrow> bool \<Rightarrow> int \<Rightarrow> int \<Rightarrow> int \<Rightarrow> u32 \<Rightarrow> bool \<Rightarrow> int \<times> u32" where
  "envelope_step exponential decreasing shift_value step_value level counter all_ones =
     (let step0 = 7 - step_value;
          step1 = (if decreasing then - step0 - 1 else step0);
          shl = (if 11 - shift_value < 0 then 0 else 11 - shift_value);
          step2 = step1 * 2 ^ nat shl;
          shr = (if shift_value - 11 < 0 then 0 else shift_value - 11);
          inc0 = 0x8000 div 2 ^ nat shr;
          (step3, inc1) =
            (if exponential \<and> \<not> decreasing \<and> level > 0x6000 then
               (if shift_value < 10 then (step2 sdiv 4, inc0)
                else if shift_value \<ge> 11 then (step2, inc0 sdiv 4)
                else (step2 sdiv 2, inc0 sdiv 2))
             else if exponential \<and> decreasing then ((step2 * level) sdiv 0x8000, inc0)
             else (step2, inc0));
          inc = (if \<not> all_ones \<and> inc1 < 1 then 1 else inc1);
          counter1 = counter + word_of_int inc
      in if counter1 AND 0x8000 = 0 then (level, counter1)
         else let level1 = level + step3 in
           (if \<not> decreasing then
              (let l = (if level1 > 0x7FFF then 0x7FFF else level1) in if l < -0x8000 then -0x8000 else l)
            else (if level1 < 0 then 0 else level1),
            counter1 AND 0x7FFF))"

definition bits16 :: "u16 \<Rightarrow> nat \<Rightarrow> u16 \<Rightarrow> int" where
  "bits16 w k m = uint (drop_bit k w AND m)"

definition attack_tick :: "u16 \<Rightarrow> voice_runtime \<Rightarrow> voice_runtime" where
  "attack_tick adsr1 v =
     (let sh = bits16 adsr1 10 0x1F; st = bits16 adsr1 8 0x3;
          (l, c) = envelope_step (bits16 adsr1 15 1 = 1) False sh st (v_level v) (v_adsr_counter v) (sh = 0x1F \<and> st = 3);
          v1 = v\<lparr>v_level := l, v_adsr_counter := c\<rparr>
      in if l \<ge> 0x7FFF then v1\<lparr>v_level := 0x7FFF, v_phase := ENV_DECAY, v_adsr_counter := 0\<rparr> else v1)"

definition sustain_level :: "u16 \<Rightarrow> int" where
  "sustain_level adsr1 = (bits16 adsr1 0 0xF + 1) * 0x800"

definition decay_tick :: "u16 \<Rightarrow> voice_runtime \<Rightarrow> voice_runtime" where
  "decay_tick adsr1 v =
     (let sh = bits16 adsr1 4 0xF; sl = sustain_level adsr1;
          (l, c) = envelope_step True True sh 0 (v_level v) (v_adsr_counter v) (sh = 0xF);
          v1 = v\<lparr>v_level := l, v_adsr_counter := c\<rparr>
      in if l \<le> sl then v1\<lparr>v_level := if sl < 0 then 0 else sl, v_phase := ENV_SUSTAIN, v_adsr_counter := 0\<rparr> else v1)"

definition sustain_tick :: "u16 \<Rightarrow> voice_runtime \<Rightarrow> voice_runtime" where
  "sustain_tick adsr2 v =
     (let sh = bits16 adsr2 8 0x1F; st = bits16 adsr2 6 0x3;
          (l, c) = envelope_step (bits16 adsr2 15 1 = 1) (bits16 adsr2 14 1 = 1) sh st (v_level v) (v_adsr_counter v)
                     (sh = 0x1F \<and> st = 3)
      in v\<lparr>v_level := l, v_adsr_counter := c\<rparr>)"

definition release_tick :: "u16 \<Rightarrow> voice_runtime \<Rightarrow> voice_runtime" where
  "release_tick adsr2 v =
     (let sh = bits16 adsr2 0 0x1F;
          (l, c) = envelope_step (bits16 adsr2 5 1 = 1) True sh 0 (v_level v) (v_adsr_counter v) (sh = 0x1F);
          v1 = v\<lparr>v_level := l, v_adsr_counter := c\<rparr>
      in if l \<le> 0 then v1\<lparr>v_level := 0, v_phase := ENV_OFF, v_active := False\<rparr> else v1)"

definition voice_tick_envelope :: "u16 \<Rightarrow> u16 \<Rightarrow> voice_runtime \<Rightarrow> voice_runtime" where
  "voice_tick_envelope adsr1 adsr2 v = (case v_phase v of
       ENV_OFF \<Rightarrow> v
     | ENV_ATTACK \<Rightarrow> attack_tick adsr1 v
     | ENV_DECAY \<Rightarrow> decay_tick adsr1 v
     | ENV_SUSTAIN \<Rightarrow> sustain_tick adsr2 v
     | ENV_RELEASE \<Rightarrow> release_tick adsr2 v)"

section \<open>Playback\<close>

definition voice_load_next_block :: "nat \<Rightarrow> nat \<Rightarrow> spu2 \<Rightarrow> spu2" where
  "voice_load_next_block core voice s =
     (let v = voices s core voice in
      if \<not> v_active v then s
      else if v_cur_addr v + 16 > SPU2_MIXER_RAM_SIZE
      then upd_voice core voice (\<lambda>v. v\<lparr>v_active := False, v_phase := ENV_OFF\<rparr>) s
      else let (xs, h1, h2, flags) = decode_adpcm_block (\<lambda>i. spu2_ram s (v_cur_addr v + word_of_nat i)) (v_hist1 v) (v_hist2 v)
        in upd_voice core voice (\<lambda>v. v\<lparr>v_block := xs, v_hist1 := h1, v_hist2 := h2, v_block_pos := 0, v_block_valid := True,
             v_repeat_addr := if flags AND 0x04 \<noteq> 0 then v_cur_addr v else v_repeat_addr v,
             v_pending_loop_end := flags AND 0x01 \<noteq> 0, v_pending_loop_repeat := flags AND 0x02 \<noteq> 0\<rparr>) s)"

text \<open>The end of a block: the next one, the loop start, or silence.\<close>

definition end_of_block :: "nat \<Rightarrow> nat \<Rightarrow> spu2 \<Rightarrow> bool \<times> spu2" where
  "end_of_block core voice s =
     (let v = voices s core voice in
      if v_pending_loop_end v then
        let s1 = spu2_set_endx_bit core voice s in
        if v_pending_loop_repeat v
        then (True, voice_load_next_block core voice (upd_voice core voice (\<lambda>v. v\<lparr>v_cur_addr := v_repeat_addr v\<rparr>) s1))
        else (False, upd_voice core voice (\<lambda>v. v\<lparr>v_active := False, v_phase := ENV_OFF, v_level := 0\<rparr>) s1)
      else (True, voice_load_next_block core voice (upd_voice core voice (\<lambda>v. v\<lparr>v_cur_addr := v_cur_addr v + 16\<rparr>) s)))"

text \<open>
  The sample counter loop. One turn takes 0x1000 from the pitch counter; the number of turns a
  counter allows is the fuel, and \<open>False\<close> from \<open>end_of_block\<close> is the \<open>break\<close>.
\<close>

fun pitch_loop :: "nat \<Rightarrow> nat \<Rightarrow> nat \<Rightarrow> spu2 \<Rightarrow> spu2" where
  "pitch_loop 0 core voice s = s"
| "pitch_loop (Suc n) core voice s =
     (let v = voices s core voice in
      if v_pitch_counter v \<ge> 0x1000 \<and> v_active v then
        let s1 = upd_voice core voice (\<lambda>v. v\<lparr>v_pitch_counter := v_pitch_counter v - 0x1000, v_block_pos := v_block_pos v + 1\<rparr>) s
        in if v_block_pos v + 1 \<ge> 28
           then let (go_on, s2) = end_of_block core voice s1 in if go_on then pitch_loop n core voice s2 else s2
           else pitch_loop n core voice s1
      else s)"

definition voice_produce_sample :: "nat \<Rightarrow> nat \<Rightarrow> u16 \<Rightarrow> spu2 \<Rightarrow> int \<times> spu2" where
  "voice_produce_sample core voice pitch_reg s =
     (let v = voices s core voice in
      if \<not> v_active v then (0, s)
      else let s1 = (if \<not> v_block_valid v \<or> v_block_pos v \<ge> 28 then voice_load_next_block core voice s else s);
               v1 = voices s1 core voice
        in if \<not> v_active v1 then (0, s1)
           else let sample = v_block v1 ! nat (v_block_pos v1);
                    step = (if ucast pitch_reg > (0x4000 :: u32) then 0x4000 else ucast pitch_reg) :: u32;
                    s2 = upd_voice core voice (\<lambda>v. v\<lparr>v_pitch_counter := v_pitch_counter v + step\<rparr>) s1
             in (sample, pitch_loop (unat (v_pitch_counter (voices s2 core voice)) div 0x1000 + 1) core voice s2))"

section \<open>Mixing\<close>

definition fixed_volume :: "u16 \<Rightarrow> int" where
  "fixed_volume r = (let raw = uint (r AND 0x7FFF); raw1 = (if raw AND 0x4000 \<noteq> 0 then raw - 0x8000 else raw) in raw1 * 2)"

definition mix_voice :: "nat \<times> nat \<Rightarrow> int \<times> int \<times> spu2 \<Rightarrow> int \<times> int \<times> spu2" where
  "mix_voice = (\<lambda>(core, voice) (mix_l, mix_r, s).
     if \<not> v_active (voices s core voice) then (mix_l, mix_r, s)
     else let adsr1 = read_voice_reg16 core voice 0x06 s; adsr2 = read_voice_reg16 core voice 0x08 s;
              s1 = upd_voice core voice (voice_tick_envelope adsr1 adsr2) s
       in if \<not> v_active (voices s1 core voice) then (mix_l, mix_r, s1)
          else let pitch = read_voice_reg16 core voice 0x04 s1; (raw, s2) = voice_produce_sample core voice pitch s1;
                   enveloped = (raw * v_level (voices s2 core voice)) sdiv 0x7FFF;
                   vl = fixed_volume (read_voice_reg16 core voice 0x00 s2); vr = fixed_volume (read_voice_reg16 core voice 0x02 s2)
            in (mix_l + (enveloped * vl) sdiv 0x8000, mix_r + (enveloped * vr) sdiv 0x8000, s2))"

definition all_voices :: "(nat \<times> nat) list" where
  "all_voices = List.product [0..<2] [0..<24]"

definition render_frame :: "spu2 \<Rightarrow> (int \<times> int) \<times> spu2" where
  "render_frame s =
     (let (mix_l, mix_r, s1) = fold mix_voice all_voices (0, 0, s);
          mvl = fixed_volume (read_shared_reg16 0x760 s1); mvr = fixed_volume (read_shared_reg16 0x762 s1)
      in ((clamp16 ((mix_l * mvl) sdiv 0x8000), clamp16 ((mix_r * mvr) sdiv 0x8000)), s1\<lparr>total_frames := total_frames s1 + 1\<rparr>))"

primrec render_from :: "nat \<Rightarrow> spu2 \<Rightarrow> (int \<times> int) list \<times> spu2" where
  "render_from 0 s = ([], s)"
| "render_from (Suc n) s = (let (x, s1) = render_frame s; (xs, s2) = render_from n s1 in (x # xs, s2))"

definition spu2_mixer_render_frames :: "int \<Rightarrow> spu2 \<Rightarrow> (int \<times> int) list \<times> spu2" where
  "spu2_mixer_render_frames n_frames s = (if n_frames \<le> 0 then ([], s) else render_from (nat n_frames) s)"

section \<open>The older sound processor\<close>

type_synonym spu_legacy = "u32 \<Rightarrow> u8"

abbreviation (input) IOP_SPU_LEGACY_BASE :: u32 where "IOP_SPU_LEGACY_BASE \<equiv> 0x1F801C00"
abbreviation (input) IOP_SPU_LEGACY_SIZE :: u32 where "IOP_SPU_LEGACY_SIZE \<equiv> 0x200"

definition legacy_read16 :: "u32 \<Rightarrow> spu_legacy \<Rightarrow> u16" where
  "legacy_read16 off r = ucast (r off) OR push_bit 8 (ucast (r (off + 1)))"

definition legacy_write16 :: "u32 \<Rightarrow> u16 \<Rightarrow> spu_legacy \<Rightarrow> spu_legacy" where
  "legacy_write16 off v r = r(off := ucast (v AND 0xFF), off + 1 := ucast (drop_bit 8 v AND 0xFF))"

definition legacy_side_effects :: "u32 \<Rightarrow> u16 \<Rightarrow> spu_legacy \<Rightarrow> spu_legacy" where
  "legacy_side_effects off value r =
     (if off = 0x188 then legacy_write16 0x19C (legacy_read16 0x19C r AND NOT value) r
      else if off = 0x188 + 2 then legacy_write16 (0x19C + 2) (legacy_read16 (0x19C + 2) r AND NOT value) r
      else if off = 0x1AA then legacy_write16 0x1AE ((legacy_read16 0x1AE r AND NOT 0x3F) OR (value AND 0x3F)) r
      else r)"

definition legacy_off :: "u32 \<Rightarrow> u32 \<Rightarrow> u32 option" where
  "legacy_off n addr =
     (let phys = addr AND 0x1FFFFFFF in
      if phys < IOP_SPU_LEGACY_BASE \<or> phys + n > IOP_SPU_LEGACY_BASE + IOP_SPU_LEGACY_SIZE then None
      else Some (phys - IOP_SPU_LEGACY_BASE))"

definition iop_spu_legacy_mmio_read16 :: "u32 \<Rightarrow> spu_legacy \<Rightarrow> (u16 \<times> spu_legacy) option" where
  "iop_spu_legacy_mmio_read16 addr r = map_option (\<lambda>off. (legacy_read16 off r, r)) (legacy_off 2 addr)"

definition iop_spu_legacy_mmio_write16 :: "u32 \<Rightarrow> u16 \<Rightarrow> spu_legacy \<Rightarrow> spu_legacy option" where
  "iop_spu_legacy_mmio_write16 addr v r = map_option (\<lambda>off. legacy_side_effects off v (legacy_write16 off v r)) (legacy_off 2 addr)"

definition iop_spu_legacy_mmio_read32 :: "u32 \<Rightarrow> spu_legacy \<Rightarrow> (u32 \<times> spu_legacy) option" where
  "iop_spu_legacy_mmio_read32 addr r = map_option (\<lambda>off. (ucast (r off) OR push_bit 8 (ucast (r (off + 1))) OR
     push_bit 16 (ucast (r (off + 2))) OR push_bit 24 (ucast (r (off + 3))), r)) (legacy_off 4 addr)"

definition iop_spu_legacy_mmio_write32 :: "u32 \<Rightarrow> u32 \<Rightarrow> spu_legacy \<Rightarrow> spu_legacy option" where
  "iop_spu_legacy_mmio_write32 addr v r =
     (case legacy_off 4 addr of
        None \<Rightarrow> None
      | Some _ \<Rightarrow>
          let half = (\<lambda>a x r. case iop_spu_legacy_mmio_write16 a x r of Some r' \<Rightarrow> r' | None \<Rightarrow> r)
          in Some (half (addr + 2) (ucast (drop_bit 16 v AND 0xFFFF)) (half addr (ucast (v AND 0xFFFF)) r)))"

end
