(* ===== verification/Spu2_Props.thy ===== *)
theory Spu2_Props
  imports Spu2
begin

text \<open>
  Properties of the sound processor: the engine keeps every voice inside its memory, block and
  volume range; exponential release never reaches silence; which register accesses leave the
  register array.
\<close>

section \<open>Envelope arithmetic\<close>

lemma sdiv_nonneg_div: "0 \<le> (a :: int) \<Longrightarrow> 0 < b \<Longrightarrow> a sdiv b = a div b"
  by (simp add: signed_divide_int_def sgn_if)

lemma sdiv_nonpos_div: "a \<le> (0 :: int) \<Longrightarrow> 0 < b \<Longrightarrow> a sdiv b = - ((- a) div b)"
  by (simp add: signed_divide_int_def sgn_if)

lemma bits16_range: "0 \<le> bits16 w k m" "bits16 w k m \<le> uint m"
proof -
  show "0 \<le> bits16 w k m" by (simp add: bits16_def)
  have "drop_bit k w AND m \<le> m" by (rule word_and_le1)
  then show "bits16 w k m \<le> uint m" by (simp add: bits16_def word_le_def)
qed

text \<open>The step of one counter overflow has the sign of the direction; in exponential decrease it is at most half the level.\<close>

definition env_step :: "bool \<Rightarrow> bool \<Rightarrow> int \<Rightarrow> int \<Rightarrow> int \<Rightarrow> int" where
  "env_step exponential decreasing sh st level =
     (let step2 = (if decreasing then - (7 - st) - 1 else 7 - st) * 2 ^ nat (if 11 - sh < 0 then 0 else 11 - sh) in
      if exponential \<and> \<not> decreasing \<and> level > 0x6000
      then (if sh < 10 then step2 sdiv 4 else if sh \<ge> 11 then step2 else step2 sdiv 2)
      else if exponential \<and> decreasing then (step2 * level) sdiv 0x8000 else step2)"

lemma envelope_step_cases:
  "fst (envelope_step ex dec sh st level counter ones) = level \<or>
   fst (envelope_step ex dec sh st level counter ones) =
     (let l1 = level + env_step ex dec sh st level in
      if \<not> dec then (let l = (if l1 > 0x7FFF then 0x7FFF else l1) in if l < -0x8000 then -0x8000 else l)
      else (if l1 < 0 then 0 else l1))"
  by (auto simp: envelope_step_def env_step_def Let_def)

lemma env_step_up: "0 \<le> st \<Longrightarrow> st \<le> 3 \<Longrightarrow> 0 \<le> env_step ex False sh st level"
  by (auto simp: env_step_def Let_def sdiv_nonneg_div pos_imp_zdiv_nonneg_iff)

lemma env_step_down:
  assumes "0 \<le> st" and "st \<le> 3" and "0 \<le> level"
  shows "env_step ex True sh st level \<le> 0"
proof -
  let ?p = "(2 :: int) ^ nat (if 11 - sh < 0 then 0 else 11 - sh)"
  have neg: "(- (7 - st) - 1) * ?p \<le> 0" using assms by (intro mult_nonpos_nonneg) auto
  then have "((- (7 - st) - 1) * ?p) * level \<le> 0" using assms(3) by (rule mult_nonpos_nonneg)
  with neg show ?thesis by (simp add: env_step_def Let_def sdiv_nonpos_div pos_imp_zdiv_nonneg_iff)
qed

lemma env_step_half:
  assumes "0 \<le> sh" and "0 \<le> level"
  shows "- (level div 2) \<le> env_step True True sh 0 level"
proof -
  define p where "p = (2 :: int) ^ nat (if 11 - sh < 0 then 0 else 11 - sh)"
  have p: "p \<le> 2 ^ 11" "0 \<le> p" unfolding p_def using assms(1) by (intro power_increasing) auto
  then have "8 * p * level \<le> 16384 * level" using assms(2) by (intro mult_right_mono) auto
  then have "(8 * p * level) div 0x8000 \<le> (16384 * level) div 0x8000" by (rule zdiv_mono1) simp
  also have "\<dots> = level div 2" by simp
  finally have le: "(8 * p * level) div 0x8000 \<le> level div 2" .
  have "env_step True True sh 0 level = (- (8 * p * level)) sdiv 0x8000"
    by (simp only: env_step_def p_def [symmetric] Let_def) simp
  also have "\<dots> = - ((8 * p * level) div 0x8000)"
    using assms(2) p(2) sdiv_nonpos_div [of "- (8 * p * level)" "0x8000"] by simp
  finally show ?thesis using le by linarith
qed

lemma envelope_step_range:
  assumes "0 \<le> st" and "st \<le> 3" and "0 \<le> level" and "level \<le> 0x8000"
  shows "0 \<le> fst (envelope_step ex dec sh st level counter ones)" and "fst (envelope_step ex dec sh st level counter ones) \<le> 0x8000"
  using envelope_step_cases [of ex dec sh st level counter ones] env_step_up [OF assms(1,2), of ex sh level]
    env_step_down [OF assms(1-3), of ex sh] assms
  by (cases dec; auto simp: Let_def split: if_splits)+

lemma envelope_release_positive:
  assumes "0 \<le> sh" and "0 < level"
  shows "0 < fst (envelope_step True True sh 0 level counter ones)"
  using envelope_step_cases [of True True sh 0 level counter ones] env_step_half [of sh level] assms
  by (auto simp: Let_def)


definition releasing :: "voice_runtime \<Rightarrow> bool" where
  "releasing v \<longleftrightarrow> v_active v \<and> v_phase v = ENV_RELEASE \<and> 0 < v_level v"

lemma releasing_tick:
  assumes "bits16 adsr2 5 1 = 1" and "releasing v"
  shows "releasing (voice_tick_envelope adsr1 adsr2 v)"
proof -
  have "0 < fst (envelope_step True True (bits16 adsr2 0 0x1F) 0 (v_level v) (v_adsr_counter v) (bits16 adsr2 0 0x1F = 0x1F))"
    by (rule envelope_release_positive) (use assms bits16_range in \<open>auto simp: releasing_def\<close>)
  then show ?thesis using assms
    by (simp add: releasing_def voice_tick_envelope_def release_tick_def Let_def case_prod_beta)
qed

text \<open>An exponential release never ends: from any positive level, however many samples pass, the voice stays active in the release phase with a positive level, because the step is rounded towards zero. A keyed-off voice with such a setting is mixed for ever.\<close>

theorem exponential_release_never_ends:
  assumes "bits16 adsr2 5 1 = 1" and "v_phase v = ENV_RELEASE" and "v_active v" and "0 < v_level v"
  shows "v_active ((voice_tick_envelope adsr1 adsr2 ^^ n) v) \<and> v_phase ((voice_tick_envelope adsr1 adsr2 ^^ n) v) = ENV_RELEASE \<and>
    0 < v_level ((voice_tick_envelope adsr1 adsr2 ^^ n) v)"
proof -
  have "releasing ((voice_tick_envelope adsr1 adsr2 ^^ n) v)"
    using assms by (induction n) (simp_all add: releasing_tick, simp add: releasing_def)
  then show ?thesis by (simp add: releasing_def)
qed

theorem exponential_release_never_ends_witness:
  "v_active ((voice_tick_envelope 0 0x20 ^^ 1000000) (zero_voice\<lparr>v_active := True, v_phase := ENV_RELEASE, v_level := 0x7FFF\<rparr>))"
proof -
  let ?v = "zero_voice\<lparr>v_active := True, v_phase := ENV_RELEASE, v_level := 0x7FFF\<rparr>"
  have "bits16 0x20 5 1 = 1" by code_simp
  moreover have "v_phase ?v = ENV_RELEASE" "v_active ?v" "0 < v_level ?v" by simp_all
  ultimately show ?thesis by (rule exponential_release_never_ends [THEN conjunct1])
qed

section \<open>Voices\<close>

definition int16 :: "int \<Rightarrow> bool" where
  "int16 x \<longleftrightarrow> -32768 \<le> x \<and> x \<le> 32767"

text \<open>
  \<open>voice_base\<close> holds at every moment; a voice that is playing a decoded block has its block
  inside the sound memory.
\<close>

definition voice_base :: "voice_runtime \<Rightarrow> bool" where
  "voice_base v \<longleftrightarrow> 0 \<le> v_level v \<and> v_level v \<le> 0x8000 \<and> unat (v_cur_addr v) \<le> 0x200000 \<and> unat (v_repeat_addr v) \<le> 0x200000 \<and>
     length (v_block v) = 28 \<and> list_all int16 (v_block v) \<and> int16 (v_hist1 v) \<and> int16 (v_hist2 v) \<and>
     0 \<le> v_block_pos v \<and> v_block_pos v \<le> 28"

definition voice_ok :: "voice_runtime \<Rightarrow> bool" where
  "voice_ok v \<longleftrightarrow> voice_base v \<and> (v_active v \<and> v_block_valid v \<longrightarrow> unat (v_cur_addr v) + 16 \<le> 0x200000)"

definition spu2_inv :: "spu2 \<Rightarrow> bool" where
  "spu2_inv s \<longleftrightarrow> (\<forall>c v. voice_ok (voices s c v))"

lemma clamp16_int16: "int16 (clamp16 x)"
  by (simp add: int16_def clamp16_def Let_def)

lemma adpcm_from_ok:
  "int16 old \<Longrightarrow> int16 older \<Longrightarrow> adpcm_from blk i n old older = (xs, h1, h2) \<Longrightarrow>
   length xs = n \<and> list_all int16 xs \<and> int16 h1 \<and> int16 h2"
  by (induction blk i n old older arbitrary: xs h1 h2 rule: adpcm_from.induct)
    (auto simp: Let_def adpcm_sample_def clamp16_int16 split: prod.splits)

lemma decode_ok:
  assumes "int16 a" and "int16 b" and "decode_adpcm_block blk a b = (xs, h1, h2, f)"
  shows "length xs = 28" and "list_all int16 xs" and "int16 h1" and "int16 h2"
  using adpcm_from_ok [OF assms(1,2), of blk 0 28] assms(3)
  by (auto simp: decode_adpcm_block_def split: prod.splits)

lemma voices_upd [simp]: "voices (upd_voice c v f s) c' v' = (if c' = c \<and> v' = v then f (voices s c v) else voices s c' v')"
  by (simp add: upd_voice_def)

lemma tick_ok:
  assumes "voice_ok v"
  shows "voice_ok (voice_tick_envelope a1 a2 v)"
proof -
  have r: "0 \<le> fst (envelope_step ex dec sh (bits16 w k 3) (v_level v) c ones)"
     "fst (envelope_step ex dec sh (bits16 w k 3) (v_level v) c ones) \<le> 0x8000"
     "0 \<le> fst (envelope_step ex dec sh 0 (v_level v) c ones)" "fst (envelope_step ex dec sh 0 (v_level v) c ones) \<le> 0x8000"
    for ex dec sh w k c ones
    using assms bits16_range [of w k 3] by (auto simp: voice_ok_def voice_base_def intro!: envelope_step_range)
  have sl: "0 \<le> sustain_level a1" "sustain_level a1 \<le> 0x8000"
    using bits16_range [of a1 0 "0xF"] by (auto simp: sustain_level_def)
  show ?thesis
  proof (cases "v_phase v")
    case ENV_ATTACK
    then show ?thesis using assms r
      by (auto simp: voice_tick_envelope_def attack_tick_def Let_def case_prod_beta voice_ok_def voice_base_def)
  next
    case ENV_DECAY
    then show ?thesis using assms r sl
      by (auto simp: voice_tick_envelope_def decay_tick_def Let_def case_prod_beta voice_ok_def voice_base_def)
  next
    case ENV_SUSTAIN
    then show ?thesis using assms r
      by (auto simp: voice_tick_envelope_def sustain_tick_def Let_def case_prod_beta voice_ok_def voice_base_def)
  next
    case ENV_RELEASE
    then show ?thesis using assms r
      by (auto simp: voice_tick_envelope_def release_tick_def Let_def case_prod_beta voice_ok_def voice_base_def)
  qed (use assms in \<open>simp add: voice_tick_envelope_def\<close>)
qed

lemma load_voices_other: "(c', v') \<noteq> (c, v) \<Longrightarrow> voices (voice_load_next_block c v s) c' v' = voices s c' v'"
  by (auto simp: voice_load_next_block_def Let_def split: prod.splits)

lemma load_ok:
  assumes "voice_base (voices s c v)" and "v_active (voices s c v)"
  shows "voice_ok (voices (voice_load_next_block c v s) c v)"
    and "v_active (voices (voice_load_next_block c v s) c v) \<Longrightarrow>
      v_block_valid (voices (voice_load_next_block c v s) c v) \<and> v_block_pos (voices (voice_load_next_block c v s) c v) = 0"
proof -
  let ?v = "voices s c v"
  have u: "unat (v_cur_addr ?v + 16) = unat (v_cur_addr ?v) + 16"
    using assms(1) by (simp add: voice_base_def unat_word_ariths)
  obtain xs h1 h2 f where d: "decode_adpcm_block (\<lambda>i. spu2_ram s (v_cur_addr ?v + word_of_nat i)) (v_hist1 ?v) (v_hist2 ?v) = (xs, h1, h2, f)"
    by (metis prod_cases4)
  have h: "int16 (v_hist1 ?v)" "int16 (v_hist2 ?v)" using assms(1) by (simp_all add: voice_base_def)
  note dk = decode_ok [OF h d]
  show "voice_ok (voices (voice_load_next_block c v s) c v)"
    using assms dk u by (auto simp: voice_load_next_block_def d Let_def voice_ok_def voice_base_def word_less_nat_alt not_less)
  show "v_block_valid (voices (voice_load_next_block c v s) c v) \<and> v_block_pos (voices (voice_load_next_block c v s) c v) = 0"
    if "v_active (voices (voice_load_next_block c v s) c v)"
    using that assms(2) by (auto simp: voice_load_next_block_def d Let_def split: if_splits)
qed

lemma set_endx_voices [simp]: "voices (spu2_set_endx_bit c v s) = voices s"
proof -
  have "voices (write_core_reg16 c off x s) = voices s" if "off = 0x340 \<or> off = 0x342" for off x
    using that by (cases "c = 0") (auto simp: write_core_reg16_def iop_spu2_mmio_write16_def spu2_claims_def iop_spu2_core_reg_addr_def spu2_core_base_def
        apply_write_side_effects_def write_effects_core_def raw_write16_def Let_def)
  then show ?thesis by (simp add: spu2_set_endx_bit_def Let_def)
qed


definition playing :: "spu2 \<Rightarrow> nat \<Rightarrow> nat \<Rightarrow> bool" where
  "playing s c v \<longleftrightarrow> (v_active (voices s c v) \<longrightarrow> v_block_valid (voices s c v) \<and> v_block_pos (voices s c v) < 28)"

lemma load_other_ok:
  assumes "spu2_inv s" and "\<And>c' v'. (c', v') \<noteq> (c, v) \<Longrightarrow> voices s1 c' v' = voices s c' v'"
    and "voice_base (voices s1 c v)" and "v_active (voices s1 c v)"
  shows "spu2_inv (voice_load_next_block c v s1)" and "playing (voice_load_next_block c v s1) c v"
proof -
  have "voice_ok (voices (voice_load_next_block c v s1) c' v')" for c' v'
    using assms(1,2) load_ok(1) [OF assms(3,4)] load_voices_other [of c' v' c v s1]
    by (cases "(c', v') = (c, v)") (auto simp: spu2_inv_def)
  then show "spu2_inv (voice_load_next_block c v s1)" by (simp add: spu2_inv_def)
  show "playing (voice_load_next_block c v s1) c v" using load_ok(2) [OF assms(3,4)] by (simp add: playing_def)
qed

lemma load_upd_ok:
  assumes "spu2_inv s" and "voices s0 = voices s" and "voice_base (f (voices s c v))" and "v_active (f (voices s c v))"
  shows "spu2_inv (voice_load_next_block c v (upd_voice c v f s0)) \<and> playing (voice_load_next_block c v (upd_voice c v f s0)) c v"
  by (intro conjI load_other_ok [OF assms(1)]) (use assms in auto)

lemma end_of_block_ok:
  assumes "spu2_inv s" and "v_active (voices s c v)" and "v_block_valid (voices s c v)" and "end_of_block c v s = (b, s1)"
  shows "spu2_inv s1" and "b \<Longrightarrow> playing s1 c v"
proof -
  let ?v = "voices s c v"
  have ok: "voice_ok ?v" using assms(1) by (simp add: spu2_inv_def)
  have u: "unat (v_cur_addr ?v + 16) = unat (v_cur_addr ?v) + 16" "unat (v_cur_addr ?v) + 16 \<le> 0x200000"
    using ok assms(2,3) by (simp_all add: voice_ok_def voice_base_def unat_word_ariths)
  let ?r = "upd_voice c v (\<lambda>v. v\<lparr>v_cur_addr := v_repeat_addr v\<rparr>) (spu2_set_endx_bit c v s)"
  let ?n = "upd_voice c v (\<lambda>v. v\<lparr>v_cur_addr := v_cur_addr v + 16\<rparr>) s"
  have r: "spu2_inv (voice_load_next_block c v ?r) \<and> playing (voice_load_next_block c v ?r) c v"
    using ok assms(2) by (intro load_upd_ok [OF assms(1)]) (simp_all add: voice_ok_def voice_base_def)
  have n: "spu2_inv (voice_load_next_block c v ?n) \<and> playing (voice_load_next_block c v ?n) c v"
    using ok assms(2) u by (intro load_upd_ok [OF assms(1)]) (simp_all add: voice_ok_def voice_base_def)
  have m: "spu2_inv (upd_voice c v (\<lambda>v. v\<lparr>v_active := False, v_phase := ENV_OFF, v_level := 0\<rparr>) (spu2_set_endx_bit c v s))"
    using assms(1) by (auto simp: spu2_inv_def voice_ok_def voice_base_def)
  show "spu2_inv s1" using assms(4) r n m by (auto simp: end_of_block_def Let_def split: if_splits)
  show "playing s1 c v" if b using that assms(4) r n by (auto simp: end_of_block_def Let_def split: if_splits)
qed

lemma pitch_loop_ok: "spu2_inv s \<Longrightarrow> playing s c v \<Longrightarrow> spu2_inv (pitch_loop n c v s)"
proof (induction n c v s rule: pitch_loop.induct)
  case (2 n c v s)
  let ?v = "voices s c v"
  let ?s1 = "upd_voice c v (\<lambda>v. v\<lparr>v_pitch_counter := v_pitch_counter v - 0x1000, v_block_pos := v_block_pos v + 1\<rparr>) s"
  show ?case
  proof (cases "v_pitch_counter ?v \<ge> 0x1000 \<and> v_active ?v")
    case False
    then show ?thesis using 2(3) by auto
  next
    case True
    then have pos: "v_block_pos ?v < 28" "v_block_valid ?v" using 2(4) by (auto simp: playing_def)
    have i1: "spu2_inv ?s1" using 2(3) pos by (auto simp: spu2_inv_def voice_ok_def voice_base_def)
    obtain b s2 where e: "end_of_block c v ?s1 = (b, s2)" by force
    have i2: "spu2_inv s2" "b \<Longrightarrow> playing s2 c v" using end_of_block_ok [OF i1 _ _ e] True pos by auto
    show ?thesis
    proof (cases "v_block_pos ?v + 1 \<ge> 28")
      case True2: True
      have "spu2_inv (pitch_loop n c v s2)" if b
        by (rule 2(1) [OF refl True refl True2 e [symmetric] refl that i2(1) i2(2) [OF that]])
      then show ?thesis using True True2 e i2 by (simp add: Let_def)
    next
      case False
      then have "playing ?s1 c v" using True pos by (simp add: playing_def)
      then have "spu2_inv (pitch_loop n c v ?s1)" using 2(2) [OF refl True refl False i1] by simp
      then show ?thesis using True False by (simp add: Let_def)
    qed
  qed
qed simp

lemma produce_ok:
  assumes "spu2_inv s" and "voice_produce_sample c v p s = (x, s1)"
  shows "spu2_inv s1"
proof -
  let ?s0 = "if \<not> v_block_valid (voices s c v) \<or> v_block_pos (voices s c v) \<ge> 28 then voice_load_next_block c v s else s"
  have ok: "voice_ok (voices s c v)" using assms(1) by (simp add: spu2_inv_def)
  have l: "spu2_inv ?s0" "playing ?s0 c v" if "v_active (voices s c v)"
    using assms(1) ok load_other_ok [OF assms(1) refl _ that] by (auto simp: voice_ok_def playing_def)
  have "spu2_inv (pitch_loop n c v (upd_voice c v (\<lambda>v. v\<lparr>v_pitch_counter := q v\<rparr>) ?s0))" if "v_active (voices s c v)" for n q
    using l [OF that] by (intro pitch_loop_ok) (auto simp: spu2_inv_def voice_ok_def voice_base_def playing_def)
  then show ?thesis using assms l
    by (auto simp: voice_produce_sample_def Let_def simp del: pitch_loop.simps split: if_splits)
qed

lemma mix_voice_ok: "spu2_inv (snd (snd m)) \<Longrightarrow> spu2_inv (snd (snd (mix_voice cv m)))"
proof -
  assume i: "spu2_inv (snd (snd m))"
  obtain c v where cv: "cv = (c, v)" by force
  obtain a b s where m: "m = (a, b, s)" by (metis prod_cases3)
  have t: "spu2_inv (upd_voice c v (voice_tick_envelope x y) s)" for x y
    using i by (auto simp: spu2_inv_def m tick_ok)
  show ?thesis using i t produce_ok [OF t]
    by (auto simp: mix_voice_def cv m Let_def split: prod.split)
qed

lemma render_ok: "spu2_inv s \<Longrightarrow> spu2_inv (snd (spu2_mixer_render_frames n s))"
proof -
  have f: "spu2_inv (snd (snd (fold mix_voice cvs m)))" if "spu2_inv (snd (snd m))" for cvs m
    using that by (induction cvs arbitrary: m) (simp_all add: mix_voice_ok)
  have r: "spu2_inv (snd (render_frame s))" if "spu2_inv s" for s
    using f [of "(0, 0, s)" all_voices] that
    by (auto simp: render_frame_def Let_def split: prod.split) (simp add: spu2_inv_def)
  have "spu2_inv s \<Longrightarrow> spu2_inv (snd (render_from k s))" for k
    by (induction k arbitrary: s) (auto simp: Let_def split: prod.split, metis r snd_conv)
  then show "spu2_inv s \<Longrightarrow> ?thesis" by (simp add: spu2_mixer_render_frames_def)
qed


section \<open>Key on, key off and register writes\<close>

lemma start_voice_ok: "spu2_inv s \<Longrightarrow> spu2_inv (start_voice c v s)"
proof -
  have "unat ((w mod 0x200000) AND x) \<le> 0x200000" for w x :: u32
  proof -
    have "(w mod 0x200000) AND x \<le> w mod 0x200000" by (rule word_and_le2)
    then have "unat ((w mod 0x200000) AND x) \<le> unat (w mod 0x200000)" by (simp add: word_le_nat_alt)
    also have "\<dots> \<le> 0x200000" by (simp add: unat_mod)
    finally show ?thesis .
  qed
  note b = this [of _ "NOT 0xF"]
  show "spu2_inv s \<Longrightarrow> ?thesis"
    using b by (auto simp: spu2_inv_def start_voice_def Let_def voice_ok_def voice_base_def zero_voice_def int16_def list_all_iff)
qed

lemma fold_inv: "(\<And>b s. spu2_inv s \<Longrightarrow> spu2_inv (f b s)) \<Longrightarrow> spu2_inv s \<Longrightarrow> spu2_inv (fold f bs s)"
  by (induction bs arbitrary: s) simp_all

lemma kon_ok: "spu2_inv s \<Longrightarrow> spu2_inv (spu2_mixer_on_kon core up bits s)"
  by (auto simp: spu2_mixer_on_kon_def kon_bit_def intro!: fold_inv start_voice_ok)

lemma koff_ok: "spu2_inv s \<Longrightarrow> spu2_inv (spu2_mixer_on_koff core up bits s)"
proof -
  have "spu2_inv (koff_bit c base bits b s)" if "spu2_inv s" for c base b s
    using that by (auto simp: koff_bit_def Let_def spu2_inv_def voice_ok_def voice_base_def)
  then show "spu2_inv s \<Longrightarrow> ?thesis" by (auto simp: spu2_mixer_on_koff_def intro!: fold_inv)
qed

lemma raw_write_inv [simp]: "spu2_inv (raw_write16 off v s) = spu2_inv s"
  by (simp add: spu2_inv_def raw_write16_def)

lemma write16_ok: "spu2_inv s \<Longrightarrow> iop_spu2_mmio_write16 addr v s = Done s1 \<Longrightarrow> spu2_inv s1"
proof -
  have "spu2_inv (write_effects_core a x c s)" if "spu2_inv s" for a x c s
    using that by (simp add: write_effects_core_def Let_def kon_ok koff_ok)
  then show "spu2_inv s \<Longrightarrow> iop_spu2_mmio_write16 addr v s = Done s1 \<Longrightarrow> spu2_inv s1"
    by (auto simp: iop_spu2_mmio_write16_def apply_write_side_effects_def Let_def split: if_splits)
qed

lemma write32_ok: "spu2_inv s \<Longrightarrow> iop_spu2_mmio_write32 addr v s = Done s1 \<Longrightarrow> spu2_inv s1"
  by (auto simp: iop_spu2_mmio_write32_def split: if_splits outcome.splits dest: write16_ok)

text \<open>The states of the sound processor: register writes, new contents of its memory, rendering.\<close>

inductive spu2_reach :: "spu2 \<Rightarrow> bool" where
  start: "spu2_reach (iop_spu2_init s)"
| write16: "spu2_reach s \<Longrightarrow> iop_spu2_mmio_write16 addr v s = Done s1 \<Longrightarrow> spu2_reach s1"
| write32: "spu2_reach s \<Longrightarrow> iop_spu2_mmio_write32 addr w s = Done s1 \<Longrightarrow> spu2_reach s1"
| load: "spu2_reach s \<Longrightarrow> spu2_reach (s\<lparr>spu2_ram := m\<rparr>)"
| render: "spu2_reach s \<Longrightarrow> spu2_reach (snd (spu2_mixer_render_frames n s))"

lemma spu2_reach_inv: "spu2_reach s \<Longrightarrow> spu2_inv s"
proof (induction rule: spu2_reach.induct)
  case (start s)
  then show ?case
    by (simp add: spu2_inv_def iop_spu2_init_def spu2_mixer_init_def voice_ok_def voice_base_def zero_voice_def int16_def list_all_iff)
next
  case (write16 s addr v s1)
  from write16_ok [OF write16.IH write16.hyps(2)] show ?case .
next
  case (write32 s addr w s1)
  from write32_ok [OF write32.IH write32.hyps(2)] show ?case .
next
  case (load s m)
  from load.IH show ?case by (simp add: spu2_inv_def)
next
  case (render s n)
  from render_ok [OF render.IH] show ?case .
qed

text \<open>C19: In every state the sound processor can reach by register writes, memory loads and rendering, each voice has its envelope level between 0 and 0x8000, its decoded samples in 16 bits, its position in its block, and the block of an active voice inside the 2 MiB of sound memory. (The level can be 0x8000, one above the maximum 0x7FFF of the other phases.)\<close>

theorem spu2_voices_safe:
  assumes "spu2_reach s"
  shows "0 \<le> v_level (voices s c v) \<and> v_level (voices s c v) \<le> 0x8000 \<and>
    length (v_block (voices s c v)) = 28 \<and> list_all int16 (v_block (voices s c v)) \<and>
    0 \<le> v_block_pos (voices s c v) \<and> v_block_pos (voices s c v) \<le> 28 \<and>
    (v_active (voices s c v) \<and> v_block_valid (voices s c v) \<longrightarrow> unat (v_cur_addr (voices s c v)) + 16 \<le> unat SPU2_MIXER_RAM_SIZE)"
  using spu2_reach_inv [OF assms] by (simp add: spu2_inv_def voice_ok_def voice_base_def)

theorem spu2_voices_safe_witness:
  "\<exists>s. spu2_reach s \<and> v_active (voices s 0 1) \<and> v_level (voices s 0 1) \<le> 0x8000"
proof -
  let ?i = "iop_spu2_init \<lparr>regs = \<lambda>_. 0, spu2_ram = \<lambda>_. 0, voices = \<lambda>_ _. zero_voice, total_kon = 0, total_frames = 0\<rparr>"
  obtain s where w: "iop_spu2_mmio_write16 0x1F9001A0 2 ?i = Done s"
    by (simp add: iop_spu2_mmio_write16_def spu2_claims_def)
  have "spu2_reach s" by (rule spu2_reach.write16 [OF spu2_reach.start w])
  moreover have "v_active (voices s 0 1)"
    using w by (auto simp: iop_spu2_mmio_write16_def spu2_claims_def apply_write_side_effects_def write_effects_core_def
        iop_spu2_core_reg_addr_def spu2_core_base_def spu2_mixer_on_kon_def kon_bit_def start_voice_def upt_rec Let_def)
  ultimately show ?thesis using spu2_voices_safe [of s 0 1] by blast
qed

text \<open>The end of decay sets the level above the maximum when the sustain level field is 15.\<close>

lemma decay_above_maximum: "v_level (decay_tick 0xF (zero_voice\<lparr>v_level := 0x7FFF, v_phase := ENV_DECAY\<rparr>)) = 0x8000"
  by code_simp

section \<open>Bounds of the register array\<close>

text \<open>Every register access of the processor stays inside the 0x800-byte array, except at its very end: a 16-bit access at offset 0x7FF and a 32-bit read from offset 0x7FD up touch bytes behind the array.\<close>

theorem spu2_register_overrun:
  "(iop_spu2_mmio_read16 addr s = Overrun \<longleftrightarrow> addr = 0x1F9007FF) \<and>
   (iop_spu2_mmio_write16 addr v s = Overrun \<longleftrightarrow> addr = 0x1F9007FF) \<and>
   (iop_spu2_mmio_read32 addr s = Overrun \<longleftrightarrow> addr \<in> {0x1F9007FD, 0x1F9007FE, 0x1F9007FF})"
proof -
  have c: "spu2_claims addr \<longleftrightarrow> 0x1F900000 \<le> unat addr \<and> unat addr < 0x1F900800"
    by (simp add: spu2_claims_def word_le_nat_alt word_less_nat_alt)
  have o: "unat (addr - 0x1F900000 + 1) = unat addr - 0x1F900000 + 1" "unat (addr - 0x1F900000 + 3) = unat addr - 0x1F900000 + 3"
    if "spu2_claims addr"
  proof -
    have u: "unat (addr - 0x1F900000) = unat addr - 0x1F900000" "unat addr - 0x1F900000 < 0x800"
      using that by (auto simp: c unat_sub_if_size word_le_nat_alt)
    from u show "unat (addr - 0x1F900000 + 1) = unat addr - 0x1F900000 + 1" "unat (addr - 0x1F900000 + 3) = unat addr - 0x1F900000 + 3"
      unfolding unat_word_ariths(1) by simp_all
  qed
  have e: "addr = w \<longleftrightarrow> unat addr = unat w" for w by (simp add: word_unat_eq_iff)
  show ?thesis using o
    by (auto simp: iop_spu2_mmio_read16_def iop_spu2_mmio_write16_def iop_spu2_mmio_read32_def Let_def word_le_nat_alt c e)
qed

text \<open>The fuel of the pitch loop is enough: the loop ends by its own condition or by its \<open>break\<close>.\<close>

lemma end_of_block_pitch:
  "end_of_block c v s = (b, s1) \<Longrightarrow> v_pitch_counter (voices s1 c v) = v_pitch_counter (voices s c v)"
  by (auto simp: end_of_block_def voice_load_next_block_def Let_def split: if_splits prod.splits)

lemma pitch_loop_enough:
  "unat (v_pitch_counter (voices s c v)) div 0x1000 < n \<Longrightarrow> pitch_loop n c v s = pitch_loop (n + k) c v s"
proof (induction n c v s rule: pitch_loop.induct)
  case (2 n c v s)
  let ?v = "voices s c v"
  let ?s1 = "upd_voice c v (\<lambda>v. v\<lparr>v_pitch_counter := v_pitch_counter v - 0x1000, v_block_pos := v_block_pos v + 1\<rparr>) s"
  show ?case
  proof (cases "v_pitch_counter ?v \<ge> 0x1000 \<and> v_active ?v")
    case True
    then have "unat (v_pitch_counter ?v - 0x1000) = unat (v_pitch_counter ?v) - 0x1000" "0x1000 \<le> unat (v_pitch_counter ?v)"
      by (simp_all add: unat_sub word_le_nat_alt)
    then have lt: "unat (v_pitch_counter ?v - 0x1000) div 0x1000 < n" using 2(3) by linarith
    obtain b s2 where e: "end_of_block c v ?s1 = (b, s2)" by force
    have "unat (v_pitch_counter (voices s2 c v)) div 0x1000 < n" using end_of_block_pitch [OF e] lt by simp
    then have "pitch_loop n c v s2 = pitch_loop (n + k) c v s2" if "v_block_pos ?v + 1 \<ge> 28" b
      by (rule 2(1) [OF refl True refl that(1) e [symmetric] refl that(2)])
    moreover have "pitch_loop n c v ?s1 = pitch_loop (n + k) c v ?s1" if "\<not> v_block_pos ?v + 1 \<ge> 28"
      using lt by (intro 2(2) [OF refl True refl that]) simp
    ultimately show ?thesis using True e by (simp add: Let_def)
  qed auto
qed simp

end
