(* ===== verification/Iop_Dma.thy ===== *)
theory Iop_Dma
  imports Iop_Mem Ee_Dma Spu2
begin

text \<open>
  The IOP DMA controller, \<open>source/hw/iop_dma.c\<close>: channel registers, the two interrupt control
  registers, completion, and the channels that move data (SIF0 and SIF2 to the EE DMA
  controller, channel 7 to the sound memory, and the byte-wise delivery into IOP memory).

  The state \<open>'w iop_io\<close> holds the blocks the controller works on; it is the device part of the
  processor state. The buffer that \<open>iop_dma_bind_iop_ram\<close> registers is the memory of that state,
  as both callers in the program bind it, so binding is a flag.
\<close>

section \<open>State\<close>

record iop_dma_channel =
  i_madr :: u32
  i_bcr :: u32
  i_chcr :: u32
  i_tadr :: u32

record iop_dma_state =
  ich :: "iop_dma_channel list"
  ipcr :: u32
  icr :: u32
  ipcr2 :: u32
  icr2 :: u32

record 'w iop_io =
  idma :: iop_dma_state
  ram_bound :: bool
  sif2_transfer_count :: u32
  spu2_transfer_count :: u32
  edma :: "'w ee_dma"
  spu :: spu2

type_synonym 'w io_state = "'w iop_io iop_state"

definition iop_dma_init :: iop_dma_state where
  "iop_dma_init = \<lparr>ich = replicate 13 \<lparr>i_madr = 0, i_bcr = 0, i_chcr = 0, i_tadr = 0\<rparr>, ipcr = 0, icr = 0, ipcr2 = 0, icr2 = 0\<rparr>"

definition iop_dma_bind_iop_ram :: "'w io_state \<Rightarrow> 'w io_state" where
  "iop_dma_bind_iop_ram st = st\<lparr>ext := (ext st)\<lparr>ram_bound := True\<rparr>\<rparr>"

definition upd_dma :: "(iop_dma_state \<Rightarrow> iop_dma_state) \<Rightarrow> 'w io_state \<Rightarrow> 'w io_state" where
  "upd_dma f st = st\<lparr>ext := (ext st)\<lparr>idma := f (idma (ext st))\<rparr>\<rparr>"

definition upd_ich :: "nat \<Rightarrow> (iop_dma_channel \<Rightarrow> iop_dma_channel) \<Rightarrow> 'w io_state \<Rightarrow> 'w io_state" where
  "upd_ich c f = upd_dma (\<lambda>d. d\<lparr>ich := (ich d)[c := f (ich d ! c)]\<rparr>)"

definition iop_channel :: "nat \<Rightarrow> 'w io_state \<Rightarrow> iop_dma_channel" where
  "iop_channel c st = ich (idma (ext st)) ! c"

section \<open>Completion\<close>

definition iop_dma_signal_channel_done :: "int \<Rightarrow> 'w io_state \<Rightarrow> 'w io_state" where
  "iop_dma_signal_channel_done channel st =
     (if channel < 0 \<or> channel = 5 \<or> channel > 12 then st
      else let second = channel > 6; local_ch = nat (if second then channel - 7 else channel);
               irq = (if second then 0x28 + (channel - 7) else 0x20 + channel);
               st1 = upd_dma (\<lambda>d. if second then d\<lparr>icr2 := icr2 d OR push_bit (local_ch + 24) 1\<rparr>
                                  else d\<lparr>icr := icr d OR push_bit (local_ch + 24) 1\<rparr>) st;
               d = idma (ext st1); reg = (if second then icr2 d else icr d)
        in if icr d AND 0x800000 \<noteq> 0 \<and> reg AND push_bit (local_ch + 16) 1 \<noteq> 0
           then st1\<lparr>intc := iop_intc_raise_soft irq (iop_intc_raise 3 (intc st1))\<rparr>
           else st1)"

section \<open>Transfers\<close>

definition bcr_words :: "u32 \<Rightarrow> u32" where
  "bcr_words b =
     (let bs0 = b AND 0xFFFF; ba = drop_bit 16 b AND 0xFFFF; bs = (if bs0 = 0 then 0x10000 else bs0)
      in if ba = 0 then bs else bs * ba)"

definition stop_channel :: "nat \<Rightarrow> 'w io_state \<Rightarrow> 'w io_state" where
  "stop_channel c = upd_ich c (\<lambda>ch. ch\<lparr>i_chcr := i_chcr ch AND NOT 0x01000000\<rparr>)"

definition ee_receive :: "int \<Rightarrow> u32 \<Rightarrow> u32 \<Rightarrow> 'w io_state \<Rightarrow> 'w io_state" where
  "ee_receive ee_channel madr qwc st =
     st\<lparr>ext := (ext st)\<lparr>edma := snd (dma_channel_receive_quadwords ee_channel (\<lambda>i. ram st (madr + i)) qwc (edma (ext st)))\<rparr>\<rparr>"

definition iop_dma_sif0_try_transfer :: "'w io_state \<Rightarrow> 'w io_state" where
  "iop_dma_sif0_try_transfer st =
     (if \<not> ram_bound (ext st) then st
      else let ch = iop_channel 9 st; qwc = (bcr_words (i_bcr ch) * 4) div 16 in
        if qwc = 0 then stop_channel 9 st
        else if unat (i_madr ch) + unat (qwc * 16) > unat (ram_size st) then stop_channel 9 st
        else iop_dma_signal_channel_done 9 (stop_channel 9 (ee_receive 5 (i_madr ch) qwc st)))"

definition iop_dma_sif2_try_transfer :: "'w io_state \<Rightarrow> 'w io_state" where
  "iop_dma_sif2_try_transfer st =
     (if \<not> ram_bound (ext st) then st
      else let ch = iop_channel 2 st; qwc = (bcr_words (i_bcr ch) * 4) div 16 in
        if qwc = 0 then stop_channel 2 st
        else if unat (i_madr ch) + unat (qwc * 16) > unat (ram_size st) then stop_channel 2 st
        else let st1 = iop_dma_signal_channel_done 2 (stop_channel 2 (ee_receive 7 (i_madr ch) qwc st))
          in st1\<lparr>ext := (ext st1)\<lparr>sif2_transfer_count := sif2_transfer_count (ext st1) + 1\<rparr>\<rparr>)"

definition iop_dma_get_sif2_transfer_count :: "'w io_state \<Rightarrow> u32" where
  "iop_dma_get_sif2_transfer_count st = sif2_transfer_count (ext st)"

definition iop_dma_spu2_try_transfer :: "'w io_state \<Rightarrow> 'w io_state" where
  "iop_dma_spu2_try_transfer st =
     (if \<not> ram_bound (ext st) then st
      else let ch = iop_channel 7 st; total_bytes = bcr_words (i_bcr ch) * 4 in
        if total_bytes = 0 then stop_channel 7 st
        else if unat (i_madr ch) + unat total_bytes > unat (ram_size st) then stop_channel 7 st
        else let p = spu (ext st);
                 tsa = push_bit 16 (ucast (read_core_reg16 0 SPU2_C_TSA_HI p)) OR ucast (read_core_reg16 0 SPU2_C_TSA_LO p) :: u32;
                 dest = tsa * 8
          in if unat dest + unat total_bytes > unat SPU2_MIXER_RAM_SIZE then stop_channel 7 st
             else let p1 = p\<lparr>spu2_ram := copy_bytes (unat total_bytes) (\<lambda>i. ram st (i_madr ch + i)) dest (spu2_ram p)\<rparr>;
                      tsa1 = tsa + total_bytes div 8;
                      p2 = write_core_reg16 0 SPU2_C_TSA_LO (ucast (tsa1 AND 0xFFFF))
                             (write_core_reg16 0 SPU2_C_TSA_HI (ucast (drop_bit 16 tsa1)) p1);
                      st1 = iop_dma_signal_channel_done 7 (stop_channel 7 (st\<lparr>ext := (ext st)\<lparr>spu := p2\<rparr>\<rparr>))
               in st1\<lparr>ext := (ext st1)\<lparr>spu2_transfer_count := spu2_transfer_count (ext st1) + 1\<rparr>\<rparr>)"

definition iop_dma_get_spu2_transfer_count :: "'w io_state \<Rightarrow> u32" where
  "iop_dma_get_spu2_transfer_count st = spu2_transfer_count (ext st)"

definition iop_dma_channel_write_bytes :: "int \<Rightarrow> (u32 \<Rightarrow> u8) \<Rightarrow> u32 \<Rightarrow> 'w io_state \<Rightarrow> bool \<times> 'w io_state" where
  "iop_dma_channel_write_bytes channel data nbytes st =
     (if \<not> ram_bound (ext st) \<or> channel < 0 \<or> channel \<ge> 13 then (False, st)
      else let c = nat channel; madr = i_madr (iop_channel c st) in
        if unat madr + unat nbytes > unat (ram_size st) then (False, st)
        else (True, upd_ich c (\<lambda>ch. ch\<lparr>i_madr := i_madr ch + nbytes\<rparr>)
               (st\<lparr>ram := copy_bytes (unat nbytes) data madr (ram st)\<rparr>)))"

section \<open>Registers\<close>

definition icr_write :: "u32 \<Rightarrow> u32 \<Rightarrow> u32" where
  "icr_write old_val val =
     (let newv = ((old_val AND 0xFF000000) OR (val AND 0x00FFFFFF)) AND NOT (val AND 0x7F000000);
          force_bit = drop_bit 15 newv AND 1; master_en = drop_bit 23 newv AND 1;
          flags_at_16 = drop_bit 8 (newv AND 0x7F000000); enables_at16 = newv AND 0x007F0000
      in if force_bit \<noteq> 0 \<or> master_en \<noteq> 0 \<and> flags_at_16 AND enables_at16 \<noteq> 0
         then newv OR 0x80000000 else newv AND NOT 0x80000000)"

definition iop_dma_ranges :: "(u32 \<times> nat) list" where
  "iop_dma_ranges = [(0x1F801080, 0), (0x1F801090, 1), (0x1F8010A0, 2), (0x1F8010B0, 3), (0x1F8010C0, 4), (0x1F8010E0, 6),
     (0x1F801500, 7), (0x1F801510, 8), (0x1F801520, 9), (0x1F801530, 10), (0x1F801540, 11), (0x1F801550, 12)]"

fun find_in :: "u32 \<Rightarrow> (u32 \<times> nat) list \<Rightarrow> (nat \<times> u32) option" where
  "find_in addr [] = None"
| "find_in addr ((base, c) # rs) = (if base \<le> addr \<and> addr < base + 0x10 then Some (c, addr - base) else find_in addr rs)"

definition find_channel :: "u32 \<Rightarrow> (nat \<times> u32) option" where
  "find_channel addr = find_in addr iop_dma_ranges"

definition iop_dma_mmio_read32 :: "u32 \<Rightarrow> 'w io_state \<Rightarrow> (u32 \<times> 'w io_state) option" where
  "iop_dma_mmio_read32 addr st =
     (let d = idma (ext st) in
      if addr = 0x1F8010F0 then Some (ipcr d, st)
      else if addr = 0x1F8010F4 then Some (icr d, st)
      else if addr = 0x1F801570 then Some (ipcr2 d, st)
      else if addr = 0x1F801574 then Some (icr2 d, st)
      else case find_channel addr of
        None \<Rightarrow> None
      | Some (c, off) \<Rightarrow>
          Some (if off = 0x00 then i_madr (ich d ! c) else if off = 0x04 then i_bcr (ich d ! c)
                else if off = 0x08 then i_chcr (ich d ! c) else if off = 0x0C then i_tadr (ich d ! c) else 0, st))"

definition chcr_write :: "nat \<Rightarrow> u32 \<Rightarrow> 'w io_state \<Rightarrow> 'w io_state" where
  "chcr_write c value st =
     (let st1 = upd_ich c (\<lambda>ch. ch\<lparr>i_chcr := value\<rparr>) st;
          st2 = (if c = 9 \<and> value AND 0x01000000 \<noteq> 0 then iop_dma_sif0_try_transfer st1 else st1);
          st3 = (if c = 2 \<and> value AND 0x01000000 \<noteq> 0 \<and> value AND 1 \<noteq> 0 then iop_dma_sif2_try_transfer st2 else st2)
      in if c = 7 \<and> value AND 0x01000000 \<noteq> 0 then iop_dma_spu2_try_transfer st3 else st3)"

definition iop_dma_mmio_write32 :: "u32 \<Rightarrow> u32 \<Rightarrow> 'w io_state \<Rightarrow> 'w io_state option" where
  "iop_dma_mmio_write32 addr value st =
     (if addr = 0x1F8010F0 then Some (upd_dma (\<lambda>d. d\<lparr>ipcr := value\<rparr>) st)
      else if addr = 0x1F8010F4 then Some (upd_dma (\<lambda>d. d\<lparr>icr := icr_write (icr d) value\<rparr>) st)
      else if addr = 0x1F801570 then Some (upd_dma (\<lambda>d. d\<lparr>ipcr2 := value\<rparr>) st)
      else if addr = 0x1F801574 then Some (upd_dma (\<lambda>d. d\<lparr>icr2 := icr_write (icr2 d) value\<rparr>) st)
      else case find_channel addr of
        None \<Rightarrow> None
      | Some (c, off) \<Rightarrow>
          Some (if off = 0x00 then upd_ich c (\<lambda>ch. ch\<lparr>i_madr := value\<rparr>) st
                else if off = 0x04 then upd_ich c (\<lambda>ch. ch\<lparr>i_bcr := value\<rparr>) st
                else if off = 0x08 then chcr_write c value st
                else if off = 0x0C then upd_ich c (\<lambda>ch. ch\<lparr>i_tadr := value\<rparr>) st
                else st))"

definition iop_dma_register :: "u32 \<Rightarrow> bool" where
  "iop_dma_register addr \<longleftrightarrow> addr \<in> {0x1F8010F0, 0x1F8010F4, 0x1F801570, 0x1F801574} \<or> find_channel addr \<noteq> None"

interpretation iop_dma: mmio_block iop_dma_mmio_read32 iop_dma_mmio_write32 iop_dma_register iop_dma_register
  by unfold_locales (auto simp: iop_dma_mmio_read32_def iop_dma_mmio_write32_def iop_dma_register_def Let_def split: option.splits)

section \<open>The interrupt control registers\<close>

lemma bit_numeral_masks:
  "(0x00FFFFFF :: u32) = mask 24" "(0xFF000000 :: u32) = push_bit 24 (mask 8)" "(0x7F000000 :: u32) = push_bit 24 (mask 7)"
  "(0x80000000 :: u32) = push_bit 31 1" "(0x007F0000 :: u32) = push_bit 16 (mask 7)"
  by (simp_all add: mask_eq_exp_minus_1 push_bit_eq_mult)

definition icr_new :: "u32 \<Rightarrow> u32 \<Rightarrow> u32" where
  "icr_new old_val val = ((old_val AND 0xFF000000) OR (val AND 0x00FFFFFF)) AND NOT (val AND 0x7F000000)"

lemma bit_icr_new: "k < 31 \<Longrightarrow> bit (icr_new old v) k \<longleftrightarrow> (if k < 24 then bit v k else bit old k \<and> \<not> bit v k)"
  unfolding icr_new_def bit_numeral_masks by (auto simp: bit_simps)

lemma test_bit_shift: "drop_bit k w AND 1 \<noteq> 0 \<longleftrightarrow> bit (w :: u32) k"
  by (simp add: and_one_eq bit_iff_odd_drop_bit odd_iff_mod_2_eq_one)

lemma icr_flags: "drop_bit 8 (n AND 0x7F000000) AND (n AND 0x007F0000) \<noteq> 0 \<longleftrightarrow>
    (\<exists>j < 7. bit (n :: u32) (24 + j) \<and> bit n (16 + j))"
proof -
  have "bit (drop_bit 8 (n AND 0x7F000000) AND (n AND 0x007F0000)) k \<longleftrightarrow> 16 \<le> k \<and> k < 23 \<and> bit n (8 + k) \<and> bit n k" for k
    unfolding bit_numeral_masks by (auto simp: bit_simps)
  then have "drop_bit 8 (n AND 0x7F000000) AND (n AND 0x007F0000) \<noteq> 0 \<longleftrightarrow> (\<exists>k. 16 \<le> k \<and> k < 23 \<and> bit n (8 + k) \<and> bit n k)"
    using bit_eqI [of "drop_bit 8 (n AND 0x7F000000) AND (n AND 0x007F0000)" 0] by (metis bit_0_eq bot_apply bot_bool_def)
  also have "\<dots> \<longleftrightarrow> (\<exists>j < 7. bit n (24 + j) \<and> bit n (16 + j))"
  proof
    assume "\<exists>k. 16 \<le> k \<and> k < 23 \<and> bit n (8 + k) \<and> bit n k"
    then obtain k where k: "16 \<le> k" "k < 23" "bit n (8 + k)" "bit n k" by blast
    then show "\<exists>j < 7. bit n (24 + j) \<and> bit n (16 + j)" by (intro exI [of _ "k - 16"]) auto
  next
    assume "\<exists>j < 7. bit n (24 + j) \<and> bit n (16 + j)"
    then obtain j where j: "j < 7" "bit n (24 + j)" "bit n (16 + j)" by blast
    then show "\<exists>k. 16 \<le> k \<and> k < 23 \<and> bit n (8 + k) \<and> bit n k" by (intro exI [of _ "16 + j"]) (auto simp: add.assoc [symmetric])
  qed
  finally show ?thesis .
qed

lemma icr_write_new:
  "icr_write old v = (if bit (icr_new old v) 15 \<or> bit (icr_new old v) 23 \<and> (\<exists>j < 7. bit (icr_new old v) (24 + j) \<and> bit (icr_new old v) (16 + j))
     then icr_new old v OR 0x80000000 else icr_new old v AND NOT 0x80000000)"
  unfolding icr_write_def Let_def icr_new_def [symmetric] test_bit_shift icr_flags ..

lemma bit_top: "bit (0x80000000 :: u32) k \<longleftrightarrow> k = 31"
  unfolding bit_numeral_masks by (auto simp only: bit_push_bit_iff bit_1_iff possible_bit_word) simp

lemma top_bit:
  "bit (n OR 0x80000000 :: u32) k \<longleftrightarrow> k = 31 \<or> bit n k" "bit (n AND NOT 0x80000000 :: u32) k \<longleftrightarrow> k \<noteq> 31 \<and> bit n k"
  by (auto simp only: bit_or_iff bit_and_iff bit_not_iff bit_top possible_bit_word dest: bit_imp_le_length)

text \<open>A write to an interrupt control register stores bits 0 to 23, clears the channel flags (24 to 30) written as 1 and keeps the others, and sets the master flag (31) exactly when the force bit is set or the master enable is set and some channel has both its flag and its enable.\<close>

theorem icr_write_spec:
  "(\<forall>k. k < 31 \<longrightarrow> bit (icr_write old v) k = (if k < 24 then bit v k else bit old k \<and> \<not> bit v k)) \<and>
   (bit (icr_write old v) 31 \<longleftrightarrow> bit v 15 \<or> bit v 23 \<and> (\<exists>j < 7. bit old (24 + j) \<and> \<not> bit v (24 + j) \<and> bit v (16 + j)))"
proof -
  have "bit (icr_write old v) k = bit (icr_new old v) k" if "k < 31" for k
    using that by (simp only: icr_write_new top_bit split: if_split) auto
  moreover have "bit (icr_write old v) 31 \<longleftrightarrow>
      bit (icr_new old v) 15 \<or> bit (icr_new old v) 23 \<and> (\<exists>j < 7. bit (icr_new old v) (24 + j) \<and> bit (icr_new old v) (16 + j))"
    by (simp only: icr_write_new top_bit split: if_split) blast
  ultimately show ?thesis by (auto simp: bit_icr_new)
qed

theorem icr_write_spec_witness: "bit (icr_write 0x02000000 0x00820000) 31 \<and> bit (icr_write 0x02000000 0x00820000) 17"
proof -
  note r = icr_write_spec [of "0x02000000" "0x00820000"]
  have "\<exists>j < 7. bit (0x02000000 :: u32) (24 + j) \<and> \<not> bit (0x00820000 :: u32) (24 + j) \<and> bit (0x00820000 :: u32) (16 + j)"
    by (rule exI [of _ 1]) simp
  then have "bit (icr_write 0x02000000 0x00820000) 31" by (intro iffD2 [OF conjunct2 [OF r]]) simp
  moreover have "bit (icr_write 0x02000000 0x00820000) 17 = bit (0x00820000 :: u32) 17" using conjunct1 [OF r] by simp
  ultimately show ?thesis by simp
qed

end
