(* ===== verification/Iop_Dma_Props.thy ===== *)
theory Iop_Dma_Props
  imports Iop_Dma Ee_Dma_Props
begin

text \<open>
  The two DMA controllers together: a SIF0 transfer moves bytes from IOP memory to EE memory and
  signals both sides; what happens when the EE side refuses.
\<close>

lemma and_clear_bit: "(w AND NOT x) AND x = (0 :: u32)"
  by (rule bit_word_eqI) (simp only: bit_and_iff bit_not_iff, simp)

lemma start_bit_clear [simp]: "(w AND - 16777217) AND 16777216 = (0 :: u32)"
  using and_clear_bit [of w "0x01000000"] by simp

lemma signal_done_frame [simp]:
  "edma (ext (iop_dma_signal_channel_done c st)) = edma (ext st)" "ram (iop_dma_signal_channel_done c st) = ram st"
  "ich (idma (ext (iop_dma_signal_channel_done c st))) = ich (idma (ext st))"
  by (simp_all add: iop_dma_signal_channel_done_def upd_dma_def Let_def)

lemma stop_channel_frame [simp]:
  "edma (ext (stop_channel c st)) = edma (ext st)" "ram (stop_channel c st) = ram st" "intc (stop_channel c st) = intc st"
  "icr (idma (ext (stop_channel c st))) = icr (idma (ext st))" "icr2 (idma (ext (stop_channel c st))) = icr2 (idma (ext st))"
  "ich (idma (ext (stop_channel c st))) = (ich (idma (ext st)))[c := (iop_channel c st)\<lparr>i_chcr := i_chcr (iop_channel c st) AND NOT 0x01000000\<rparr>]"
  by (simp_all add: stop_channel_def upd_ich_def upd_dma_def iop_channel_def)

lemma ee_receive_frame [simp]:
  "idma (ext (ee_receive c a q st)) = idma (ext st)" "ram (ee_receive c a q st) = ram st" "intc (ee_receive c a q st) = intc st"
  "edma (ext (ee_receive c a q st)) = snd (dma_channel_receive_quadwords c (\<lambda>i. ram st (a + i)) q (edma (ext st)))"
  by (simp_all add: ee_receive_def)

lemma signal_done_9:
  "bit (icr2 (idma (ext (iop_dma_signal_channel_done 9 st)))) 26"
  "bit (icr (idma (ext st))) 23 \<Longrightarrow> bit (icr2 (idma (ext st))) 18 \<Longrightarrow> bit (istat (intc (iop_dma_signal_channel_done 9 st))) 3"
proof -
  have t: "w AND push_bit k 1 \<noteq> 0 \<longleftrightarrow> bit w k" for w :: u32 and k
    by (simp add: bit_iff_and_push_bit_not_eq_0)
  have m: "(0x800000 :: u32) = push_bit 23 1" by simp
  have s: "iop_dma_signal_channel_done 9 st =
     (let st1 = upd_dma (\<lambda>d. d\<lparr>icr2 := icr2 d OR push_bit 26 1\<rparr>) st in
      if bit (icr (idma (ext st1))) 23 \<and> bit (icr2 (idma (ext st1))) 18
      then st1\<lparr>intc := iop_intc_raise_soft 0x2A (iop_intc_raise 3 (intc st1))\<rparr> else st1)"
    unfolding iop_dma_signal_channel_done_def Let_def m t by simp
  show "bit (icr2 (idma (ext (iop_dma_signal_channel_done 9 st)))) 26"
    unfolding s by (simp add: Let_def upd_dma_def bit_or_iff)
  show "bit (istat (intc (iop_dma_signal_channel_done 9 st))) 3" if "bit (icr (idma (ext st))) 23" "bit (icr2 (idma (ext st))) 18"
    using that unfolding s by (simp add: Let_def upd_dma_def bit_or_iff iop_intc_raise_def iop_intc_raise_soft_def)
qed


text \<open>C13: Starting SIF0 on the IOP moves the data across: the given number of bytes from IOP memory at the channel's address appears in EE memory at the EE channel's address and nothing else there changes, both sides report completion, the IOP channel is stopped, and the IOP interrupt is raised when it is enabled.\<close>

theorem sif0_transfer:
  assumes bound: "ram_bound (ext st)" "length (ich (idma (ext st))) = 13" "length (chan (edma (ext st))) = 10"
    and n: "q = (bcr_words (i_bcr (iop_channel 9 st)) * 4) div 16" "q \<noteq> 0" "n = unat (q * 16)"
    and src: "src = i_madr (iop_channel 9 st)" "unat src + n \<le> unat (ram_size st)"
    and dst: "dst = ch_madr (chan (edma (ext st)) ! 5)" "ee_ram (edma (ext st)) = Some m" "unat dst + n \<le> unat (ee_ram_size (edma (ext st)))"
    and go: "value AND 0x01000000 \<noteq> 0" "iop_dma_mmio_write32 0x1F801528 value st = Some st'"
  shows "\<exists>m'. ee_ram (edma (ext st')) = Some m' \<and>
      (\<forall>i < n. m' (dst + word_of_nat i) = ram st (src + word_of_nat i)) \<and> (\<forall>a. n \<le> unat (a - dst) \<longrightarrow> m' a = m a) \<and>
      ram st' = ram st \<and> bit (d_stat (edma (ext st'))) 5 \<and> i_chcr (iop_channel 9 st') AND 0x01000000 = 0 \<and>
      bit (icr2 (idma (ext st'))) 26 \<and>
      (bit (icr (idma (ext st))) 23 \<and> bit (icr2 (idma (ext st))) 18 \<longrightarrow> bit (istat (intc st')) 3)"
proof -
  define st0 where "st0 = upd_ich 9 (\<lambda>ch. ch\<lparr>i_chcr := value\<rparr>) st"
  have f: "ram st0 = ram st" "ram_size st0 = ram_size st" "intc st0 = intc st"
    "icr (idma (ext st0)) = icr (idma (ext st))" "icr2 (idma (ext st0)) = icr2 (idma (ext st))" "length (ich (idma (ext st0))) = 13"
    "i_bcr (iop_channel 9 st0) = i_bcr (iop_channel 9 st)" "i_madr (iop_channel 9 st0) = i_madr (iop_channel 9 st)"
    using bound by (simp_all add: st0_def upd_ich_def upd_dma_def iop_channel_def)
  have ed: "edma (ext st0) = edma (ext st)" "ram_bound (ext st0)"
    using bound by (simp_all add: st0_def upd_ich_def upd_dma_def)
  have fc: "find_channel 0x1F801528 = Some (9, 8)"
    by (simp add: find_channel_def iop_dma_ranges_def word_le_nat_alt)
  have "st' = iop_dma_sif0_try_transfer st0"
    using go by (simp add: iop_dma_mmio_write32_def fc chcr_write_def st0_def)
  also have "\<dots> = iop_dma_signal_channel_done 9 (stop_channel 9 (ee_receive 5 src q st0))"
    using ed(2) n src f by (simp add: iop_dma_sif0_try_transfer_def Let_def not_less)
  finally have st': "st' = iop_dma_signal_channel_done 9 (stop_channel 9 (ee_receive 5 src q st0))" .
  obtain ok e where r: "dma_channel_receive_quadwords (int 5) (\<lambda>i. ram st (src + i)) q (edma (ext st)) = (ok, e)" by force
  note spec = dma_receive_spec [OF r _ bound(3) n(2) dst(2) refl refl]
  have e: "ok" "ee_ram e = Some (copy_bytes n (\<lambda>i. ram st (src + i)) dst m)" "bit (d_stat e) 5"
    using spec dst(1,3) n(3) by simp_all
  have "edma (ext st') = e" using r by (simp add: st' f ed)
  moreover have "copy_bytes n (\<lambda>i. ram st (src + i)) dst m (dst + word_of_nat i) = ram st (src + word_of_nat i)" if "i < n" for i
    by (rule copy_bytes_inside [OF that]) (unfold n(3), rule less_imp_le, rule order_less_le_trans [OF unat_u32], simp)
  moreover have "i_chcr (iop_channel 9 st') AND 0x01000000 = 0"
    using f(6) unfolding st' iop_channel_def by (simp only: signal_done_frame stop_channel_frame ee_receive_frame) simp
  ultimately show ?thesis
    using e signal_done_9 [of "stop_channel 9 (ee_receive 5 src q st0)"] copy_bytes_outside
    by (intro exI [of _ "copy_bytes n (\<lambda>i. ram st (src + i)) dst m"]) (simp add: st' f)
qed


definition demo_io :: "u8 list io_state" where
  "demo_io = (blank_iop \<lparr>idma = iop_dma_init\<lparr>ich := (ich iop_dma_init)[9 := \<lparr>i_madr = 0x100, i_bcr = 4, i_chcr = 0, i_tadr = 0\<rparr>]\<rparr>,
      ram_bound = True, sif2_transfer_count = 0, spu2_transfer_count = 0, edma = demo_dma demo_mem 0,
      spu = \<lparr>regs = \<lambda>_. 0, spu2_ram = \<lambda>_. 0, voices = \<lambda>_ _. zero_voice, total_kon = 0, total_frames = 0\<rparr>\<rparr>)
      \<lparr>ram := \<lambda>a. ucast a\<rparr>"

theorem sif0_transfer_witness:
  "\<exists>st' m'. iop_dma_mmio_write32 0x1F801528 0x01000000 demo_io = Some st' \<and> ee_ram (edma (ext st')) = Some m' \<and>
     m' 3 = 3 \<and> m' 16 = 16 \<and> bit (d_stat (edma (ext st'))) 5"
proof -
  have ch: "iop_channel 9 demo_io = \<lparr>i_madr = 0x100, i_bcr = 4, i_chcr = 0, i_tadr = 0\<rparr>"
    by (simp add: iop_channel_def demo_io_def blank_iop_def iop_dma_init_def)
  have b: "ram_bound (ext demo_io)" "length (ich (idma (ext demo_io))) = 13" "length (chan (edma (ext demo_io))) = 10"
    "ee_ram (edma (ext demo_io)) = Some demo_mem" "ch_madr (chan (edma (ext demo_io)) ! 5) = 0" "ee_ram_size (edma (ext demo_io)) = 64"
    "ram_size demo_io = 0x204000" "\<And>a. ram demo_io a = ucast a"
    by (simp_all add: demo_io_def blank_iop_def iop_dma_init_def demo_dma_def zero_channel_def)
  have q: "(bcr_words (i_bcr (iop_channel 9 demo_io)) * 4) div 16 = 1" by (simp add: ch bcr_words_def)
  have fc: "find_channel 0x1F801528 = Some (9, 8)"
    by (simp add: find_channel_def iop_dma_ranges_def word_le_nat_alt)
  obtain st' where w: "iop_dma_mmio_write32 0x1F801528 0x01000000 demo_io = Some st'"
    by (simp add: iop_dma_mmio_write32_def fc)
  from sif0_transfer [OF b(1-3) q [symmetric] _ refl refl _ refl b(4) _ _ w]
  obtain m' where m: "ee_ram (edma (ext st')) = Some m'" "bit (d_stat (edma (ext st'))) 5"
     "\<forall>i < 16. m' (word_of_nat i) = ucast (0x100 + word_of_nat i :: u32)" "\<forall>a. 16 \<le> unat a \<longrightarrow> m' a = demo_mem a"
    by (auto simp: b ch)
  have "m' 3 = 3" using m(3) [rule_format, of 3] by simp
  moreover have "m' 16 = 16" using m(4) [rule_format, of 16] by (simp add: demo_mem_def)
  ultimately show ?thesis using w m by blast
qed

text \<open>
  When the EE side cannot take the data the IOP side still reports a completed transfer: the
  result of the receive is not used.
\<close>

lemma sif0_refused_reported_done:
  assumes "ram_bound (ext st)" and "q = (bcr_words (i_bcr (iop_channel 9 st)) * 4) div 16" and "q \<noteq> 0"
    and "unat (i_madr (iop_channel 9 st)) + unat (q * 16) \<le> unat (ram_size st)" and "ee_ram (edma (ext st)) = None"
  shows "edma (ext (iop_dma_sif0_try_transfer st)) = edma (ext st)" and "bit (icr2 (idma (ext (iop_dma_sif0_try_transfer st)))) 26"
  using assms signal_done_9(1)
  by (simp_all add: iop_dma_sif0_try_transfer_def Let_def not_less dma_channel_receive_quadwords_def)

text \<open>Bytes delivered to a channel land at its address in IOP memory and nowhere else, or nothing changes.\<close>

lemma iop_dma_write_bytes_spec:
  assumes "iop_dma_channel_write_bytes (int c) data n st = (ok, st')" and "c < 13" and "length (ich (idma (ext st))) = 13"
    and "madr = i_madr (iop_channel c st)"
  shows "ok \<longleftrightarrow> ram_bound (ext st) \<and> unat madr + unat n \<le> unat (ram_size st)"
    and "\<not> ok \<Longrightarrow> st' = st"
    and "ok \<Longrightarrow> ram st' = copy_bytes (unat n) data madr (ram st) \<and> i_madr (iop_channel c st') = madr + n"
  using assms by (auto simp: iop_dma_channel_write_bytes_def Let_def upd_ich_def upd_dma_def iop_channel_def split: if_splits)

end
