(* ===== verification/Iop_Intr.thy ===== *)
theory Iop_Intr
  imports Iop_Dma Iop_Cpu
begin

text \<open>
  Interrupt handlers of the guest: the call gates and the dispatcher of
  \<open>source/hw/iop_hle_intr.c\<close> (INTRMAN and EXCEPMAN) and the exception chains of
  \<open>source/hw/iop_excb.c\<close>.
\<close>

section \<open>Registered handlers\<close>

record intr_stats =
  calls_seen :: u32
  intr_handlers_registered :: u32
  intr_handlers_released :: u32
  exc_handlers_registered :: u32
  exc_handlers_released :: u32
  default_exc_handlers_registered :: u32
  real_handler_dispatches :: u32

record hle_intr =
  intr_handler_addr :: "u32 list"
  intr_handler_arg :: "u32 list"
  exc_handler_addr :: "u32 list"
  default_exc_handler_addr :: u32
  intr_stats :: intr_stats
  handler_completion_count :: "u32 list"
  dispatched_irq :: u32
  saved_epc :: u32
  in_dispatch :: bool
  saved_ra :: u32
  saved_gpr :: "nat \<Rightarrow> u32"
  saved_hi :: u32
  saved_lo :: u32

abbreviation (input) NUM_IRQ :: nat where "NUM_IRQ \<equiv> 64"
abbreviation (input) NUM_EXC :: nat where "NUM_EXC \<equiv> 16"
abbreviation (input) REGISTER_INTR_HANDLER :: u32 where "REGISTER_INTR_HANDLER \<equiv> 0xD0"
abbreviation (input) RELEASE_INTR_HANDLER :: u32 where "RELEASE_INTR_HANDLER \<equiv> 0xD4"
abbreviation (input) REGISTER_EXCEPTION_HANDLER :: u32 where "REGISTER_EXCEPTION_HANDLER \<equiv> 0xD8"
abbreviation (input) RELEASE_EXCEPTION_HANDLER :: u32 where "RELEASE_EXCEPTION_HANDLER \<equiv> 0xDC"
abbreviation (input) REGISTER_DEFAULT_EXCEPTION_HANDLER :: u32 where "REGISTER_DEFAULT_EXCEPTION_HANDLER \<equiv> 0xE0"
abbreviation (input) HANDLER_RETURN_TRAMPOLINE :: u32 where "HANDLER_RETURN_TRAMPOLINE \<equiv> 0xE4"
abbreviation (input) ENABLE_INTR :: u32 where "ENABLE_INTR \<equiv> 0xE8"
abbreviation (input) DISABLE_INTR :: u32 where "DISABLE_INTR \<equiv> 0xEC"

definition iop_hle_intr_init :: hle_intr where
  "iop_hle_intr_init = \<lparr>intr_handler_addr = replicate NUM_IRQ 0, intr_handler_arg = replicate NUM_IRQ 0,
     exc_handler_addr = replicate NUM_EXC 0, default_exc_handler_addr = 0,
     intr_stats = \<lparr>calls_seen = 0, intr_handlers_registered = 0, intr_handlers_released = 0, exc_handlers_registered = 0,
       exc_handlers_released = 0, default_exc_handlers_registered = 0, real_handler_dispatches = 0\<rparr>,
     handler_completion_count = replicate NUM_IRQ 0, dispatched_irq = 0, saved_epc = 0, in_dispatch = False, saved_ra = 0,
     saved_gpr = \<lambda>_. 0, saved_hi = 0, saved_lo = 0\<rparr>"

definition iop_hle_intr_get_intr_handler :: "int \<Rightarrow> hle_intr \<Rightarrow> u32" where
  "iop_hle_intr_get_intr_handler irq g = (if irq < 0 \<or> irq \<ge> 64 then 0 else intr_handler_addr g ! nat irq)"

definition iop_hle_intr_get_exc_handler :: "int \<Rightarrow> hle_intr \<Rightarrow> u32" where
  "iop_hle_intr_get_exc_handler exc g = (if exc < 0 \<or> exc \<ge> 16 then 0 else exc_handler_addr g ! nat exc)"

definition iop_hle_intr_get_handler_completion_count :: "int \<Rightarrow> hle_intr \<Rightarrow> u32" where
  "iop_hle_intr_get_handler_completion_count irq g = (if irq < 0 \<or> irq \<ge> 64 then 0 else handler_completion_count g ! nat irq)"

definition iop_hle_intr_sentinel_for_import :: "string option \<Rightarrow> u32 \<Rightarrow> u32" where
  "iop_hle_intr_sentinel_for_import module_name ordinal =
     (case module_name of
        None \<Rightarrow> 0
      | Some m \<Rightarrow>
          if m = ''intrman'' then
            (if ordinal = 4 then REGISTER_INTR_HANDLER else if ordinal = 5 then RELEASE_INTR_HANDLER
             else if ordinal = 6 then ENABLE_INTR else if ordinal = 7 then DISABLE_INTR else 0)
          else if m = ''excepman'' then
            (if ordinal = 4 then REGISTER_EXCEPTION_HANDLER else if ordinal = 6 then REGISTER_DEFAULT_EXCEPTION_HANDLER
             else if ordinal = 7 then RELEASE_EXCEPTION_HANDLER else 0)
          else 0)"

section \<open>Call gates\<close>

definition gret :: "u32 \<Rightarrow> u32 \<Rightarrow> 'x iop_state \<Rightarrow> 'x iop_state" where
  "gret ra v st = st\<lparr>gpr := (gpr st)(2 := v), pc := ra, next_pc := ra + 4\<rparr>"

abbreviation (input) MINUS1 :: u32 where "MINUS1 \<equiv> 0xFFFFFFFF"

definition seen :: "(intr_stats \<Rightarrow> intr_stats) \<Rightarrow> hle_intr \<Rightarrow> hle_intr" where
  "seen f g = g\<lparr>intr_stats := f ((intr_stats g)\<lparr>calls_seen := calls_seen (intr_stats g) + 1\<rparr>)\<rparr>"

definition gate_register_intr :: "hle_intr \<times> 'x iop_state \<Rightarrow> hle_intr \<times> 'x iop_state" where
  "gate_register_intr = (\<lambda>(g, st).
     let irq = sint (gpr st 4) in
     if 0 \<le> irq \<and> irq < 64 then
       (seen (\<lambda>s. s\<lparr>intr_handlers_registered := intr_handlers_registered s + 1\<rparr>)
          (g\<lparr>intr_handler_addr := (intr_handler_addr g)[nat irq := gpr st 6], intr_handler_arg := (intr_handler_arg g)[nat irq := gpr st 7]\<rparr>),
        gret (gpr st 31) 0 st)
     else (seen id g, gret (gpr st 31) MINUS1 st))"

definition gate_release_intr :: "hle_intr \<times> 'x iop_state \<Rightarrow> hle_intr \<times> 'x iop_state" where
  "gate_release_intr = (\<lambda>(g, st).
     let irq = sint (gpr st 4) in
     if 0 \<le> irq \<and> irq < 64 then
       (seen (\<lambda>s. s\<lparr>intr_handlers_released := intr_handlers_released s + 1\<rparr>)
          (g\<lparr>intr_handler_addr := (intr_handler_addr g)[nat irq := 0], intr_handler_arg := (intr_handler_arg g)[nat irq := 0]\<rparr>),
        gret (gpr st 31) 0 st)
     else (seen id g, gret (gpr st 31) MINUS1 st))"

definition gate_register_exc :: "'x iop_bus \<Rightarrow> hle_intr \<times> 'x iop_state \<Rightarrow> hle_intr \<times> 'x iop_state" where
  "gate_register_exc bus = (\<lambda>(g, st).
     let exc = sint (gpr st 4); p = gpr st 5 in
     if 0 \<le> exc \<and> exc < 16 \<and> p \<noteq> 0 then
       let (f, st1) = iop_mem_read32 bus (p + 8) st in
       (seen (\<lambda>s. s\<lparr>exc_handlers_registered := exc_handlers_registered s + 1\<rparr>)
          (g\<lparr>exc_handler_addr := (exc_handler_addr g)[nat exc := f]\<rparr>), gret (gpr st 31) 0 st1)
     else (seen id g, gret (gpr st 31) MINUS1 st))"

definition gate_release_exc :: "hle_intr \<times> 'x iop_state \<Rightarrow> hle_intr \<times> 'x iop_state" where
  "gate_release_exc = (\<lambda>(g, st).
     let exc = sint (gpr st 4) in
     if 0 \<le> exc \<and> exc < 16 then
       (seen (\<lambda>s. s\<lparr>exc_handlers_released := exc_handlers_released s + 1\<rparr>)
          (g\<lparr>exc_handler_addr := (exc_handler_addr g)[nat exc := 0]\<rparr>), gret (gpr st 31) 0 st)
     else (seen id g, gret (gpr st 31) MINUS1 st))"

definition gate_register_default_exc :: "'x iop_bus \<Rightarrow> hle_intr \<times> 'x iop_state \<Rightarrow> hle_intr \<times> 'x iop_state" where
  "gate_register_default_exc bus = (\<lambda>(g, st).
     let p = gpr st 4 in
     if p \<noteq> 0 then
       let (f, st1) = iop_mem_read32 bus (p + 8) st in
       (seen (\<lambda>s. s\<lparr>default_exc_handlers_registered := default_exc_handlers_registered s + 1\<rparr>)
          (g\<lparr>default_exc_handler_addr := f\<rparr>), gret (gpr st 31) 0 st1)
     else (seen id g, gret (gpr st 31) MINUS1 st))"

definition upd_intc :: "(iop_intc_state \<Rightarrow> iop_intc_state) \<Rightarrow> 'x iop_state \<Rightarrow> 'x iop_state" where
  "upd_intc f st = st\<lparr>intc := f (intc st)\<rparr>"

definition enable_irq :: "nat \<Rightarrow> u32 \<Rightarrow> 'w io_state \<Rightarrow> int \<times> 'w io_state" where
  "enable_irq i upper st =
     (if i < 32 then (0, upd_intc (\<lambda>c. c\<lparr>imask := imask c OR push_bit i 1\<rparr>) st)
      else if 0x20 \<le> i \<and> i \<le> 0x26 then
        (0, upd_intc (\<lambda>c. c\<lparr>imask := imask c OR 8, imask_hi := imask_hi c OR push_bit (i - 32) 1\<rparr>)
          (upd_dma (\<lambda>d. d\<lparr>
             icr := ((icr d AND NOT (push_bit (i - 32) 1)) AND 0xFFFFFF)
               OR (if upper AND 1 \<noteq> 0 then push_bit (i - 32) 1 else 0) OR push_bit (i - 32 + 16) 1 OR 0x800000,
             icr2 := ((icr2 d AND NOT (push_bit (i - 32) 1)) AND 0xFFFFFF)
               OR (if upper AND 2 \<noteq> 0 then push_bit (i - 32) 1 else 0)\<rparr>) st))
      else if 0x28 \<le> i \<and> i \<le> 0x2D then
        (0, upd_intc (\<lambda>c. c\<lparr>imask := imask c OR 8, imask_hi := imask_hi c OR push_bit (i - 32) 1\<rparr>)
          (upd_dma (\<lambda>d. d\<lparr>
             icr2 := ((icr2 d AND NOT (push_bit (i - 40 + 7) 1)) AND 0xFFFFFF)
               OR (if upper AND 2 \<noteq> 0 then push_bit (i - 33) 1 else 0) OR push_bit (i - 40 + 16) 1,
             icr := (icr d AND 0x7FFFFF) OR 0x800000\<rparr>) st))
      else (-101, st))"

definition gate_enable_intr :: "hle_intr \<times> 'w io_state \<Rightarrow> hle_intr \<times> 'w io_state" where
  "gate_enable_intr = (\<lambda>(g, st).
     let irq = gpr st 4; (r, st1) = enable_irq (unat (irq AND 0xFF)) (drop_bit 8 (irq AND 0xFF00)) st
     in (seen id g, gret (gpr st 31) (word_of_int r) st1))"

text \<open>The return value, the result stored through the pointer, and the new state.\<close>

definition disable_irq :: "nat \<Rightarrow> 'w io_state \<Rightarrow> int \<times> int \<times> 'w io_state" where
  "disable_irq i st =
     (let d = idma (ext st) in
      if i < 32 then
        (let st1 = upd_intc (\<lambda>c. c\<lparr>imask := imask c AND NOT (push_bit i 1)\<rparr>) st in
         if imask (intc st) AND push_bit i 1 \<noteq> 0 then (0, int i, st1) else (-103, -103, st1))
      else if 0x20 \<le> i \<and> i \<le> 0x26 then
        (let t = icr d AND 0xFFFFFF in
         if t AND push_bit (i - 16) 1 \<noteq> 0 then
           (0, int i + (if drop_bit (i - 32) t AND 1 \<noteq> 0 then 0x100 else 0) + (if icr2 d AND push_bit (i - 32) 1 \<noteq> 0 then 0x200 else 0),
            upd_intc (\<lambda>c. c\<lparr>imask_hi := imask_hi c AND NOT (push_bit (i - 32) 1)\<rparr>)
              (upd_dma (\<lambda>d. d\<lparr>icr := t AND NOT (push_bit (i - 16) 1)\<rparr>) st))
         else (-103, -103, st))
      else if 0x28 \<le> i \<and> i \<le> 0x2D then
        (let t = icr2 d AND 0xFFFFFF in
         if t AND push_bit (i - 24) 1 \<noteq> 0 then
           (0, int i + (if drop_bit (i - 33) t AND 1 \<noteq> 0 then 0x200 else 0),
            upd_intc (\<lambda>c. c\<lparr>imask_hi := imask_hi c AND NOT (push_bit (i - 32) 1)\<rparr>)
              (upd_dma (\<lambda>d. d\<lparr>icr2 := t AND NOT (push_bit (i - 24) 1)\<rparr>) st))
         else (-103, -103, st))
      else (-101, -103, st))"

definition gate_disable_intr :: "'w iop_io iop_bus \<Rightarrow> hle_intr \<times> 'w io_state \<Rightarrow> hle_intr \<times> 'w io_state" where
  "gate_disable_intr bus = (\<lambda>(g, st).
     let (r, res, st1) = disable_irq (unat (gpr st 4 AND 0xFF)) st;
         st2 = (if gpr st 5 \<noteq> 0 then iop_mem_write32 bus (gpr st 5) (word_of_int res) st1 else st1)
     in (seen id g, gret (gpr st 31) (word_of_int r) st2))"

section \<open>Dispatch and return\<close>

definition clear_line :: "u32 \<Rightarrow> iop_intc_state \<Rightarrow> iop_intc_state" where
  "clear_line irq c =
     (if irq < 32 then c\<lparr>istat := istat c AND NOT (push_bit (unat irq) 1)\<rparr>
      else c\<lparr>istat_hi := istat_hi c AND NOT (push_bit (unat (irq - 32)) 1)\<rparr>)"

definition status_unstack :: "u32 \<Rightarrow> u32" where
  "status_unstack s = (s AND NOT 0x0F) OR (drop_bit 2 s AND 0x0F)"

definition gate_handler_return :: "hle_intr \<times> 'x iop_state \<Rightarrow> hle_intr \<times> 'x iop_state" where
  "gate_handler_return = (\<lambda>(g, st).
     if in_dispatch g then
       (g\<lparr>handler_completion_count := (if dispatched_irq g < 64
            then (handler_completion_count g)[unat (dispatched_irq g) := handler_completion_count g ! unat (dispatched_irq g) + 1]
            else handler_completion_count g),
          in_dispatch := False\<rparr>,
        st\<lparr>intc := clear_line (dispatched_irq g) (intc st),
           cop0 := (cop0 st)(12 := status_unstack (cop0 st 12)),
           gpr := (\<lambda>r. if 1 \<le> r \<and> r < 32 then saved_gpr g r else ((gpr st)(31 := saved_ra g)) r),
           hi := saved_hi g, lo := saved_lo g, pc := saved_epc g, next_pc := saved_epc g + 4, exception_pending := False\<rparr>)
     else (g, st))"

definition iop_hle_intr_dispatch_interrupt :: "u32 \<Rightarrow> hle_intr \<times> 'x iop_state \<Rightarrow> (hle_intr \<times> 'x iop_state) option" where
  "iop_hle_intr_dispatch_interrupt irq = (\<lambda>(g, st).
     if irq \<ge> 64 \<or> intr_handler_addr g ! unat irq = 0 then None
     else let h = intr_handler_addr g ! unat irq in
       Some (g\<lparr>dispatched_irq := irq, saved_epc := cop0 st 14, in_dispatch := True, saved_ra := gpr st 31,
               saved_gpr := (\<lambda>r. if 1 \<le> r \<and> r < 32 then gpr st r else saved_gpr g r), saved_hi := hi st, saved_lo := lo st,
               intr_stats := (intr_stats g)\<lparr>real_handler_dispatches := real_handler_dispatches (intr_stats g) + 1\<rparr>\<rparr>,
             st\<lparr>gpr := (gpr st)(4 := intr_handler_arg g ! unat irq, 31 := HANDLER_RETURN_TRAMPOLINE), pc := h, next_pc := h + 4\<rparr>))"

definition iop_hle_intr_try_handle ::
  "'w iop_io iop_bus \<Rightarrow> u32 \<Rightarrow> hle_intr \<times> 'w io_state \<Rightarrow> (hle_intr \<times> 'w io_state) option" where
  "iop_hle_intr_try_handle bus a s =
     (if a = REGISTER_INTR_HANDLER then Some (gate_register_intr s)
      else if a = RELEASE_INTR_HANDLER then Some (gate_release_intr s)
      else if a = REGISTER_EXCEPTION_HANDLER then Some (gate_register_exc bus s)
      else if a = RELEASE_EXCEPTION_HANDLER then Some (gate_release_exc s)
      else if a = REGISTER_DEFAULT_EXCEPTION_HANDLER then Some (gate_register_default_exc bus s)
      else if a = ENABLE_INTR then Some (gate_enable_intr s)
      else if a = DISABLE_INTR then Some (gate_disable_intr bus s)
      else if a = HANDLER_RETURN_TRAMPOLINE then Some (gate_handler_return s)
      else None)"

section \<open>Exception chains\<close>

record excb_state =
  enq_calls :: u64
  deq_calls :: u64
  deq_bug_noop_count :: u64
  dispatch_attempts :: u64
  dispatch_claimed :: u64
  dispatch_exhausted :: u64

record excb_dispatch =
  x_active :: bool
  x_trying_second :: bool
  x_priority :: u32
  x_node :: u32
  x_dispatched_irq :: u32
  x_saved_epc :: u32

abbreviation (input) EXCB_TABLE_ADDR :: u32 where "EXCB_TABLE_ADDR \<equiv> 0x100"
abbreviation (input) EXCB_ARRAY_ADDR :: u32 where "EXCB_ARRAY_ADDR \<equiv> 0xE000"
abbreviation (input) EXCB_RETURN_TRAMPOLINE :: u32 where "EXCB_RETURN_TRAMPOLINE \<equiv> 0xF0"

primrec excb_clear :: "'x iop_bus \<Rightarrow> nat \<Rightarrow> 'x iop_state \<Rightarrow> 'x iop_state" where
  "excb_clear bus 0 st = st"
| "excb_clear bus (Suc i) st =
     iop_mem_write32 bus (EXCB_ARRAY_ADDR + word_of_nat i * 8 + 4) 0
       (iop_mem_write32 bus (EXCB_ARRAY_ADDR + word_of_nat i * 8) 0 (excb_clear bus i st))"

definition iop_excb_init :: "'x iop_bus \<Rightarrow> 'x iop_state \<Rightarrow> excb_state \<times> 'x iop_state" where
  "iop_excb_init bus st =
     (\<lparr>enq_calls = 0, deq_calls = 0, deq_bug_noop_count = 0, dispatch_attempts = 0, dispatch_claimed = 0, dispatch_exhausted = 0\<rparr>,
      excb_clear bus 4 (iop_mem_write32 bus (EXCB_TABLE_ADDR + 4) 0x20 (iop_mem_write32 bus EXCB_TABLE_ADDR EXCB_ARRAY_ADDR st)))"

definition chain_head_addr :: "'x iop_bus \<Rightarrow> u32 \<Rightarrow> 'x iop_state \<Rightarrow> u32 \<times> 'x iop_state" where
  "chain_head_addr bus priority st =
     (let (t, st1) = iop_mem_read32 bus EXCB_TABLE_ADDR st in ((if t = 0 then EXCB_ARRAY_ADDR else t) + priority * 8, st1))"

definition iop_excb_sys_enq_int_rp :: "'x iop_bus \<Rightarrow> u32 \<Rightarrow> u32 \<Rightarrow> excb_state \<times> 'x iop_state \<Rightarrow> excb_state \<times> 'x iop_state" where
  "iop_excb_sys_enq_int_rp bus priority struc = (\<lambda>(x, st).
     let x1 = x\<lparr>enq_calls := enq_calls x + 1\<rparr> in
     if priority \<ge> 4 then (x1, st)
     else let (addr, st1) = chain_head_addr bus priority st; (old_head, st2) = iop_mem_read32 bus addr st1
       in (x1, iop_mem_write32 bus addr struc (iop_mem_write32 bus struc old_head st2)))"

definition iop_excb_sys_deq_int_rp :: "'x iop_bus \<Rightarrow> u32 \<Rightarrow> u32 \<Rightarrow> excb_state \<times> 'x iop_state \<Rightarrow> excb_state \<times> 'x iop_state" where
  "iop_excb_sys_deq_int_rp bus priority struc = (\<lambda>(x, st).
     let x1 = x\<lparr>deq_calls := deq_calls x + 1\<rparr> in
     if priority \<ge> 4 then (x1, st)
     else let (addr, st1) = chain_head_addr bus priority st; (head, st2) = iop_mem_read32 bus addr st1
       in if head = struc
          then (let (nxt, st3) = iop_mem_read32 bus struc st2 in (x1, iop_mem_write32 bus addr nxt st3))
          else (x1\<lparr>deq_bug_noop_count := deq_bug_noop_count x1 + 1\<rparr>, st2))"

text \<open>The first non-empty chain among the \<open>n\<close> priorities from \<open>p\<close> on.\<close>

fun find_chain_from :: "'x iop_bus \<Rightarrow> nat \<Rightarrow> u32 \<Rightarrow> 'x iop_state \<Rightarrow> (u32 \<times> u32) option \<times> 'x iop_state" where
  "find_chain_from bus 0 p st = (None, st)"
| "find_chain_from bus (Suc n) p st =
     (let (a, st1) = chain_head_addr bus p st; (head, st2) = iop_mem_read32 bus a st1
      in if head \<noteq> 0 then (Some (p, head), st2) else find_chain_from bus n (p + 1) st2)"

definition find_next_chain :: "'x iop_bus \<Rightarrow> u32 \<Rightarrow> 'x iop_state \<Rightarrow> (u32 \<times> u32) option \<times> 'x iop_state" where
  "find_next_chain bus p st = find_chain_from bus (4 - unat p) p st"

definition enter_node_function :: "'x iop_bus \<Rightarrow> u32 \<Rightarrow> bool \<Rightarrow> excb_dispatch \<times> 'x iop_state \<Rightarrow> excb_dispatch \<times> 'x iop_state" where
  "enter_node_function bus node second = (\<lambda>(d, st).
     let (f, st1) = iop_mem_read32 bus (node + (if second then 4 else 8)) st
     in (d\<lparr>x_trying_second := second\<rparr>, st1\<lparr>gpr := (gpr st1)(31 := EXCB_RETURN_TRAMPOLINE), pc := f, next_pc := f + 4\<rparr>))"

definition next_node_or_chain :: "'x iop_bus \<Rightarrow> excb_dispatch \<times> 'x iop_state \<Rightarrow> bool \<times> excb_dispatch \<times> 'x iop_state" where
  "next_node_or_chain bus = (\<lambda>(d, st).
     let (nxt, st1) = iop_mem_read32 bus (x_node d) st in
     if nxt \<noteq> 0 then (True, enter_node_function bus nxt False (d\<lparr>x_node := nxt\<rparr>, st1))
     else case find_next_chain bus (x_priority d + 1) st1 of
         (Some (p, h), st2) \<Rightarrow> (True, enter_node_function bus h False (d\<lparr>x_priority := p, x_node := h\<rparr>, st2))
       | (None, st2) \<Rightarrow> (False, d, st2))"

definition advance_and_enter :: "'x iop_bus \<Rightarrow> excb_dispatch \<times> 'x iop_state \<Rightarrow> bool \<times> excb_dispatch \<times> 'x iop_state" where
  "advance_and_enter bus = (\<lambda>(d, st).
     if \<not> x_trying_second d then
       let (f, st1) = iop_mem_read32 bus (x_node d + 4) st in
       if f \<noteq> 0 then (True, enter_node_function bus (x_node d) True (d, st1)) else next_node_or_chain bus (d, st1)
     else next_node_or_chain bus (d, st))"

type_synonym 'x excb = "excb_state \<times> excb_dispatch \<times> 'x iop_state"

definition iop_excb_dispatch_interrupt :: "'x iop_bus \<Rightarrow> u32 \<Rightarrow> 'x excb \<Rightarrow> bool \<times> 'x excb" where
  "iop_excb_dispatch_interrupt bus irq = (\<lambda>(x, d, st).
     case find_next_chain bus 0 st of
       (None, st1) \<Rightarrow> (False, x, d, st1)
     | (Some (p, n), st1) \<Rightarrow>
         (True, x\<lparr>dispatch_attempts := dispatch_attempts x + 1\<rparr>,
          enter_node_function bus n False
            (d\<lparr>x_active := True, x_priority := p, x_node := n, x_dispatched_irq := irq, x_saved_epc := cop0 st1 14\<rparr>, st1)))"

definition iop_excb_try_handle :: "'x iop_bus \<Rightarrow> u32 \<Rightarrow> 'x excb \<Rightarrow> 'x excb option" where
  "iop_excb_try_handle bus a = (\<lambda>(x, d, st).
     if a \<noteq> EXCB_RETURN_TRAMPOLINE \<or> \<not> x_active d then None
     else if gpr st 2 = 0 then
       Some (x\<lparr>dispatch_claimed := dispatch_claimed x + 1\<rparr>, d\<lparr>x_active := False\<rparr>,
         st\<lparr>intc := clear_line (x_dispatched_irq d) (intc st), cop0 := (cop0 st)(12 := status_unstack (cop0 st 12)),
            pc := x_saved_epc d, next_pc := x_saved_epc d + 4\<rparr>)
     else let (entered, d1, st1) = advance_and_enter bus (d, st) in
       if entered then Some (x, d1, st1)
       else Some (x\<lparr>dispatch_exhausted := dispatch_exhausted x + 1\<rparr>, d1\<lparr>x_active := False\<rparr>, go (exc_vector st1) st1))"

end
