(* ===== verification/Iop_Bios.thy ===== *)
theory Iop_Bios
  imports Iop_Intr Iop_Events
begin

text \<open>
  The BIOS calls of the IOP, \<open>source/hw/iop_hle_bios.c\<close>: the three call tables, the string and
  memory functions, the kernel memory allocator, exception vectors and the syscall handler.

  A call gives \<open>None\<close> where the C program does not return with a defined result: the negation of
  \<open>-2\<^sup>31\<close>, or an unbounded loop over a string that has no end. The text describing the last call
  is not modelled.
\<close>

section \<open>State\<close>

record hle_bios =
  b_calls_seen :: u64
  last_table :: u32
  last_function :: u32
  exception_handler_template_found :: bool
  exception_handler_installed :: bool
  known_calls_handled :: u64
  heap_addr :: u32
  heap_size :: u32
  heap_initialized :: bool
  b_exited :: bool
  exit_code :: u32
  kmem_bump_next :: u32
  kmem_alloc_calls :: u64
  kmem_alloc_failures :: u64
  syscall_handler_code_addr :: u32
  syscall_handler_installs :: u64
  reset_entry_int_calls :: u64
  hook_entry_int_calls :: u64
  setjmp_calls :: u64
  cdrom_device_registered :: bool
  memcard_device_registered :: bool
  add_cdrom_device_calls :: u64
  add_memcard_device_calls :: u64
  exc_template :: "u8 list"
  exc_template_scanned :: bool

record 'x bios_sys =
  hb :: hle_bios
  b_events :: evtable
  b_excb :: excb_state
  bst :: "'x iop_state"

definition iop_hle_bios_init :: hle_bios where
  "iop_hle_bios_init = \<lparr>b_calls_seen = 0, last_table = 0, last_function = 0, exception_handler_template_found = False,
     exception_handler_installed = False, known_calls_handled = 0, heap_addr = 0, heap_size = 0, heap_initialized = False,
     b_exited = False, exit_code = 0, kmem_bump_next = EXCB_ARRAY_ADDR, kmem_alloc_calls = 0, kmem_alloc_failures = 0,
     syscall_handler_code_addr = 0, syscall_handler_installs = 0, reset_entry_int_calls = 0, hook_entry_int_calls = 0,
     setjmp_calls = 0, cdrom_device_registered = False, memcard_device_registered = False, add_cdrom_device_calls = 0,
     add_memcard_device_calls = 0, exc_template = replicate 16 0, exc_template_scanned = False\<rparr>"

definition upd_hb :: "(hle_bios \<Rightarrow> hle_bios) \<Rightarrow> 'x bios_sys \<Rightarrow> 'x bios_sys" where
  "upd_hb f s = s\<lparr>hb := f (hb s)\<rparr>"

definition upd_bst :: "('x iop_state \<Rightarrow> 'x iop_state) \<Rightarrow> 'x bios_sys \<Rightarrow> 'x bios_sys" where
  "upd_bst f s = s\<lparr>bst := f (bst s)\<rparr>"

section \<open>Exception vectors\<close>

definition rom_read32 :: "(u32 \<Rightarrow> u8) \<Rightarrow> u32 \<Rightarrow> u32" where
  "rom_read32 d p = ucast (d p) OR push_bit 8 (ucast (d (p + 1))) OR push_bit 16 (ucast (d (p + 2))) OR push_bit 24 (ucast (d (p + 3)))"

definition is_template :: "(u32 \<Rightarrow> u8) \<Rightarrow> u32 \<Rightarrow> bool" where
  "is_template d p \<longleftrightarrow> rom_read32 d p = 0x3C1A0000 \<and> rom_read32 d (p + 8) = 0x03400008 \<and> rom_read32 d (p + 12) = 0"

definition find_exception_handler_template :: "bios_image option \<Rightarrow> u8 list option" where
  "find_exception_handler_template b = (case b of
       None \<Rightarrow> None
     | Some i \<Rightarrow>
         if bsize i < 16 then None
         else map_option (\<lambda>k. map (\<lambda>j. bdata i (word_of_nat (4 * k) + word_of_nat j)) [0..<16])
                (list_find_index (\<lambda>k. is_template (bdata i) (word_of_nat (4 * k))) [0..<unat (bsize i - 16) div 4 + 1]))"

definition template_word :: "u8 list \<Rightarrow> nat \<Rightarrow> u32" where
  "template_word t i = rom_read32 (\<lambda>a. t ! unat a) (word_of_nat i)"

primrec install_words :: "'x iop_bus \<Rightarrow> u8 list \<Rightarrow> nat \<Rightarrow> 'x iop_state \<Rightarrow> 'x iop_state" where
  "install_words bus t 0 st = st"
| "install_words bus t (Suc k) st =
     (let w = template_word t (4 * k); st1 = install_words bus t k st
      in iop_mem_write32 bus (0x00000000 + word_of_nat (4 * k)) w (iop_mem_write32 bus (0x00000080 + word_of_nat (4 * k)) w st1))"

definition try_install_exception_handlers :: "'x iop_bus \<Rightarrow> 'x bios_sys \<Rightarrow> 'x bios_sys" where
  "try_install_exception_handlers bus s =
     (let s1 = (if exc_template_scanned (hb s) then s
                else case find_exception_handler_template (bios (bst s)) of
                    Some t \<Rightarrow> upd_hb (\<lambda>h. h\<lparr>exception_handler_template_found := True, exc_template := t, exc_template_scanned := True\<rparr>) s
                  | None \<Rightarrow> upd_hb (\<lambda>h. h\<lparr>exception_handler_template_found := False, exc_template_scanned := True\<rparr>) s)
      in if \<not> exception_handler_template_found (hb s1) then s1
         else upd_hb (\<lambda>h. h\<lparr>exception_handler_installed := True\<rparr>) (upd_bst (install_words bus (exc_template (hb s1)) 4) s1))"

section \<open>String and memory functions\<close>

partial_function (option) strlen_from :: "'x iop_bus \<Rightarrow> u32 \<Rightarrow> u32 \<Rightarrow> 'x iop_state \<Rightarrow> (u32 \<times> 'x iop_state) option" where
  "strlen_from bus src n st =
     (let r = iop_mem_read8 bus (src + n) st
      in if fst r \<noteq> 0 then strlen_from bus src (n + 1) (snd r) else Some (n, snd r))"

definition iop_strlen :: "'x iop_bus \<Rightarrow> u32 \<Rightarrow> 'x iop_state \<Rightarrow> (u32 \<times> 'x iop_state) option" where
  "iop_strlen bus src st = strlen_from bus src 0 st"

primrec copy_from :: "'x iop_bus \<Rightarrow> u32 \<Rightarrow> u32 \<Rightarrow> u32 \<Rightarrow> nat \<Rightarrow> 'x iop_state \<Rightarrow> 'x iop_state" where
  "copy_from bus dst src i 0 st = st"
| "copy_from bus dst src i (Suc n) st =
     (let (c, st1) = iop_mem_read8 bus (src + i) st in copy_from bus dst src (i + 1) n (iop_mem_write8 bus (dst + i) c st1))"

definition iop_memcpy_bytes :: "'x iop_bus \<Rightarrow> u32 \<Rightarrow> u32 \<Rightarrow> u32 \<Rightarrow> 'x iop_state \<Rightarrow> 'x iop_state" where
  "iop_memcpy_bytes bus dst src len st = copy_from bus dst src 0 (unat len) st"

primrec fill_from :: "'x iop_bus \<Rightarrow> u32 \<Rightarrow> u8 \<Rightarrow> u32 \<Rightarrow> nat \<Rightarrow> 'x iop_state \<Rightarrow> 'x iop_state" where
  "fill_from bus dst v i 0 st = st"
| "fill_from bus dst v i (Suc n) st = fill_from bus dst v (i + 1) n (iop_mem_write8 bus (dst + i) v st)"

primrec strncpy_from :: "'x iop_bus \<Rightarrow> u32 \<Rightarrow> u32 \<Rightarrow> bool \<Rightarrow> u32 \<Rightarrow> nat \<Rightarrow> 'x iop_state \<Rightarrow> 'x iop_state" where
  "strncpy_from bus dst src hit_nul i 0 st = st"
| "strncpy_from bus dst src hit_nul i (Suc n) st =
     (let (c, st1) = (if hit_nul then (0, st) else iop_mem_read8 bus (src + i) st)
      in strncpy_from bus dst src (hit_nul \<or> c = 0) (i + 1) n (iop_mem_write8 bus (dst + i) c st1))"

text \<open>The index at which the loop of STRNCAT stopped, and the state.\<close>

primrec strncat_from :: "'x iop_bus \<Rightarrow> u32 \<Rightarrow> u32 \<Rightarrow> u32 \<Rightarrow> nat \<Rightarrow> 'x iop_state \<Rightarrow> u32 \<times> 'x iop_state" where
  "strncat_from bus dst src i 0 st = (i, st)"
| "strncat_from bus dst src i (Suc n) st =
     (let (c, st1) = iop_mem_read8 bus (src + i) st
      in if c = 0 then (i, st1) else strncat_from bus dst src (i + 1) n (iop_mem_write8 bus (dst + i) c st1))"

definition byte_diff :: "u8 \<Rightarrow> u8 \<Rightarrow> u32" where
  "byte_diff a b = word_of_int (uint a - uint b)"

partial_function (option) strcmp_from :: "'x iop_bus \<Rightarrow> u32 \<Rightarrow> u32 \<Rightarrow> u32 \<Rightarrow> 'x iop_state \<Rightarrow> (u32 \<times> 'x iop_state) option" where
  "strcmp_from bus a b i st =
     (let r1 = iop_mem_read8 bus (a + i) st; r2 = iop_mem_read8 bus (b + i) (snd r1)
      in if fst r1 \<noteq> fst r2 \<or> fst r1 = 0 then Some (byte_diff (fst r1) (fst r2), snd r2)
         else strcmp_from bus a b (i + 1) (snd r2))"

primrec strncmp_from :: "'x iop_bus \<Rightarrow> u32 \<Rightarrow> u32 \<Rightarrow> u32 \<Rightarrow> nat \<Rightarrow> 'x iop_state \<Rightarrow> u32 \<times> 'x iop_state" where
  "strncmp_from bus a b i 0 st = (0, st)"
| "strncmp_from bus a b i (Suc n) st =
     (let (c1, st1) = iop_mem_read8 bus (a + i) st; (c2, st2) = iop_mem_read8 bus (b + i) st1
      in if c1 \<noteq> c2 \<or> c1 = 0 then (byte_diff c1 c2, st2) else strncmp_from bus a b (i + 1) n st2)"

definition set_v0 :: "u32 \<Rightarrow> 'x iop_state \<Rightarrow> 'x iop_state" where
  "set_v0 v st = st\<lparr>gpr := (gpr st)(2 := v)\<rparr>"

text \<open>The functions of the A0 table; the outer \<open>None\<close> is an undefined result, the inner one an unknown function.\<close>

definition a0_memory :: "'x iop_bus \<Rightarrow> u32 \<Rightarrow> 'x iop_state \<Rightarrow> 'x iop_state option option" where
  "a0_memory bus f st =
     (let a0 = gpr st 4; a1 = gpr st 5; a2 = gpr st 6 in
      if f = 0x0E \<or> f = 0x0F then
        (if a0 = 0x80000000 then None else Some (Some (set_v0 (if sint a0 < 0 then - a0 else a0) st)))
      else if f = 0x1B then map_option (\<lambda>(n, st1). Some (set_v0 n st1)) (iop_strlen bus a0 st)
      else if f = 0x19 then
        map_option (\<lambda>(n, st1). Some (set_v0 a0 (iop_memcpy_bytes bus a0 a1 (n + 1) st1))) (iop_strlen bus a1 st)
      else if f = 0x1A then Some (Some (set_v0 a0 (strncpy_from bus a0 a1 False 0 (unat a2) st)))
      else if f = 0x15 then
        Option.bind (iop_strlen bus a0 st) (\<lambda>(dl, st1). map_option (\<lambda>(sl, st2). Some (set_v0 a0 (iop_memcpy_bytes bus (a0 + dl) a1 (sl + 1) st2)))
          (iop_strlen bus a1 st1))
      else if f = 0x16 then
        map_option (\<lambda>(dl, st1). let (i, st2) = strncat_from bus (a0 + dl) a1 0 (unat a2) st1
          in Some (set_v0 a0 (iop_mem_write8 bus (a0 + dl + i) 0 st2))) (iop_strlen bus a0 st)
      else if f = 0x17 then map_option (\<lambda>(r, st1). Some (set_v0 r st1)) (strcmp_from bus a0 a1 0 st)
      else if f = 0x18 then (let (r, st1) = strncmp_from bus a0 a1 0 (unat a2) st in Some (Some (set_v0 r st1)))
      else if f = 0x27 then Some (Some (iop_memcpy_bytes bus a1 a0 a2 st))
      else if f = 0x28 then Some (Some (fill_from bus a0 0 0 (unat a1) st))
      else if f = 0x2A \<or> f = 0x2C then Some (Some (set_v0 a0 (iop_memcpy_bytes bus a0 a1 a2 st)))
      else if f = 0x2B then Some (Some (set_v0 a0 (fill_from bus a0 (ucast a1) 0 (unat a2) st)))
      else Some None)"

definition try_handle_a0_real_function :: "'x iop_bus \<Rightarrow> u32 \<Rightarrow> 'x bios_sys \<Rightarrow> 'x bios_sys option option" where
  "try_handle_a0_real_function bus f s =
     (case a0_memory bus f (bst s) of
        None \<Rightarrow> None
      | Some (Some st1) \<Rightarrow> Some (Some (s\<lparr>bst := st1\<rparr>))
      | Some None \<Rightarrow>
          let a0 = gpr (bst s) 4; a1 = gpr (bst s) 5 in
          Some (if f = 0x39 then Some (upd_hb (\<lambda>h. h\<lparr>heap_addr := a0, heap_size := a1, heap_initialized := True\<rparr>) s)
                else if f = 0x44 then Some s
                else if f = 0x96 then
                  Some (upd_bst (set_v0 0) (upd_hb (\<lambda>h. h\<lparr>cdrom_device_registered := True, add_cdrom_device_calls := add_cdrom_device_calls h + 1\<rparr>) s))
                else if f = 0x97 then
                  Some (upd_bst (set_v0 0) (upd_hb (\<lambda>h. h\<lparr>memcard_device_registered := True, add_memcard_device_calls := add_memcard_device_calls h + 1\<rparr>) s))
                else None))"

section \<open>Kernel memory and the syscall handler\<close>

definition kmem_alloc :: "u32 \<Rightarrow> hle_bios \<Rightarrow> u32 \<times> hle_bios" where
  "kmem_alloc sz h =
     (let aligned = (sz + 3) AND NOT 3 in
      if unat (kmem_bump_next h) + unat aligned > 0xE000 + 0x2000 then (0, h)
      else (kmem_bump_next h, h\<lparr>kmem_bump_next := kmem_bump_next h + aligned\<rparr>))"

definition g_syscall_handler_code :: "u32 list" where
  "g_syscall_handler_code = [
    0x40086800, 0x3108007C, 0x24090020, 0x15090024, 0x00000000, 0x00000000, 0x241A0100, 0x8F5A0008,
    0x8F5A0000, 0x235A0008, 0x8F440010, 0x24090001, 0x10890009, 0x00000000, 0x00000000, 0x24090002,
    0x10890010, 0x00000000, 0x00000000, 0x10000018, 0x00000000, 0x00000000, 0x40086000, 0x31090404,
    0x39290404, 0x2D220001, 0x3C0AFFFF, 0x354AFBFB, 0x010A4024, 0x40886000, 0x1000000D, 0x00000000,
    0x00000000, 0x40086000, 0x35080404, 0x40886000, 0x24020001, 0x10000006, 0x00000000, 0x00000000,
    0x24020000, 0x03E00008, 0x00000000, 0x00000000, 0x080003CC, 0x00000000, 0x00000000]"

primrec write_code :: "'x iop_bus \<Rightarrow> u32 \<Rightarrow> u32 list \<Rightarrow> 'x iop_state \<Rightarrow> 'x iop_state" where
  "write_code bus a [] st = st"
| "write_code bus a (w # ws) st = write_code bus (a + 4) ws (iop_mem_write32 bus a w st)"

definition enqueue_syscall_node :: "'x iop_bus \<Rightarrow> u32 \<Rightarrow> 'x bios_sys \<Rightarrow> 'x bios_sys" where
  "enqueue_syscall_node bus priority s =
     (let (node, h1) = kmem_alloc 16 (hb s) in
      if node = 0 then s\<lparr>hb := h1\<rparr>
      else let st1 = iop_mem_write32 bus (node + 0x0C) 0 (iop_mem_write32 bus (node + 0x08) (syscall_handler_code_addr h1)
                 (iop_mem_write32 bus (node + 0x04) 0 (bst s)));
               (x2, st2) = iop_excb_sys_enq_int_rp bus priority node (b_excb s, st1)
        in s\<lparr>hb := h1\<lparr>syscall_handler_installs := syscall_handler_installs h1 + 1\<rparr>, b_excb := x2, bst := st2\<rparr>)"

definition install_syscall_handler :: "'x iop_bus \<Rightarrow> u32 \<Rightarrow> 'x bios_sys \<Rightarrow> 'x bios_sys" where
  "install_syscall_handler bus priority s =
     (if syscall_handler_code_addr (hb s) = 0 then
        let (code, h1) = kmem_alloc (word_of_nat (length g_syscall_handler_code) * 4) (hb s) in
        if code = 0 then s\<lparr>hb := h1\<rparr>
        else enqueue_syscall_node bus priority
               (s\<lparr>hb := h1\<lparr>syscall_handler_code_addr := code\<rparr>, bst := write_code bus code g_syscall_handler_code (bst s)\<rparr>)
      else enqueue_syscall_node bus priority s)"

section \<open>The call tables\<close>

definition return_to :: "u32 \<Rightarrow> 'x bios_sys \<Rightarrow> 'x bios_sys" where
  "return_to ra s = upd_hb (\<lambda>h. h\<lparr>known_calls_handled := known_calls_handled h + 1\<rparr>) (upd_bst (\<lambda>st. st\<lparr>pc := ra, next_pc := ra + 4\<rparr>) s)"

text \<open>The end of the handler that the calls without an own return share: result 0.\<close>

definition default_return :: "u32 \<Rightarrow> 'x bios_sys \<Rightarrow> 'x bios_sys" where
  "default_return ra s = upd_bst (\<lambda>st. st\<lparr>gpr := (gpr st)(2 := 0), pc := ra, next_pc := ra + 4\<rparr>) s"

definition known :: "'x bios_sys \<Rightarrow> 'x bios_sys" where
  "known = upd_hb (\<lambda>h. h\<lparr>known_calls_handled := known_calls_handled h + 1\<rparr>)"

primrec setjmp_saved :: "'x iop_bus \<Rightarrow> u32 \<Rightarrow> nat \<Rightarrow> 'x iop_state \<Rightarrow> 'x iop_state" where
  "setjmp_saved bus buf 0 st = st"
| "setjmp_saved bus buf (Suc i) st =
     (let st1 = setjmp_saved bus buf i st in iop_mem_write32 bus (buf + 0x0C + word_of_nat i * 4) (gpr st1 (16 + i)) st1)"

definition bios_setjmp :: "'x iop_bus \<Rightarrow> 'x iop_state \<Rightarrow> 'x iop_state" where
  "bios_setjmp bus st =
     (let buf = gpr st 4;
          st1 = iop_mem_write32 bus buf (gpr st 31) st;
          st2 = iop_mem_write32 bus (buf + 4) (gpr st1 29) st1;
          st3 = iop_mem_write32 bus (buf + 8) (gpr st2 30) st2;
          st4 = setjmp_saved bus buf 8 st3;
          st5 = iop_mem_write32 bus (buf + 0x2C) (gpr st4 28) st4
      in set_v0 0 st5)"

definition event_call :: "u32 \<Rightarrow> (evtable \<times> 'x iop_state \<Rightarrow> evtable \<times> 'x iop_state) option" where
  "event_call f =
     (if f = 0x07 then Some iop_hle_event_deliver else if f = 0x08 then Some iop_hle_event_open
      else if f = 0x09 then Some iop_hle_event_close else if f = 0x0A then Some iop_hle_event_wait
      else if f = 0x0B then Some iop_hle_event_test else if f = 0x0C then Some iop_hle_event_enable
      else if f = 0x0D then Some iop_hle_event_disable else if f = 0x20 then Some iop_hle_event_undeliver else None)"

definition c0_call :: "'x iop_bus \<Rightarrow> u32 \<Rightarrow> u32 \<Rightarrow> 'x bios_sys \<Rightarrow> 'x bios_sys" where
  "c0_call bus f ra s =
     (let a0 = gpr (bst s) 4; a1 = gpr (bst s) 5 in
      if f = 0x07 then default_return ra (known (try_install_exception_handlers bus s))
      else if f = 0x02 then
        (let (x, st1) = iop_excb_sys_enq_int_rp bus a0 a1 (b_excb s, bst s) in default_return ra (known (s\<lparr>b_excb := x, bst := st1\<rparr>)))
      else if f = 0x03 then
        (let (x, st1) = iop_excb_sys_deq_int_rp bus a0 a1 (b_excb s, bst s) in default_return ra (known (s\<lparr>b_excb := x, bst := st1\<rparr>)))
      else if f = 0x01 then return_to ra (install_syscall_handler bus a0 s)
      else default_return ra s)"

definition b0_call :: "'x iop_bus \<Rightarrow> u32 \<Rightarrow> u32 \<Rightarrow> 'x bios_sys \<Rightarrow> 'x bios_sys" where
  "b0_call bus f ra s =
     (let a0 = gpr (bst s) 4 in
      if f = 0x00 then
        (let (p, h1) = kmem_alloc a0 ((hb s)\<lparr>kmem_alloc_calls := kmem_alloc_calls (hb s) + 1\<rparr>);
             h2 = (if p = 0 then h1\<lparr>kmem_alloc_failures := kmem_alloc_failures h1 + 1\<rparr> else h1)
         in return_to ra (upd_bst (set_v0 p) (s\<lparr>hb := h2\<rparr>)))
      else if f = 0x18 then
        return_to ra (upd_hb (\<lambda>h. h\<lparr>reset_entry_int_calls := reset_entry_int_calls h + 1\<rparr>)
          (upd_bst (\<lambda>st. set_v0 0x6C34 (iop_mem_write32 bus 0x7520 0x6C34 st)) s))
      else if f = 0x19 then
        return_to ra (upd_hb (\<lambda>h. h\<lparr>hook_entry_int_calls := hook_entry_int_calls h + 1\<rparr>)
          (upd_bst (\<lambda>st. set_v0 a0 (iop_mem_write32 bus 0x7520 a0 st)) s))
      else case event_call f of
          Some h \<Rightarrow> (let (t, st1) = h (b_events s, bst s) in return_to ra (s\<lparr>b_events := t, bst := st1\<rparr>))
        | None \<Rightarrow> default_return ra s)"

definition a0_call :: "'x iop_bus \<Rightarrow> (u32 \<Rightarrow> u32 \<Rightarrow> string) \<Rightarrow> u32 \<Rightarrow> u32 \<Rightarrow> 'x bios_sys \<Rightarrow> 'x bios_sys option" where
  "a0_call bus exit_text f ra s =
     (if f = 0x06 \<or> f = 0x3A then
        Some (return_to ra (upd_bst (\<lambda>st. st\<lparr>halted := True, halt_reason := exit_text (gpr st 4) f\<rparr>)
          (upd_hb (\<lambda>h. h\<lparr>b_exited := True, exit_code := gpr (bst s) 4\<rparr>) s)))
      else case try_handle_a0_real_function bus f s of
          None \<Rightarrow> None
        | Some (Some s1) \<Rightarrow> Some (return_to ra s1)
        | Some None \<Rightarrow>
            Some (if f = 0x13 then
                    return_to ra (upd_hb (\<lambda>h. h\<lparr>setjmp_calls := setjmp_calls h + 1\<rparr>) (upd_bst (bios_setjmp bus) s))
                  else default_return ra s))"

text \<open>\<open>exit_text\<close> is the text of the halt message for an exit code and a function number.\<close>

definition iop_hle_bios_try_handle ::
  "'x iop_bus \<Rightarrow> (u32 \<Rightarrow> u32 \<Rightarrow> string) \<Rightarrow> u32 \<Rightarrow> 'x bios_sys \<Rightarrow> (bool \<times> 'x bios_sys) option" where
  "iop_hle_bios_try_handle bus exit_text a s =
     (if a \<noteq> 0xA0 \<and> a \<noteq> 0xB0 \<and> a \<noteq> 0xC0 then Some (False, s)
      else let f = gpr (bst s) 9; ra = gpr (bst s) 31;
               s1 = upd_hb (\<lambda>h. h\<lparr>b_calls_seen := b_calls_seen h + 1, last_table := a, last_function := f\<rparr>) s
        in if a = 0xA0 then map_option (Pair True) (a0_call bus exit_text f ra s1)
           else if a = 0xB0 then Some (True, b0_call bus f ra s1)
           else Some (True, c0_call bus f ra s1))"

end
