(* ===== verification/Iop_Asyncio.thy ===== *)
theory Iop_Asyncio
  imports Prelude
begin

text \<open>
  The queue of asynchronous device requests, \<open>source/hw/iop_asyncio.c\<close>: 128 channels, allocated
  and serviced round-robin. What a callback does when it runs is an argument; it may change the
  queue (it may enqueue the next request) and the world.
\<close>

section \<open>State and operations\<close>

datatype asyncio_device = IOP_ASYNCIO_DEV_CDROM

record ('c, 'u) asyncio_channel =
  a_active :: bool
  a_device :: asyncio_device
  a_callback :: "'c option"
  a_user_data :: "'u option"

record ('c, 'u) asyncio =
  channels :: "('c, 'u) asyncio_channel list"
  busy_count :: int
  next_alloc :: nat
  next_service :: nat

abbreviation (input) MAX_CHANNELS :: nat where "MAX_CHANNELS \<equiv> 128"

definition iop_asyncio_init :: "('c, 'u) asyncio" where
  "iop_asyncio_init = \<lparr>channels = replicate MAX_CHANNELS \<lparr>a_active = False, a_device = IOP_ASYNCIO_DEV_CDROM,
     a_callback = None, a_user_data = None\<rparr>, busy_count = 0, next_alloc = 0, next_service = 0\<rparr>"

text \<open>The first channel from \<open>start\<close> on, cyclically, whose activity is as wanted.\<close>

definition scan :: "bool \<Rightarrow> nat \<Rightarrow> ('c, 'u) asyncio \<Rightarrow> nat option" where
  "scan wanted start q =
     map_option (\<lambda>tries. (start + tries) mod MAX_CHANNELS)
       (list_find_index (\<lambda>tries. a_active (channels q ! ((start + tries) mod MAX_CHANNELS)) = wanted) [0..<MAX_CHANNELS])"

definition iop_asyncio_enqueue ::
  "asyncio_device \<Rightarrow> 'c option \<Rightarrow> 'u option \<Rightarrow> ('c, 'u) asyncio \<Rightarrow> int \<times> ('c, 'u) asyncio" where
  "iop_asyncio_enqueue dev cb ud q = (case scan False (next_alloc q) q of
       None \<Rightarrow> (-1, q)
     | Some i \<Rightarrow> (int i, q\<lparr>channels := (channels q)[i := \<lparr>a_active = True, a_device = dev, a_callback = cb, a_user_data = ud\<rparr>],
                        next_alloc := (i + 1) mod MAX_CHANNELS, busy_count := busy_count q + 1\<rparr>))"

definition take_request :: "nat \<Rightarrow> ('c, 'u) asyncio \<Rightarrow> ('c, 'u) asyncio" where
  "take_request i q = q\<lparr>channels := (channels q)[i := (channels q ! i)\<lparr>a_active := False, a_callback := None\<rparr>],
     busy_count := busy_count q - 1, next_service := (i + 1) mod MAX_CHANNELS\<rparr>"

definition iop_asyncio_service ::
  "('c \<Rightarrow> 'u option \<Rightarrow> ('c, 'u) asyncio \<times> 'w \<Rightarrow> ('c, 'u) asyncio \<times> 'w) \<Rightarrow> ('c, 'u) asyncio \<times> 'w \<Rightarrow> ('c, 'u) asyncio \<times> 'w" where
  "iop_asyncio_service run = (\<lambda>(q, w).
     if busy_count q = 0 then (q, w)
     else case scan True (next_service q) q of
         None \<Rightarrow> (q, w)
       | Some i \<Rightarrow>
           (case a_callback (channels q ! i) of
              Some cb \<Rightarrow> run cb (a_user_data (channels q ! i)) (take_request i q, w)
            | None \<Rightarrow> (take_request i q, w)))"

definition iop_asyncio_busy_count :: "('c, 'u) asyncio \<Rightarrow> int" where
  "iop_asyncio_busy_count q = busy_count q"

section \<open>The queue invariant\<close>

definition active_set :: "('c, 'u) asyncio \<Rightarrow> nat set" where
  "active_set q = {i. i < MAX_CHANNELS \<and> a_active (channels q ! i)}"

definition asyncio_inv :: "('c, 'u) asyncio \<Rightarrow> bool" where
  "asyncio_inv q \<longleftrightarrow> length (channels q) = MAX_CHANNELS \<and> busy_count q = int (card (active_set q)) \<and>
     next_alloc q < MAX_CHANNELS \<and> next_service q < MAX_CHANNELS"

lemma finite_active [simp]: "finite (active_set q)"
  by (simp add: active_set_def)

lemma init_inv: "asyncio_inv iop_asyncio_init"
  by (simp add: asyncio_inv_def iop_asyncio_init_def active_set_def)

lemma scan_Some:
  assumes "scan wanted start q = Some i"
  shows "i < MAX_CHANNELS \<and> a_active (channels q ! i) = wanted"
  using assms list_find_index_Some [of _ "[0..<MAX_CHANNELS]"] by (fastforce simp: scan_def)

text \<open>Every channel is a number of steps below 128 away from the start of the scan.\<close>

definition dist :: "nat \<Rightarrow> nat \<Rightarrow> nat" where
  "dist start i = (if start \<le> i then i - start else i + MAX_CHANNELS - start)"

lemma dist_reaches: "start < MAX_CHANNELS \<Longrightarrow> i < MAX_CHANNELS \<Longrightarrow> (start + dist start i) mod MAX_CHANNELS = i"
  by (simp add: dist_def)

lemma dist_bound: "i < MAX_CHANNELS \<Longrightarrow> dist start i < MAX_CHANNELS"
  by (auto simp: dist_def)

lemma scan_None: "scan wanted start q = None \<Longrightarrow> start < MAX_CHANNELS \<Longrightarrow> i < MAX_CHANNELS \<Longrightarrow> a_active (channels q ! i) \<noteq> wanted"
  using dist_reaches [of start i] dist_bound [of i start]
  by (auto simp: scan_def list_find_index_None) (metis atLeastLessThan_iff le0)+

text \<open>The scan finds the nearest channel.\<close>

lemma scan_nearest:
  assumes "scan wanted start q = Some i" and "start < MAX_CHANNELS" and "j < MAX_CHANNELS" and "a_active (channels q ! j) = wanted"
  shows "dist start i \<le> dist start j"
proof -
  obtain k where k: "list_find_index (\<lambda>t. a_active (channels q ! ((start + t) mod MAX_CHANNELS)) = wanted) [0..<MAX_CHANNELS] = Some k"
    and i: "i = (start + k) mod MAX_CHANNELS"
    using assms(1) by (auto simp: scan_def)
  have k1: "k < MAX_CHANNELS" "\<And>t. t < k \<Longrightarrow> a_active (channels q ! ((start + t) mod MAX_CHANNELS)) \<noteq> wanted"
    using list_find_index_Some [OF k] by auto
  have "\<not> dist start j < k"
    using k1(2) [of "dist start j"] dist_reaches [OF assms(2,3)] assms(4) by auto
  moreover have "dist start i = k"
    using assms(2) k1(1) by (cases "start + k < MAX_CHANNELS") (simp_all add: i dist_def le_mod_geq)
  ultimately show ?thesis by simp
qed

lemma active_insert: "i < length (channels q) \<Longrightarrow> length (channels q) = MAX_CHANNELS \<Longrightarrow>
    active_set (q\<lparr>channels := (channels q)[i := c]\<rparr>) = (if a_active c then insert i (active_set q) else active_set q - {i})"
  by (auto simp: active_set_def nth_list_update)

lemma active_set_cong [simp]:
  "active_set (q\<lparr>busy_count := b\<rparr>) = active_set q" "active_set (q\<lparr>next_alloc := n\<rparr>) = active_set q" "active_set (q\<lparr>next_service := n\<rparr>) = active_set q"
  by (simp_all add: active_set_def)

lemma active_enqueue:
  assumes "asyncio_inv q" and "iop_asyncio_enqueue dev cb ud q = (r, q')" and "r \<noteq> -1"
  shows "active_set q' = insert (nat r) (active_set q) \<and> nat r \<notin> active_set q"
proof -
  obtain i where i: "scan False (next_alloc q) q = Some i" using assms(2,3) by (auto simp: iop_asyncio_enqueue_def split: option.splits)
  have l: "length (channels q) = MAX_CHANNELS" using assms(1) by (simp add: asyncio_inv_def)
  have q': "r = int i" "channels q' = (channels q)[i := \<lparr>a_active = True, a_device = dev, a_callback = cb, a_user_data = ud\<rparr>]"
    using assms(2) by (auto simp: iop_asyncio_enqueue_def i)
  show ?thesis using scan_Some [OF i] l by (auto simp: active_set_def q' nth_list_update)
qed

lemma enqueue_inv:
  assumes "asyncio_inv q" and "iop_asyncio_enqueue dev cb ud q = (r, q')"
  shows "asyncio_inv q'"
proof (cases "r = -1")
  case True
  then show ?thesis using assms by (auto simp: iop_asyncio_enqueue_def split: option.splits)
next
  case False
  from active_enqueue [OF assms False] have "card (active_set q') = Suc (card (active_set q))" by simp
  then show ?thesis using assms False by (auto simp: iop_asyncio_enqueue_def asyncio_inv_def split: option.splits)
qed

lemma take_request_inv:
  assumes "asyncio_inv q" and "i \<in> active_set q"
  shows "asyncio_inv (take_request i q)" and "active_set (take_request i q) = active_set q - {i}"
proof -
  have l: "length (channels q) = MAX_CHANNELS" "i < MAX_CHANNELS" using assms by (auto simp: asyncio_inv_def active_set_def)
  then show a: "active_set (take_request i q) = active_set q - {i}"
    by (auto simp: active_set_def take_request_def nth_list_update)
  have "0 < card (active_set q)" using assms(2) by (auto simp: card_gt_0_iff)
  then show "asyncio_inv (take_request i q)"
    using assms l by (simp add: asyncio_inv_def a card_Diff_singleton of_nat_diff) (simp add: take_request_def)
qed

section \<open>Callbacks\<close>

text \<open>
  What the queue relies on: a callback keeps the queue consistent, leaves requests that are
  waiting alone and does not move the service position. Enqueueing is of this kind.
\<close>

locale asyncio_callbacks =
  fixes run :: "'c \<Rightarrow> 'u option \<Rightarrow> ('c, 'u) asyncio \<times> 'w \<Rightarrow> ('c, 'u) asyncio \<times> 'w"
  assumes run_inv: "asyncio_inv q \<Longrightarrow> asyncio_inv (fst (run cb ud (q, w)))"
    and run_waiting: "i \<in> active_set q \<Longrightarrow> channels (fst (run cb ud (q, w))) ! i = channels q ! i"
    and run_position: "next_service (fst (run cb ud (q, w))) = next_service q"
begin

lemma service_next:
  assumes "asyncio_inv q" and "j \<in> active_set q" and "iop_asyncio_service run (q, w) = (q', w')"
  obtains i where "scan True (next_service q) q = Some i" "asyncio_inv q'" "next_service q' = (i + 1) mod MAX_CHANNELS"
    "\<And>k. k \<in> active_set q \<Longrightarrow> k \<noteq> i \<Longrightarrow> channels q' ! k = channels q ! k"
proof -
  have s: "next_service q < MAX_CHANNELS" "j < MAX_CHANNELS" "a_active (channels q ! j)"
    using assms(1,2) by (auto simp: asyncio_inv_def active_set_def)
  then obtain i where i: "scan True (next_service q) q = Some i"
    using scan_None [of True "next_service q" q j] by (cases "scan True (next_service q) q") auto
  have ia: "i \<in> active_set q" using scan_Some [OF i] by (simp add: active_set_def)
  have b: "busy_count q \<noteq> 0" using assms(1,2) card_gt_0_iff [of "active_set q"] by (auto simp: asyncio_inv_def)
  let ?t = "take_request i q"
  note t = take_request_inv [OF assms(1) ia]
  have q': "q' = ?t \<or> (\<exists>cb ud. q' = fst (run cb ud (?t, w)))"
    using assms(3) by (auto simp: iop_asyncio_service_def i b split: option.splits) (metis fst_conv)
  have "asyncio_inv q'" using q' t(1) run_inv by auto
  moreover have "next_service q' = (i + 1) mod MAX_CHANNELS" using q' run_position by (auto simp: take_request_def)
  moreover have "channels q' ! k = channels q ! k" if "k \<in> active_set q" "k \<noteq> i" for k
  proof -
    have "channels ?t ! k = channels q ! k" using that by (simp add: take_request_def)
    then show ?thesis using q' that run_waiting [of k ?t] by (auto simp: t(2))
  qed
  ultimately show thesis using that i by blast
qed

lemma dist_advances:
  "start < MAX_CHANNELS \<Longrightarrow> i < MAX_CHANNELS \<Longrightarrow> j < MAX_CHANNELS \<Longrightarrow> i \<noteq> j \<Longrightarrow> dist start i \<le> dist start j \<Longrightarrow>
   dist ((i + 1) mod MAX_CHANNELS) j < dist start j"
  by (cases "i = 127") (auto simp: dist_def split: if_splits)

lemma served_within:
  assumes "asyncio_inv q" and "j \<in> active_set q"
  shows "\<exists>n \<le> dist (next_service q) j. \<exists>q' w'. (iop_asyncio_service run ^^ n) (q, w) = (q', w') \<and>
    asyncio_inv q' \<and> scan True (next_service q') q' = Some j \<and> channels q' ! j = channels q ! j"
  using assms
proof (induction "dist (next_service q) j" arbitrary: q w rule: less_induct)
  case less
  obtain q1 w1 where s: "iop_asyncio_service run (q, w) = (q1, w1)" by force
  from service_next [OF less.prems s] obtain i where i: "scan True (next_service q) q = Some i"
    and q1: "asyncio_inv q1" "next_service q1 = (i + 1) mod MAX_CHANNELS"
    and keep: "\<And>k. k \<in> active_set q \<Longrightarrow> k \<noteq> i \<Longrightarrow> channels q1 ! k = channels q ! k" by blast
  show ?case
  proof (cases "i = j")
    case True
    then show ?thesis using i less.prems by (intro exI [of _ 0]) auto
  next
    case False
    have b: "next_service q < MAX_CHANNELS" "j < MAX_CHANNELS" "i < MAX_CHANNELS" "a_active (channels q ! j)"
      using less.prems scan_Some [OF i] by (auto simp: asyncio_inv_def active_set_def)
    have lt: "dist (next_service q1) j < dist (next_service q) j"
      unfolding q1(2) using b False scan_nearest [OF i b(1,2)] by (intro dist_advances) auto
    have c: "channels q1 ! j = channels q ! j" using keep less.prems(2) False by simp
    then have "j \<in> active_set q1" using b by (simp add: active_set_def)
    from less.hyps [OF lt q1(1) this, of w1] obtain n q' w' where n: "n \<le> dist (next_service q1) j"
      "(iop_asyncio_service run ^^ n) (q1, w1) = (q', w')" "asyncio_inv q'" "scan True (next_service q') q' = Some j" "channels q' ! j = channels q1 ! j"
      by blast
    have "(iop_asyncio_service run ^^ Suc n) (q, w) = (q', w')" using n(2) s by (simp add: funpow_swap1)
    then show ?thesis using n lt c by (intro exI [of _ "Suc n"]) auto
  qed
qed

end

end
