(* ===== verification/Iop_Cdrom.thy ===== *)
theory Iop_Cdrom
  imports Iop_Asyncio Iop_Events
begin

text \<open>
  The CD-ROM controller of the older console, \<open>source/hw/iop_cdrom_legacy.c\<close>: parameter and
  result FIFOs, the command set with its two-stage responses, interrupts, the sector buffer. Its
  events go to the BIOS event table and its one asynchronous request to the request queue.

  Opening an image and reading a sector are arguments (file access). \<open>read_sector d lba buf\<close> gives
  success and the new contents of the buffer.
\<close>

section \<open>State\<close>

datatype pending_kind = PENDING_NONE | PENDING_INT2_STAT | PENDING_INT1_READ | PENDING_INT2_GETID

record 'd cdrom =
  cd_bank :: u32
  param_fifo :: "u8 list"
  param_count :: nat
  result_fifo :: "u8 list"
  result_count :: nat
  result_pos :: nat
  cd_intsts :: u8
  cd_intmsk :: u8
  cd_stat :: u8
  cd_mode :: u8
  filter_file :: u8
  filter_channel :: u8
  loc_mm :: u32
  loc_ss :: u32
  loc_ff :: u32
  cd_pending :: pending_kind
  cd_disc :: "'d option"
  data_buf :: "u8 list"
  data_len :: nat
  data_pos :: nat

datatype cd_callback = Cdrom_Boot_Kick_Complete

record 'd cd_sys =
  cd :: "'d cdrom"
  cd_intc :: iop_intc_state
  cd_events :: evtable
  cd_queue :: "(cd_callback, unit) asyncio"

abbreviation (input) CDROM_EVENT_CLASS :: u32 where "CDROM_EVENT_CLASS \<equiv> 0xF0000003"
abbreviation (input) PARAM_FIFO_SIZE :: nat where "PARAM_FIFO_SIZE \<equiv> 16"
abbreviation (input) RESULT_FIFO_SIZE :: nat where "RESULT_FIFO_SIZE \<equiv> 16"
abbreviation (input) SECTOR_SIZE :: nat where "SECTOR_SIZE \<equiv> 2048"
abbreviation (input) STAT_ERROR :: u8 where "STAT_ERROR \<equiv> 0x01"
abbreviation (input) STAT_MOTOR :: u8 where "STAT_MOTOR \<equiv> 0x02"
abbreviation (input) STAT_SHELLOPEN :: u8 where "STAT_SHELLOPEN \<equiv> 0x10"
abbreviation (input) STAT_READ :: u8 where "STAT_READ \<equiv> 0x20"
abbreviation (input) STAT_SEEK :: u8 where "STAT_SEEK \<equiv> 0x40"
abbreviation (input) STAT_PLAY :: u8 where "STAT_PLAY \<equiv> 0x80"

text \<open>\<open>memset(&g, 0, sizeof(g))\<close> also forgets the mounted disc.\<close>

definition cdrom_zero :: "'d cdrom" where
  "cdrom_zero = \<lparr>cd_bank = 0, param_fifo = replicate PARAM_FIFO_SIZE 0, param_count = 0, result_fifo = replicate RESULT_FIFO_SIZE 0,
     result_count = 0, result_pos = 0, cd_intsts = 0, cd_intmsk = 0, cd_stat = 0, cd_mode = 0, filter_file = 0, filter_channel = 0,
     loc_mm = 0, loc_ss = 0, loc_ff = 0, cd_pending = PENDING_NONE, cd_disc = None, data_buf = replicate SECTOR_SIZE 0,
     data_len = 0, data_pos = 0\<rparr>"

definition upd_cd :: "('d cdrom \<Rightarrow> 'd cdrom) \<Rightarrow> 'd cd_sys \<Rightarrow> 'd cd_sys" where
  "upd_cd f s = s\<lparr>cd := f (cd s)\<rparr>"

definition iop_cdrom_legacy_init :: "'d cd_sys \<Rightarrow> 'd cd_sys" where
  "iop_cdrom_legacy_init = upd_cd (\<lambda>_. cdrom_zero)"

section \<open>Mounting\<close>

definition mount_result :: "'d option \<Rightarrow> 'd cd_sys \<Rightarrow> int \<times> 'd cd_sys" where
  "mount_result d s = (case d of
       None \<Rightarrow> (-1, upd_cd (\<lambda>c. c\<lparr>cd_disc := None\<rparr>) s)
     | Some x \<Rightarrow> (0, upd_cd (\<lambda>c. c\<lparr>cd_disc := Some x, cd_stat := cd_stat c OR STAT_MOTOR\<rparr>) s))"

definition iop_cdrom_legacy_mount_iso :: "(string \<Rightarrow> 'd option) \<Rightarrow> string \<Rightarrow> 'd cd_sys \<Rightarrow> int \<times> 'd cd_sys" where
  "iop_cdrom_legacy_mount_iso iso_open path s = mount_result (iso_open path) s"

definition iop_cdrom_legacy_unmount_iso :: "'d cd_sys \<Rightarrow> 'd cd_sys" where
  "iop_cdrom_legacy_unmount_iso = upd_cd (\<lambda>c. c\<lparr>cd_disc := None\<rparr>)"

definition iop_cdrom_legacy_rebind_iso :: "(string \<Rightarrow> 'd option) \<Rightarrow> string \<Rightarrow> 'd cd_sys \<Rightarrow> int \<times> 'd cd_sys" where
  "iop_cdrom_legacy_rebind_iso iso_open path s = mount_result (iso_open path) s"

section \<open>Positions\<close>

definition bcd_to_bin :: "u8 \<Rightarrow> u32" where
  "bcd_to_bin v = word_of_nat (unat (drop_bit 4 v) * 10 + unat (v AND 0xF))"

definition bin_to_bcd :: "u32 \<Rightarrow> u8" where
  "bin_to_bcd v = ucast (push_bit 4 (v div 10) OR (v mod 10))"

definition msf_to_lba :: "u32 \<Rightarrow> u32 \<Rightarrow> u32 \<Rightarrow> u32" where
  "msf_to_lba mm_bcd ss_bcd ff_bcd =
     (let mm = bcd_to_bin (ucast mm_bcd); ss = bcd_to_bin (ucast ss_bcd); ff = bcd_to_bin (ucast ff_bcd);
          abs_frame = (mm * 60 + ss) * 75 + ff
      in if abs_frame \<ge> 150 then abs_frame - 150 else 0)"

section \<open>Responses\<close>

definition result_clear :: "'d cdrom \<Rightarrow> 'd cdrom" where
  "result_clear c = c\<lparr>result_count := 0, result_pos := 0\<rparr>"

definition result_push :: "u8 \<Rightarrow> 'd cdrom \<Rightarrow> 'd cdrom" where
  "result_push b c = (if result_count c < RESULT_FIFO_SIZE
     then c\<lparr>result_fifo := (result_fifo c)[result_count c := b], result_count := result_count c + 1\<rparr> else c)"

definition results :: "u8 list \<Rightarrow> 'd cd_sys \<Rightarrow> 'd cd_sys" where
  "results bs = upd_cd (\<lambda>c. fold result_push bs (result_clear c))"

definition deliver :: "u32 \<Rightarrow> 'd cd_sys \<Rightarrow> 'd cd_sys" where
  "deliver spec s = s\<lparr>cd_events := iop_hle_event_deliver_raw CDROM_EVENT_CLASS spec (cd_events s)\<rparr>"

definition raise_int :: "u8 \<Rightarrow> 'd cd_sys \<Rightarrow> 'd cd_sys" where
  "raise_int which s =
     (let s1 = upd_cd (\<lambda>c. c\<lparr>cd_intsts := which AND 0x07\<rparr>) s;
          s2 = (if cd_intmsk (cd s1) AND cd_intsts (cd s1) \<noteq> 0 then s1\<lparr>cd_intc := iop_intc_raise 2 (cd_intc s1)\<rparr> else s1)
      in if which = 2 \<or> which = 1 then deliver 0x8000 (deliver 0x0020 s2)
         else if which = 4 then deliver 0x0080 s2 else s2)"

definition set_pending :: "pending_kind \<Rightarrow> 'd cd_sys \<Rightarrow> 'd cd_sys" where
  "set_pending p = upd_cd (\<lambda>c. c\<lparr>cd_pending := p\<rparr>)"

definition respond_error :: "u8 \<Rightarrow> 'd cd_sys \<Rightarrow> 'd cd_sys" where
  "respond_error code s = raise_int 5 (set_pending PENDING_NONE (results [cd_stat (cd s) OR STAT_ERROR, code] s))"

definition respond_no_disc :: "'d cd_sys \<Rightarrow> 'd cd_sys" where
  "respond_no_disc = respond_error 0x80"

definition respond_invalid_command :: "'d cd_sys \<Rightarrow> 'd cd_sys" where
  "respond_invalid_command = respond_error 0x40"

definition ack_stat_only :: "'d cd_sys \<Rightarrow> 'd cd_sys" where
  "ack_stat_only s = raise_int 3 (results [cd_stat (cd s)] s)"

definition begin_pending_int2 :: "'d cd_sys \<Rightarrow> 'd cd_sys" where
  "begin_pending_int2 s = set_pending PENDING_INT2_STAT (ack_stat_only s)"

definition have_disc :: "'d cd_sys \<Rightarrow> bool" where
  "have_disc s \<longleftrightarrow> cd_disc (cd s) \<noteq> None"

text \<open>The letters of \<open>SCEx\<close>.\<close>

definition deliver_pending :: "'d cd_sys \<Rightarrow> 'd cd_sys" where
  "deliver_pending s = (case cd_pending (cd s) of
       PENDING_NONE \<Rightarrow> s
     | PENDING_INT2_STAT \<Rightarrow> raise_int 2 (set_pending PENDING_NONE (results [cd_stat (cd s)] s))
     | PENDING_INT1_READ \<Rightarrow>
         upd_cd (\<lambda>c. c\<lparr>data_pos := 0\<rparr>) (raise_int 1 (set_pending PENDING_NONE (results [cd_stat (cd s) OR STAT_READ] s)))
     | PENDING_INT2_GETID \<Rightarrow>
         if have_disc s
         then raise_int 2 (set_pending PENDING_NONE (results [cd_stat (cd s), 0, 0, 0, 0x53, 0x43, 0x45, 0x78] s))
         else respond_no_disc (upd_cd result_clear s))"

section \<open>Commands\<close>

definition do_read :: "('d \<Rightarrow> u32 \<Rightarrow> u8 list \<Rightarrow> bool \<times> u8 list) \<Rightarrow> 'd cd_sys \<Rightarrow> 'd cd_sys" where
  "do_read read_sector s = (case cd_disc (cd s) of
       None \<Rightarrow> respond_no_disc s
     | Some d \<Rightarrow>
         let c = cd s; (ok, buf) = read_sector d (msf_to_lba (loc_mm c) (loc_ss c) (loc_ff c)) (data_buf c);
             s1 = upd_cd (\<lambda>c. c\<lparr>data_buf := buf\<rparr>) s
         in if \<not> ok then respond_no_disc s1
            else set_pending PENDING_INT1_READ (ack_stat_only (upd_cd (\<lambda>c. c\<lparr>data_len := SECTOR_SIZE\<rparr>) s1)))"

definition enqueue_boot_kick :: "'d cd_sys \<Rightarrow> 'd cd_sys" where
  "enqueue_boot_kick s = s\<lparr>cd_queue := snd (iop_asyncio_enqueue IOP_ASYNCIO_DEV_CDROM (Some Cdrom_Boot_Kick_Complete) None (cd_queue s))\<rparr>"

definition upd_stat :: "(u8 \<Rightarrow> u8) \<Rightarrow> 'd cd_sys \<Rightarrow> 'd cd_sys" where
  "upd_stat f = upd_cd (\<lambda>c. c\<lparr>cd_stat := f (cd_stat c)\<rparr>)"

definition with_disc :: "('d cd_sys \<Rightarrow> 'd cd_sys) \<Rightarrow> 'd cd_sys \<Rightarrow> 'd cd_sys" where
  "with_disc f s = (if have_disc s then f s else respond_no_disc s)"

definition answer :: "('d cdrom \<Rightarrow> u8 list) \<Rightarrow> 'd cd_sys \<Rightarrow> 'd cd_sys" where
  "answer bs s = raise_int 3 (results (bs (cd s)) s)"

definition run_command :: "('d \<Rightarrow> u32 \<Rightarrow> u8 list \<Rightarrow> bool \<times> u8 list) \<Rightarrow> u8 \<Rightarrow> 'd cd_sys \<Rightarrow> 'd cd_sys" where
  "run_command read_sector cmd s =
     (let p = param_fifo (cd s); n = param_count (cd s) in
      if cmd = 0x01 \<or> cmd = 0x03 \<or> cmd = 0x0B \<or> cmd = 0x0C then ack_stat_only s
      else if cmd = 0x02 then
        enqueue_boot_kick (ack_stat_only
          (if n \<ge> 3 then upd_cd (\<lambda>c. c\<lparr>loc_mm := ucast (p ! 0), loc_ss := ucast (p ! 1), loc_ff := ucast (p ! 2)\<rparr>) s else s))
      else if cmd = 0x06 \<or> cmd = 0x1B then do_read read_sector s
      else if cmd = 0x07 then begin_pending_int2 (upd_stat (\<lambda>x. x OR STAT_MOTOR) s)
      else if cmd = 0x08 then begin_pending_int2 (upd_stat (\<lambda>x. x AND NOT STAT_MOTOR) s)
      else if cmd = 0x09 then begin_pending_int2 (upd_stat (\<lambda>x. x AND NOT (STAT_READ OR STAT_PLAY OR STAT_SEEK)) s)
      else if cmd = 0x0A then
        begin_pending_int2 (upd_stat (\<lambda>x. (x AND STAT_SHELLOPEN) OR STAT_MOTOR) (upd_cd (\<lambda>c. c\<lparr>cd_mode := 0\<rparr>) s))
      else if cmd = 0x0D then
        ack_stat_only (if n \<ge> 2 then upd_cd (\<lambda>c. c\<lparr>filter_file := p ! 0, filter_channel := p ! 1\<rparr>) s else s)
      else if cmd = 0x0E then ack_stat_only (if n \<ge> 1 then upd_cd (\<lambda>c. c\<lparr>cd_mode := p ! 0\<rparr>) s else s)
      else if cmd = 0x0F then answer (\<lambda>c. [cd_stat c, cd_mode c, 0, filter_file c, filter_channel c]) s
      else if cmd = 0x10 then
        with_disc (answer (\<lambda>c. [ucast (loc_mm c), ucast (loc_ss c), ucast (loc_ff c), cd_mode c, filter_file c, filter_channel c, 0, 0])) s
      else if cmd = 0x11 then
        with_disc (answer (\<lambda>c. [bin_to_bcd 1, bin_to_bcd 1, 0, 2, 0, ucast (loc_mm c), ucast (loc_ss c), ucast (loc_ff c)])) s
      else if cmd = 0x12 then begin_pending_int2 s
      else if cmd = 0x13 then with_disc (answer (\<lambda>c. [cd_stat c, bin_to_bcd 1, bin_to_bcd 1])) s
      else if cmd = 0x14 then with_disc (answer (\<lambda>c. [cd_stat c, bin_to_bcd 0, bin_to_bcd 2])) s
      else if cmd = 0x15 \<or> cmd = 0x16 then with_disc (\<lambda>s. begin_pending_int2 (upd_stat (\<lambda>x. x OR STAT_SEEK) s)) s
      else if cmd = 0x19 then
        (if n \<ge> 1 \<and> p ! 0 = 0x20 then answer (\<lambda>_. [0, 0, 0, 0]) s else respond_invalid_command s)
      else if cmd = 0x1A then set_pending PENDING_INT2_GETID (ack_stat_only s)
      else if cmd = 0x1C then raise_int 3 (upd_cd (result_push 0) (upd_cd (\<lambda>c. c\<lparr>result_count := 0\<rparr>) (iop_cdrom_legacy_init s)))
      else if cmd = 0x1E then with_disc begin_pending_int2 s
      else respond_invalid_command s)"

definition dispatch_command :: "('d \<Rightarrow> u32 \<Rightarrow> u8 list \<Rightarrow> bool \<times> u8 list) \<Rightarrow> u8 \<Rightarrow> 'd cd_sys \<Rightarrow> 'd cd_sys" where
  "dispatch_command read_sector cmd s = upd_cd (\<lambda>c. c\<lparr>param_count := 0\<rparr>) (run_command read_sector cmd s)"

section \<open>Registers\<close>

definition read_hsts :: "'d cdrom \<Rightarrow> u8" where
  "read_hsts c = ucast (cd_bank c AND 3) OR (if result_pos c < result_count c then 0x20 else 0)
     OR (if param_count c < PARAM_FIFO_SIZE then 0x10 else 0) OR (if param_count c = 0 then 0x08 else 0)
     OR (if data_pos c < data_len c then 0x40 else 0)"

definition cd_claims :: "u32 \<Rightarrow> bool" where
  "cd_claims addr \<longleftrightarrow> 0x1F801800 \<le> addr AND 0x1FFFFFFF \<and> addr AND 0x1FFFFFFF < 0x1F801800 + 4"

definition read_result :: "'d cdrom \<Rightarrow> u8 \<times> 'd cdrom" where
  "read_result c =
     (if result_count c > 0
      then (result_fifo c ! result_pos c, if result_pos c < result_count c - 1 then c\<lparr>result_pos := result_pos c + 1\<rparr> else c)
      else (0, c))"

definition read_data :: "'d cdrom \<Rightarrow> u8 \<times> 'd cdrom" where
  "read_data c =
     (if data_pos c < data_len c then (data_buf c ! data_pos c, c\<lparr>data_pos := data_pos c + 1\<rparr>)
      else if data_len c > 0 then (data_buf c ! (data_len c - 1), c)
      else (0, c))"

definition iop_cdrom_legacy_mmio_read8 :: "u32 \<Rightarrow> 'd cd_sys \<Rightarrow> (u8 \<times> 'd cd_sys) option" where
  "iop_cdrom_legacy_mmio_read8 addr s =
     (if \<not> cd_claims addr then None
      else let off = (addr AND 0x1FFFFFFF) - 0x1F801800; c = cd s in
        Some (if off = 0 then (read_hsts c, s)
              else if off = 1 then (let (v, c1) = read_result c in (v, s\<lparr>cd := c1\<rparr>))
              else if off = 2 then (let (v, c1) = read_data c in (v, s\<lparr>cd := c1\<rparr>))
              else if off = 3 then (if cd_bank c = 1 \<or> cd_bank c = 3 then cd_intsts c OR 0xE0 else cd_intmsk c OR 0xE0, s)
              else (0, s)))"

definition clear_control :: "u8 \<Rightarrow> 'd cd_sys \<Rightarrow> 'd cd_sys" where
  "clear_control v s =
     (let s1 = (if v AND 0x07 \<noteq> 0
                then (let t = upd_cd (\<lambda>c. c\<lparr>cd_intsts := 0\<rparr>) s in if cd_pending (cd t) \<noteq> PENDING_NONE then deliver_pending t else t)
                else s);
          s2 = (if v AND 0x40 \<noteq> 0 then upd_cd (\<lambda>c. c\<lparr>param_count := 0\<rparr>) s1 else s1)
      in if v AND 0x80 \<noteq> 0 then iop_cdrom_legacy_init s2 else s2)"

definition iop_cdrom_legacy_mmio_write8 ::
  "('d \<Rightarrow> u32 \<Rightarrow> u8 list \<Rightarrow> bool \<times> u8 list) \<Rightarrow> u32 \<Rightarrow> u8 \<Rightarrow> 'd cd_sys \<Rightarrow> 'd cd_sys option" where
  "iop_cdrom_legacy_mmio_write8 read_sector addr v s =
     (if \<not> cd_claims addr then None
      else let off = (addr AND 0x1FFFFFFF) - 0x1F801800; c = cd s in
        Some (if off = 0 then upd_cd (\<lambda>c. c\<lparr>cd_bank := ucast (v AND 3)\<rparr>) s
              else if off = 1 then (if cd_bank c = 0 then dispatch_command read_sector v s else s)
              else if off = 2 then
                (if cd_bank c = 0 then
                   (if param_count c < PARAM_FIFO_SIZE
                    then upd_cd (\<lambda>c. c\<lparr>param_fifo := (param_fifo c)[param_count c := v], param_count := param_count c + 1\<rparr>) s else s)
                 else if cd_bank c = 1 then upd_cd (\<lambda>c. c\<lparr>cd_intmsk := v AND 0x1F\<rparr>) s
                 else s)
              else if off = 3 then (if cd_bank c = 1 then clear_control v s else s)
              else s))"

section \<open>The asynchronous request\<close>

definition cdrom_boot_kick_complete :: "evtable \<Rightarrow> evtable" where
  "cdrom_boot_kick_complete t = iop_hle_event_deliver_raw CDROM_EVENT_CLASS 0x8000 (iop_hle_event_deliver_raw CDROM_EVENT_CLASS 0x0020 t)"

definition cd_run :: "cd_callback \<Rightarrow> unit option \<Rightarrow> (cd_callback, unit) asyncio \<times> evtable \<Rightarrow> (cd_callback, unit) asyncio \<times> evtable" where
  "cd_run cb ud = (\<lambda>(q, t). (q, cdrom_boot_kick_complete t))"

interpretation cd_requests: asyncio_callbacks cd_run
  by unfold_locales (simp_all add: cd_run_def)

end
