(* ===== verification/Iop_Step.thy ===== *)
theory Iop_Step
  imports Iop_Cpu Iop_Bios Iop_Hle_Heap Iop_Thread Iop_Cdrom
begin

text \<open>
  The main loop of the IOP: \<open>iop_core_init\<close>, \<open>iop_check_vblank\<close>, \<open>iop_check_hw_interrupt\<close>,
  \<open>iop_step\<close> and \<open>iop_core_step\<close> of \<open>source/core/iop/iop_core.c\<close>, which put the kernel
  services, the interrupt delivery, the instruction set and the periodic work of the devices together.

  The event table and the queue of deferred completions are shared by the BIOS calls, the main loop
  and the CD controller on the bus, so they are fields of the world record behind the devices. The
  module loader is an argument (its two entry points, \<open>ml_try\<close> and \<open>ml_boot\<close>), and so is the
  text of the BIOS exit message. A step gives \<open>None\<close> where the C program has no
  defined result.
\<close>

section \<open>The whole machine\<close>

record 'w world =
  w_events :: evtable
  w_queue :: "(cd_callback, unit) asyncio"
  w_rest :: 'w

type_synonym 'w cpu = "'w world io_state"
type_synonym 'w cpu_bus = "'w world iop_io iop_bus"

record 'w iop_sys =
  cpu :: "'w cpu"
  s_bios :: hle_bios
  s_intr :: hle_intr
  s_thr :: hle_threads
  s_heap :: "u32 list"
  s_excb :: excb_state
  s_disp :: excb_dispatch
  spurious_istat :: u32
  spurious_istat_hi :: u32
  zero_run :: u64

definition upd_cpu :: "('w cpu \<Rightarrow> 'w cpu) \<Rightarrow> 'w iop_sys \<Rightarrow> 'w iop_sys" where
  "upd_cpu f y = y\<lparr>cpu := f (cpu y)\<rparr>"

definition world_of :: "'w cpu \<Rightarrow> 'w world" where
  "world_of st = dworld (edma (ext st))"

definition upd_world :: "('w world \<Rightarrow> 'w world) \<Rightarrow> 'w cpu \<Rightarrow> 'w cpu" where
  "upd_world f st = st\<lparr>ext := (ext st)\<lparr>edma := (edma (ext st))\<lparr>dworld := f (dworld (edma (ext st)))\<rparr>\<rparr>\<rparr>"

section \<open>Halting\<close>

text \<open>\<open>strncpy\<close> into \<open>halt_reason[128]\<close> with an explicit terminator, and the \<open>%08lX\<close> conversion.\<close>

definition halt :: "string \<Rightarrow> 'w cpu \<Rightarrow> 'w cpu" where
  "halt reason st = st\<lparr>halted := True, halt_reason := take 127 reason\<rparr>"

definition hex_digit :: "nat \<Rightarrow> char" where
  "hex_digit d = ''0123456789ABCDEF'' ! d"

definition hex8 :: "u32 \<Rightarrow> string" where
  "hex8 w = map (\<lambda>i. hex_digit (unat (drop_bit (28 - 4 * i) w AND 0xF))) [0..<8]"

section \<open>Interrupts\<close>

definition IOP_CYCLES_PER_FRAME_NTSC :: u64 where "IOP_CYCLES_PER_FRAME_NTSC = 4921488 div 8"
definition IOP_CYCLES_VBLANK_DURATION :: u64 where "IOP_CYCLES_VBLANK_DURATION = IOP_CYCLES_PER_FRAME_NTSC div 12"

definition iop_check_vblank :: "'x iop_state \<Rightarrow> 'x iop_state" where
  "iop_check_vblank st =
     (let phase = sched_ticks st mod IOP_CYCLES_PER_FRAME_NTSC in
      if phase = 0 then st\<lparr>intc := iop_intc_raise 0 (intc st)\<rparr>
      else if phase = IOP_CYCLES_VBLANK_DURATION then st\<lparr>intc := iop_intc_raise 11 (intc st)\<rparr>
      else st)"

text \<open>The two dispatchers for one interrupt: the handler table first, the exception chains second.\<close>

definition dispatch_irq :: "'w cpu_bus \<Rightarrow> u32 \<Rightarrow> 'w iop_sys \<Rightarrow> bool \<times> 'w iop_sys" where
  "dispatch_irq bus irq y =
     (case iop_hle_intr_dispatch_interrupt irq (s_intr y, cpu y) of
        Some (g, st) \<Rightarrow> (True, y\<lparr>s_intr := g, cpu := st\<rparr>)
      | None \<Rightarrow>
          let (taken, x, d, st) = iop_excb_dispatch_interrupt bus irq (s_excb y, s_disp y, cpu y)
          in (taken, y\<lparr>s_excb := x, s_disp := d, cpu := st\<rparr>))"

text \<open>The set bits of a mask from the lowest up, the order in which the loop isolates them.\<close>

definition irqs_of :: "u32 \<Rightarrow> nat list" where
  "irqs_of m = filter (bit m) [0..<32]"

fun dispatch_low :: "'w cpu_bus \<Rightarrow> nat list \<Rightarrow> 'w iop_sys \<Rightarrow> bool \<times> 'w iop_sys" where
  "dispatch_low bus [] y = (False, y)"
| "dispatch_low bus (i # is) y =
     (let (taken, y1) = dispatch_irq bus (word_of_nat i) y in if taken then (True, y1) else dispatch_low bus is y1)"

text \<open>The soft range: only its lowest pending bit is tried; the second component is the mask of a failure.\<close>

definition dispatch_soft :: "'w cpu_bus \<Rightarrow> 'w iop_sys \<Rightarrow> (bool \<times> u32) \<times> 'w iop_sys" where
  "dispatch_soft bus y =
     (case irqs_of (istat_hi (intc (cpu y)) AND imask_hi (intc (cpu y))) of
        [] \<Rightarrow> ((False, 0), y)
      | b # _ \<Rightarrow> let (taken, y1) = dispatch_irq bus (32 + word_of_nat b) y
                 in ((taken, if taken then 0 else push_bit b 1), y1))"

definition irq_pending :: "'x iop_state \<Rightarrow> bool" where
  "irq_pending st \<longleftrightarrow> istat (intc st) AND imask (intc st) \<noteq> 0 \<or> istat_hi (intc st) AND imask_hi (intc st) \<noteq> 0"

definition cause_ip2 :: "'x iop_state \<Rightarrow> 'x iop_state" where
  "cause_ip2 st = st\<lparr>cop0 := (cop0 st)(13 := if irq_pending st then cop0 st 13 OR 0x400 else cop0 st 13 AND NOT 0x400)\<rparr>"

definition irq_accepted :: "'x iop_state \<Rightarrow> bool" where
  "irq_accepted st \<longleftrightarrow> irq_pending st \<and> cop0 st 12 AND 0x400 \<noteq> 0 \<and> cop0 st 12 AND 0x1 \<noteq> 0"

definition enter_interrupt :: "u32 \<Rightarrow> u32 \<Rightarrow> 'x iop_state \<Rightarrow> 'x iop_state" where
  "enter_interrupt epc cause_bd st =
     st\<lparr>cop0 := (cop0 st)(13 := (cop0 st 13 AND NOT (0x7F OR 0x80000000)) OR cause_bd, 14 := epc, 12 := status_push (cop0 st 12)),
        exception_pending := True\<rparr>"

definition iop_check_hw_interrupt :: "'w cpu_bus \<Rightarrow> u32 \<Rightarrow> u32 \<Rightarrow> 'w iop_sys \<Rightarrow> 'w iop_sys" where
  "iop_check_hw_interrupt bus epc cause_bd y =
     (let y1 = upd_cpu cause_ip2 y in
      if \<not> irq_accepted (cpu y1) then y1
      else
        let y2 = upd_cpu (enter_interrupt epc cause_bd) y1;
            low = istat (intc (cpu y2)) AND imask (intc (cpu y2));
            (taken, y3) = dispatch_low bus (irqs_of low) y2
        in if taken then y3
           else let ((soft_taken, failed), y4) = dispatch_soft bus y3
             in if soft_taken then y4
                else upd_cpu (\<lambda>st. go (exc_vector st) st) (y4\<lparr>spurious_istat := low, spurious_istat_hi := failed\<rparr>))"

section \<open>One step\<close>

definition counted :: "'w iop_sys \<Rightarrow> 'w iop_sys" where
  "counted = upd_cpu (\<lambda>st. st\<lparr>instructions_executed := instructions_executed st + 1\<rparr>)"

text \<open>
  The BIOS calls see the shared event table. An event call changes only it and the registers, any
  other call never touches it, so it is written back after the former only.
\<close>

definition bios_handle :: "'w cpu_bus \<Rightarrow> (u32 \<Rightarrow> u32 \<Rightarrow> string) \<Rightarrow> u32 \<Rightarrow> 'w iop_sys \<Rightarrow> (bool \<times> 'w iop_sys) option" where
  "bios_handle bus txt a y =
     (let b = \<lparr>hb = s_bios y, b_events = w_events (world_of (cpu y)), b_excb = s_excb y, bst = cpu y\<rparr>;
          is_event = (a = 0xB0 \<and> \<not> Option.is_none (event_call (gpr (cpu y) 9) :: (evtable \<times> 'w cpu \<Rightarrow> evtable \<times> 'w cpu) option))
      in map_option (\<lambda>(h, b1). (h, y\<lparr>s_bios := hb b1, s_excb := b_excb b1,
            cpu := if is_event then upd_world (\<lambda>w. w\<lparr>w_events := b_events b1\<rparr>) (bst b1) else bst b1\<rparr>))
          (iop_hle_bios_try_handle bus txt a b))"

text \<open>The kernel services after the BIOS tables, in the order they are asked; True when one of them took the step.\<close>

definition try_services :: "bool \<Rightarrow> 'w cpu_bus \<Rightarrow> u32 \<Rightarrow> 'w iop_sys \<Rightarrow> bool \<times> 'w iop_sys" where
  "try_services malloc_ok bus a y =
     (case iop_hle_intr_try_handle bus a (s_intr y, cpu y) of
        Some (g, st) \<Rightarrow> (True, y\<lparr>s_intr := g, cpu := st\<rparr>)
      | None \<Rightarrow>
          let (h, t, st) = iop_hle_thread_try_handle bus a (s_thr y, cpu y); y1 = y\<lparr>s_thr := t, cpu := st\<rparr>
          in if h then (True, y1)
             else case iop_hle_heap_try_handle malloc_ok a (s_heap y1, cpu y1) of
                 Some (hp, st) \<Rightarrow> (True, y1\<lparr>s_heap := hp, cpu := st\<rparr>)
               | None \<Rightarrow>
                   (case iop_excb_try_handle bus a (s_excb y1, s_disp y1, cpu y1) of
                      Some (x, d, st) \<Rightarrow> (True, y1\<lparr>s_excb := x, s_disp := d, cpu := st\<rparr>)
                    | None \<Rightarrow> (False, y1)))"

text \<open>The stub for the RAM exception vector: it returns from an exception nobody handled.\<close>

definition spurious_return :: "'w iop_sys \<Rightarrow> 'w iop_sys" where
  "spurious_return y =
     (let st = cpu y; exc = drop_bit 2 (cop0 st 13 AND 0x7C); epc = cop0 st 14; st1 = rfe st in
      if exc = 0x08 \<or> exc = 0x09 \<or> exc = 0x0D \<or> exc = 0x0A then
        y\<lparr>cpu := set_gpr 2 0 (go (epc + 4) st1)\<rparr>
      else if spurious_istat y \<noteq> 0 \<or> spurious_istat_hi y \<noteq> 0 then
        y\<lparr>cpu := go epc (st1\<lparr>intc := (intc st1)\<lparr>istat := istat (intc st1) AND NOT (spurious_istat y),
            istat_hi := istat_hi (intc st1) AND NOT (spurious_istat_hi y)\<rparr>\<rparr>),
          spurious_istat := 0, spurious_istat_hi := 0\<rparr>
      else y\<lparr>cpu := go epc st1\<rparr>)"

definition pc_is_fetchable :: "u32 \<Rightarrow> 'x iop_state \<Rightarrow> bool" where
  "pc_is_fetchable a st =
     (if a \<ge> 0xBFC00000 then (case bios st of Some b \<Rightarrow> a - 0xBFC00000 + 4 \<le> bsize b | None \<Rightarrow> False)
      else (a AND 0x1FFFFFFF) + 4 \<le> ram_size st)"

text \<open>The check for a program counter running through empty low memory: True when it has halted the processor.\<close>

definition low_memory_trap :: "'w cpu_bus \<Rightarrow> u32 \<Rightarrow> 'w iop_sys \<Rightarrow> bool \<times> 'w iop_sys" where
  "low_memory_trap bus a y =
     (let phys = a AND 0x1FFFFFFF; modelled = (phys < 0x100 \<or> 0xE000 \<le> phys \<and> phys < 0x10000) in
      if phys < 0x00100000 \<and> \<not> modelled then
        let (word, st1) = iop_mem_read32 bus a (cpu y); y1 = y\<lparr>cpu := st1\<rparr> in
        if word = 0 then
          let y2 = y1\<lparr>zero_run := zero_run y1 + 1\<rparr> in
          if zero_run y2 \<ge> 8 then
            (True, upd_cpu (halt (''PC wandered into unpopulated low IOP kernel memory 0x'' @ hex8 a @
               '' (real thread-context gap - STATUS.md round 173)'')) y2)
          else (False, y2)
        else (False, y1\<lparr>zero_run := 0\<rparr>)
      else (False, y\<lparr>zero_run := 0\<rparr>))"

text \<open>Fetch, execute, interrupt check.\<close>

definition run_instruction :: "'w cpu_bus \<Rightarrow> 'w iop_sys \<Rightarrow> 'w iop_sys option" where
  "run_instruction bus y =
     (let this_pc = pc (cpu y); fallthrough = next_pc (cpu y); (instr, st1) = iop_mem_read32 bus this_pc (cpu y) in
      map_option (\<lambda>st2. let y2 = y\<lparr>cpu := st2\<rparr> in
          counted (if next_pc st2 \<noteq> fallthrough + 4 then iop_check_hw_interrupt bus this_pc 0x80000000 y2
                   else iop_check_hw_interrupt bus (pc st2) 0 y2))
        (iop_run_instr bus instr st1))"

type_synonym 'w module_loader = "(u32 \<Rightarrow> 'w iop_sys \<Rightarrow> bool \<times> 'w iop_sys) \<times> ('w iop_sys \<Rightarrow> bool \<times> 'w iop_sys)"

definition fetch_and_run :: "'w module_loader \<Rightarrow> 'w cpu_bus \<Rightarrow> 'w iop_sys \<Rightarrow> (bool \<times> 'w iop_sys) option" where
  "fetch_and_run ml bus y =
     (let a = pc (cpu y) in
      if \<not> pc_is_fetchable a (cpu y) then
        let (booted, y1) = snd ml y in
        Some (if booted then (False, y1)
              else (True, upd_cpu (halt (''PC escaped to unfetchable addr 0x'' @ hex8 a @
                 '' (unloaded IOP module - see STATUS.md round 14)'')) y1))
      else let (stopped, y1) = low_memory_trap bus a y in
        if stopped then Some (True, y1) else map_option (Pair False) (run_instruction bus y1))"

definition iop_step :: "bool \<Rightarrow> 'w module_loader \<Rightarrow> 'w cpu_bus \<Rightarrow> (u32 \<Rightarrow> u32 \<Rightarrow> string) \<Rightarrow> 'w iop_sys \<Rightarrow> (bool \<times> 'w iop_sys) option" where
  "iop_step malloc_ok ml bus txt y =
     (let a = pc (cpu y) in
      case bios_handle bus txt a y of
        None \<Rightarrow> None
      | Some (True, y1) \<Rightarrow> Some (False, counted y1)
      | Some (False, y1) \<Rightarrow>
          (case try_services malloc_ok bus a y1 of
             (True, y2) \<Rightarrow> Some (False, counted y2)
           | (False, y2) \<Rightarrow>
               (case fst ml a y2 of
                  (True, y3) \<Rightarrow> Some (halted (cpu (counted y3)), counted y3)
                | (False, y3) \<Rightarrow>
                    if a = 0x80000080 \<and> exception_pending (cpu y3) then Some (False, counted (spurious_return y3))
                    else fetch_and_run ml bus (y3\<lparr>cpu := (cpu y3)\<lparr>pc := a\<rparr>\<rparr>))))"

section \<open>The scheduler tick\<close>

definition timers_step :: "'x iop_state \<Rightarrow> 'x iop_state" where
  "timers_step st = (let (t, c) = iop_timers_tick (timers st, intc st) in st\<lparr>timers := t, intc := c\<rparr>)"

definition service_queue :: "'w cpu \<Rightarrow> 'w cpu" where
  "service_queue st =
     (let (q, t) = iop_asyncio_service cd_run (w_queue (world_of st), w_events (world_of st))
      in upd_world (\<lambda>w. w\<lparr>w_queue := q, w_events := t\<rparr>) st)"

definition iop_tick :: "'w iop_sys \<Rightarrow> 'w iop_sys" where
  "iop_tick y =
     (let y1 = upd_cpu (\<lambda>st. timers_step (st\<lparr>sched_ticks := sched_ticks st + 1\<rparr>)) y;
          (t, st) = iop_hle_thread_tick (s_thr y1, cpu y1)
      in y1\<lparr>s_thr := t, cpu := iop_check_vblank (service_queue st)\<rparr>)"

definition idle_step :: "'w cpu_bus \<Rightarrow> 'w iop_sys \<Rightarrow> 'w iop_sys" where
  "idle_step bus y =
     (let y1 = iop_check_hw_interrupt bus (pc (cpu y)) 0 y in
      if \<not> exception_pending (cpu y) \<and> exception_pending (cpu y1) then upd_cpu (\<lambda>st. st\<lparr>idle := False\<rparr>) y1 else y1)"

definition iop_core_step :: "bool \<Rightarrow> 'w module_loader \<Rightarrow> 'w cpu_bus \<Rightarrow> (u32 \<Rightarrow> u32 \<Rightarrow> string) \<Rightarrow> 'w iop_sys \<Rightarrow> (bool \<times> 'w iop_sys) option" where
  "iop_core_step malloc_ok ml bus txt y =
     (if halted (cpu y) then Some (True, y)
      else let y1 = iop_tick y in
        if idle (cpu y1) then Some (False, idle_step bus y1) else iop_step malloc_ok ml bus txt y1)"

section \<open>Reset\<close>

text \<open>
  \<open>devices\<close> is the state the initialisers of the blocks on the bus leave behind, \<open>y\<close> the statics
  before the call: the dispatch record of the exception chains, the recorded spurious interrupts and
  the counter of empty words are not reset. \<open>None\<close> is the failure to allocate the RAM.
\<close>

definition reset_cpu :: "bios_image option \<Rightarrow> ee_intc_state \<Rightarrow> 'w world iop_io \<Rightarrow> 'w cpu" where
  "reset_cpu rom ee devices =
     \<lparr>gpr = \<lambda>_. 0, pc = 0xBFC00000, next_pc = 0xBFC00004, hi = 0, lo = 0, cop0 = (\<lambda>_. 0)(12 := 0x00400000), ram = \<lambda>_. 0,
      ram_size = 0x00204000, bios = rom, instructions_executed = 0, halted = False, halt_reason = [],
      sched_ticks = 0, idle = False, exception_pending = False, devtable_pending_image = 0,
      intc = iop_intc_init, timers = iop_timers_init, icfg = 0, eintc = ee,
      ext = devices\<lparr>idma := iop_dma_init, ram_bound := True, spu := iop_spu2_init (spu devices)\<rparr>\<rparr>"

definition iop_core_init :: "bool \<Rightarrow> bool \<Rightarrow> 'w module_loader \<Rightarrow> 'w cpu_bus \<Rightarrow> bios_image option \<Rightarrow> 'w world iop_io \<Rightarrow> 'w iop_sys \<Rightarrow> 'w iop_sys option" where
  "iop_core_init ram_ok malloc_ok ml bus rom devices y =
     (if \<not> ram_ok then None
      else let st = upd_world (\<lambda>w. w\<lparr>w_events := iop_hle_events_init, w_queue := iop_asyncio_init\<rparr>) (reset_cpu rom (eintc (cpu y)) devices);
               (x, st1) = iop_excb_init bus st
        in Some (snd (snd ml (y\<lparr>cpu := st1, s_bios := iop_hle_bios_init, s_intr := iop_hle_intr_init, s_thr := iop_hle_thread_init,
             s_heap := iop_heap_init malloc_ok, s_excb := x\<rparr>))))"

end
