(* ===== verification/Iop_Step_Props.thy ===== *)
theory Iop_Step_Props
  imports Iop_Step Iop_Intr_Props Iop_Cpu_Props
begin

text \<open>
  Properties of the main loop: who gets an interrupt and in which state, that a handled and an
  unhandled interrupt are both invisible to the program they interrupt, that the vertical blank wakes
  an idle processor, and where the recorded return address is wrong.
\<close>

section \<open>Dispatch\<close>

text \<open>No exception chain has a node, whatever the two fields are that the interrupt entry changes.\<close>

definition chains_empty :: "'w cpu_bus \<Rightarrow> 'w cpu \<Rightarrow> bool" where
  "chains_empty bus st \<longleftrightarrow> (\<forall>c e. find_next_chain bus 0 (st\<lparr>cop0 := c, exception_pending := e\<rparr>)
     = (None, st\<lparr>cop0 := c, exception_pending := e\<rparr>))"

lemma dispatch_irq_none:
  assumes "intr_handler_addr (s_intr y) ! unat irq = 0" and "find_next_chain bus 0 (cpu y) = (None, cpu y)"
  shows "dispatch_irq bus irq y = (False, y)"
  using assms by (simp add: dispatch_irq_def iop_hle_intr_dispatch_interrupt_def iop_excb_dispatch_interrupt_def)

lemma dispatch_low_none:
  assumes "\<And>j. j \<in> set is \<Longrightarrow> j < 32 \<and> intr_handler_addr (s_intr y) ! j = 0 \<and> find_next_chain bus 0 (cpu y) = (None, cpu y)"
  shows "dispatch_low bus (is @ rest) y = dispatch_low bus rest y"
  using assms
proof (induction "is")
  case Nil
  then show ?case by simp
next
  case (Cons j js)
  from Cons.prems [of j] have "j < 32" "intr_handler_addr (s_intr y) ! j = 0" "find_next_chain bus 0 (cpu y) = (None, cpu y)" by simp_all
  then have "dispatch_irq bus (word_of_nat j) y = (False, y)" by (intro dispatch_irq_none) simp_all
  moreover have "dispatch_low bus (js @ rest) y = dispatch_low bus rest y" by (rule Cons.IH) (rule Cons.prems, simp)
  ultimately show ?case by simp
qed

lemma irqs_of_split:
  assumes "i < 32" and "bit m i"
  shows "irqs_of m = filter (bit m) [0..<i] @ i # filter (bit m) [Suc i..<32]"
proof -
  have "[0..<32] = [0..<i] @ i # [Suc i..<32]"
    using assms(1) upt_add_eq_append [of 0 i "32 - i"] by (simp add: upt_conv_Cons)
  then show ?thesis using assms(2) by (simp only: irqs_of_def filter_append) simp
qed

lemma irqs_of_0 [simp]: "irqs_of 0 = []"
  by (simp add: irqs_of_def)

lemma intc_upd_cpu: "cpu (upd_cpu f y) = f (cpu y)" "s_intr (upd_cpu f y) = s_intr y" "s_disp (upd_cpu f y) = s_disp y"
  "s_thr (upd_cpu f y) = s_thr y"
  by (simp_all add: upd_cpu_def)

lemma entry_frame:
  "gpr (cause_ip2 st) = gpr st" "intc (cause_ip2 st) = intc st" "hi (cause_ip2 st) = hi st" "lo (cause_ip2 st) = lo st"
  "cop0 (cause_ip2 st) 12 = cop0 st 12" "exception_pending (cause_ip2 st) = exception_pending st" "irq_accepted (cause_ip2 st) = irq_accepted st"
  "pc (cause_ip2 st) = pc st" "idle (cause_ip2 st) = idle st" "halted (cause_ip2 st) = halted st" "sched_ticks (cause_ip2 st) = sched_ticks st"
  "ram (cause_ip2 st) = ram st" "ram (enter_interrupt e b st) = ram st" "ext (cause_ip2 st) = ext st"
  "gpr (enter_interrupt e b st) = gpr st" "intc (enter_interrupt e b st) = intc st" "hi (enter_interrupt e b st) = hi st" "lo (enter_interrupt e b st) = lo st"
  "cop0 (enter_interrupt e b st) 12 = status_push (cop0 st 12)" "cop0 (enter_interrupt e b st) 14 = e" "exception_pending (enter_interrupt e b st)"
  by (simp_all add: cause_ip2_def enter_interrupt_def irq_accepted_def irq_pending_def)

lemma chains_empty_entry:
  assumes "chains_empty bus st"
  shows "find_next_chain bus 0 (enter_interrupt e b (cause_ip2 st)) = (None, enter_interrupt e b (cause_ip2 st))"
proof -
  have "enter_interrupt e b (cause_ip2 st) = st\<lparr>cop0 := cop0 (enter_interrupt e b (cause_ip2 st)), exception_pending := True\<rparr>"
    by (simp add: enter_interrupt_def cause_ip2_def)
  then show ?thesis using assms unfolding chains_empty_def by metis
qed

text \<open>What the two parts of the main theorems share: the interrupt of line \<open>i\<close> is delivered to its handler.\<close>

lemma check_delivers:
  assumes "i < 32" and "bit (istat (intc (cpu y)) AND imask (intc (cpu y))) i" and "intr_handler_addr (s_intr y) ! i \<noteq> 0"
    and "\<And>j. j < i \<Longrightarrow> bit (istat (intc (cpu y)) AND imask (intc (cpu y))) j \<Longrightarrow>
      intr_handler_addr (s_intr y) ! j = 0 \<and> chains_empty bus (cpu y)"
  obtains g st where
    "iop_hle_intr_dispatch_interrupt (word_of_nat i) (s_intr y, enter_interrupt epc bd (cause_ip2 (cpu y))) = Some (g, st)"
    "iop_check_hw_interrupt bus epc bd y = (if cop0 (cpu y) 12 AND 0x400 \<noteq> 0 \<and> cop0 (cpu y) 12 AND 0x1 \<noteq> 0
       then y\<lparr>s_intr := g, cpu := st\<rparr> else upd_cpu cause_ip2 y)"
proof -
  let ?m = "istat (intc (cpu y)) AND imask (intc (cpu y))"
  let ?y = "upd_cpu (enter_interrupt epc bd) (upd_cpu cause_ip2 y)"
  have acc: "irq_accepted (cpu y) \<longleftrightarrow> cop0 (cpu y) 12 AND 0x400 \<noteq> 0 \<and> cop0 (cpu y) 12 AND 0x1 \<noteq> 0"
    using assms(2) by (auto simp: irq_accepted_def irq_pending_def)
  obtain g st where d: "iop_hle_intr_dispatch_interrupt (word_of_nat i) (s_intr y, enter_interrupt epc bd (cause_ip2 (cpu y))) = Some (g, st)"
    using assms(1,3) by (simp add: iop_hle_intr_dispatch_interrupt_def Let_def word_le_nat_alt)
  have "dispatch_low bus (irqs_of ?m) ?y = dispatch_low bus (i # filter (bit ?m) [Suc i..<32]) ?y"
    unfolding irqs_of_split [OF assms(1,2)]
    using assms(1,4) by (intro dispatch_low_none) (auto simp: intc_upd_cpu chains_empty_entry)
  also have "\<dots> = (True, y\<lparr>s_intr := g, cpu := st\<rparr>)"
    using d by (simp add: dispatch_irq_def upd_cpu_def)
  finally have "iop_check_hw_interrupt bus epc bd y = (if irq_accepted (cpu y) then y\<lparr>s_intr := g, cpu := st\<rparr> else upd_cpu cause_ip2 y)"
    by (simp add: iop_check_hw_interrupt_def intc_upd_cpu entry_frame Let_def)
  with that d show thesis by (simp add: acc)
qed

text \<open>C12: A pending interrupt is taken exactly when it and interrupts at all are enabled; control then goes
  to the registered handler of the lowest pending line, with its argument, the return gate in $ra,
  the interrupted address in EPC and the status stack pushed. Otherwise only Cause changes. Lower pending
  lines without a handler are passed over when the chains of exception callbacks in memory are empty,
  which is assumed when there is such a line: with a callback in a chain the code gives that lower line to
  the chain instead. Nothing is assumed of the chains when the lowest pending line is the one with a handler.\<close>

theorem hw_interrupt_delivered:
  assumes "i < 32" and "bit (istat (intc (cpu y)) AND imask (intc (cpu y))) i" and "intr_handler_addr (s_intr y) ! i \<noteq> 0"
    and "\<And>j. j < i \<Longrightarrow> bit (istat (intc (cpu y)) AND imask (intc (cpu y))) j \<Longrightarrow>
      intr_handler_addr (s_intr y) ! j = 0 \<and> chains_empty bus (cpu y)"
    and "y' = iop_check_hw_interrupt bus epc bd y"
  shows "if cop0 (cpu y) 12 AND 0x400 \<noteq> 0 \<and> cop0 (cpu y) 12 AND 0x1 \<noteq> 0
    then pc (cpu y') = intr_handler_addr (s_intr y) ! i \<and> next_pc (cpu y') = pc (cpu y') + 4 \<and>
      gpr (cpu y') = (gpr (cpu y))(4 := intr_handler_arg (s_intr y) ! i, 31 := 0xE4) \<and>
      hi (cpu y') = hi (cpu y) \<and> lo (cpu y') = lo (cpu y) \<and> intc (cpu y') = intc (cpu y) \<and> ram (cpu y') = ram (cpu y) \<and>
      cop0 (cpu y') 14 = epc \<and> cop0 (cpu y') 12 = status_push (cop0 (cpu y) 12) \<and> exception_pending (cpu y') \<and>
      dispatched_irq (s_intr y') = word_of_nat i
    else y' = upd_cpu cause_ip2 y"
proof -
  obtain g st where d: "iop_hle_intr_dispatch_interrupt (word_of_nat i) (s_intr y, enter_interrupt epc bd (cause_ip2 (cpu y))) = Some (g, st)"
    and y: "y' = (if cop0 (cpu y) 12 AND 0x400 \<noteq> 0 \<and> cop0 (cpu y) 12 AND 0x1 \<noteq> 0
       then y\<lparr>s_intr := g, cpu := st\<rparr> else upd_cpu cause_ip2 y)"
    using check_delivers [OF assms(1-4)] assms(5) by metis
  have "pc st = intr_handler_addr (s_intr y) ! i" "next_pc st = pc st + 4" "hi st = hi (cpu y)" "lo st = lo (cpu y)"
    "gpr st = (gpr (cpu y))(4 := intr_handler_arg (s_intr y) ! i, 31 := 0xE4)" "intc st = intc (cpu y)" "ram st = ram (cpu y)"
    "cop0 st 14 = epc" "cop0 st 12 = status_push (cop0 (cpu y) 12)" "exception_pending st" "dispatched_irq g = word_of_nat i"
    using d assms(1)
    by (auto simp: iop_hle_intr_dispatch_interrupt_def Let_def entry_frame split: if_splits)
  with y show ?thesis by simp
qed

section \<open>Returning from an interrupt\<close>

lemma status_unstack_pop: "status_unstack s = status_pop s"
proof (rule bit_word_eqI)
  fix k
  have m: "(0x0F :: u32) = mask 4" by (simp add: mask_eq_exp_minus_1)
  show "bit (status_unstack s) k = bit (status_pop s) k"
    unfolding status_unstack_def m status_bits by (auto simp: bit_simps dest: bit_imp_le_length)
qed

lemma status_round_trip: "k < 4 \<or> 6 \<le> k \<Longrightarrow> bit (status_pop (status_push s)) k = bit s k"
  by (auto simp: status_bits)

lemma bios_declines: "a \<noteq> 0xA0 \<Longrightarrow> a \<noteq> 0xB0 \<Longrightarrow> a \<noteq> 0xC0 \<Longrightarrow> bios_handle bus txt a y = Some (False, y)"
  by (simp add: bios_handle_def iop_hle_bios_try_handle_def Let_def)

text \<open>A machine with empty memory for the examples; the lines 0 and 3 are pending, line 3 has a handler.\<close>

definition demo_io_rest :: "unit world iop_io" where
  "demo_io_rest = \<lparr>idma = iop_dma_init, ram_bound = True, sif2_transfer_count = 0, spu2_transfer_count = 0,
     edma = \<lparr>chan = replicate 10 zero_channel, d_ctrl = 0, d_stat = 0, d_pcr = 0, d_sqwc = 0, d_rbsr = 0, d_rbor = 0, d_stadr = 0,
       d_enable_state = 0, ee_ram = None, ee_ram_size = 0, ee_scratch = None, ee_scratch_size = 0,
       dworld = \<lparr>w_events = iop_hle_events_init, w_queue = iop_asyncio_init, w_rest = ()\<rparr>\<rparr>,
     spu = \<lparr>regs = \<lambda>_. 0, spu2_ram = \<lambda>_. 0, voices = \<lambda>_ _. zero_voice, total_kon = 0, total_frames = 0\<rparr>\<rparr>"

definition demo_sys :: "u32 list \<Rightarrow> unit iop_sys" where
  "demo_sys hs = \<lparr>cpu = (blank_iop demo_io_rest)\<lparr>cop0 := (\<lambda>_. 0)(12 := 0x401), pc := 0x1000, next_pc := 0x1004,
       gpr := (\<lambda>_. 0)(2 := 0xAB, 4 := 0xCD), intc := iop_intc_init\<lparr>istat := 9, imask := 9\<rparr>\<rparr>,
     s_bios = iop_hle_bios_init, s_intr = iop_hle_intr_init\<lparr>intr_handler_addr := hs\<rparr>, s_thr = iop_hle_thread_init, s_heap = [],
     s_excb = \<lparr>enq_calls = 0, deq_calls = 0, deq_bug_noop_count = 0, dispatch_attempts = 0, dispatch_claimed = 0, dispatch_exhausted = 0\<rparr>,
     s_disp = \<lparr>x_active = False, x_trying_second = False, x_priority = 0, x_node = 0, x_dispatched_irq = 0, x_saved_epc = 0\<rparr>,
     spurious_istat = 0, spurious_istat_hi = 0, zero_run = 0\<rparr>"

lemma empty_memory_read:
  assumes "register_free a" and "ram st = (\<lambda>_. 0)" and "bios st = None"
  shows "iop_mem_read32 no_devices a st = (0, st)"
proof -
  have "mem_byte st p k = 0" for p k using assms(2,3) by (cases p) simp_all
  then show ?thesis
    using handlers_decline(3) [OF no_devices_decline assms(1), of st] by (simp add: iop_mem_read32_def split: option.split)
qed

lemma empty_memory_chains:
  assumes "ram st = (\<lambda>_. 0)" and "bios st = None"
  shows "chains_empty no_devices st"
proof -
  have "iop_mem_read32 no_devices a (st\<lparr>cop0 := c, exception_pending := e\<rparr>) = (0, st\<lparr>cop0 := c, exception_pending := e\<rparr>)"
    if "a AND 0x1FFFFFFF < 0x1F801070" for a c e
    using assms by (intro empty_memory_read low_register_free that) simp_all
  moreover have four: "find_chain_from b 4 = find_chain_from b (Suc (Suc (Suc (Suc 0))))" for b :: "'a cpu_bus"
    by (simp only: numeral_eq_Suc pred_numeral_simps BitM.simps)
  ultimately show ?thesis
    by (simp add: chains_empty_def find_next_chain_def four chain_head_addr_def)
qed

lemma demo_sys_chains: "chains_empty no_devices (cpu (demo_sys hs))"
  by (rule empty_memory_chains) (simp_all add: demo_sys_def blank_iop_def)

lemma demo_sys_fields:
  "cop0 (cpu (demo_sys hs)) 12 = 0x401" "istat (intc (cpu (demo_sys hs))) = 9" "imask (intc (cpu (demo_sys hs))) = 9"
  "intr_handler_addr (s_intr (demo_sys hs)) = hs" "gpr (cpu (demo_sys hs)) = (\<lambda>_. 0)(2 := 0xAB, 4 := 0xCD)"
  "s_thr (demo_sys hs) = iop_hle_thread_init" "exception_pending (cpu (demo_sys hs)) = False"
  "istat_hi (intc (cpu (demo_sys hs))) = 0" "pc (cpu (demo_sys hs)) = 0x1000"
  by (simp_all add: demo_sys_def blank_iop_def iop_intc_init_def)

lemma demo_sys_lowest: "bit (9 :: u32) 3" "j < 3 \<Longrightarrow> bit (9 :: u32) j \<Longrightarrow> (replicate 64 0)[3 := h] ! j = (0 :: u32)"
  by simp_all

theorem hw_interrupt_delivered_witness:
  "pc (cpu (iop_check_hw_interrupt no_devices 0x1000 0 (demo_sys ((replicate 64 0)[3 := 0x5000])))) = 0x5000"
proof -
  let ?y = "demo_sys ((replicate 64 0)[3 := 0x5000])"
  have "if cop0 (cpu ?y) 12 AND 0x400 \<noteq> 0 \<and> cop0 (cpu ?y) 12 AND 0x1 \<noteq> 0
    then pc (cpu (iop_check_hw_interrupt no_devices 0x1000 0 ?y)) = intr_handler_addr (s_intr ?y) ! 3
    else True"
    using hw_interrupt_delivered [OF _ _ _ _ refl, of 3 ?y no_devices "0x1000" 0]
    by (simp add: demo_sys_fields demo_sys_chains)
  then show ?thesis by (simp add: demo_sys_fields)
qed

text \<open>
  What the dispatch to a handler saved for its return. No step changes it but a step at the return
  gate and another dispatch to a handler of the table, which the counter of dispatches shows.
\<close>

definition saved_frame :: "hle_intr \<Rightarrow> bool \<times> u32 \<times> u32 \<times> (nat \<Rightarrow> u32) \<times> u32 \<times> u32 \<times> u32" where
  "saved_frame g = (in_dispatch g, dispatched_irq g, saved_epc g, saved_gpr g, saved_ra g, saved_hi g, saved_lo g)"

definition table_dispatches :: "'w iop_sys \<Rightarrow> u32" where
  "table_dispatches y = real_handler_dispatches (intr_stats (s_intr y))"

lemma seen_frame [simp]: "saved_frame (seen f g) = saved_frame g"
  by (simp add: saved_frame_def seen_def)

lemma gate_frames:
  "saved_frame (fst (gate_register_intr s)) = saved_frame (fst s)" "saved_frame (fst (gate_release_intr s)) = saved_frame (fst s)"
  "saved_frame (fst (gate_register_exc bus s)) = saved_frame (fst s)" "saved_frame (fst (gate_release_exc s)) = saved_frame (fst s)"
  "saved_frame (fst (gate_register_default_exc bus s)) = saved_frame (fst s)"
  "saved_frame (fst (gate_enable_intr s')) = saved_frame (fst s')" "saved_frame (fst (gate_disable_intr bus' s')) = saved_frame (fst s')"
  by (simp_all add: gate_register_intr_def gate_release_intr_def gate_register_exc_def gate_release_exc_def
      gate_register_default_exc_def gate_enable_intr_def gate_disable_intr_def Let_def case_prod_beta)
    (simp_all add: saved_frame_def)

lemma gates_keep_frame:
  assumes "a \<noteq> 0xE4" and "iop_hle_intr_try_handle bus a s = Some s1"
  shows "saved_frame (fst s1) = saved_frame (fst s)"
  using assms by (auto simp: iop_hle_intr_try_handle_def gate_frames split: if_splits)

text \<open>A machine that kept the interrupt state, or dispatched one handler more.\<close>

definition kept_or_dispatched :: "'w iop_sys \<Rightarrow> bool \<Rightarrow> 'w iop_sys \<Rightarrow> bool" where
  "kept_or_dispatched y hit y1 \<longleftrightarrow> s_intr y1 = s_intr y \<or> hit \<and> table_dispatches y1 = table_dispatches y + 1"

lemma dispatch_irq_kept: "kept_or_dispatched y (fst (dispatch_irq bus irq y)) (snd (dispatch_irq bus irq y))"
  by (auto simp: kept_or_dispatched_def table_dispatches_def dispatch_irq_def iop_hle_intr_dispatch_interrupt_def Let_def split: if_splits prod.splits)

lemma dispatch_low_kept: "kept_or_dispatched y (fst (dispatch_low bus is y)) (snd (dispatch_low bus is y))"
proof (induction "is" arbitrary: y)
  case (Cons i "is")
  show ?case using dispatch_irq_kept [of y bus "word_of_nat i"] Cons.IH [of "snd (dispatch_irq bus (word_of_nat i) y)"]
    by (auto simp: kept_or_dispatched_def table_dispatches_def Let_def case_prod_beta)
qed (simp add: kept_or_dispatched_def)

lemma dispatch_soft_kept: "kept_or_dispatched y (fst (fst (dispatch_soft bus y))) (snd (dispatch_soft bus y))"
  using dispatch_irq_kept by (auto simp: dispatch_soft_def kept_or_dispatched_def case_prod_beta Let_def split: list.split)

lemma check_kept: "kept_or_dispatched y True (iop_check_hw_interrupt bus epc bd y)"
proof -
  let ?y = "upd_cpu (enter_interrupt epc bd) (upd_cpu cause_ip2 y)"
  let ?low = "irqs_of (istat (intc (cpu ?y)) AND imask (intc (cpu ?y)))"
  show ?thesis
    using dispatch_low_kept [of ?y bus ?low] dispatch_soft_kept [of "snd (dispatch_low bus ?low ?y)" bus]
    by (auto simp: iop_check_hw_interrupt_def kept_or_dispatched_def table_dispatches_def intc_upd_cpu Let_def case_prod_beta)
qed

lemma bios_handle_intr: "bios_handle bus txt a y = Some (h, y1) \<Longrightarrow> s_intr y1 = s_intr y"
  by (auto simp: bios_handle_def Let_def)

lemma try_services_frame:
  assumes "a \<noteq> 0xE4"
  shows "saved_frame (s_intr (snd (try_services malloc_ok bus a y))) = saved_frame (s_intr y)"
  using gates_keep_frame [OF assms, of bus "(s_intr y, cpu y)"]
  by (auto simp: try_services_def Let_def case_prod_beta split: option.split)

lemma try_services_declined: "try_services malloc_ok bus a y = (False, y1) \<Longrightarrow> s_intr y1 = s_intr y"
  by (auto simp: try_services_def Let_def case_prod_beta split: option.splits if_splits)

lemma spurious_return_intr: "s_intr (spurious_return y) = s_intr y"
  by (simp add: spurious_return_def Let_def)

lemma low_memory_trap_intr: "s_intr (snd (low_memory_trap bus a y)) = s_intr y"
  by (simp add: low_memory_trap_def Let_def case_prod_beta intc_upd_cpu)

text \<open>The module loader has no access to the interrupt tables.\<close>

definition loader_keeps_intr :: "'w module_loader \<Rightarrow> bool" where
  "loader_keeps_intr ml \<longleftrightarrow> (\<forall>a y. s_intr (snd (fst ml a y)) = s_intr y) \<and> (\<forall>y. s_intr (snd (snd ml y)) = s_intr y)"

lemma run_instruction_kept: "run_instruction bus y = Some y1 \<Longrightarrow> kept_or_dispatched y True y1"
proof -
  assume "run_instruction bus y = Some y1"
  then obtain st2 epc bd where "y1 = counted (iop_check_hw_interrupt bus epc bd (y\<lparr>cpu := st2\<rparr>))"
    by (auto simp: run_instruction_def Let_def case_prod_beta split: if_splits)
  with check_kept [of "y\<lparr>cpu := st2\<rparr>" bus epc bd] show ?thesis
    by (simp add: kept_or_dispatched_def table_dispatches_def counted_def intc_upd_cpu)
qed

lemma fetch_and_run_kept:
  assumes "fetch_and_run ml bus y = Some (stop, y1)" and "loader_keeps_intr ml"
  shows "kept_or_dispatched y True y1"
proof (cases "pc_is_fetchable (pc (cpu y)) (cpu y)")
  case True
  let ?t = "low_memory_trap bus (pc (cpu y)) y"
  show ?thesis
    using assms(1) True low_memory_trap_intr [of bus "pc (cpu y)" y] run_instruction_kept [of bus "snd ?t" y1]
    by (auto simp: fetch_and_run_def kept_or_dispatched_def table_dispatches_def Let_def case_prod_beta split: if_splits)
next
  case False
  with assms show ?thesis
    by (auto simp: fetch_and_run_def loader_keeps_intr_def kept_or_dispatched_def intc_upd_cpu Let_def case_prod_beta split: if_splits)
qed

lemma step_frame:
  assumes "iop_step malloc_ok ml bus txt y = Some (stop, y1)" and "pc (cpu y) \<noteq> 0xE4" and "loader_keeps_intr ml"
    and "table_dispatches y1 = table_dispatches y"
  shows "saved_frame (s_intr y1) = saved_frame (s_intr y)"
proof -
  obtain h ya where b: "bios_handle bus txt (pc (cpu y)) y = Some (h, ya)"
    using assms(1) by (auto simp: iop_step_def Let_def split: option.splits)
  note ia = bios_handle_intr [OF b]
  show ?thesis
  proof (cases h)
    case True
    then show ?thesis using assms(1) b ia by (auto simp: iop_step_def Let_def counted_def intc_upd_cpu)
  next
    case False
    obtain h2 yb where t: "try_services malloc_ok bus (pc (cpu y)) ya = (h2, yb)" by force
    have ib: "saved_frame (s_intr yb) = saved_frame (s_intr y)" using try_services_frame [OF assms(2), of malloc_ok bus ya] t ia by simp
    show ?thesis
    proof (cases h2)
      case True
      then show ?thesis using assms(1) b t ib \<open>\<not> h\<close> by (auto simp: iop_step_def Let_def counted_def intc_upd_cpu)
    next
      case False
      let ?c = "snd (fst ml (pc (cpu y)) yb)"
      have i: "s_intr ?c = s_intr y"
        using try_services_declined t ia False assms(3) by (metis (full_types) loader_keeps_intr_def)
      have "kept_or_dispatched y True y1"
        using assms(1) b t \<open>\<not> h\<close> False i fetch_and_run_kept [OF _ assms(3), of bus "?c\<lparr>cpu := (cpu ?c)\<lparr>pc := pc (cpu y)\<rparr>\<rparr>" stop y1]
        by (auto simp: iop_step_def Let_def counted_def intc_upd_cpu spurious_return_intr kept_or_dispatched_def table_dispatches_def
            split: bool.splits prod.splits if_splits)
      then show ?thesis using assms(4) by (auto simp: kept_or_dispatched_def)
    qed
  qed
qed

text \<open>
  The run of a handler: steps of the main loop from its entry, none at the return gate and none that
  dispatches another handler of the table.
\<close>

inductive handler_run :: "('w iop_sys \<Rightarrow> (bool \<times> 'w iop_sys) option) \<Rightarrow> 'w iop_sys \<Rightarrow> 'w iop_sys \<Rightarrow> bool"
  for step :: "'w iop_sys \<Rightarrow> (bool \<times> 'w iop_sys) option" where
  handler_entry: "handler_run step y y"
| handler_step: "handler_run step y y1 \<Longrightarrow> pc (cpu (iop_tick y1)) \<noteq> 0xE4 \<Longrightarrow> step y1 = Some (stop, y2) \<Longrightarrow>
    table_dispatches y2 = table_dispatches y1 \<Longrightarrow> handler_run step y y2"

lemma tick_intr: "s_intr (iop_tick y) = s_intr y"
  by (simp add: iop_tick_def Let_def case_prod_beta intc_upd_cpu)

lemma core_step_frame:
  assumes "iop_core_step malloc_ok ml bus txt y = Some (stop, y1)" and "pc (cpu (iop_tick y)) \<noteq> 0xE4" and "loader_keeps_intr ml"
    and "table_dispatches y1 = table_dispatches y"
  shows "saved_frame (s_intr y1) = saved_frame (s_intr y)"
proof (cases "halted (cpu y)")
  case True
  then show ?thesis using assms(1) by (simp add: iop_core_step_def)
next
  case running: False
  show ?thesis
  proof (cases "idle (cpu (iop_tick y))")
    case True
    have "kept_or_dispatched (iop_tick y) True y1"
      using assms(1) running True check_kept [of "iop_tick y" bus "pc (cpu (iop_tick y))" 0]
      by (auto simp: iop_core_step_def idle_step_def Let_def kept_or_dispatched_def table_dispatches_def intc_upd_cpu split: if_splits)
    then show ?thesis using assms(4) by (auto simp: kept_or_dispatched_def table_dispatches_def tick_intr)
  next
    case False
    then show ?thesis
      using step_frame [OF _ assms(2,3), of malloc_ok bus "txt" stop y1] assms(1,4) running
      by (simp add: iop_core_step_def Let_def table_dispatches_def tick_intr)
  qed
qed

lemma handler_run_frame:
  assumes "handler_run (iop_core_step malloc_ok ml bus txt) y y2" and "loader_keeps_intr ml"
  shows "saved_frame (s_intr y2) = saved_frame (s_intr y)"
  using assms(1) by (induction rule: handler_run.induct) (simp_all add: core_step_frame [OF _ _ assms(2)])

text \<open>C3: An interrupt with a registered handler is invisible to the program it interrupts. The handler may run any
  number of steps of the main loop, devices, timers, kernel calls and all, as long as none of them
  dispatches another handler of the table (there is one saved frame), it gets to the return gate 0xE4 that
  it was given in $ra, not idle or halted, and Status there is the one it was entered with. The step
  at the gate then resumes the program at the recorded address with all its registers, HI and LO and
  the Status stack as they were when the interrupt was taken, acknowledges the line and leaves memory to what
  the handler made of it. As for the delivery, the chains of exception callbacks are assumed empty if a
  lower pending line without a handler is passed over, since the code would give that line to a chain. The
  module loader is assumed not to touch the interrupt tables.\<close>

theorem interrupt_invisible:
  assumes "i < 32" and "bit (istat (intc (cpu y)) AND imask (intc (cpu y))) i" and "intr_handler_addr (s_intr y) ! i \<noteq> 0"
    and "\<And>j. j < i \<Longrightarrow> bit (istat (intc (cpu y)) AND imask (intc (cpu y))) j \<Longrightarrow>
      intr_handler_addr (s_intr y) ! j = 0 \<and> chains_empty bus (cpu y)"
    and "cop0 (cpu y) 12 AND 0x400 \<noteq> 0" and "cop0 (cpu y) 12 AND 0x1 \<noteq> 0"
    and "y1 = iop_check_hw_interrupt bus epc bd y"
    and "handler_run (iop_core_step malloc_ok ml bus txt) y1 y2" and "loader_keeps_intr ml"
    and "\<not> halted (cpu y2)" and "y2' = iop_tick y2" and "\<not> idle (cpu y2')"
    and "pc (cpu y2') = 0xE4" and "cop0 (cpu y2') 12 = cop0 (cpu y1) 12"
  shows "\<exists>y3. gpr (cpu y1) 31 = 0xE4 \<and> iop_core_step malloc_ok ml bus txt y2 = Some (False, y3) \<and>
    pc (cpu y3) = epc \<and> next_pc (cpu y3) = epc + 4 \<and> hi (cpu y3) = hi (cpu y) \<and> lo (cpu y3) = lo (cpu y) \<and>
    (\<forall>r. 1 \<le> r \<and> r < 32 \<longrightarrow> gpr (cpu y3) r = gpr (cpu y) r) \<and>
    (\<forall>k. k < 4 \<or> 6 \<le> k \<longrightarrow> bit (cop0 (cpu y3) 12) k = bit (cop0 (cpu y) 12) k) \<and>
    \<not> exception_pending (cpu y3) \<and> intc (cpu y3) = clear_line (word_of_nat i) (intc (cpu y2')) \<and> ram (cpu y3) = ram (cpu y2')"
proof -
  obtain g st where d: "iop_hle_intr_dispatch_interrupt (word_of_nat i) (s_intr y, enter_interrupt epc bd (cause_ip2 (cpu y))) = Some (g, st)"
    and y: "y1 = y\<lparr>s_intr := g, cpu := st\<rparr>"
    using check_delivers [OF assms(1-4)] assms(5-7) by metis
  have g: "dispatched_irq g = word_of_nat i" "in_dispatch g" "saved_epc g = epc" "saved_hi g = hi (cpu y)" "saved_lo g = lo (cpu y)"
      "\<And>r. 1 \<le> r \<Longrightarrow> r < 32 \<Longrightarrow> saved_gpr g r = gpr (cpu y) r"
    and st: "gpr st 31 = 0xE4" "cop0 st 12 = status_push (cop0 (cpu y) 12)"
    using d by (auto simp: iop_hle_intr_dispatch_interrupt_def Let_def entry_frame split: if_splits)
  let ?r = "gate_handler_return (s_intr y2', cpu y2')"
  have fr: "saved_frame (s_intr y2') = saved_frame g"
    using handler_run_frame [OF assms(8,9)] y by (simp add: assms(11) tick_intr)
  have "iop_step malloc_ok ml bus txt y2' = Some (False, counted (y2'\<lparr>s_intr := fst ?r, cpu := snd ?r\<rparr>))"
    using assms(13) by (simp add: iop_step_def bios_declines try_services_def case_prod_beta iop_hle_intr_try_handle_def)
  then have "iop_core_step malloc_ok ml bus txt y2 = Some (False, counted (y2'\<lparr>s_intr := fst ?r, cpu := snd ?r\<rparr>))"
    using assms(10-12) by (simp add: iop_core_step_def Let_def)
  then show ?thesis
    using g fr assms(14) y st
    by (simp add: gate_handler_return_def counted_def upd_cpu_def status_unstack_pop status_round_trip saved_frame_def)
qed

text \<open>An example: the handler of line 3 is the kernel's own EnableIntr at 0xE8, which returns to the gate in $ra.\<close>

lemma tick_no_threads:
  assumes "thread_count (s_thr y) = 0"
  shows "pc (cpu (iop_tick y)) = pc (cpu y)" "idle (cpu (iop_tick y)) = idle (cpu y)" "halted (cpu (iop_tick y)) = halted (cpu y)"
    "cop0 (cpu (iop_tick y)) = cop0 (cpu y)" "gpr (cpu (iop_tick y)) = gpr (cpu y)" "s_thr (iop_tick y) = s_thr y"
  using assms
  by (simp_all add: iop_tick_def iop_hle_thread_tick_def intc_upd_cpu timers_step_def service_queue_def upd_world_def
      iop_check_vblank_def Let_def case_prod_beta)

lemma enable_irq_frame:
  "cop0 (snd (enable_irq n u st)) = cop0 st" "idle (snd (enable_irq n u st)) = idle st" "halted (snd (enable_irq n u st)) = halted st"
  by (simp_all add: enable_irq_def upd_intc_def upd_dma_def)

lemma enable_gate_step:
  fixes y :: "'w iop_sys"
  assumes "pc (cpu y) = 0xE8" and "thread_count (s_thr y) = 0" and "\<not> halted (cpu y)" and "\<not> idle (cpu y)"
  obtains y' where "iop_core_step malloc_ok ml bus txt y = Some (False, y')" "pc (cpu y') = gpr (cpu y) 31" "cop0 (cpu y') = cop0 (cpu y)"
    "\<not> idle (cpu y')" "\<not> halted (cpu y')" "thread_count (s_thr y') = 0" "table_dispatches y' = table_dispatches y"
proof -
  let ?t = "iop_tick y" let ?r = "gate_enable_intr (s_intr ?t, cpu ?t)"
  note t = tick_no_threads [OF assms(2)]
  have "iop_step malloc_ok ml bus txt ?t = Some (False, counted (?t\<lparr>s_intr := fst ?r, cpu := snd ?r\<rparr>))"
    using assms(1) t by (simp add: iop_step_def bios_declines try_services_def case_prod_beta iop_hle_intr_try_handle_def)
  then have "iop_core_step malloc_ok ml bus txt y = Some (False, counted (?t\<lparr>s_intr := fst ?r, cpu := snd ?r\<rparr>))"
    using assms t by (simp add: iop_core_step_def Let_def)
  then show thesis
    by (rule that) (use assms t in \<open>simp_all add: counted_def intc_upd_cpu gate_enable_intr_def gret_def seen_def table_dispatches_def tick_intr
        enable_irq_frame Let_def case_prod_beta upd_cpu_def\<close>)
qed

theorem interrupt_invisible_witness:
  "\<exists>y1 y2 y3. y1 = iop_check_hw_interrupt no_devices 0x1000 0 (demo_sys ((replicate 64 0)[3 := 0xE8])) \<and> pc (cpu y1) = 0xE8 \<and>
     iop_core_step True (\<lambda>_ y. (False, y), \<lambda>y. (False, y)) no_devices (\<lambda>_ _. []) y1 = Some (False, y2) \<and>
     iop_core_step True (\<lambda>_ y. (False, y), \<lambda>y. (False, y)) no_devices (\<lambda>_ _. []) y2 = Some (False, y3) \<and>
     pc (cpu y3) = 0x1000 \<and> gpr (cpu y3) 2 = 0xAB"
proof -
  let ?y = "demo_sys ((replicate 64 0)[3 := 0xE8])" and ?ml = "(\<lambda>_ y. (False, y), \<lambda>y. (False, y)) :: unit module_loader"
  let ?step = "iop_core_step True ?ml no_devices (\<lambda>_ _. [])"
  define y1 where "y1 = iop_check_hw_interrupt no_devices 0x1000 0 ?y"
  obtain g st where d: "iop_hle_intr_dispatch_interrupt (word_of_nat 3) (s_intr ?y, enter_interrupt 0x1000 0 (cause_ip2 (cpu ?y))) = Some (g, st)"
    and y: "y1 = ?y\<lparr>s_intr := g, cpu := st\<rparr>"
    unfolding y1_def by (rule check_delivers [of 3 ?y no_devices "0x1000" 0]) (auto simp: demo_sys_fields demo_sys_chains)
  then have e: "gpr (cpu y1) 31 = 0xE4" "pc (cpu y1) = 0xE8" "thread_count (s_thr y1) = 0" "\<not> halted (cpu y1)" "\<not> idle (cpu y1)"
    by (auto simp: iop_hle_intr_dispatch_interrupt_def demo_sys_fields iop_hle_thread_init_def Let_def split: if_splits)
      (simp_all add: demo_sys_def blank_iop_def enter_interrupt_def cause_ip2_def)
  obtain y2 where y2: "?step y1 = Some (False, y2)" "pc (cpu y2) = gpr (cpu y1) 31" "cop0 (cpu y2) = cop0 (cpu y1)"
    "\<not> idle (cpu y2)" "\<not> halted (cpu y2)" "thread_count (s_thr y2) = 0" "table_dispatches y2 = table_dispatches y1"
    by (rule enable_gate_step [OF e(2-5)])
  note t = tick_no_threads [OF y2(6)]
  have run: "handler_run ?step y1 y2"
    using tick_no_threads(1) [OF e(3)] e(2) y2 by (intro handler_step [OF handler_entry]) auto
  have ml: "loader_keeps_intr ?ml" by (simp add: loader_keeps_intr_def)
  have "\<exists>y3. ?step y2 = Some (False, y3) \<and> pc (cpu y3) = 0x1000 \<and> gpr (cpu y3) 2 = 0xAB"
    using interrupt_invisible [where i = 3, OF _ _ _ _ _ _ y1_def run ml y2(5) refl] y2 t e(1)
    by (auto simp: demo_sys_fields demo_sys_chains)
  then show ?thesis using y1_def y2(1) e(2) by blast
qed

section \<open>Interrupts nobody handles\<close>

lemma dispatch_low_all_none:
  assumes "\<And>j. j < 64 \<Longrightarrow> intr_handler_addr (s_intr y) ! j = 0" and "find_next_chain bus 0 (cpu y) = (None, cpu y)"
  shows "dispatch_low bus (irqs_of m) y = (False, y)"
  using dispatch_low_none [of "irqs_of m" y bus "[]"] assms by (simp add: irqs_of_def)

lemma irqs_of_lowest:
  assumes "irqs_of m = b # bs"
  shows "b < 32" "bit m b"
  using arg_cong [OF assms, of set] by (auto simp: irqs_of_def)

lemma dispatch_soft_none:
  assumes "\<And>j. j < 64 \<Longrightarrow> intr_handler_addr (s_intr y) ! j = 0" and "find_next_chain bus 0 (cpu y) = (None, cpu y)"
  shows "\<exists>failed. dispatch_soft bus y = ((False, failed), y)"
proof (cases "irqs_of (istat_hi (intc (cpu y)) AND imask_hi (intc (cpu y)))")
  case Nil
  then show ?thesis by (simp add: dispatch_soft_def)
next
  case (Cons b bs)
  then have "b < 32" by (rule irqs_of_lowest)
  then have "unat (32 + word_of_nat b :: u32) < 64" by (simp add: unat_word_ariths)
  with assms have "dispatch_irq bus (32 + word_of_nat b) y = (False, y)" by (intro dispatch_irq_none) blast+
  then show ?thesis using Cons by (simp add: dispatch_soft_def)
qed

lemma services_decline: "try_services malloc_ok bus 0x80000080 y = (False, y)"
  by (simp add: try_services_def iop_hle_intr_try_handle_def iop_hle_thread_try_handle_def iop_hle_thread_in_range_def
      iop_hle_heap_try_handle_def iop_excb_try_handle_def)

lemma interrupt_code:
  assumes "bd = 0 \<or> bd = 0x80000000"
  shows "((x AND NOT (0x7F OR 0x80000000)) OR bd) AND 0x7C = (0 :: u32)"
proof -
  have "(x AND NOT (0x7F OR 0x80000000)) AND 0x7C = (0 :: u32)" by (simp add: and.assoc)
  then show ?thesis using assms by (auto simp: bit.conj_disj_distrib2)
qed

lemma spurious_entry:
  fixes y :: "'w iop_sys"
  assumes "\<And>j. j < 64 \<Longrightarrow> intr_handler_addr (s_intr y) ! j = 0" and "chains_empty bus (cpu y)"
    and "irq_accepted (cpu y)" and "\<not> bit (cop0 (cpu y) 12) 22" and "e = upd_cpu (enter_interrupt epc bd) (upd_cpu cause_ip2 y)"
  obtains failed where "iop_check_hw_interrupt bus epc bd y = e\<lparr>spurious_istat := istat (intc (cpu y)) AND imask (intc (cpu y)),
    spurious_istat_hi := failed, cpu := go 0x80000080 (cpu e)\<rparr>"
proof -
  let ?low = "istat (intc (cpu y)) AND imask (intc (cpu y))"
  have fe: "intc (cpu e) = intc (cpu y)" "s_intr e = s_intr y" "find_next_chain bus 0 (cpu e) = (None, cpu e)"
    using assms(2) by (simp_all add: assms(5) intc_upd_cpu entry_frame chains_empty_entry)
  obtain failed where soft: "dispatch_soft bus e = ((False, failed), e)"
    using dispatch_soft_none [of e bus] assms(1) fe by auto
  have vec: "exc_vector (cpu e) = 0x80000080"
    using assms(4) bit_iff_and_push_bit_not_eq_0 [of "status_push (cop0 (cpu y) 12)" 22]
    by (simp add: exc_vector_def assms(5) intc_upd_cpu entry_frame status_bits push_bit_eq_mult)
  have "iop_check_hw_interrupt bus epc bd y
      = upd_cpu (\<lambda>st. go (exc_vector st) st) (e\<lparr>spurious_istat := ?low, spurious_istat_hi := failed\<rparr>)"
    unfolding iop_check_hw_interrupt_def Let_def assms(5) [symmetric]
    using assms(3) soft dispatch_low_all_none [of e bus ?low] assms(1) fe by (simp add: intc_upd_cpu entry_frame)
  then show thesis by (intro that [of failed]) (simp add: upd_cpu_def vec)
qed

text \<open>An interrupt nobody registered for does no harm either: it goes to the exception vector in RAM,
  and the next step returns to the interrupted address with the registers, the memory and the Status
  stack as before and every pending line acknowledged, so that it does not fire again.\<close>

theorem spurious_interrupt_returns:
  assumes "\<And>j. j < 64 \<Longrightarrow> intr_handler_addr (s_intr y) ! j = 0" and "chains_empty bus (cpu y)"
    and "irq_accepted (cpu y)" and "\<not> bit (cop0 (cpu y) 12) 22"
    and "istat (intc (cpu y)) AND imask (intc (cpu y)) \<noteq> 0"
    and "bd = 0 \<or> bd = 0x80000000" and "\<And>y'. fst ml 0x80000080 y' = (False, y')"
    and "y1 = iop_check_hw_interrupt bus epc bd y"
  shows "\<exists>y2. pc (cpu y1) = 0x80000080 \<and> iop_step malloc_ok ml bus txt y1 = Some (False, y2) \<and> pc (cpu y2) = epc \<and> next_pc (cpu y2) = epc + 4 \<and>
    gpr (cpu y2) = gpr (cpu y) \<and> hi (cpu y2) = hi (cpu y) \<and> lo (cpu y2) = lo (cpu y) \<and> ram (cpu y2) = ram (cpu y) \<and>
    (\<forall>k. k < 4 \<or> 6 \<le> k \<longrightarrow> bit (cop0 (cpu y2) 12) k = bit (cop0 (cpu y) 12) k) \<and> \<not> exception_pending (cpu y2) \<and>
    istat (intc (cpu y2)) AND imask (intc (cpu y2)) = 0"
proof -
  let ?low = "istat (intc (cpu y)) AND imask (intc (cpu y))"
  define e where "e = upd_cpu (enter_interrupt epc bd) (upd_cpu cause_ip2 y)"
  obtain failed where y1: "y1 = e\<lparr>spurious_istat := ?low, spurious_istat_hi := failed, cpu := go 0x80000080 (cpu e)\<rparr>"
    using spurious_entry [OF assms(1-4) e_def] assms(8) by metis
  have fe: "intc (cpu e) = intc (cpu y)" by (simp add: e_def intc_upd_cpu entry_frame)
  have y2: "iop_step malloc_ok ml bus txt y1 = Some (False, counted (spurious_return y1))"
    using services_decline [of malloc_ok bus y1] assms(7)
    by (simp add: iop_step_def bios_declines y1 go_def e_def intc_upd_cpu entry_frame)
  have code: "cop0 (cpu e) 13 AND 0x7C = 0" and epc: "cop0 (cpu e) 14 = epc"
    using interrupt_code [OF assms(6), of "cop0 (cause_ip2 (cpu y)) 13"] by (simp_all add: e_def intc_upd_cpu enter_interrupt_def)
  have "spurious_return y1 = y1\<lparr>cpu := go epc ((rfe (go 0x80000080 (cpu e)))\<lparr>intc := (intc (cpu y))\<lparr>istat := istat (intc (cpu y)) AND NOT ?low,
      istat_hi := istat_hi (intc (cpu y)) AND NOT failed\<rparr>\<rparr>), spurious_istat := 0, spurious_istat_hi := 0\<rparr>"
    using arg_cong [OF code, of "drop_bit 2"] epc assms(5) fe by (simp add: spurious_return_def y1 go_def rfe_def Let_def)
  moreover have "(istat (intc (cpu y)) AND NOT ?low) AND imask (intc (cpu y)) = 0"
    by (rule bit_word_eqI) (auto simp: bit_simps)
  ultimately show ?thesis using y2
    by (simp add: counted_def upd_cpu_def go_def rfe_def y1) (simp add: e_def intc_upd_cpu entry_frame status_round_trip)
qed

theorem spurious_interrupt_returns_witness:
  "\<exists>y1 y2. y1 = iop_check_hw_interrupt no_devices 0x1000 0 (demo_sys (replicate 64 0)) \<and>
     iop_step True (\<lambda>_ y. (False, y), \<lambda>y. (False, y)) no_devices (\<lambda>_ _. []) y1 = Some (False, y2) \<and>
     pc (cpu y2) = 0x1000 \<and> istat (intc (cpu y2)) AND imask (intc (cpu y2)) = 0"
proof -
  let ?y = "demo_sys (replicate 64 0)" and ?ml = "(\<lambda>_ y. (False, y), \<lambda>y. (False, y)) :: unit module_loader"
  define y1 where "y1 = iop_check_hw_interrupt no_devices 0x1000 0 ?y"
  let ?step = "iop_step True ?ml no_devices (\<lambda>_ _. [])"
  have acc: "irq_accepted (cpu ?y)" by (simp add: irq_accepted_def irq_pending_def demo_sys_fields)
  have "\<exists>y2. ?step y1 = Some (False, y2) \<and> pc (cpu y2) = 0x1000 \<and> istat (intc (cpu y2)) AND imask (intc (cpu y2)) = 0"
    using spurious_interrupt_returns [OF _ demo_sys_chains acc _ _ _ _ y1_def, of ?ml True "\<lambda>_ _. []"]
    by (auto simp: demo_sys_fields)
  then show ?thesis using y1_def by blast
qed

section \<open>The vertical blank wakes an idle processor\<close>

lemma imask_raise: "imask (iop_intc_raise irq c) = imask c"
  by (simp add: iop_intc_raise_def)

lemma timer_tick_imask: "imask (snd (iop_timer_tick i tc)) = imask (snd tc)"
  by (simp add: iop_timer_tick_def iop_timer_overflow_def iop_timer_target_def Let_def case_prod_beta imask_raise)

lemma timers_tick_imask: "imask (snd (iop_timers_tick_from i (ts, c))) = imask c"
  by (induction ts arbitrary: i c) (simp_all add: Let_def case_prod_beta timer_tick_imask)

text \<open>Reading memory, devices included, leaves the exception flag alone.\<close>

definition reads_keep_exception :: "'w cpu_bus \<Rightarrow> bool" where
  "reads_keep_exception bus \<longleftrightarrow> (\<forall>a st. exception_pending (snd (iop_mem_read32 bus a st)) = exception_pending st)"

lemma chain_reads:
  assumes "reads_keep_exception bus"
  shows "exception_pending (snd (find_chain_from bus n p st)) = exception_pending st"
    and "exception_pending (snd (enter_node_function bus nd b (d, st))) = exception_pending st"
proof -
  have r: "exception_pending (snd (iop_mem_read32 bus a st)) = exception_pending st" for a st
    using assms by (simp add: reads_keep_exception_def)
  show "exception_pending (snd (find_chain_from bus n p st)) = exception_pending st"
    by (induction n arbitrary: p st) (simp_all add: chain_head_addr_def Let_def case_prod_beta r)
  show "exception_pending (snd (enter_node_function bus nd b (d, st))) = exception_pending st"
    by (simp add: enter_node_function_def Let_def case_prod_beta r)
qed

lemma dispatch_irq_exception:
  assumes "reads_keep_exception bus"
  shows "exception_pending (cpu (snd (dispatch_irq bus irq y))) = exception_pending (cpu y)"
proof (cases "iop_hle_intr_dispatch_interrupt irq (s_intr y, cpu y)")
  case (Some r)
  then show ?thesis by (auto simp: dispatch_irq_def iop_hle_intr_dispatch_interrupt_def Let_def split: if_splits)
next
  case None
  obtain c st1 where f: "find_next_chain bus 0 (cpu y) = (c, st1)" by force
  have "exception_pending st1 = exception_pending (cpu y)"
    using chain_reads(1) [OF assms, of 4 0 "cpu y"] f by (simp add: find_next_chain_def)
  then show ?thesis
    using None f chain_reads(2) [OF assms]
    by (cases c) (auto simp: dispatch_irq_def iop_excb_dispatch_interrupt_def Let_def case_prod_beta)
qed

lemma dispatch_low_exception:
  assumes "reads_keep_exception bus"
  shows "exception_pending (cpu (snd (dispatch_low bus is y))) = exception_pending (cpu y)"
  by (induction "is" arbitrary: y) (simp_all add: Let_def case_prod_beta dispatch_irq_exception [OF assms])

lemma dispatch_soft_exception:
  assumes "reads_keep_exception bus"
  shows "exception_pending (cpu (snd (dispatch_soft bus y))) = exception_pending (cpu y)"
  by (simp add: dispatch_soft_def Let_def case_prod_beta dispatch_irq_exception [OF assms] split: list.split)

lemma check_accepted_pending:
  assumes "reads_keep_exception bus" and "irq_accepted (cpu y)"
  shows "exception_pending (cpu (iop_check_hw_interrupt bus epc bd y))"
  using assms(2)
  by (simp add: iop_check_hw_interrupt_def Let_def case_prod_beta intc_upd_cpu entry_frame go_def
      dispatch_low_exception [OF assms(1)] dispatch_soft_exception [OF assms(1)])

text \<open>The processor idles, no exception is latched, interrupts are on and the vertical blank is unmasked.\<close>

definition waiting :: "'w iop_sys \<Rightarrow> bool" where
  "waiting y \<longleftrightarrow> idle (cpu y) \<and> \<not> exception_pending (cpu y) \<and> \<not> halted (cpu y) \<and>
     cop0 (cpu y) 12 AND 0x400 \<noteq> 0 \<and> cop0 (cpu y) 12 AND 0x1 \<noteq> 0 \<and> bit (imask (intc (cpu y))) 0"

text \<open>The tick of the threads changes what \<^const>\<open>waiting\<close> looks at only by ending the idle state.\<close>

lemma reschedule_idle:
  assumes "reschedule (g, st) = (g1, st1)" and "idle st1"
  shows "st1 = st\<lparr>idle := True\<rparr>"
  using assms by (auto simp: reschedule_def Let_def split: if_splits)

lemma thread_tick_idle:
  assumes "iop_hle_thread_tick (g, st) = (g1, st1)" and "idle st" and "idle st1"
  shows "\<exists>r p n. st1 = st\<lparr>gpr := r, pc := p, next_pc := n\<rparr>"
proof -
  have same: "\<exists>r p n. st = st\<lparr>gpr := r, pc := p, next_pc := n\<rparr>"
    by (intro exI [of _ "gpr st"] exI [of _ "pc st"] exI [of _ "next_pc st"]) simp
  have "st\<lparr>idle := True\<rparr> = st" using assms(2) by simp
  with reschedule_idle assms(3) same have resched: "\<exists>r p n. st1 = st\<lparr>gpr := r, pc := p, next_pc := n\<rparr>"
    if "reschedule (g', st) = (g1, st1)" for g'
    using that by metis
  show ?thesis
    using assms(1) same
    by (auto simp: iop_hle_thread_tick_def Let_def intro: resched split: if_splits option.splits prod.splits)
qed

lemma tick_waiting:
  assumes "waiting y" and "idle (cpu (iop_tick y))"
  shows "waiting (iop_tick y)" and "sched_ticks (cpu (iop_tick y)) = sched_ticks (cpu y) + 1"
    and "(sched_ticks (cpu y) + 1) mod IOP_CYCLES_PER_FRAME_NTSC = 0 \<Longrightarrow> irq_accepted (cpu (iop_tick y))"
proof -
  let ?st = "timers_step ((cpu y)\<lparr>sched_ticks := sched_ticks (cpu y) + 1\<rparr>)"
  obtain g1 st1 where tt: "iop_hle_thread_tick (s_thr y, ?st) = (g1, st1)" by force
  have t: "cpu (iop_tick y) = iop_check_vblank (service_queue st1)"
    using tt by (simp add: iop_tick_def intc_upd_cpu Let_def)
  have f: "sched_ticks ?st = sched_ticks (cpu y) + 1" "idle ?st = idle (cpu y)" "cop0 ?st = cop0 (cpu y)" "halted ?st = halted (cpu y)"
    "exception_pending ?st = exception_pending (cpu y)" "imask (intc ?st) = imask (intc (cpu y))"
    by (simp_all add: timers_step_def iop_timers_tick_def Let_def case_prod_beta timers_tick_imask)
  have q: "sched_ticks (service_queue st) = sched_ticks st" "idle (service_queue st) = idle st" "cop0 (service_queue st) = cop0 st"
    "halted (service_queue st) = halted st" "exception_pending (service_queue st) = exception_pending st" "intc (service_queue st) = intc st" for st :: "'a cpu"
    by (simp_all add: service_queue_def upd_world_def Let_def case_prod_beta)
  have "idle st1" using assms(2) by (simp add: t iop_check_vblank_def q Let_def split: if_splits)
  then obtain r p n where st1: "st1 = ?st\<lparr>gpr := r, pc := p, next_pc := n\<rparr>"
    using thread_tick_idle [OF tt] assms(1) f(2) by (auto simp: waiting_def)
  show w: "waiting (iop_tick y)" and "sched_ticks (cpu (iop_tick y)) = sched_ticks (cpu y) + 1"
    using assms(1) by (simp_all add: t waiting_def iop_check_vblank_def q st1 f imask_raise Let_def)
  show "irq_accepted (cpu (iop_tick y))" if "(sched_ticks (cpu y) + 1) mod IOP_CYCLES_PER_FRAME_NTSC = 0"
  proof -
    have "bit (istat (intc (cpu (iop_tick y))) AND imask (intc (cpu (iop_tick y)))) 0"
      using assms(1) that by (simp add: t iop_check_vblank_def q st1 f imask_raise waiting_def bit_and_iff bit_or_iff iop_intc_raise_def)
    moreover from this have "istat (intc (cpu (iop_tick y))) AND imask (intc (cpu (iop_tick y))) \<noteq> 0"
      by (metis bit_0_eq bot_apply bot_bool_def)
    ultimately show ?thesis
      using w by (simp add: irq_accepted_def irq_pending_def waiting_def)
  qed
qed

lemma idle_step_waiting:
  assumes "waiting y" and "reads_keep_exception bus"
  shows "irq_accepted (cpu y) \<Longrightarrow> \<not> idle (cpu (idle_step bus y)) \<and> exception_pending (cpu (idle_step bus y))"
    and "\<not> irq_accepted (cpu y) \<Longrightarrow> waiting (idle_step bus y) \<and> sched_ticks (cpu (idle_step bus y)) = sched_ticks (cpu y)"
proof -
  show "\<not> idle (cpu (idle_step bus y)) \<and> exception_pending (cpu (idle_step bus y))" if "irq_accepted (cpu y)"
    using assms(1) check_accepted_pending [OF assms(2) that] by (simp add: idle_step_def waiting_def Let_def intc_upd_cpu)
  show "waiting (idle_step bus y) \<and> sched_ticks (cpu (idle_step bus y)) = sched_ticks (cpu y)" if "\<not> irq_accepted (cpu y)"
    using assms(1) that
    by (simp add: idle_step_def iop_check_hw_interrupt_def Let_def intc_upd_cpu entry_frame waiting_def)
qed

text \<open>A number of steps of the main loop.\<close>

primrec core_run :: "('w iop_sys \<Rightarrow> (bool \<times> 'w iop_sys) option) \<Rightarrow> nat \<Rightarrow> 'w iop_sys \<Rightarrow> 'w iop_sys option" where
  "core_run step 0 y = Some y"
| "core_run step (Suc n) y = Option.bind (step y) (\<lambda>(stop, y1). core_run step n y1)"

text \<open>The next step ends the idle state: its tick puts a thread on the processor, or it takes an interrupt.\<close>

definition wakes_next :: "('w iop_sys \<Rightarrow> (bool \<times> 'w iop_sys) option) \<Rightarrow> 'w iop_sys \<Rightarrow> bool" where
  "wakes_next step y \<longleftrightarrow> \<not> idle (cpu (iop_tick y)) \<or>
     (case step y of Some (stop, y') \<Rightarrow> \<not> idle (cpu y') \<and> exception_pending (cpu y') | None \<Rightarrow> False)"

lemma wakes_at_frame:
  assumes "waiting y" and "reads_keep_exception bus"
    and "(sched_ticks (cpu y) + word_of_nat (Suc k)) mod IOP_CYCLES_PER_FRAME_NTSC = 0"
  shows "\<exists>n y'. n \<le> k \<and> core_run (iop_core_step malloc_ok ml bus txt) n y = Some y' \<and> idle (cpu y') \<and>
    wakes_next (iop_core_step malloc_ok ml bus txt) y'"
  using assms(1,3)
proof (induction k arbitrary: y)
  case (0 y)
  have "wakes_next (iop_core_step malloc_ok ml bus txt) y" if "idle (cpu (iop_tick y))"
    using idle_step_waiting(1) [OF tick_waiting(1) [OF 0(1) that] assms(2) tick_waiting(3) [OF 0(1) that]] 0 that
    by (simp add: wakes_next_def iop_core_step_def waiting_def Let_def)
  with 0 show ?case by (auto simp: wakes_next_def waiting_def)
next
  case (Suc k y)
  let ?step = "iop_core_step malloc_ok ml bus txt"
  have now: ?case if "wakes_next ?step y"
    using that Suc.prems(1) by (intro exI [of _ 0] exI [of _ y]) (simp add: waiting_def)
  show ?case
  proof (cases "idle (cpu (iop_tick y))")
    case False
    then show ?thesis by (intro now) (simp add: wakes_next_def)
  next
    case idle: True
    note w = tick_waiting(1) [OF Suc.prems(1) idle]
    have s: "?step y = Some (False, idle_step bus (iop_tick y))"
      using idle Suc.prems(1) by (simp add: iop_core_step_def waiting_def Let_def)
    show ?thesis
    proof (cases "irq_accepted (cpu (iop_tick y))")
      case True
      then show ?thesis using idle_step_waiting(1) [OF w assms(2)] s by (intro now) (simp add: wakes_next_def)
    next
      case False
      note i = idle_step_waiting(2) [OF w assms(2) False]
      then have "(sched_ticks (cpu (idle_step bus (iop_tick y))) + word_of_nat (Suc k)) mod IOP_CYCLES_PER_FRAME_NTSC = 0"
        using Suc.prems(2) tick_waiting(2) [OF Suc.prems(1) idle] by (simp add: add.assoc add.commute add.left_commute)
      from Suc.IH [OF _ this] i obtain n y' where "n \<le> k" "core_run ?step n (idle_step bus (iop_tick y)) = Some y'"
        "idle (cpu y')" "wakes_next ?step y'"
        by blast
      then show ?thesis using s by (intro exI [of _ "Suc n"]) simp
    qed
  qed
qed

lemma frame_ahead: "\<exists>k < 615186. ((t :: u64) + word_of_nat (Suc k)) mod IOP_CYCLES_PER_FRAME_NTSC = 0"
proof -
  define r where "r = 615186 - unat t mod 615186"
  have r: "0 < r" "r \<le> 615186" by (simp_all add: r_def less_imp_diff_less)
  have "unat t mod 615186 < 615186" by simp
  moreover have "615186 * (unat t div 615186) + unat t mod 615186 = unat t" by (rule mult_div_mod_eq)
  ultimately have "unat t + r = 615186 * (unat t div 615186 + 1)" unfolding r_def distrib_left by linarith
  then have d: "(unat t + r) mod 615186 = 0" by (simp only: mod_mult_self1_is_0)
  show ?thesis
  proof (cases "unat t + r < 18446744073709551616")
    case True
    then have "unat (t + word_of_nat r) = unat t + r" using r(2) by (simp add: unat_word_ariths)
    then have "unat ((t + word_of_nat r) mod IOP_CYCLES_PER_FRAME_NTSC) = 0"
      using d by (simp add: unat_mod_distrib IOP_CYCLES_PER_FRAME_NTSC_def)
    with r show ?thesis by (intro exI [of _ "r - 1"]) (simp add: unat_eq_0)
  next
    case False
    define q where "q = 18446744073709551616 - unat t"
    have q: "0 < q" "q \<le> r" using False unat_less_2p [of t] by (simp_all add: q_def)
    have "t + word_of_nat q = word_of_nat (unat t + q)" by simp
    also have "\<dots> = 0" using unat_less_2p [of t] unfolding q_def by simp
    finally show ?thesis using q r by (intro exI [of _ "q - 1"]) simp
  qed
qed

text \<open>C34: A processor that idles with no exception latched, not halted, interrupts on in Status (IM2 and
  IEc) and the vertical blank unmasked ends the idle state within one frame of 615186 steps of the main loop,
  whatever threads and alarms there are: the periodic work goes on while it idles. There is an idle
  state fewer than 615186 steps away whose next step either puts a woken thread on the processor or
  takes an interrupt. What is on the bus is only required not to latch an exception on a read. The
  condition that no exception is latched is needed: the code leaves the idle state only when the
  exception flag rises.\<close>

theorem vblank_wakes_idle:
  assumes "idle (cpu y)" and "\<not> exception_pending (cpu y)" and "\<not> halted (cpu y)"
    and "cop0 (cpu y) 12 AND 0x400 \<noteq> 0" and "cop0 (cpu y) 12 AND 0x1 \<noteq> 0" and "bit (imask (intc (cpu y))) 0"
    and "\<And>a st. exception_pending (snd (iop_mem_read32 bus a st)) = exception_pending st"
  shows "\<exists>n y'. n < 615186 \<and> core_run (iop_core_step malloc_ok ml bus txt) n y = Some y' \<and> idle (cpu y') \<and>
    (\<not> idle (cpu (iop_tick y')) \<or>
     (case iop_core_step malloc_ok ml bus txt y' of Some (stop, y2) \<Rightarrow> \<not> idle (cpu y2) \<and> exception_pending (cpu y2) | None \<Rightarrow> False))"
proof -
  have w: "waiting y" "reads_keep_exception bus" using assms by (simp_all add: waiting_def reads_keep_exception_def)
  obtain k where k: "k < 615186" "(sched_ticks (cpu y) + word_of_nat (Suc k)) mod IOP_CYCLES_PER_FRAME_NTSC = 0"
    using frame_ahead [of "sched_ticks (cpu y)"] by (elim exE conjE)
  from wakes_at_frame [OF w k(2), of malloc_ok ml "txt"] obtain n y' where n: "n \<le> k"
    and y': "core_run (iop_core_step malloc_ok ml bus txt) n y = Some y' \<and> idle (cpu y') \<and> wakes_next (iop_core_step malloc_ok ml bus txt) y'"
    by (elim exE conjE) (rule that, simp_all)
  have "n < 615186" using n k(1) by linarith
  with y' show ?thesis unfolding wakes_next_def by (intro exI [of _ n] exI [of _ y']) simp
qed

lemma no_devices_reads: "reads_keep_exception (no_devices :: 'w cpu_bus)"
proof -
  have "exception_pending s1 = exception_pending st" if "first_read (read32_handlers no_devices) a st = Some (v, s1)" for a v and st s1 :: "'w cpu"
    using that by (simp add: read32_handlers_def no_devices_def modelled_blocks split: option.splits) auto
  then show ?thesis
    unfolding reads_keep_exception_def iop_mem_read32_def by (simp split: option.split)
qed

theorem vblank_wakes_idle_witness:
  "\<exists>n y'. n < 615186 \<and> core_run (iop_core_step True (\<lambda>_ y. (False, y), \<lambda>y. (False, y)) no_devices (\<lambda>_ _. [])) n
     (upd_cpu (\<lambda>st. st\<lparr>idle := True, intc := iop_intc_init\<lparr>imask := 1\<rparr>\<rparr>) (demo_sys (replicate 64 0))) = Some y' \<and>
     idle (cpu y')"
proof -
  let ?y = "upd_cpu (\<lambda>st. st\<lparr>idle := True, intc := iop_intc_init\<lparr>imask := 1\<rparr>\<rparr>) (demo_sys (replicate 64 0))"
  have "\<not> halted (cpu ?y)" by (simp add: intc_upd_cpu demo_sys_def blank_iop_def)
  with vblank_wakes_idle [of ?y no_devices True "(\<lambda>_ y. (False, y), \<lambda>y. (False, y))" "\<lambda>_ _. []"] no_devices_reads show ?thesis
    unfolding reads_keep_exception_def by (auto simp: intc_upd_cpu demo_sys_fields)
qed

end
