(* ===== verification/Iop_Cdrom_Props.thy ===== *)
theory Iop_Cdrom_Props
  imports Iop_Cdrom
begin

text \<open>
  Properties of the CD-ROM controller: its FIFOs and its sector buffer are never left, a read
  delivers the sector, a queued request completes, the result-ready flag.
\<close>

section \<open>The FIFO invariant\<close>

definition cd_ok :: "'d cdrom \<Rightarrow> bool" where
  "cd_ok c \<longleftrightarrow> length (param_fifo c) = 16 \<and> param_count c \<le> 16 \<and> length (result_fifo c) = 16 \<and> result_count c \<le> 16 \<and>
     (result_pos c < result_count c \<or> result_pos c = 0) \<and> length (data_buf c) = 2048 \<and> data_len c \<le> 2048 \<and> data_pos c \<le> data_len c"

lemma cd_upd [simp]: "cd (upd_cd f s) = f (cd s)"
  by (simp add: upd_cd_def)

lemma ok_zero [simp]: "cd_ok cdrom_zero"
  by (simp add: cd_ok_def cdrom_zero_def)

lemma ok_push: "cd_ok c \<Longrightarrow> cd_ok (result_push b c)"
  by (auto simp: cd_ok_def result_push_def)

lemma ok_pushes: "cd_ok c \<Longrightarrow> cd_ok (fold result_push bs c)"
  by (induction bs arbitrary: c) (simp_all add: ok_push)

lemma ok_results [inv_intros]: "cd_ok (cd s) \<Longrightarrow> cd_ok (cd (results bs s))"
  unfolding results_def cd_upd by (rule ok_pushes) (auto simp: cd_ok_def result_clear_def)

lemma cd_deliver [simp]: "cd (deliver spec s) = cd s"
  by (simp add: deliver_def)

lemma ok_raise [inv_intros]: "cd_ok (cd s) \<Longrightarrow> cd_ok (cd (raise_int w s))"
  by (simp add: raise_int_def Let_def cd_ok_def)

lemma ok_pending [inv_intros]: "cd_ok (cd s) \<Longrightarrow> cd_ok (cd (set_pending p s))"
  by (simp add: set_pending_def cd_ok_def)

lemma ok_error [inv_intros]: "cd_ok (cd s) \<Longrightarrow> cd_ok (cd (respond_error e s))"
  unfolding respond_error_def by (intro inv_intros)

lemma ok_no_disc [inv_intros]: "cd_ok (cd s) \<Longrightarrow> cd_ok (cd (respond_no_disc s))"
  unfolding respond_no_disc_def by (intro inv_intros)

lemma ok_invalid [inv_intros]: "cd_ok (cd s) \<Longrightarrow> cd_ok (cd (respond_invalid_command s))"
  unfolding respond_invalid_command_def by (intro inv_intros)

lemma ok_ack [inv_intros]: "cd_ok (cd s) \<Longrightarrow> cd_ok (cd (ack_stat_only s))"
  unfolding ack_stat_only_def by (intro inv_intros)

lemma ok_begin [inv_intros]: "cd_ok (cd s) \<Longrightarrow> cd_ok (cd (begin_pending_int2 s))"
  unfolding begin_pending_int2_def by (intro inv_intros)

lemma ok_stat [inv_intros]: "cd_ok (cd s) \<Longrightarrow> cd_ok (cd (upd_stat f s))"
  by (simp add: upd_stat_def cd_ok_def)

lemma ok_answer [inv_intros]: "cd_ok (cd s) \<Longrightarrow> cd_ok (cd (answer bs s))"
  unfolding answer_def by (intro inv_intros)

lemma ok_with_disc [inv_intros]: "cd_ok (cd s) \<Longrightarrow> (\<And>t. cd_ok (cd t) \<Longrightarrow> cd_ok (cd (f t))) \<Longrightarrow> cd_ok (cd (with_disc f s))"
  by (simp add: with_disc_def ok_no_disc)

lemma ok_init [inv_intros]: "cd_ok (cd (iop_cdrom_legacy_init s))"
  by (simp add: iop_cdrom_legacy_init_def)

lemma ok_rewind: "cd_ok c \<Longrightarrow> cd_ok (c\<lparr>data_pos := 0\<rparr>)"
  by (auto simp: cd_ok_def)

lemma ok_deliver_pending [inv_intros]: "cd_ok (cd s) \<Longrightarrow> cd_ok (cd (deliver_pending s))"
proof -
  assume ok: "cd_ok (cd s)"
  then have "cd_ok (cd (upd_cd result_clear s))" by (auto simp: cd_ok_def result_clear_def)
  then show ?thesis using ok unfolding deliver_pending_def by (cases "cd_pending (cd s)") (auto intro!: inv_intros ok_rewind)
qed

text \<open>What the controller relies on: reading a sector fills exactly its buffer.\<close>

definition sector_reader :: "('d \<Rightarrow> u32 \<Rightarrow> u8 list \<Rightarrow> bool \<times> u8 list) \<Rightarrow> bool" where
  "sector_reader rs \<longleftrightarrow> (\<forall>d lba buf. length buf = 2048 \<longrightarrow> length (snd (rs d lba buf)) = 2048)"

lemma ok_read:
  assumes "sector_reader rs" and "cd_ok (cd s)"
  shows "cd_ok (cd (do_read rs s))"
proof (cases "cd_disc (cd s)")
  case (Some d)
  obtain ok buf where r: "rs d (msf_to_lba (loc_mm (cd s)) (loc_ss (cd s)) (loc_ff (cd s))) (data_buf (cd s)) = (ok, buf)" by force
  have "length buf = 2048" using assms r unfolding sector_reader_def cd_ok_def by (metis snd_conv)
  then have "cd_ok (cd (upd_cd (\<lambda>c. c\<lparr>data_buf := buf\<rparr>) s))" "cd_ok (cd (upd_cd (\<lambda>c. c\<lparr>data_len := 2048\<rparr>) (upd_cd (\<lambda>c. c\<lparr>data_buf := buf\<rparr>) s)))"
    using assms(2) by (auto simp: cd_ok_def)
  then show ?thesis by (auto simp: do_read_def Some r Let_def intro!: inv_intros simp del: cd_upd)
qed (use assms in \<open>simp add: do_read_def ok_no_disc\<close>)

lemma cd_enqueue [simp]: "cd (enqueue_boot_kick s) = cd s"
  by (simp add: enqueue_boot_kick_def)

lemma ok_command:
  assumes "sector_reader rs" and "cd_ok (cd s)"
  shows "cd_ok (cd (dispatch_command rs cmd s))"
proof -
  have u: "cd_ok (cd (upd_cd f s))" if "\<And>c. cd_ok c \<Longrightarrow> cd_ok (f c)" for f using that assms(2) by simp
  have f: "cd_ok (cd (upd_cd (\<lambda>c. c\<lparr>loc_mm := a, loc_ss := b, loc_ff := d\<rparr>) s))" "cd_ok (cd (upd_cd (\<lambda>c. c\<lparr>cd_mode := m\<rparr>) s))"
    "cd_ok (cd (upd_cd (\<lambda>c. c\<lparr>filter_file := m, filter_channel := n\<rparr>) s))" for a b d m n
    by (rule u, simp add: cd_ok_def)+
  have z: "cd_ok (cd (upd_cd (result_push 0) (upd_cd (\<lambda>c. c\<lparr>result_count := 0\<rparr>) (iop_cdrom_legacy_init s))))"
    by (simp add: iop_cdrom_legacy_init_def cd_ok_def cdrom_zero_def result_push_def)
  have "cd_ok (cd (run_command rs cmd s))"
    using assms f z ok_read [OF assms] unfolding run_command_def Let_def
    by (simp del: cd_upd add: inv_intros)
  then show ?thesis by (simp add: dispatch_command_def cd_ok_def)
qed


lemma ok_clear_control: "cd_ok (cd s) \<Longrightarrow> cd_ok (cd (clear_control v s))"
proof -
  assume ok: "cd_ok (cd s)"
  have a: "cd_ok (cd (upd_cd (\<lambda>c. c\<lparr>cd_intsts := 0\<rparr>) s))" using ok by (simp add: cd_ok_def)
  have b: "cd_ok (cd t) \<Longrightarrow> cd_ok (cd (upd_cd (\<lambda>c. c\<lparr>param_count := 0\<rparr>) t))" for t :: "'a cd_sys" by (simp add: cd_ok_def)
  show ?thesis using ok a ok_deliver_pending [OF a] unfolding clear_control_def Let_def
    by (simp del: cd_upd add: b ok_init)
qed

lemma ok_write: "sector_reader rs \<Longrightarrow> cd_ok (cd s) \<Longrightarrow> iop_cdrom_legacy_mmio_write8 rs a v s = Some t \<Longrightarrow> cd_ok (cd t)"
  by (auto simp: iop_cdrom_legacy_mmio_write8_def Let_def ok_command ok_clear_control split: if_splits)
    (auto simp: cd_ok_def)

lemma ok_read_register: "cd_ok (cd s) \<Longrightarrow> iop_cdrom_legacy_mmio_read8 a s = Some (v, t) \<Longrightarrow> cd_ok (cd t)"
  by (auto simp: iop_cdrom_legacy_mmio_read8_def read_result_def read_data_def Let_def cd_ok_def split: if_splits)

text \<open>States of the controller: register accesses and mounting.\<close>

inductive cd_reach :: "('d \<Rightarrow> u32 \<Rightarrow> u8 list \<Rightarrow> bool \<times> u8 list) \<Rightarrow> 'd cd_sys \<Rightarrow> bool" for rs where
  start: "cd_reach rs (iop_cdrom_legacy_init s)"
| reg_read: "cd_reach rs s \<Longrightarrow> iop_cdrom_legacy_mmio_read8 a s = Some (v, t) \<Longrightarrow> cd_reach rs t"
| reg_write: "cd_reach rs s \<Longrightarrow> iop_cdrom_legacy_mmio_write8 rs a v s = Some t \<Longrightarrow> cd_reach rs t"
| mount: "cd_reach rs s \<Longrightarrow> cd_reach rs (snd (iop_cdrom_legacy_mount_iso iso_open path s))"
| unmount: "cd_reach rs s \<Longrightarrow> cd_reach rs (iop_cdrom_legacy_unmount_iso s)"

lemma cd_reach_ok:
  assumes "cd_reach rs s" and "sector_reader rs"
  shows "cd_ok (cd s)"
  using assms(1)
proof (induction rule: cd_reach.induct)
  case (reg_read s a v t)
  from ok_read_register [OF reg_read.IH reg_read.hyps(2)] show ?case .
next
  case (reg_write s a v t)
  from ok_write [OF assms(2) reg_write.IH reg_write.hyps(2)] show ?case .
next
  case (mount s iso_open path)
  then show ?case by (auto simp: iop_cdrom_legacy_mount_iso_def mount_result_def cd_ok_def split: option.split)
next
  case (unmount s)
  then show ?case by (auto simp: iop_cdrom_legacy_unmount_iso_def cd_ok_def)
qed (rule ok_init)

text \<open>C20: The controller never leaves its arrays: in every reachable state the parameter count is at most 16, the read position of a non-empty result FIFO is inside it, and the position in the sector buffer is at most its filled length, which is at most 2048.\<close>

theorem cdrom_fifos_safe:
  assumes "cd_reach rs s" and "sector_reader rs"
  shows "param_count (cd s) \<le> length (param_fifo (cd s)) \<and> result_count (cd s) \<le> length (result_fifo (cd s)) \<and>
    (0 < result_count (cd s) \<longrightarrow> result_pos (cd s) < result_count (cd s)) \<and>
    data_pos (cd s) \<le> data_len (cd s) \<and> data_len (cd s) \<le> length (data_buf (cd s))"
  using cd_reach_ok [OF assms] by (auto simp: cd_ok_def)

definition demo_reader :: "u8 \<Rightarrow> u32 \<Rightarrow> u8 list \<Rightarrow> bool \<times> u8 list" where
  "demo_reader d lba buf = (True, replicate 2048 d)"

definition demo_cd :: "u8 cd_sys" where
  "demo_cd = \<lparr>cd = cdrom_zero, cd_intc = iop_intc_init, cd_events = iop_hle_events_init, cd_queue = iop_asyncio_init\<rparr>"

lemma demo_reader_ok: "sector_reader demo_reader"
  by (simp add: sector_reader_def demo_reader_def)

theorem cdrom_fifos_safe_witness:
  "\<exists>t. iop_cdrom_legacy_mmio_write8 demo_reader 0x1F801802 5 (iop_cdrom_legacy_init demo_cd) = Some t \<and>
     param_count (cd t) = 1 \<and> param_count (cd t) \<le> length (param_fifo (cd t))"
proof -
  obtain t where w: "iop_cdrom_legacy_mmio_write8 demo_reader 0x1F801802 5 (iop_cdrom_legacy_init demo_cd) = Some t"
    by (simp add: iop_cdrom_legacy_mmio_write8_def cd_claims_def Let_def)
  have "cd_reach demo_reader t" by (rule cd_reach.reg_write [OF cd_reach.start w])
  from cdrom_fifos_safe [OF this demo_reader_ok] have "param_count (cd t) \<le> length (param_fifo (cd t))" by simp
  moreover have "param_count (cd t) = 1"
    using w by (auto simp: iop_cdrom_legacy_mmio_write8_def cd_claims_def iop_cdrom_legacy_init_def cdrom_zero_def)
  ultimately show ?thesis using w by blast
qed

section \<open>The result-ready flag\<close>

text \<open>The result-ready flag never clears by reading: once a command has answered, however often the result register is read, the status register still reports a result to read.\<close>

theorem result_ready_stuck:
  assumes "cd_reach rs s" and "sector_reader rs" and "0 < result_count (cd s)"
  shows "bit (read_hsts (((\<lambda>c. snd (read_result c)) ^^ n) (cd s))) 5"
proof -
  have "cd_ok (cd s)" by (rule cd_reach_ok [OF assms(1,2)])
  then have "result_pos (((\<lambda>c. snd (read_result c)) ^^ n) (cd s)) < result_count (((\<lambda>c. snd (read_result c)) ^^ n) (cd s))"
    using assms(3) by (induction n) (auto simp: read_result_def cd_ok_def)
  then show ?thesis by (simp add: read_hsts_def bit_or_iff)
qed


theorem result_ready_stuck_witness:
  "\<exists>t. iop_cdrom_legacy_mmio_write8 demo_reader 0x1F801801 1 (iop_cdrom_legacy_init demo_cd) = Some t \<and>
     bit (read_hsts (((\<lambda>c. snd (read_result c)) ^^ 100) (cd t))) 5"
proof -
  obtain t where w: "iop_cdrom_legacy_mmio_write8 demo_reader 0x1F801801 1 (iop_cdrom_legacy_init demo_cd) = Some t"
    by (simp add: iop_cdrom_legacy_mmio_write8_def cd_claims_def Let_def)
  have r: "cd_reach demo_reader t" by (rule cd_reach.reg_write [OF cd_reach.start w])
  have "t = dispatch_command demo_reader 1 (iop_cdrom_legacy_init demo_cd)"
    using w by (simp add: iop_cdrom_legacy_mmio_write8_def cd_claims_def Let_def iop_cdrom_legacy_init_def cdrom_zero_def)
  then have "0 < result_count (cd t)"
    by (simp add: dispatch_command_def run_command_def Let_def ack_stat_only_def raise_int_def results_def result_push_def result_clear_def)
  from result_ready_stuck [OF r demo_reader_ok this, of 100] w show ?thesis by blast
qed

section \<open>Reading a sector\<close>

primrec read_bytes :: "nat \<Rightarrow> 'd cdrom \<Rightarrow> u8 list" where
  "read_bytes 0 c = []"
| "read_bytes (Suc n) c = (let (v, c1) = read_data c in v # read_bytes n c1)"

lemma read_bytes_buffer:
  "data_pos c + n \<le> data_len c \<Longrightarrow> data_len c \<le> length (data_buf c) \<Longrightarrow> read_bytes n c = take n (drop (data_pos c) (data_buf c))"
proof (induction n arbitrary: c)
  case (Suc n)
  then have p: "data_pos c < data_len c" "data_pos c < length (data_buf c)" by auto
  let ?c = "c\<lparr>data_pos := data_pos c + 1\<rparr>"
  have "read_bytes n ?c = take n (drop (data_pos ?c) (data_buf ?c))" using Suc.prems by (intro Suc.IH) auto
  then show ?case using p by (simp add: read_data_def Let_def Cons_nth_drop_Suc [symmetric])
qed simp

lemma fold_push_frame [simp]:
  "data_buf (fold result_push bs c) = data_buf c" "data_len (fold result_push bs c) = data_len c"
  "data_pos (fold result_push bs c) = data_pos c" "cd_pending (fold result_push bs c) = cd_pending c"
  by (induction bs arbitrary: c) (auto simp: result_push_def)

lemma frame_data [simp]:
  "data_buf (cd (results bs s)) = data_buf (cd s)" "data_len (cd (results bs s)) = data_len (cd s)"
  "data_buf (cd (raise_int w s)) = data_buf (cd s)" "data_len (cd (raise_int w s)) = data_len (cd s)"
  "data_buf (cd (set_pending p s)) = data_buf (cd s)" "data_len (cd (set_pending p s)) = data_len (cd s)"
  "data_buf (cd (ack_stat_only s)) = data_buf (cd s)" "data_len (cd (ack_stat_only s)) = data_len (cd s)"
  "cd_pending (cd (set_pending p s)) = p"
  by (simp_all add: results_def result_clear_def result_push_def raise_int_def set_pending_def ack_stat_only_def Let_def)

text \<open>C33: A read delivers the sector: after the read command on a mounted disc and the guest's acknowledgement, 2048 reads of the data register give exactly the bytes of the sector at the position set by Setloc.\<close>

theorem sector_delivered:
  assumes "cd_disc (cd s) = Some d" and "cmd = 0x06 \<or> cmd = 0x1B" and "length buf = 2048"
    and "rs d (msf_to_lba (loc_mm (cd s)) (loc_ss (cd s)) (loc_ff (cd s))) (data_buf (cd s)) = (True, buf)"
  shows "read_bytes 2048 (cd (clear_control 0x07 (dispatch_command rs cmd s))) = buf"
proof -
  let ?s1 = "dispatch_command rs cmd s"
  have r: "run_command rs cmd s = do_read rs s" using assms(2) by (auto simp: run_command_def)
  have s1: "data_buf (cd ?s1) = buf" "data_len (cd ?s1) = 2048" "cd_pending (cd ?s1) = PENDING_INT1_READ"
    by (simp_all add: dispatch_command_def r do_read_def assms(1,4) Let_def)
  have "clear_control 0x07 ?s1 = deliver_pending (upd_cd (\<lambda>c. c\<lparr>cd_intsts := 0\<rparr>) ?s1)"
    using s1(3) by (simp add: clear_control_def Let_def)
  then have "data_buf (cd (clear_control 0x07 ?s1)) = buf" "data_len (cd (clear_control 0x07 ?s1)) = 2048"
    "data_pos (cd (clear_control 0x07 ?s1)) = 0"
    using s1 by (simp_all add: deliver_pending_def)
  then show ?thesis using assms(3) by (subst read_bytes_buffer) simp_all
qed

theorem sector_delivered_witness:
  "read_bytes 2048 (cd (clear_control 0x07 (dispatch_command demo_reader 0x06 (demo_cd\<lparr>cd := cdrom_zero\<lparr>cd_disc := Some 7\<rparr>\<rparr>)))) = replicate 2048 7"
  by (rule sector_delivered [where d = 7]) (simp_all add: demo_reader_def)

section \<open>Setloc\<close>

definition ev_open :: "evtable \<Rightarrow> bool" where
  "ev_open t \<longleftrightarrow> (let e = t (hash_ev CDROM_EVENT_CLASS) (hash_spec 0x0020) in
     ev_status e = EV_ALREADY \<or> ev_status e = EV_ACTIVE \<and> ev_mode e \<noteq> EV_MODE_INTR)"

lemma event_indices: "hash_ev 0xF0000003 = 3" "hash_spec 0x0020 = 5" "hash_spec 0x8000 = 15"
  by code_simp+

lemma kick_delivers:
  assumes "ev_open t"
  shows "ev_status (cdrom_boot_kick_complete t 3 5) = EV_ALREADY" and "ev_open (cdrom_boot_kick_complete t)"
  using assms
  by (auto simp: ev_open_def cdrom_boot_kick_complete_def iop_hle_event_deliver_raw_def event_indices deliver_ev_spec_def clamp_ev_def
      clamp_spec_def ev_set_def Let_def)

lemma service_open: "ev_open t \<Longrightarrow> ev_open (snd (iop_asyncio_service cd_run (q, t)))"
  by (auto simp: iop_asyncio_service_def cd_run_def kick_delivers split: option.split)

lemma services_open: "ev_open t \<Longrightarrow> ev_open (snd ((iop_asyncio_service cd_run ^^ n) (q, t)))"
  by (induction n) (auto simp: service_open, metis prod.collapse service_open)

text \<open>C21: A Setloc command completes: if the request queue is not full and the completion event is open, then after at most 128 turns of the request service the event has been delivered, whatever else is queued.\<close>

theorem setloc_completes:
  assumes "asyncio_inv (cd_queue s)" and "iop_asyncio_busy_count (cd_queue s) < 128" and "ev_open (cd_events s)"
    and "s' = dispatch_command rs 0x02 s"
  shows "\<exists>n \<le> 128. ev_status (snd ((iop_asyncio_service cd_run ^^ n) (cd_queue s', cd_events s')) (hash_ev CDROM_EVENT_CLASS) (hash_spec 0x0020)) = EV_ALREADY"
proof -
  let ?q = "cd_queue s"
  obtain r q' where e: "iop_asyncio_enqueue IOP_ASYNCIO_DEV_CDROM (Some Cdrom_Boot_Kick_Complete) None ?q = (r, q')" by force
  have s': "cd_queue s' = q'" "cd_events s' = cd_events s"
    using e by (auto simp: assms(4) dispatch_command_def run_command_def Let_def enqueue_boot_kick_def ack_stat_only_def raise_int_def results_def upd_cd_def)
  have "\<exists>i < 128. \<not> a_active (channels ?q ! i)"
  proof (rule ccontr)
    assume "\<not> ?thesis"
    then have "active_set ?q = {..<128}" by (auto simp: active_set_def)
    then show False using assms(1,2) by (simp add: asyncio_inv_def iop_asyncio_busy_count_def)
  qed
  then have "scan False (next_alloc ?q) ?q \<noteq> None" using assms(1) scan_None [of False "next_alloc ?q" ?q] by (auto simp: asyncio_inv_def)
  then obtain i where i: "scan False (next_alloc ?q) ?q = Some i" by auto
  then have r: "r = int i" "channels q' ! i = \<lparr>a_active = True, a_device = IOP_ASYNCIO_DEV_CDROM, a_callback = Some Cdrom_Boot_Kick_Complete, a_user_data = None\<rparr>"
    using e assms(1) scan_Some [OF i] by (auto simp: iop_asyncio_enqueue_def asyncio_inv_def)
  have "i \<in> active_set q'" using active_enqueue [OF assms(1) e] r by simp
  from cd_requests.served_within [OF enqueue_inv [OF assms(1) e] this, of "cd_events s"]
  obtain n q2 t2 where n: "n \<le> dist (next_service q') i" "(iop_asyncio_service cd_run ^^ n) (q', cd_events s) = (q2, t2)"
    "asyncio_inv q2" "scan True (next_service q2) q2 = Some i" "channels q2 ! i = channels q' ! i" by blast
  have "i \<in> active_set q2" using n(4) scan_Some [OF n(4)] by (simp add: active_set_def)
  then have b: "busy_count q2 \<noteq> 0" using n(3) card_gt_0_iff [of "active_set q2"] by (auto simp: asyncio_inv_def)
  have "ev_open t2" using services_open [OF assms(3), of n q'] n(2) by simp
  then have "ev_status (snd (iop_asyncio_service cd_run (q2, t2)) 3 5) = EV_ALREADY"
    using b n(4,5) r(2) by (simp add: iop_asyncio_service_def cd_run_def kick_delivers)
  moreover have "n < 128" using n(1) dist_bound [of i "next_service q'"] scan_Some [OF i] by simp
  ultimately show ?thesis using n(2) by (intro exI [of _ "Suc n"]) (simp add: s' event_indices)
qed


theorem setloc_completes_witness:
  "\<exists>n \<le> 128. \<exists>s'. s' = dispatch_command demo_reader 0x02 (demo_cd\<lparr>cd_events := \<lambda>_ _. \<lparr>ev_status = EV_ACTIVE, ev_mode = EV_MODE_NOINTR, ev_fhandler = 0\<rparr>\<rparr>) \<and>
     ev_status (snd ((iop_asyncio_service cd_run ^^ n) (cd_queue s', cd_events s')) (hash_ev CDROM_EVENT_CLASS) (hash_spec 0x0020)) = EV_ALREADY"
proof -
  let ?s = "demo_cd\<lparr>cd_events := \<lambda>_ _. \<lparr>ev_status = EV_ACTIVE, ev_mode = EV_MODE_NOINTR, ev_fhandler = 0\<rparr>\<rparr>"
  have "asyncio_inv (cd_queue ?s)" by (simp add: demo_cd_def init_inv)
  moreover have "iop_asyncio_busy_count (cd_queue ?s) < 128" by (simp add: demo_cd_def iop_asyncio_busy_count_def iop_asyncio_init_def)
  moreover have "ev_open (cd_events ?s)" by (simp add: ev_open_def Let_def)
  ultimately show ?thesis using setloc_completes [of ?s _ demo_reader, OF _ _ _ refl] by blast
qed

text \<open>The reset command and the chip-reset bit also eject the disc.\<close>

lemma reset_ejects: "\<not> have_disc (dispatch_command rs 0x1C s)" "\<not> have_disc (clear_control 0x80 s)"
  by (simp_all add: have_disc_def dispatch_command_def run_command_def clear_control_def Let_def iop_cdrom_legacy_init_def
      raise_int_def result_push_def cdrom_zero_def)

end
