(* ===== verification/Iop_Bios_Props.thy ===== *)
theory Iop_Bios_Props
  imports Iop_Bios
begin

text \<open>
  Properties of the BIOS calls: the string loops end and give what the C library promises, a string
  copy moves exactly the string and its terminator, and kernel memory is handed out in disjoint
  pieces as long as the rounded size does not wrap.
\<close>

section \<open>Bytes as the guest sees them\<close>

definition byte8 :: "'x iop_state \<Rightarrow> u32 \<Rightarrow> u8" where
  "byte8 st a = (case iop_mem_ptr st a 1 of None \<Rightarrow> 0 | Some p \<Rightarrow> mem_byte st p 0)"

lemma read8_declined: "bus_declines bus a \<Longrightarrow> iop_mem_read8 bus a st = (byte8 st a, st)"
  by (simp add: bus_declines_def iop_mem_read8_def read8_handlers_def byte8_def)

section \<open>The unbounded loops\<close>

lemma strlen_from_runs:
  assumes "\<And>i. i \<le> k \<Longrightarrow> bus_declines bus (src + word_of_nat i)"
    and "\<And>i. i < k \<Longrightarrow> byte8 st (src + word_of_nat i) \<noteq> 0" and "byte8 st (src + word_of_nat k) = 0" and "j \<le> k"
  shows "strlen_from bus src (word_of_nat j) st = Some (word_of_nat k, st)"
  using assms(4)
proof (induction rule: inc_induct)
  case base
  then show ?case
    using assms(1) [of k] assms(3) by (subst strlen_from.simps) (simp add: read8_declined)
next
  case (step j)
  have "strlen_from bus src (word_of_nat j) st = strlen_from bus src (word_of_nat j + 1) st"
    using assms(1) [of j] assms(2) [of j] step.hyps by (subst strlen_from.simps) (simp add: read8_declined)
  then show ?case using step.IH by (simp add: add.commute)
qed

lemma strlen_least:
  assumes "\<And>i. i \<le> n \<Longrightarrow> bus_declines bus (src + word_of_nat i)" and "byte8 st (src + word_of_nat n) = 0"
  obtains k where "k \<le> n" "byte8 st (src + word_of_nat k) = 0" "\<And>i. i < k \<Longrightarrow> byte8 st (src + word_of_nat i) \<noteq> 0"
    "iop_strlen bus src st = Some (word_of_nat k, st)"
proof -
  define k where "k = (LEAST i. byte8 st (src + word_of_nat i) = 0)"
  have z: "byte8 st (src + word_of_nat k) = 0" unfolding k_def using assms(2) by (rule LeastI)
  have le: "k \<le> n" unfolding k_def using assms(2) by (rule Least_le)
  have nz: "byte8 st (src + word_of_nat i) \<noteq> 0" if "i < k" for i
    using not_less_Least [OF that [unfolded k_def]] .
  have "iop_strlen bus src st = Some (word_of_nat k, st)"
    using strlen_from_runs [of k bus src st 0] assms(1) le z nz by (simp add: iop_strlen_def)
  with that z le nz show thesis by blast
qed

text \<open>C32: The string-length loop, which has no bound of its own, returns whenever a zero byte lies
  ahead that it reaches without touching a device: an unmapped address is enough, since it reads as
  zero. It then returns the least such distance and changes nothing.\<close>

theorem strlen_returns:
  assumes "\<And>i. i \<le> unat (z - src) \<Longrightarrow> bus_declines bus (src + word_of_nat i)" and "byte8 st z = 0"
  shows "\<exists>n \<le> z - src. iop_strlen bus src st = Some (n, st) \<and> byte8 st (src + n) = 0 \<and>
    (\<forall>m < n. byte8 st (src + m) \<noteq> 0)"
proof -
  have "byte8 st (src + word_of_nat (unat (z - src))) = 0" using assms(2) by simp
  with assms(1) obtain k where k: "k \<le> unat (z - src)" "byte8 st (src + word_of_nat k) = 0"
    "\<And>i. i < k \<Longrightarrow> byte8 st (src + word_of_nat i) \<noteq> 0" "iop_strlen bus src st = Some (word_of_nat k, st)"
    using strlen_least [of "unat (z - src)" bus src st] by metis
  have u: "unat (word_of_nat k :: u32) = k"
    using order_le_less_trans [OF k(1) unat_u32] by (rule unat_word_of_nat32)
  have "byte8 st (src + m) \<noteq> 0" if "m < word_of_nat k" for m
    using k(3) [of "unat m"] that u by (simp add: word_less_nat_alt)
  moreover have "word_of_nat k \<le> z - src" using k(1) u by (simp add: word_le_nat_alt)
  ultimately show ?thesis using k(2,4) by blast
qed

theorem strlen_returns_witness:
  "\<exists>n. iop_strlen no_devices 0x80200000 ((blank_iop ())\<lparr>ram := \<lambda>_. 0x41\<rparr>) = Some (n, (blank_iop ())\<lparr>ram := \<lambda>_. 0x41\<rparr>)"
  using strlen_returns [of "0x90000000" "0x80200000" no_devices "(blank_iop ())\<lparr>ram := \<lambda>_. 0x41\<rparr>"] no_devices_decline
  by (auto simp: byte8_def iop_mem_ptr_def blank_iop_def)

section \<open>Copying a string\<close>

text \<open>The \<open>n\<close> guest addresses from \<open>a\<close> on are the RAM bytes from \<open>p\<close> on.\<close>

definition ram_window :: "'x iop_bus \<Rightarrow> 'x iop_state \<Rightarrow> u32 \<Rightarrow> u32 \<Rightarrow> nat \<Rightarrow> bool" where
  "ram_window bus st a p n \<longleftrightarrow> unat p + n \<le> unat (ram_size st) \<and>
     (\<forall>i < n. bus_declines bus (a + word_of_nat i) \<and> a + word_of_nat i < 0xBFC00000 \<and>
        (a + word_of_nat i) AND 0x1FFFFFFF = p + word_of_nat i)"

lemma window_unat:
  assumes "unat (p :: u32) + n \<le> unat (ram_size st)" and "i < n"
  shows "unat (p + word_of_nat i) = unat p + i"
proof -
  have "unat p + i < unat (ram_size st)" using assms by linarith
  then have "unat p + i < 4294967296" using unat_u32 less_trans by blast
  then show ?thesis by (simp add: unat_word_ariths)
qed

lemma window_ptr:
  assumes "ram_window bus st a p n" and "i < n"
  shows "iop_mem_ptr st (a + word_of_nat i) 1 = Some (Ram (p + word_of_nat i))"
proof (rule ram_ptr)
  have u: "unat (p + word_of_nat i) = unat p + i"
    using assms window_unat [of p n st i] by (simp add: ram_window_def)
  moreover have "unat p + i + 1 \<le> unat (ram_size st)" using assms by (simp add: ram_window_def)
  moreover from \<open>unat p + i + 1 \<le> unat (ram_size st)\<close> have "unat p + i + 1 < 4294967296"
    using unat_u32 order_le_less_trans by blast
  ultimately have "unat (p + word_of_nat i + 1) = unat p + i + 1"
    by (simp add: unat_word_ariths(1) [of "p + word_of_nat i"])
  with \<open>unat p + i + 1 \<le> unat (ram_size st)\<close> show "p + word_of_nat i + 1 \<le> ram_size st"
    by (simp add: word_le_nat_alt)
qed (use assms in \<open>simp_all add: ram_window_def\<close>)

lemma window_read:
  assumes "ram_window bus st a p n" and "i < n"
  shows "byte8 st (a + word_of_nat i) = ram st (p + word_of_nat i)"
    and "iop_mem_read8 bus (a + word_of_nat i) st = (ram st (p + word_of_nat i), st)"
  using assms window_ptr [OF assms] by (simp_all add: byte8_def read8_declined ram_window_def)

lemma window_write:
  assumes "ram_window bus st a p n" and "i < n" and "\<not> cache_isolated st"
  shows "iop_mem_write8 bus (a + word_of_nat i) v st = st\<lparr>ram := (ram st)(p + word_of_nat i := v)\<rparr>"
  using assms window_ptr [OF assms(1,2)]
  by (simp add: iop_mem_write8_def write8_handlers_def ram_window_def bus_declines_def)

lemma offset_of_unat: "unat (a - d) = i \<Longrightarrow> a = d + (word_of_nat i :: u32)"
  by (metis add_diff_cancel_left' diff_add_cancel add.commute unat_eqI unat_u32 unat_word_of_nat32)

lemma copy_bytes_step:
  assumes "unat (word_of_nat i :: u32) = i"
  shows "(copy_bytes i src d m)(d + word_of_nat i := src (word_of_nat i)) = copy_bytes (Suc i) src d m"
proof
  fix a :: u32
  consider "a = d + word_of_nat i" | "a \<noteq> d + word_of_nat i" "unat (a - d) \<noteq> i"
    using offset_of_unat by blast
  then show "((copy_bytes i src d m)(d + word_of_nat i := src (word_of_nat i))) a = copy_bytes (Suc i) src d m a"
    by cases (simp_all add: copy_bytes_def assms less_Suc_eq)
qed

lemma copy_bytes_elsewhere:
  assumes "unat sp + n \<le> unat dp \<or> unat dp + n \<le> unat sp" and "unat sp + n \<le> unat (ram_size st)"
    and "unat dp + n \<le> unat (ram_size st)" and "i < n"
  shows "copy_bytes i src dp m (sp + word_of_nat i) = m (sp + word_of_nat i)"
proof -
  have False if "unat (sp + word_of_nat i - dp) = j" "j < i" for j
  proof -
    have "sp + word_of_nat i = dp + word_of_nat j" using that(1) by (rule offset_of_unat)
    then have "unat sp + i = unat dp + j"
      using window_unat [OF assms(2), of i] window_unat [OF assms(3), of j] assms(4) that(2) by simp
    with assms(1,4) that(2) show False by linarith
  qed
  then show ?thesis by (auto simp: copy_bytes_def)
qed

lemma copy_from_disjoint:
  assumes "ram_window bus st src sp n" and "ram_window bus st dst dp n" and "\<not> cache_isolated st"
    and "unat sp + n \<le> unat dp \<or> unat dp + n \<le> unat sp" and "i \<le> n"
  shows "copy_from bus dst src (word_of_nat i) (n - i) (st\<lparr>ram := copy_bytes i (\<lambda>k. ram st (sp + k)) dp (ram st)\<rparr>)
    = st\<lparr>ram := copy_bytes n (\<lambda>k. ram st (sp + k)) dp (ram st)\<rparr>"
  using assms(5)
proof (induction rule: inc_induct)
  case base
  then show ?case by simp
next
  case (step i)
  let ?c = "\<lambda>i. copy_bytes i (\<lambda>k. ram st (sp + k)) dp (ram st)"
  let ?s = "st\<lparr>ram := ?c i\<rparr>"
  have w: "ram_window bus ?s src sp n" "ram_window bus ?s dst dp n" "\<not> cache_isolated ?s"
    using assms(1-3) by (simp_all add: ram_window_def cache_isolated_def)
  have "?c i (sp + word_of_nat i) = ram st (sp + word_of_nat i)"
    using copy_bytes_elsewhere [OF assms(4), of st i] assms(1,2) step.hyps by (simp add: ram_window_def)
  moreover have "unat (word_of_nat i :: u32) = i"
  proof (rule unat_word_of_nat32)
    have "i \<le> unat (ram_size st)" using assms(1) step.hyps by (simp add: ram_window_def)
    then show "i < 4294967296" using unat_u32 order_le_less_trans by blast
  qed
  ultimately have "iop_mem_write8 bus (dst + word_of_nat i) (?c i (sp + word_of_nat i)) ?s = st\<lparr>ram := ?c (Suc i)\<rparr>"
    using window_write [OF w(2) step.hyps(2) w(3)] copy_bytes_step [of i "\<lambda>k. ram st (sp + k)" dp "ram st"] by simp
  then have "copy_from bus dst src (word_of_nat i) (Suc (n - Suc i)) ?s
      = copy_from bus dst src (word_of_nat (Suc i)) (n - Suc i) (st\<lparr>ram := ?c (Suc i)\<rparr>)"
    using window_read(2) [OF w(1) step.hyps(2)] by (simp add: add.commute)
  then show ?case using step by (simp add: Suc_diff_Suc)
qed

text \<open>The string-copy call: with a string of length \<open>k\<close> in RAM at \<open>$a1\<close> and room for it at
  \<open>$a0\<close> apart from it, the call returns to its caller with \<open>$v0 = $a0\<close>, and RAM has changed exactly in
  the \<open>k + 1\<close> destination bytes, which hold the string and its terminator.\<close>

theorem strcpy_call:
  assumes "gpr (bst s) 9 = 0x19" and "ram_window bus (bst s) (gpr (bst s) 5) sp (k + 1)"
    and "ram_window bus (bst s) (gpr (bst s) 4) dp (k + 1)" and "\<not> cache_isolated (bst s)"
    and "unat sp + (k + 1) \<le> unat dp \<or> unat dp + (k + 1) \<le> unat sp"
    and "\<And>i. i < k \<Longrightarrow> ram (bst s) (sp + word_of_nat i) \<noteq> 0" and "ram (bst s) (sp + word_of_nat k) = 0"
  shows "\<exists>s'. iop_hle_bios_try_handle bus txt 0xA0 s = Some (True, s') \<and>
    ram (bst s') = copy_bytes (k + 1) (\<lambda>i. ram (bst s) (sp + i)) dp (ram (bst s)) \<and>
    gpr (bst s') = (gpr (bst s))(2 := gpr (bst s) 4) \<and> pc (bst s') = gpr (bst s) 31"
proof -
  let ?st = "bst s" and ?a0 = "gpr (bst s) 4" and ?a1 = "gpr (bst s) 5"
  have b: "byte8 ?st (?a1 + word_of_nat i) = ram ?st (sp + word_of_nat i)" if "i \<le> k" for i
    using window_read(1) [OF assms(2), of i] that by simp
  have len: "iop_strlen bus ?a1 ?st = Some (word_of_nat k, ?st)"
    unfolding iop_strlen_def
    using strlen_from_runs [of k bus ?a1 ?st 0] assms(2,6,7) b by (simp add: ram_window_def)
  have "unat sp + k < unat (ram_size ?st)" using assms(2) by (simp add: ram_window_def)
  then have "k + 1 < 4294967296"
    using unat_u32 [of "ram_size ?st"] by (simp del: unat_u32)
  then have n: "unat (word_of_nat k + 1 :: u32) = k + 1"
    using unat_word_of_nat32 [of "k + 1"] by (simp add: add.commute)
  have "iop_memcpy_bytes bus ?a0 ?a1 (word_of_nat k + 1) ?st
      = ?st\<lparr>ram := copy_bytes (k + 1) (\<lambda>i. ram ?st (sp + i)) dp (ram ?st)\<rparr>"
    using copy_from_disjoint [OF assms(2,3,4,5), of 0] unfolding iop_memcpy_bytes_def n
    by (simp add: copy_bytes_def)
  with len have m: "a0_memory bus 0x19 ?st = Some (Some (set_v0 ?a0 (?st\<lparr>ram :=
      copy_bytes (k + 1) (\<lambda>i. ram ?st (sp + i)) dp (ram ?st)\<rparr>)))"
    by (simp add: a0_memory_def)
  show ?thesis
    using assms(1) m
    by (simp add: iop_hle_bios_try_handle_def a0_call_def try_handle_a0_real_function_def upd_hb_def
        return_to_def set_v0_def upd_bst_def Let_def)
qed

theorem strcpy_call_witness:
  "\<exists>s'. iop_hle_bios_try_handle no_devices (\<lambda>_ _. []) 0xA0
     \<lparr>hb = iop_hle_bios_init, b_events = iop_hle_events_init, b_excb = fst (iop_excb_init no_devices (blank_iop ())),
      bst = (blank_iop ())\<lparr>ram := (\<lambda>_. 0)(0x1000 := 0x41), gpr := (\<lambda>_. 0)(9 := 0x19, 4 := 0x2000, 5 := 0x80001000, 31 := 0x400)\<rparr>\<rparr>
     = Some (True, s') \<and> ram (bst s') 0x2000 = 0x41 \<and> ram (bst s') 0x2001 = 0 \<and> pc (bst s') = 0x400"
proof -
  define s where "s = \<lparr>hb = iop_hle_bios_init, b_events = iop_hle_events_init, b_excb = fst (iop_excb_init no_devices (blank_iop ())),
      bst = (blank_iop ())\<lparr>ram := (\<lambda>_. 0)(0x1000 := 0x41), gpr := (\<lambda>_. 0)(9 := 0x19, 4 := 0x2000, 5 := 0x80001000, 31 := 0x400)\<rparr>\<rparr>"
  have w: "ram_window no_devices (bst s) 0x80001000 0x1000 2" "ram_window no_devices (bst s) 0x2000 0x2000 2"
    by (auto simp: ram_window_def s_def blank_iop_def no_devices_decline less_2_cases_iff)
  have g: "gpr (bst s) 9 = 0x19" "gpr (bst s) 4 = 0x2000" "gpr (bst s) 5 = 0x80001000" "gpr (bst s) 31 = 0x400"
    "ram (bst s) = (\<lambda>_. 0)(0x1000 := 0x41)" "\<not> cache_isolated (bst s)"
    by (simp_all add: s_def blank_iop_def cache_isolated_def)
  from strcpy_call [of s no_devices "0x1000" 1 "0x2000" "\<lambda>_ _. []"] g w
  obtain s' where "iop_hle_bios_try_handle no_devices (\<lambda>_ _. []) 0xA0 s = Some (True, s')"
    "ram (bst s') = copy_bytes 2 (\<lambda>i. ram (bst s) (0x1000 + i)) 0x2000 (ram (bst s))" "pc (bst s') = 0x400"
    by (auto simp flip: numeral_2_eq_2)
  then show ?thesis unfolding s_def [symmetric] using g(5) by (intro exI [of _ s']) (simp add: copy_bytes_def)
qed

section \<open>Kernel memory\<close>

lemma round_up4:
  assumes "sz < (0xFFFFFFFD :: u32)"
  shows "unat ((sz + 3) AND NOT 3) = (unat sz + 3) div 4 * 4"
proof -
  have s: "unat (sz + 3) = unat sz + 3"
    using assms by (simp add: word_less_nat_alt unat_word_ariths)
  have "w AND NOT (mask 2) = push_bit 2 (drop_bit 2 w)" for w :: u32
  proof (rule bit_word_eqI)
    fix n :: nat
    assume "n < LENGTH(32)"
    then show "bit (w AND NOT (mask 2)) n = bit (push_bit 2 (drop_bit 2 w)) n"
      by (cases "n < 2") (auto simp: bit_simps not_less le_iff_add)
  qed
  from this [of "sz + 3"] have "(sz + 3) AND NOT 3 = push_bit 2 (drop_bit 2 (sz + 3))"
    by (simp add: mask_eq_exp_minus_1)
  moreover have "unat (drop_bit 2 (sz + 3)) = (unat sz + 3) div 4" using s by (simp add: unat_drop_bit)
  moreover have "(unat sz + 3) div 4 * 4 < 4294967296"
    using assms by (simp add: word_less_nat_alt)
  ultimately show ?thesis by (simp add: unat_push_bit)
qed

text \<open>The regions a sequence of requests obtains, as start and requested size.\<close>

primrec kmem_run :: "u32 list \<Rightarrow> hle_bios \<Rightarrow> (u32 \<times> u32) list" where
  "kmem_run [] h = []"
| "kmem_run (sz # szs) h = (let (p, h1) = kmem_alloc sz h in if p = 0 then kmem_run szs h1 else (p, sz) # kmem_run szs h1)"

lemma kmem_alloc_step:
  assumes "sz < 0xFFFFFFFD" and "0xE000 \<le> unat (kmem_bump_next h)" and "kmem_alloc sz h = (p, h1)"
  shows "p = 0 \<and> h1 = h \<or>
    p = kmem_bump_next h \<and> unat p + unat sz \<le> unat (kmem_bump_next h1) \<and> unat (kmem_bump_next h1) \<le> 0x10000 \<and>
    unat (kmem_bump_next h1) mod 4 = unat p mod 4"
proof -
  let ?al = "(sz + 3) AND NOT 3"
  have al: "unat ?al = (unat sz + 3) div 4 * 4" by (rule round_up4 [OF assms(1)])
  show ?thesis
  proof (cases "unat (kmem_bump_next h) + unat ?al > 0x10000")
    case True
    then show ?thesis using assms(3) by (simp add: kmem_alloc_def Let_def)
  next
    case False
    then have "p = kmem_bump_next h" and n: "unat (kmem_bump_next h1) = unat (kmem_bump_next h) + unat ?al"
      using assms(3) by (auto simp: kmem_alloc_def Let_def unat_word_ariths)
    moreover have "unat sz \<le> unat ?al" unfolding al by linarith
    ultimately show ?thesis using False unfolding al by simp
  qed
qed

lemma kmem_run_regions:
  assumes "\<forall>sz \<in> set szs. sz < 0xFFFFFFFD" and "0xE000 \<le> unat (kmem_bump_next h)" and "unat (kmem_bump_next h) mod 4 = 0"
  shows "(\<forall>(p, sz) \<in> set (kmem_run szs h). unat (kmem_bump_next h) \<le> unat p \<and> unat p + unat sz \<le> 0x10000 \<and> unat p mod 4 = 0) \<and>
    sorted_wrt (\<lambda>(p, m) (q, n). unat p + unat m \<le> unat q) (kmem_run szs h)"
  using assms
proof (induction szs arbitrary: h)
  case Nil
  then show ?case by simp
next
  case (Cons sz szs)
  obtain p h1 where a: "kmem_alloc sz h = (p, h1)" by force
  from Cons.prems have "sz < 0xFFFFFFFD" by simp
  from kmem_alloc_step [OF this Cons.prems(2) a]
  consider "p = 0" "h1 = h" | "p \<noteq> 0" "p = kmem_bump_next h" "unat p + unat sz \<le> unat (kmem_bump_next h1)"
    "unat (kmem_bump_next h1) \<le> 0x10000" "unat (kmem_bump_next h1) mod 4 = unat p mod 4"
    using Cons.prems(2) by fastforce
  then show ?case
  proof cases
    case 1
    then show ?thesis using Cons a by simp
  next
    case 2
    then have "0xE000 \<le> unat (kmem_bump_next h1)" "unat (kmem_bump_next h1) mod 4 = 0" using Cons.prems(2,3) by simp_all
    with Cons.IH [of h1] Cons.prems(1) show ?thesis using a 2 Cons.prems(3)
      by (fastforce simp: case_prod_unfold)
  qed
qed

text \<open>Kernel memory, whatever the sequence of requests: as long as no rounded size wraps, the
  regions obtained are word-aligned, lie in the kernel memory region and follow each other without
  overlap. (A request of at least \<open>0xFFFFFFFD\<close> bytes is rounded to 0 and "succeeds": the last clause.)\<close>

theorem kmem_disjoint:
  assumes "\<forall>sz \<in> set szs. sz < 0xFFFFFFFD"
  shows "(\<forall>(p, sz) \<in> set (kmem_run szs iop_hle_bios_init).
      0xE000 \<le> unat p \<and> unat p + unat sz \<le> 0x10000 \<and> unat p mod 4 = 0) \<and>
    sorted_wrt (\<lambda>(p, m) (q, n). unat p + unat m \<le> unat q) (kmem_run szs iop_hle_bios_init) \<and>
    kmem_alloc 0xFFFFFFFF iop_hle_bios_init = (0xE000, iop_hle_bios_init)"
  using kmem_run_regions [OF assms, of iop_hle_bios_init]
  by (simp add: iop_hle_bios_init_def kmem_alloc_def)

theorem kmem_disjoint_witness:
  "sorted_wrt (\<lambda>(p, m) (q, n). unat p + unat m \<le> unat q) (kmem_run [5, 0x3000, 8] iop_hle_bios_init) \<and>
   kmem_run [5, 0x3000, 8] iop_hle_bios_init = [(0xE000, 5), (0xE008, 8)]"
  using kmem_disjoint [of "[5, 0x3000, 8]"] by (simp add: kmem_alloc_def iop_hle_bios_init_def)

end
