(* ===== verification/Iop_Elf_Props.thy ===== *)
theory Iop_Elf_Props
  imports Iop_Elf Iop_Bios_Props
begin

text \<open>
  What the module loader does with a module: the segment bytes that end up in memory, the arithmetic
  of the relocations, the exactness of the bounds check on the image, and the shape of the result.
\<close>

section \<open>Relocations rebase addresses\<close>

lemma take_bit16: "(w :: u32) AND 0xFFFF = take_bit 16 w"
  using and_mask_eq [of w 16] by (simp add: mask_eq_exp_minus_1)

lemma high_field: "((w :: u32) AND 0xFFFF0000) OR (x AND 0xFFFF) = push_bit 16 (drop_bit 16 w) OR take_bit 16 x"
proof -
  have "w AND 0xFFFF0000 = push_bit 16 (drop_bit 16 w)"
  proof (rule bit_word_eqI)
    have m: "(0xFFFF0000 :: u32) = push_bit 16 (mask 16)" by (simp add: mask_eq_exp_minus_1 push_bit_eq_mult)
    fix k assume "k < LENGTH(32)"
    then show "bit (w AND 0xFFFF0000) k = bit (push_bit 16 (drop_bit 16 w)) k"
      unfolding m by (auto simp: bit_simps)
  qed
  then show ?thesis by (simp add: take_bit16)
qed

lemma field_parts:
  "(push_bit 16 (drop_bit 16 w) OR take_bit 16 x) AND 0xFFFF = take_bit 16 (x :: u32)"
  "(push_bit 16 (drop_bit 16 w) OR take_bit 16 x) AND 0xFFFF0000 = w AND 0xFFFF0000"
  "(ucast (push_bit 16 (drop_bit 16 w) OR take_bit 16 x) :: u16) = ucast x"
proof -
  have m: "(0xFFFF0000 :: u32) = push_bit 16 (mask 16)" by (simp add: mask_eq_exp_minus_1 push_bit_eq_mult)
  show "(push_bit 16 (drop_bit 16 w) OR take_bit 16 x) AND 0xFFFF = take_bit 16 x"
    unfolding take_bit16 by (rule bit_word_eqI) (auto simp: bit_simps)
  show "(push_bit 16 (drop_bit 16 w) OR take_bit 16 x) AND 0xFFFF0000 = w AND 0xFFFF0000"
    unfolding m by (rule bit_word_eqI) (auto simp: bit_simps)
  show "(ucast (push_bit 16 (drop_bit 16 w) OR take_bit 16 x) :: u16) = ucast x"
    by (rule bit_word_eqI) (auto simp: bit_simps)
qed

text \<open>The carry the high half gets is what the sign extension of the low half takes away.\<close>

lemma sign_extend16: "scast (ucast v :: u16) = take_bit 16 (v + 0x8000) - (0x8000 :: u32)"
proof -
  have "sint (ucast v :: u16) = signed_take_bit 15 (uint v)"
    by (simp add: sint_uint unsigned_ucast_eq signed_take_bit_take_bit)
  also have "\<dots> = take_bit 16 (uint v + 0x8000) - 0x8000"
    using signed_take_bit_eq_take_bit_shift [of 15 "uint v"] by simp
  finally have "scast (ucast v :: u16) = (word_of_int (take_bit 16 (uint v + 0x8000) - 0x8000) :: u32)"
    using of_int_sint [of "ucast v :: u16"] by metis
  also have "\<dots> = take_bit 16 (v + 0x8000) - 0x8000"
    by (simp add: take_bit_of_int [symmetric])
  finally show ?thesis .
qed

lemma hi_lo_split: "push_bit 16 (take_bit 16 (drop_bit 16 (v + 0x8000))) + scast (ucast v :: u16) = (v :: u32)"
proof -
  have "take_bit 16 (drop_bit 16 (v + 0x8000)) = drop_bit 16 (v + 0x8000)"
    by (rule bit_word_eqI) (auto simp: bit_simps dest: bit_imp_le_length)
  then show ?thesis
    using bits_ident [of 16 "v + 0x8000"] by (simp add: sign_extend16 algebra_simps)
qed

lemma take_bit26: "(w :: u32) AND 0x03FFFFFF = take_bit 26 w"
  using and_mask_eq [of w 26] by (simp add: mask_eq_exp_minus_1)

lemma jump_fields:
  "((w AND 0xFC000000) OR (x AND 0x03FFFFFF)) AND 0xFC000000 = w AND (0xFC000000 :: u32)"
  "((w AND 0xFC000000) OR (x AND 0x03FFFFFF)) AND 0x03FFFFFF = x AND 0x03FFFFFF"
proof -
  have m: "(0xFC000000 :: u32) = push_bit 26 (mask 6)" by (simp add: mask_eq_exp_minus_1 push_bit_eq_mult)
  show "((w AND 0xFC000000) OR (x AND 0x03FFFFFF)) AND 0xFC000000 = w AND 0xFC000000"
    "((w AND 0xFC000000) OR (x AND 0x03FFFFFF)) AND 0x03FFFFFF = x AND 0x03FFFFFF"
    unfolding m take_bit26 by (rule bit_word_eqI; auto simp: bit_simps)+
qed

text \<open>C18: The relocations rebase what an instruction refers to and leave its other bits alone: the constant
  built by a \<open>lui\<close>/\<open>addiu\<close> pair grows by the load address for every value of the two halves, the
  carry between them included, and the target field of a jump is moved by the load address within
  its 28-bit region.\<close>

theorem relocations_rebase:
  assumes "reloc_hilo load_addr h l = (h', l')" and "load_addr AND 3 = 0"
  shows "hilo_value h' l' = hilo_value h l + load_addr \<and> h' AND 0xFFFF0000 = h AND 0xFFFF0000 \<and>
    l' AND 0xFFFF0000 = l AND 0xFFFF0000 \<and> reloc26 load_addr w AND 0xFC000000 = w AND 0xFC000000 \<and>
    push_bit 2 (reloc26 load_addr w AND 0x03FFFFFF) = (push_bit 2 (w AND 0x03FFFFFF) + load_addr) AND 0x0FFFFFFF"
proof -
  define v where "v = hilo_value h l + load_addr"
  have h': "h' = push_bit 16 (drop_bit 16 h) OR take_bit 16 (drop_bit 16 (v + 0x8000))"
    and l': "l' = push_bit 16 (drop_bit 16 l) OR take_bit 16 v"
    using assms(1) by (auto simp: reloc_hilo_def v_def Let_def high_field)
  have "hilo_value h' l' = v"
    unfolding h' l' hilo_value_def field_parts by (rule hi_lo_split)
  moreover have "h' AND 0xFFFF0000 = h AND 0xFFFF0000" "l' AND 0xFFFF0000 = l AND 0xFFFF0000"
    unfolding h' l' by (rule field_parts)+
  moreover have "push_bit 2 (drop_bit 2 a AND 0x03FFFFFF) = a AND 0x0FFFFFFF" if "a AND 3 = 0" for a :: u32
  proof (rule bit_word_eqI)
    have m: "(0x0FFFFFFF :: u32) = mask 28" "(3 :: u32) = mask 2" by (simp_all add: mask_eq_exp_minus_1)
    fix k assume "k < LENGTH(32)"
    have "\<not> bit a k" if "k < 2" using arg_cong [OF \<open>a AND 3 = 0\<close>, of "\<lambda>w. bit w k"] that by (simp add: m bit_simps)
    moreover have "Suc (Suc (k - 2)) = k" if "\<not> k < 2" using that by linarith
    ultimately show "bit (push_bit 2 (drop_bit 2 a AND 0x03FFFFFF)) k = bit (a AND 0x0FFFFFFF) k"
      unfolding m take_bit26 by (cases "k < 2") (auto simp: bit_simps)
  qed
  moreover have "(push_bit 2 (w AND 0x03FFFFFF) + load_addr) AND 3 = 0"
  proof -
    have m: "(3 :: u32) = mask 2" by (simp add: mask_eq_exp_minus_1)
    let ?x = "push_bit 2 (w AND 0x03FFFFFF)"
    have "unat (take_bit 2 load_addr) = 0" using assms(2) unfolding m and_mask_eq by simp
    moreover have "unat (take_bit 2 ?x) = 0" by (simp add: take_bit_push_bit)
    ultimately have "(unat ?x + unat load_addr) mod 4 = 0" unfolding unat_take_bit by (simp add: mod_add_eq [symmetric])
    moreover have "(unat ?x + unat load_addr) mod 4294967296 mod 4 = (unat ?x + unat load_addr) mod 4" by (rule mod_mod_cancel) simp
    ultimately have "unat (take_bit 2 (?x + load_addr)) = 0" by (simp add: unat_take_bit unat_word_ariths)
    then show ?thesis unfolding m and_mask_eq by (simp only: unat_eq_0)
  qed
  ultimately show ?thesis unfolding v_def reloc26_def Let_def jump_fields by blast
qed

theorem relocations_rebase_witness:
  "hilo_value (fst (reloc_hilo 0x10C000 0x3C040001 0x24849000)) (snd (reloc_hilo 0x10C000 0x3C040001 0x24849000))
     = hilo_value 0x3C040001 0x24849000 + 0x10C000"
  using relocations_rebase [OF prod.collapse [symmetric], of "0x10C000" "0x3C040001" "0x24849000"] by simp

section \<open>Segments\<close>

lemma img_byte_inside:
  assumes "bios st = Some b" and "unat rom + unat off + n \<le> unat (bsize b)" and "i < n"
  shows "img_byte st rom (off + word_of_nat i) = Some (bdata b (rom + off + word_of_nat i))"
proof -
  have "unat off + i < 4294967296" using assms(2,3) unat_u32 [of "bsize b"] by linarith
  then have "unat (off + word_of_nat i) = unat off + i" by (simp add: unat_word_ariths)
  then show ?thesis using assms by (simp add: img_byte_def add.assoc)
qed

lemma copy_image_done:
  assumes "ram_window bus st dst p m" and "\<not> cache_isolated st" and "bios st = Some b"
    and "unat rom + unat src + n \<le> unat (bsize b)" and "n \<le> m" and "i \<le> n"
  shows "copy_image bus rom src dst i (n - i) (st\<lparr>ram := copy_bytes i (\<lambda>k. bdata b (rom + src + k)) p (ram st)\<rparr>)
    = Some (st\<lparr>ram := copy_bytes n (\<lambda>k. bdata b (rom + src + k)) p (ram st)\<rparr>)"
  using \<open>i \<le> n\<close>
proof (induction i rule: inc_induct)
  case base
  then show ?case by simp
next
  case (step i)
  let ?s = "st\<lparr>ram := copy_bytes i (\<lambda>k. bdata b (rom + src + k)) p (ram st)\<rparr>"
  have im: "i < m" using step.hyps assms(5) by simp
  have w: "ram_window bus ?s dst p m" "\<not> cache_isolated ?s"
    using assms(1,2) by (simp_all add: ram_window_def cache_isolated_def)
  have u: "unat (word_of_nat i :: u32) = i"
    using assms(1) im order_le_less_trans [OF _ unat_u32, of i "ram_size st"] by (intro unat_word_of_nat32) (simp add: ram_window_def)
  have "img_byte ?s rom (src + word_of_nat i) = Some (bdata b (rom + src + word_of_nat i))"
    by (rule img_byte_inside [OF _ assms(4)]) (use assms(3) step.hyps in simp_all)
  moreover have "iop_mem_write8 bus (dst + word_of_nat i) (bdata b (rom + src + word_of_nat i)) ?s
      = st\<lparr>ram := copy_bytes (Suc i) (\<lambda>k. bdata b (rom + src + k)) p (ram st)\<rparr>"
    using window_write [OF w(1) im w(2)] copy_bytes_step [OF u, of "\<lambda>k. bdata b (rom + src + k)" p "ram st"] by simp
  ultimately have "copy_image bus rom src dst i (Suc (n - Suc i)) ?s
      = copy_image bus rom src dst (Suc i) (n - Suc i) (st\<lparr>ram := copy_bytes (Suc i) (\<lambda>k. bdata b (rom + src + k)) p (ram st)\<rparr>)"
    by simp
  then show ?case using step by (simp add: Suc_diff_Suc)
qed

lemma zero_fill_done:
  assumes "ram_window bus st dst p m" and "\<not> cache_isolated st" and "f \<le> i" and "i \<le> m"
    and "\<And>k. f \<le> unat k \<Longrightarrow> unat k < m \<Longrightarrow> src k = 0"
  shows "zero_fill bus dst i (m - i) (st\<lparr>ram := copy_bytes i src p (ram st)\<rparr>) = st\<lparr>ram := copy_bytes m src p (ram st)\<rparr>"
  using \<open>i \<le> m\<close> \<open>f \<le> i\<close>
proof (induction i rule: inc_induct)
  case base
  then show ?case by simp
next
  case (step i)
  let ?s = "st\<lparr>ram := copy_bytes i src p (ram st)\<rparr>"
  have w: "ram_window bus ?s dst p m" "\<not> cache_isolated ?s"
    using assms(1,2) by (simp_all add: ram_window_def cache_isolated_def)
  have u: "unat (word_of_nat i :: u32) = i"
    using assms(1) step.hyps order_le_less_trans [OF _ unat_u32, of i "ram_size st"] by (intro unat_word_of_nat32) (simp add: ram_window_def)
  have "iop_mem_write8 bus (dst + word_of_nat i) 0 ?s = st\<lparr>ram := copy_bytes (Suc i) src p (ram st)\<rparr>"
    using window_write [OF w(1) step.hyps(2) w(2), of 0] copy_bytes_step [OF u, of src p "ram st"]
      assms(5) [of "word_of_nat i"] u step.hyps step.prems by simp
  then have "zero_fill bus dst i (Suc (m - Suc i)) ?s = zero_fill bus dst (Suc i) (m - Suc i) (st\<lparr>ram := copy_bytes (Suc i) src p (ram st)\<rparr>)"
    by simp
  then show ?case using step by (simp add: Suc_diff_Suc)
qed

lemma copy_bytes_cong: "(\<And>k. unat k < n \<Longrightarrow> f k = g k) \<Longrightarrow> copy_bytes n f d m = copy_bytes n g d m"
  by (auto simp: copy_bytes_def)

text \<open>C35: Loading a segment puts the file bytes of the image at its address, zeroes the rest of its memory
  size, and changes nothing else of the machine. The bytes written are \<open>max filesz memsz\<close>: where the
  file size exceeds the memory size, the bytes behind the memory size are written as well, although
  the bounds check and the end of the module are computed from the memory size alone.\<close>

theorem elf_segment_loaded:
  assumes "ram_window bus st (load_addr + p_vaddr sg) p n" and "n = max (unat (p_filesz sg)) (unat (p_memsz sg))"
    and "\<not> cache_isolated st" and "bios st = Some b"
    and "unat rom + unat (p_offset sg) + unat (p_filesz sg) \<le> unat (bsize b)"
  shows "load_bytes bus rom load_addr sg st = Some (st\<lparr>ram :=
    copy_bytes n (\<lambda>k. if k < p_filesz sg then bdata b (rom + p_offset sg + k) else 0) p (ram st)\<rparr>)"
proof -
  let ?f = "unat (p_filesz sg)"
  let ?src = "\<lambda>k. if k < p_filesz sg then bdata b (rom + p_offset sg + k) else 0"
  have "copy_bytes 0 g d m = m" for g d and m :: "u32 \<Rightarrow> u8" by (auto simp: copy_bytes_def)
  with copy_image_done [OF assms(1,3,4,5), of 0] assms(2)
  have "copy_image bus rom (p_offset sg) (load_addr + p_vaddr sg) 0 ?f st
      = Some (st\<lparr>ram := copy_bytes ?f (\<lambda>k. bdata b (rom + p_offset sg + k)) p (ram st)\<rparr>)" by simp
  also have "copy_bytes ?f (\<lambda>k. bdata b (rom + p_offset sg + k)) p (ram st) = copy_bytes ?f ?src p (ram st)"
    by (rule copy_bytes_cong) (simp add: word_less_nat_alt)
  finally have c: "copy_image bus rom (p_offset sg) (load_addr + p_vaddr sg) 0 ?f st = Some (st\<lparr>ram := copy_bytes ?f ?src p (ram st)\<rparr>)" .
  have "zero_fill bus (load_addr + p_vaddr sg) ?f (n - ?f) (st\<lparr>ram := copy_bytes ?f ?src p (ram st)\<rparr>) = st\<lparr>ram := copy_bytes n ?src p (ram st)\<rparr>"
    by (rule zero_fill_done [OF assms(1,3) order_refl]) (use assms(2) in \<open>simp_all add: word_less_nat_alt\<close>)
  moreover have "n - ?f = unat (p_memsz sg) - ?f" using assms(2) by simp
  ultimately show ?thesis by (simp add: load_bytes_def c)
qed

theorem elf_segment_loaded_witness:
  "\<exists>st'. load_bytes no_devices 0x100 0x100000 \<lparr>p_offset = 0x80, p_vaddr = 0, p_filesz = 2, p_memsz = 3\<rparr>
      ((blank_iop ())\<lparr>bios := Some \<lparr>bdata = \<lambda>a. ucast a + 1, bsize = 0x400\<rparr>, ram := \<lambda>_. 0xAA\<rparr>) = Some st' \<and>
     ram st' 0x100001 = 0x82 \<and> ram st' 0x100002 = 0 \<and> ram st' 0x100003 = 0xAA"
proof -
  let ?st = "(blank_iop ())\<lparr>bios := Some \<lparr>bdata = \<lambda>a. ucast a + 1, bsize = 0x400\<rparr>, ram := \<lambda>_. 0xAA\<rparr>"
  have "a + word_of_nat i < 0xBFC00000 \<and> (a + word_of_nat i) AND 0x1FFFFFFF = a + word_of_nat i" if "i < 3" "a = 0x100000" for i and a :: u32
  proof -
    from that(1) consider "i = 0" | "i = 1" | "i = 2" by linarith
    then show ?thesis using that(2) by cases simp_all
  qed
  then have "ram_window no_devices ?st 0x100000 0x100000 3"
    using no_devices_decline [where ?'a = unit] by (simp add: ram_window_def blank_iop_def)
  from elf_segment_loaded [where sg = "\<lparr>p_offset = 0x80, p_vaddr = 0, p_filesz = 2, p_memsz = 3\<rparr>" and load_addr = "0x100000", simplified, OF this,
      of "\<lparr>bdata = \<lambda>a. ucast a + 1, bsize = 0x400\<rparr>" "0x100"]
  have "load_bytes no_devices 0x100 0x100000 \<lparr>p_offset = 0x80, p_vaddr = 0, p_filesz = 2, p_memsz = 3\<rparr> ?st
      = Some (?st\<lparr>ram := copy_bytes 3 (\<lambda>k. if k < 2 then ucast (0x180 + k) + 1 else 0) 0x100000 (ram ?st)\<rparr>)"
    by (simp add: blank_iop_def cache_isolated_def cong: if_cong)
  then show ?thesis by (intro exI conjI, assumption) (simp_all add: copy_bytes_def)
qed

section \<open>Bounds\<close>

text \<open>The bounds check on the image is exact but for its own overflow: a word inside the image is read, a
  word that leaves it sets the failure flag, and only an offset in the last four bytes of the
  address space passes the check (the sum wraps to at most 3) and is read from outside the ROM.\<close>

theorem image_read_checked:
  assumes "bios st = Some b" and "bsize b \<le> 0x400000" and "unat rom + unat sz \<le> unat (bsize b)" and "3 \<le> sz"
  shows "if 0xFFFFFFFC \<le> unat off then img_u32 st rom sz off = None
    else if unat off + 4 \<le> unat sz then \<exists>v. img_u32 st rom sz off = Some (Some v)
    else img_u32 st rom sz off = Some None"
proof (cases "0xFFFFFFFC \<le> unat off")
  case True
  have "\<not> off + 4 > sz" using assms(4) wrap4(1) [OF True] by (simp add: word_less_nat_alt word_le_nat_alt)
  moreover have "img_byte st rom off = None" using True assms(1,2) by (simp add: img_byte_def word_le_nat_alt)
  ultimately show ?thesis using True by (simp add: img_u32_def)
next
  case False
  then have "unat (off + 4) = unat off + 4" by (simp add: unat_word_ariths)
  then have gt: "off + 4 > sz \<longleftrightarrow> unat sz < unat off + 4" by (simp add: word_less_nat_alt)
  show ?thesis
  proof (cases "unat off + 4 \<le> unat sz")
    case True
    then have "unat rom + unat off + 4 \<le> unat (bsize b)" using assms(3) by linarith
    from img_byte_inside [OF assms(1) this] have "img_byte st rom (off + word_of_nat i) \<noteq> None" if "i < 4" for i using that by simp
    from this [of 0] this [of 1] this [of 2] this [of 3] obtain b0 b1 b2 b3 where
      "img_byte st rom off = Some b0" "img_byte st rom (off + 1) = Some b1" "img_byte st rom (off + 2) = Some b2" "img_byte st rom (off + 3) = Some b3"
      by auto
    then show ?thesis using True False gt by (simp add: img_u32_def)
  qed (use False gt in \<open>simp add: img_u32_def\<close>)
qed

theorem image_read_checked_witness:
  "img_u32 ((blank_iop ())\<lparr>bios := Some \<lparr>bdata = \<lambda>_. 0, bsize = 0x1000\<rparr>\<rparr>) 0x100 0x80 0xFFFFFFFE = None"
  using image_read_checked [of "(blank_iop ())\<lparr>bios := Some \<lparr>bdata = \<lambda>_. 0, bsize = 0x1000\<rparr>\<rparr>" "\<lparr>bdata = \<lambda>_. 0, bsize = 0x1000\<rparr>" "0x100" "0x80" "0xFFFFFFFE"]
  by simp

section \<open>The result\<close>

definition table_ok :: "irx_table \<Rightarrow> bool" where
  "table_ok t \<longleftrightarrow> length (t_name t) = 8 \<and> t_count t \<le> 513"

definition tables_ok :: "irx_tables \<Rightarrow> bool" where
  "tables_ok t \<longleftrightarrow> length (fst t) \<le> 8 \<and> length (snd t) \<le> 8 \<and> list_all table_ok (fst t @ snd t)"

lemma read_bytes_length: "length (fst (read_bytes bus a n st)) = n"
  by (induction n arbitrary: a st) (simp_all add: Let_def case_prod_beta)

lemma count_fptrs_le: "fst (count_fptrs bus l a n st) \<le> n"
  by (induction n arbitrary: a st) (simp_all add: Let_def case_prod_beta)

lemma count_stubs_le: "fst (count_stubs bus l a n st) \<le> n"
  by (induction n arbitrary: a st) (simp_all add: Let_def case_prod_beta)

lemma read_table_ok: "(\<And>n s. fst (entries n s) \<le> n) \<Longrightarrow> table_ok (fst (read_table bus entries a st))"
  by (simp add: read_table_def table_ok_def Let_def case_prod_beta read_bytes_length)

lemma scan_word_ok: "tables_ok t \<Longrightarrow> tables_ok (fst (scan_word bus l a t st))"
  using read_table_ok [of "count_fptrs bus l (a + 20)" bus a] read_table_ok [of "count_stubs bus l (a + 20)" bus a]
  by (simp add: scan_word_def tables_ok_def Let_def case_prod_beta count_fptrs_le count_stubs_le)

lemma scan_tables_ok: "tables_ok t \<Longrightarrow> tables_ok (fst (scan_tables bus l as t st))"
  by (induction as arbitrary: t st) (simp_all add: Let_def case_prod_beta scan_word_ok)

lemma read_name_ok: "read_name st rom sz off n = Some cs \<Longrightarrow> length cs \<le> n \<and> 0 \<notin> set cs"
proof (induction n arbitrary: off cs)
  case (Suc n)
  then show ?case by (auto split: if_splits bind_splits)
qed simp

lemma load_sections_name:
  "load_sections bus rom sz load_addr shs nm st = Some (Inr cs, st') \<Longrightarrow> length nm \<le> 31 \<and> 0 \<notin> set nm \<Longrightarrow> length cs \<le> 31 \<and> 0 \<notin> set cs"
proof (induction shs arbitrary: nm st)
  case (Cons sh shs)
  from Cons.prems(1) show ?case
    using Cons.IH Cons.prems(2) read_name_ok
    by (auto split: bind_splits if_splits option.splits list.splits) blast+
qed simp

text \<open>C36: Whatever the bytes of the image are, the result of a load that succeeds fits the fixed arrays of the
  C structure: at most 8 import and 8 export tables, each with a name of 8 bytes and at most 513
  entries, and a module name of at most 31 non-zero characters; the load address is the one asked for.\<close>

theorem elf_result_fits:
  assumes "iop_elf_load bus rom sz load_addr st = Some (Inr r, st')"
  shows "length (r_exports r) \<le> 8 \<and> length (r_imports r) \<le> 8 \<and> list_all table_ok (r_exports r @ r_imports r) \<and>
    length (iopmod_name r) \<le> 31 \<and> 0 \<notin> set (iopmod_name r) \<and> r_load_addr r = load_addr"
proof -
  from assms obtain h x nm st1 shs st2 where
    l: "load_sections bus rom sz load_addr shs [] st1 = Some (Inr nm, st2)" and r: "finish_load bus load_addr h x nm st2 = (r, st')"
    by (auto simp: iop_elf_load_def split: bind_splits sum.splits if_splits prod.splits)
  have "tables_ok (r_exports r, r_imports r)" "iopmod_name r = nm" "r_load_addr r = load_addr"
    using r scan_tables_ok [of "([], [])" bus "load_addr + snd x" "scan_addrs load_addr (snd x)" st2]
    by (auto simp: finish_load_def Let_def case_prod_beta tables_ok_def)
  with load_sections_name [OF l] show ?thesis by (simp add: tables_ok_def)
qed

text \<open>The smallest module: one segment of one byte that is not in the file.\<close>

definition tiny_module :: "u32 \<Rightarrow> u8" where
  "tiny_module = (\<lambda>_. 0)(0 := 0x7F, 1 := 0x45, 2 := 0x4C, 3 := 0x46, 4 := 1, 5 := 1, 18 := 8, 28 := 52, 42 := 32, 44 := 1, 52 := 1, 72 := 1)"

definition tiny_iop :: "unit iop_state" where
  "tiny_iop = (blank_iop ())\<lparr>bios := Some \<lparr>bdata = tiny_module, bsize = 0x100\<rparr>\<rparr>"

lemma tiny_bytes: "unat off < 0x100 \<Longrightarrow> img_byte tiny_iop 0 off = Some (tiny_module off)"
  by (simp add: img_byte_def tiny_iop_def)

lemma tiny_header: "check_header tiny_iop 0 84 = Some (Inr \<lparr>e_machine = 8, e_entry = 0, e_phoff = 52, e_shoff = 0,
    e_phentsize = 32, e_phnum = 1, e_shentsize = 0, e_shnum = 0, e_shstrndx = 0\<rparr>)"
  by (simp add: check_header_def elf_magic_def read_header_def img_u16_def img_u32_def tiny_bytes tiny_module_def)

lemma tiny_segment: "read_segment tiny_iop 0 84 52 = Some (Inr (Some \<lparr>p_offset = 0, p_vaddr = 0, p_filesz = 0, p_memsz = 1\<rparr>))"
  by (simp add: read_segment_def img_u32_def tiny_bytes tiny_module_def)

theorem elf_result_fits_witness:
  "\<exists>r st'. iop_elf_load no_devices 0 84 0x100000 tiny_iop = Some (Inr r, st') \<and> r_load_end r = 0x100001 \<and> length (r_exports r) \<le> 8"
proof -
  have rs: "ram_size tiny_iop = 0x204000" by (simp add: tiny_iop_def blank_iop_def)
  have "\<exists>r st'. iop_elf_load no_devices 0 84 0x100000 tiny_iop = Some (Inr r, st') \<and> r_load_end r = 0x100001"
    by (simp add: iop_elf_load_def tiny_header entry_addrs_def tiny_segment rs load_bytes_def add_extent_def
        find_sections_def finish_load_def scan_addrs_def)
  then show ?thesis using elf_result_fits by blast
qed

end
