(* ===== verification/Loaders.thy ===== *)
theory Loaders
  imports Prelude "HOL-Library.Char_ord"
begin

text \<open>
  The loaders of the host files: the BIOS image with its ROMDIR table (\<open>source/core/bios_loader.c\<close>)
  and ISO9660 disc images (\<open>source/core/iso_loader.c\<close>).

  A file is the list of its bytes; a file that cannot be opened is \<open>None\<close>. The argument \<open>w\<close> of the
  disc reads is the width of the C type \<open>long\<close>, through which \<open>fseek\<close> gets its position: 32 on the
  console the program is built for, 64 on the hosts of its tests. \<open>Undef\<close> marks an access outside
  the arrays of the C program.
\<close>

section \<open>Outcomes\<close>

datatype 'a result = Ok 'a | Fail | Undef

fun rd_le32 :: "u8 list \<Rightarrow> u32" where
  "rd_le32 (a # b # c # d # _) = ucast a OR push_bit 8 (ucast b) OR push_bit 16 (ucast c) OR push_bit 24 (ucast d)"
| "rd_le32 _ = 0"

definition bytes_of :: "string \<Rightarrow> u8 list" where
  "bytes_of s = map (\<lambda>c. word_of_nat (of_char c)) s"

section \<open>BIOS image\<close>

record bios_file =
  bf_data :: "u8 list"
  bf_size :: u32
  bf_name :: string
  version_string :: "u8 list"
  bf_loaded :: bool

definition BIOS_MAX_SIZE :: nat where "BIOS_MAX_SIZE = 4 * 1024 * 1024"

definition slice :: "nat \<Rightarrow> nat \<Rightarrow> 'a list \<Rightarrow> 'a list" where
  "slice off n xs = take n (drop off xs)"

definition romdir_at :: "u8 list \<Rightarrow> nat \<Rightarrow> bool" where
  "romdir_at d off \<longleftrightarrow> slice off 10 d = bytes_of ''RESET'' @ replicate 5 0 \<and> slice (off + 16) 10 d = bytes_of ''ROMDIR'' @ replicate 4 0"

text \<open>The scan of the multiples of 4 up to the limit for the entries RESET and ROMDIR.\<close>

definition find_romdir_table :: "bios_file \<Rightarrow> nat option" where
  "find_romdir_table b =
     (if bf_size b < 32 then None
      else let limit = min (unat (bf_size b) - 32) 0x10000
        in find (romdir_at (bf_data b)) (map (\<lambda>k. 4 * k) [0..<Suc (limit div 4)]))"

text \<open>The walk over the table: offset and size of the last entry whose name starts with ROMVER.\<close>

definition entry_name :: "u8 list \<Rightarrow> nat \<Rightarrow> u8 list" where
  "entry_name d e = slice e 10 d"

definition entry_size :: "u8 list \<Rightarrow> nat \<Rightarrow> u32" where
  "entry_size d e = rd_le32 (slice (e + 12) 4 d)"

definition align16 :: "u32 \<Rightarrow> u32" where
  "align16 n = (n + 15) AND NOT 15"

fun walk_romdir :: "bios_file \<Rightarrow> nat \<Rightarrow> nat \<Rightarrow> u32 \<Rightarrow> (u32 \<times> u32) option \<Rightarrow> (u32 \<times> u32) option" where
  "walk_romdir b e 0 off found = found"
| "walk_romdir b e (Suc n) off found =
     (if e + 16 > unat (bf_size b) then found
      else if entry_name (bf_data b) e ! 0 = 0 then found
      else let sz = entry_size (bf_data b) e
        in walk_romdir b (e + 16) n (off + align16 sz)
             (if take 6 (entry_name (bf_data b) e) = bytes_of ''ROMVER'' then Some (off, sz) else found))"

definition c_string :: "u8 list \<Rightarrow> u8 list" where
  "c_string cs = takeWhile (\<lambda>c. c \<noteq> 0) cs"

definition trim_newlines :: "u8 list \<Rightarrow> u8 list" where
  "trim_newlines cs = rev (dropWhile (\<lambda>c. c = 0x0A \<or> c = 0x0D) (rev cs))"

definition try_parse_romver :: "bios_file \<Rightarrow> bios_file result" where
  "try_parse_romver b =
     (let b0 = b\<lparr>version_string := bytes_of ''unknown''\<rparr> in
      case find_romdir_table b of
        None \<Rightarrow> Ok b0
      | Some t \<Rightarrow>
          (case walk_romdir b t 512 0 None of
             None \<Rightarrow> Ok b0
           | Some (off, sz) \<Rightarrow>
               if 0 < sz \<and> sz < 32 \<and> off + sz \<le> bf_size b then
                 if unat off + unat sz \<le> BIOS_MAX_SIZE
                 then Ok (b\<lparr>version_string := trim_newlines (c_string (slice (unat off) (unat sz) (bf_data b)))\<rparr>)
                 else Undef
               else Ok b0))"

definition base_name :: "string \<Rightarrow> string" where
  "base_name path = rev (takeWhile (\<lambda>c. c \<noteq> CHR ''/'') (rev path))"

definition bios_load :: "bool \<Rightarrow> string \<Rightarrow> u8 list option \<Rightarrow> bios_file result" where
  "bios_load malloc_ok path file =
     (case file of None \<Rightarrow> Fail
      | Some f \<Rightarrow>
          if f = [] \<or> length f > BIOS_MAX_SIZE \<or> \<not> malloc_ok then Fail
          else case try_parse_romver \<lparr>bf_data = f @ replicate (BIOS_MAX_SIZE - length f) 0xFF, bf_size = word_of_nat (length f),
              bf_name = take 63 (base_name path), version_string = [], bf_loaded = False\<rparr> of
            Ok b \<Rightarrow> Ok (b\<lparr>bf_loaded := True\<rparr>) | r \<Rightarrow> r)"

definition bios_free :: "bios_file \<Rightarrow> bios_file" where
  "bios_free b = b\<lparr>bf_data := [], bf_loaded := False\<rparr>"

section \<open>Disc image\<close>

definition ISO_SECTOR_SIZE :: nat where "ISO_SECTOR_SIZE = 2048"

text \<open>\<open>fseek\<close> with a \<open>long\<close> of \<open>w\<close> bits: a negative position fails; a position behind the end is
  accepted and the read comes up short.\<close>

definition read_sector_raw :: "nat \<Rightarrow> u8 list \<Rightarrow> u32 \<Rightarrow> u32 \<Rightarrow> u32 \<Rightarrow> u8 list option" where
  "read_sector_raw w file lba stride data_offset =
     (let phys = unat lba * unat stride + unat data_offset;
          pos = signed_take_bit (w - 1) (int phys)
      in if pos < 0 then None
         else let s = slice (nat pos) 2048 file in if length s = 2048 then Some s else None)"

definition sector_formats :: "(u32 \<times> u32) list" where
  "sector_formats = [(2048, 0), (2352, 24), (2352, 16)]"

definition is_pvd :: "u8 list \<Rightarrow> bool" where
  "is_pvd s \<longleftrightarrow> s ! 0 = 1 \<and> slice 1 5 s = bytes_of ''CD001''"

fun try_formats :: "nat \<Rightarrow> u8 list \<Rightarrow> (u32 \<times> u32) list \<Rightarrow> ((u32 \<times> u32) \<times> u8 list) option" where
  "try_formats w file [] = None"
| "try_formats w file ((stride, off) # fs) =
     (case read_sector_raw w file 16 stride off of
        Some s \<Rightarrow> if is_pvd s then Some ((stride, off), s) else try_formats w file fs
      | None \<Rightarrow> try_formats w file fs)"

definition detect_sector_format :: "nat \<Rightarrow> u8 list \<Rightarrow> ((u32 \<times> u32) \<times> u8 list) option" where
  "detect_sector_format w file = try_formats w file sector_formats"

record iso_image =
  iso_fp :: "u8 list option"
  root_lba :: u32
  root_size :: u32
  opened :: bool
  physical_stride :: u32
  data_offset :: u32

definition iso_open :: "nat \<Rightarrow> u8 list option \<Rightarrow> iso_image option" where
  "iso_open w file = do {
     f \<leftarrow> file;
     ((stride, off), s) \<leftarrow> detect_sector_format w f;
     Some \<lparr>iso_fp = Some f, root_lba = rd_le32 (slice 158 4 s), root_size = rd_le32 (slice 166 4 s), opened = True,
       physical_stride = stride, data_offset = off\<rparr> }"

definition iso_close :: "iso_image \<Rightarrow> iso_image" where
  "iso_close img = (if opened img \<and> iso_fp img \<noteq> None then img\<lparr>iso_fp := None, opened := False\<rparr> else img)"

definition iso_read_sector :: "nat \<Rightarrow> iso_image \<Rightarrow> u32 \<Rightarrow> u8 list option" where
  "iso_read_sector w img lba =
     (if \<not> opened img then None
      else case iso_fp img of None \<Rightarrow> None
        | Some f \<Rightarrow> read_sector_raw w f lba (if physical_stride img \<noteq> 0 then physical_stride img else 2048) (data_offset img))"

record iso_dirent =
  d_lba :: u32
  d_size :: u32
  d_is_directory :: bool
  d_name :: "u8 list"

text \<open>
  One sector of the directory from position \<open>off\<close> on: the entry found, or nothing. The fixed fields of a
  record are read before its length is compared with them, so a short record at the end of the sector
  reads behind the buffer. A name has at most 222 bytes (its record at most 255), so the buffer of 224
  never cuts it; the names are compared as C strings.
\<close>

function find_in_sector :: "u8 list \<Rightarrow> u8 list \<Rightarrow> nat \<Rightarrow> iso_dirent option result" where
  "find_in_sector s name off =
     (if off \<ge> 2048 then Ok None
      else let rec_len = unat (s ! off) in
        if rec_len = 0 \<or> off + rec_len > 2048 then Ok None
        else if off + 32 \<ge> 2048 then Undef
        else
          let name_len = unat (s ! (off + 32)); flags = s ! (off + 25); nm = slice (off + 33) name_len s in
          if 0 < name_len \<and> 33 + name_len \<le> rec_len \<and>
             \<not> (name_len = 1 \<and> (s ! (off + 33) = 0 \<or> s ! (off + 33) = 1)) \<and> c_string nm = name
          then Ok (Some \<lparr>d_lba = rd_le32 (slice (off + 2) 4 s), d_size = rd_le32 (slice (off + 10) 4 s),
                 d_is_directory = (flags AND 2 \<noteq> 0), d_name = nm\<rparr>)
          else find_in_sector s name (off + rec_len))"
  by pat_completeness auto
termination by (relation "measure (\<lambda>(s, name, off). 2048 - off)") auto

text \<open>\<open>n\<close> is the number of sectors left: \<open>root_size\<close> divided by the sector size, rounded up.\<close>

fun find_in_sectors :: "nat \<Rightarrow> iso_image \<Rightarrow> u8 list \<Rightarrow> u32 \<Rightarrow> nat \<Rightarrow> iso_dirent result" where
  "find_in_sectors w img name lba 0 = Fail"
| "find_in_sectors w img name lba (Suc n) =
     (case iso_read_sector w img lba of None \<Rightarrow> Fail
      | Some s \<Rightarrow>
          (case find_in_sector s name 0 of
             Ok (Some d) \<Rightarrow> Ok d
           | Ok None \<Rightarrow> find_in_sectors w img name (lba + 1) n
           | Fail \<Rightarrow> Fail
           | Undef \<Rightarrow> Undef))"

definition iso_find_in_root :: "nat \<Rightarrow> iso_image \<Rightarrow> u8 list \<Rightarrow> iso_dirent result" where
  "iso_find_in_root w img name =
     (if \<not> opened img then Fail
      else find_in_sectors w img (c_string name) (root_lba img) ((unat (root_size img) + 2047) div 2048))"

section \<open>Reading sectors\<close>

lemma slice_length: "off + n \<le> length xs \<Longrightarrow> length (slice off n xs) = n"
  by (simp add: slice_def)

lemma seek_position:
  assumes "phys < 2 ^ w"
  shows "signed_take_bit w (int phys) = int phys"
proof (rule signed_take_bit_int_eq_self)
  show "- (2 ^ w) \<le> int phys" by (rule order_trans [of _ 0]) simp_all
  show "int phys < 2 ^ w" using assms by (metis of_nat_less_iff of_nat_numeral of_nat_power)
qed

text \<open>A sector read returns exactly the 2048 user bytes of the addressed sector when the image holds them, and
  fails when it does not, as long as positions fit the \<open>long\<close> of the host.\<close>

theorem sector_read_exact:
  assumes "phys = unat lba * unat stride + unat off" and "phys < 2 ^ (w - 1)"
  shows "read_sector_raw w file lba stride off = (if phys + 2048 \<le> length file then Some (slice phys 2048 file) else None)"
  unfolding read_sector_raw_def Let_def assms(1) [symmetric] seek_position [OF assms(2)] by (auto simp: slice_def)

theorem sector_read_exact_witness:
  "read_sector_raw 32 (replicate 4096 7) 1 2048 0 = Some (slice 2048 2048 (replicate 4096 7))"
  using sector_read_exact [of 2048 1 2048 0 32 "replicate 4096 7"] by simp

text \<open>On the console, whose \<open>long\<close> has 32 bits, every sector from 4 GB on is read from the position 4 GB
  lower: sector \<open>lba + 2\<^sup>2\<^sup>1\<close> of a plain image gives the bytes of sector \<open>lba\<close>.\<close>

theorem sector_read_wraps:
  assumes "unat lba < 0xFFE00000"
  shows "read_sector_raw 32 file (lba + 0x200000) 2048 0 = read_sector_raw 32 file lba 2048 0"
proof -
  have "unat (lba + 0x200000) = unat lba + 0x200000"
    using assms by (simp add: unat_word_ariths)
  then have p: "int (unat (lba + 0x200000) * unat (2048 :: u32) + unat (0 :: u32)) = int (unat lba * unat (2048 :: u32) + unat (0 :: u32)) + 2 ^ 32"
    by simp
  have "signed_take_bit (32 - 1) (x + 2 ^ 32) = signed_take_bit (32 - 1) x" for x :: int
  proof -
    have "x + 2 ^ 32 + 2 ^ 31 = (x + 2 ^ 31) + 2 ^ 32" by simp
    then have "(x + 2 ^ 32 + 2 ^ 31) mod 2 ^ 32 = (x + 2 ^ 31) mod 2 ^ 32" by (simp only: mod_add_self2)
    then show ?thesis by (simp only: signed_take_bit_eq_take_bit_shift take_bit_eq_mod) simp
  qed
  then show ?thesis by (simp only: read_sector_raw_def Let_def p)
qed

theorem sector_read_wraps_witness: "read_sector_raw 32 (replicate 40000 1) 0x200010 2048 0 = read_sector_raw 32 (replicate 40000 1) 0x10 2048 0"
  using sector_read_wraps [of "0x10" "replicate 40000 1"] by simp

section \<open>Directories\<close>

text \<open>
  The reference: a directory sector is a sequence of records with zero padding. A record is that of
  ECMA-119: the fields the lookup reads and those it passes over, which hold any bytes (the extended
  attribute length, the big-endian copies, the date, the other flags, the unit and volume numbers, and
  after the name its padding and the system-use bytes). The records of the directory itself and of its
  parent have the names \<open>[0]\<close> and \<open>[1]\<close>.
\<close>

definition le32 :: "u32 \<Rightarrow> u8 list" where
  "le32 w = [ucast w, ucast (drop_bit 8 w), ucast (drop_bit 16 w), ucast (drop_bit 24 w)]"

lemma rd_le32_le32: "rd_le32 (le32 w) = w"
  by (simp add: le32_def word32_of_bytes)

record dir_record =
  r_ext :: u8
  r_lba :: u32
  r_lba_be :: "u8 list"
  r_size :: u32
  r_size_be :: "u8 list"
  r_date :: "u8 list"
  r_flags :: u8
  r_units :: "u8 list"
  r_name :: "u8 list"
  r_tail :: "u8 list"

definition record_length :: "dir_record \<Rightarrow> nat" where
  "record_length r = 33 + length (r_name r) + length (r_tail r)"

definition record_header :: "dir_record \<Rightarrow> u8 list" where
  "record_header r = [word_of_nat (record_length r), r_ext r] @ le32 (r_lba r) @ r_lba_be r @ le32 (r_size r) @ r_size_be r @
     r_date r @ [r_flags r] @ r_units r @ [word_of_nat (length (r_name r))]"

definition encode_record :: "dir_record \<Rightarrow> u8 list" where
  "encode_record r = record_header r @ r_name r @ r_tail r"

definition self_or_parent :: "dir_record \<Rightarrow> bool" where
  "self_or_parent r \<longleftrightarrow> r_name r = [0] \<or> r_name r = [1]"

definition record_ok :: "dir_record \<Rightarrow> bool" where
  "record_ok r \<longleftrightarrow> length (r_lba_be r) = 4 \<and> length (r_size_be r) = 4 \<and> length (r_date r) = 7 \<and> length (r_units r) = 6 \<and>
     r_name r \<noteq> [] \<and> record_length r \<le> 255 \<and> (self_or_parent r \<or> 0 \<notin> set (r_name r))"

text \<open>What the lookup of a name in a list of records returns.\<close>

definition record_entry :: "dir_record \<Rightarrow> iso_dirent" where
  "record_entry r = \<lparr>d_lba = r_lba r, d_size = r_size r, d_is_directory = bit (r_flags r) 1, d_name = r_name r\<rparr>"

definition named :: "u8 list \<Rightarrow> dir_record \<Rightarrow> bool" where
  "named name r \<longleftrightarrow> \<not> self_or_parent r \<and> r_name r = name"

definition dir_sector :: "dir_record list \<Rightarrow> u8 list" where
  "dir_sector rs = (let c = concat (map encode_record rs) in c @ replicate (2048 - length c) 0)"

lemma slice_middle: "k + n \<le> length e \<Longrightarrow> slice (length pre + k) n (pre @ e @ post) = slice k n e"
  by (simp add: slice_def)

lemma nth_middle: "k < length e \<Longrightarrow> (pre @ e @ post) ! (length pre + k) = e ! k"
  by (simp add: nth_append)

lemma slice_at: "length pre = k \<Longrightarrow> length e = n \<Longrightarrow> slice k n (pre @ e @ post) = e"
  by (auto simp: slice_def)

lemma nth_at: "length pre = k \<Longrightarrow> (pre @ x # post) ! k = x"
  by auto

lemma flag_bit1: "w AND 2 \<noteq> 0 \<longleftrightarrow> bit (w :: u8) 1"
proof -
  have "w AND 2 = (if bit w 1 then 2 else 0)"
    using bit_exp_iff [where ?'a = "8 word", of 1] by (intro bit_word_eqI) (auto simp: bit_simps)
  then show ?thesis by simp
qed

lemma record_fields:
  assumes "record_ok r"
  shows "unat (encode_record r ! 0) = record_length r" "unat (encode_record r ! 32) = length (r_name r)"
    "encode_record r ! 25 = r_flags r"
    "slice 2 4 (encode_record r) = le32 (r_lba r)" "slice 10 4 (encode_record r) = le32 (r_size r)"
    "slice 33 (length (r_name r)) (encode_record r) = r_name r" "encode_record r ! 33 = r_name r ! 0"
    "length (encode_record r) = record_length r"
proof -
  note l = assms [unfolded record_ok_def]
  have le: "length (le32 w) = 4" for w by (simp add: le32_def)
  have h: "length (record_header r) = 33" using l by (simp add: record_header_def le)
  have u: "unat (word_of_nat k :: u8) = k" if "k < 256" for k using that by (simp add: unat_of_nat)
  have "encode_record r ! 0 = word_of_nat (record_length r)" by (simp add: encode_record_def record_header_def)
  then show "unat (encode_record r ! 0) = record_length r" using l u by simp
  have "encode_record r ! 32 = word_of_nat (length (r_name r))"
    using l nth_at [of "[word_of_nat (record_length r), r_ext r] @ le32 (r_lba r) @ r_lba_be r @ le32 (r_size r) @ r_size_be r @
      r_date r @ [r_flags r] @ r_units r" 32 "word_of_nat (length (r_name r))" "r_name r @ r_tail r"]
    by (simp add: encode_record_def record_header_def le)
  then show "unat (encode_record r ! 32) = length (r_name r)" using l u by (simp add: record_length_def)
  show "encode_record r ! 25 = r_flags r"
    using l nth_at [of "[word_of_nat (record_length r), r_ext r] @ le32 (r_lba r) @ r_lba_be r @ le32 (r_size r) @ r_size_be r @
      r_date r" 25 "r_flags r" "r_units r @ [word_of_nat (length (r_name r))] @ r_name r @ r_tail r"]
    by (simp add: encode_record_def record_header_def le)
  show "slice 2 4 (encode_record r) = le32 (r_lba r)"
    using slice_at [of "[word_of_nat (record_length r), r_ext r]" 2 "le32 (r_lba r)" 4]
    by (simp add: encode_record_def record_header_def le)
  show "slice 10 4 (encode_record r) = le32 (r_size r)"
    using l slice_at [of "[word_of_nat (record_length r), r_ext r] @ le32 (r_lba r) @ r_lba_be r" 10 "le32 (r_size r)" 4]
    by (simp add: encode_record_def record_header_def le)
  show "slice 33 (length (r_name r)) (encode_record r) = r_name r"
    unfolding encode_record_def by (rule slice_at [OF h refl])
  show "encode_record r ! 33 = r_name r ! 0" "length (encode_record r) = record_length r"
    using l h by (simp_all add: encode_record_def nth_append record_length_def)
qed

declare find_in_sector.simps [simp del]

lemma c_string_id: "0 \<notin> set cs \<Longrightarrow> c_string cs = cs"
  by (auto simp: c_string_def takeWhile_eq_all_conv)

lemma special_test:
  assumes "record_ok r"
  shows "length (r_name r) = 1 \<and> (r_name r ! 0 = 0 \<or> r_name r ! 0 = 1) \<longleftrightarrow> self_or_parent r"
  using assms by (cases "r_name r") (auto simp: self_or_parent_def record_ok_def)

lemma find_record:
  assumes "record_ok r" and "length pre + length (encode_record r) + length post = 2048"
  shows "find_in_sector (pre @ encode_record r @ post) name (length pre) =
    (if named name r then Ok (Some (record_entry r))
     else find_in_sector (pre @ encode_record r @ post) name (length (pre @ encode_record r)))"
proof -
  note f = record_fields [OF assms(1)]
  have l: "33 < record_length r \<and> 33 + length (r_name r) \<le> record_length r \<and> 0 < length (r_name r)"
    using assms(1) by (simp add: record_length_def record_ok_def)
  define s and o' where "s = pre @ encode_record r @ post" and "o' = length pre"
  have n: "s ! o' = encode_record r ! 0" "s ! (o' + 32) = encode_record r ! 32" "s ! (o' + 25) = encode_record r ! 25"
    "s ! (o' + 33) = encode_record r ! 33"
    using f(8) l nth_middle [of 0 "encode_record r" pre post] by (simp_all add: s_def o'_def nth_append)
  have sl: "slice (o' + 2) 4 s = le32 (r_lba r)" "slice (o' + 10) 4 s = le32 (r_size r)"
    "slice (o' + 33) (length (r_name r)) s = r_name r"
    using f l slice_middle [of 2 4 "encode_record r" pre post] slice_middle [of 10 4 "encode_record r" pre post]
      slice_middle [of 33 "length (r_name r)" "encode_record r" pre post] by (simp_all add: s_def o'_def)
  have lt: "\<not> 2048 \<le> o'" "\<not> 2048 < o' + record_length r" "\<not> 2048 \<le> o' + 32"
    using assms(2) f(8) l unfolding o'_def by linarith+
  have nm: "\<not> self_or_parent r \<Longrightarrow> c_string (r_name r) = r_name r"
    using assms(1) by (intro c_string_id) (simp add: record_ok_def)
  have "find_in_sector s name o' = (if named name r then Ok (Some (record_entry r)) else find_in_sector s name (o' + record_length r))"
    unfolding find_in_sector.simps [of s name o'] Let_def n f sl rd_le32_le32 special_test [OF assms(1)] flag_bit1
    using lt l nm by (auto simp: named_def record_entry_def)
  then show ?thesis by (simp add: s_def o'_def f(8))
qed

lemma find_padding:
  assumes "length pre + length zs = 2048" and "\<forall>z \<in> set zs. z = 0"
  shows "find_in_sector (pre @ zs) name (length pre) = Ok None"
proof (cases zs)
  case Nil
  then show ?thesis using assms by (subst find_in_sector.simps) simp
next
  case (Cons z zs')
  then show ?thesis using assms by (subst find_in_sector.simps) (simp add: Let_def)
qed

lemma find_in_records:
  assumes "list_all record_ok rs" and "length pre + length (concat (map encode_record rs)) + length zs = 2048" and "\<forall>z \<in> set zs. z = 0"
  shows "find_in_sector (pre @ concat (map encode_record rs) @ zs) name (length pre) = Ok (map_option record_entry (find (named name) rs))"
  using assms
proof (induction rs arbitrary: pre)
  case Nil
  then show ?case using find_padding [of pre zs name] by simp
next
  case (Cons r rs)
  let ?post = "concat (map encode_record rs) @ zs"
  have "find_in_sector (pre @ encode_record r @ ?post) name (length pre) =
      (if named name r then Ok (Some (record_entry r))
       else find_in_sector (pre @ encode_record r @ ?post) name (length (pre @ encode_record r)))"
    using Cons.prems by (intro find_record) simp_all
  moreover have "find_in_sector ((pre @ encode_record r) @ ?post) name (length (pre @ encode_record r))
      = Ok (map_option record_entry (find (named name) rs))"
    using Cons.prems by (intro Cons.IH) simp_all
  ultimately show ?case by simp
qed

lemma find_in_dir_sector:
  assumes "list_all record_ok rs" and "length (concat (map encode_record rs)) \<le> 2048"
  shows "find_in_sector (dir_sector rs) name 0 = Ok (map_option record_entry (find (named name) rs))"
  using find_in_records [OF assms(1), of "[]" "replicate (2048 - length (concat (map encode_record rs))) 0" name] assms(2)
  by (simp add: dir_sector_def Let_def)

lemma find_append: "find P (xs @ ys) = (case find P xs of None \<Rightarrow> find P ys | Some x \<Rightarrow> Some x)"
  by (induction xs) simp_all

lemma find_in_dir_sectors:
  assumes "\<And>i. i < length rss \<Longrightarrow> iso_read_sector w img (lba + word_of_nat i) = Some (dir_sector (rss ! i))"
    and "\<And>i. i < length rss \<Longrightarrow> list_all record_ok (rss ! i) \<and> length (concat (map encode_record (rss ! i))) \<le> 2048"
  shows "find_in_sectors w img name lba (length rss)
    = (case find (named name) (concat rss) of None \<Rightarrow> Fail | Some r \<Rightarrow> Ok (record_entry r))"
  using assms
proof (induction rss arbitrary: lba)
  case (Cons rs rss)
  have "find_in_sectors w img name (lba + 1) (length rss)
      = (case find (named name) (concat rss) of None \<Rightarrow> Fail | Some r \<Rightarrow> Ok (record_entry r))"
    using Cons.prems [of "Suc _"] by (intro Cons.IH) (simp_all add: add.assoc)
  moreover have "iso_read_sector w img lba = Some (dir_sector rs)" using Cons.prems(1) [of 0] by simp
  moreover have "find_in_sector (dir_sector rs) name 0 = Ok (map_option record_entry (find (named name) rs))"
    using Cons.prems(2) [of 0] by (intro find_in_dir_sector) simp_all
  ultimately show ?case by (simp add: find_append split: option.splits)
qed simp

text \<open>C16: The lookup by name is the search of the directory as a list: on an image whose root directory
  sectors hold records as ECMA-119 lays them out (in order, none across a sector boundary, the rest of
  the sector zero, with any date, flags, big-endian copies, padding and system-use bytes), it returns the
  extent, size and kind of the first record of that name, passing over the records of the directory itself
  and of its parent, and fails when there is none. The names of files have no zero byte.\<close>

theorem iso_lookup_spec:
  assumes "opened img" and "\<And>i. i < length rss \<Longrightarrow> iso_read_sector w img (root_lba img + word_of_nat i) = Some (dir_sector (rss ! i))"
    and "\<And>i. i < length rss \<Longrightarrow> list_all record_ok (rss ! i) \<and> length (concat (map encode_record (rss ! i))) \<le> 2048"
    and "(unat (root_size img) + 2047) div 2048 = length rss"
  shows "iso_find_in_root w img name =
    (case find (named (c_string name)) (concat rss) of None \<Rightarrow> Fail | Some r \<Rightarrow> Ok (record_entry r))"
  using find_in_dir_sectors [OF assms(2,3)] assms(1,4) by (simp add: iso_find_in_root_def)

text \<open>An image of 19 sectors whose root directory is sector 18: itself, its parent and a file with system-use bytes.\<close>

definition demo_record :: "u32 \<Rightarrow> u32 \<Rightarrow> u8 \<Rightarrow> u8 list \<Rightarrow> u8 list \<Rightarrow> dir_record" where
  "demo_record lba sz flags name tail =
     \<lparr>r_ext = 0, r_lba = lba, r_lba_be = rev (le32 lba), r_size = sz, r_size_be = rev (le32 sz), r_date = [120, 1, 1, 0, 0, 0, 0],
      r_flags = flags, r_units = [0, 0, 1, 0, 0, 1], r_name = name, r_tail = tail\<rparr>"

definition demo_root :: "dir_record list" where
  "demo_root = [demo_record 18 2048 2 [0] [0x8D, 0x55], demo_record 18 2048 2 [1] [0x8D, 0x55],
     demo_record 30 5 0 [0x41, 0x3B, 0x31] [0, 0x58, 0x41]]"

definition demo_disc :: iso_image where
  "demo_disc = \<lparr>iso_fp = Some (replicate (2048 * 18) 0 @ dir_sector demo_root),
     root_lba = 18, root_size = 2048, opened = True, physical_stride = 2048, data_offset = 0\<rparr>"

theorem iso_lookup_spec_witness:
  "iso_find_in_root 32 demo_disc [0x41, 0x3B, 0x31] = Ok \<lparr>d_lba = 30, d_size = 5, d_is_directory = False, d_name = [0x41, 0x3B, 0x31]\<rparr>
   \<and> iso_find_in_root 32 demo_disc [1] = Fail"
proof -
  have ok: "list_all record_ok demo_root"
    by (simp add: demo_root_def demo_record_def record_ok_def record_length_def self_or_parent_def le32_def)
  then have len: "length (concat (map encode_record demo_root)) = 111"
    using record_fields(8) by (simp add: demo_root_def record_length_def) (simp add: demo_record_def)
  then have "length (dir_sector demo_root) = 2048" by (simp add: dir_sector_def Let_def)
  then have rd: "iso_read_sector 32 demo_disc 18 = Some (dir_sector demo_root)"
    by (simp add: iso_read_sector_def demo_disc_def read_sector_raw_def slice_def)
  have "iso_find_in_root 32 demo_disc name
      = (case find (named (c_string name)) demo_root of None \<Rightarrow> Fail | Some r \<Rightarrow> Ok (record_entry r))" for name
    using iso_lookup_spec [of demo_disc "[demo_root]" 32 name] rd ok len by (simp add: demo_disc_def)
  then show ?thesis
    by (simp add: demo_root_def demo_record_def named_def self_or_parent_def record_entry_def c_string_def)
qed

section \<open>The BIOS table\<close>

definition is_romver :: "bios_file \<Rightarrow> nat \<Rightarrow> bool" where
  "is_romver b e \<longleftrightarrow> take 6 (entry_name (bf_data b) e) = bytes_of ''ROMVER''"

lemma walk_skips:
  assumes "\<And>j. i \<le> j \<Longrightarrow> j < n \<Longrightarrow> entry_name (bf_data b) (t + 16 * j) ! 0 \<noteq> 0 \<and> \<not> is_romver b (t + 16 * j)"
    and "t + 16 * n \<le> unat (bf_size b)" and "i \<le> n" and "n \<le> i + m"
  shows "walk_romdir b (t + 16 * i) m off found =
    walk_romdir b (t + 16 * n) (m - (n - i)) (off + (\<Sum>j = i..<n. align16 (entry_size (bf_data b) (t + 16 * j)))) found"
  using assms(3,1,4)
proof (induction i arbitrary: m off rule: inc_induct)
  case (step i)
  then obtain m' where m: "m = Suc m'" by (cases m) simp_all
  have bound: "\<not> t + 16 * i + 16 > unat (bf_size b)" using step.hyps assms(2) by linarith
  have e: "entry_name (bf_data b) (t + 16 * i) ! 0 \<noteq> 0" "\<not> is_romver b (t + 16 * i)" using step.prems(1) [of i] step.hyps by simp_all
  have "walk_romdir b (t + 16 * i) m off found
      = walk_romdir b (t + 16 * Suc i) m' (off + align16 (entry_size (bf_data b) (t + 16 * i))) found"
    using bound e by (simp add: m is_romver_def Let_def ac_simps)
  also have "\<dots> = walk_romdir b (t + 16 * n) (m' - (n - Suc i))
      (off + align16 (entry_size (bf_data b) (t + 16 * i)) + (\<Sum>j = Suc i..<n. align16 (entry_size (bf_data b) (t + 16 * j)))) found"
    using step by (intro step.IH) (simp_all add: m)
  also have "m' - (n - Suc i) = m - (n - i)" using step.hyps m by simp
  finally show ?case using step.hyps by (simp add: sum.atLeast_Suc_lessThan add.assoc)
qed simp

text \<open>In a table of \<open>n\<close> named entries ended by an empty one, the walk locates the payload of the only ROMVER entry:
  it starts where the payloads before it, each rounded up to 16 bytes, end.\<close>

theorem romver_located:
  assumes "\<And>j. j < n \<Longrightarrow> entry_name (bf_data b) (t + 16 * j) ! 0 \<noteq> 0" and "entry_name (bf_data b) (t + 16 * n) ! 0 = 0"
    and "t + 16 * n \<le> unat (bf_size b)" and "n < 512" and "i < n"
    and "is_romver b (t + 16 * i)" and "\<And>j. j < n \<Longrightarrow> j \<noteq> i \<Longrightarrow> \<not> is_romver b (t + 16 * j)"
  shows "walk_romdir b t 512 0 None =
    Some (\<Sum>j < i. align16 (entry_size (bf_data b) (t + 16 * j)), entry_size (bf_data b) (t + 16 * i))"
proof -
  let ?sz = "\<lambda>j. align16 (entry_size (bf_data b) (t + 16 * j))"
  have "walk_romdir b (t + 16 * 0) 512 0 None = walk_romdir b (t + 16 * i) (512 - (i - 0)) (0 + (\<Sum>j = 0..<i. ?sz j)) None"
    using assms by (intro walk_skips) simp_all
  also have "512 - (i - 0) = Suc (511 - i)" using assms(4,5) by simp
  also have "walk_romdir b (t + 16 * i) (Suc (511 - i)) (0 + (\<Sum>j = 0..<i. ?sz j)) None
      = walk_romdir b (t + 16 * Suc i) (511 - i) (0 + (\<Sum>j = 0..<i. ?sz j) + ?sz i) (Some (0 + (\<Sum>j = 0..<i. ?sz j), entry_size (bf_data b) (t + 16 * i)))"
    using assms(1) [OF assms(5)] assms(3,5,6) by (simp add: is_romver_def Let_def ac_simps)
  also have "\<dots> = walk_romdir b (t + 16 * n) (511 - i - (n - Suc i)) (0 + (\<Sum>j = 0..<i. ?sz j) + ?sz i + (\<Sum>j = Suc i..<n. ?sz j))
      (Some (0 + (\<Sum>j = 0..<i. ?sz j), entry_size (bf_data b) (t + 16 * i)))"
    using assms by (intro walk_skips) simp_all
  also have "511 - i - (n - Suc i) = Suc (511 - n)" using assms(4,5) by simp
  finally show ?thesis using assms(2) by (simp add: atLeast0LessThan)
qed

text \<open>The entries RESET, ROMDIR and ROMVER with sizes 0x25, 0x40 and 0x10, and the empty entry.\<close>

definition demo_bios :: bios_file where
  "demo_bios = \<lparr>bf_data =
       [0x52, 0x45, 0x53, 0x45, 0x54, 0, 0, 0, 0, 0, 0, 0, 0x25, 0, 0, 0,
        0x52, 0x4F, 0x4D, 0x44, 0x49, 0x52, 0, 0, 0, 0, 0, 0, 0x40, 0, 0, 0,
        0x52, 0x4F, 0x4D, 0x56, 0x45, 0x52, 0, 0, 0, 0, 0, 0, 0x10, 0, 0, 0,
        0, 0, 0, 0, 0, 0, 0, 0, 0, 0, 0, 0, 0, 0, 0, 0],
     bf_size = 64, bf_name = ''demo'', version_string = [], bf_loaded = True\<rparr>"

lemma demo_bios_entries:
  "entry_name (bf_data demo_bios) 0 = [0x52, 0x45, 0x53, 0x45, 0x54, 0, 0, 0, 0, 0]"
  "entry_name (bf_data demo_bios) 16 = [0x52, 0x4F, 0x4D, 0x44, 0x49, 0x52, 0, 0, 0, 0]"
  "entry_name (bf_data demo_bios) 32 = [0x52, 0x4F, 0x4D, 0x56, 0x45, 0x52, 0, 0, 0, 0]"
  "entry_name (bf_data demo_bios) 48 = [0, 0, 0, 0, 0, 0, 0, 0, 0, 0]"
  "entry_size (bf_data demo_bios) 0 = 0x25" "entry_size (bf_data demo_bios) 16 = 0x40" "entry_size (bf_data demo_bios) 32 = 0x10"
  "bf_size demo_bios = 64"
  by (simp_all add: demo_bios_def entry_name_def entry_size_def slice_def)

theorem romver_located_witness: "walk_romdir demo_bios 0 512 0 None = Some (0x70, 0x10)"
proof -
  have c: "j = 0 \<or> j = 1 \<or> j = 2" if "j < 3" for j :: nat using that by linarith
  have rv: "is_romver demo_bios 32" "\<not> is_romver demo_bios 0" "\<not> is_romver demo_bios 16"
    by (simp_all add: is_romver_def demo_bios_entries bytes_of_def)
  have "walk_romdir demo_bios 0 512 0 None =
      Some (\<Sum>j < 2. align16 (entry_size (bf_data demo_bios) (0 + 16 * j)), entry_size (bf_data demo_bios) (0 + 16 * 2))"
  proof (rule romver_located [where n = 3])
    show "entry_name (bf_data demo_bios) (0 + 16 * j) ! 0 \<noteq> 0" if "j < 3" for j using c [OF that] by (auto simp: demo_bios_entries)
    show "\<not> is_romver demo_bios (0 + 16 * j)" if "j < 3" "j \<noteq> 2" for j using c [OF that(1)] that(2) rv by auto
  qed (use rv in \<open>simp_all add: demo_bios_entries\<close>)
  also have "(\<Sum>j < 2. align16 (entry_size (bf_data demo_bios) (0 + 16 * j))) = 0x70"
    by (simp add: numeral_2_eq_2 demo_bios_entries align16_def)
  finally show ?thesis by (simp add: demo_bios_entries)
qed

text \<open>The bounds check on the payload wraps: a table can place ROMVER so that it is copied from behind the image.\<close>

lemma romver_wraps:
  assumes "find_romdir_table b = Some t" and "walk_romdir b t 512 0 None = Some (0xFFFFFFF0, 0x1F)" and "15 \<le> bf_size b"
  shows "try_parse_romver b = Undef"
proof -
  have e: "(0x10000000F :: u32) = 15" by (rule unat_eqI) simp
  show ?thesis using assms by (simp add: try_parse_romver_def BIOS_MAX_SIZE_def e)
qed

lemma short_record_overrun:
  assumes "2016 \<le> off" and "off < 2048" and "s ! off \<noteq> 0" and "off + unat (s ! off) \<le> 2048"
  shows "find_in_sector s name off = Undef"
  using assms by (subst find_in_sector.simps) (simp add: Let_def unat_eq_0)

end
