(* ===== verification/Sif.thy ===== *)
theory Sif
  imports Intc "HOL-Library.AList"
begin

text \<open>
  The mailbox between the two processors, \<open>source/hw/sif.c\<close>: the registers both sides see through
  different windows and with different write rules, the delayed re-assertion of the boot flags, and
  the table of RPC bindings; and the input side of the image processor, \<open>source/hw/ipu.c\<close>.
\<close>

section \<open>Mailbox state\<close>

record sif_state =
  mscom :: u32
  smcom :: u32
  msflag :: u32
  smflag :: u32
  sctrl :: u32
  f250 :: u32
  f260 :: u32
  iop_boot_completed_once :: bool
  ee_loadexecps2_seen :: bool
  bootend_reassert_pending :: bool
  bootend_reassert_ticks_left :: int

type_synonym sif = "sif_state \<times> ee_intc_state"

definition SIF_BOOTEND_REASSERT_DELAY_TICKS :: int where "SIF_BOOTEND_REASSERT_DELAY_TICKS = 64"

text \<open>The reset leaves the boot flags alone; they are reset with the command layer.\<close>

definition sif_init :: "sif_state \<Rightarrow> sif_state" where
  "sif_init s = s\<lparr>mscom := 0, smcom := 0, msflag := 0, smflag := 0, sctrl := 0, f250 := 0, f260 := 0x1D000060\<rparr>"

definition arm_reassert :: "sif_state \<Rightarrow> sif_state" where
  "arm_reassert s = s\<lparr>bootend_reassert_pending := True, bootend_reassert_ticks_left := SIF_BOOTEND_REASSERT_DELAY_TICKS\<rparr>"

section \<open>The EE side\<close>

definition sif_mmio_read32 :: "u32 \<Rightarrow> sif \<Rightarrow> (u32 \<times> sif) option" where
  "sif_mmio_read32 addr = (\<lambda>(s, e).
     let ret = (\<lambda>v. Some (v, (s, e))) in
     if addr = 0x1000F200 then ret (mscom s)
     else if addr = 0x1000F210 then ret (smcom s)
     else if addr = 0x1000F220 then ret (msflag s)
     else if addr = 0x1000F230 then ret (smflag s OR 0x40000000)
     else if addr = 0x1000F240 then ret (sctrl s OR 0xF0000102)
     else if addr = 0x1000F250 then ret (f250 s)
     else if addr = 0x1000F260 then ret (f260 s)
     else None)"

definition smflag_clear :: "u32 \<Rightarrow> sif_state \<Rightarrow> sif_state" where
  "smflag_clear v s =
     (let s1 = s\<lparr>smflag := smflag s AND NOT v\<rparr>
      in if v AND 0x00040000 \<noteq> 0 \<and> iop_boot_completed_once s then arm_reassert s1 else s1)"

definition sif_mmio_write32 :: "u32 \<Rightarrow> u32 \<Rightarrow> sif \<Rightarrow> sif option" where
  "sif_mmio_write32 addr v = (\<lambda>(s, e).
     if addr = 0x1000F200 then Some (s\<lparr>mscom := v\<rparr>, e)
     else if addr = 0x1000F210 then Some (s\<lparr>smcom := v\<rparr>, e)
     else if addr = 0x1000F220 then Some (s\<lparr>msflag := msflag s OR v\<rparr>, e)
     else if addr = 0x1000F230 then Some (smflag_clear v s, e)
     else if addr = 0x1000F240 then
       Some (if v AND 0x100 = 0 then s\<lparr>sctrl := sctrl s AND NOT 0x100\<rparr> else s\<lparr>sctrl := sctrl s OR 0x100\<rparr>, e)
     else if addr = 0x1000F250 then Some (s\<lparr>f250 := v\<rparr>, e)
     else if addr = 0x1000F260 then
       Some (s\<lparr>f260 := if v = 0xFF \<and> iop_boot_completed_once s then 0x1D000060 else v\<rparr>, e)
     else None)"

definition sif_register :: "u32 \<Rightarrow> bool" where
  "sif_register addr \<longleftrightarrow> addr \<in> {0x1000F200, 0x1000F210, 0x1000F220, 0x1000F230, 0x1000F240, 0x1000F250, 0x1000F260}"

interpretation sif: mmio_block sif_mmio_read32 sif_mmio_write32 sif_register sif_register
  by unfold_locales (auto simp: sif_mmio_read32_def sif_mmio_write32_def sif_register_def Let_def split: prod.split)

section \<open>The IOP side\<close>

definition sif_iop_window :: "u32 \<Rightarrow> bool" where
  "sif_iop_window addr \<longleftrightarrow> 0x1D000000 \<le> addr AND 0x1FFFFFFF \<and> addr AND 0x1FFFFFFF \<le> 0x1D0000FF"

definition sif_iop_mmio_read32 :: "u32 \<Rightarrow> sif \<Rightarrow> (u32 \<times> sif) option" where
  "sif_iop_mmio_read32 addr = (\<lambda>(s, e).
     if \<not> sif_iop_window addr then None
     else let r = (addr AND 0x1FFFFFFF) AND 0xFF;
              v = (if r = 0x00 then mscom s else if r = 0x10 then smcom s else if r = 0x20 then msflag s
                   else if r = 0x30 then smflag s else if r = 0x40 then sctrl s else if r = 0x50 then f250 s
                   else if r = 0x60 then f260 s else 0)
       in Some (v, (s, e)))"

text \<open>The IOP overwrites its flag register; a newly set bit interrupts the EE.\<close>

definition smflag_set :: "u32 \<Rightarrow> sif \<Rightarrow> sif" where
  "smflag_set v = (\<lambda>(s, e).
     (let s1 = s\<lparr>smflag := v\<rparr>;
          e1 = (if v AND NOT (smflag s) \<noteq> 0 then ee_intc_raise 1 e else e)
      in (if iop_boot_completed_once s \<and> smflag s AND 0x00040000 \<noteq> 0 \<and> v AND 0x00040000 = 0 then arm_reassert s1 else s1, e1)))"

definition sif_iop_mmio_write32 :: "u32 \<Rightarrow> u32 \<Rightarrow> sif \<Rightarrow> sif option" where
  "sif_iop_mmio_write32 addr v = (\<lambda>(s, e).
     if \<not> sif_iop_window addr then None
     else let r = (addr AND 0x1FFFFFFF) AND 0xFF in
       Some (if r = 0x00 then (s\<lparr>mscom := v\<rparr>, e) else if r = 0x10 then (s\<lparr>smcom := v\<rparr>, e)
         else if r = 0x20 then (s\<lparr>msflag := v\<rparr>, e) else if r = 0x30 then smflag_set v (s, e)
         else if r = 0x40 then (s\<lparr>sctrl := v\<rparr>, e) else if r = 0x50 then (s\<lparr>f250 := v\<rparr>, e)
         else if r = 0x60 then (s\<lparr>f260 := v\<rparr>, e) else (s, e)))"

interpretation sif_iop: mmio_block sif_iop_mmio_read32 sif_iop_mmio_write32 sif_iop_window sif_iop_window
  by unfold_locales (auto simp: sif_iop_mmio_read32_def sif_iop_mmio_write32_def Let_def split: prod.split)

section \<open>Boot flags\<close>

definition sif_note_iop_boot_completed_once :: "sif_state \<Rightarrow> sif_state" where
  "sif_note_iop_boot_completed_once s = s\<lparr>iop_boot_completed_once := True\<rparr>"

definition sif_note_ee_loadexecps2_seen :: "sif_state \<Rightarrow> sif_state" where
  "sif_note_ee_loadexecps2_seen s = s\<lparr>ee_loadexecps2_seen := True\<rparr>"

definition sif_ee_tick :: "sif_state \<Rightarrow> sif_state" where
  "sif_ee_tick s =
     (if \<not> bootend_reassert_pending s then s
      else let s1 = s\<lparr>bootend_reassert_ticks_left := bootend_reassert_ticks_left s - 1\<rparr> in
        if bootend_reassert_ticks_left s1 > 0 then s1
        else s1\<lparr>bootend_reassert_pending := False, smflag := smflag s1 OR 0x00070000\<rparr>)"

section \<open>The command layer\<close>

record sif_cmd =
  ee_recvbuf :: u32
  init_cmd_count :: u32
  rpc_bind_cd :: u32
  rpc_bind_count :: u32
  bind_table :: "(u32 \<times> u32) list"
  bind_next :: nat

definition sif_cmd_iop_init :: "sif_state \<Rightarrow> sif_cmd \<times> sif_state" where
  "sif_cmd_iop_init s =
     (\<lparr>ee_recvbuf = 0, init_cmd_count = 0, rpc_bind_cd = 0, rpc_bind_count = 0, bind_table = replicate 16 (0, 0), bind_next = 0\<rparr>,
      s\<lparr>iop_boot_completed_once := False, ee_loadexecps2_seen := False, bootend_reassert_pending := False, bootend_reassert_ticks_left := 0\<rparr>)"

definition sif_cmd_iop_handle_init_cmd :: "u32 \<Rightarrow> sif_cmd \<Rightarrow> sif_cmd" where
  "sif_cmd_iop_handle_init_cmd a c = c\<lparr>ee_recvbuf := a, init_cmd_count := init_cmd_count c + 1\<rparr>"

definition sif_cmd_iop_handle_rpc_bind :: "u32 \<Rightarrow> sif_cmd \<Rightarrow> sif_cmd" where
  "sif_cmd_iop_handle_rpc_bind cd c = c\<lparr>rpc_bind_cd := cd, rpc_bind_count := rpc_bind_count c + 1\<rparr>"

definition sif_cmd_iop_track_bind_sid :: "u32 \<Rightarrow> u32 \<Rightarrow> sif_cmd \<Rightarrow> sif_cmd" where
  "sif_cmd_iop_track_bind_sid cd sid c =
     (case list_find_index (\<lambda>e. fst e = cd) (bind_table c) of
        Some i \<Rightarrow> c\<lparr>bind_table := (bind_table c)[i := (cd, sid)]\<rparr>
      | None \<Rightarrow> c\<lparr>bind_table := (bind_table c)[bind_next c := (cd, sid)], bind_next := (bind_next c + 1) mod 16\<rparr>)"

definition sif_cmd_iop_lookup_bind_sid :: "u32 \<Rightarrow> sif_cmd \<Rightarrow> u32" where
  "sif_cmd_iop_lookup_bind_sid cd c =
     (case list_find_index (\<lambda>e. fst e = cd) (bind_table c) of Some i \<Rightarrow> snd (bind_table c ! i) | None \<Rightarrow> 0)"

definition sif_cmd_iop_dump_bind_table :: "u32 \<Rightarrow> sif_cmd \<Rightarrow> (u32 \<times> u32) list \<times> nat" where
  "sif_cmd_iop_dump_bind_table mx c = (take (unat mx) (bind_table c), 16)"

section \<open>The image processor\<close>

record ipu_state =
  cmd_data :: u32
  cmd_busy :: u32
  ictrl :: u32
  ipu_bp :: u32
  ipu_top :: u32
  topbusy :: u32
  in_fifo_count :: u32

definition ipu_init :: ipu_state where
  "ipu_init = \<lparr>cmd_data = 0, cmd_busy = 0, ictrl = 0, ipu_bp = 0, ipu_top = 0, topbusy = 0, in_fifo_count = 0\<rparr>"

definition ipu_cmd_bclr :: "ipu_state \<Rightarrow> ipu_state" where
  "ipu_cmd_bclr g = g\<lparr>in_fifo_count := 0, ipu_bp := 0, ictrl := ictrl g AND NOT (0x0000000F OR 0x00080000 OR 0x00040000)\<rparr>"

definition ipu_dispatch_cmd :: "u32 \<Rightarrow> ipu_state \<Rightarrow> ipu_state" where
  "ipu_dispatch_cmd v g =
     (let cmd = drop_bit 28 v AND 0xF;
          g1 = g\<lparr>ictrl := ictrl g AND NOT (0x00040000 OR 0x00080000), cmd_data := v\<rparr>
      in (if cmd = 0 then ipu_cmd_bclr g1 else g1)\<lparr>cmd_busy := 0\<rparr>)"

definition ipu_mmio_read32 :: "u32 \<Rightarrow> ipu_state \<Rightarrow> (u32 \<times> ipu_state) option" where
  "ipu_mmio_read32 addr g =
     (if addr = 0x10002000 then Some (cmd_data g, g) else if addr = 0x10002004 then Some (cmd_busy g, g)
      else if addr = 0x10002010 then Some (ictrl g, g) else if addr = 0x10002020 then Some (ipu_bp g, g)
      else if addr = 0x10002030 then Some (ipu_top g, g) else if addr = 0x10002034 then Some (topbusy g, g)
      else None)"

definition ctrl_write :: "u32 \<Rightarrow> ipu_state \<Rightarrow> ipu_state" where
  "ctrl_write v g =
     (if v AND 0x40000000 \<noteq> 0 then (ipu_cmd_bclr g)\<lparr>ictrl := 0, cmd_busy := 0\<rparr>
      else g\<lparr>ictrl := (v AND 0x47F30000) OR (ictrl g AND NOT 0x47F30000)\<rparr>)"

definition ipu_mmio_write32 :: "u32 \<Rightarrow> u32 \<Rightarrow> ipu_state \<Rightarrow> ipu_state option" where
  "ipu_mmio_write32 addr v g =
     (if addr = 0x10002000 then Some (ipu_dispatch_cmd v g)
      else if addr = 0x10002010 then Some (ctrl_write v g)
      else if addr = 0x10002020 then Some (g\<lparr>ipu_bp := v\<rparr>)
      else if addr = 0x10002030 then Some (g\<lparr>ipu_top := v\<rparr>)
      else if addr = 0x10002034 then Some (g\<lparr>topbusy := v\<rparr>)
      else if addr = 0x10002004 then Some g
      else None)"

definition ipu_register :: "u32 \<Rightarrow> bool" where
  "ipu_register addr \<longleftrightarrow> addr \<in> {0x10002000, 0x10002004, 0x10002010, 0x10002020, 0x10002030, 0x10002034}"

interpretation ipu: mmio_block ipu_mmio_read32 ipu_mmio_write32 ipu_register ipu_register
  by unfold_locales (auto simp: ipu_mmio_read32_def ipu_mmio_write32_def ipu_register_def)

text \<open>The loop counts the quadwords up to the depth of the queue; the bytes are not kept.\<close>

primrec fill_fifo :: "nat \<Rightarrow> u32 \<Rightarrow> u32" where
  "fill_fifo 0 c = c"
| "fill_fifo (Suc n) c = (if c \<ge> 8 then c else fill_fifo n (c + 1))"

definition ipu_process_quadwords :: "u32 \<Rightarrow> ipu_state \<Rightarrow> ipu_state" where
  "ipu_process_quadwords qwc g =
     (let c = fill_fifo (unat qwc) (in_fifo_count g)
      in g\<lparr>in_fifo_count := c, ictrl := (ictrl g AND NOT 0xF) OR (c AND 0xF)\<rparr>)"

section \<open>The boot flags come back\<close>

lemma ticks_before:
  assumes "bootend_reassert_pending s" and "int k < bootend_reassert_ticks_left s"
  shows "(sif_ee_tick ^^ k) s = s\<lparr>bootend_reassert_ticks_left := bootend_reassert_ticks_left s - int k\<rparr>"
  using assms(2)
proof (induction k)
  case (Suc k)
  then show ?case using assms(1) by (simp add: sif_ee_tick_def Let_def)
qed simp

text \<open>When the EE clears the boot-end flag after the IOP has booted, it reads the flag as clear for the
  next 63 ticks and finds all three boot flags set again after the 64th, whatever they were; the
  other registers are untouched.\<close>

theorem bootend_reasserted:
  assumes "iop_boot_completed_once s" and "v AND 0x00040000 \<noteq> 0" and "sif_mmio_write32 0x1000F230 v (s, e) = Some (s1, e1)"
  shows "(\<forall>k < 64. smflag ((sif_ee_tick ^^ k) s1) = smflag s AND NOT v) \<and>
    (sif_ee_tick ^^ 64) s1 = s1\<lparr>bootend_reassert_pending := False, bootend_reassert_ticks_left := 0, smflag := (smflag s AND NOT v) OR 0x00070000\<rparr>"
proof -
  have s1: "s1 = arm_reassert (s\<lparr>smflag := smflag s AND NOT v\<rparr>)"
    using assms by (auto simp: sif_mmio_write32_def smflag_clear_def)
  then have p: "bootend_reassert_pending s1" "bootend_reassert_ticks_left s1 = 64" "smflag s1 = smflag s AND NOT v"
    by (simp_all add: arm_reassert_def SIF_BOOTEND_REASSERT_DELAY_TICKS_def)
  have t: "(sif_ee_tick ^^ k) s1 = s1\<lparr>bootend_reassert_ticks_left := 64 - int k\<rparr>" if "k < 64" for k
    using ticks_before [OF p(1), of k] that p(2) by simp
  have "(sif_ee_tick ^^ 64) s1 = sif_ee_tick ((sif_ee_tick ^^ 63) s1)"
    using funpow.simps(2) [of 63 sif_ee_tick] by (simp del: funpow.simps add: fun_eq_iff)
  also have "\<dots> = s1\<lparr>bootend_reassert_pending := False, bootend_reassert_ticks_left := 0, smflag := (smflag s AND NOT v) OR 0x00070000\<rparr>"
    unfolding t [of 63, simplified] using p by (simp add: sif_ee_tick_def Let_def)
  finally show ?thesis using t p(3) by simp
qed

definition booted :: sif_state where
  "booted = \<lparr>mscom = 0, smcom = 0, msflag = 0, smflag = 0x70000, sctrl = 0, f250 = 0, f260 = 0, iop_boot_completed_once = True,
     ee_loadexecps2_seen = False, bootend_reassert_pending = False, bootend_reassert_ticks_left = 0\<rparr>"

theorem bootend_reasserted_witness:
  "\<exists>s1. sif_mmio_write32 0x1000F230 0x70000 (booted, ee_intc_init) = Some (s1, ee_intc_init) \<and> smflag s1 = 0 \<and>
     smflag ((sif_ee_tick ^^ 64) s1) = 0x70000"
proof -
  obtain s1 where s1: "sif_mmio_write32 0x1000F230 0x70000 (booted, ee_intc_init) = Some (s1, ee_intc_init)" "smflag s1 = 0"
    by (simp add: sif_mmio_write32_def smflag_clear_def booted_def arm_reassert_def)
  from bootend_reasserted [OF _ _ s1(1)] have "smflag ((sif_ee_tick ^^ 64) s1) = 0x70000"
    by (simp add: booted_def)
  with s1 show ?thesis by blast
qed

section \<open>Flags between the processors\<close>

text \<open>C37: The flag registers carry requests across. A bit the EE sets in its flag register is seen by the IOP
  with the earlier ones. What the IOP writes to its own replaces it, is what the EE then reads, and raises
  the SBUS interrupt when it sets a new bit; after the EE has acknowledged the bits \<open>d\<close>, both sides read
  the rest, the EE always with bit 30 (the flag that the IOP has booted, which its read adds and which no
  acknowledgement removes).\<close>

theorem mailbox_handshake:
  assumes "sif_mmio_write32 0x1000F220 a (s, e) = Some (s1, e1)" and "sif_iop_mmio_write32 0x1D000030 b (s1, e1) = Some (s2, e2)"
    and "sif_mmio_write32 0x1000F230 d (s2, e2) = Some (s3, e3)"
  shows "sif_iop_mmio_read32 0xBD000020 (s1, e1) = Some (msflag s OR a, (s1, e1)) \<and>
    sif_mmio_read32 0x1000F230 (s2, e2) = Some (b OR 0x40000000, (s2, e2)) \<and>
    (b AND NOT (smflag s) \<noteq> 0 \<longrightarrow> bit (stat e2) 1) \<and>
    sif_iop_mmio_read32 0xBD000030 (s3, e3) = Some (b AND NOT d, (s3, e3)) \<and>
    sif_mmio_read32 0x1000F230 (s3, e3) = Some ((b AND NOT d) OR 0x40000000, (s3, e3)) \<and> msflag s3 = msflag s OR a"
proof -
  have w: "sif_iop_window 0xBD000020" "sif_iop_window 0xBD000030" "sif_iop_window 0x1D000030" by (simp_all add: sif_iop_window_def)
  have r: "(s1, e1) = (s\<lparr>msflag := msflag s OR a\<rparr>, e)" "(s2, e2) = smflag_set b (s1, e1)" "(s3, e3) = (smflag_clear d s2, e2)"
    using assms w by (simp_all add: sif_mmio_write32_def sif_iop_mmio_write32_def)
  have s2: "smflag s2 = b" "msflag s2 = msflag s OR a"
    "b AND NOT (smflag s) \<noteq> 0 \<Longrightarrow> bit (stat e2) 1"
    using r(1,2) by (auto simp: smflag_set_def Let_def arm_reassert_def ee_intc_raise_def bit_simps split: if_splits)
  moreover have "smflag s3 = b AND NOT d" "msflag s3 = msflag s OR a"
    using r(3) s2 by (simp_all add: smflag_clear_def arm_reassert_def Let_def)
  ultimately show ?thesis using r(1) w by (simp add: sif_iop_mmio_read32_def sif_mmio_read32_def)
qed

theorem mailbox_handshake_witness:
  "\<exists>s2 e2. sif_iop_mmio_write32 0x1D000030 0x70001 (booted\<lparr>msflag := 4\<rparr>, ee_intc_init) = Some (s2, e2) \<and> bit (stat e2) 1"
proof -
  have "\<exists>s1 e1. sif_mmio_write32 0x1000F220 4 (booted, ee_intc_init) = Some (s1, e1) \<and> s1 = booted\<lparr>msflag := 4\<rparr> \<and> e1 = ee_intc_init"
    by (simp add: sif_mmio_write32_def booted_def)
  moreover have w: "sif_iop_window 0x1D000030" by (simp add: sif_iop_window_def)
  then obtain s2 e2 where "sif_iop_mmio_write32 0x1D000030 0x70001 (booted\<lparr>msflag := 4\<rparr>, ee_intc_init) = Some (s2, e2)"
    using sif_iop.write_claimed by fastforce
  moreover obtain s3 e3 where "sif_mmio_write32 0x1000F230 1 (s2, e2) = Some (s3, e3)"
    by (simp add: sif_mmio_write32_def)
  ultimately show ?thesis using mailbox_handshake [of 4 booted ee_intc_init] by (fastforce simp: booted_def)
qed

section \<open>The binding table is a map\<close>

lemma find_index_padded: "cd \<noteq> 0 \<Longrightarrow> list_find_index (\<lambda>e. fst e = cd) (es @ replicate k (0, 0)) = list_find_index (\<lambda>e. fst e = cd) es"
proof (induction es)
  case Nil
  then show ?case by (simp add: list_find_index_None)
qed simp

lemma map_of_find_index: "map_of es cd = map_option (\<lambda>i. snd (es ! i)) (list_find_index (\<lambda>e. fst e = cd) es)"
  by (induction es) (auto simp: option.map_comp comp_def)

lemma update_find_index:
  "AList.update cd sid es =
     (case list_find_index (\<lambda>e. fst e = cd) es of Some i \<Rightarrow> es[i := (cd, sid)] | None \<Rightarrow> es @ [(cd, sid)])"
  by (induction es) (auto split: option.splits)

text \<open>The used slots are a list of bindings of distinct clients, the rest of the table is empty.\<close>

definition table_holds :: "(u32 \<times> u32) list \<Rightarrow> sif_cmd \<Rightarrow> bool" where
  "table_holds es c \<longleftrightarrow> length es \<le> 16 \<and> bind_table c = es @ replicate (16 - length es) (0, 0) \<and> bind_next c = length es mod 16 \<and>
     distinct (map fst es) \<and> 0 \<notin> fst ` set es"

lemma lookup_holds: "table_holds es c \<Longrightarrow> cd \<noteq> 0 \<Longrightarrow> sif_cmd_iop_lookup_bind_sid cd c = (case map_of es cd of Some sid \<Rightarrow> sid | None \<Rightarrow> 0)"
  using list_find_index_Some [of "\<lambda>e. fst e = cd" es]
  by (auto simp: table_holds_def sif_cmd_iop_lookup_bind_sid_def find_index_padded map_of_find_index nth_append split: option.splits)

lemma track_holds:
  assumes "table_holds es c" and "cd \<noteq> 0" and "card (insert cd (fst ` set es)) \<le> 16"
  shows "table_holds (AList.update cd sid es) (sif_cmd_iop_track_bind_sid cd sid c)"
proof -
  have d: "distinct (map fst (AList.update cd sid es))" "0 \<notin> fst ` set (AList.update cd sid es)"
    using assms(1,2) by (auto simp: table_holds_def distinct_update dom_update)
  note t = assms(1) [unfolded table_holds_def]
  show ?thesis
  proof (cases "list_find_index (\<lambda>e. fst e = cd) es")
    case None
    then have "cd \<notin> fst ` set es" by (auto simp: list_find_index_None)
    moreover have "card (fst ` set es) = length es" using t by (metis distinct_card length_map list.set_map)
    ultimately have lt: "length es < 16" using assms(3) by simp
    then obtain k where k: "16 - length es = Suc k" by (cases "16 - length es") simp_all
    then have "(es @ replicate (16 - length es) (0, 0))[length es := (cd, sid)] = (es @ [(cd, sid)]) @ replicate (16 - Suc (length es)) (0, 0)"
      by (simp add: list_update_append)
    with None d t lt show ?thesis
      by (simp add: table_holds_def sif_cmd_iop_track_bind_sid_def find_index_padded assms(2) update_find_index)
  next
    case (Some i)
    then have "i < length es" using list_find_index_Some by blast
    with Some d t show ?thesis
      by (simp add: table_holds_def sif_cmd_iop_track_bind_sid_def find_index_padded assms(2) update_find_index list_update_append)
  qed
qed

definition track_all :: "(u32 \<times> u32) list \<Rightarrow> sif_cmd \<Rightarrow> sif_cmd" where
  "track_all ts c = fold (\<lambda>(cd, sid). sif_cmd_iop_track_bind_sid cd sid) ts c"

lemma track_all_holds:
  assumes "\<forall>t \<in> set ts. fst t \<noteq> 0" and "card (fst ` set ts) \<le> 16"
  shows "\<exists>es. table_holds es (track_all ts (fst (sif_cmd_iop_init s))) \<and> map_of es = map_of (rev ts) \<and> fst ` set es = fst ` set ts"
  using assms
proof (induction ts rule: rev_induct)
  case Nil
  show ?case by (rule exI [of _ "[]"]) (simp add: track_all_def table_holds_def sif_cmd_iop_init_def)
next
  case (snoc t ts)
  obtain cd sid where t: "t = (cd, sid)" by (cases t)
  have c: "card (fst ` set ts) \<le> 16"
    by (rule order_trans [OF card_mono snoc.prems(2)]) auto
  with snoc obtain es where es: "table_holds es (track_all ts (fst (sif_cmd_iop_init s)))" "map_of es = map_of (rev ts)" "fst ` set es = fst ` set ts"
    by auto
  have "table_holds (AList.update cd sid es) (sif_cmd_iop_track_bind_sid cd sid (track_all ts (fst (sif_cmd_iop_init s))))"
    using snoc.prems es(3) by (intro track_holds [OF es(1)]) (simp_all add: t)
  with es show ?case by (intro exI [of _ "AList.update cd sid es"]) (simp add: t track_all_def update_conv' dom_update)
qed

text \<open>As long as at most 16 clients bind, the table is a map from clients to services: after any sequence of
  binds of non-null clients, a lookup gives the service of the client's latest bind, and 0 for a
  client that never bound.\<close>

theorem bind_table_is_map:
  assumes "\<forall>t \<in> set ts. fst t \<noteq> 0" and "card (fst ` set ts) \<le> 16" and "cd \<noteq> 0"
  shows "sif_cmd_iop_lookup_bind_sid cd (track_all ts (fst (sif_cmd_iop_init s))) =
    (case map_of (rev ts) cd of Some sid \<Rightarrow> sid | None \<Rightarrow> 0)"
  using track_all_holds [OF assms(1,2), of s] lookup_holds [OF _ assms(3)] by metis

theorem bind_table_is_map_witness:
  "sif_cmd_iop_lookup_bind_sid 0x200 (track_all [(0x100, 7), (0x200, 8), (0x200, 9)] (fst (sif_cmd_iop_init booted))) = 9"
proof -
  have "card (fst ` set [(0x100 :: u32, 7 :: u32), (0x200, 8), (0x200, 9)]) \<le> 16" by simp
  with bind_table_is_map [of "[(0x100, 7), (0x200, 8), (0x200, 9)]" "0x200" booted] show ?thesis by simp
qed

section \<open>The queue level of the image processor\<close>

inductive ipu_reachable :: "ipu_state \<Rightarrow> bool" where
  at_reset: "ipu_reachable ipu_init"
| on_store: "ipu_reachable g \<Longrightarrow> ipu_mmio_write32 addr v g = Some g' \<Longrightarrow> ipu_reachable g'"
| on_data: "ipu_reachable g \<Longrightarrow> ipu_reachable (ipu_process_quadwords qwc g)"

lemma fill_fifo_le: "c \<le> 8 \<Longrightarrow> fill_fifo n c \<le> 8 \<and> unat (fill_fifo n c) = min 8 (unat c + n)"
proof (induction n arbitrary: c)
  case 0
  then show ?case by (simp add: word_le_nat_alt)
next
  case (Suc n)
  show ?case
  proof (cases "c \<ge> 8")
    case True
    with Suc.prems have "c = 8" by simp
    then show ?thesis by simp
  next
    case False
    then have "unat (c + 1) = unat c + 1" by (simp add: unat_word_ariths word_le_nat_alt)
    with False Suc.IH [of "c + 1"] show ?thesis by (simp add: word_le_nat_alt)
  qed
qed

definition fifo_inv :: "ipu_state \<Rightarrow> bool" where
  "fifo_inv g \<longleftrightarrow> in_fifo_count g \<le> 8 \<and> ictrl g AND 0xF = in_fifo_count g"

lemma mask4: "(0xF :: u32) = mask 4" by (simp add: mask_eq_exp_minus_1)

lemma keep_nibble: "(x AND m) AND 0xF = 0 \<Longrightarrow> ((x AND m) OR (y AND NOT m)) AND 0xF = y AND 0xF" if "m AND 0xF = 0" for m x y :: u32
proof -
  have "(y AND NOT m) AND 0xF = y AND 0xF"
  proof (rule bit_word_eqI)
    fix k
    show "bit ((y AND NOT m) AND 0xF) k = bit (y AND 0xF) k" if "k < LENGTH(32)"
      using arg_cong [OF \<open>m AND 0xF = 0\<close>, of "\<lambda>w. bit w k"] that by (auto simp: bit_simps mask4)
  qed
  then show "(x AND m) AND 0xF = 0 \<Longrightarrow> ((x AND m) OR (y AND NOT m)) AND 0xF = y AND 0xF"
    by (simp add: bit.conj_disj_distrib2)
qed

lemma low_nibble: "((x AND NOT 0xF) OR (c AND 0xF)) AND 0xF = c AND (0xF :: u32)"
  by (rule bit_word_eqI) (auto simp: bit_simps mask4)

lemma small_nibble: "c \<le> 8 \<Longrightarrow> c AND 0xF = (c :: u32)"
proof -
  assume "c \<le> 8"
  then have "unat c < 2 ^ 4" by (simp add: word_le_nat_alt)
  then show ?thesis unfolding mask4 and_mask_eq by (intro unat_eqI) (simp add: unat_take_bit)
qed

lemma count_field: "c \<le> 8 \<Longrightarrow> ((x AND NOT 0xF) OR (c AND 0xF)) AND 0xF = (c :: u32)"
  unfolding low_nibble by (rule small_nibble)

lemma bclr_inv: "fifo_inv (ipu_cmd_bclr g)"
proof -
  have "(ictrl g AND NOT (0x0000000F OR 0x00080000 OR 0x00040000)) AND 0xF = 0" by (simp add: and.assoc)
  then show ?thesis by (simp add: fifo_inv_def ipu_cmd_bclr_def)
qed

lemma ipu_store_inv:
  assumes "fifo_inv g" and "ipu_mmio_write32 addr v g = Some g'"
  shows "fifo_inv g'"
proof -
  have "(ictrl g AND NOT (0x00040000 OR 0x00080000)) AND 0xF = ictrl g AND 0xF" by (simp add: and.assoc)
  then have d: "fifo_inv (ipu_dispatch_cmd v g)"
    using assms(1) bclr_inv [of "g\<lparr>ictrl := ictrl g AND NOT (0x00040000 OR 0x00080000), cmd_data := v\<rparr>"]
    by (simp add: ipu_dispatch_cmd_def Let_def fifo_inv_def)
  have "((v AND 0x47F30000) OR (ictrl g AND NOT 0x47F30000)) AND 0xF = ictrl g AND 0xF"
    by (rule keep_nibble) (simp_all add: and.assoc)
  then have c: "fifo_inv (ctrl_write v g)"
    using assms(1) by (simp add: ctrl_write_def fifo_inv_def ipu_cmd_bclr_def)
  have k: "fifo_inv (g\<lparr>ipu_bp := v\<rparr>)" "fifo_inv (g\<lparr>ipu_top := v\<rparr>)" "fifo_inv (g\<lparr>topbusy := v\<rparr>)"
    using assms(1) by (simp_all add: fifo_inv_def)
  show ?thesis using assms d c k by (auto simp: ipu_mmio_write32_def split: if_splits)
qed

text \<open>In every state the program can bring the image processor into, the queue holds at most 8 quadwords and the
  count field of the control register shows exactly how many, so that no write of the register can
  make the two disagree; quadwords that do not fit are dropped.\<close>

theorem ipu_fifo_level:
  assumes "ipu_reachable g"
  shows "in_fifo_count g \<le> 8 \<and> ictrl g AND 0xF = in_fifo_count g \<and>
    unat (in_fifo_count (ipu_process_quadwords qwc g)) = min 8 (unat (in_fifo_count g) + unat qwc)"
proof -
  have "fifo_inv g" using assms
  proof (induction rule: ipu_reachable.induct)
    case at_reset
    then show ?case by (simp add: fifo_inv_def ipu_init_def)
  next
    case (on_store g addr v g')
    then show ?case by (blast intro: ipu_store_inv)
  next
    case (on_data g qwc)
    then have "fill_fifo (unat qwc) (in_fifo_count g) \<le> 8" using fill_fifo_le by (simp add: fifo_inv_def)
    with count_field [OF this, of "ictrl g"] show ?case by (simp add: fifo_inv_def ipu_process_quadwords_def Let_def)
  qed
  then show ?thesis using fill_fifo_le [of "in_fifo_count g" "unat qwc"]
    by (simp add: fifo_inv_def ipu_process_quadwords_def Let_def)
qed

theorem ipu_fifo_level_witness: "in_fifo_count (ipu_process_quadwords 20 (ipu_process_quadwords 3 ipu_init)) = 8"
proof -
  have "unat (in_fifo_count (ipu_process_quadwords 20 (ipu_process_quadwords 3 ipu_init))) = 8"
    using ipu_fifo_level [OF on_data [OF at_reset], of 3 20] ipu_fifo_level [OF at_reset, of 3] by (simp add: ipu_init_def)
  then show ?thesis by (intro unat_eqI) simp
qed

end
