(* ===== verification/Gs.thy ===== *)
theory Gs
  imports Prelude "HOL-Library.Signed_Division"
begin

text \<open>
  The display side: local memory of the graphics synthesizer with its linear and its swizzled
  addressing (\<open>source/hw/gs_mem.c\<close>), its privileged registers (\<open>source/hw/gs.c\<close>) and the
  conversion of its frame buffer for the console's video output (\<open>source/hw/gs_wii_output.c\<close>).

  Every address the code computes is a multiple of 4 and every access is one pixel, so the memory is
  a function from the byte offset of a pixel to the pixel. \<open>None\<close> is an access outside the 4 MB
  array: the bounds check \<open>off + 4 > GS_MEM_SIZE\<close> wraps for the offset \<open>0xFFFFFFFC\<close>.
\<close>

section \<open>Local memory\<close>

definition GS_MEM_SIZE :: u32 where "GS_MEM_SIZE = 4 * 1024 * 1024"

type_synonym gs_mem = "u32 \<Rightarrow> u32"

definition gs_mem_init :: gs_mem where "gs_mem_init = (\<lambda>_. 0)"

definition pixel_offset :: "u32 \<Rightarrow> u32 \<Rightarrow> u32 \<Rightarrow> u32 \<Rightarrow> u32" where
  "pixel_offset bp bw x y = bp * 4 + (y * bw + x) * 4"

definition mem_read_at :: "u32 \<Rightarrow> gs_mem \<Rightarrow> u32 option" where
  "mem_read_at off m =
     (if off + 4 > GS_MEM_SIZE then Some 0 else if off + 4 < off then None else Some (m off))"

definition mem_write_at :: "u32 \<Rightarrow> u32 \<Rightarrow> gs_mem \<Rightarrow> gs_mem option" where
  "mem_write_at off v m =
     (if off + 4 > GS_MEM_SIZE then Some m else if off + 4 < off then None else Some (m(off := v)))"

definition gs_mem_read_psmct32 :: "u32 \<Rightarrow> u32 \<Rightarrow> u32 \<Rightarrow> u32 \<Rightarrow> gs_mem \<Rightarrow> u32 option" where
  "gs_mem_read_psmct32 bp bw x y m = mem_read_at (pixel_offset bp bw x y) m"

definition gs_mem_write_psmct32 :: "u32 \<Rightarrow> u32 \<Rightarrow> u32 \<Rightarrow> u32 \<Rightarrow> u32 \<Rightarrow> gs_mem \<Rightarrow> gs_mem option" where
  "gs_mem_write_psmct32 bp bw x y rgba m = mem_write_at (pixel_offset bp bw x y) rgba m"

definition gs_mem_read_psmct32_blk :: "u32 \<Rightarrow> u32 \<Rightarrow> u32 \<Rightarrow> u32 \<Rightarrow> gs_mem \<Rightarrow> u32 option" where
  "gs_mem_read_psmct32_blk bp bw x y m = gs_mem_read_psmct32 (bp * 64) bw x y m"

definition gs_mem_write_psmct32_blk :: "u32 \<Rightarrow> u32 \<Rightarrow> u32 \<Rightarrow> u32 \<Rightarrow> u32 \<Rightarrow> gs_mem \<Rightarrow> gs_mem option" where
  "gs_mem_write_psmct32_blk bp bw x y rgba m = gs_mem_write_psmct32 (bp * 64) bw x y rgba m"

definition gs_psmct32_block_table :: "nat list list" where
  "gs_psmct32_block_table =
     [[ 0,  1,  4,  5, 16, 17, 20, 21],
      [ 2,  3,  6,  7, 18, 19, 22, 23],
      [ 8,  9, 12, 13, 24, 25, 28, 29],
      [10, 11, 14, 15, 26, 27, 30, 31]]"

definition gs_mem_swizzle_addr32 :: "u32 \<Rightarrow> u32 \<Rightarrow> u32 \<Rightarrow> u32 \<Rightarrow> u32" where
  "gs_mem_swizzle_addr32 bp bw x y =
     (let pages_per_row = (if bw div 64 = 0 then 1 else bw div 64);
          page_x = x div 64; page_y = y div 32; lx = x mod 64; ly = y mod 32;
          block_x = lx div 8; block_y = ly div 8;
          block_index = word_of_nat (gs_psmct32_block_table ! unat block_y ! unat block_x);
          px = lx mod 8; py = ly mod 8;
          within_block_offset = (py * 8 + px) * 4;
          page_index_in_buffer = page_y * pages_per_row + page_x;
          base = bp * 8192 + page_index_in_buffer * 8192
      in base + block_index * 256 + within_block_offset)"

definition gs_mem_read_psmct32_swizzled :: "u32 \<Rightarrow> u32 \<Rightarrow> u32 \<Rightarrow> u32 \<Rightarrow> gs_mem \<Rightarrow> u32 option" where
  "gs_mem_read_psmct32_swizzled bp bw x y m = mem_read_at (gs_mem_swizzle_addr32 bp bw x y) m"

definition gs_mem_write_psmct32_swizzled :: "u32 \<Rightarrow> u32 \<Rightarrow> u32 \<Rightarrow> u32 \<Rightarrow> u32 \<Rightarrow> gs_mem \<Rightarrow> gs_mem option" where
  "gs_mem_write_psmct32_swizzled bp bw x y rgba m = mem_write_at (gs_mem_swizzle_addr32 bp bw x y) rgba m"

section \<open>Privileged registers\<close>

text \<open>The register file by the address of the register.\<close>

definition gs_register_addrs :: "u32 list" where
  "gs_register_addrs = [0x12000000, 0x12000010, 0x12000020, 0x12000030, 0x12000040, 0x12000050, 0x12000060, 0x12000070,
     0x12000080, 0x12000090, 0x120000A0, 0x120000B0, 0x120000C0, 0x120000D0, 0x120000E0, 0x12001000, 0x12001010, 0x12001040, 0x12001080]"

type_synonym gs_regs = "u32 \<Rightarrow> u64"

definition gs_init :: gs_regs where
  "gs_init = (\<lambda>_. 0)(0x12001010 := 0x1F)"

definition gs_mmio_read64 :: "u32 \<Rightarrow> gs_regs \<Rightarrow> (u64 \<times> gs_regs) option" where
  "gs_mmio_read64 addr g =
     (if addr < 0x12000000 \<or> addr > 0x12001FFF then None
      else Some (if addr \<in> set gs_register_addrs then g addr else 0, g))"

definition gs_mmio_write64 :: "u32 \<Rightarrow> u64 \<Rightarrow> gs_regs \<Rightarrow> gs_regs option" where
  "gs_mmio_write64 addr v g =
     (if addr < 0x12000000 \<or> addr > 0x12001FFF then None
      else Some (if addr \<in> set gs_register_addrs
        then if addr = 0x12001000 then g(addr := g addr AND NOT v) else g(addr := v)
        else g))"

section \<open>Video output\<close>

definition clamp_channel :: "u8 \<Rightarrow> u8" where
  "clamp_channel c = (let c1 = (if c < 16 then 16 else c) in if c1 > 240 then 240 else c1)"

text \<open>The channels are promoted to \<open>int\<close>; the division truncates towards zero.\<close>

definition luma :: "int \<Rightarrow> int \<Rightarrow> int \<Rightarrow> int" where
  "luma r g b = (77 * r + 150 * g + 29 * b) sdiv 256"

definition chroma_b :: "int \<Rightarrow> int \<Rightarrow> int \<Rightarrow> int" where
  "chroma_b r g b = (112 * b - 74 * g - 38 * r) sdiv 512 + 128"

definition chroma_r :: "int \<Rightarrow> int \<Rightarrow> int \<Rightarrow> int" where
  "chroma_r r g b = (112 * r - 94 * g - 18 * b) sdiv 512 + 128"

definition gs_rgb8_pair_to_ycbcr :: "u8 \<Rightarrow> u8 \<Rightarrow> u8 \<Rightarrow> u8 \<Rightarrow> u8 \<Rightarrow> u8 \<Rightarrow> u32" where
  "gs_rgb8_pair_to_ycbcr r1 g1 b1 r2 g2 b2 =
     (let c = (\<lambda>v. uint (clamp_channel v));
          y1 = word_of_int (luma (c r1) (c g1) (c b1)) :: u8;
          y2 = word_of_int (luma (c r2) (c g2) (c b2)) :: u8;
          cb = word_of_int (chroma_b (c r1 + c r2) (c g1 + c g2) (c b1 + c b2)) :: u8;
          cr = word_of_int (chroma_r (c r1 + c r2) (c g1 + c g2) (c b1 + c b2)) :: u8
      in push_bit 24 (ucast y1) OR push_bit 16 (ucast cb) OR push_bit 8 (ucast y2) OR ucast cr)"

definition rgba32_to_rgb8 :: "u32 \<Rightarrow> u8 \<times> u8 \<times> u8" where
  "rgba32_to_rgb8 rgba = (ucast (rgba AND 0xFF), ucast (drop_bit 8 rgba AND 0xFF), ucast (drop_bit 16 rgba AND 0xFF))"

definition gs_decode_dispfb :: "u64 \<Rightarrow> u32 \<times> u32" where
  "gs_decode_dispfb d = (ucast (d AND 0x1FF) * 2048, ucast (drop_bit 9 d AND 0x3F) * 64)"

definition blit_pair :: "u32 \<Rightarrow> u32 \<Rightarrow> u32 \<Rightarrow> u32 \<Rightarrow> u32 \<Rightarrow> gs_mem \<Rightarrow> nat \<Rightarrow> nat \<Rightarrow> u32 option" where
  "blit_pair gs_bp gs_bw src_x src_y width m row col = do {
     p1 \<leftarrow> gs_mem_read_psmct32 gs_bp gs_bw (src_x + word_of_nat col) (src_y + word_of_nat row) m;
     p2 \<leftarrow> (if word_of_nat (col + 1) < width
            then gs_mem_read_psmct32 gs_bp gs_bw (src_x + word_of_nat col + 1) (src_y + word_of_nat row) m else Some p1);
     Some (let (r1, g1, b1) = rgba32_to_rgb8 p1; (r2, g2, b2) = rgba32_to_rgb8 p2 in gs_rgb8_pair_to_ycbcr r1 g1 b1 r2 g2 b2) }"

text \<open>The frame buffer of the host is a function from the word index; the loops go over rows and pairs of columns
  (of a width below \<open>2\<^sup>3\<^sup>2 - 1\<close>, for which the column counter would wrap).\<close>

fun blit_cols :: "(nat \<Rightarrow> u32 option) \<Rightarrow> (nat \<Rightarrow> u32) \<Rightarrow> nat list \<Rightarrow> (u32 \<Rightarrow> u32) \<Rightarrow> (u32 \<Rightarrow> u32) option" where
  "blit_cols pair dst [] xfb = Some xfb"
| "blit_cols pair dst (c # cs) xfb = do { v \<leftarrow> pair c; blit_cols pair dst cs (xfb(dst c := v)) }"

fun blit_rows :: "(nat \<Rightarrow> (u32 \<Rightarrow> u32) \<Rightarrow> (u32 \<Rightarrow> u32) option) \<Rightarrow> nat list \<Rightarrow> (u32 \<Rightarrow> u32) \<Rightarrow> (u32 \<Rightarrow> u32) option" where
  "blit_rows row [] xfb = Some xfb"
| "blit_rows row (r # rs) xfb = do { xfb1 \<leftarrow> row r xfb; blit_rows row rs xfb1 }"

definition gs_blit_psmct32_to_xfb :: "u32 \<Rightarrow> u32 \<Rightarrow> u32 \<Rightarrow> u32 \<Rightarrow> u32 \<Rightarrow> u32 \<Rightarrow> u32 \<Rightarrow> u32 \<Rightarrow> u32 \<Rightarrow> gs_mem \<Rightarrow> (u32 \<Rightarrow> u32) \<Rightarrow> (u32 \<Rightarrow> u32) option" where
  "gs_blit_psmct32_to_xfb xfb_width_px dst_x dst_y gs_bp gs_bw src_x src_y width height m xfb =
     blit_rows (\<lambda>row. blit_cols (blit_pair gs_bp gs_bw src_x src_y width m row)
         (\<lambda>col. (dst_y + word_of_nat row) * (xfb_width_px div 2) + (dst_x + word_of_nat col) div 2)
         (map (\<lambda>k. 2 * k) [0..<(unat width + 1) div 2]))
       [0..<unat height] xfb"

section \<open>Reading back what was written\<close>

text \<open>The word accesses at one offset behave like an array with silent bounds.\<close>

lemma read_after_write:
  assumes "mem_write_at off v m = Some m'"
  shows "mem_read_at off m' = Some (if off + 4 > GS_MEM_SIZE then 0 else v)"
    and "off' \<noteq> off \<Longrightarrow> mem_read_at off' m' = mem_read_at off' m"
  using assms by (auto simp: mem_write_at_def mem_read_at_def split: if_splits)

lemma access_outside: "mem_write_at off v m = None \<longleftrightarrow> 0xFFFFFFFC \<le> off"
proof (cases "0xFFFFFFFC \<le> off")
  case True
  then have w: "0xFFFFFFFC \<le> unat off" by (simp add: word_le_nat_alt)
  have "\<not> off + 4 > GS_MEM_SIZE" using wrap4(1) [OF w] by (simp add: GS_MEM_SIZE_def word_less_nat_alt)
  then show ?thesis using wrap4(2) [OF w] True by (simp add: mem_write_at_def)
next
  case False
  then have "\<not> off + 4 < off" by (simp add: word_less_nat_alt word_le_nat_alt unat_word_ariths)
  then show ?thesis using False by (simp add: mem_write_at_def)
qed

text \<open>A pixel write leaves the memory array exactly at the pixel just before its start: the only coordinates
  that do not stay inside or get ignored are those whose linear position is \<open>-1\<close>, such as column \<open>-1\<close>
  of row 0 of a buffer at 0; the wrapped bounds check lets it through.\<close>

theorem pixel_write_bounds:
  "gs_mem_write_psmct32 bp bw x y v m = None \<longleftrightarrow> (bp + y * bw + x + 1) * 4 = 0"
proof -
  let ?o = "pixel_offset bp bw x y"
  have o: "?o = (bp + y * bw + x) * 4" by (simp add: pixel_offset_def algebra_simps)
  have "0xFFFFFFFC \<le> ?o \<longleftrightarrow> ?o + 4 = 0"
  proof
    assume "0xFFFFFFFC \<le> ?o"
    then have "unat (?o + 4) < 4" by (intro wrap4) (simp add: word_le_nat_alt)
    moreover have "?o + 4 = push_bit 2 (bp + y * bw + x + 1)" by (simp add: o push_bit_eq_mult algebra_simps)
    then have "unat (?o + 4) mod 4 = 0"
      using unat_take_bit [of 2 "?o + 4"] by (simp add: take_bit_push_bit)
    ultimately show "?o + 4 = 0" by (simp add: unat_eq_0 [symmetric])
  next
    assume "?o + 4 = 0"
    then have "?o = 0xFFFFFFFC" by (simp add: eq_neg_iff_add_eq_0 [symmetric])
    then show "0xFFFFFFFC \<le> ?o" by simp
  qed
  also have "?o + 4 = (bp + y * bw + x + 1) * 4" by (simp add: o algebra_simps)
  finally show ?thesis by (simp add: gs_mem_write_psmct32_def access_outside)
qed

section \<open>The swizzled layout\<close>

definition block_at :: "nat \<Rightarrow> nat \<Rightarrow> nat" where
  "block_at by' bx = gs_psmct32_block_table ! by' ! bx"

lemma less4: "(n :: nat) < 4 \<longleftrightarrow> n = 0 \<or> n = 1 \<or> n = 2 \<or> n = 3" by linarith

lemma less8: "(n :: nat) < 8 \<longleftrightarrow> n = 0 \<or> n = 1 \<or> n = 2 \<or> n = 3 \<or> n = 4 \<or> n = 5 \<or> n = 6 \<or> n = 7" by linarith

text \<open>No two positions of the block table hold the same block.\<close>

lemma block_at_concat: "r < 4 \<Longrightarrow> c < 8 \<Longrightarrow> block_at r c = concat gs_psmct32_block_table ! (8 * r + c)"
  unfolding less4 less8 by (elim disjE) (simp_all add: block_at_def gs_psmct32_block_table_def)

lemma block_at_inj:
  assumes "r < 4" "c < 8" "r' < 4" "c' < 8" and "block_at r c = block_at r' c'"
  shows "r = r' \<and> c = c'"
proof -
  have "distinct (concat gs_psmct32_block_table)" "length (concat gs_psmct32_block_table) = 32"
    by (simp_all add: gs_psmct32_block_table_def)
  with assms have "8 * r + c = 8 * r' + c'" by (simp add: block_at_concat nth_eq_iff_index_eq)
  with assms(2,4) show ?thesis by presburger
qed

lemma block_at_less: "r < 4 \<Longrightarrow> c < 8 \<Longrightarrow> block_at r c < 32"
  unfolding less4 less8 by (elim disjE) (simp_all add: block_at_def gs_psmct32_block_table_def)

definition swizzle_nat :: "nat \<Rightarrow> nat \<Rightarrow> nat \<Rightarrow> nat \<Rightarrow> nat" where
  "swizzle_nat bp p x y = 8192 * (bp + (y div 32) * p + x div 64) + 256 * block_at (y mod 32 div 8) (x mod 64 div 8) + 4 * (8 * (y mod 8) + x mod 8)"

lemma swizzle_as_nat:
  assumes "unat bw = 64 * p" and "0 < p"
  shows "gs_mem_swizzle_addr32 bp bw x y = word_of_nat (swizzle_nat (unat bp) p (unat x) (unat y))"
proof -
  have d: "w div word_of_nat k = word_of_nat (unat w div k)" if "k < 4294967296" for w :: u32 and k
    by (rule unat_eqI) (use that in \<open>simp add: unat_div_distrib less_imp_diff_less order_le_less_trans [OF div_le_dividend]\<close>)
  have bw: "bw div 64 = word_of_nat p" using assms d [of 64 bw] by simp
  have "(word_of_nat p :: u32) \<noteq> 0"
    using assms unat_u32 [of bw] by (simp add: word_of_nat_eq_0_iff nat_dvd_not_less)
  moreover have "unat (y mod 32 div 8) = unat y mod 32 div 8" "unat (x mod 64 div 8) = unat x mod 64 div 8"
    by (simp_all add: unat_div_distrib unat_mod_distrib)
  moreover have "y mod 32 mod 8 = word_of_nat (unat y mod 8)" "x mod 64 mod 8 = word_of_nat (unat x mod 8)"
    by (rule unat_eqI, simp add: unat_mod_distrib mod_mod_cancel)+
  moreover have "y div 32 = word_of_nat (unat y div 32)" "x div 64 = word_of_nat (unat x div 64)"
    using d [of 32 y] d [of 64 x] by simp_all
  ultimately show ?thesis
    by (simp add: gs_mem_swizzle_addr32_def Let_def bw swizzle_nat_def block_at_def algebra_simps)
qed

lemma in_block: "4 * (8 * (y mod 8) + x mod 8) \<le> (252 :: nat)"
proof -
  have "4 * (8 * a + b) \<le> 252" if "a \<le> 7" "b \<le> 7" for a b :: nat using that by arith
  moreover have "y mod 8 \<le> 7" "x mod 8 \<le> 7" by presburger+
  ultimately show ?thesis by blast
qed

lemma swizzle_in_page: "256 * block_at (y mod 32 div 8) (x mod 64 div 8) + 4 * (8 * (y mod 8) + x mod 8) < 8192"
proof -
  have "block_at (y mod 32 div 8) (x mod 64 div 8) < 32" by (rule block_at_less) (simp_all add: less_mult_imp_div_less)
  then have "block_at (y mod 32 div 8) (x mod 64 div 8) \<le> 31" by simp
  with in_block [of y x] show ?thesis by linarith
qed

lemma coordinate_split: "(x :: nat) = 64 * (x div 64) + 8 * (x mod 64 div 8) + x mod 8" "(y :: nat) = 32 * (y div 32) + 8 * (y mod 32 div 8) + y mod 8"
proof -
  have "x mod 64 = 8 * (x mod 64 div 8) + x mod 64 mod 8" "y mod 32 = 8 * (y mod 32 div 8) + y mod 32 mod 8" by simp_all
  moreover have "x mod 64 mod 8 = x mod 8" "y mod 32 mod 8 = y mod 8" by (simp_all add: mod_mod_cancel)
  ultimately show "x = 64 * (x div 64) + 8 * (x mod 64 div 8) + x mod 8" "y = 32 * (y div 32) + 8 * (y mod 32 div 8) + y mod 8"
    using mult_div_mod_eq [of 64 x] mult_div_mod_eq [of 32 y] by linarith+
qed

lemma swizzle_nat_inj:
  assumes "x < 64 * p" "x' < 64 * p" and "swizzle_nat bp p x y = swizzle_nat bp p x' y'"
  shows "x = x' \<and> y = y'"
proof -
  let ?in = "\<lambda>x y. 256 * block_at (y mod 32 div 8) (x mod 64 div 8) + 4 * (8 * (y mod 8) + x mod 8)"
  have n: "swizzle_nat bp p x y = (bp + (y div 32) * p + x div 64) * 8192 + ?in x y" for x y by (simp add: swizzle_nat_def)
  have page: "(y div 32) * p + x div 64 = (y' div 32) * p + x' div 64" and off: "?in x y = ?in x' y'"
    using mixed_radix [OF swizzle_in_page [of y x] swizzle_in_page [of y' x'] assms(3) [unfolded n]] by simp_all
  have "block_at (y mod 32 div 8) (x mod 64 div 8) = block_at (y' mod 32 div 8) (x' mod 64 div 8) \<and>
      4 * (8 * (y mod 8) + x mod 8) = 4 * (8 * (y' mod 8) + x' mod 8)"
    using off in_block [of y x] in_block [of y' x'] by (intro mixed_radix [where m = 256]) (simp_all add: mult.commute)
  then have blk: "block_at (y mod 32 div 8) (x mod 64 div 8) = block_at (y' mod 32 div 8) (x' mod 64 div 8)"
    and low: "y mod 8 * 8 + x mod 8 = y' mod 8 * 8 + x' mod 8" by simp_all
  have "y mod 32 div 8 = y' mod 32 div 8 \<and> x mod 64 div 8 = x' mod 64 div 8"
    by (rule block_at_inj [OF _ _ _ _ blk]) (simp_all add: less_mult_imp_div_less)
  moreover have "y mod 8 = y' mod 8 \<and> x mod 8 = x' mod 8" using low by (intro mixed_radix [where m = 8]) simp_all
  moreover have "y div 32 = y' div 32 \<and> x div 64 = x' div 64"
    using page assms(1,2) by (intro mixed_radix [where m = p]) (simp_all add: less_mult_imp_div_less mult.commute)
  ultimately show ?thesis using coordinate_split [of x] coordinate_split [of x'] coordinate_split(2) [of y] coordinate_split(2) [of y'] by metis
qed

text \<open>C17: In a swizzled frame buffer that lies inside the memory, every pixel has a place of its own: a write succeeds, is
  read back, and changes no other pixel of the buffer.\<close>

theorem swizzled_pixels:
  assumes "unat bw = 64 * p" and "0 < p" and "unat x < unat bw" and "unat x' < unat bw"
    and "8192 * (unat bp + (unat y div 32) * p + p) \<le> 0x400000" and "8192 * (unat bp + (unat y' div 32) * p + p) \<le> 0x400000"
  shows "\<exists>m'. gs_mem_write_psmct32_swizzled bp bw x y v m = Some m' \<and> gs_mem_read_psmct32_swizzled bp bw x y m' = Some v \<and>
    ((x', y') \<noteq> (x, y) \<longrightarrow> gs_mem_read_psmct32_swizzled bp bw x' y' m' = gs_mem_read_psmct32_swizzled bp bw x' y' m)"
proof -
  have bound: "swizzle_nat (unat bp) p (unat u) (unat w) + 4 \<le> 0x400000"
    if "unat u < unat bw" "8192 * (unat bp + (unat w div 32) * p + p) \<le> 0x400000" for u w :: u32
  proof -
    have "unat u div 64 < p" using that(1) assms(1) by (simp add: less_mult_imp_div_less mult.commute)
    then have "unat u div 64 + 1 \<le> p" by simp
    moreover have "block_at (unat w mod 32 div 8) (unat u mod 64 div 8) \<le> 31"
      using block_at_less [of "unat w mod 32 div 8" "unat u mod 64 div 8"] by (simp add: less_mult_imp_div_less)
    moreover note in_block [of "unat w" "unat u"]
    ultimately show ?thesis using that(2) unfolding swizzle_nat_def distrib_left by linarith
  qed
  define o1 o2 where "o1 = gs_mem_swizzle_addr32 bp bw x y" and "o2 = gs_mem_swizzle_addr32 bp bw x' y'"
  note n1 = bound [OF assms(3,5)] and n2 = bound [OF assms(4,6)]
  have u: "unat o1 = swizzle_nat (unat bp) p (unat x) (unat y)" "unat o2 = swizzle_nat (unat bp) p (unat x') (unat y')"
    unfolding o1_def o2_def swizzle_as_nat [OF assms(1,2)] by (rule unat_word_of_nat32; use n1 n2 in linarith)+
  have "unat (o1 + 4) = unat o1 + 4" using u n1 by (simp add: unat_word_ariths)
  then have in1: "\<not> o1 + 4 > GS_MEM_SIZE" "\<not> o1 + 4 < o1" using u n1 by (simp_all add: GS_MEM_SIZE_def word_less_nat_alt)
  have "o1 \<noteq> o2" if "(x', y') \<noteq> (x, y)"
  proof
    assume "o1 = o2"
    then have "unat x = unat x' \<and> unat y = unat y'"
      using swizzle_nat_inj [of "unat x" p "unat x'" "unat bp" "unat y" "unat y'"] u assms by simp
    with that show False by (simp add: word_unat_eq_iff)
  qed
  then show ?thesis using in1
    by (auto simp: gs_mem_write_psmct32_swizzled_def gs_mem_read_psmct32_swizzled_def mem_write_at_def mem_read_at_def o1_def [symmetric] o2_def [symmetric])
qed

theorem swizzled_pixels_witness:
  "\<exists>m'. gs_mem_write_psmct32_swizzled 2 640 639 40 7 gs_mem_init = Some m' \<and> gs_mem_read_psmct32_swizzled 2 640 639 40 m' = Some 7"
  using swizzled_pixels [of 640 10 639 0 2 40 0 7 gs_mem_init] by auto

section \<open>Colours stay in the broadcast range\<close>

lemma clamp_range: "16 \<le> uint (clamp_channel c) \<and> uint (clamp_channel c) \<le> 240"
  by (auto simp: clamp_channel_def Let_def word_less_alt not_less word_le_def)

lemma sdiv_bounds:
  assumes "\<bar>n\<bar> \<le> 50176"
  shows "- 98 \<le> n sdiv 512 \<and> n sdiv 512 \<le> (98 :: int)"
proof -
  have "\<bar>n\<bar> div 512 \<le> 98" using zdiv_mono1 [OF assms, of 512] by simp
  moreover have "0 \<le> \<bar>n\<bar> div 512" by simp
  ultimately show ?thesis by (cases "n < 0"; cases "n = 0") (simp_all add: signed_divide_int_def sgn_if)
qed

lemma luma_range:
  assumes "16 \<le> r" "r \<le> 240" "16 \<le> g" "g \<le> 240" "16 \<le> b" "b \<le> 240"
  shows "16 \<le> luma r g b \<and> luma r g b \<le> 240"
proof -
  have "16 * 256 \<le> 77 * r + 150 * g + 29 * b" "77 * r + 150 * g + 29 * b \<le> 240 * 256" using assms by linarith+
  moreover have "luma r g b = (77 * r + 150 * g + 29 * b) div 256" using assms by (simp add: luma_def signed_divide_int_def sgn_if)
  ultimately show ?thesis using zdiv_mono1 [of "16 * 256" "77 * r + 150 * g + 29 * b" 256] zdiv_mono1 [of "77 * r + 150 * g + 29 * b" "240 * 256" 256]
    by simp
qed

lemma chroma_range:
  assumes "32 \<le> r" "r \<le> 480" "32 \<le> g" "g \<le> 480" "32 \<le> b" "b \<le> 480"
  shows "16 \<le> chroma_b r g b \<and> chroma_b r g b \<le> 240" "16 \<le> chroma_r r g b \<and> chroma_r r g b \<le> 240"
  using sdiv_bounds [of "112 * b - 74 * g - 38 * r"] sdiv_bounds [of "112 * r - 94 * g - 18 * b"] assms
  unfolding chroma_b_def chroma_r_def by linarith+

lemma packed_fields:
  fixes a b c d :: u8
  assumes "w = push_bit 24 (ucast a) OR push_bit 16 (ucast b) OR push_bit 8 (ucast c) OR (ucast d :: u32)"
  shows "ucast (drop_bit 24 w) = a" "ucast (drop_bit 16 w) = b" "ucast (drop_bit 8 w) = c" "ucast w = d"
  unfolding assms by (rule bit_word_eqI; auto simp: bit_simps dest: bit_imp_le_length)+

text \<open>Whatever the colours of a pair of pixels, both luma and both chroma bytes of the converted word are in the
  broadcast-safe range 16 to 240 (no conversion to a byte wraps), and two grey pixels have neutral
  chroma.\<close>

theorem ycbcr_range:
  assumes "w = gs_rgb8_pair_to_ycbcr r1 g1 b1 r2 g2 b2" and "v \<in> {ucast (drop_bit 24 w), ucast (drop_bit 16 w), ucast (drop_bit 8 w), ucast w :: u8}"
  shows "16 \<le> v \<and> v \<le> 240 \<and>
    (r1 = g1 \<and> g1 = b1 \<and> r2 = g2 \<and> g2 = b2 \<longrightarrow> ucast (drop_bit 16 w) = (128 :: u8) \<and> ucast w = (128 :: u8))"
proof -
  let ?c = "\<lambda>v. uint (clamp_channel v)"
  let ?y1 = "luma (?c r1) (?c g1) (?c b1)" and ?y2 = "luma (?c r2) (?c g2) (?c b2)"
  let ?cb = "chroma_b (?c r1 + ?c r2) (?c g1 + ?c g2) (?c b1 + ?c b2)" and ?cr = "chroma_r (?c r1 + ?c r2) (?c g1 + ?c g2) (?c b1 + ?c b2)"
  have w: "w = push_bit 24 (ucast (word_of_int ?y1 :: u8)) OR push_bit 16 (ucast (word_of_int ?cb :: u8)) OR
      push_bit 8 (ucast (word_of_int ?y2 :: u8)) OR ucast (word_of_int ?cr :: u8)"
    unfolding assms(1) gs_rgb8_pair_to_ycbcr_def Let_def ..
  note f = packed_fields [OF w]
  have r: "16 \<le> (word_of_int k :: u8) \<and> (word_of_int k :: u8) \<le> 240" if "16 \<le> k \<and> k \<le> 240" for k :: int
    using that by (simp add: word_le_def unsigned_of_int take_bit_int_eq_self)
  have "16 \<le> ?y1 \<and> ?y1 \<le> 240" "16 \<le> ?y2 \<and> ?y2 \<le> 240" using clamp_range by (intro luma_range; blast)+
  moreover have s: "32 \<le> ?c u + ?c u' \<and> ?c u + ?c u' \<le> 480" for u u' using clamp_range [of u] clamp_range [of u'] by linarith
  have "16 \<le> ?cb \<and> ?cb \<le> 240" "16 \<le> ?cr \<and> ?cr \<le> 240" using s by (intro chroma_range; blast)+
  ultimately have "16 \<le> v \<and> v \<le> 240" using assms(2) f r by auto
  moreover have "?cb = 128" "?cr = 128" if "r1 = g1 \<and> g1 = b1 \<and> r2 = g2 \<and> g2 = b2"
    using that by (simp_all add: chroma_b_def chroma_r_def signed_divide_int_def)
  ultimately show ?thesis using f by auto
qed

theorem ycbcr_range_witness: "16 \<le> (ucast (gs_rgb8_pair_to_ycbcr 255 0 0 0 0 0) :: u8)"
  using ycbcr_range [OF refl, of "ucast (gs_rgb8_pair_to_ycbcr 255 0 0 0 0 0)" 255 0 0 0 0 0] by simp

end
