(* ===== verification/Ee_Mem.thy ===== *)
theory Ee_Mem
  imports Ee_Dma Timers Sif Gs Ee_Misc Rom
begin

text \<open>
  The EE's processor state (\<open>include/core/ee/ee_core.h\<close>), its address translation, exception entry
  and memory interface (\<open>source/core/ee/ee_core.c\<close>, \<open>ee_tlb_translate\<close> to \<open>ee_mem_write64\<close>).

  Main memory and the scratchpad are buffers the DMA controller holds pointers to, and a store to a
  channel's control register can start a transfer that changes any device. So the devices sit in
  the \<open>dworld\<close> of the DMA state, and one field \<open>e_dma\<close> holds the memory and everything behind the
  bus. The registers of the GIF are an argument (\<open>ee_env\<close>), as are the sinks of the DMA channels;
  the state they and the other unmodelled parts keep has a type of its own.

  Signed C arithmetic is two's complement; \<open>None\<close> is an access outside a C array.
\<close>

section \<open>State\<close>

record ee_reg128 =
  ud0 :: u64
  ud1 :: u64

record tlb_entry =
  page_mask :: u32
  entry_hi :: u32
  entry_lo0 :: u32
  entry_lo1 :: u32

record 'x ee_hw =
  hw_intc :: ee_intc_state
  hw_sif :: sif_state
  hw_sifcmd :: sif_cmd
  hw_timers :: ee_timers_state
  hw_sio :: ee_sio_state
  hw_ipu :: ipu_state
  hw_mch :: mch_state
  hw_dve :: dve_state
  hw_gs :: gs_regs
  hw_ext :: 'x

type_synonym 'x ee_bus = "'x ee_hw ee_dma"

record 'x ee_state =
  e_gpr :: "nat \<Rightarrow> ee_reg128"
  e_hi :: ee_reg128
  e_lo :: ee_reg128
  e_pc :: u32
  e_next_pc :: u32
  sa_reg :: u32
  e_cop0 :: "nat \<Rightarrow> u32"
  branch_pending :: bool
  tlb :: "tlb_entry list"
  exc_this_pc :: u32
  exc_in_delay_slot :: bool
  exc_raised_this_step :: bool
  mem_tlb_miss :: bool
  fpr :: "nat \<Rightarrow> u32"
  fcr31 :: u32
  acc :: u32
  cop2_ctrl :: "nat \<Rightarrow> u32"
  vu0_vf :: "nat \<Rightarrow> nat \<Rightarrow> u32"
  e_bios :: "bios_image option"
  e_instructions_executed :: u64
  e_halted :: bool
  e_halt_reason :: string
  e_idle :: bool
  e_dma :: "'x ee_bus"

definition set_cop0 :: "nat \<Rightarrow> u32 \<Rightarrow> 'x ee_state \<Rightarrow> 'x ee_state" where
  "set_cop0 r v st = st\<lparr>e_cop0 := (e_cop0 st)(r := v)\<rparr>"

section \<open>Address translation\<close>

definition tlb_mask :: "tlb_entry \<Rightarrow> u32" where
  "tlb_mask e = drop_bit 13 (page_mask e) AND 0xFFF"

definition is_global :: "tlb_entry \<Rightarrow> bool" where
  "is_global e \<longleftrightarrow> entry_lo0 e AND 1 \<noteq> 0 \<and> entry_lo1 e AND 1 \<noteq> 0"

definition tlb_matches :: "u32 \<Rightarrow> u32 \<Rightarrow> tlb_entry \<Rightarrow> bool" where
  "tlb_matches want_vpn2 want_asid e \<longleftrightarrow>
     (drop_bit 13 (entry_hi e) AND 0x7FFFF) AND NOT (tlb_mask e) = want_vpn2 AND NOT (tlb_mask e) \<and>
     (is_global e \<or> entry_hi e AND 0xFF = want_asid)"

text \<open>The loop that finds the bit that selects the even or the odd page.\<close>

function select_loop :: "nat \<Rightarrow> u32 \<Rightarrow> nat" where
  "select_loop page_select_bit doubling =
     (if doubling > 1 then select_loop (Suc page_select_bit) (drop_bit 1 doubling) else page_select_bit)"
  by pat_completeness auto
termination
proof (relation "measure (\<lambda>(_, d). unat d)", simp, simp only: in_measure prod.case)
  fix b and d :: u32
  assume "1 < d"
  then have "1 < unat d" by (simp add: word_less_nat_alt)
  then show "unat (drop_bit 1 d) < unat d" by (simp add: unat_drop_bit)
qed

declare select_loop.simps [simp del]

definition translate_with :: "tlb_entry \<Rightarrow> u32 \<Rightarrow> u32" where
  "translate_with e vaddr =
     (let b = select_loop 12 (tlb_mask e + 1);
          lo = (if vaddr AND push_bit b 1 \<noteq> 0 then entry_lo1 e else entry_lo0 e);
          pfn = drop_bit 6 lo AND 0xFFFFF
      in push_bit 12 (pfn AND NOT (tlb_mask e)) OR (vaddr AND (push_bit b 1 - 1)))"

definition ee_tlb_translate :: "'x ee_state \<Rightarrow> u32 \<Rightarrow> u32 option" where
  "ee_tlb_translate st vaddr =
     map_option (\<lambda>e. translate_with e vaddr)
       (find (tlb_matches (drop_bit 13 vaddr AND 0x7FFFF) (e_cop0 st 10 AND 0xFF)) (tlb st))"

section \<open>Exceptions\<close>

abbreviation (input) EE_EXC_CODE_INT :: u32 where "EE_EXC_CODE_INT \<equiv> 0x00"
abbreviation (input) EE_EXC_CODE_TLBL :: u32 where "EE_EXC_CODE_TLBL \<equiv> 0x08"
abbreviation (input) EE_EXC_CODE_TLBS :: u32 where "EE_EXC_CODE_TLBS \<equiv> 0x0C"
abbreviation (input) EE_EXC_CODE_SYS :: u32 where "EE_EXC_CODE_SYS \<equiv> 0x20"
abbreviation (input) EE_EXC_CODE_BP :: u32 where "EE_EXC_CODE_BP \<equiv> 0x24"
abbreviation (input) EE_EXC_CODE_TR :: u32 where "EE_EXC_CODE_TR \<equiv> 0x34"

definition exc_offset :: "u32 \<Rightarrow> u32" where
  "exc_offset code = (if code = EE_EXC_CODE_TLBL \<or> code = EE_EXC_CODE_TLBS then 0x000
     else if code = EE_EXC_CODE_INT then 0x200 else 0x180)"

definition ee_raise_exception :: "u32 \<Rightarrow> u32 \<Rightarrow> bool \<Rightarrow> 'x ee_state \<Rightarrow> 'x ee_state" where
  "ee_raise_exception code this_pc in_delay_slot st =
     (let st1 = set_cop0 13 ((e_cop0 st 13 AND NOT (0x7C OR 0x80000000)) OR (code AND 0x7C)) st;
          nested = e_cop0 st1 12 AND 0x2 \<noteq> 0;
          st2 = (if nested then st1
                 else let s = set_cop0 12 (e_cop0 st1 12 OR 0x2) st1 in
                   if in_delay_slot then set_cop0 13 (e_cop0 s 13 OR 0x80000000) (set_cop0 14 (this_pc - 4) s)
                   else set_cop0 14 this_pc s);
          offset = (if nested then 0x180 else exc_offset code);
          base = (if e_cop0 st2 12 AND 0x00400000 \<noteq> 0 then 0xBFC00200 else 0x80000000)
      in st2\<lparr>e_pc := base + offset, e_next_pc := base + offset + 4\<rparr>)"

definition ee_raise_tlb_exception :: "bool \<Rightarrow> u32 \<Rightarrow> u32 \<Rightarrow> bool \<Rightarrow> 'x ee_state \<Rightarrow> 'x ee_state" where
  "ee_raise_tlb_exception is_store vaddr this_pc in_delay_slot st =
     (if exc_raised_this_step st then st
      else let st1 = set_cop0 8 vaddr (st\<lparr>exc_raised_this_step := True\<rparr>);
               st2 = set_cop0 4 ((e_cop0 st1 4 AND 0xFF80000F) OR (drop_bit 9 vaddr AND 0x007FFFF0)) st1;
               st3 = set_cop0 10 ((vaddr AND 0xFFFFE000) OR (e_cop0 st2 10 AND 0x1FFF)) st2
           in ee_raise_exception (if is_store then EE_EXC_CODE_TLBS else EE_EXC_CODE_TLBL) this_pc in_delay_slot st3)"

section \<open>Locating an access\<close>

datatype ee_ptr = At_Ram u32 | At_Scratch u32 | At_Bios u32

text \<open>The pointer, and the state with the flag that says whether a missing pointer is a TLB miss.\<close>

definition ee_phys_ptr :: "'x ee_state \<Rightarrow> u32 \<Rightarrow> u32 \<Rightarrow> ee_ptr option" where
  "ee_phys_ptr st phys sz =
     (if phys \<ge> 0x1FC00000 then
        let off = phys - 0x1FC00000 in
        (case e_bios st of
           Some b \<Rightarrow> if off + sz \<le> bsize b then Some (At_Bios off) else None
         | None \<Rightarrow> None)
      else if phys + sz \<le> ee_ram_size (e_dma st) then Some (At_Ram phys) else None)"

definition ee_mem_ptr :: "'x ee_state \<Rightarrow> u32 \<Rightarrow> u32 \<Rightarrow> ee_ptr option \<times> 'x ee_state" where
  "ee_mem_ptr st addr sz =
     (if addr \<ge> 0x70000000 \<and> addr < 0x70004000 then
        let off = addr - 0x70000000 in
        (if off + sz \<le> 0x4000 then Some (At_Scratch off) else None, st)
      else case (if addr < 0x80000000 \<or> addr \<ge> 0xC0000000 then ee_tlb_translate st addr
                 else Some (addr AND 0x1FFFFFFF)) of
        None \<Rightarrow> (None, st\<lparr>mem_tlb_miss := True\<rparr>)
      | Some phys \<Rightarrow> (ee_phys_ptr st phys sz, st\<lparr>mem_tlb_miss := False\<rparr>))"

definition ee_mem_check_tlb_fault :: "u32 \<Rightarrow> bool \<Rightarrow> 'x ee_state \<Rightarrow> 'x ee_state" where
  "ee_mem_check_tlb_fault addr is_store st =
     (if mem_tlb_miss st
      then ee_raise_tlb_exception is_store addr (exc_this_pc st) (exc_in_delay_slot st) st else st)"

definition ee_hw_mmio_addr :: "u32 \<Rightarrow> u32" where
  "ee_hw_mmio_addr addr = (if addr \<ge> 0x80000000 then addr AND 0x1FFFFFFF else addr)"

fun buf_byte :: "(u32 \<Rightarrow> u8) option \<Rightarrow> u32 \<Rightarrow> u8" where
  "buf_byte (Some m) a = m a"
| "buf_byte None a = 0"

fun ee_byte :: "'x ee_state \<Rightarrow> ee_ptr \<Rightarrow> u32 \<Rightarrow> u8" where
  "ee_byte st (At_Ram p) k = buf_byte (ee_ram (e_dma st)) (p + k)"
| "ee_byte st (At_Scratch p) k = buf_byte (ee_scratch (e_dma st)) (p + k)"
| "ee_byte st (At_Bios p) k = (case e_bios st of Some b \<Rightarrow> bdata b (p + k) | None \<Rightarrow> 0)"

fun ee_set_byte :: "ee_ptr \<Rightarrow> u32 \<Rightarrow> u8 \<Rightarrow> 'x ee_state \<Rightarrow> 'x ee_state" where
  "ee_set_byte (At_Ram p) k v st =
     st\<lparr>e_dma := (e_dma st)\<lparr>ee_ram := map_option (\<lambda>m. m(p + k := v)) (ee_ram (e_dma st))\<rparr>\<rparr>"
| "ee_set_byte (At_Scratch p) k v st =
     st\<lparr>e_dma := (e_dma st)\<lparr>ee_scratch := map_option (\<lambda>m. m(p + k := v)) (ee_scratch (e_dma st))\<rparr>\<rparr>"
| "ee_set_byte (At_Bios p) k v st =
     st\<lparr>e_bios := map_option (\<lambda>b. b\<lparr>bdata := (bdata b)(p + k := v)\<rparr>) (e_bios st)\<rparr>"

section \<open>Registers behind the bus\<close>

text \<open>
  The parts of the program that are not modelled: the registers of the graphics interface and the
  consumers of the DMA channels; and, on the whole processor state, the recompiler (\<open>None\<close> when it
  declines an instruction), the kernel calls behind SYSCALL, the floating-point and vector
  coprocessors, the thread manager, and the work the main loop does once per tick for particular
  programs and pending calls.
\<close>

datatype 's ee_run = Undefined | Stopped 's | Running 's

record 'x ee_env =
  sinks :: "'x ee_hw dma_sinks"
  gif_read32 :: "u32 \<Rightarrow> 'x ee_bus \<Rightarrow> (u32 \<times> 'x ee_bus) option"
  gif_write32 :: "u32 \<Rightarrow> u32 \<Rightarrow> 'x ee_bus \<Rightarrow> 'x ee_bus option"
  jit_try_execute_one :: "u32 \<Rightarrow> 'x ee_state \<Rightarrow> 'x ee_state option"
  kernel_syscall :: "u32 \<Rightarrow> bool \<Rightarrow> 'x ee_state \<Rightarrow> 'x ee_state ee_run"
  exec_cop1 :: "u32 \<Rightarrow> u32 \<Rightarrow> 'x ee_state \<Rightarrow> 'x ee_state ee_run"
  exec_cop2 :: "u32 \<Rightarrow> u32 \<Rightarrow> 'x ee_state \<Rightarrow> 'x ee_state ee_run"
  thread_check_preempt :: "'x ee_state \<Rightarrow> 'x ee_state"
  thread_exit_current :: "'x ee_state \<Rightarrow> 'x ee_state"
  thread_reschedule_kick :: "'x ee_state \<Rightarrow> 'x ee_state"
  pad_area_refresh :: "'x ee_state \<Rightarrow> 'x ee_state"
  boot_checks :: "'x ee_state \<Rightarrow> 'x ee_state"
  pending_calls :: "'x ee_state \<Rightarrow> 'x ee_state"

text \<open>Nothing behind the unmodelled parts: they decline, do nothing or stop.\<close>

definition bare_env :: "'x ee_env" where
  "bare_env = \<lparr>sinks = \<lambda>_. None, gif_read32 = \<lambda>_ _. None, gif_write32 = \<lambda>_ _ _. None,
     jit_try_execute_one = \<lambda>_ _. None, kernel_syscall = \<lambda>_ _ st. Stopped st, exec_cop1 = \<lambda>_ _ st. Stopped st,
     exec_cop2 = \<lambda>_ _ st. Stopped st, thread_check_preempt = id, thread_exit_current = id,
     thread_reschedule_kick = id, pad_area_refresh = id, boot_checks = id, pending_calls = id\<rparr>"

text \<open>A block that lives in one component of the devices, as a handler on the whole bus.\<close>

definition dev_read :: "('x ee_hw \<Rightarrow> 'd) \<Rightarrow> ('d \<Rightarrow> 'x ee_hw \<Rightarrow> 'x ee_hw) \<Rightarrow> (u32 \<Rightarrow> 'd \<Rightarrow> ('v \<times> 'd) option)
    \<Rightarrow> u32 \<Rightarrow> 'x ee_bus \<Rightarrow> ('v \<times> 'x ee_bus) option" where
  "dev_read get put rd addr s =
     map_option (\<lambda>(v, d). (v, s\<lparr>dworld := put d (dworld s)\<rparr>)) (rd addr (get (dworld s)))"

definition dev_write :: "('x ee_hw \<Rightarrow> 'd) \<Rightarrow> ('d \<Rightarrow> 'x ee_hw \<Rightarrow> 'x ee_hw) \<Rightarrow> (u32 \<Rightarrow> 'v \<Rightarrow> 'd \<Rightarrow> 'd option)
    \<Rightarrow> u32 \<Rightarrow> 'v \<Rightarrow> 'x ee_bus \<Rightarrow> 'x ee_bus option" where
  "dev_write get put wt addr v s =
     map_option (\<lambda>d. s\<lparr>dworld := put d (dworld s)\<rparr>) (wt addr v (get (dworld s)))"

definition get_sif :: "'x ee_hw \<Rightarrow> sif" where "get_sif h = (hw_sif h, hw_intc h)"
definition put_sif :: "sif \<Rightarrow> 'x ee_hw \<Rightarrow> 'x ee_hw" where "put_sif d h = h\<lparr>hw_sif := fst d, hw_intc := snd d\<rparr>"
definition put_intc :: "ee_intc_state \<Rightarrow> 'x ee_hw \<Rightarrow> 'x ee_hw" where "put_intc d h = h\<lparr>hw_intc := d\<rparr>"
definition put_timers :: "ee_timers_state \<Rightarrow> 'x ee_hw \<Rightarrow> 'x ee_hw" where "put_timers d h = h\<lparr>hw_timers := d\<rparr>"
definition put_sio :: "ee_sio_state \<Rightarrow> 'x ee_hw \<Rightarrow> 'x ee_hw" where "put_sio d h = h\<lparr>hw_sio := d\<rparr>"
definition put_ipu :: "ipu_state \<Rightarrow> 'x ee_hw \<Rightarrow> 'x ee_hw" where "put_ipu d h = h\<lparr>hw_ipu := d\<rparr>"
definition put_mch :: "mch_state \<Rightarrow> 'x ee_hw \<Rightarrow> 'x ee_hw" where "put_mch d h = h\<lparr>hw_mch := d\<rparr>"
definition put_dve :: "dve_state \<Rightarrow> 'x ee_hw \<Rightarrow> 'x ee_hw" where "put_dve d h = h\<lparr>hw_dve := d\<rparr>"
definition put_gs :: "gs_regs \<Rightarrow> 'x ee_hw \<Rightarrow> 'x ee_hw" where "put_gs d h = h\<lparr>hw_gs := d\<rparr>"

lemmas dev_puts = get_sif_def put_sif_def put_intc_def put_timers_def put_sio_def put_ipu_def put_mch_def
  put_dve_def put_gs_def

text \<open>The blocks in the order the code asks them; the first that claims the address answers.\<close>

fun ask :: "('s \<Rightarrow> 'r option) list \<Rightarrow> 's \<Rightarrow> 'r option" where
  "ask [] s = None"
| "ask (h # hs) s = (case h s of Some r \<Rightarrow> Some r | None \<Rightarrow> ask hs s)"

definition ee_read32_blocks :: "'x ee_env \<Rightarrow> u32 \<Rightarrow> ('x ee_bus \<Rightarrow> (u32 \<times> 'x ee_bus) option) list" where
  "ee_read32_blocks env a =
     [dma_mmio_read32 a, dev_read get_sif put_sif sif_mmio_read32 a, dev_read hw_mch put_mch mch_mmio_read32 a,
      dev_read hw_intc put_intc ee_intc_mmio_read32 a, dev_read hw_timers put_timers ee_timers_mmio_read32 a,
      dev_read hw_sio put_sio ee_sio_mmio_read32 a, dev_read hw_ipu put_ipu ipu_mmio_read32 a, gif_read32 env a]"

definition ee_write32_blocks :: "'x ee_env \<Rightarrow> u32 \<Rightarrow> u32 \<Rightarrow> ('x ee_bus \<Rightarrow> 'x ee_bus option) list" where
  "ee_write32_blocks env a v =
     [dma_mmio_write32 (sinks env) a v, dev_write get_sif put_sif sif_mmio_write32 a v,
      dev_write hw_mch put_mch mch_mmio_write32 a v, dev_write hw_intc put_intc ee_intc_mmio_write32 a v,
      dev_write hw_timers put_timers ee_timers_mmio_write32 a v, dev_write hw_sio put_sio ee_sio_mmio_write32 a v,
      dev_write hw_ipu put_ipu ipu_mmio_write32 a v, gif_write32 env a v]"

section \<open>Accesses\<close>

text \<open>The answer of a block, or else the memory behind the address; a missing pointer reads as 0.\<close>

definition ee_load :: "('x ee_bus \<Rightarrow> ('v \<times> 'x ee_bus) option) \<Rightarrow> u32 \<Rightarrow> u32 \<Rightarrow> ((u32 \<Rightarrow> u8) \<Rightarrow> 'v::zero) \<Rightarrow> 'x ee_state \<Rightarrow> 'v \<times> 'x ee_state" where
  "ee_load block addr sz assemble st =
     (case block (e_dma st) of
        Some (v, s) \<Rightarrow> (v, st\<lparr>e_dma := s\<rparr>)
      | None \<Rightarrow> (case ee_mem_ptr st addr sz of
            (Some p, st1) \<Rightarrow> (assemble (ee_byte st1 p), st1)
          | (None, st1) \<Rightarrow> (0, ee_mem_check_tlb_fault addr False st1)))"

definition ee_store :: "('x ee_bus \<Rightarrow> 'x ee_bus option) \<Rightarrow> u32 \<Rightarrow> u32 \<Rightarrow> (u32 \<times> u8) list \<Rightarrow> 'x ee_state \<Rightarrow> 'x ee_state" where
  "ee_store block addr sz bytes st =
     (case block (e_dma st) of
        Some s \<Rightarrow> st\<lparr>e_dma := s\<rparr>
      | None \<Rightarrow> (case ee_mem_ptr st addr sz of
            (Some p, st1) \<Rightarrow> fold (\<lambda>(k, v). ee_set_byte p k v) bytes st1
          | (None, st1) \<Rightarrow> ee_mem_check_tlb_fault addr True st1))"

definition ee_mem_read8 :: "'x ee_env \<Rightarrow> u32 \<Rightarrow> 'x ee_state \<Rightarrow> u8 \<times> 'x ee_state" where
  "ee_mem_read8 env addr =
     ee_load (\<lambda>s. map_option (\<lambda>(v, s'). (ucast (v AND 0xFF), s'))
         (dev_read hw_sio put_sio ee_sio_mmio_read32 (ee_hw_mmio_addr addr) s))
       addr 1 (\<lambda>b. b 0)"

definition ee_mem_read16 :: "'x ee_env \<Rightarrow> u32 \<Rightarrow> 'x ee_state \<Rightarrow> u16 \<times> 'x ee_state" where
  "ee_mem_read16 env addr =
     ee_load (dev_read hw_dve put_dve ee_dve_mmio_read16 (ee_hw_mmio_addr addr))
       addr 2 (\<lambda>b. ucast (b 0) OR push_bit 8 (ucast (b 1)))"

definition ee_mem_read32 :: "'x ee_env \<Rightarrow> u32 \<Rightarrow> 'x ee_state \<Rightarrow> u32 \<times> 'x ee_state" where
  "ee_mem_read32 env addr =
     ee_load (ask (ee_read32_blocks env (ee_hw_mmio_addr addr))) addr 4
       (\<lambda>b. ucast (b 0) OR push_bit 8 (ucast (b 1)) OR push_bit 16 (ucast (b 2)) OR push_bit 24 (ucast (b 3)))"

definition ee_mem_read64 :: "'x ee_env \<Rightarrow> u32 \<Rightarrow> 'x ee_state \<Rightarrow> u64 \<times> 'x ee_state" where
  "ee_mem_read64 env addr =
     ee_load (dev_read hw_gs put_gs gs_mmio_read64 (ee_hw_mmio_addr addr)) addr 8
       (\<lambda>b. fold (\<lambda>i v. push_bit 8 v OR ucast (b i)) [7, 6, 5, 4, 3, 2, 1, 0] 0)"

definition ee_mem_write8 :: "'x ee_env \<Rightarrow> u32 \<Rightarrow> u8 \<Rightarrow> 'x ee_state \<Rightarrow> 'x ee_state" where
  "ee_mem_write8 env addr v =
     ee_store (dev_write hw_sio put_sio ee_sio_mmio_write32 (ee_hw_mmio_addr addr) (ucast v)) addr 1 [(0, v)]"

text \<open>The video encoder can index behind its register array (\<open>Overrun\<close>).\<close>

definition ee_mem_write16 :: "'x ee_env \<Rightarrow> u32 \<Rightarrow> u16 \<Rightarrow> 'x ee_state \<Rightarrow> 'x ee_state option" where
  "ee_mem_write16 env addr v st =
     (case ee_dve_mmio_write16 (ee_hw_mmio_addr addr) v (hw_dve (dworld (e_dma st))) of
        Overrun \<Rightarrow> None
      | Done d \<Rightarrow> Some (st\<lparr>e_dma := (e_dma st)\<lparr>dworld := put_dve d (dworld (e_dma st))\<rparr>\<rparr>)
      | Declined \<Rightarrow> Some (ee_store (\<lambda>_. None) addr 2
          [(0, ucast (v AND 0xFF)), (1, ucast (drop_bit 8 v AND 0xFF))] st))"

definition ee_mem_write32 :: "'x ee_env \<Rightarrow> u32 \<Rightarrow> u32 \<Rightarrow> 'x ee_state \<Rightarrow> 'x ee_state" where
  "ee_mem_write32 env addr v =
     ee_store (ask (ee_write32_blocks env (ee_hw_mmio_addr addr) v)) addr 4
       [(0, ucast (v AND 0xFF)), (1, ucast (drop_bit 8 v AND 0xFF)), (2, ucast (drop_bit 16 v AND 0xFF)),
        (3, ucast (drop_bit 24 v AND 0xFF))]"

definition ee_mem_write64 :: "'x ee_env \<Rightarrow> u32 \<Rightarrow> u64 \<Rightarrow> 'x ee_state \<Rightarrow> 'x ee_state" where
  "ee_mem_write64 env addr v =
     ee_store (dev_write hw_gs put_gs gs_mmio_write64 (ee_hw_mmio_addr addr) v) addr 8
       (map (\<lambda>i. (word_of_nat i, ucast (drop_bit (8 * i) v AND 0xFF))) [0 ..< 8])"

section \<open>Reset\<close>

text \<open>
  \<open>memset(&g_state, 0, ...)\<close>, then the device resets; \<open>early\<close> and \<open>late\<close> reset the parts that are
  not modelled (threads, semaphores and pending calls before the allocation of main memory, the
  graphics interface and the vector interfaces after it).
\<close>

definition zero_cpu :: "'x ee_bus \<Rightarrow> 'x ee_state" where
  "zero_cpu b = \<lparr>e_gpr = \<lambda>_. \<lparr>ud0 = 0, ud1 = 0\<rparr>, e_hi = \<lparr>ud0 = 0, ud1 = 0\<rparr>, e_lo = \<lparr>ud0 = 0, ud1 = 0\<rparr>, e_pc = 0,
     e_next_pc = 0, sa_reg = 0, e_cop0 = \<lambda>_. 0, branch_pending = False,
     tlb = replicate 48 \<lparr>page_mask = 0, entry_hi = 0, entry_lo0 = 0, entry_lo1 = 0\<rparr>, exc_this_pc = 0,
     exc_in_delay_slot = False, exc_raised_this_step = False, mem_tlb_miss = False, fpr = \<lambda>_. 0, fcr31 = 0, acc = 0,
     cop2_ctrl = \<lambda>_. 0, vu0_vf = \<lambda>_ _. 0, e_bios = None, e_instructions_executed = 0, e_halted = False,
     e_halt_reason = [], e_idle = False, e_dma = b\<rparr>"

definition reset_devices :: "('x \<Rightarrow> 'x) \<Rightarrow> 'x ee_hw \<Rightarrow> 'x ee_hw" where
  "reset_devices early h =
     (let (cmd, s) = sif_cmd_iop_init (sif_init (hw_sif h)) in
      h\<lparr>hw_intc := ee_intc_init, hw_sio := ee_sio_init, hw_timers := ee_timers_init, hw_dve := ee_dve_init,
        hw_gs := gs_init, hw_sif := s, hw_sifcmd := cmd, hw_mch := mch_init, hw_ext := early (hw_ext h)\<rparr>)"

definition EE_RAM_SIZE :: u32 where "EE_RAM_SIZE = 32 * 1024 * 1024"

definition ee_core_init :: "('x \<Rightarrow> 'x) \<Rightarrow> ('x \<Rightarrow> 'x) \<Rightarrow> bool \<Rightarrow> bios_image option \<Rightarrow> 'x ee_bus \<Rightarrow> int \<times> 'x ee_state" where
  "ee_core_init early late ram_ok rom b =
     (let b1 = fst (dma_init b); b2 = b1\<lparr>dworld := reset_devices early (dworld b1)\<rparr> in
      if \<not> ram_ok then (- 1, zero_cpu b2)
      else
        let b3 = dma_bind_scratchpad (Some (\<lambda>_. 0)) 0x4000 (dma_bind_ee_ram (Some (\<lambda>_. 0)) EE_RAM_SIZE b2);
            h = dworld b3; st = zero_cpu (b3\<lparr>dworld := h\<lparr>hw_ipu := ipu_init, hw_ext := late (hw_ext h)\<rparr>\<rparr>)
        in (0, set_cop0 12 0x70400004 (set_cop0 15 0x00002E20
             (st\<lparr>e_bios := rom, e_pc := 0xBFC00000, e_next_pc := 0xBFC00000 + 4\<rparr>))))"

text \<open>A processor after reset, with nothing behind the unmodelled parts.\<close>

definition cold_bus :: "unit ee_bus" where
  "cold_bus = \<lparr>chan = replicate 10 zero_channel, d_ctrl = 0, d_stat = 0, d_pcr = 0, d_sqwc = 0, d_rbsr = 0, d_rbor = 0,
     d_stadr = 0, d_enable_state = 0, ee_ram = None, ee_ram_size = 0, ee_scratch = None, ee_scratch_size = 0,
     dworld = \<lparr>hw_intc = ee_intc_init,
       hw_sif = \<lparr>mscom = 0, smcom = 0, msflag = 0, smflag = 0, sctrl = 0, f250 = 0, f260 = 0, iop_boot_completed_once = False,
         ee_loadexecps2_seen = False, bootend_reassert_pending = False, bootend_reassert_ticks_left = 0\<rparr>,
       hw_sifcmd = \<lparr>ee_recvbuf = 0, init_cmd_count = 0, rpc_bind_cd = 0, rpc_bind_count = 0,
         bind_table = replicate 16 (0, 0), bind_next = 0\<rparr>,
       hw_timers = ee_timers_init, hw_sio = ee_sio_init, hw_ipu = ipu_init, hw_mch = mch_init, hw_dve = ee_dve_init,
       hw_gs = gs_init, hw_ext = ()\<rparr>\<rparr>"

definition cold_ee :: "unit ee_state" where
  "cold_ee = snd (ee_core_init id id True None cold_bus)"

lemma cold_ee_simps [simp]:
  "e_gpr cold_ee = (\<lambda>_. \<lparr>ud0 = 0, ud1 = 0\<rparr>)" "e_pc cold_ee = 0xBFC00000" "e_next_pc cold_ee = 0xBFC00004"
  "e_cop0 cold_ee = (\<lambda>_. 0)(15 := 0x00002E20, 12 := 0x70400004)" "branch_pending cold_ee = False"
  "tlb cold_ee = replicate 48 \<lparr>page_mask = 0, entry_hi = 0, entry_lo0 = 0, entry_lo1 = 0\<rparr>"
  "exc_raised_this_step cold_ee = False" "mem_tlb_miss cold_ee = False" "e_idle cold_ee = False"
  "e_halted cold_ee = False" "e_bios cold_ee = None" "sa_reg cold_ee = 0" "e_hi cold_ee = \<lparr>ud0 = 0, ud1 = 0\<rparr>"
  "e_lo cold_ee = \<lparr>ud0 = 0, ud1 = 0\<rparr>" "ee_ram_size (e_dma cold_ee) = 0x2000000"
  "ee_ram (e_dma cold_ee) = Some (\<lambda>_. 0)" "ee_scratch (e_dma cold_ee) = Some (\<lambda>_. 0)"
  "exc_this_pc cold_ee = 0" "exc_in_delay_slot cold_ee = False"
  by (simp_all add: cold_ee_def ee_core_init_def Let_def zero_cpu_def set_cop0_def dma_bind_scratchpad_def
      dma_bind_ee_ram_def EE_RAM_SIZE_def)

end
