(* ===== verification/Ee_Mmi.thy ===== *)
theory Ee_Mmi
  imports Ee_Mem "HOL-Library.Signed_Division"
begin

text \<open>
  The 128-bit multimedia instructions of the EE: \<open>case 0x1C\<close> of the instruction switch in
  \<open>source/core/ee/ee_core.c\<close>, with the lane accessors and the out-of-line helpers the recompiler
  calls.

  A loop over the lanes of \<open>rd\<close> reads the sources while it writes the destination, which may be the
  same register; it is a fold over the state in that order. A register built in a local variable is a
  fold from the variable's initial value. The result of an instruction is \<open>Undefined\<close> where the C
  program is (the signed division of \<open>-2\<^sup>31\<close> by \<open>-1\<close>), \<open>Stopped\<close> after a halt, and else \<open>Running\<close>.
\<close>

section \<open>Fields of an instruction word\<close>

definition i_op :: "u32 \<Rightarrow> u32" where "i_op i = drop_bit 26 i AND 0x3F"
definition i_rs :: "u32 \<Rightarrow> nat" where "i_rs i = unat (drop_bit 21 i AND 0x1F)"
definition i_rt :: "u32 \<Rightarrow> nat" where "i_rt i = unat (drop_bit 16 i AND 0x1F)"
definition i_rd :: "u32 \<Rightarrow> nat" where "i_rd i = unat (drop_bit 11 i AND 0x1F)"
definition i_sa :: "u32 \<Rightarrow> nat" where "i_sa i = unat (drop_bit 6 i AND 0x1F)"
definition i_imm :: "u32 \<Rightarrow> u32" where "i_imm i = scast (ucast i :: u16)"
definition i_uimm :: "u32 \<Rightarrow> u32" where "i_uimm i = i AND 0xFFFF"
definition i_funct :: "u32 \<Rightarrow> u32" where "i_funct i = i AND 0x3F"

section \<open>Registers and lanes\<close>

definition sext32 :: "u32 \<Rightarrow> u64" where "sext32 v = scast v"

definition ee_halt :: "string \<Rightarrow> 'x ee_state \<Rightarrow> 'x ee_state" where
  "ee_halt reason st = st\<lparr>e_halted := True, e_halt_reason := take 127 reason\<rparr>"

definition set_reg :: "nat \<Rightarrow> ee_reg128 \<Rightarrow> 'x ee_state \<Rightarrow> 'x ee_state" where
  "set_reg r v st = st\<lparr>e_gpr := (e_gpr st)(r := v)\<rparr>"

definition set64 :: "nat \<Rightarrow> u64 \<Rightarrow> 'x ee_state \<Rightarrow> 'x ee_state" where
  "set64 r v st = set_reg r ((e_gpr st r)\<lparr>ud0 := v\<rparr>) st"

text \<open>\<open>if (r) GPR(r) = v\<close> and \<open>if (r) st->gpr[r] = v\<close>.\<close>

definition wr64 :: "nat \<Rightarrow> u64 \<Rightarrow> 'x ee_state \<Rightarrow> 'x ee_state" where
  "wr64 r v st = (if r \<noteq> 0 then set64 r v st else st)"

definition wr128 :: "nat \<Rightarrow> ee_reg128 \<Rightarrow> 'x ee_state \<Rightarrow> 'x ee_state" where
  "wr128 r v st = (if r \<noteq> 0 then set_reg r v st else st)"

definition R :: "'x ee_state \<Rightarrow> nat \<Rightarrow> u64" where "R st r = ud0 (e_gpr st r)"

definition lane_w :: "ee_reg128 \<Rightarrow> nat \<Rightarrow> u32" where
  "lane_w r n = ucast (drop_bit (n mod 2 * 32) (if n < 2 then ud0 r else ud1 r))"

definition lane_h :: "ee_reg128 \<Rightarrow> nat \<Rightarrow> u16" where
  "lane_h r n = ucast (drop_bit (n mod 4 * 16) (if n < 4 then ud0 r else ud1 r))"

definition lane_b :: "ee_reg128 \<Rightarrow> nat \<Rightarrow> u8" where
  "lane_b r n = ucast (drop_bit (n mod 8 * 8) (if n < 8 then ud0 r else ud1 r))"

definition put_field :: "nat \<Rightarrow> u64 \<Rightarrow> u64 \<Rightarrow> u64 \<Rightarrow> u64" where
  "put_field sh m val p = (p AND NOT (push_bit sh m)) OR push_bit sh val"

definition set_lane_w :: "nat \<Rightarrow> u32 \<Rightarrow> ee_reg128 \<Rightarrow> ee_reg128" where
  "set_lane_w n val r =
     (if n < 2 then r\<lparr>ud0 := put_field (n mod 2 * 32) 0xFFFFFFFF (ucast val) (ud0 r)\<rparr>
      else r\<lparr>ud1 := put_field (n mod 2 * 32) 0xFFFFFFFF (ucast val) (ud1 r)\<rparr>)"

definition set_lane_h :: "nat \<Rightarrow> u16 \<Rightarrow> ee_reg128 \<Rightarrow> ee_reg128" where
  "set_lane_h n val r =
     (if n < 4 then r\<lparr>ud0 := put_field (n mod 4 * 16) 0xFFFF (ucast val) (ud0 r)\<rparr>
      else r\<lparr>ud1 := put_field (n mod 4 * 16) 0xFFFF (ucast val) (ud1 r)\<rparr>)"

definition set_lane_b :: "nat \<Rightarrow> u8 \<Rightarrow> ee_reg128 \<Rightarrow> ee_reg128" where
  "set_lane_b n val r =
     (if n < 8 then r\<lparr>ud0 := put_field (n mod 8 * 8) 0xFF (ucast val) (ud0 r)\<rparr>
      else r\<lparr>ud1 := put_field (n mod 8 * 8) 0xFF (ucast val) (ud1 r)\<rparr>)"

definition upd_reg :: "nat \<Rightarrow> (ee_reg128 \<Rightarrow> ee_reg128) \<Rightarrow> 'x ee_state \<Rightarrow> 'x ee_state" where
  "upd_reg r f st = set_reg r (f (e_gpr st r)) st"

text \<open>The loops over the lanes of \<open>rd\<close>; \<open>F\<close> sees the state as the earlier lanes left it.\<close>

definition loop_w :: "nat \<Rightarrow> ('x ee_state \<Rightarrow> nat \<Rightarrow> u32) \<Rightarrow> 'x ee_state \<Rightarrow> 'x ee_state" where
  "loop_w rd F st = (if rd \<noteq> 0 then fold (\<lambda>n s. upd_reg rd (set_lane_w n (F s n)) s) [0 ..< 4] st else st)"

definition loop_h :: "nat \<Rightarrow> ('x ee_state \<Rightarrow> nat \<Rightarrow> u16) \<Rightarrow> 'x ee_state \<Rightarrow> 'x ee_state" where
  "loop_h rd F st = (if rd \<noteq> 0 then fold (\<lambda>n s. upd_reg rd (set_lane_h n (F s n)) s) [0 ..< 8] st else st)"

definition loop_b :: "nat \<Rightarrow> ('x ee_state \<Rightarrow> nat \<Rightarrow> u8) \<Rightarrow> 'x ee_state \<Rightarrow> 'x ee_state" where
  "loop_b rd F st = (if rd \<noteq> 0 then fold (\<lambda>n s. upd_reg rd (set_lane_b n (F s n)) s) [0 ..< 16] st else st)"

definition lanes_w :: "nat \<Rightarrow> nat \<Rightarrow> (u32 \<Rightarrow> u32 \<Rightarrow> u32) \<Rightarrow> 'x ee_state \<Rightarrow> nat \<Rightarrow> u32" where
  "lanes_w rs rt f s n = f (lane_w (e_gpr s rs) n) (lane_w (e_gpr s rt) n)"

definition lanes_h :: "nat \<Rightarrow> nat \<Rightarrow> (u16 \<Rightarrow> u16 \<Rightarrow> u16) \<Rightarrow> 'x ee_state \<Rightarrow> nat \<Rightarrow> u16" where
  "lanes_h rs rt f s n = f (lane_h (e_gpr s rs) n) (lane_h (e_gpr s rt) n)"

definition lanes_b :: "nat \<Rightarrow> nat \<Rightarrow> (u8 \<Rightarrow> u8 \<Rightarrow> u8) \<Rightarrow> 'x ee_state \<Rightarrow> nat \<Rightarrow> u8" where
  "lanes_b rs rt f s n = f (lane_b (e_gpr s rs) n) (lane_b (e_gpr s rt) n)"

text \<open>
  A register built in the local variable \<open>out\<close> by setting all its lanes; \<open>out\<close> is not initialised, so
  its first value is arbitrary (zero here; the value does not depend on it).
\<close>

definition uninit :: ee_reg128 where "uninit = \<lparr>ud0 = 0, ud1 = 0\<rparr>"

definition build_w :: "ee_reg128 \<Rightarrow> u32 list \<Rightarrow> ee_reg128" where
  "build_w out vs = fold (\<lambda>(n, v). set_lane_w n v) (enumerate 0 vs) out"

definition build_h :: "ee_reg128 \<Rightarrow> u16 list \<Rightarrow> ee_reg128" where
  "build_h out vs = fold (\<lambda>(n, v). set_lane_h n v) (enumerate 0 vs) out"

definition build_b :: "ee_reg128 \<Rightarrow> u8 list \<Rightarrow> ee_reg128" where
  "build_b out vs = fold (\<lambda>(n, v). set_lane_b n v) (enumerate 0 vs) out"

section \<open>Operations on one lane\<close>

definition paddsw :: "u32 \<Rightarrow> u32 \<Rightarrow> u32" where
  "paddsw a b = (let sum = sint a + sint b in
     if sum > 0x7FFFFFFF then 0x7FFFFFFF else if sum < -0x80000000 then 0x80000000 else word_of_int sum)"

definition psubsw :: "u32 \<Rightarrow> u32 \<Rightarrow> u32" where
  "psubsw a b = (let diff = sint a - sint b in
     if diff \<ge> 0x7FFFFFFF then 0x7FFFFFFF else if diff < -0x80000000 then 0x80000000 else word_of_int diff)"

definition paddsh :: "u16 \<Rightarrow> u16 \<Rightarrow> u16" where
  "paddsh a b = (let sum = sint a + sint b in
     if sum > 0x7FFF then 0x7FFF else if sum < -0x8000 then 0x8000 else word_of_int sum)"

definition psubsh :: "u16 \<Rightarrow> u16 \<Rightarrow> u16" where
  "psubsh a b = (let diff = sint a - sint b in
     if diff \<ge> 0x7FFF then 0x7FFF else if diff < -0x8000 then 0x8000 else word_of_int diff)"

definition paddsb :: "u8 \<Rightarrow> u8 \<Rightarrow> u8" where
  "paddsb a b = (let sum = sint a + sint b in
     if sum > 0x7F then 0x7F else if sum < -128 then 0x80 else word_of_int sum)"

definition psubsb :: "u8 \<Rightarrow> u8 \<Rightarrow> u8" where
  "psubsb a b = (let diff = sint a - sint b in
     if diff \<ge> 0x7F then 0x7F else if diff < -128 then 0x80 else word_of_int diff)"

definition pext5 :: "u32 \<Rightarrow> u32" where
  "pext5 v = push_bit 3 (v AND 0x1F) OR push_bit 6 (v AND 0x3E0) OR push_bit 9 (v AND 0x7C00)
     OR push_bit 16 (v AND 0x8000)"

definition ppac5 :: "u32 \<Rightarrow> u32" where
  "ppac5 v = (drop_bit 3 v AND 0x1F) OR (drop_bit 6 v AND 0x3E0) OR (drop_bit 9 v AND 0x7C00)
     OR (drop_bit 16 v AND 0x8000)"

definition pabsw :: "u32 \<Rightarrow> u32" where
  "pabsw v = (if v = 0x80000000 then 0x7FFFFFFF else if sint v < 0 then - v else v)"

definition pabsh :: "u16 \<Rightarrow> u16" where
  "pabsh v = (if v = 0x8000 then 0x7FFF else if sint v < 0 then - v else v)"

text \<open>PLZCW: the loop from bit 30 down counts the bits equal to the sign.\<close>

fun lead_count :: "u32 \<Rightarrow> nat \<Rightarrow> nat" where
  "lead_count x 0 = 0"
| "lead_count x (Suc b) = (if bit x b = bit x 31 then Suc (lead_count x b) else 0)"

definition plzcw :: "nat \<Rightarrow> nat \<Rightarrow> 'x ee_state \<Rightarrow> 'x ee_state" where
  "plzcw rd rs st =
     (if rd \<noteq> 0 then fold (\<lambda>n s. upd_reg rd (set_lane_w n (word_of_nat (lead_count (lane_w (e_gpr s rs) n) 31))) s) [0 ..< 2] st
      else st)"

definition qfsrv :: "u32 \<Rightarrow> ee_reg128 \<Rightarrow> ee_reg128 \<Rightarrow> ee_reg128" where
  "qfsrv sa r_s r_t =
     (let sa_amt = unat (push_bit 3 (sa AND 0xF)) in
      if sa_amt = 0 then r_t
      else if sa_amt < 64 then
        \<lparr>ud0 = drop_bit sa_amt (ud0 r_t) OR push_bit (64 - sa_amt) (ud1 r_t),
         ud1 = drop_bit sa_amt (ud1 r_t) OR push_bit (64 - sa_amt) (ud0 r_s)\<rparr>
      else let sh = sa_amt - 64 in
        if sa_amt \<noteq> 64 then
          \<lparr>ud0 = drop_bit sh (ud1 r_t) OR push_bit (128 - sa_amt) (ud0 r_s),
           ud1 = drop_bit sh (ud0 r_s) OR push_bit (128 - sa_amt) (ud1 r_s)\<rparr>
        else \<lparr>ud0 = drop_bit sh (ud1 r_t), ud1 = drop_bit sh (ud0 r_s)\<rparr>)"

section \<open>Multiplication, division and the accumulators\<close>

text \<open>The two pipes keep their results in the halves \<open>ud0\<close> and \<open>ud1\<close> of HI and LO.\<close>

fun put_half :: "nat \<Rightarrow> u64 \<Rightarrow> ee_reg128 \<Rightarrow> ee_reg128" where
  "put_half k v r = (if k = 0 then r\<lparr>ud0 := v\<rparr> else r\<lparr>ud1 := v\<rparr>)"

definition half :: "nat \<Rightarrow> ee_reg128 \<Rightarrow> u64" where
  "half k r = (if k = 0 then ud0 r else ud1 r)"

definition set_lo :: "nat \<Rightarrow> u64 \<Rightarrow> 'x ee_state \<Rightarrow> 'x ee_state" where
  "set_lo k v st = st\<lparr>e_lo := put_half k v (e_lo st)\<rparr>"

definition set_hi :: "nat \<Rightarrow> u64 \<Rightarrow> 'x ee_state \<Rightarrow> 'x ee_state" where
  "set_hi k v st = st\<lparr>e_hi := put_half k v (e_hi st)\<rparr>"

definition smul32 :: "u32 \<Rightarrow> u32 \<Rightarrow> u64" where "smul32 a b = scast a * scast b"
definition umul32 :: "u32 \<Rightarrow> u32 \<Rightarrow> u64" where "umul32 a b = ucast a * ucast b"

text \<open>A 64-bit result goes to LO and HI as two sign-extended words, and LO to \<open>rd\<close>.\<close>

definition set_product :: "nat \<Rightarrow> u64 \<Rightarrow> 'x ee_state \<Rightarrow> 'x ee_state" where
  "set_product k res st = set_hi k (sext32 (ucast (drop_bit 32 res))) (set_lo k (sext32 (ucast res)) st)"

definition mult_to :: "nat \<Rightarrow> nat \<Rightarrow> u64 \<Rightarrow> 'x ee_state \<Rightarrow> 'x ee_state" where
  "mult_to k rd res st = (let st1 = set_product k res st in wr64 rd (half k (e_lo st1)) st1)"

definition acc64 :: "nat \<Rightarrow> 'x ee_state \<Rightarrow> u64" where
  "acc64 k st = (half k (e_lo st) AND 0xFFFFFFFF) OR push_bit 32 (ucast (ucast (half k (e_hi st)) :: u32))"

definition ee_div :: "nat \<Rightarrow> u32 \<Rightarrow> u32 \<Rightarrow> 'x ee_state \<Rightarrow> 'x ee_state ee_run" where
  "ee_div k a b st =
     (if b = 0 then Running st
      else if a = 0x80000000 \<and> b = 0xFFFFFFFF then Undefined
      else Running (set_hi k (sext32 (word_of_int (sint a smod sint b)))
             (set_lo k (sext32 (word_of_int (sint a sdiv sint b))) st)))"

definition ee_divu :: "nat \<Rightarrow> u32 \<Rightarrow> u32 \<Rightarrow> 'x ee_state \<Rightarrow> 'x ee_state" where
  "ee_divu k a b st =
     (if b = 0 then st else set_hi k (sext32 (a mod b)) (set_lo k (sext32 (a div b)) st))"

text \<open>The eight 32-bit words of LO and HI in the order the halfword instructions use them.\<close>

definition acc_word :: "'x ee_state \<Rightarrow> nat \<Rightarrow> u32" where
  "acc_word st n =
     (let r = (if n mod 4 < 2 then e_lo st else e_hi st) in ucast (drop_bit (n mod 2 * 32) (half (n div 4) r)))"

definition pair :: "u32 \<Rightarrow> u32 \<Rightarrow> u64" where
  "pair h l = push_bit 32 (ucast h) OR ucast l"

definition set_accs :: "nat \<Rightarrow> u32 list \<Rightarrow> 'x ee_state \<Rightarrow> 'x ee_state" where
  "set_accs rd r st =
     (let st1 = st\<lparr>e_lo := \<lparr>ud0 = pair (r ! 1) (r ! 0), ud1 = pair (r ! 5) (r ! 4)\<rparr>,
                   e_hi := \<lparr>ud0 = pair (r ! 3) (r ! 2), ud1 = pair (r ! 7) (r ! 6)\<rparr>\<rparr>
      in if rd \<noteq> 0 then upd_reg rd (\<lambda>g. build_w g [r ! 0, r ! 2, r ! 4, r ! 6]) st1 else st1)"

definition hprod :: "'x ee_state \<Rightarrow> nat \<Rightarrow> nat \<Rightarrow> nat \<Rightarrow> u32" where
  "hprod st rs rt n = scast (lane_h (e_gpr st rs) n) * scast (lane_h (e_gpr st rt) n)"

definition pmulth :: "nat \<Rightarrow> nat \<Rightarrow> nat \<Rightarrow> 'x ee_state \<Rightarrow> 'x ee_state" where
  "pmulth rs rt rd st = set_accs rd (map (hprod st rs rt) [0 ..< 8]) st"

definition pmaddh :: "nat \<Rightarrow> nat \<Rightarrow> nat \<Rightarrow> 'x ee_state \<Rightarrow> 'x ee_state" where
  "pmaddh rs rt rd st = set_accs rd (map (\<lambda>n. acc_word st n + hprod st rs rt n) [0 ..< 8]) st"

definition pmsubh :: "nat \<Rightarrow> nat \<Rightarrow> nat \<Rightarrow> 'x ee_state \<Rightarrow> 'x ee_state" where
  "pmsubh rs rt rd st = set_accs rd (map (\<lambda>n. acc_word st n - hprod st rs rt n) [0 ..< 8]) st"

definition phmadh :: "nat \<Rightarrow> nat \<Rightarrow> nat \<Rightarrow> 'x ee_state \<Rightarrow> 'x ee_state" where
  "phmadh rs rt rd st =
     set_accs rd (concat (map (\<lambda>n. [hprod st rs rt (n + 1) + hprod st rs rt n, hprod st rs rt (n + 1)]) [0, 2, 4, 6])) st"

definition phmsbh :: "nat \<Rightarrow> nat \<Rightarrow> nat \<Rightarrow> 'x ee_state \<Rightarrow> 'x ee_state" where
  "phmsbh rs rt rd st =
     set_accs rd (concat (map (\<lambda>n. [hprod st rs rt (n + 1) - hprod st rs rt n, NOT (hprod st rs rt (n + 1))]) [0, 2, 4, 6])) st"

definition put_reg_half :: "nat \<Rightarrow> nat \<Rightarrow> u64 \<Rightarrow> 'x ee_state \<Rightarrow> 'x ee_state" where
  "put_reg_half rd k v st = (if rd \<noteq> 0 then upd_reg rd (put_half k v) st else st)"

definition pmultw :: "nat \<Rightarrow> nat \<Rightarrow> nat \<Rightarrow> 'x ee_state \<Rightarrow> 'x ee_state" where
  "pmultw rs rt rd st =
     (let t0 = smul32 (lane_w (e_gpr st rs) 0) (lane_w (e_gpr st rt) 0);
          t1 = smul32 (lane_w (e_gpr st rs) 2) (lane_w (e_gpr st rt) 2)
      in wr128 rd \<lparr>ud0 = t0, ud1 = t1\<rparr>
           (st\<lparr>e_lo := \<lparr>ud0 = sext32 (ucast t0), ud1 = sext32 (ucast t1)\<rparr>,
               e_hi := \<lparr>ud0 = signed_drop_bit 32 t0, ud1 = signed_drop_bit 32 t1\<rparr>\<rparr>))"

definition pmultuw :: "nat \<Rightarrow> nat \<Rightarrow> nat \<Rightarrow> 'x ee_state \<Rightarrow> 'x ee_state" where
  "pmultuw rs rt rd st =
     (let t0 = umul32 (lane_w (e_gpr st rs) 0) (lane_w (e_gpr st rt) 0);
          t1 = umul32 (lane_w (e_gpr st rs) 2) (lane_w (e_gpr st rt) 2)
      in wr128 rd \<lparr>ud0 = t0, ud1 = t1\<rparr> (set_product 1 t1 (set_product 0 t0 st)))"

text \<open>One pipe of PMADDW, PMSUBW and PMADDUW; \<open>k\<close> is the half and \<open>2 * k\<close> the lane.\<close>

definition pmaddw_pipe :: "nat \<Rightarrow> nat \<Rightarrow> nat \<Rightarrow> nat \<Rightarrow> 'x ee_state \<Rightarrow> 'x ee_state" where
  "pmaddw_pipe rs rt rd k st =
     (let a = lane_w (e_gpr st rs) (2 * k); b = lane_w (e_gpr st rt) (2 * k); temp = smul32 a b;
          t2 = temp + push_bit 32 (sext32 (ucast (half k (e_hi st))));
          t3 = (if k = 0 \<and> (b AND 0x7FFFFFFF = 0 \<or> b AND 0x7FFFFFFF = 0x7FFFFFFF) \<and> a \<noteq> b
                then t2 + 0x70000000 else t2);
          q = word_of_int (sint t3 sdiv 4294967295);
          lo_new = ucast temp + ucast (half k (e_lo st));
          st1 = set_hi k (sext32 q) (set_lo k (sext32 lo_new) st)
      in put_reg_half rd k (sext32 lo_new) st1)"

definition pmsubw_pipe :: "nat \<Rightarrow> nat \<Rightarrow> nat \<Rightarrow> nat \<Rightarrow> 'x ee_state \<Rightarrow> 'x ee_state" where
  "pmsubw_pipe rs rt rd k st =
     (let a = lane_w (e_gpr st rs) (2 * k); b = lane_w (e_gpr st rt) (2 * k); temp = smul32 a b;
          t2 = push_bit 32 (sext32 (ucast (half k (e_hi st)))) - temp;
          q = word_of_int (sint t2 sdiv 4294967295);
          lo_new = ucast (half k (e_lo st)) - ucast temp;
          st1 = set_hi k (sext32 q) (set_lo k (sext32 lo_new) st)
      in put_reg_half rd k (sext32 lo_new) st1)"

definition pmadduw_pipe :: "nat \<Rightarrow> nat \<Rightarrow> nat \<Rightarrow> nat \<Rightarrow> 'x ee_state \<Rightarrow> 'x ee_state" where
  "pmadduw_pipe rs rt rd k st =
     (let tempu = acc64 k st + umul32 (lane_w (e_gpr st rs) (2 * k)) (lane_w (e_gpr st rt) (2 * k))
      in put_reg_half rd k tempu (set_product k tempu st))"

definition sdiv_pair :: "u32 \<Rightarrow> u32 \<Rightarrow> u32 \<times> u32" where
  "sdiv_pair a b =
     (if a = 0x80000000 \<and> b = 0xFFFFFFFF then (0x80000000, 0)
      else if b \<noteq> 0 then (word_of_int (sint a sdiv sint b), word_of_int (sint a smod sint b))
      else (if sint a < 0 then 1 else - 1, a))"

definition pdivw_pipe :: "nat \<Rightarrow> nat \<Rightarrow> nat \<Rightarrow> 'x ee_state \<Rightarrow> 'x ee_state" where
  "pdivw_pipe rs rt k st =
     (let (q, r) = sdiv_pair (lane_w (e_gpr st rs) (2 * k)) (lane_w (e_gpr st rt) (2 * k))
      in set_hi k (sext32 r) (set_lo k (sext32 q) st))"

definition pdivuw_pipe :: "nat \<Rightarrow> nat \<Rightarrow> nat \<Rightarrow> 'x ee_state \<Rightarrow> 'x ee_state" where
  "pdivuw_pipe rs rt k st =
     (let a = lane_w (e_gpr st rs) (2 * k); b = lane_w (e_gpr st rt) (2 * k);
          (q, r) = (if b \<noteq> 0 then (a div b, a mod b) else (- 1, a))
      in set_hi k (sext32 r) (set_lo k (sext32 q) st))"

definition both_pipes :: "(nat \<Rightarrow> 'x ee_state \<Rightarrow> 'x ee_state) \<Rightarrow> 'x ee_state \<Rightarrow> 'x ee_state" where
  "both_pipes pipe st = pipe 1 (pipe 0 st)"

definition pdivbw_lane :: "nat \<Rightarrow> nat \<Rightarrow> nat \<Rightarrow> 'x ee_state \<Rightarrow> 'x ee_state" where
  "pdivbw_lane rs rt n st =
     (let (q, r) = sdiv_pair (lane_w (e_gpr st rs) n) (scast (lane_h (e_gpr st rt) 0))
      in st\<lparr>e_lo := set_lane_w n q (e_lo st), e_hi := set_lane_w n r (e_hi st)\<rparr>)"

definition pdivbw :: "nat \<Rightarrow> nat \<Rightarrow> 'x ee_state \<Rightarrow> 'x ee_state" where
  "pdivbw rs rt st = fold (pdivbw_lane rs rt) [0 ..< 4] st"

section \<open>Moves from and to the accumulators\<close>

definition slw_half :: "nat \<Rightarrow> 'x ee_state \<Rightarrow> u64" where
  "slw_half k st =
     (let v = sint (acc64 k st) in
      if v \<ge> 0x7FFFFFFF then 0x7FFFFFFF else if v \<le> -0x80000000 then 0xFFFFFFFF80000000
      else sext32 (ucast (half k (e_lo st))))"

definition clamp_h :: "u32 \<Rightarrow> u16" where
  "clamp_h v = (if sint v > 0x7FFF then 0x7FFF else if sint v < -0x8000 then 0x8000 else ucast v)"

definition pmfhl :: "nat \<Rightarrow> nat \<Rightarrow> 'x ee_state \<Rightarrow> 'x ee_state" where
  "pmfhl sa rd st =
     (if rd = 0 then st
      else if sa = 0 then upd_reg rd (\<lambda>g. build_w g (map (acc_word st) [0, 2, 4, 6])) st
      else if sa = 1 then upd_reg rd (\<lambda>g. build_w g (map (acc_word st) [1, 3, 5, 7])) st
      else if sa = 2 then set_reg rd \<lparr>ud0 = slw_half 0 st, ud1 = slw_half 1 st\<rparr> st
      else if sa = 3 then upd_reg rd (\<lambda>g. build_h g (map (\<lambda>n. ucast (acc_word st n)) [0 ..< 8])) st
      else if sa = 4 then upd_reg rd (\<lambda>g. build_h g (map (\<lambda>n. clamp_h (acc_word st n)) [0 ..< 8])) st
      else st)"

definition keep_high :: "u64 \<Rightarrow> u32 \<Rightarrow> u64" where
  "keep_high p v = (p AND 0xFFFFFFFF00000000) OR ucast v"

definition pmthl :: "nat \<Rightarrow> nat \<Rightarrow> 'x ee_state \<Rightarrow> 'x ee_state" where
  "pmthl sa rs st =
     (if sa = 0 then
        let g = e_gpr st rs in
        st\<lparr>e_lo := \<lparr>ud0 = keep_high (ud0 (e_lo st)) (lane_w g 0), ud1 = keep_high (ud1 (e_lo st)) (lane_w g 2)\<rparr>,
           e_hi := \<lparr>ud0 = keep_high (ud0 (e_hi st)) (lane_w g 1), ud1 = keep_high (ud1 (e_hi st)) (lane_w g 3)\<rparr>\<rparr>
      else st)"

section \<open>The operations by lane width\<close>

definition mmi0_w :: "nat \<Rightarrow> (u32 \<Rightarrow> u32 \<Rightarrow> u32) option" where
  "mmi0_w sa =
     (if sa = 0x00 then Some (+) else if sa = 0x01 then Some (-)
      else if sa = 0x02 then Some (\<lambda>a b. if sint a > sint b then 0xFFFFFFFF else 0)
      else if sa = 0x03 then Some (\<lambda>a b. if sint a > sint b then a else b)
      else if sa = 0x10 then Some paddsw else if sa = 0x11 then Some psubsw
      else if sa = 0x1E then Some (\<lambda>_ v. pext5 v) else if sa = 0x1F then Some (\<lambda>_ v. ppac5 v) else None)"

definition mmi0_h :: "nat \<Rightarrow> (u16 \<Rightarrow> u16 \<Rightarrow> u16) option" where
  "mmi0_h sa =
     (if sa = 0x04 then Some (+) else if sa = 0x05 then Some (-)
      else if sa = 0x06 then Some (\<lambda>a b. if sint a > sint b then 0xFFFF else 0)
      else if sa = 0x07 then Some (\<lambda>a b. if sint a > sint b then a else b)
      else if sa = 0x14 then Some paddsh else if sa = 0x15 then Some psubsh else None)"

definition mmi0_b :: "nat \<Rightarrow> (u8 \<Rightarrow> u8 \<Rightarrow> u8) option" where
  "mmi0_b sa =
     (if sa = 0x08 then Some (+) else if sa = 0x09 then Some (-)
      else if sa = 0x0A then Some (\<lambda>a b. if sint a > sint b then 0xFF else 0)
      else if sa = 0x18 then Some paddsb else if sa = 0x19 then Some psubsb else None)"

text \<open>The instructions that permute the lanes of the two sources into a new register.\<close>

definition mmi0_shuffle :: "nat \<Rightarrow> ee_reg128 \<Rightarrow> ee_reg128 \<Rightarrow> ee_reg128 option" where
  "mmi0_shuffle sa s t =
     (if sa = 0x12 then Some (build_w uninit [lane_w t 0, lane_w s 0, lane_w t 1, lane_w s 1])
      else if sa = 0x13 then Some (build_w uninit [lane_w t 0, lane_w t 2, lane_w s 0, lane_w s 2])
      else if sa = 0x16 then Some (build_h uninit (concat (map (\<lambda>n. [lane_h t n, lane_h s n]) [0 ..< 4])))
      else if sa = 0x17 then Some (build_h uninit (map (lane_h t) [0, 2, 4, 6] @ map (lane_h s) [0, 2, 4, 6]))
      else if sa = 0x1A then Some (build_b uninit (concat (map (\<lambda>n. [lane_b t n, lane_b s n]) [0 ..< 8])))
      else if sa = 0x1B then Some (build_b uninit (map (\<lambda>n. lane_b t (n * 2)) [0 ..< 8] @ map (\<lambda>n. lane_b s (n * 2)) [0 ..< 8]))
      else None)"

definition mmi0 :: "nat \<Rightarrow> nat \<Rightarrow> nat \<Rightarrow> nat \<Rightarrow> 'x ee_state \<Rightarrow> 'x ee_state ee_run" where
  "mmi0 sa rs rt rd st =
     (case mmi0_w sa of Some f \<Rightarrow> Running (loop_w rd (lanes_w rs rt f) st) | None \<Rightarrow>
      case mmi0_h sa of Some f \<Rightarrow> Running (loop_h rd (lanes_h rs rt f) st) | None \<Rightarrow>
      case mmi0_b sa of Some f \<Rightarrow> Running (loop_b rd (lanes_b rs rt f) st) | None \<Rightarrow>
      case mmi0_shuffle sa (e_gpr st rs) (e_gpr st rt) of Some r \<Rightarrow> Running (wr128 rd r st)
      | None \<Rightarrow> Stopped (ee_halt ''unimplemented MMI0 sub-opcode'' st))"

definition mmi1_w :: "nat \<Rightarrow> (u32 \<Rightarrow> u32 \<Rightarrow> u32) option" where
  "mmi1_w sa =
     (if sa = 0x01 then Some (\<lambda>_ v. pabsw v)
      else if sa = 0x02 then Some (\<lambda>a b. if a = b then 0xFFFFFFFF else 0)
      else if sa = 0x03 then Some (\<lambda>a b. if sint a < sint b then a else b)
      else if sa = 0x10 then Some (+)
      else if sa = 0x11 then Some (\<lambda>a b. if a > b then a - b else 0) else None)"

definition mmi1_h :: "nat \<Rightarrow> (nat \<Rightarrow> u16 \<Rightarrow> u16 \<Rightarrow> u16) option" where
  "mmi1_h sa =
     (if sa = 0x04 then Some (\<lambda>n a b. if n < 4 then a - b else a + b)
      else if sa = 0x05 then Some (\<lambda>_ _ v. pabsh v)
      else if sa = 0x06 then Some (\<lambda>_ a b. if a = b then 0xFFFF else 0)
      else if sa = 0x07 then Some (\<lambda>_ a b. if sint a < sint b then a else b)
      else if sa = 0x14 then Some (\<lambda>_ a b. a + b)
      else if sa = 0x15 then Some (\<lambda>_ a b. if a > b then a - b else 0) else None)"

definition mmi1_b :: "nat \<Rightarrow> (u8 \<Rightarrow> u8 \<Rightarrow> u8) option" where
  "mmi1_b sa =
     (if sa = 0x0A then Some (\<lambda>a b. if a = b then 0xFF else 0)
      else if sa = 0x18 then Some (+)
      else if sa = 0x19 then Some (\<lambda>a b. if a > b then a - b else 0) else None)"

definition mmi1_shuffle :: "nat \<Rightarrow> ee_reg128 \<Rightarrow> ee_reg128 \<Rightarrow> ee_reg128 option" where
  "mmi1_shuffle sa s t =
     (if sa = 0x12 then Some (build_w uninit [lane_w t 2, lane_w s 2, lane_w t 3, lane_w s 3])
      else if sa = 0x16 then Some (build_h uninit (concat (map (\<lambda>n. [lane_h t n, lane_h s n]) [4 ..< 8])))
      else if sa = 0x1A then Some (build_b uninit (concat (map (\<lambda>n. [lane_b t n, lane_b s n]) [8 ..< 16])))
      else None)"

definition mmi1 :: "nat \<Rightarrow> nat \<Rightarrow> nat \<Rightarrow> nat \<Rightarrow> 'x ee_state \<Rightarrow> 'x ee_state ee_run" where
  "mmi1 sa rs rt rd st =
     (case mmi1_w sa of Some f \<Rightarrow> Running (loop_w rd (lanes_w rs rt f) st) | None \<Rightarrow>
      case mmi1_h sa of Some f \<Rightarrow> Running (loop_h rd (\<lambda>s n. lanes_h rs rt (f n) s n) st) | None \<Rightarrow>
      case mmi1_b sa of Some f \<Rightarrow> Running (loop_b rd (lanes_b rs rt f) st) | None \<Rightarrow>
      case mmi1_shuffle sa (e_gpr st rs) (e_gpr st rt) of Some r \<Rightarrow> Running (wr128 rd r st)
      | None \<Rightarrow> if sa = 0x1B then Running (wr128 rd (qfsrv (sa_reg st) (e_gpr st rs) (e_gpr st rt)) st)
        else Stopped (ee_halt ''unimplemented MMI1 sub-opcode'' st))"

text \<open>MMI2 and MMI3: what they write to \<open>rd\<close> alone, then the operations on the accumulators.\<close>

definition shift_pair :: "(nat \<Rightarrow> u32 \<Rightarrow> u32) \<Rightarrow> ee_reg128 \<Rightarrow> ee_reg128 \<Rightarrow> ee_reg128" where
  "shift_pair sh s t = \<lparr>ud0 = sext32 (sh (unat (lane_w s 0 AND 0x1F)) (lane_w t 0)),
     ud1 = sext32 (sh (unat (lane_w s 2 AND 0x1F)) (lane_w t 2))\<rparr>"

definition mmi2_value :: "nat \<Rightarrow> ee_reg128 \<Rightarrow> ee_reg128 \<Rightarrow> 'x ee_state \<Rightarrow> ee_reg128 option" where
  "mmi2_value sa s t st =
     (if sa = 0x08 then Some (e_hi st) else if sa = 0x09 then Some (e_lo st)
      else if sa = 0x0E then Some \<lparr>ud0 = ud0 t, ud1 = ud0 s\<rparr>
      else if sa = 0x12 then Some \<lparr>ud0 = ud0 s AND ud0 t, ud1 = ud1 s AND ud1 t\<rparr>
      else if sa = 0x13 then Some \<lparr>ud0 = ud0 s XOR ud0 t, ud1 = ud1 s XOR ud1 t\<rparr>
      else if sa = 0x02 then Some (shift_pair push_bit s t)
      else if sa = 0x03 then Some (shift_pair drop_bit s t)
      else if sa = 0x0A then Some (build_h uninit (concat (map (\<lambda>n. [lane_h t n, lane_h s (n + 4)]) [0 ..< 4])))
      else if sa = 0x1A then Some (build_h uninit (map (lane_h t) [2, 1, 0, 3, 6, 5, 4, 7]))
      else if sa = 0x1B then Some (build_h uninit (map (lane_h t) [3, 2, 1, 0, 7, 6, 5, 4]))
      else if sa = 0x1E then Some (build_w uninit (map (lane_w t) [2, 1, 0, 3]))
      else if sa = 0x1F then Some (build_w uninit (map (lane_w t) [1, 2, 0, 3]))
      else None)"

definition mmi2 :: "nat \<Rightarrow> nat \<Rightarrow> nat \<Rightarrow> nat \<Rightarrow> 'x ee_state \<Rightarrow> 'x ee_state ee_run" where
  "mmi2 sa rs rt rd st =
     (case mmi2_value sa (e_gpr st rs) (e_gpr st rt) st of Some r \<Rightarrow> Running (wr128 rd r st)
      | None \<Rightarrow>
          if sa = 0x00 then Running (both_pipes (pmaddw_pipe rs rt rd) st)
          else if sa = 0x04 then Running (both_pipes (pmsubw_pipe rs rt rd) st)
          else if sa = 0x0C then Running (pmultw rs rt rd st)
          else if sa = 0x0D then Running (both_pipes (pdivw_pipe rs rt) st)
          else if sa = 0x10 then Running (pmaddh rs rt rd st)
          else if sa = 0x11 then Running (phmadh rs rt rd st)
          else if sa = 0x14 then Running (pmsubh rs rt rd st)
          else if sa = 0x15 then Running (phmsbh rs rt rd st)
          else if sa = 0x1C then Running (pmulth rs rt rd st)
          else if sa = 0x1D then Running (pdivbw rs rt st)
          else Stopped (ee_halt ''unimplemented MMI2 sub-opcode'' st))"

definition mmi3_value :: "nat \<Rightarrow> ee_reg128 \<Rightarrow> ee_reg128 \<Rightarrow> ee_reg128 option" where
  "mmi3_value sa s t =
     (if sa = 0x0E then Some \<lparr>ud0 = ud1 s, ud1 = ud1 t\<rparr>
      else if sa = 0x12 then Some \<lparr>ud0 = ud0 s OR ud0 t, ud1 = ud1 s OR ud1 t\<rparr>
      else if sa = 0x13 then Some \<lparr>ud0 = NOT (ud0 s OR ud0 t), ud1 = NOT (ud1 s OR ud1 t)\<rparr>
      else if sa = 0x0A then Some (build_h uninit (concat (map (\<lambda>n. [lane_h t n, lane_h s n]) [0, 2, 4, 6])))
      else if sa = 0x1A then Some (build_h uninit (map (lane_h t) [0, 2, 1, 3, 4, 6, 5, 7]))
      else if sa = 0x1B then Some (build_h uninit (map (lane_h t) [0, 0, 0, 0, 4, 4, 4, 4]))
      else if sa = 0x1E then Some (build_w uninit (map (lane_w t) [0, 2, 1, 3]))
      else if sa = 0x03 then Some (shift_pair signed_drop_bit s t)
      else None)"

definition mmi3 :: "nat \<Rightarrow> nat \<Rightarrow> nat \<Rightarrow> nat \<Rightarrow> 'x ee_state \<Rightarrow> 'x ee_state ee_run" where
  "mmi3 sa rs rt rd st =
     (case mmi3_value sa (e_gpr st rs) (e_gpr st rt) of Some r \<Rightarrow> Running (wr128 rd r st)
      | None \<Rightarrow>
          if sa = 0x08 then Running (st\<lparr>e_hi := e_gpr st rs\<rparr>)
          else if sa = 0x09 then Running (st\<lparr>e_lo := e_gpr st rs\<rparr>)
          else if sa = 0x00 then Running (both_pipes (pmadduw_pipe rs rt rd) st)
          else if sa = 0x0C then Running (pmultuw rs rt rd st)
          else if sa = 0x0D then Running (both_pipes (pdivuw_pipe rs rt) st)
          else Stopped (ee_halt ''unimplemented MMI3 sub-opcode'' st))"

definition shift_h :: "u32 \<Rightarrow> nat \<Rightarrow> (u16 \<Rightarrow> u16) option" where
  "shift_h funct sa =
     (if funct = 0x34 then Some (push_bit (sa mod 16)) else if funct = 0x36 then Some (drop_bit (sa mod 16))
      else if funct = 0x37 then Some (signed_drop_bit (sa mod 16)) else None)"

definition shift_w :: "u32 \<Rightarrow> nat \<Rightarrow> (u32 \<Rightarrow> u32) option" where
  "shift_w funct sa =
     (if funct = 0x3C then Some (push_bit sa) else if funct = 0x3E then Some (drop_bit sa)
      else if funct = 0x3F then Some (signed_drop_bit sa) else None)"

definition exec_mmi :: "u32 \<Rightarrow> 'x ee_state \<Rightarrow> 'x ee_state ee_run" where
  "exec_mmi i st =
     (let rs = i_rs i; rt = i_rt i; rd = i_rd i; sa = i_sa i; funct = i_funct i;
          rs32 = ucast (R st rs); rt32 = ucast (R st rt)
      in if funct = 0x00 then Running (mult_to 0 rd (acc64 0 st + smul32 rs32 rt32) st)
      else if funct = 0x01 then Running (mult_to 0 rd (acc64 0 st + umul32 rs32 rt32) st)
      else if funct = 0x04 then Running (plzcw rd rs st)
      else if funct = 0x08 then mmi0 sa rs rt rd st
      else if funct = 0x09 then mmi2 sa rs rt rd st
      else if funct = 0x10 then Running (wr64 rd (ud1 (e_hi st)) st)
      else if funct = 0x11 then Running (set_hi 1 (R st rs) st)
      else if funct = 0x12 then Running (wr64 rd (ud1 (e_lo st)) st)
      else if funct = 0x13 then Running (set_lo 1 (R st rs) st)
      else if funct = 0x18 then Running (mult_to 1 rd (smul32 rs32 rt32) st)
      else if funct = 0x19 then Running (mult_to 1 rd (umul32 rs32 rt32) st)
      else if funct = 0x1A then ee_div 1 rs32 rt32 st
      else if funct = 0x1B then Running (ee_divu 1 rs32 rt32 st)
      else if funct = 0x20 then Running (mult_to 1 rd (acc64 1 st + smul32 rs32 rt32) st)
      else if funct = 0x21 then Running (mult_to 1 rd (acc64 1 st + umul32 rs32 rt32) st)
      else if funct = 0x28 then mmi1 sa rs rt rd st
      else if funct = 0x29 then mmi3 sa rs rt rd st
      else if funct = 0x30 then Running (pmfhl sa rd st)
      else if funct = 0x31 then Running (pmthl sa rs st)
      else case shift_h funct sa of Some f \<Rightarrow> Running (loop_h rd (\<lambda>s n. f (lane_h (e_gpr s rt) n)) st)
      | None \<Rightarrow> (case shift_w funct sa of Some f \<Rightarrow> Running (loop_w rd (\<lambda>s n. f (lane_w (e_gpr s rt) n)) st)
      | None \<Rightarrow> Stopped (ee_halt ''unimplemented MMI top-level funct'' st)))"

end
