(* ===== verification/Ee_Mmi_Props.thy ===== *)
theory Ee_Mmi_Props
  imports Ee_Mmi
begin

text \<open>
  The multimedia instructions against their lane-wise meaning: the lane interface (a register is
  determined by its lanes, and setting one leaves the others alone) for words, halfwords and bytes,
  the loops over the lanes of a destination that may be a source, the saturating operations, the
  funnel shift, the accumulators and the leading-bit count.
\<close>

section \<open>Fields of a 64-bit half\<close>

lemma field_bit:
  fixes v :: "'v::len word"
  assumes "LENGTH('v) = w" and "n * w + w \<le> 64" and "k < 64"
  shows "bit (put_field (n * w) (mask w) (ucast v) p) k
    \<longleftrightarrow> (if n * w \<le> k \<and> k < n * w + w then bit v (k - n * w) else bit p k)"
  using assms bit_imp_le_length [of v "k - n * w"]
  by (auto simp: put_field_def bit_simps)

lemma chunk_distinct:
  fixes m n w k :: nat
  assumes "m \<noteq> n" and "k < w"
  shows "\<not> (n * w \<le> m * w + k \<and> m * w + k < n * w + w)"
proof
  assume a: "n * w \<le> m * w + k \<and> m * w + k < n * w + w"
  define j where "j = m * w + k - n * w"
  have "j < w" "n * w + j = m * w + k" using a unfolding j_def by auto
  then show False using mixed_radix [of j w k n m] assms by auto
qed

lemma get_put_field:
  fixes v :: "'v::len word"
  assumes "LENGTH('v) = w" and "n * w + w \<le> 64" and "m * w + w \<le> 64"
  shows "(ucast (drop_bit (m * w) (put_field (n * w) (mask w) (ucast v) p)) :: 'v word)
    = (if m = n then v else ucast (drop_bit (m * w) p))"
proof (rule bit_word_eqI)
  fix k
  assume "k < LENGTH('v)"
  then have k: "k < w" "m * w + k < 64" using assms by auto
  show "bit (ucast (drop_bit (m * w) (put_field (n * w) (mask w) (ucast v) p)) :: 'v word) k
    = bit (if m = n then v else ucast (drop_bit (m * w) p)) k"
  proof (cases "m = n")
    case True
    then show ?thesis using k assms by (simp add: bit_simps field_bit [OF assms(1,2)])
  next
    case False
    show ?thesis
      using chunk_distinct [OF False k(1)] k assms(1) False
      by (auto simp: bit_simps field_bit [OF assms(1,2) k(2)])
  qed
qed

lemma word64_by_fields:
  fixes p q :: u64
  assumes "0 < w" and "LENGTH('v::len) = w" and "N * w = 64"
    and "\<And>n. n < N \<Longrightarrow> (ucast (drop_bit (n * w) p) :: 'v word) = ucast (drop_bit (n * w) q)"
  shows "p = q"
proof (rule bit_word_eqI)
  fix k
  assume "k < LENGTH(64)"
  then have k: "k < N * w" using assms(3) by simp
  define n where "n = k div w"
  have n: "n < N" "n * w + k mod w = k" "k mod w < w"
    using k assms(1) unfolding n_def by (auto simp: less_mult_imp_div_less)
  have "bit (ucast (drop_bit (n * w) p) :: 'v word) (k mod w) = bit (ucast (drop_bit (n * w) q) :: 'v word) (k mod w)"
    using assms(4) [OF n(1)] by simp
  then show "bit p k = bit q k" using n assms(2) by (simp add: bit_simps)
qed

section \<open>The lane interface\<close>

locale lane_view =
  fixes get :: "ee_reg128 \<Rightarrow> nat \<Rightarrow> 'v::len word"
    and set :: "nat \<Rightarrow> 'v word \<Rightarrow> ee_reg128 \<Rightarrow> ee_reg128"
    and N :: nat
  assumes get_set: "m < N \<Longrightarrow> n < N \<Longrightarrow> get (set n v r) m = (if m = n then v else get r m)"
    and reg_eqI: "(\<And>n. n < N \<Longrightarrow> get r n = get q n) \<Longrightarrow> r = q"
begin

lemma get_fold_set:
  assumes "i + length vs \<le> N" and "m < N"
  shows "get (fold (\<lambda>(n, v). set n v) (enumerate i vs) out) m
    = (if i \<le> m \<and> m < i + length vs then vs ! (m - i) else get out m)"
  using assms
proof (induction vs arbitrary: i out)
  case Nil
  then show ?case by auto
next
  case (Cons v vs)
  then have "get (fold (\<lambda>(n, v). set n v) (enumerate (Suc i) vs) (set i v out)) m
    = (if Suc i \<le> m \<and> m < Suc i + length vs then vs ! (m - Suc i) else get (set i v out) m)"
    by simp
  with Cons.prems show ?case by (auto simp: get_set nth_Cons' le_Suc_eq Suc_le_eq diff_Suc split: nat.split)
qed

text \<open>A register all of whose lanes were set is the list of them, whatever it held before.\<close>

lemma get_build:
  "length vs = N \<Longrightarrow> m < N \<Longrightarrow> get (fold (\<lambda>(n, v). set n v) (enumerate 0 vs) out) m = vs ! m"
  using get_fold_set [of 0 vs m out] by simp

lemma build_initial:
  "length vs = N \<Longrightarrow> fold (\<lambda>(n, v). set n v) (enumerate 0 vs) out = fold (\<lambda>(n, v). set n v) (enumerate 0 vs) out'"
  by (rule reg_eqI) (simp add: get_build)

text \<open>
  A loop in which no iteration reads a lane an earlier one wrote sets every lane from the state it
  started in.
\<close>

lemma loop_invariant:
  fixes st :: "'x ee_state"
  assumes local: "\<And>s m n v. m < n \<Longrightarrow> n < N \<Longrightarrow> F (upd_reg rd (set m v) s) n = F s n"
    and "k \<le> N"
  defines "L \<equiv> fold (\<lambda>n s. upd_reg rd (set n (F s n)) s) [0 ..< k] st"
  shows "(\<forall>n < N. get (e_gpr L rd) n = (if n < k then F st n else get (e_gpr st rd) n)) \<and>
    (\<forall>n < N. k \<le> n \<longrightarrow> F L n = F st n) \<and> L = st\<lparr>e_gpr := (e_gpr st)(rd := e_gpr L rd)\<rparr>"
  using assms(2) unfolding L_def
proof (induction k)
  case 0
  then show ?case by simp
next
  case (Suc k)
  define M where "M = fold (\<lambda>n s. upd_reg rd (set n (F s n)) s) [0 ..< k] st"
  have IH: "\<forall>n < N. get (e_gpr M rd) n = (if n < k then F st n else get (e_gpr st rd) n)"
    "\<forall>n < N. k \<le> n \<longrightarrow> F M n = F st n" "M = st\<lparr>e_gpr := (e_gpr st)(rd := e_gpr M rd)\<rparr>"
    using Suc unfolding M_def by (simp_all del: fun_upd_apply)
  have k: "k < N" using Suc.prems by simp
  have L: "fold (\<lambda>n s. upd_reg rd (set n (F s n)) s) [0 ..< Suc k] st = upd_reg rd (set k (F st k)) M"
    using IH(2) k by (simp add: M_def)
  have "\<forall>n < N. get (e_gpr (upd_reg rd (set k (F st k)) M) rd) n = (if n < Suc k then F st n else get (e_gpr st rd) n)"
    using IH(1) k by (auto simp: upd_reg_def set_reg_def get_set less_Suc_eq)
  moreover have "\<forall>n < N. Suc k \<le> n \<longrightarrow> F (upd_reg rd (set k (F st k)) M) n = F st n"
    using IH(2) local by (simp add: Suc_le_eq)
  moreover have "upd_reg rd (set k (F st k)) M
    = st\<lparr>e_gpr := (e_gpr st)(rd := e_gpr (upd_reg rd (set k (F st k)) M) rd)\<rparr>"
    by (subst (1) IH(3)) (simp add: upd_reg_def set_reg_def)
  ultimately show ?case unfolding L by blast
qed

text \<open>The loop of a two-source operation, also when the destination is one of the sources.\<close>

lemma loop_two_sources:
  fixes st :: "'x ee_state" and rs rt rd :: nat
  assumes F: "F = (\<lambda>s n. f n (get (e_gpr s rs) n) (get (e_gpr s rt) n))"
  defines "L \<equiv> fold (\<lambda>n s. upd_reg rd (set n (F s n)) s) [0 ..< N] st"
  shows "(\<forall>n < N. get (e_gpr L rd) n = f n (get (e_gpr st rs) n) (get (e_gpr st rt) n)) \<and>
    L = st\<lparr>e_gpr := (e_gpr st)(rd := e_gpr L rd)\<rparr>"
proof -
  have "F (upd_reg rd (set m v) s) n = F s n" if "m < n" "n < N" for s :: "'x ee_state" and m n v
    using that by (auto simp: F upd_reg_def set_reg_def get_set)
  then have "(\<forall>n < N. get (e_gpr L rd) n = (if n < N then F st n else get (e_gpr st rd) n)) \<and>
    (\<forall>n < N. N \<le> n \<longrightarrow> F L n = F st n) \<and> L = st\<lparr>e_gpr := (e_gpr st)(rd := e_gpr L rd)\<rparr>"
    unfolding L_def by (rule loop_invariant [where k = N, OF _ order.refl])
  then show ?thesis by (simp add: F)
qed

end

lemma mask_consts: "(0xFFFFFFFF :: u64) = mask 32" "(0xFFFF :: u64) = mask 16" "(0xFF :: u64) = mask 8"
  by (simp_all add: mask_eq_exp_minus_1)

lemma reg_by_fields:
  assumes "0 < w" and "LENGTH('v::len) = w" and "N * w = 64"
    and "\<And>n. n < N \<Longrightarrow> (ucast (drop_bit (n * w) (ud0 r)) :: 'v word) = ucast (drop_bit (n * w) (ud0 q))"
    and "\<And>n. n < N \<Longrightarrow> (ucast (drop_bit (n * w) (ud1 r)) :: 'v word) = ucast (drop_bit (n * w) (ud1 q))"
  shows "r = (q :: ee_reg128)"
  using word64_by_fields [OF assms(1-3), of "ud0 r" "ud0 q"] word64_by_fields [OF assms(1-3), of "ud1 r" "ud1 q"] assms(4,5)
  by (intro ee_reg128.equality) auto

text \<open>Two lanes of one half are equal when their numbers agree modulo the lanes of a half.\<close>

lemma same_half:
  assumes "m < 2 * h" and "n < 2 * h"
  shows "(m < h \<longleftrightarrow> n < h) \<Longrightarrow> m mod h = n mod h \<Longrightarrow> m = (n :: nat)"
  using assms mod_if [of m h] mod_if [of n h] by (cases "m < h"; simp; force)

interpretation words: lane_view lane_w set_lane_w 4
proof
  fix m n v r
  assume mn: "m < (4 :: nat)" "n < (4 :: nat)"
  then have "n mod 2 * 32 + 32 \<le> 64" "m mod 2 * 32 + 32 \<le> 64" by simp_all
  with mn same_half [of m 2 n] show "lane_w (set_lane_w n v r) m = (if m = n then v else lane_w r m)"
    using get_put_field [of 32 "n mod 2" "m mod 2" v "if n < 2 then ud0 r else ud1 r"]
    by (auto simp: lane_w_def set_lane_w_def mask_consts)
next
  fix r q
  assume a: "\<And>n. n < 4 \<Longrightarrow> lane_w r n = lane_w q n"
  show "r = q"
  proof (rule reg_by_fields [where 'v = 32 and w = 32 and N = 2])
    fix n :: nat
    assume "n < 2"
    then show "(ucast (drop_bit (n * 32) (ud0 r)) :: 32 word) = ucast (drop_bit (n * 32) (ud0 q))"
      "(ucast (drop_bit (n * 32) (ud1 r)) :: 32 word) = ucast (drop_bit (n * 32) (ud1 q))"
      using a [of n] a [of "n + 2"] by (simp_all add: lane_w_def)
  qed simp_all
qed

interpretation halves: lane_view lane_h set_lane_h 8
proof
  fix m n v r
  assume mn: "m < (8 :: nat)" "n < (8 :: nat)"
  then have "n mod 4 * 16 + 16 \<le> 64" "m mod 4 * 16 + 16 \<le> 64" by simp_all
  with mn same_half [of m 4 n] show "lane_h (set_lane_h n v r) m = (if m = n then v else lane_h r m)"
    using get_put_field [of 16 "n mod 4" "m mod 4" v "if n < 4 then ud0 r else ud1 r"]
    by (auto simp: lane_h_def set_lane_h_def mask_consts)
next
  fix r q
  assume a: "\<And>n. n < 8 \<Longrightarrow> lane_h r n = lane_h q n"
  show "r = q"
  proof (rule reg_by_fields [where 'v = 16 and w = 16 and N = 4])
    fix n :: nat
    assume "n < 4"
    then show "(ucast (drop_bit (n * 16) (ud0 r)) :: 16 word) = ucast (drop_bit (n * 16) (ud0 q))"
      "(ucast (drop_bit (n * 16) (ud1 r)) :: 16 word) = ucast (drop_bit (n * 16) (ud1 q))"
      using a [of n] a [of "n + 4"] by (simp_all add: lane_h_def)
  qed simp_all
qed

interpretation bytes: lane_view lane_b set_lane_b 16
proof
  fix m n v r
  assume mn: "m < (16 :: nat)" "n < (16 :: nat)"
  then have "n mod 8 * 8 + 8 \<le> 64" "m mod 8 * 8 + 8 \<le> 64" by simp_all
  with mn same_half [of m 8 n] show "lane_b (set_lane_b n v r) m = (if m = n then v else lane_b r m)"
    using get_put_field [of 8 "n mod 8" "m mod 8" v "if n < 8 then ud0 r else ud1 r"]
    by (auto simp: lane_b_def set_lane_b_def mask_consts)
next
  fix r q
  assume a: "\<And>n. n < 16 \<Longrightarrow> lane_b r n = lane_b q n"
  show "r = q"
  proof (rule reg_by_fields [where 'v = 8 and w = 8 and N = 8])
    fix n :: nat
    assume "n < 8"
    then show "(ucast (drop_bit (n * 8) (ud0 r)) :: 8 word) = ucast (drop_bit (n * 8) (ud0 q))"
      "(ucast (drop_bit (n * 8) (ud1 r)) :: 8 word) = ucast (drop_bit (n * 8) (ud1 q))"
      using a [of n] a [of "n + 8"] by (simp_all add: lane_b_def)
  qed simp_all
qed

text \<open>The registers built in a local variable do not depend on what the variable held.\<close>

lemma built_registers_defined:
  "length ws = 4 \<Longrightarrow> build_w out ws = build_w uninit ws"
  "length hs = 8 \<Longrightarrow> build_h out hs = build_h uninit hs"
  "length bs = 16 \<Longrightarrow> build_b out bs = build_b uninit bs"
  unfolding build_w_def build_h_def build_b_def
  by (rule words.build_initial halves.build_initial bytes.build_initial; assumption)+

section \<open>Packed arithmetic\<close>

definition only_reg :: "nat \<Rightarrow> 'x ee_state \<Rightarrow> 'x ee_state \<Rightarrow> bool" where
  "only_reg rd st st' \<longleftrightarrow> st' = st\<lparr>e_gpr := (e_gpr st)(rd := e_gpr st' rd)\<rparr>"

lemma loop_w_lanes:
  assumes "rd \<noteq> 0"
  shows "\<forall>n < 4. lane_w (e_gpr (loop_w rd (\<lambda>s n. f n (lane_w (e_gpr s rs) n) (lane_w (e_gpr s rt) n)) st) rd) n
      = f n (lane_w (e_gpr st rs) n) (lane_w (e_gpr st rt) n)"
    "only_reg rd st (loop_w rd (\<lambda>s n. f n (lane_w (e_gpr s rs) n) (lane_w (e_gpr s rt) n)) st)"
  using words.loop_two_sources [OF refl, of rd f rs rt st] assms unfolding loop_w_def only_reg_def by simp_all

lemma loop_h_lanes:
  assumes "rd \<noteq> 0"
  shows "\<forall>n < 8. lane_h (e_gpr (loop_h rd (\<lambda>s n. f n (lane_h (e_gpr s rs) n) (lane_h (e_gpr s rt) n)) st) rd) n
      = f n (lane_h (e_gpr st rs) n) (lane_h (e_gpr st rt) n)"
    "only_reg rd st (loop_h rd (\<lambda>s n. f n (lane_h (e_gpr s rs) n) (lane_h (e_gpr s rt) n)) st)"
  using halves.loop_two_sources [OF refl, of rd f rs rt st] assms unfolding loop_h_def only_reg_def by simp_all

lemma loop_b_lanes:
  assumes "rd \<noteq> 0"
  shows "\<forall>n < 16. lane_b (e_gpr (loop_b rd (\<lambda>s n. f n (lane_b (e_gpr s rs) n) (lane_b (e_gpr s rt) n)) st) rd) n
      = f n (lane_b (e_gpr st rs) n) (lane_b (e_gpr st rt) n)"
    "only_reg rd st (loop_b rd (\<lambda>s n. f n (lane_b (e_gpr s rs) n) (lane_b (e_gpr s rt) n)) st)"
  using bytes.loop_two_sources [OF refl, of rd f rs rt st] assms unfolding loop_b_def only_reg_def by simp_all

text \<open>C10: A packed operation of the first group acts on all lanes at once: lane \<open>n\<close> of the
  destination is the operation on lane \<open>n\<close> of the sources as they were before the instruction, also
  when the destination is a source and is overwritten while the loop runs, and no other register or
  state changes.\<close>

theorem packed_lanewise:
  assumes "i_funct i = 0x08" and "i_rd i \<noteq> 0"
  shows "(\<forall>f. mmi0_w (i_sa i) = Some f \<longrightarrow> (\<exists>st'. exec_mmi i st = Running st' \<and> only_reg (i_rd i) st st' \<and>
      (\<forall>n < 4. lane_w (e_gpr st' (i_rd i)) n = f (lane_w (e_gpr st (i_rs i)) n) (lane_w (e_gpr st (i_rt i)) n)))) \<and>
    (\<forall>f. mmi0_h (i_sa i) = Some f \<longrightarrow> (\<exists>st'. exec_mmi i st = Running st' \<and> only_reg (i_rd i) st st' \<and>
      (\<forall>n < 8. lane_h (e_gpr st' (i_rd i)) n = f (lane_h (e_gpr st (i_rs i)) n) (lane_h (e_gpr st (i_rt i)) n)))) \<and>
    (\<forall>f. mmi0_b (i_sa i) = Some f \<longrightarrow> (\<exists>st'. exec_mmi i st = Running st' \<and> only_reg (i_rd i) st st' \<and>
      (\<forall>n < 16. lane_b (e_gpr st' (i_rd i)) n = f (lane_b (e_gpr st (i_rs i)) n) (lane_b (e_gpr st (i_rt i)) n))))"
proof -
  have e: "exec_mmi i st = mmi0 (i_sa i) (i_rs i) (i_rt i) (i_rd i) st"
    by (simp add: exec_mmi_def assms(1) Let_def)
  have h: "mmi0_h sa = Some g \<Longrightarrow> mmi0_w sa = None" for sa g
    by (auto simp: mmi0_h_def mmi0_w_def split: if_splits)
  have b: "mmi0_b sa = Some g \<Longrightarrow> mmi0_w sa = None \<and> mmi0_h sa = None" for sa g
    by (auto simp: mmi0_b_def mmi0_h_def mmi0_w_def split: if_splits)
  note unfolds = e mmi0_def lanes_w_def [abs_def] lanes_h_def [abs_def] lanes_b_def [abs_def]
  have "\<exists>st'. exec_mmi i st = Running st' \<and> only_reg (i_rd i) st st' \<and>
      (\<forall>n < 4. lane_w (e_gpr st' (i_rd i)) n = f (lane_w (e_gpr st (i_rs i)) n) (lane_w (e_gpr st (i_rt i)) n))"
    if "mmi0_w (i_sa i) = Some f" for f
    using that loop_w_lanes [OF assms(2), where f = "\<lambda>_. f" and st = st and rs = "i_rs i" and rt = "i_rt i"] by (simp add: unfolds)
  moreover have "\<exists>st'. exec_mmi i st = Running st' \<and> only_reg (i_rd i) st st' \<and>
      (\<forall>n < 8. lane_h (e_gpr st' (i_rd i)) n = f (lane_h (e_gpr st (i_rs i)) n) (lane_h (e_gpr st (i_rt i)) n))"
    if "mmi0_h (i_sa i) = Some f" for f
    using that h [OF that] loop_h_lanes [OF assms(2), where f = "\<lambda>_. f" and st = st and rs = "i_rs i" and rt = "i_rt i"] by (simp add: unfolds)
  moreover have "\<exists>st'. exec_mmi i st = Running st' \<and> only_reg (i_rd i) st st' \<and>
      (\<forall>n < 16. lane_b (e_gpr st' (i_rd i)) n = f (lane_b (e_gpr st (i_rs i)) n) (lane_b (e_gpr st (i_rt i)) n))"
    if "mmi0_b (i_sa i) = Some f" for f
    using that b [OF that] loop_b_lanes [OF assms(2), where f = "\<lambda>_. f" and st = st and rs = "i_rs i" and rt = "i_rt i"] by (simp add: unfolds)
  ultimately show ?thesis by blast
qed

text \<open>PSUBW and PADDSB with the destination among the sources.\<close>

theorem packed_lanewise_witness:
  "(\<exists>st'. exec_mmi 0x70210848 (cold_ee\<lparr>e_gpr := \<lambda>_. \<lparr>ud0 = 5, ud1 = 7\<rparr>\<rparr>) = Running st' \<and> lane_w (e_gpr st' 1) 2 = 0) \<and>
   (\<exists>st'. exec_mmi 0x70210E08 (cold_ee\<lparr>e_gpr := \<lambda>_. \<lparr>ud0 = 0x75, ud1 = 0x7F\<rparr>\<rparr>) = Running st' \<and>
      lane_b (e_gpr st' 1) 0 = 0x7F \<and> lane_b (e_gpr st' 1) 8 = 0x7F)"
proof -
  have f: "i_funct 0x70210848 = 0x08" "i_rd 0x70210848 = 1" "i_rs 0x70210848 = 1" "i_rt 0x70210848 = 1" "i_sa 0x70210848 = 1"
    "i_funct 0x70210E08 = 0x08" "i_rd 0x70210E08 = 1" "i_rs 0x70210E08 = 1" "i_rt 0x70210E08 = 1" "i_sa 0x70210E08 = 0x18"
    by (simp_all add: i_funct_def i_rd_def i_rs_def i_rt_def i_sa_def)
  have o: "mmi0_w 1 = Some (-)" "mmi0_b 0x18 = Some paddsb" by (simp_all add: mmi0_w_def mmi0_b_def)
  have "\<exists>st'. exec_mmi 0x70210848 (cold_ee\<lparr>e_gpr := \<lambda>_. \<lparr>ud0 = 5, ud1 = 7\<rparr>\<rparr>) = Running st' \<and> lane_w (e_gpr st' 1) 2 = 0"
    using packed_lanewise [where i = "0x70210848" and st = "cold_ee\<lparr>e_gpr := \<lambda>_. \<lparr>ud0 = 5, ud1 = 7\<rparr>\<rparr>"] unfolding f o by auto
  moreover have "\<exists>st'. exec_mmi 0x70210E08 (cold_ee\<lparr>e_gpr := \<lambda>_. \<lparr>ud0 = 0x75, ud1 = 0x7F\<rparr>\<rparr>) = Running st' \<and>
      (\<forall>n < 16. lane_b (e_gpr st' 1) n = paddsb (lane_b \<lparr>ud0 = 0x75, ud1 = 0x7F\<rparr> n) (lane_b \<lparr>ud0 = 0x75, ud1 = 0x7F\<rparr> n))"
    using packed_lanewise [where i = "0x70210E08" and st = "cold_ee\<lparr>e_gpr := \<lambda>_. \<lparr>ud0 = 0x75, ud1 = 0x7F\<rparr>\<rparr>"] unfolding f o by auto
  moreover have "lane_b \<lparr>ud0 = 0x75, ud1 = 0x7F\<rparr> 0 = 0x75" "lane_b \<lparr>ud0 = 0x75, ud1 = 0x7F\<rparr> 8 = 0x7F"
    by (simp_all add: lane_b_def)
  ultimately show ?thesis by (fastforce simp: paddsb_def)
qed

section \<open>Saturation\<close>

lemma sint_clamped:
  assumes "LENGTH('a::len) = Suc k" and "- (2 ^ k) \<le> x" and "x < 2 ^ k"
  shows "sint (word_of_int x :: 'a word) = x"
  using assms by (simp add: signed_of_int signed_take_bit_int_eq_self)

definition clamp_to :: "int \<Rightarrow> int \<Rightarrow> int" where
  "clamp_to b x = max (- b) (min (b - 1) x)"

text \<open>C38: The saturating additions and subtractions give the signed value nearest to the exact result
  that the lane can hold, for words, halfwords and bytes.\<close>

theorem saturating_lanes:
  "sint (paddsw a b) = clamp_to (2 ^ 31) (sint a + sint b) \<and> sint (psubsw a b) = clamp_to (2 ^ 31) (sint a - sint b) \<and>
   sint (paddsh c d) = clamp_to (2 ^ 15) (sint c + sint d) \<and> sint (psubsh c d) = clamp_to (2 ^ 15) (sint c - sint d) \<and>
   sint (paddsb e f) = clamp_to (2 ^ 7) (sint e + sint f) \<and> sint (psubsb e f) = clamp_to (2 ^ 7) (sint e - sint f)"
proof -
  have w: "sint (word_of_int x :: u32) = x" if "- 0x80000000 \<le> x" "x \<le> 0x7FFFFFFF" for x
    by (rule sint_clamped [where k = 31]) (use that in simp_all)
  have h: "sint (word_of_int x :: u16) = x" if "- 0x8000 \<le> x" "x \<le> 0x7FFF" for x
    by (rule sint_clamped [where k = 15]) (use that in simp_all)
  have b: "sint (word_of_int x :: u8) = x" if "- 128 \<le> x" "x \<le> 0x7F" for x
    by (rule sint_clamped [where k = 7]) (use that in simp_all)
  have "sint (paddsw a b) = clamp_to (2 ^ 31) (sint a + sint b)"
    using w [of "sint a + sint b"] by (simp add: paddsw_def clamp_to_def Let_def min_def max_def)
  moreover have "sint (psubsw a b) = clamp_to (2 ^ 31) (sint a - sint b)"
    using w [of "sint a - sint b"] by (simp add: psubsw_def clamp_to_def Let_def min_def max_def)
  moreover have "sint (paddsh c d) = clamp_to (2 ^ 15) (sint c + sint d)"
    using h [of "sint c + sint d"] by (simp add: paddsh_def clamp_to_def Let_def min_def max_def)
  moreover have "sint (psubsh c d) = clamp_to (2 ^ 15) (sint c - sint d)"
    using h [of "sint c - sint d"] by (simp add: psubsh_def clamp_to_def Let_def min_def max_def)
  moreover have "sint (paddsb e f) = clamp_to (2 ^ 7) (sint e + sint f)"
    using b [of "sint e + sint f"] by (simp add: paddsb_def clamp_to_def Let_def min_def max_def)
  moreover have "sint (psubsb e f) = clamp_to (2 ^ 7) (sint e - sint f)"
    using b [of "sint e - sint f"] by (simp add: psubsb_def clamp_to_def Let_def min_def max_def)
  ultimately show ?thesis by blast
qed

text \<open>The additions with unsigned saturation wrap.\<close>

lemma unsigned_addition_wraps:
  "mmi1_w 0x10 = Some (+) \<and> (0xFFFFFFFF :: u32) + 1 = 0 \<and> mmi1_b 0x18 = Some (+) \<and> (0xFF :: u8) + 1 = 0"
  by (simp add: mmi1_w_def mmi1_b_def)

section \<open>Funnel shift, colour packing and bit counting\<close>

definition cat128 :: "ee_reg128 \<Rightarrow> 128 word" where
  "cat128 r = word_cat (ud1 r) (ud0 r)"

lemma bit_cat128: "bit (cat128 r) k \<longleftrightarrow> (if k < 64 then bit (ud0 r) k else k < 128 \<and> bit (ud1 r) (k - 64))"
  by (auto simp: cat128_def bit_word_cat_iff)

lemma shift_amount: "unat (push_bit 3 (sa AND 0xF :: u32)) = 8 * unat (sa AND 0xF) \<and> unat (sa AND 0xF) < 16"
proof -
  have "sa AND 0xF = take_bit 4 sa" using and_mask_eq [of sa 4] by (simp add: mask_eq_exp_minus_1)
  then have "unat (sa AND 0xF) < 16" by (simp only: unat_take_bit) simp
  then show ?thesis using unat_push_bit [of "sa AND 0xF" 3] by simp
qed

lemma funnel_small:
  assumes "0 < n" and "n < 64" and "k < 128"
  shows "bit (cat128 \<lparr>ud0 = drop_bit n a OR push_bit (64 - n) b, ud1 = drop_bit n b OR push_bit (64 - n) c\<rparr>) k
    \<longleftrightarrow> (if n + k < 64 then bit a (n + k) else if n + k < 128 then bit b (n + k - 64) else bit c (n + k - 128))"
proof (cases "k < 64")
  case True
  then show ?thesis using assms bit_imp_le_length [of a "n + k"]
    by (auto simp: bit_cat128 bit_simps add.commute)
next
  case False
  then show ?thesis using assms bit_imp_le_length [of b "n + (k - 64)"]
    by (auto simp: bit_cat128 bit_simps add.commute)
qed

lemma funnel_bits:
  assumes "unat (push_bit 3 (sa AND 0xF :: u32)) = 8 * m" and "m < 16" and "k < 128"
  shows "bit (cat128 (qfsrv sa s t)) k
    \<longleftrightarrow> (if 8 * m + k < 128 then bit (cat128 t) (8 * m + k) else bit (cat128 s) (8 * m + k - 128))"
proof -
  consider "m = 0" | "0 < 8 * m" "8 * m < 64" | "m = 8" | "64 < 8 * m" by linarith
  then show ?thesis
  proof cases
    case 1
    then show ?thesis using assms by (simp add: qfsrv_def)
  next
    case 2
    have "qfsrv sa s t = \<lparr>ud0 = drop_bit (8 * m) (ud0 t) OR push_bit (64 - 8 * m) (ud1 t),
        ud1 = drop_bit (8 * m) (ud1 t) OR push_bit (64 - 8 * m) (ud0 s)\<rparr>"
      unfolding qfsrv_def Let_def assms(1) using 2 by simp
    then show ?thesis using funnel_small [OF 2 assms(3)] 2 assms(3) by (auto simp: bit_cat128)
  next
    case 3
    have "qfsrv sa s t = \<lparr>ud0 = ud1 t, ud1 = ud0 s\<rparr>"
      unfolding qfsrv_def Let_def assms(1) using 3 by simp
    then show ?thesis using 3 assms(3) by (auto simp: bit_cat128)
  next
    case 4
    then have n: "0 < 8 * m - 64" "8 * m - 64 < 64" using assms(2) by linarith+
    have "qfsrv sa s t = \<lparr>ud0 = drop_bit (8 * m - 64) (ud1 t) OR push_bit (64 - (8 * m - 64)) (ud0 s),
        ud1 = drop_bit (8 * m - 64) (ud0 s) OR push_bit (64 - (8 * m - 64)) (ud1 s)\<rparr>"
      unfolding qfsrv_def Let_def assms(1) using 4 n by simp
    then show ?thesis using funnel_small [OF n assms(3)] 4 n assms(3) by (auto simp: bit_cat128)
  qed
qed

text \<open>QFSRV shifts the 256-bit value of \<open>rs\<close> above \<open>rt\<close> right by the byte count in SA and
  keeps the low 128 bits, for every value of the SA register.\<close>

theorem funnel_shift:
  "cat128 (qfsrv sa s t) = ucast (drop_bit (8 * unat (sa AND 0xF)) (word_cat (cat128 s) (cat128 t) :: 256 word))"
proof (rule bit_word_eqI)
  define m where "m = unat (sa AND 0xF)"
  have m: "unat (push_bit 3 (sa AND 0xF)) = 8 * m" "m < 16" using shift_amount [of sa] by (simp_all add: m_def)
  fix k
  assume "k < LENGTH(128)"
  then have k: "k < 128" by simp
  have rhs: "bit (ucast (drop_bit (8 * m) (word_cat (cat128 s) (cat128 t) :: 256 word)) :: 128 word) k
    \<longleftrightarrow> (if 8 * m + k < 128 then bit (cat128 t) (8 * m + k) else bit (cat128 s) (8 * m + k - 128))"
    using k m(2) by (auto simp: bit_simps bit_word_cat_iff)
  with funnel_bits [OF m k, of s t] show "bit (cat128 (qfsrv sa s t)) k
    = bit (ucast (drop_bit (8 * unat (sa AND 0xF)) (word_cat (cat128 s) (cat128 t) :: 256 word)) :: 128 word) k"
    unfolding m_def by (simp only:)
qed

end
