(* ===== verification/Ee_Cpu.thy ===== *)
theory Ee_Cpu
  imports Ee_Mmi
begin

text \<open>
  The instruction set of the EE interpreter: the \<open>switch (op)\<close> of \<open>ee_step\<close> in
  \<open>source/core/ee/ee_core.c\<close>, without the kernel calls behind SYSCALL and without the floating-point
  and vector coprocessors, which are arguments (\<open>ee_env\<close>).

  An instruction is executed on the state after the prologue has advanced the two program counters;
  \<open>this_pc\<close> is its address and \<open>delay\<close> says whether it sits in a delay slot.
\<close>

section \<open>Small steps of the switch\<close>

definition ee_branch_to :: "u32 \<Rightarrow> 'x ee_state \<Rightarrow> 'x ee_state" where
  "ee_branch_to tgt st = st\<lparr>e_next_pc := tgt, branch_pending := True\<rparr>"

definition ee_link :: "nat \<Rightarrow> u32 \<Rightarrow> 'x ee_state \<Rightarrow> 'x ee_state" where
  "ee_link r this_pc st = set64 r (ucast (this_pc + 8)) st"

definition rel_target :: "u32 \<Rightarrow> u32 \<Rightarrow> u32" where
  "rel_target this_pc i = this_pc + 4 + push_bit 2 (i_imm i)"

definition abs_target :: "u32 \<Rightarrow> u32 \<Rightarrow> u32" where
  "abs_target this_pc i = (this_pc AND 0xF0000000) OR push_bit 2 (i AND 0x03FFFFFF)"

text \<open>A branch always owns its delay slot; a branch-likely that is not taken skips it.\<close>

definition branch :: "bool \<Rightarrow> u32 \<Rightarrow> 'x ee_state \<Rightarrow> 'x ee_state" where
  "branch c tgt st = (let st1 = st\<lparr>branch_pending := True\<rparr> in if c then ee_branch_to tgt st1 else st1)"

definition branch_likely :: "bool \<Rightarrow> u32 \<Rightarrow> 'x ee_state \<Rightarrow> 'x ee_state" where
  "branch_likely c tgt st =
     (if c then ee_branch_to tgt st else st\<lparr>e_pc := e_pc st + 4, e_next_pc := e_pc st + 8\<rparr>)"

definition trap_if :: "bool \<Rightarrow> u32 \<Rightarrow> bool \<Rightarrow> 'x ee_state \<Rightarrow> 'x ee_state" where
  "trap_if c this_pc delay st = (if c then ee_raise_exception EE_EXC_CODE_TR this_pc delay st else st)"

text \<open>\<open>%0wX\<close> of the halt messages.\<close>

definition hex_char :: "nat \<Rightarrow> char" where
  "hex_char d = ''0123456789ABCDEF'' ! d"

fun hex :: "nat \<Rightarrow> nat \<Rightarrow> string" where
  "hex 0 n = []"
| "hex (Suc w) n = hex w (n div 16) @ [hex_char (n mod 16)]"

section \<open>SPECIAL\<close>

text \<open>The operations that only write \<open>rd\<close>, by their function code.\<close>

definition ee_shift32 :: "u32 \<Rightarrow> nat \<Rightarrow> u32 \<Rightarrow> u32 \<Rightarrow> u32 option" where
  "ee_shift32 funct sa rs32 rt32 =
     (let v = unat (rs32 AND 0x1F) in
      if funct = 0x00 then Some (push_bit sa rt32) else if funct = 0x02 then Some (drop_bit sa rt32)
      else if funct = 0x03 then Some (signed_drop_bit sa rt32) else if funct = 0x04 then Some (push_bit v rt32)
      else if funct = 0x06 then Some (drop_bit v rt32) else if funct = 0x07 then Some (signed_drop_bit v rt32)
      else None)"

definition ee_shift64 :: "u32 \<Rightarrow> nat \<Rightarrow> u64 \<Rightarrow> u64 \<Rightarrow> u64 option" where
  "ee_shift64 funct sa a b =
     (let v = unat ((ucast a :: u32) AND 0x3F) in
      if funct = 0x14 then Some (push_bit v b) else if funct = 0x16 then Some (drop_bit v b)
      else if funct = 0x17 then Some (signed_drop_bit v b)
      else if funct = 0x38 then Some (push_bit sa b) else if funct = 0x3A then Some (drop_bit sa b)
      else if funct = 0x3B then Some (signed_drop_bit sa b)
      else if funct = 0x3C then Some (push_bit (sa + 32) b) else if funct = 0x3E then Some (drop_bit (sa + 32) b)
      else if funct = 0x3F then Some (signed_drop_bit (sa + 32) b) else None)"

definition ee_alu :: "u32 \<Rightarrow> u64 \<Rightarrow> u64 \<Rightarrow> u64 option" where
  "ee_alu funct a b =
     (if funct = 0x20 \<or> funct = 0x21 then Some (sext32 (ucast a + ucast b))
      else if funct = 0x22 \<or> funct = 0x23 then Some (sext32 (ucast a - ucast b))
      else if funct = 0x24 then Some (a AND b) else if funct = 0x25 then Some (a OR b)
      else if funct = 0x26 then Some (a XOR b) else if funct = 0x27 then Some (NOT (a OR b))
      else if funct = 0x2A then Some (if sint a < sint b then 1 else 0)
      else if funct = 0x2B then Some (if a < b then 1 else 0)
      else if funct = 0x2C \<or> funct = 0x2D then Some (a + b)
      else if funct = 0x2E \<or> funct = 0x2F then Some (a - b) else None)"

definition trap_cond :: "u32 \<Rightarrow> u64 \<Rightarrow> u64 \<Rightarrow> bool option" where
  "trap_cond funct a b =
     (if funct = 0x30 then Some (sint a \<ge> sint b) else if funct = 0x31 then Some (a \<ge> b)
      else if funct = 0x32 then Some (sint a < sint b) else if funct = 0x33 then Some (a < b)
      else if funct = 0x34 then Some (a = b) else if funct = 0x36 then Some (a \<noteq> b) else None)"

definition ee_exec_special :: "'x ee_env \<Rightarrow> u32 \<Rightarrow> u32 \<Rightarrow> bool \<Rightarrow> 'x ee_state \<Rightarrow> 'x ee_state ee_run" where
  "ee_exec_special env i this_pc delay st =
     (let rs = i_rs i; rt = i_rt i; rd = i_rd i; sa = i_sa i; funct = i_funct i;
          rs32 = ucast (R st rs); rt32 = ucast (R st rt)
      in case ee_shift32 funct sa rs32 rt32 of Some v \<Rightarrow> Running (wr64 rd (sext32 v) st) | None \<Rightarrow>
      case ee_shift64 funct sa (R st rs) (R st rt) of Some v \<Rightarrow> Running (wr64 rd v st) | None \<Rightarrow>
      case ee_alu funct (R st rs) (R st rt) of Some v \<Rightarrow> Running (wr64 rd v st) | None \<Rightarrow>
      case trap_cond funct (R st rs) (R st rt) of Some c \<Rightarrow> Running (trap_if c this_pc delay st) | None \<Rightarrow>
      if funct = 0x08 then Running (ee_branch_to rs32 st)
      else if funct = 0x09 then Running (ee_branch_to rs32 (if rd \<noteq> 0 then ee_link rd this_pc st else st))
      else if funct = 0x0A then Running (if R st rt = 0 then wr64 rd (R st rs) st else st)
      else if funct = 0x0B then Running (if R st rt \<noteq> 0 then wr64 rd (R st rs) st else st)
      else if funct = 0x0C then kernel_syscall env this_pc delay st
      else if funct = 0x0D then Running (ee_raise_exception EE_EXC_CODE_BP this_pc delay st)
      else if funct = 0x0F then Running st
      else if funct = 0x10 then Running (wr64 rd (ud0 (e_hi st)) st)
      else if funct = 0x11 then Running (set_hi 0 (R st rs) st)
      else if funct = 0x12 then Running (wr64 rd (ud0 (e_lo st)) st)
      else if funct = 0x13 then Running (set_lo 0 (R st rs) st)
      else if funct = 0x18 then Running (mult_to 0 rd (smul32 rs32 rt32) st)
      else if funct = 0x19 then Running (mult_to 0 rd (umul32 rs32 rt32) st)
      else if funct = 0x1A then ee_div 0 rs32 rt32 st
      else if funct = 0x1B then Running (ee_divu 0 rs32 rt32 st)
      else if funct = 0x28 then Running (wr64 rd (ucast (sa_reg st)) st)
      else if funct = 0x29 then Running (st\<lparr>sa_reg := rs32\<rparr>)
      else Stopped (ee_halt ''unimplemented SPECIAL funct'' st))"

section \<open>REGIMM\<close>

definition ee_exec_regimm :: "u32 \<Rightarrow> u32 \<Rightarrow> 'x ee_state \<Rightarrow> 'x ee_state ee_run" where
  "ee_exec_regimm i this_pc st =
     (let rs = i_rs i; rt = i_rt i; tgt = rel_target this_pc i; rs32 = ucast (R st rs) :: u32 in
      if rt = 0x00 then Running (branch (sint (R st rs) < 0) tgt st)
      else if rt = 0x01 then Running (branch (sint (R st rs) \<ge> 0) tgt st)
      else if rt = 0x02 then Running (branch_likely (sint (R st rs) < 0) tgt st)
      else if rt = 0x03 then Running (branch_likely (sint (R st rs) \<ge> 0) tgt st)
      else if rt = 0x12 then
        let st1 = ee_link 31 this_pc st in Running (branch_likely (sint (R st1 rs) < 0) tgt st1)
      else if rt = 0x13 then
        let st1 = ee_link 31 this_pc st in Running (branch_likely (sint (R st1 rs) \<ge> 0) tgt st1)
      else if rt = 0x18 then Running (st\<lparr>sa_reg := (rs32 AND 0xF) XOR (i_imm i AND 0xF)\<rparr>)
      else if rt = 0x19 then Running (st\<lparr>sa_reg := push_bit 1 ((rs32 AND 0x7) XOR (i_imm i AND 0x7))\<rparr>)
      else Stopped (ee_halt ''unimplemented REGIMM opcode'' st))"

section \<open>Immediates, jumps and branches\<close>

text \<open>The operations on \<open>rs\<close> and the immediate that only write \<open>rt\<close>.\<close>

definition ee_alu_imm :: "u32 \<Rightarrow> u64 \<Rightarrow> u32 \<Rightarrow> u64 option" where
  "ee_alu_imm op a i =
     (let imm = i_imm i; simm = sext32 imm; uimm = ucast (i_uimm i) in
      if op = 0x08 \<or> op = 0x09 then Some (sext32 (ucast a + imm))
      else if op = 0x18 \<or> op = 0x19 then Some (a + simm)
      else if op = 0x0A then Some (if sint a < sint simm then 1 else 0)
      else if op = 0x0B then Some (if a < simm then 1 else 0)
      else if op = 0x0C then Some (a AND uimm) else if op = 0x0D then Some (a OR uimm)
      else if op = 0x0E then Some (a XOR uimm)
      else if op = 0x0F then Some (sext32 (push_bit 16 (i_uimm i))) else None)"

definition branch_cond :: "u32 \<Rightarrow> u64 \<Rightarrow> u64 \<Rightarrow> bool option" where
  "branch_cond op a b =
     (if op = 0x04 \<or> op = 0x14 then Some (a = b) else if op = 0x05 \<or> op = 0x15 then Some (a \<noteq> b)
      else if op = 0x06 \<or> op = 0x16 then Some (sint a \<le> 0) else if op = 0x07 \<or> op = 0x17 then Some (sint a > 0)
      else None)"

section \<open>Coprocessor 0\<close>

definition status_switch :: "u32 \<Rightarrow> bool" where
  "status_switch s \<longleftrightarrow> s AND 0x20000 \<noteq> 0 \<or> s AND 0x2 \<noteq> 0 \<or> s AND 0x4 \<noteq> 0 \<or> s AND 0x18 = 0"

definition ee_exec_mtc0 :: "nat \<Rightarrow> u32 \<Rightarrow> 'x ee_state \<Rightarrow> 'x ee_state" where
  "ee_exec_mtc0 rd v st =
     (if rd = 16 then set_cop0 16 ((v AND NOT 0xFC0) OR 0x440) st
      else if rd = 11 then let st1 = set_cop0 11 v st in set_cop0 13 (e_cop0 st1 13 AND NOT 0x00008000) st1
      else set_cop0 rd v st)"

definition ee_exec_eret :: "'x ee_env \<Rightarrow> 'x ee_state \<Rightarrow> 'x ee_state" where
  "ee_exec_eret env st =
     (let s = e_cop0 st 12;
          (tgt, s') = (if s AND 0x4 \<noteq> 0 then (e_cop0 st 30, s AND NOT 0x4) else (e_cop0 st 14, s AND NOT 0x2))
      in thread_check_preempt env ((set_cop0 12 s' st)\<lparr>e_pc := tgt, e_next_pc := tgt + 4\<rparr>))"

definition ee_exec_tlbr :: "'x ee_state \<Rightarrow> 'x ee_state" where
  "ee_exec_tlbr st =
     (let i = unat (e_cop0 st 0 AND 0x3F) in
      if i > 47 then st
      else let e = tlb st ! i; g = (entry_lo0 e AND 1) AND (entry_lo1 e AND 1) in
        set_cop0 3 ((entry_lo1 e AND NOT 0x7C000000 AND NOT 1) OR g)
          (set_cop0 2 ((entry_lo0 e AND NOT 0xFC000000 AND NOT 1) OR g)
          (set_cop0 10 (entry_hi e AND NOT (page_mask e OR 0x1F00))
          (set_cop0 5 (page_mask e) st))))"

text \<open>TLBWI writes the entry Index names, TLBWR the one Random names.\<close>

definition write_tlb :: "nat \<Rightarrow> 'x ee_state \<Rightarrow> 'x ee_state" where
  "write_tlb r st =
     (let j = unat (e_cop0 st r AND 0x3F) in
      if j > 47 then st
      else st\<lparr>tlb := (tlb st)[j := \<lparr>page_mask = e_cop0 st 5, entry_hi = e_cop0 st 10,
             entry_lo0 = e_cop0 st 2, entry_lo1 = e_cop0 st 3\<rparr>]\<rparr>)"

definition ee_exec_tlbp :: "'x ee_state \<Rightarrow> 'x ee_state" where
  "ee_exec_tlbp st =
     (let eh = e_cop0 st 10 in
      set_cop0 0 (case list_find_index (tlb_matches (drop_bit 13 eh AND 0x7FFFF) (eh AND 0xFF)) (tlb st) of
          None \<Rightarrow> 0x80000000 | Some i \<Rightarrow> word_of_nat i) st)"

definition ee_exec_co :: "'x ee_env \<Rightarrow> u32 \<Rightarrow> u32 \<Rightarrow> 'x ee_state \<Rightarrow> 'x ee_state ee_run" where
  "ee_exec_co env i this_pc st =
     (let funct = i AND 0x3F; s = e_cop0 st 12 in
      if funct = 0x01 then Running (ee_exec_tlbr st)
      else if funct = 0x02 then Running (write_tlb 0 st)
      else if funct = 0x06 then Running (write_tlb 1 st)
      else if funct = 0x08 then Running (ee_exec_tlbp st)
      else if funct = 0x10 then Running (set_cop0 12 ((s AND NOT 0x0F) OR (drop_bit 2 s AND 0x0F)) st)
      else if funct = 0x18 then Running (ee_exec_eret env st)
      else if funct = 0x38 then Running (if status_switch s then set_cop0 12 (s OR 0x10000) st else st)
      else if funct = 0x39 then Running (if status_switch s then set_cop0 12 (s AND NOT 0x10000) st else st)
      else Stopped (ee_halt (''unimplemented COP0 CO-format funct 0x'' @ hex 2 (unat funct) @ '' (pc=0x''
             @ hex 8 (unat this_pc) @ '')'') st))"

definition ee_exec_cop0 :: "'x ee_env \<Rightarrow> u32 \<Rightarrow> u32 \<Rightarrow> 'x ee_state \<Rightarrow> 'x ee_state ee_run" where
  "ee_exec_cop0 env i this_pc st =
     (let rs = i_rs i; rt = i_rt i; rd = i_rd i in
      if rs = 0x00 then Running (wr64 rt (sext32 (e_cop0 st rd)) st)
      else if rs = 0x04 then Running (ee_exec_mtc0 rd (ucast (R st rt)) st)
      else if rs \<ge> 0x10 then ee_exec_co env i this_pc st
      else Stopped (ee_halt (''unimplemented COP0 sub-opcode (rs=0x'' @ hex 2 rs @ '', pc=0x'' @ hex 8 (unat this_pc)
             @ '', BC0 not implemented)'') st))"

section \<open>Loads and stores\<close>

text \<open>A read whose value goes to \<open>rt\<close> (and is dropped for register 0).\<close>

definition load_to :: "nat \<Rightarrow> ('v \<Rightarrow> u64) \<Rightarrow> 'v \<times> 'x ee_state \<Rightarrow> 'x ee_state" where
  "load_to rt ext r = wr64 rt (ext (fst r)) (snd r)"

definition ee_exec_load :: "'x ee_env \<Rightarrow> u32 \<Rightarrow> u32 \<Rightarrow> nat \<Rightarrow> 'x ee_state \<Rightarrow> 'x ee_state option" where
  "ee_exec_load env op addr rt st =
     (if op = 0x20 then Some (load_to rt scast (ee_mem_read8 env addr st))
      else if op = 0x21 then Some (load_to rt scast (ee_mem_read16 env addr st))
      else if op = 0x23 then Some (load_to rt sext32 (ee_mem_read32 env addr st))
      else if op = 0x24 then Some (load_to rt ucast (ee_mem_read8 env addr st))
      else if op = 0x25 then Some (load_to rt ucast (ee_mem_read16 env addr st))
      else if op = 0x27 then Some (load_to rt ucast (ee_mem_read32 env addr st))
      else if op = 0x37 then Some (load_to rt id (ee_mem_read64 env addr st))
      else None)"

text \<open>The unaligned accesses; \<open>MASK[shift]\<close> and \<open>SHIFT[shift]\<close> are the tables of the code.\<close>

definition LWL_MASK :: "u32 list" where "LWL_MASK = [0xFFFFFF, 0xFFFF, 0xFF, 0]"
definition LWL_SHIFT :: "nat list" where "LWL_SHIFT = [24, 16, 8, 0]"
definition LWR_MASK :: "u32 list" where "LWR_MASK = [0, 0xFF000000, 0xFFFF0000, 0xFFFFFF00]"
definition LWR_SHIFT :: "nat list" where "LWR_SHIFT = [0, 8, 16, 24]"
definition SWL_MASK :: "u32 list" where "SWL_MASK = [0xFFFFFF00, 0xFFFF0000, 0xFF000000, 0]"
definition SWR_MASK :: "u32 list" where "SWR_MASK = [0, 0xFF, 0xFFFF, 0xFFFFFF]"

definition LDL_MASK :: "u64 list" where
  "LDL_MASK = [0x00FFFFFFFFFFFFFF, 0x0000FFFFFFFFFFFF, 0x000000FFFFFFFFFF, 0x00000000FFFFFFFF,
     0x0000000000FFFFFF, 0x000000000000FFFF, 0x00000000000000FF, 0]"
definition LDL_SHIFT :: "nat list" where "LDL_SHIFT = [56, 48, 40, 32, 24, 16, 8, 0]"
definition LDR_MASK :: "u64 list" where
  "LDR_MASK = [0, 0xFF00000000000000, 0xFFFF000000000000, 0xFFFFFF0000000000,
     0xFFFFFFFF00000000, 0xFFFFFFFFFF000000, 0xFFFFFFFFFFFF0000, 0xFFFFFFFFFFFFFF00]"
definition LDR_SHIFT :: "nat list" where "LDR_SHIFT = [0, 8, 16, 24, 32, 40, 48, 56]"
definition SDL_MASK :: "u64 list" where
  "SDL_MASK = [0xFFFFFFFFFFFFFF00, 0xFFFFFFFFFFFF0000, 0xFFFFFFFFFF000000, 0xFFFFFFFF00000000,
     0xFFFFFF0000000000, 0xFFFF000000000000, 0xFF00000000000000, 0]"
definition SDR_MASK :: "u64 list" where
  "SDR_MASK = [0, 0xFF, 0xFFFF, 0xFFFFFF, 0xFFFFFFFF, 0xFFFFFFFFFF, 0xFFFFFFFFFFFF, 0xFFFFFFFFFFFFFF]"

definition ee_exec_lwl :: "'x ee_env \<Rightarrow> u32 \<Rightarrow> nat \<Rightarrow> 'x ee_state \<Rightarrow> 'x ee_state" where
  "ee_exec_lwl env addr rt st =
     (let shift = unat (addr AND 3); rt32 = ucast (R st rt); (mem, st1) = ee_mem_read32 env (addr AND NOT 3) st
      in wr64 rt (sext32 ((rt32 AND LWL_MASK ! shift) OR push_bit (LWL_SHIFT ! shift) mem)) st1)"

definition ee_exec_lwr :: "'x ee_env \<Rightarrow> u32 \<Rightarrow> nat \<Rightarrow> 'x ee_state \<Rightarrow> 'x ee_state" where
  "ee_exec_lwr env addr rt st =
     (let shift = unat (addr AND 3); rt32 = ucast (R st rt); (mem, st1) = ee_mem_read32 env (addr AND NOT 3) st;
          result = (rt32 AND LWR_MASK ! shift) OR drop_bit (LWR_SHIFT ! shift) mem
      in wr64 rt (if shift = 0 then sext32 result else (R st1 rt AND 0xFFFFFFFF00000000) OR ucast result) st1)"

definition ee_exec_ldl :: "'x ee_env \<Rightarrow> u32 \<Rightarrow> nat \<Rightarrow> 'x ee_state \<Rightarrow> 'x ee_state" where
  "ee_exec_ldl env addr rt st =
     (let shift = unat (addr AND 7); (mem, st1) = ee_mem_read64 env (addr AND NOT 7) st
      in wr64 rt ((R st1 rt AND LDL_MASK ! shift) OR push_bit (LDL_SHIFT ! shift) mem) st1)"

definition ee_exec_ldr :: "'x ee_env \<Rightarrow> u32 \<Rightarrow> nat \<Rightarrow> 'x ee_state \<Rightarrow> 'x ee_state" where
  "ee_exec_ldr env addr rt st =
     (let shift = unat (addr AND 7); (mem, st1) = ee_mem_read64 env (addr AND NOT 7) st
      in wr64 rt ((R st1 rt AND LDR_MASK ! shift) OR drop_bit (LDR_SHIFT ! shift) mem) st1)"

definition ee_exec_swl :: "'x ee_env \<Rightarrow> u32 \<Rightarrow> nat \<Rightarrow> 'x ee_state \<Rightarrow> 'x ee_state" where
  "ee_exec_swl env addr rt st =
     (let shift = unat (addr AND 3); rt32 = ucast (R st rt); (mem, st1) = ee_mem_read32 env (addr AND NOT 3) st
      in ee_mem_write32 env (addr AND NOT 3) (drop_bit (LWL_SHIFT ! shift) rt32 OR (mem AND SWL_MASK ! shift)) st1)"

definition ee_exec_swr :: "'x ee_env \<Rightarrow> u32 \<Rightarrow> nat \<Rightarrow> 'x ee_state \<Rightarrow> 'x ee_state" where
  "ee_exec_swr env addr rt st =
     (let shift = unat (addr AND 3); rt32 = ucast (R st rt); (mem, st1) = ee_mem_read32 env (addr AND NOT 3) st
      in ee_mem_write32 env (addr AND NOT 3) (push_bit (LWR_SHIFT ! shift) rt32 OR (mem AND SWR_MASK ! shift)) st1)"

definition ee_exec_sdl :: "'x ee_env \<Rightarrow> u32 \<Rightarrow> nat \<Rightarrow> 'x ee_state \<Rightarrow> 'x ee_state" where
  "ee_exec_sdl env addr rt st =
     (let shift = unat (addr AND 7); (mem, st1) = ee_mem_read64 env (addr AND NOT 7) st
      in ee_mem_write64 env (addr AND NOT 7) (drop_bit (LDL_SHIFT ! shift) (R st1 rt) OR (mem AND SDL_MASK ! shift)) st1)"

definition ee_exec_sdr :: "'x ee_env \<Rightarrow> u32 \<Rightarrow> nat \<Rightarrow> 'x ee_state \<Rightarrow> 'x ee_state" where
  "ee_exec_sdr env addr rt st =
     (let shift = unat (addr AND 7); (mem, st1) = ee_mem_read64 env (addr AND NOT 7) st
      in ee_mem_write64 env (addr AND NOT 7) (push_bit (LDR_SHIFT ! shift) (R st1 rt) OR (mem AND SDR_MASK ! shift)) st1)"

definition ee_exec_lq :: "'x ee_env \<Rightarrow> u32 \<Rightarrow> nat \<Rightarrow> 'x ee_state \<Rightarrow> 'x ee_state" where
  "ee_exec_lq env addr0 rt st =
     (if rt = 0 then st
      else let addr = addr0 AND NOT 0xF; (a, st1) = ee_mem_read64 env addr st; st2 = set64 rt a st1;
               (b, st3) = ee_mem_read64 env (addr + 8) st2
           in upd_reg rt (put_half 1 b) st3)"

definition ee_exec_sq :: "'x ee_env \<Rightarrow> u32 \<Rightarrow> nat \<Rightarrow> 'x ee_state \<Rightarrow> 'x ee_state" where
  "ee_exec_sq env addr0 rt st =
     (let addr = addr0 AND NOT 0xF; st1 = ee_mem_write64 env addr (R st rt) st
      in ee_mem_write64 env (addr + 8) (ud1 (e_gpr st1 rt)) st1)"

text \<open>The vector registers; register 0 is the constant (0, 0, 0, 1.0).\<close>

definition vu0_vf_read_lane :: "'x ee_state \<Rightarrow> nat \<Rightarrow> nat \<Rightarrow> u32" where
  "vu0_vf_read_lane st r l = (if r = 0 then (if l = 3 then 0x3F800000 else 0) else vu0_vf st r l)"

definition vu0_vf_write_lane :: "nat \<Rightarrow> nat \<Rightarrow> u32 \<Rightarrow> 'x ee_state \<Rightarrow> 'x ee_state" where
  "vu0_vf_write_lane r l v st =
     (if r = 0 then st else st\<lparr>vu0_vf := (vu0_vf st)(r := (vu0_vf st r)(l := v))\<rparr>)"

definition lqc2_lane :: "'x ee_env \<Rightarrow> u32 \<Rightarrow> nat \<Rightarrow> nat \<Rightarrow> 'x ee_state \<Rightarrow> 'x ee_state" where
  "lqc2_lane env addr rt l st =
     (let (v, st1) = ee_mem_read32 env (addr + 4 * word_of_nat l) st in vu0_vf_write_lane rt l v st1)"

definition ee_exec_lqc2 :: "'x ee_env \<Rightarrow> u32 \<Rightarrow> nat \<Rightarrow> 'x ee_state \<Rightarrow> 'x ee_state" where
  "ee_exec_lqc2 env addr rt st = (if rt = 0 then st else fold (lqc2_lane env addr rt) [0 ..< 4] st)"

definition ee_exec_sqc2 :: "'x ee_env \<Rightarrow> u32 \<Rightarrow> nat \<Rightarrow> 'x ee_state \<Rightarrow> 'x ee_state" where
  "ee_exec_sqc2 env addr rt st =
     fold (\<lambda>l s. ee_mem_write32 env (addr + 4 * word_of_nat l) (vu0_vf_read_lane s rt l) s) [0 ..< 4] st"

definition ee_exec_store :: "'x ee_env \<Rightarrow> u32 \<Rightarrow> u32 \<Rightarrow> nat \<Rightarrow> 'x ee_state \<Rightarrow> 'x ee_state ee_run option" where
  "ee_exec_store env op addr rt st =
     (if op = 0x22 then Some (Running (ee_exec_lwl env addr rt st))
      else if op = 0x26 then Some (Running (ee_exec_lwr env addr rt st))
      else if op = 0x1A then Some (Running (ee_exec_ldl env addr rt st))
      else if op = 0x1B then Some (Running (ee_exec_ldr env addr rt st))
      else if op = 0x2A then Some (Running (ee_exec_swl env addr rt st))
      else if op = 0x2E then Some (Running (ee_exec_swr env addr rt st))
      else if op = 0x2C then Some (Running (ee_exec_sdl env addr rt st))
      else if op = 0x2D then Some (Running (ee_exec_sdr env addr rt st))
      else if op = 0x28 then Some (Running (ee_mem_write8 env addr (ucast (R st rt)) st))
      else if op = 0x29 then
        Some (case ee_mem_write16 env addr (ucast (R st rt)) st of None \<Rightarrow> Undefined | Some st' \<Rightarrow> Running st')
      else if op = 0x2B then Some (Running (ee_mem_write32 env addr (ucast (R st rt)) st))
      else if op = 0x2F \<or> op = 0x33 then Some (Running st)
      else if op = 0x3F then Some (Running (ee_mem_write64 env addr (R st rt) st))
      else if op = 0x31 then
        Some (let (v, st1) = ee_mem_read32 env addr st in Running (st1\<lparr>fpr := (fpr st1)(rt := v)\<rparr>))
      else if op = 0x39 then Some (Running (ee_mem_write32 env addr (fpr st rt) st))
      else if op = 0x36 then Some (Running (ee_exec_lqc2 env addr rt st))
      else if op = 0x1E then Some (Running (ee_exec_lq env addr rt st))
      else if op = 0x1F then Some (Running (ee_exec_sq env addr rt st))
      else if op = 0x3E then Some (Running (ee_exec_sqc2 env addr rt st))
      else None)"

section \<open>The switch\<close>

definition ee_exec :: "'x ee_env \<Rightarrow> u32 \<Rightarrow> u32 \<Rightarrow> bool \<Rightarrow> 'x ee_state \<Rightarrow> 'x ee_state ee_run" where
  "ee_exec env i this_pc delay st =
     (let op = i_op i; rs = i_rs i; rt = i_rt i; addr = ucast (R st rs) + i_imm i in
      if op = 0x00 then ee_exec_special env i this_pc delay st
      else if op = 0x01 then ee_exec_regimm i this_pc st
      else if op = 0x02 then Running (ee_branch_to (abs_target this_pc i) st)
      else if op = 0x03 then Running (ee_branch_to (abs_target this_pc i) (ee_link 31 this_pc st))
      else if op = 0x10 then ee_exec_cop0 env i this_pc st
      else if op = 0x11 then exec_cop1 env i this_pc st
      else if op = 0x12 then exec_cop2 env i this_pc st
      else if op = 0x1C then exec_mmi i st
      else case branch_cond op (R st rs) (R st rt) of
        Some c \<Rightarrow> Running ((if op < 0x10 then branch else branch_likely) c (rel_target this_pc i) st)
      | None \<Rightarrow> (case ee_alu_imm op (R st rs) i of Some v \<Rightarrow> Running (wr64 rt v st)
      | None \<Rightarrow> (case ee_exec_load env op addr rt st of Some st' \<Rightarrow> Running st'
      | None \<Rightarrow> (case ee_exec_store env op addr rt st of Some r \<Rightarrow> r
      | None \<Rightarrow> Stopped (ee_halt (''unimplemented primary opcode 0x'' @ hex 2 (unat op) @ '' (pc=0x''
             @ hex 8 (unat this_pc) @ '')'') st)))))"

end
