(* ===== verification/Ee_Step.thy ===== *)
theory Ee_Step
  imports Ee_Cpu
begin

text \<open>
  One step of the EE (\<open>source/core/ee/ee_core.c\<close>): the interrupt lines and their delivery, the work of
  a clock tick, the idle processor, fetch and execution, and the run loop.
\<close>

section \<open>Interrupts\<close>

abbreviation (input) EE_CAUSE_IP7 :: u32 where "EE_CAUSE_IP7 \<equiv> 0x8000"
abbreviation (input) EE_CAUSE_IP2 :: u32 where "EE_CAUSE_IP2 \<equiv> 0x400"
abbreviation (input) EE_CAUSE_IP3 :: u32 where "EE_CAUSE_IP3 \<equiv> 0x800"

definition ee_latch_timer_interrupt :: "'x ee_state \<Rightarrow> 'x ee_state" where
  "ee_latch_timer_interrupt st =
     (if e_cop0 st 9 \<ge> e_cop0 st 11 then set_cop0 13 (e_cop0 st 13 OR EE_CAUSE_IP7) st else st)"

text \<open>\<open>(Status & (IE | EXL | ERL | EIE)) == (IE | EIE)\<close>\<close>

definition ee_int_enabled :: "'x ee_state \<Rightarrow> bool" where
  "ee_int_enabled st \<longleftrightarrow> e_cop0 st 12 AND (0x1 OR 0x2 OR 0x4 OR 0x10000) = (0x1 OR 0x10000)"

text \<open>The tail the three checks share: the line \<open>ip\<close> of Cause, masked by the same bit of Status.\<close>

definition ee_take_interrupt :: "u32 \<Rightarrow> u32 \<Rightarrow> 'x ee_state \<Rightarrow> 'x ee_state" where
  "ee_take_interrupt ip this_pc st =
     (if exc_raised_this_step st then st
      else if e_cop0 st 13 AND ip = 0 then st
      else if \<not> ee_int_enabled st then st
      else if e_cop0 st 12 AND ip = 0 then st
      else ee_raise_exception EE_EXC_CODE_INT this_pc False (st\<lparr>exc_raised_this_step := True\<rparr>))"

definition ee_check_timer_interrupt :: "u32 \<Rightarrow> 'x ee_state \<Rightarrow> 'x ee_state" where
  "ee_check_timer_interrupt this_pc st = ee_take_interrupt EE_CAUSE_IP7 this_pc st"

definition set_line :: "u32 \<Rightarrow> bool \<Rightarrow> 'x ee_state \<Rightarrow> 'x ee_state" where
  "set_line ip on st =
     set_cop0 13 (if on then e_cop0 st 13 OR ip else e_cop0 st 13 AND NOT ip) st"

definition ee_check_intc_interrupt :: "u32 \<Rightarrow> 'x ee_state \<Rightarrow> 'x ee_state" where
  "ee_check_intc_interrupt this_pc st =
     ee_take_interrupt EE_CAUSE_IP2 this_pc
       (set_line EE_CAUSE_IP2 (ee_intc_pending (hw_intc (dworld (e_dma st)))) st)"

definition ee_check_dmac_interrupt :: "u32 \<Rightarrow> 'x ee_state \<Rightarrow> 'x ee_state" where
  "ee_check_dmac_interrupt this_pc st =
     ee_take_interrupt EE_CAUSE_IP3 this_pc (set_line EE_CAUSE_IP3 (dma_dmac_interrupt_pending (e_dma st)) st)"

section \<open>One clock tick\<close>

definition EE_CYCLES_PER_FRAME_NTSC :: nat where "EE_CYCLES_PER_FRAME_NTSC = 4921488"
definition EE_CYCLES_VBLANK_DURATION :: nat where "EE_CYCLES_VBLANK_DURATION = EE_CYCLES_PER_FRAME_NTSC div 12"

definition upd_hw :: "('x ee_hw \<Rightarrow> 'x ee_hw) \<Rightarrow> 'x ee_state \<Rightarrow> 'x ee_state" where
  "upd_hw f st = st\<lparr>e_dma := (e_dma st)\<lparr>dworld := f (dworld (e_dma st))\<rparr>\<rparr>"

definition raise_line :: "int \<Rightarrow> 'x ee_hw \<Rightarrow> 'x ee_hw" where
  "raise_line irq h = h\<lparr>hw_intc := ee_intc_raise irq (hw_intc h)\<rparr>"

definition ee_check_vblank :: "'x ee_env \<Rightarrow> 'x ee_state \<Rightarrow> 'x ee_state" where
  "ee_check_vblank env st =
     (let phase = unat (e_cop0 st 9) mod EE_CYCLES_PER_FRAME_NTSC in
      if phase = 0 then upd_hw (raise_line 2) (pad_area_refresh env st)
      else if phase = EE_CYCLES_VBLANK_DURATION then upd_hw (raise_line 3) st
      else st)"

definition ee_check_gs_vsync :: "'x ee_state \<Rightarrow> 'x ee_state" where
  "ee_check_gs_vsync st =
     (if unat (e_instructions_executed st) mod EE_CYCLES_PER_FRAME_NTSC \<noteq> 0 then st
      else upd_hw (\<lambda>h.
        let h1 = h\<lparr>hw_gs := (hw_gs h)(0x12001000 := hw_gs h 0x12001000 OR 8)\<rparr>
        in if hw_gs h1 0x12001010 AND 8 = 0 then raise_line 0 h1 else h1) st)"

definition tick_timers :: "'x ee_hw \<Rightarrow> 'x ee_hw" where
  "tick_timers h = (let (t, c) = ee_timers_tick (hw_timers h, hw_intc h) in h\<lparr>hw_timers := t, hw_intc := c\<rparr>)"

definition tick_sif :: "'x ee_hw \<Rightarrow> 'x ee_hw" where
  "tick_sif h = h\<lparr>hw_sif := sif_ee_tick (hw_sif h)\<rparr>"

text \<open>The clock and the devices, in the order of \<open>ee_step\<close> and \<open>ee_core_park_tick\<close>.\<close>

definition ee_tick :: "'x ee_env \<Rightarrow> 'x ee_state \<Rightarrow> 'x ee_state" where
  "ee_tick env st =
     pending_calls env (upd_hw tick_sif (upd_hw tick_timers (ee_check_gs_vsync (boot_checks env
       (ee_check_vblank env (ee_latch_timer_interrupt (set_cop0 9 (e_cop0 st 9 + 1) st)))))))"

definition ee_check_interrupts :: "'x ee_state \<Rightarrow> 'x ee_state" where
  "ee_check_interrupts st =
     (let st1 = ee_check_timer_interrupt (e_pc st) st; st2 = ee_check_intc_interrupt (e_pc st1) st1
      in ee_check_dmac_interrupt (e_pc st2) st2)"

definition ee_core_park_tick :: "'x ee_env \<Rightarrow> 'x ee_state \<Rightarrow> 'x ee_state" where
  "ee_core_park_tick env st =
     (let st1 = ee_tick env st in
      if branch_pending st1 then st1
      else let saved = e_cop0 st1 12;
               st2 = ee_check_interrupts ((set_cop0 12 (saved OR 1) st1)\<lparr>exc_raised_this_step := False\<rparr>)
           in if exc_raised_this_step st2 then st2\<lparr>e_idle := False\<rparr> else set_cop0 12 saved st2)"

section \<open>One step\<close>

text \<open>A jump to address 0 outside an exception returns to \<open>$ra\<close>, or ends the thread.\<close>

definition null_pc :: "'x ee_env \<Rightarrow> 'x ee_state \<Rightarrow> 'x ee_state" where
  "null_pc env st =
     (let ra = ucast (R st 31) in
      if ra = 0 then ee_core_park_tick env (thread_exit_current env st)
      else st\<lparr>e_pc := ra, e_next_pc := ra + 4, branch_pending := False\<rparr>)"

definition ee_prologue :: "'x ee_state \<Rightarrow> 'x ee_state" where
  "ee_prologue st = st\<lparr>branch_pending := False, exc_this_pc := e_pc st, exc_in_delay_slot := branch_pending st,
     exc_raised_this_step := False\<rparr>"

definition ee_advance :: "'x ee_state \<Rightarrow> 'x ee_state" where
  "ee_advance st = st\<lparr>e_pc := e_next_pc st, e_next_pc := e_next_pc st + 4\<rparr>"

definition ee_dispatch :: "'x ee_env \<Rightarrow> u32 \<Rightarrow> u32 \<Rightarrow> bool \<Rightarrow> 'x ee_state \<Rightarrow> 'x ee_state ee_run" where
  "ee_dispatch env i this_pc delay st =
     (case jit_try_execute_one env i st of Some st' \<Rightarrow> Running st' | None \<Rightarrow> ee_exec env i this_pc delay st)"

definition ee_epilogue :: "'x ee_env \<Rightarrow> 'x ee_state \<Rightarrow> 'x ee_state" where
  "ee_epilogue env st =
     (let st1 = ee_tick env ((set_reg 0 \<lparr>ud0 = 0, ud1 = 0\<rparr> st)
            \<lparr>e_instructions_executed := e_instructions_executed st + 1\<rparr>)
      in if branch_pending st1 then st1 else ee_check_interrupts st1)"

definition ee_step :: "'x ee_env \<Rightarrow> 'x ee_state \<Rightarrow> 'x ee_state ee_run" where
  "ee_step env st =
     (if e_idle st then Running (thread_reschedule_kick env (ee_core_park_tick env st))
      else if e_pc st = 0 \<and> e_cop0 st 12 AND 0x2 = 0 then Running (null_pc env st)
      else
        let this_pc = e_pc st; delay = branch_pending st; (i, st1) = ee_mem_read32 env this_pc (ee_prologue st)
        in if mem_tlb_miss st1 then Running st1
           else (case ee_dispatch env i this_pc delay (ee_advance st1) of
               Running st2 \<Rightarrow> Running (ee_epilogue env st2)
             | r \<Rightarrow> r))"

definition ee_core_step :: "'x ee_env \<Rightarrow> 'x ee_state \<Rightarrow> 'x ee_state ee_run" where
  "ee_core_step env st = (if e_halted st then Stopped st else ee_step env st)"

text \<open>The run loop has a cap on the instructions, but an idle processor executes none.\<close>

definition EE_CORE_RUN_STEP_CAP :: u64 where "EE_CORE_RUN_STEP_CAP = 20000000"

partial_function (option) ee_core_run :: "('x ee_state \<Rightarrow> string) \<Rightarrow> 'x ee_env \<Rightarrow> 'x ee_state \<Rightarrow> 'x ee_state option" where
  "ee_core_run cap_text env st =
     (if e_halted st then Some st
      else case ee_step env st of
          Undefined \<Rightarrow> None
        | Stopped st' \<Rightarrow> Some st'
        | Running st' \<Rightarrow>
            if e_instructions_executed st' \<ge> EE_CORE_RUN_STEP_CAP
            then Some (st'\<lparr>e_halted := True, e_halt_reason := cap_text st'\<rparr>)
            else ee_core_run cap_text env st')"

end
