(* ===== verification/Ee_Props.thy ===== *)
theory Ee_Props
  imports Ee_Step
begin

text \<open>
  The EE processor against its architecture: address translation by pages of every size, exceptions
  and their return, interrupts, accesses through two aliases, and accesses that miss the TLB.
\<close>

section \<open>Address translation\<close>

lemma drop_bit_pow: "n < 31 \<Longrightarrow> drop_bit 1 (push_bit (Suc n) (1 :: u32)) = push_bit n 1"
  by (rule bit_word_eqI) (auto simp: bit_simps)

lemma one_less_pow:
  assumes "0 < n" and "n < 32"
  shows "1 < push_bit n (1 :: u32)"
proof -
  have "(2 :: nat) ^ n < 2 ^ 32" using assms(2) by (intro power_strict_increasing) simp_all
  then have "unat (push_bit n (1 :: u32)) = 2 ^ n" by (subst unat_push_bit) simp_all
  moreover have "1 < (2 :: nat) ^ n" using assms(1) by (rule one_less_power [rotated]) simp
  ultimately show ?thesis by (simp add: word_less_nat_alt)
qed

lemma select_loop_pow: "n < 32 \<Longrightarrow> select_loop b (push_bit n 1) = b + n"
proof (induction n arbitrary: b)
  case 0
  then show ?case by (simp add: select_loop.simps)
next
  case (Suc n)
  have "select_loop b (push_bit (Suc n) 1) = select_loop (Suc b) (push_bit n 1)"
    using one_less_pow [of "Suc n"] Suc.prems drop_bit_pow [of n] by (subst select_loop.simps) simp
  then show ?case using Suc by simp
qed

text \<open>\<open>page_bits\<close> of a mask: the pages of an entry have \<open>4 ^ k\<close> units of 4 KB.\<close>

definition page_size_mask :: "nat \<Rightarrow> u32" where
  "page_size_mask k = mask (2 * k)"

lemma mask_succ: "mask n + 1 = push_bit n (1 :: u32)"
  by (simp add: mask_eq_exp_minus_1 push_bit_eq_mult)

lemma bit_translate:
  assumes "tlb_mask e = page_size_mask k" and "k \<le> 6" and "i < 32"
  shows "bit (translate_with e v) i
    \<longleftrightarrow> (if i < 12 + 2 * k then bit v i
         else bit (if bit v (12 + 2 * k) then entry_lo1 e else entry_lo0 e) (i - 6))"
proof -
  have b: "select_loop 12 (tlb_mask e + 1) = 12 + 2 * k"
    using assms(2) select_loop_pow [of "2 * k" 12] unfolding assms(1) page_size_mask_def mask_succ by simp
  have s: "v AND push_bit (12 + 2 * k) 1 \<noteq> 0 \<longleftrightarrow> bit v (12 + 2 * k)"
    by (simp add: bit_iff_and_push_bit_not_eq_0)
  have m: "push_bit (12 + 2 * k) (1 :: u32) - 1 = mask (12 + 2 * k)"
    by (simp add: mask_eq_exp_minus_1 push_bit_eq_mult)
  have f: "(0xFFFFF :: u32) = mask 20" by (simp add: mask_eq_exp_minus_1)
  have "translate_with e v = push_bit 12 (drop_bit 6 (if bit v (12 + 2 * k) then entry_lo1 e else entry_lo0 e)
      AND mask 20 AND NOT (mask (2 * k))) OR (v AND mask (12 + 2 * k))"
    unfolding translate_with_def Let_def b s m f by (simp add: assms(1) page_size_mask_def and.assoc)
  then show ?thesis using assms(2,3) by (auto simp: bit_simps)
qed

lemma translate_page:
  assumes "tlb_mask e = page_size_mask k" and "k \<le> 6"
  defines "n \<equiv> 12 + 2 * k"
  shows "translate_with e v
    = (v AND mask n) OR (push_bit 6 (if bit v n then entry_lo1 e else entry_lo0 e) AND NOT (mask n))"
  using assms(2) unfolding n_def
  by (intro bit_word_eqI) (auto simp: bit_translate [OF assms(1,2)] bit_simps)

lemma matches_page:
  assumes "tlb_mask e = page_size_mask k" and "k \<le> 6"
    and "drop_bit (13 + 2 * k) v = drop_bit (13 + 2 * k) (entry_hi e)"
  shows "tlb_matches (drop_bit 13 v AND 0x7FFFF) asid e \<longleftrightarrow> is_global e \<or> entry_hi e AND 0xFF = asid"
proof -
  have m: "(0x7FFFF :: u32) = mask 19" by (simp add: mask_eq_exp_minus_1)
  have eq: "(drop_bit 13 w AND mask 19) AND NOT (mask (2 * k)) = push_bit (2 * k) (drop_bit (13 + 2 * k) w)" for w :: u32
    using assms(2) by (intro bit_word_eqI) (auto simp: bit_simps dest: bit_imp_le_length)
  show ?thesis
    unfolding tlb_matches_def assms(1) page_size_mask_def m eq assms(3) by simp
qed

lemma find_first:
  assumes "j < length xs" and "P (xs ! j)" and "\<forall>i < j. \<not> P (xs ! i)"
  shows "find P xs = Some (xs ! j)"
  using assms by (auto simp: find_Some_iff)

text \<open>C9: Writing a TLB entry maps its pair of pages: with the page size \<open>4096 * 4^k\<close>, every address of
  the pair (equal to EntryHi above the pair) is translated by the entry, to the frame in EntryLo0 or
  EntryLo1 as the address lies in the even or odd page, with the offset in the page kept; entries before
  it must not match. Probing for the entry finds it.\<close>

theorem tlb_write_maps:
  assumes "length (tlb st) = 48" and "unat (e_cop0 st 0 AND 0x3F) = j" and "j \<le> 47"
    and "drop_bit 13 (e_cop0 st 5) AND 0xFFF = page_size_mask k" and "k \<le> 6"
    and "drop_bit (13 + 2 * k) v = drop_bit (13 + 2 * k) (e_cop0 st 10)"
    and "\<forall>i < j. \<not> tlb_matches (drop_bit 13 v AND 0x7FFFF) (e_cop0 st 10 AND 0xFF) (tlb st ! i)"
  defines "n \<equiv> 12 + 2 * k" and "lo \<equiv> if bit v (12 + 2 * k) then e_cop0 st 3 else e_cop0 st 2"
  shows "ee_tlb_translate (write_tlb 0 st) v = Some ((v AND mask n) OR (push_bit 6 lo AND NOT (mask n))) \<and>
    (v = e_cop0 st 10 \<longrightarrow> e_cop0 (ee_exec_tlbp (write_tlb 0 st)) 0 = word_of_nat j)"
proof -
  let ?e = "\<lparr>page_mask = e_cop0 st 5, entry_hi = e_cop0 st 10, entry_lo0 = e_cop0 st 2, entry_lo1 = e_cop0 st 3\<rparr>"
  let ?P = "tlb_matches (drop_bit 13 v AND 0x7FFFF) (e_cop0 st 10 AND 0xFF)"
  have w: "write_tlb 0 st = st\<lparr>tlb := (tlb st)[j := ?e]\<rparr>"
    using assms(2,3) by (simp add: write_tlb_def Let_def)
  have mk: "tlb_mask ?e = page_size_mask k" using assms(4) by (simp add: tlb_mask_def)
  have hit: "?P ?e" using matches_page [OF mk assms(5), of v] assms(6) by simp
  have find: "find ?P ((tlb st)[j := ?e]) = Some ?e"
    using find_first [of j "(tlb st)[j := ?e]" ?P] hit assms(1,3,7) by simp
  have "list_find_index ?P ((tlb st)[j := ?e]) = Some j"
  proof (cases "list_find_index ?P ((tlb st)[j := ?e])")
    case None
    then have "\<forall>i < 48. \<not> ?P ((tlb st)[j := ?e] ! i)" using assms(1) by (simp add: list_find_index_nth_None)
    from spec [OF this, of j] have "\<not> ?P ((tlb st)[j := ?e] ! j)" using assms(3) by linarith
    then show ?thesis using hit assms(1,3) by simp
  next
    case (Some i)
    then have i: "i < 48" "?P ((tlb st)[j := ?e] ! i)" "\<forall>l < i. \<not> ?P ((tlb st)[j := ?e] ! l)"
      using list_find_index_Some [OF Some] assms(1) by simp_all
    have "\<not> i < j" using i(2) assms(7) by (auto simp: nth_list_update)
    moreover have "\<not> j < i" using i(3) hit assms(1,3) by auto
    ultimately show ?thesis using Some by simp
  qed
  then have "v = e_cop0 st 10 \<longrightarrow> e_cop0 (ee_exec_tlbp (write_tlb 0 st)) 0 = word_of_nat j"
    by (auto simp: w ee_exec_tlbp_def Let_def set_cop0_def)
  moreover have "ee_tlb_translate (write_tlb 0 st) v = Some ((v AND mask n) OR (push_bit 6 lo AND NOT (mask n)))"
    unfolding w ee_tlb_translate_def using find translate_page [OF mk assms(5), of v] by (simp add: n_def lo_def)
  ultimately show ?thesis by blast
qed

text \<open>Entry 5 with pages of 16 KB: the address 0x00A06123 lies in the odd page.\<close>

theorem tlb_write_maps_witness:
  "ee_tlb_translate (write_tlb 0 (cold_ee\<lparr>e_cop0 := (\<lambda>_. 0)(0 := 5, 5 := 0x6000, 10 := 0x00A00000, 2 := 0x1000, 3 := 0x2100),
      tlb := replicate 48 \<lparr>page_mask = 0, entry_hi = 0, entry_lo0 = 0, entry_lo1 = 0\<rparr>\<rparr>)) 0x00A06123 = Some 0x00086123"
proof -
  let ?st = "cold_ee\<lparr>e_cop0 := (\<lambda>_. 0)(0 := 5, 5 := 0x6000, 10 := 0x00A00000, 2 := 0x1000, 3 := 0x2100),
      tlb := replicate 48 \<lparr>page_mask = 0, entry_hi = 0, entry_lo0 = 0, entry_lo1 = 0\<rparr>\<rparr>"
  have m: "(mask 14 :: u32) = 0x3FFF" "(mask 2 :: u32) = 3" "(mask 13 :: u32) = 0x1FFF"
    by (simp_all add: mask_eq_exp_minus_1)
  have b: "bit (0x00A06123 :: u32) 14" by simp
  have "\<forall>i < 5. \<not> tlb_matches (drop_bit 13 0x00A06123 AND 0x7FFFF) (e_cop0 ?st 10 AND 0xFF) (tlb ?st ! i)"
    by (auto simp: tlb_matches_def tlb_mask_def)
  then show ?thesis
    using tlb_write_maps [of ?st 5 1 "0x00A06123"] b by (simp add: page_size_mask_def m)
qed

section \<open>Exceptions\<close>

lemma set_cop0_frame [simp]:
  "e_gpr (set_cop0 r v st) = e_gpr st" "e_pc (set_cop0 r v st) = e_pc st" "e_next_pc (set_cop0 r v st) = e_next_pc st"
  "tlb (set_cop0 r v st) = tlb st" "e_dma (set_cop0 r v st) = e_dma st" "branch_pending (set_cop0 r v st) = branch_pending st"
  "exc_raised_this_step (set_cop0 r v st) = exc_raised_this_step st" "mem_tlb_miss (set_cop0 r v st) = mem_tlb_miss st"
  "e_bios (set_cop0 r v st) = e_bios st" "e_cop0 (set_cop0 r v st) = (e_cop0 st)(r := v)"
  "exc_this_pc (set_cop0 r v st) = exc_this_pc st" "exc_in_delay_slot (set_cop0 r v st) = exc_in_delay_slot st"
  by (simp_all add: set_cop0_def)

text \<open>The state after an exception from normal mode; the vectors lie in the ROM while Status.BEV is set.\<close>

definition vector_base :: "u32 \<Rightarrow> u32" where
  "vector_base status = (if status AND 0x00400000 \<noteq> 0 then 0xBFC00200 else 0x80000000)"

lemma exception_entry:
  assumes "e_cop0 st 12 AND 0x2 = 0"
  shows "ee_raise_exception code this_pc delay st = (st\<lparr>e_cop0 := (e_cop0 st)
      (13 := (e_cop0 st 13 AND NOT 0x8000007C) OR (code AND 0x7C) OR (if delay then 0x80000000 else 0),
       12 := e_cop0 st 12 OR 0x2, 14 := if delay then this_pc - 4 else this_pc),
      e_pc := vector_base (e_cop0 st 12) + exc_offset code, e_next_pc := vector_base (e_cop0 st 12) + exc_offset code + 4\<rparr>)"
proof -
  have "(e_cop0 st 12 OR 0x2) AND 0x00400000 = e_cop0 st 12 AND 0x00400000"
    by (simp add: bit.conj_disj_distrib2)
  then show ?thesis
    using assms(1) by (simp add: ee_raise_exception_def vector_base_def set_cop0_def Let_def fun_upd_twist or.assoc)
qed

section \<open>Interrupts\<close>

lemma and_absorb: "(w :: u32) AND m = c \<Longrightarrow> n AND m = n \<Longrightarrow> w AND n = c AND n"
  by (metis and.assoc and.commute)

lemma enabled_status:
  assumes "ee_int_enabled st"
  shows "e_cop0 st 12 AND 0x2 = 0" "e_cop0 st 12 AND 0x4 = 0"
proof -
  have "e_cop0 st 12 AND 0x10007 = 0x10001" using assms by (simp add: ee_int_enabled_def)
  from and_absorb [OF this, of 2] and_absorb [OF this, of 4]
  show "e_cop0 st 12 AND 0x2 = 0" "e_cop0 st 12 AND 0x4 = 0" by simp_all
qed

lemma set_clear_bit:
  assumes "(w :: u32) AND 0x2 = 0"
  shows "(w OR 0x2) AND NOT 0x2 = w"
proof -
  have "\<not> bit w 1" using assms bit_iff_and_push_bit_not_eq_0 [of w 1] by simp
  then show ?thesis by (intro bit_word_eqI) (auto simp: bit_simps bit_2_iff)
qed

text \<open>What the three checks can change when they do not interrupt: the lines in Cause.\<close>

definition only_cause :: "'x ee_state \<Rightarrow> 'x ee_state \<Rightarrow> bool" where
  "only_cause st st' \<longleftrightarrow> (\<exists>c. st' = set_cop0 13 c st)"

definition line_open :: "u32 \<Rightarrow> bool \<Rightarrow> 'x ee_state \<Rightarrow> bool" where
  "line_open ip on st \<longleftrightarrow> on \<and> e_cop0 st 12 AND ip \<noteq> 0"

definition interrupt_due :: "'x ee_state \<Rightarrow> bool" where
  "interrupt_due st \<longleftrightarrow> ee_int_enabled st \<and>
     (line_open EE_CAUSE_IP7 (e_cop0 st 13 AND EE_CAUSE_IP7 \<noteq> 0) st
      \<or> line_open EE_CAUSE_IP2 (ee_intc_pending (hw_intc (dworld (e_dma st)))) st
      \<or> line_open EE_CAUSE_IP3 (dma_dmac_interrupt_pending (e_dma st)) st)"

text \<open>An interrupt taken at \<open>st\<close>, up to Cause.\<close>

definition int_state :: "'x ee_state \<Rightarrow> u32 \<Rightarrow> 'x ee_state" where
  "int_state st c = st\<lparr>e_cop0 := (e_cop0 st)(12 := e_cop0 st 12 OR 0x2, 14 := e_pc st, 13 := c),
     e_pc := vector_base (e_cop0 st 12) + 0x200, e_next_pc := vector_base (e_cop0 st 12) + 0x204, exc_raised_this_step := True\<rparr>"

definition interrupted :: "'x ee_state \<Rightarrow> 'x ee_state \<Rightarrow> bool" where
  "interrupted st st' \<longleftrightarrow> (\<exists>c. st' = int_state st c)"

lemma interruptedI: "st' = int_state st c \<Longrightarrow> interrupted st st'"
  by (auto simp: interrupted_def)

lemma taken:
  assumes "\<not> exc_raised_this_step st" and "ee_int_enabled st"
    and "e_cop0 st 13 AND ip \<noteq> 0" and "e_cop0 st 12 AND ip \<noteq> 0"
  shows "ee_take_interrupt ip (e_pc st) st = int_state st (e_cop0 st 13 AND NOT 0x8000007C)"
  using assms exception_entry [of "st\<lparr>exc_raised_this_step := True\<rparr>" 0 "e_pc st" False] enabled_status [OF assms(2)]
  by (intro ee_state.equality) (simp_all add: ee_take_interrupt_def int_state_def exc_offset_def fun_upd_twist)

lemma not_taken:
  assumes "exc_raised_this_step st \<or> \<not> ee_int_enabled st \<or> e_cop0 st 13 AND ip = 0 \<or> e_cop0 st 12 AND ip = 0"
  shows "ee_take_interrupt ip pc' st = st"
  using assms by (auto simp: ee_take_interrupt_def)

lemma line_cause: "ip \<noteq> 0 \<Longrightarrow> e_cop0 (set_line ip on st) 13 AND ip \<noteq> 0 \<longleftrightarrow> on"
  by (simp add: set_line_def bit.conj_disj_distrib2 and.assoc)

lemma set_line_cause: "\<exists>c'. set_line ip on (set_cop0 13 c st) = set_cop0 13 c' st"
  by (auto simp: set_line_def set_cop0_def)

lemma int_state_cause: "int_state (set_cop0 13 c st) c' = int_state st c'"
  by (simp add: int_state_def set_cop0_def fun_upd_twist)

lemma set_line_int_state:
  "set_line ip on (int_state st c) = int_state st (if on then c OR ip else c AND NOT ip)"
  by (intro ee_state.equality) (simp_all add: set_line_def set_cop0_def int_state_def)

text \<open>A check from a state whose Cause may have changed, before and after an interrupt.\<close>

lemma check_open:
  assumes "ip \<noteq> 0" and "ee_int_enabled st" and "\<not> exc_raised_this_step st"
  shows "if line_open ip on st
    then interrupted st (ee_take_interrupt ip (e_pc st) (set_line ip on (set_cop0 13 c st)))
    else only_cause st (ee_take_interrupt ip (e_pc st) (set_line ip on (set_cop0 13 c st)))"
proof -
  obtain c' where s: "set_line ip on (set_cop0 13 c st) = set_cop0 13 c' st" using set_line_cause by blast
  have on: "c' AND ip \<noteq> 0 \<longleftrightarrow> on" using line_cause [OF assms(1), of on "set_cop0 13 c st"] by (simp add: s)
  show ?thesis
  proof (cases "line_open ip on st")
    case True
    then have "ee_take_interrupt ip (e_pc (set_cop0 13 c' st)) (set_cop0 13 c' st)
      = int_state (set_cop0 13 c' st) (e_cop0 (set_cop0 13 c' st) 13 AND NOT 0x8000007C)"
      using assms on by (intro taken) (simp_all add: ee_int_enabled_def line_open_def)
    with True show ?thesis by (auto simp: s int_state_cause interrupted_def)
  next
    case False
    then have "ee_take_interrupt ip (e_pc st) (set_cop0 13 c' st) = set_cop0 13 c' st"
      using on by (intro not_taken) (auto simp: line_open_def)
    with False show ?thesis by (auto simp: s only_cause_def)
  qed
qed

lemma check_after:
  assumes "interrupted st st'"
  shows "interrupted st (ee_take_interrupt ip p (set_line ip on st'))"
proof -
  obtain c where s: "st' = int_state st c" using assms by (auto simp: interrupted_def)
  have "ee_take_interrupt ip p (int_state st c') = int_state st c'" for c'
    by (rule not_taken) (simp add: int_state_def)
  then show ?thesis by (simp add: s set_line_int_state interruptedI)
qed

lemma interrupted_devices: "interrupted st st' \<Longrightarrow> e_dma st' = e_dma st"
  by (auto simp: interrupted_def int_state_def)

lemma only_cause_same: "only_cause st st' \<Longrightarrow> e_dma st' = e_dma st \<and> e_pc st' = e_pc st"
  by (auto simp: only_cause_def)

lemma interrupts_delivered:
  assumes "ee_int_enabled st" and "\<not> exc_raised_this_step st"
  shows "if interrupt_due st then interrupted st (ee_check_interrupts st) else only_cause st (ee_check_interrupts st)"
proof -
  define on2 where "on2 = ee_intc_pending (hw_intc (dworld (e_dma st)))"
  define on3 where "on3 = dma_dmac_interrupt_pending (e_dma st)"
  define st1 where "st1 = ee_take_interrupt EE_CAUSE_IP7 (e_pc st) st"
  define st2 where "st2 = ee_take_interrupt EE_CAUSE_IP2 (e_pc st1) (set_line EE_CAUSE_IP2 on2 st1)"
  have id: "set_cop0 13 (e_cop0 st 13) st = st" by (simp add: set_cop0_def)
  have 1: "if line_open EE_CAUSE_IP7 (e_cop0 st 13 AND EE_CAUSE_IP7 \<noteq> 0) st then interrupted st st1 else st1 = st"
    using taken [OF assms(2,1), of EE_CAUSE_IP7] not_taken [of st EE_CAUSE_IP7 "e_pc st"]
    by (auto simp: st1_def line_open_def interruptedI)
  have 2: "if line_open EE_CAUSE_IP7 (e_cop0 st 13 AND EE_CAUSE_IP7 \<noteq> 0) st \<or> line_open EE_CAUSE_IP2 on2 st
      then interrupted st st2 else only_cause st st2"
    using 1 check_after [of st st1 EE_CAUSE_IP2 "e_pc st1" on2]
      check_open [OF _ assms, of EE_CAUSE_IP2 on2 "e_cop0 st 13"] by (auto simp: st2_def id split: if_splits)
  have d: "e_dma st1 = e_dma st" "e_dma st2 = e_dma st"
    using 1 2 by (auto dest: interrupted_devices only_cause_same split: if_splits)
  have r: "ee_check_interrupts st = ee_take_interrupt EE_CAUSE_IP3 (e_pc st2) (set_line EE_CAUSE_IP3 on3 st2)"
    by (simp add: ee_check_interrupts_def ee_check_timer_interrupt_def ee_check_intc_interrupt_def
        ee_check_dmac_interrupt_def Let_def on2_def on3_def st1_def st2_def d [unfolded st1_def st2_def on2_def])
  show ?thesis
  proof (cases "line_open EE_CAUSE_IP7 (e_cop0 st 13 AND EE_CAUSE_IP7 \<noteq> 0) st \<or> line_open EE_CAUSE_IP2 on2 st")
    case True
    with 2 show ?thesis using check_after [of st st2 EE_CAUSE_IP3 "e_pc st2" on3] assms(1)
      by (auto simp: r interrupt_due_def on2_def)
  next
    case False
    with 2 obtain c where c: "st2 = set_cop0 13 c st" by (auto simp: only_cause_def)
    show ?thesis using False check_open [OF _ assms, of EE_CAUSE_IP3 on3 c] assms(1)
      by (auto simp: r c interrupt_due_def on2_def on3_def)
  qed
qed

text \<open>C7: When interrupts are enabled and a line is raised and unmasked (the timer, the interrupt
  controller or the DMA controller), the check at the end of a step enters the handler at offset 0x200 of the
  vectors, in RAM or, with Status.BEV set, in the ROM. EPC is the next instruction, interrupts are off,
  and nothing else of the machine changes but Cause, EXL in Status and the program counter. The handler may then do
  anything: from any state \<open>h\<close> that has the Status and the EPC of the entry, ERET restores the
  Status and the program counter of the interrupted program and keeps the rest of \<open>h\<close>, then runs the
  check for a thread switch, which is an argument of the model and may go on with another thread. Without such a
  line nothing but Cause changes.\<close>

theorem ee_interrupt_round_trip:
  assumes "ee_int_enabled st" and "\<not> exc_raised_this_step st" and "e_next_pc st = e_pc st + 4"
    and "e_cop0 h 12 = e_cop0 (ee_check_interrupts st) 12" and "e_cop0 h 14 = e_cop0 (ee_check_interrupts st) 14"
  defines "st' \<equiv> ee_check_interrupts st"
  shows "if interrupt_due st
    then e_pc st' = (if e_cop0 st 12 AND 0x00400000 \<noteq> 0 then 0xBFC00400 else 0x80000200) \<and> e_next_pc st' = e_pc st' + 4 \<and>
      \<not> ee_int_enabled st' \<and>
      (\<exists>c. st' = st\<lparr>e_cop0 := (e_cop0 st)(12 := e_cop0 st 12 OR 0x2, 14 := e_pc st, 13 := c), e_pc := e_pc st', e_next_pc := e_next_pc st',
        exc_raised_this_step := True\<rparr>) \<and>
      ee_exec_eret env h = thread_check_preempt env
        (h\<lparr>e_cop0 := (e_cop0 h)(12 := e_cop0 st 12), e_pc := e_pc st, e_next_pc := e_next_pc st\<rparr>)
    else (\<exists>c. st' = set_cop0 13 c st)"
proof (cases "interrupt_due st")
  case True
  then obtain c where c: "st' = int_state st c"
    using interrupts_delivered [OF assms(1,2)] by (auto simp: st'_def interrupted_def)
  note e = enabled_status [OF assms(1)]
  have h: "e_cop0 h 12 = e_cop0 st 12 OR 0x2" "e_cop0 h 14 = e_pc st"
    using assms(4,5) c by (simp_all add: st'_def int_state_def)
  have "(e_cop0 st 12 OR 0x2) AND 0x4 = 0" using e(2) by (simp add: bit.conj_disj_distrib2)
  then have "ee_exec_eret env h = thread_check_preempt env
      (h\<lparr>e_cop0 := (e_cop0 h)(12 := e_cop0 st 12), e_pc := e_pc st, e_next_pc := e_next_pc st\<rparr>)"
    using assms(3) set_clear_bit [OF e(1)] by (simp add: ee_exec_eret_def h set_cop0_def)
  moreover have "\<not> ee_int_enabled st'"
    using enabled_status(1) [of st'] by (auto simp: c int_state_def bit.conj_disj_distrib2)
  moreover have "\<exists>c. st' = st\<lparr>e_cop0 := (e_cop0 st)(12 := e_cop0 st 12 OR 0x2, 14 := e_pc st, 13 := c), e_pc := e_pc st',
      e_next_pc := e_next_pc st', exc_raised_this_step := True\<rparr>"
    by (intro exI [of _ c]) (simp add: c int_state_def)
  ultimately show ?thesis using True by (simp add: c int_state_def vector_base_def)
next
  case False
  then show ?thesis using interrupts_delivered [OF assms(1,2)] by (simp add: st'_def only_cause_def)
qed

text \<open>A handler that clobbers a register and acknowledges the line in Cause, on a machine with the vectors in the ROM.\<close>

theorem ee_interrupt_round_trip_witness:
  "let st = cold_ee\<lparr>e_cop0 := (\<lambda>_. 0)(12 := 0x418001, 13 := 0x8000), e_pc := 0x80001000, e_next_pc := 0x80001004\<rparr>;
       h = (set_cop0 13 0 (ee_check_interrupts st))\<lparr>e_gpr := \<lambda>_. \<lparr>ud0 = 7, ud1 = 7\<rparr>\<rparr>
   in e_pc (ee_check_interrupts st) = 0xBFC00400 \<and> e_pc (ee_exec_eret bare_env h) = 0x80001000 \<and> e_cop0 (ee_exec_eret bare_env h) 12 = 0x418001"
proof -
  let ?st = "cold_ee\<lparr>e_cop0 := (\<lambda>_. 0)(12 := 0x418001, 13 := 0x8000), e_pc := 0x80001000, e_next_pc := 0x80001004\<rparr>"
  let ?h = "(set_cop0 13 0 (ee_check_interrupts ?st))\<lparr>e_gpr := \<lambda>_. \<lparr>ud0 = 7, ud1 = 7\<rparr>\<rparr>"
  have e: "ee_int_enabled ?st" by (simp add: ee_int_enabled_def)
  then have "interrupt_due ?st" by (simp add: interrupt_due_def line_open_def)
  moreover have "thread_check_preempt bare_env st = st" for st :: "unit ee_state" by (simp add: bare_env_def)
  ultimately show ?thesis using ee_interrupt_round_trip [OF e, of ?h bare_env] by (simp add: Let_def)
qed

section \<open>Memory\<close>

text \<open>Addresses of RAM in the unmapped segments, which no register block claims.\<close>

lemma ee_register_free:
  assumes "a < 0x2000000"
  shows "dma_mmio_read32 a s = None" "dma_mmio_write32 sk a v s = None" "sif_mmio_read32 a d1 = None"
    "sif_mmio_write32 a v d1 = None" "mch_mmio_read32 a d2 = None" "mch_mmio_write32 a v d2 = None"
    "ee_intc_mmio_read32 a d3 = None" "ee_intc_mmio_write32 a v d3 = None" "ee_timers_mmio_read32 a d4 = None"
    "ee_timers_mmio_write32 a v d4 = None" "ee_sio_mmio_read32 a d5 = None" "ee_sio_mmio_write32 a v d5 = None"
    "ipu_mmio_read32 a d6 = None" "ipu_mmio_write32 a v d6 = None" "gs_mmio_read64 a d7 = None"
    "gs_mmio_write64 a w d7 = None"
proof -
  have lt: "a < b \<and> a \<noteq> b \<and> \<not> b \<le> a" if "0x2000000 \<le> b" for b using assms that by auto
  show "dma_mmio_read32 a s = None" "dma_mmio_write32 sk a v s = None"
    by (simp_all add: dma_mmio_read32_def dma_mmio_write32_def lt)
  show "sif_mmio_read32 a d1 = None" "sif_mmio_write32 a v d1 = None" "mch_mmio_read32 a d2 = None"
    "mch_mmio_write32 a v d2 = None" "ee_intc_mmio_read32 a d3 = None" "ee_intc_mmio_write32 a v d3 = None"
    "ee_sio_mmio_read32 a d5 = None" "ee_sio_mmio_write32 a v d5 = None"
    "ipu_mmio_read32 a d6 = None" "ipu_mmio_write32 a v d6 = None"
    unfolding sif.read_claims sif.write_claims mch.read_claims mch.write_claims ee_intc.read_claims ee_intc.write_claims
      ee_sio.read_claims ee_sio.write_claims ipu.read_claims ipu.write_claims sif_register_def ee_intc_register_def
      ipu_register_def
    by (auto simp: lt)
  have "ee_find_timer a = None" by (simp add: ee_find_timer_def ee_timer_base_def lt)
  then show "ee_timers_mmio_read32 a d4 = None" "ee_timers_mmio_write32 a v d4 = None"
    by (simp_all add: ee_timers_mmio_read32_def ee_timers_mmio_write32_def)
  show "gs_mmio_read64 a d7 = None" "gs_mmio_write64 a w d7 = None"
    by (simp_all add: gs_mmio_read64_def gs_mmio_write64_def lt)
qed

text \<open>The bytes of a 64-bit value, as the read loop assembles them.\<close>

lemma bit_assemble:
  "bit (fold (\<lambda>i v. push_bit 8 v OR ucast (b i :: u8)) (rev is) (0 :: u64)) k
    \<longleftrightarrow> k < 64 \<and> k < 8 * length is \<and> bit (b (is ! (k div 8))) (k mod 8)"
proof (induction "is" arbitrary: k)
  case Nil
  then show ?case by simp
next
  case (Cons i "is")
  show ?case
  proof (cases "k < 8")
    case True
    then show ?thesis by (simp add: bit_simps)
  next
    case False
    then have k: "k div 8 = Suc ((k - 8) div 8)" "k mod 8 = (k - 8) mod 8"
      by (simp_all add: le_div_geq le_mod_geq)
    show ?thesis using False Cons.IH [of "k - 8"]
      by (auto simp: bit_simps k dest: bit_imp_le_length)
  qed
qed

lemma bit_le64:
  "bit (fold (\<lambda>i v. push_bit 8 v OR ucast (b i :: u8)) [7, 6, 5, 4, 3, 2, 1, 0] (0 :: u64)) k
    \<longleftrightarrow> k < 64 \<and> bit (b (word_of_nat (k div 8) :: u32)) (k mod 8)"
proof -
  have l: "[0, 1, 2, 3, 4, 5, 6, 7] = map (word_of_nat :: nat \<Rightarrow> u32) [0 ..< 8]" by (simp add: upt_conv_Cons)
  have "[7, 6, 5, 4, 3, 2, 1, 0 :: u32] = rev [0, 1, 2, 3, 4, 5, 6, 7]" by simp
  moreover have "k < 64 \<Longrightarrow> [0, 1, 2, 3, 4, 5, 6, 7] ! (k div 8) = (word_of_nat (k div 8) :: u32)"
    unfolding l by (subst nth_map) auto
  ultimately show ?thesis using bit_assemble [of b "[0, 1, 2, 3, 4, 5, 6, 7]" k] by auto
qed

lemma le64_of_bytes:
  fixes v :: u64
  assumes "\<And>i. i < 8 \<Longrightarrow> b (word_of_nat i :: u32) = ucast (drop_bit (8 * i) v)"
  shows "fold (\<lambda>i v. push_bit 8 v OR ucast (b i :: u8)) [7, 6, 5, 4, 3, 2, 1, 0] (0 :: u64) = v"
proof (rule bit_word_eqI)
  fix k
  assume "k < LENGTH(64)"
  then have k: "k < 64" "k div 8 < 8" by auto
  show "bit (fold (\<lambda>i v. push_bit 8 v OR ucast (b i :: u8)) [7, 6, 5, 4, 3, 2, 1, 0] (0 :: u64)) k = bit v k"
    unfolding bit_le64 using k assms [OF k(2)] by (simp add: bit_simps)
qed

text \<open>Unmapped addresses (KSEG0, KSEG1) of RAM.\<close>

definition in_ram :: "u32 \<Rightarrow> u32 \<Rightarrow> u32 \<Rightarrow> 'x ee_state \<Rightarrow> bool" where
  "in_ram a p n st \<longleftrightarrow> 0x80000000 \<le> a \<and> a < 0xC0000000 \<and> a AND 0x1FFFFFFF = p \<and>
     unat p + unat n \<le> unat (ee_ram_size (e_dma st)) \<and> ee_ram_size (e_dma st) \<le> 0x2000000"

lemma ram_access:
  assumes "in_ram a p n st" and "n \<noteq> 0"
  shows "ee_mem_ptr st a n = (Some (At_Ram p), st\<lparr>mem_tlb_miss := False\<rparr>)" and "ee_hw_mmio_addr a = p" and "p < 0x2000000"
proof -
  have r: "unat (ee_ram_size (e_dma st)) \<le> 0x2000000" and p: "unat p + unat n \<le> unat (ee_ram_size (e_dma st))"
    using assms(1) by (simp_all add: in_ram_def word_le_nat_alt)
  have "0 < unat n" using assms(2) by (simp add: unat_gt_0)
  then show lt: "p < 0x2000000" using p r by (simp add: word_less_nat_alt)
  have "unat (p + n) = unat p + unat n" using p r by (simp add: unat_word_ariths)
  then have "p + n \<le> ee_ram_size (e_dma st)" "\<not> 0x1FC00000 \<le> p" using p lt by (auto simp: word_le_nat_alt word_less_nat_alt)
  moreover have "\<not> a < 0x70004000" "\<not> a < 0x80000000" "\<not> 0xC0000000 \<le> a" "a AND 0x1FFFFFFF = p"
    using assms(1) by (auto simp: in_ram_def word_le_nat_alt word_less_nat_alt)
  ultimately show "ee_mem_ptr st a n = (Some (At_Ram p), st\<lparr>mem_tlb_miss := False\<rparr>)"
    by (simp add: ee_mem_ptr_def ee_phys_ptr_def)
  show "ee_hw_mmio_addr a = p" using assms(1) by (simp add: in_ram_def ee_hw_mmio_addr_def)
qed

definition store64 :: "u32 \<Rightarrow> u64 \<Rightarrow> (u32 \<Rightarrow> u8) \<Rightarrow> u32 \<Rightarrow> u8" where
  "store64 p v m = (\<lambda>x. if unat (x - p) < 8 then ucast (drop_bit (8 * unat (x - p)) v) else m x)"

lemma fold_set_bytes:
  assumes "ee_ram (e_dma st) = Some m"
  shows "fold (\<lambda>(k, v). ee_set_byte (At_Ram p) k v) bs st
    = st\<lparr>e_dma := (e_dma st)\<lparr>ee_ram := Some (fold (\<lambda>(k, v) m. m(p + k := v)) bs m)\<rparr>\<rparr>"
  using assms
proof (induction bs arbitrary: st m)
  case Nil
  then show ?case by simp
next
  case (Cons b bs)
  obtain k v where b: "b = (k, v)" by fastforce
  show ?case
    using Cons.IH [of "ee_set_byte (At_Ram p) k v st" "m(p + k := v)"] Cons.prems by (simp add: b del: fun_upd_apply)
qed

lemma fold_upd_range:
  assumes "n \<le> 8"
  shows "fold (\<lambda>(k, w) m. m(p + k := w)) (map (\<lambda>i. (word_of_nat i :: u32, f i)) [0 ..< n]) m x
    = (if unat (x - p) < n then f (unat (x - p)) else m x)"
  using assms
proof (induction n)
  case 0
  then show ?case by simp
next
  case (Suc n)
  have "x = p + word_of_nat n \<longleftrightarrow> unat (x - p) = n"
  proof
    assume "unat (x - p) = n"
    then have "x - p = word_of_nat n" by auto
    then show "x = p + word_of_nat n" by (simp add: algebra_simps)
  qed (use Suc.prems in simp)
  then show ?case using Suc by (auto simp: less_Suc_eq)
qed

lemma ee_mem_write64_ram:
  assumes "in_ram a p 8 st" and "ee_ram (e_dma st) = Some m"
  shows "ee_mem_write64 env a v st
    = st\<lparr>mem_tlb_miss := False, e_dma := (e_dma st)\<lparr>ee_ram := Some (store64 p v m)\<rparr>\<rparr>"
proof -
  note acc = ram_access [OF assms(1), simplified]
  have bytes: "fold (\<lambda>(k, v) m. m(p + k := v)) (map (\<lambda>i. (word_of_nat i, ucast (drop_bit (8 * i) v AND 0xFF))) [0 ..< 8]) m
    = store64 p v m"
    by (rule ext) (subst fold_upd_range, simp_all add: store64_def ucast_low_byte)
  have "dev_write hw_gs put_gs gs_mmio_write64 (ee_hw_mmio_addr a) v (e_dma st) = None"
    using ee_register_free [OF acc(3)] by (simp add: dev_write_def acc(2))
  then show ?thesis
    unfolding ee_mem_write64_def ee_store_def acc(1)
    using fold_set_bytes [of "st\<lparr>mem_tlb_miss := False\<rparr>" m p] assms(2) bytes by simp
qed

lemma ee_mem_read64_ram:
  assumes "in_ram a p 8 st" and "ee_ram (e_dma st) = Some m"
  shows "ee_mem_read64 env a st
    = (fold (\<lambda>i v. push_bit 8 v OR ucast (m (p + i))) [7, 6, 5, 4, 3, 2, 1, 0] 0, st\<lparr>mem_tlb_miss := False\<rparr>)"
proof -
  note acc = ram_access [OF assms(1), simplified]
  have "dev_read hw_gs put_gs gs_mmio_read64 (ee_hw_mmio_addr a) (e_dma st) = None"
    using ee_register_free [OF acc(3)] by (simp add: dev_read_def acc(2))
  then show ?thesis unfolding ee_mem_read64_def ee_load_def acc(1) using assms(2) by simp
qed

text \<open>A doubleword stored through one unmapped alias of a RAM location is read back through the
  other; the store changes the eight bytes from its address and nothing else of the machine but the
  flag of the last access.\<close>

theorem ee_store_load64:
  assumes "in_ram a p 8 st" and "in_ram b p 8 st" and "ee_ram (e_dma st) = Some m"
  shows "ee_mem_write64 env a v st = st\<lparr>mem_tlb_miss := False, e_dma := (e_dma st)\<lparr>ee_ram := Some (store64 p v m)\<rparr>\<rparr> \<and>
    ee_mem_read64 env b (ee_mem_write64 env a v st) = (v, ee_mem_write64 env a v st)"
proof -
  let ?st = "st\<lparr>mem_tlb_miss := False, e_dma := (e_dma st)\<lparr>ee_ram := Some (store64 p v m)\<rparr>\<rparr>"
  have w: "ee_mem_write64 env a v st = ?st" by (rule ee_mem_write64_ram [OF assms(1,3)])
  have "in_ram b p 8 ?st" using assms(2) by (simp add: in_ram_def)
  from ee_mem_read64_ram [OF this, of "store64 p v m" env]
  have "ee_mem_read64 env b ?st
    = (fold (\<lambda>i v'. push_bit 8 v' OR ucast (store64 p v m (p + i))) [7, 6, 5, 4, 3, 2, 1, 0] 0, ?st)" by simp
  moreover have "fold (\<lambda>i v'. push_bit 8 v' OR ucast (store64 p v m (p + i))) [7, 6, 5, 4, 3, 2, 1, 0] (0 :: u64) = v"
    by (rule le64_of_bytes) (simp add: store64_def)
  ultimately show ?thesis using w by simp
qed

theorem ee_store_load64_witness:
  "fst (ee_mem_read64 bare_env 0xA0001000 (ee_mem_write64 bare_env 0x80001000 0x1122334455667788 cold_ee)) = 0x1122334455667788"
proof -
  have "in_ram 0x80001000 0x1000 8 cold_ee" "in_ram 0xA0001000 0x1000 8 cold_ee" "ee_ram (e_dma cold_ee) = Some (\<lambda>_. 0)"
    by (simp_all add: in_ram_def)
  from ee_store_load64 [OF this] have "ee_mem_read64 bare_env 0xA0001000 (ee_mem_write64 bare_env 0x80001000 0x1122334455667788 cold_ee)
    = (0x1122334455667788, ee_mem_write64 bare_env 0x80001000 0x1122334455667788 cold_ee)" by (rule conjunct2)
  then show ?thesis by (simp only: fst_conv)
qed

section \<open>A load that misses the TLB\<close>

lemma load_word_miss:
  assumes "ask (ee_read32_blocks env (ee_hw_mmio_addr a)) (e_dma st) = None" and "a < 0x70000000"
    and "ee_tlb_translate st a = None"
  shows "ee_mem_read32 env a st
    = (0, ee_mem_check_tlb_fault a False (st\<lparr>mem_tlb_miss := True\<rparr>))"
proof -
  have "\<not> 0x70000000 \<le> a" "a < 0x80000000" using assms(2) by (auto simp: word_le_nat_alt word_less_nat_alt)
  then show ?thesis
    using assms(1,3) by (simp add: ee_mem_read32_def ee_load_def ee_mem_ptr_def)
qed

text \<open>C39: A word load whose address has no TLB entry enters the refill handler at \<open>0x80000000\<close> with the
  address in BadVAddr and EPC at the load, but it also writes 0 to its destination. A load whose base
  register is its destination therefore loses its base: when the handler returns, the load is retried at
  the bare offset.\<close>

theorem load_miss_clobbers_base:
  assumes "i_op i = 0x23" and "i_rt i \<noteq> 0" and "a = ucast (R st (i_rs i)) + i_imm i"
    and "ask (ee_read32_blocks env (ee_hw_mmio_addr a)) (e_dma st) = None" and "a < 0x70000000"
    and "ee_tlb_translate st a = None" and "\<not> exc_raised_this_step st"
    and "e_cop0 st 12 AND 0x2 = 0" and "e_cop0 st 12 AND 0x00400000 = 0" and "\<not> exc_in_delay_slot st"
  shows "\<exists>st'. ee_exec env i this_pc delay st = Running st' \<and> e_pc st' = 0x80000000 \<and> e_cop0 st' 14 = exc_this_pc st \<and>
    e_cop0 st' 8 = a \<and> R st' (i_rt i) = 0 \<and> (i_rt i = i_rs i \<longrightarrow> ucast (R st' (i_rs i)) + i_imm i = i_imm i)"
proof -
  let ?st1 = "ee_mem_check_tlb_fault a False (st\<lparr>mem_tlb_miss := True\<rparr>)"
  have "ee_exec env i this_pc delay st = Running (wr64 (i_rt i) (sext32 0) ?st1)"
    using load_word_miss [OF assms(4-6)] assms(3)
    by (simp add: ee_exec_def assms(1) branch_cond_def ee_alu_imm_def ee_exec_load_def load_to_def)
  moreover have "e_pc ?st1 = 0x80000000 \<and> e_cop0 ?st1 14 = exc_this_pc st \<and> e_cop0 ?st1 8 = a"
    using assms(7-10) by (simp add: ee_mem_check_tlb_fault_def ee_raise_tlb_exception_def Let_def exception_entry vector_base_def exc_offset_def)
  ultimately show ?thesis
    using assms(2) by (auto simp: wr64_def set64_def set_reg_def R_def sext32_def)
qed

theorem load_miss_clobbers_base_witness:
  "\<exists>st'. ee_exec bare_env 0x8C840010 0 False (cold_ee\<lparr>e_gpr := \<lambda>_. \<lparr>ud0 = 0x00400000, ud1 = 0\<rparr>, e_cop0 := \<lambda>_. 0, tlb := [],
      exc_this_pc := 0x80001000\<rparr>) = Running st' \<and> e_cop0 st' 14 = 0x80001000 \<and> R st' 4 = 0"
proof -
  let ?st = "cold_ee\<lparr>e_gpr := \<lambda>_. \<lparr>ud0 = 0x00400000, ud1 = 0\<rparr>, e_cop0 := \<lambda>_. 0, tlb := [], exc_this_pc := 0x80001000\<rparr>"
  have i: "i_op 0x8C840010 = 0x23" "i_rt 0x8C840010 = 4" "i_rs 0x8C840010 = 4" "i_imm 0x8C840010 = 0x10"
    by (simp_all add: i_op_def i_rt_def i_rs_def i_imm_def)
  have "ask (ee_read32_blocks bare_env (ee_hw_mmio_addr 0x00400010)) (e_dma ?st) = None"
    by (simp add: ee_hw_mmio_addr_def ee_read32_blocks_def dev_read_def bare_env_def ee_register_free)
  then show ?thesis
    using load_miss_clobbers_base [of "0x8C840010" "0x00400010" ?st bare_env 0 False]
    by (simp add: i R_def ee_tlb_translate_def) blast
qed

end
