(* ===== verification/Vu.thy ===== *)
theory Vu
  imports Prelude
begin

text \<open>
  The vector units in micro mode, \<open>source/hw/vu.c\<close> with the encodings of
  \<open>source/hw/vu_opcodes.h\<close>: registers and memories, the upper (vector arithmetic) and lower
  (integer, memory, branch) halves of an instruction pair, the step with its two delay slots and
  the bounded run. The same step serves VU1 and, with smaller masks, VU0
  (\<open>vu0_exec_micro\<close> and its neighbours in \<open>ee_core.c\<close>).

  Registers hold the bit patterns of floats, as in the code. The host's single-precision
  arithmetic is an argument, \<open>vu_float\<close>: one operation for each expression of the source, with
  \<open>a + x * y\<close> and \<open>a - x * y\<close> as operations of their own because a compiler may fuse them.
  The consumer of an XGKICK, \<open>gif_process_quadwords\<close>, is an argument that acts on a state of
  its own.
\<close>

unbundle bit_operations_syntax

section \<open>State\<close>

record vu_state =
  vf :: "nat \<Rightarrow> nat \<Rightarrow> u32"
  vi :: "nat \<Rightarrow> u32"
  acc :: "nat \<Rightarrow> u32"
  vu_mem :: "u32 \<Rightarrow> u8"
  vu_micro :: "u32 \<Rightarrow> u8"
  tpc :: u32
  branch_delay :: u32
  branch_target :: u32
  ebit_delay :: u32
  vu_running :: bool
  vu_instructions :: u64
  vu_unimplemented :: u64

record vu_float =
  fl_add :: "u32 \<Rightarrow> u32 \<Rightarrow> u32"
  fl_sub :: "u32 \<Rightarrow> u32 \<Rightarrow> u32"
  fl_mul :: "u32 \<Rightarrow> u32 \<Rightarrow> u32"
  fl_madd :: "u32 \<Rightarrow> u32 \<Rightarrow> u32 \<Rightarrow> u32"
  fl_msub :: "u32 \<Rightarrow> u32 \<Rightarrow> u32 \<Rightarrow> u32"
  fl_div :: "u32 \<Rightarrow> u32 \<Rightarrow> u32"
  fl_sqrt :: "u32 \<Rightarrow> u32"
  fl_max :: "u32 \<Rightarrow> u32 \<Rightarrow> u32"
  fl_min :: "u32 \<Rightarrow> u32 \<Rightarrow> u32"
  fl_abs :: "u32 \<Rightarrow> u32"
  fl_itof :: "nat \<Rightarrow> u32 \<Rightarrow> u32"
  fl_ftoi :: "nat \<Rightarrow> u32 \<Rightarrow> u32"

type_synonym 'w gif_sink = "nat \<Rightarrow> u8 list \<Rightarrow> 'w \<Rightarrow> 'w"

abbreviation (input) GIF_PATH_1 :: nat where "GIF_PATH_1 \<equiv> 1"
abbreviation (input) VU1_MASK :: u32 where "VU1_MASK \<equiv> 0x3FFF"
abbreviation (input) VU0_MASK :: u32 where "VU0_MASK \<equiv> 0xFFF"
abbreviation (input) VU_EXEC_STEP_CAP :: nat where "VU_EXEC_STEP_CAP \<equiv> 65536"

definition vu1_init :: vu_state where
  "vu1_init = \<lparr>vf = (\<lambda>r l. if r = 0 \<and> l = 3 then 0x3F800000 else 0), vi = \<lambda>_. 0, acc = \<lambda>_. 0,
     vu_mem = \<lambda>_. 0, vu_micro = \<lambda>_. 0, tpc = 0, branch_delay = 0, branch_target = 0, ebit_delay = 0,
     vu_running = False, vu_instructions = 0, vu_unimplemented = 0\<rparr>"

section \<open>Memory and registers\<close>

definition vu_rd_le32 :: "(u32 \<Rightarrow> u8) \<Rightarrow> u32 \<Rightarrow> u32" where
  "vu_rd_le32 m p = ucast (m p) OR push_bit 8 (ucast (m (p + 1))) OR push_bit 16 (ucast (m (p + 2)))
     OR push_bit 24 (ucast (m (p + 3)))"

definition vu_wr_le32 :: "u32 \<Rightarrow> u32 \<Rightarrow> (u32 \<Rightarrow> u8) \<Rightarrow> u32 \<Rightarrow> u8" where
  "vu_wr_le32 p v m = m(p := ucast v, p + 1 := ucast (drop_bit 8 v), p + 2 := ucast (drop_bit 16 v),
     p + 3 := ucast (drop_bit 24 v))"

definition vu_micro_write32 :: "u32 \<Rightarrow> u32 \<Rightarrow> u32 \<Rightarrow> vu_state \<Rightarrow> vu_state" where
  "vu_micro_write32 msk addr v st = st\<lparr>vu_micro := vu_wr_le32 (addr AND msk) v (vu_micro st)\<rparr>"

definition vu_mem_write32 :: "u32 \<Rightarrow> u32 \<Rightarrow> u32 \<Rightarrow> vu_state \<Rightarrow> vu_state" where
  "vu_mem_write32 msk addr v st = st\<lparr>vu_mem := vu_wr_le32 (addr AND msk) v (vu_mem st)\<rparr>"

definition lane_on :: "u32 \<Rightarrow> nat \<Rightarrow> bool" where
  "lane_on dest l \<longleftrightarrow> l < 4 \<and> bit dest (3 - l)"

definition vu_write_dest :: "nat \<Rightarrow> u32 \<Rightarrow> (nat \<Rightarrow> u32) \<Rightarrow> vu_state \<Rightarrow> vu_state" where
  "vu_write_dest fd dest r st =
     (if fd = 0 then st
      else st\<lparr>vf := (vf st)(fd := (\<lambda>l. if lane_on dest l then r l else vf st fd l))\<rparr>)"

definition acc_write :: "u32 \<Rightarrow> (nat \<Rightarrow> u32) \<Rightarrow> vu_state \<Rightarrow> vu_state" where
  "acc_write dest r st = st\<lparr>acc := (\<lambda>l. if lane_on dest l then r l else acc st l)\<rparr>"

definition vu_write_vi :: "nat \<Rightarrow> u32 \<Rightarrow> vu_state \<Rightarrow> vu_state" where
  "vu_write_vi idx v st =
     (let k = idx mod 16 in if k = 0 then st else st\<lparr>vi := (vi st)(k := v AND 0xFFFF)\<rparr>)"

definition vu_read_vi16 :: "vu_state \<Rightarrow> nat \<Rightarrow> u32" where
  "vu_read_vi16 st idx = (let k = idx mod 16 in if k = 0 then 0 else vi st k AND 0xFFFF)"

definition vu_read_vi16_signed :: "vu_state \<Rightarrow> nat \<Rightarrow> int" where
  "vu_read_vi16_signed st idx = sint (ucast (vu_read_vi16 st idx) :: u16)"

definition vu_sext :: "u32 \<Rightarrow> nat \<Rightarrow> u32" where
  "vu_sext v n = (v XOR push_bit (n - 1) 1) - push_bit (n - 1) 1"

section \<open>Instruction fields\<close>

definition f_dest :: "u32 \<Rightarrow> u32" where "f_dest w = drop_bit 21 w AND 0xF"
definition f_ft :: "u32 \<Rightarrow> nat" where "f_ft w = unat (drop_bit 16 w AND 0x1F)"
definition f_fs :: "u32 \<Rightarrow> nat" where "f_fs w = unat (drop_bit 11 w AND 0x1F)"
definition f_fd :: "u32 \<Rightarrow> nat" where "f_fd w = unat (drop_bit 6 w AND 0x1F)"
definition f_funct6 :: "u32 \<Rightarrow> nat" where "f_funct6 w = unat (w AND 0x3F)"
definition f_sub4 :: "u32 \<Rightarrow> nat" where "f_sub4 w = unat (drop_bit 2 w AND 0xF)"
definition f_bc :: "u32 \<Rightarrow> nat" where "f_bc w = unat (w AND 3)"
definition f_opcode :: "u32 \<Rightarrow> nat" where "f_opcode w = unat (drop_bit 25 w AND 0x7F)"

section \<open>Upper word\<close>

text \<open>CLIPw: six judgements on bit patterns, shifted into the clip register.\<close>

definition clip_bound :: "u32 \<Rightarrow> int" where
  "clip_bound ftw = (if ftw AND 0x7F800000 \<noteq> 0 then sint (ftw AND 0x7FFFFFFF) else 0x7FFFFF)"

definition clip_flag :: "u32 \<Rightarrow> u32 \<Rightarrow> u32 \<Rightarrow> u32" where
  "clip_flag flag f b = (if sint f > clip_bound b then flag else 0)"

definition vu_clip :: "nat \<Rightarrow> nat \<Rightarrow> vu_state \<Rightarrow> vu_state" where
  "vu_clip fs ft st =
     (let b = vf st ft 3; x = vf st fs 0; y = vf st fs 1; z = vf st fs 2;
          c = push_bit 6 (vi st 18) OR clip_flag 1 x b OR clip_flag 2 (x XOR 0x80000000) b
            OR clip_flag 4 y b OR clip_flag 8 (y XOR 0x80000000) b
            OR clip_flag 0x10 z b OR clip_flag 0x20 (z XOR 0x80000000) b
      in st\<lparr>vi := (vi st)(18 := c AND 0xFFFFFF)\<rparr>)"

definition fix_shift :: "nat \<Rightarrow> nat" where
  "fix_shift bc = (if bc = 0 then 0 else if bc = 1 then 4 else if bc = 2 then 12 else 15)"

definition opmula :: "vu_float \<Rightarrow> nat \<Rightarrow> nat \<Rightarrow> vu_state \<Rightarrow> vu_state" where
  "opmula F fs ft st =
     st\<lparr>acc := (acc st)(0 := fl_mul F (vf st fs 1) (vf st ft 2), 1 := fl_mul F (vf st fs 2) (vf st ft 0),
          2 := fl_mul F (vf st fs 0) (vf st ft 1))\<rparr>"

text \<open>The four accumulator forms that a Q/I group offers, by \<open>bc\<close>.\<close>

definition acc_qi :: "(u32 \<Rightarrow> u32 \<Rightarrow> u32) \<Rightarrow> (u32 \<Rightarrow> u32 \<Rightarrow> u32 \<Rightarrow> u32) \<Rightarrow> nat \<Rightarrow> nat \<Rightarrow> vu_state \<Rightarrow> nat \<Rightarrow> u32" where
  "acc_qi op mop bc fs st l =
     (if bc = 0 then op (vf st fs l) (vi st 22)
      else if bc = 1 then mop (acc st l) (vf st fs l) (vi st 22)
      else if bc = 2 then op (vf st fs l) (vi st 21)
      else mop (acc st l) (vf st fs l) (vi st 21))"

definition vu_upper_special :: "vu_float \<Rightarrow> u32 \<Rightarrow> vu_state \<Rightarrow> vu_state option" where
  "vu_upper_special F w st =
     (let dest = f_dest w; s = vf st (f_fs w); t = vf st (f_ft w); sub = f_fd w; bc = f_bc w;
          a = acc st; q = vi st 22; i = vi st 21
      in if sub = 0x00 then Some (acc_write dest (\<lambda>l. fl_add F (s l) (t bc)) st)
      else if sub = 0x01 then Some (acc_write dest (\<lambda>l. fl_sub F (s l) (t bc)) st)
      else if sub = 0x02 then Some (acc_write dest (\<lambda>l. fl_madd F (a l) (s l) (t bc)) st)
      else if sub = 0x03 then Some (acc_write dest (\<lambda>l. fl_msub F (a l) (s l) (t bc)) st)
      else if sub = 0x06 then Some (acc_write dest (\<lambda>l. fl_mul F (s l) (t bc)) st)
      else if sub = 0x08 then Some (acc_write dest (acc_qi (fl_add F) (fl_madd F) bc (f_fs w) st) st)
      else if sub = 0x09 then Some (acc_write dest (acc_qi (fl_sub F) (fl_msub F) bc (f_fs w) st) st)
      else if sub = 0x0A \<and> bc = 0 then Some (acc_write dest (\<lambda>l. fl_add F (s l) (t l)) st)
      else if sub = 0x0A \<and> bc = 1 then Some (acc_write dest (\<lambda>l. fl_madd F (a l) (s l) (t l)) st)
      else if sub = 0x0B \<and> bc = 0 then Some (acc_write dest (\<lambda>l. fl_sub F (s l) (t l)) st)
      else if sub = 0x0B \<and> bc = 1 then Some (acc_write dest (\<lambda>l. fl_msub F (a l) (s l) (t l)) st)
      else if sub = 0x0B \<and> bc = 2 then Some (opmula F (f_fs w) (f_ft w) st)
      else if sub = 0x0B \<and> bc = 3 then Some st
      else if sub = 0x07 \<and> bc = 0 then Some (acc_write dest (\<lambda>l. fl_mul F (s l) q) st)
      else if sub = 0x07 \<and> bc = 1 then Some (vu_write_dest (f_ft w) dest (\<lambda>l. fl_abs F (s l)) st)
      else if sub = 0x07 \<and> bc = 2 then Some (acc_write dest (\<lambda>l. fl_mul F (s l) i) st)
      else if sub = 0x07 \<and> bc = 3 then Some (vu_clip (f_fs w) (f_ft w) st)
      else if sub = 0x04 then Some (vu_write_dest (f_ft w) dest (\<lambda>l. fl_itof F (fix_shift bc) (s l)) st)
      else if sub = 0x05 then Some (vu_write_dest (f_ft w) dest (\<lambda>l. fl_ftoi F (fix_shift bc) (s l)) st)
      else None)"

definition vu_upper_bc :: "vu_float \<Rightarrow> u32 \<Rightarrow> vu_state \<Rightarrow> nat \<Rightarrow> u32" where
  "vu_upper_bc F w st l =
     (let s = vf st (f_fs w) l; t = vf st (f_ft w) (f_bc w); a = acc st l; sub = f_sub4 w
      in if sub = 0 then fl_add F s t
      else if sub = 1 then fl_sub F s t
      else if sub = 2 then fl_madd F a s t
      else if sub = 3 then fl_msub F a s t
      else if sub = 4 then fl_max F s t
      else if sub = 5 then fl_min F s t
      else fl_mul F s t)"

definition vu_upper_class_a :: "vu_float \<Rightarrow> u32 \<Rightarrow> vu_state \<Rightarrow> (nat \<Rightarrow> u32) option" where
  "vu_upper_class_a F w st =
     (let s = vf st (f_fs w); t = vf st (f_ft w); a = acc st; q = vi st 22; i = vi st 21; f = f_funct6 w
      in if f = 0x28 then Some (\<lambda>l. fl_add F (s l) (t l))
      else if f = 0x2C then Some (\<lambda>l. fl_sub F (s l) (t l))
      else if f = 0x2A then Some (\<lambda>l. fl_mul F (s l) (t l))
      else if f = 0x2B then Some (\<lambda>l. fl_max F (s l) (t l))
      else if f = 0x2F then Some (\<lambda>l. fl_min F (s l) (t l))
      else if f = 0x29 then Some (\<lambda>l. fl_madd F (a l) (s l) (t l))
      else if f = 0x2D then Some (\<lambda>l. fl_msub F (a l) (s l) (t l))
      else if f = 0x20 then Some (\<lambda>l. fl_add F (s l) q)
      else if f = 0x24 then Some (\<lambda>l. fl_sub F (s l) q)
      else if f = 0x1C then Some (\<lambda>l. fl_mul F (s l) q)
      else if f = 0x21 then Some (\<lambda>l. fl_madd F (a l) (s l) q)
      else if f = 0x25 then Some (\<lambda>l. fl_msub F (a l) (s l) q)
      else if f = 0x22 then Some (\<lambda>l. fl_add F (s l) i)
      else if f = 0x26 then Some (\<lambda>l. fl_sub F (s l) i)
      else if f = 0x1E then Some (\<lambda>l. fl_mul F (s l) i)
      else if f = 0x23 then Some (\<lambda>l. fl_madd F (a l) (s l) i)
      else if f = 0x27 then Some (\<lambda>l. fl_msub F (a l) (s l) i)
      else if f = 0x1D then Some (\<lambda>l. fl_max F (s l) i)
      else if f = 0x1F then Some (\<lambda>l. fl_min F (s l) i)
      else None)"

definition vu_exec_upper :: "vu_float \<Rightarrow> u32 \<Rightarrow> vu_state \<Rightarrow> vu_state option" where
  "vu_exec_upper F w st =
     (if f_sub4 w = 0xF then vu_upper_special F w st
      else if f_sub4 w \<le> 6 then Some (vu_write_dest (f_fd w) (f_dest w) (vu_upper_bc F w st) st)
      else map_option (\<lambda>r. vu_write_dest (f_fd w) (f_dest w) r st) (vu_upper_class_a F w st))"

section \<open>Lower word\<close>

definition vu_branch :: "u32 \<Rightarrow> vu_state \<Rightarrow> vu_state" where
  "vu_branch target st = st\<lparr>branch_delay := 2, branch_target := target\<rparr>"

definition vu_load_quad :: "u32 \<Rightarrow> u32 \<Rightarrow> nat \<Rightarrow> vu_state \<Rightarrow> vu_state" where
  "vu_load_quad msk addr rt st =
     (if rt = 0 then st
      else st\<lparr>vf := (vf st)(rt := (\<lambda>l. if l < 4 then vu_rd_le32 (vu_mem st) ((addr + of_nat l * 4) AND msk)
                                   else vf st rt l))\<rparr>)"

definition vu_store_quad :: "u32 \<Rightarrow> u32 \<Rightarrow> nat \<Rightarrow> vu_state \<Rightarrow> vu_state" where
  "vu_store_quad msk addr r st = fold (\<lambda>l. vu_mem_write32 msk (addr + of_nat l * 4) (vf st r l)) [0 ..< 4] st"

definition first_elem :: "u32 \<Rightarrow> nat" where
  "first_elem dest = (if bit dest 3 then 0 else if bit dest 2 then 1 else if bit dest 1 then 2 else if bit dest 0 then 3 else 0)"

definition vu_xgkick :: "'w gif_sink \<Rightarrow> u32 \<Rightarrow> nat \<Rightarrow> vu_state \<Rightarrow> 'w \<Rightarrow> 'w" where
  "vu_xgkick gif msk rs st w =
     (let addr = (vu_read_vi16 st rs AND 0x3FF) * 16
      in if msk = VU1_MASK \<and> addr < 0x4000
         then gif GIF_PATH_1 (map (\<lambda>k. vu_mem st (addr + of_nat k)) [0 ..< (0x4000 - unat addr) div 16 * 16]) w
         else w)"

text \<open>The SPECIAL group that is selected by the \<open>fd\<close> slot and \<open>bc\<close>.\<close>

definition vu_lower_slot :: "vu_float \<Rightarrow> u32 \<Rightarrow> u32 \<Rightarrow> vu_state \<Rightarrow> vu_state option" where
  "vu_lower_slot F msk w st =
     (let dest = f_dest w; rt = f_ft w; rs = f_fs w; slot = f_fd w; bc = f_bc w; v = vu_read_vi16 st rs
      in if slot = 0x0C \<and> bc = 0 then Some (vu_write_dest rt dest (vf st rs) st)
      else if slot = 0x0C \<and> bc = 1 then Some (vu_write_dest rt dest (\<lambda>l. vf st rs ((l + 1) mod 4)) st)
      else if slot = 0x0D \<and> bc = 0 then Some (vu_write_vi rs (v + 1) (vu_load_quad msk (v * 16) rt st))
      else if slot = 0x0D \<and> bc = 1 then Some (vu_write_vi rs (v + 1) (vu_store_quad msk (v * 16) rt st))
      else if slot = 0x0D \<and> bc = 2 then
        (let st1 = vu_write_vi rs (v - 1) st in Some (vu_load_quad msk (vu_read_vi16 st1 rs * 16) rt st1))
      else if slot = 0x0D \<and> bc = 3 then
        (let st1 = vu_write_vi rs (v - 1) st in Some (vu_store_quad msk (vu_read_vi16 st1 rs * 16) rt st1))
      else if slot = 0x0F \<and> bc = 0 then Some (vu_write_vi rt (vf st rs (unat (drop_bit 21 w AND 3))) st)
      else if slot = 0x0F \<and> bc = 1 then
        Some (vu_write_dest rt dest (\<lambda>l. scast (ucast v :: u16)) st)
      else if slot = 0x0F \<and> bc = 2 then
        Some (vu_write_vi rt (vu_rd_le32 (vu_mem st) ((v * 16 + of_nat (first_elem dest) * 4) AND msk)) st)
      else if slot = 0x0F \<and> bc = 3 then
        Some (vu_mem_write32 msk (v * 16 + of_nat (first_elem dest) * 4) (vu_read_vi16 st rt) st)
      else if slot = 0x0E \<and> bc = 0 then Some (st\<lparr>vi := (vi st)(22 := fl_div F (vf st rs 0) (vf st rt 0))\<rparr>)
      else if slot = 0x0E \<and> bc = 1 then Some (st\<lparr>vi := (vi st)(22 := fl_sqrt F (vf st rt 0))\<rparr>)
      else if slot = 0x0E \<and> bc = 2 then Some (st\<lparr>vi := (vi st)(22 := fl_div F (vf st rs 0) (fl_sqrt F (vf st rt 0)))\<rparr>)
      else if slot = 0x0E \<and> bc = 3 then Some st
      else if slot = 0x1E \<and> bc = 3 then Some st
      else if slot = 0x1B \<and> bc = 0 then Some st
      else None)"

definition vu_lower_special :: "vu_float \<Rightarrow> u32 \<Rightarrow> u32 \<Rightarrow> vu_state \<Rightarrow> vu_state option" where
  "vu_lower_special F msk w st =
     (let rt = f_ft w; rs = f_fs w; rd = f_fd w; s = vu_read_vi16 st rs; t = vu_read_vi16 st rt; f = f_funct6 w
      in if f = 0x30 then Some (vu_write_vi rd (s + t) st)
      else if f = 0x31 then Some (vu_write_vi rd (s - t) st)
      else if f = 0x34 then Some (vu_write_vi rd (s AND t) st)
      else if f = 0x33 then Some (vu_write_vi rd (s OR t) st)
      else if f = 0x32 then Some (vu_write_vi rt (s + vu_sext (drop_bit 6 w AND 0x1F) 5) st)
      else vu_lower_slot F msk w st)"

definition is_xgkick :: "u32 \<Rightarrow> bool" where
  "is_xgkick w \<longleftrightarrow> f_opcode w = 0x40 \<and> f_funct6 w \<notin> {0x30, 0x31, 0x32, 0x33, 0x34} \<and> f_fd w = 0x1B \<and> f_bc w = 0"

definition imm15 :: "u32 \<Rightarrow> u32" where
  "imm15 w = (drop_bit 10 w AND 0x7800) OR (w AND 0x7FF)"

definition vu_lower_regs :: "vu_float \<Rightarrow> u32 \<Rightarrow> u32 \<Rightarrow> u32 \<Rightarrow> vu_state \<Rightarrow> vu_state option" where
  "vu_lower_regs F msk w pc st =
     (let op = f_opcode w; dest = f_dest w; rt = f_ft w; rs = f_fs w; off = vu_sext (w AND 0x7FF) 11;
          s = vu_read_vi16 st rs; t = vu_read_vi16 st rt; g = vu_read_vi16_signed st rs;
          target = pc + 8 + off * 8; br = (\<lambda>c. Some (if c then vu_branch target st else st))
      in if op = 0x20 then br True
      else if op = 0x21 then Some (vu_branch target (vu_write_vi rt (drop_bit 3 (pc + 16)) st))
      else if op = 0x24 then Some (vu_branch (s * 8) st)
      else if op = 0x25 then
        (let st1 = vu_write_vi rt (drop_bit 3 (pc + 16)) st in Some (vu_branch (vu_read_vi16 st1 rs * 8) st1))
      else if op = 0x28 then br (s = t)
      else if op = 0x29 then br (s \<noteq> t)
      else if op = 0x2C then br (g < 0)
      else if op = 0x2D then br (g > 0)
      else if op = 0x2E then br (g \<le> 0)
      else if op = 0x2F then br (g \<ge> 0)
      else if op = 0x00 then Some (vu_load_quad msk ((s + off) * 16) rt st)
      else if op = 0x01 then Some (vu_store_quad msk ((t + off) * 16) rs st)
      else if op = 0x04 then
        Some (vu_write_vi rt (vu_rd_le32 (vu_mem st) (((s + off) * 16 + of_nat (first_elem dest) * 4) AND msk)) st)
      else if op = 0x05 then
        Some (vu_mem_write32 msk ((s + off) * 16 + of_nat (first_elem dest) * 4) t st)
      else if op = 0x40 then vu_lower_special F msk w st
      else if op = 0x08 then Some (vu_write_vi rt (s + imm15 w) st)
      else if op = 0x09 then Some (vu_write_vi rt (s - imm15 w) st)
      else None)"

definition vu_exec_lower :: "'w gif_sink \<Rightarrow> vu_float \<Rightarrow> u32 \<Rightarrow> u32 \<Rightarrow> u32 \<Rightarrow> vu_state \<Rightarrow> 'w \<Rightarrow> vu_state option \<times> 'w" where
  "vu_exec_lower gif F msk w pc st gw =
     (vu_lower_regs F msk w pc st, if is_xgkick w then vu_xgkick gif msk (f_fs w) st gw else gw)"

section \<open>Instruction pair and run\<close>

text \<open>A half that is not decoded leaves the registers alone and counts the pair as unimplemented.\<close>

definition vu_pair :: "'w gif_sink \<Rightarrow> vu_float \<Rightarrow> u32 \<Rightarrow> u32 \<Rightarrow> u32 \<Rightarrow> u32 \<Rightarrow> vu_state \<Rightarrow> 'w \<Rightarrow> vu_state \<times> 'w \<times> bool" where
  "vu_pair gif F msk lower upper pc st gw =
     (if bit upper 31 then
        (let st1 = st\<lparr>vi := (vi st)(21 := lower)\<rparr>; up = vu_exec_upper F upper st1
         in (case up of None \<Rightarrow> st1 | Some s \<Rightarrow> s, gw, up \<noteq> None))
      else
        (let up = vu_exec_upper F upper st; st1 = (case up of None \<Rightarrow> st | Some s \<Rightarrow> s);
             (lo, gw1) = vu_exec_lower gif F msk lower pc st1 gw
         in (case lo of None \<Rightarrow> st1 | Some s \<Rightarrow> s, gw1, up \<noteq> None \<and> lo \<noteq> None)))"

definition vu_count :: "bool \<Rightarrow> vu_state \<Rightarrow> vu_state" where
  "vu_count ok st = st\<lparr>vu_unimplemented := (if ok then vu_unimplemented st else vu_unimplemented st + 1),
     vu_instructions := vu_instructions st + 1\<rparr>"

definition branch_tick :: "u32 \<Rightarrow> vu_state \<Rightarrow> vu_state" where
  "branch_tick micro_mask st =
     (if branch_delay st > 0 then
        st\<lparr>branch_delay := branch_delay st - 1,
           tpc := (if branch_delay st = 1 then branch_target st AND micro_mask else tpc st)\<rparr>
      else st)"

definition ebit_tick :: "vu_state \<Rightarrow> vu_state \<times> bool" where
  "ebit_tick st =
     (if ebit_delay st > 0 then (st\<lparr>ebit_delay := ebit_delay st - 1\<rparr>, ebit_delay st = 1) else (st, False))"

definition vu_micro_step :: "'w gif_sink \<Rightarrow> vu_float \<Rightarrow> u32 \<Rightarrow> u32 \<Rightarrow> vu_state \<Rightarrow> 'w \<Rightarrow> vu_state \<times> 'w \<times> bool" where
  "vu_micro_step gif F mem_mask micro_mask st gw =
     (let off = tpc st AND micro_mask;
          lower = vu_rd_le32 (vu_micro st) off;
          upper = vu_rd_le32 (vu_micro st) (off + 4);
          st1 = st\<lparr>tpc := (off + 8) AND micro_mask, ebit_delay := (if bit upper 30 then 2 else ebit_delay st)\<rparr>;
          (st2, gw2, ok) = vu_pair gif F mem_mask lower upper off st1 gw;
          (st3, stopped) = ebit_tick (branch_tick micro_mask (vu_count ok st2))
      in (st3, gw2, stopped))"

fun vu_run :: "nat \<Rightarrow> 'w gif_sink \<Rightarrow> vu_float \<Rightarrow> u32 \<Rightarrow> u32 \<Rightarrow> vu_state \<Rightarrow> 'w \<Rightarrow> vu_state \<times> 'w" where
  "vu_run 0 gif F mem_mask micro_mask st gw = (st, gw)"
| "vu_run (Suc n) gif F mem_mask micro_mask st gw =
     (let (st1, gw1, stopped) = vu_micro_step gif F mem_mask micro_mask st gw
      in if stopped then (st1, gw1) else vu_run n gif F mem_mask micro_mask st1 gw1)"

definition vu_exec_micro_continue :: "'w gif_sink \<Rightarrow> vu_float \<Rightarrow> u32 \<Rightarrow> vu_state \<Rightarrow> 'w \<Rightarrow> vu_state \<times> 'w" where
  "vu_exec_micro_continue gif F msk st gw =
     (let (st1, gw1) = vu_run VU_EXEC_STEP_CAP gif F msk msk (st\<lparr>vu_running := True\<rparr>) gw
      in (st1\<lparr>vu_running := False\<rparr>, gw1))"

definition vu_exec_micro :: "'w gif_sink \<Rightarrow> vu_float \<Rightarrow> u32 \<Rightarrow> u32 \<Rightarrow> vu_state \<Rightarrow> 'w \<Rightarrow> vu_state \<times> 'w" where
  "vu_exec_micro gif F msk start st gw =
     (let (st1, gw1) = vu_run VU_EXEC_STEP_CAP gif F msk msk (st\<lparr>tpc := push_bit 3 start AND msk, vu_running := True\<rparr>) gw
      in (st1\<lparr>vu_running := False\<rparr>, gw1))"

end
