(* ===== verification/Vif.thy ===== *)
theory Vif
  imports Vu
begin

text \<open>
  The vector interfaces, \<open>source/hw/vif.c\<close>: the VIFcode stream decoder with its UNPACK, MPG and
  DIRECT payloads, and the state that carries an MPG or UNPACK payload over the end of a DMA
  transfer.

  A transfer is the list of its bytes; the pointer \<open>data + pos * 4\<close> of the code is the list of
  the bytes that remain, so that a position is a suffix and \<open>total_words - pos\<close> is the number of
  whole words left. Each interface works on a \<open>vif_port\<close>: its registers, the vector unit
  behind it and the state of the GIF. The GIF and the float operations are arguments, as in the
  theory of the vector units.
\<close>

unbundle bit_operations_syntax

section \<open>State\<close>

record vif_state =
  is_vif1 :: bool
  vif_code :: u32
  cycle_cl :: u8
  cycle_wl :: u8
  vif_mode :: u32
  vif_mark :: u32
  vif_mask :: u32
  vif_row :: "u32 list"
  vif_col :: "u32 list"
  vif_itop :: u32
  vif_itops :: u32
  vif_base :: u32
  vif_ofst :: u32
  vif_tops :: u32
  codes_processed :: u64
  direct_qwords_forwarded :: u64
  unpack_vectors_written :: u64
  unsupported_cmds_seen :: u64
  mpg_calls :: u64
  mpg_words_written :: u64
  mscal_calls :: u64
  mscal_last_start_byte :: u32
  mscnt_calls :: u64
  mscnt_last_resume_byte :: u32
  mpg_last_dest_byte :: u32
  mpg_pending :: bool
  mpg_pending_addr :: u32
  mpg_pending_words :: nat
  unpack_pending :: bool
  unpack_code :: u32
  unpack_cmd :: nat
  unpack_needed_bytes :: nat
  unpack_have_bytes :: nat
  unpack_buffer :: "u8 list"

record 'w vif_port =
  vif :: vif_state
  vu :: vu_state
  gifw :: 'w

record 'w vif_env =
  gif_quads :: "'w gif_sink"
  floats :: vu_float

abbreviation (input) GIF_PATH_2 :: nat where "GIF_PATH_2 \<equiv> 2"

definition vif_zero :: "bool \<Rightarrow> vif_state" where
  "vif_zero one = \<lparr>is_vif1 = one, vif_code = 0, cycle_cl = 0, cycle_wl = 0, vif_mode = 0, vif_mark = 0, vif_mask = 0,
     vif_row = replicate 4 0, vif_col = replicate 4 0, vif_itop = 0, vif_itops = 0, vif_base = 0, vif_ofst = 0,
     vif_tops = 0, codes_processed = 0, direct_qwords_forwarded = 0, unpack_vectors_written = 0,
     unsupported_cmds_seen = 0, mpg_calls = 0, mpg_words_written = 0, mscal_calls = 0, mscal_last_start_byte = 0,
     mscnt_calls = 0, mscnt_last_resume_byte = 0, mpg_last_dest_byte = 0, mpg_pending = False, mpg_pending_addr = 0,
     mpg_pending_words = 0, unpack_pending = False, unpack_code = 0, unpack_cmd = 0, unpack_needed_bytes = 0,
     unpack_have_bytes = 0, unpack_buffer = replicate 4096 0\<rparr>"

section \<open>Reading the stream\<close>

fun vif_rd_le32 :: "u8 list \<Rightarrow> u32" where
  "vif_rd_le32 (a # b # c # d # _) =
     ucast a OR push_bit 8 (ucast b) OR push_bit 16 (ucast c) OR push_bit 24 (ucast d)"
| "vif_rd_le32 _ = 0"

definition words_left :: "u8 list \<Rightarrow> nat" where
  "words_left bs = length bs div 4"

definition vif_rd_bytes_le :: "u8 list \<Rightarrow> nat \<Rightarrow> nat \<Rightarrow> u32" where
  "vif_rd_bytes_le bs off width =
     (if off + width > length bs then 0
      else fold (\<lambda>i v. v OR push_bit (8 * i) (ucast (bs ! (off + i)))) [0 ..< width] 0)"

definition vif_extend :: "u32 \<Rightarrow> nat \<Rightarrow> bool \<Rightarrow> u32" where
  "vif_extend raw width usn =
     (if width = 4 then raw
      else if width = 2 then (if usn then raw AND 0xFFFF else scast (ucast raw :: u16))
      else (if usn then raw AND 0xFF else scast (ucast raw :: u8)))"

section \<open>UNPACK\<close>

definition VIF_UNPACK_SIZE :: "nat list" where
  "VIF_UNPACK_SIZE = [4, 2, 1, 0, 8, 4, 2, 0, 12, 6, 3, 0, 16, 8, 4, 2]"

definition cmd_vn :: "nat \<Rightarrow> nat" where "cmd_vn cmd = cmd div 4 mod 4"
definition cmd_vl :: "nat \<Rightarrow> nat" where "cmd_vl cmd = cmd mod 4"
definition unpack_gsize :: "nat \<Rightarrow> nat" where "unpack_gsize cmd = VIF_UNPACK_SIZE ! (cmd_vn cmd * 4 + cmd_vl cmd)"

definition component_width :: "nat \<Rightarrow> nat" where
  "component_width vl = (if vl = 0 then 4 else if vl = 1 then 2 else if vl = 2 then 1 else 2)"

definition read_span :: "nat \<Rightarrow> nat" where
  "read_span cmd =
     (let vn = cmd_vn cmd; vl = cmd_vl cmd; cw = component_width vl
      in if vn = 3 \<and> vl = 3 then 2 else if vn = 0 then cw else if vn = 1 then 2 * cw else 4 * cw)"

definition wl_eff :: "vif_state \<Rightarrow> nat" where
  "wl_eff v = (if cycle_wl v \<noteq> 0 then unat (cycle_wl v) else 256)"

definition cl_eff :: "vif_state \<Rightarrow> nat" where
  "cl_eff v = unat (cycle_cl v)"

definition is_fill :: "vif_state \<Rightarrow> bool" where
  "is_fill v \<longleftrightarrow> cl_eff v < wl_eff v"

text \<open>The loop variables that both the dry run and the unpacking advance, per vector.\<close>

record unpack_cursor =
  src_cursor :: nat
  max_read_end :: nat
  block_pos :: nat

definition cursor_step :: "vif_state \<Rightarrow> nat \<Rightarrow> unpack_cursor \<Rightarrow> unpack_cursor" where
  "cursor_step v cmd c =
     (let g = unpack_gsize cmd; this_end = src_cursor c + read_span cmd; bp = block_pos c + 1;
          c1 = c\<lparr>max_read_end := max (max_read_end c) this_end\<rparr>
      in if is_fill v then
           (if bp \<le> cl_eff v then c1\<lparr>block_pos := bp, src_cursor := src_cursor c + g\<rparr>
            else c1\<lparr>block_pos := (if bp = wl_eff v then 0 else bp)\<rparr>)
         else c1\<lparr>src_cursor := src_cursor c + g, block_pos := (if bp \<ge> wl_eff v then 0 else bp)\<rparr>)"

definition vif_unpack_needed_bytes :: "vif_state \<Rightarrow> nat \<Rightarrow> nat \<Rightarrow> nat" where
  "vif_unpack_needed_bytes v cmd num =
     (if unpack_gsize cmd = 0 then 0
      else (max_read_end (((cursor_step v cmd) ^^ num) \<lparr>src_cursor = 0, max_read_end = 0, block_pos = 0\<rparr>) + 3) div 4 * 4)"

definition vu_msk :: "'w vif_port \<Rightarrow> u32" where
  "vu_msk p = (if is_vif1 (vif p) then VU1_MASK else VU0_MASK)"

definition vif_set :: "(vif_state \<Rightarrow> vif_state) \<Rightarrow> 'w vif_port \<Rightarrow> 'w vif_port" where
  "vif_set f p = p\<lparr>vif := f (vif p)\<rparr>"

definition vif_unpack_write_lane :: "u32 \<Rightarrow> u32 \<Rightarrow> bool \<Rightarrow> nat \<Rightarrow> nat \<Rightarrow> u32 \<Rightarrow> 'w vif_port \<Rightarrow> 'w vif_port" where
  "vif_unpack_write_lane dest_addr mode mask_enable blk lane data p =
     (let bp = min blk 3; v = vif p; row = vif_row v ! lane;
          n = (if mask_enable then drop_bit (bp * 8 + lane * 2) (vif_mask v) AND 3 else 0);
          put = (\<lambda>out q. q\<lparr>vu := vu_mem_write32 (vu_msk p) (dest_addr + of_nat lane * 4) out (vu q)\<rparr>);
          save = (\<lambda>x. vif_set (\<lambda>v. v\<lparr>vif_row := (vif_row v)[lane := x]\<rparr>))
      in if n = 0 then
           (if mode = 1 then put (data + row) p
            else if mode = 2 then put (row + data) (save (row + data) p)
            else if mode = 3 then put data (save data p)
            else put data p)
         else if n = 1 then put row p
         else if n = 2 then put (vif_col v ! bp) p
         else p)"

definition lane_values :: "nat \<Rightarrow> bool \<Rightarrow> u8 list \<Rightarrow> nat \<Rightarrow> u32 list" where
  "lane_values cmd usn bs src =
     (let vn = cmd_vn cmd; vl = cmd_vl cmd; cw = component_width vl;
          comp = (\<lambda>k. vif_extend (vif_rd_bytes_le bs (src + k * cw) cw) cw usn)
      in if vn = 3 \<and> vl = 3 then
           (let raw = vif_rd_bytes_le bs src 2
            in [push_bit 3 (raw AND 0x1F), drop_bit 2 (raw AND 0x3E0), drop_bit 7 (raw AND 0x7C00), drop_bit 8 (raw AND 0x8000)])
         else if vn = 0 then replicate 4 (comp 0)
         else if vn = 1 then [comp 0, comp 1, comp 0, comp 1]
         else map comp [0 ..< 4])"

definition write_vector :: "u32 \<Rightarrow> u32 \<Rightarrow> bool \<Rightarrow> nat \<Rightarrow> u32 list \<Rightarrow> 'w vif_port \<Rightarrow> 'w vif_port" where
  "write_vector addr mode mask_enable blk vals p =
     vif_set (\<lambda>v. v\<lparr>unpack_vectors_written := unpack_vectors_written v + 1\<rparr>)
       (fold (\<lambda>lane. vif_unpack_write_lane addr mode mask_enable blk lane (vals ! lane)) [0 ..< 4] p)"

definition addr_step :: "vif_state \<Rightarrow> nat \<Rightarrow> u32 \<Rightarrow> u32" where
  "addr_step v blk addr =
     (if \<not> is_fill v \<and> blk + 1 \<ge> wl_eff v then addr + 16 + (of_nat (cl_eff v) - of_nat (wl_eff v)) * 16
      else addr + 16)"

fun unpack_loop :: "nat \<Rightarrow> nat \<Rightarrow> bool \<Rightarrow> u32 \<Rightarrow> bool \<Rightarrow> u8 list \<Rightarrow> u32 \<Rightarrow> unpack_cursor \<Rightarrow> 'w vif_port
    \<Rightarrow> 'w vif_port \<times> unpack_cursor" where
  "unpack_loop 0 cmd usn mode mask_enable bs addr c p = (p, c)"
| "unpack_loop (Suc n) cmd usn mode mask_enable bs addr c p =
     (let v = vif p
      in unpack_loop n cmd usn mode mask_enable bs (addr_step v (block_pos c) addr) (cursor_step v cmd c)
           (write_vector addr mode mask_enable (block_pos c) (lane_values cmd usn bs (src_cursor c)) p))"

definition unpack_base :: "vif_state \<Rightarrow> u32 \<Rightarrow> u32" where
  "unpack_base v code =
     (let bits = code AND 0xFFFF AND (if is_vif1 v then 0x3FF else 0xFF)
      in push_bit 4 (if is_vif1 v \<and> bit code 15 then (bits + vif_tops v) AND 0x3FF else bits))"

definition code_num :: "u32 \<Rightarrow> nat" where
  "code_num code = (let n = unat (drop_bit 16 code AND 0xFF) in if n = 0 then 256 else n)"

text \<open>The result is the port, and the words consumed or, for a reserved format, nothing.\<close>

definition vif_unpack :: "u32 \<Rightarrow> nat \<Rightarrow> u8 list \<Rightarrow> 'w vif_port \<Rightarrow> 'w vif_port \<times> nat option" where
  "vif_unpack code cmd bs p =
     (if unpack_gsize cmd = 0
      then (vif_set (\<lambda>v. v\<lparr>unsupported_cmds_seen := unsupported_cmds_seen v + 1\<rparr>) p, None)
      else
        (let mode = (if cmd_vn cmd = 3 \<and> cmd_vl cmd = 3 then 0 else vif_mode (vif p));
             (p1, c) = unpack_loop (code_num code) cmd (bit code 14) mode (bit cmd 4) bs (unpack_base (vif p) code)
                         \<lparr>src_cursor = 0, max_read_end = 0, block_pos = 0\<rparr> p
         in (p1, Some (min ((max_read_end c + 3) div 4) (words_left bs)))))"

section \<open>MPG, MSCAL and DIRECT\<close>

fun micro_upload :: "u32 \<Rightarrow> nat \<Rightarrow> u32 \<Rightarrow> u8 list \<Rightarrow> vu_state \<Rightarrow> vu_state" where
  "micro_upload msk 0 addr bs st = st"
| "micro_upload msk (Suc n) addr bs st = micro_upload msk n (addr + 4) (drop 4 bs) (vu_micro_write32 msk addr (vif_rd_le32 bs) st)"

definition upload :: "u32 \<Rightarrow> nat \<Rightarrow> u8 list \<Rightarrow> 'w vif_port \<Rightarrow> 'w vif_port" where
  "upload addr n bs p = p\<lparr>vu := micro_upload (vu_msk p) n addr bs (vu p)\<rparr>"

definition vif_mpg :: "u32 \<Rightarrow> u8 list \<Rightarrow> 'w vif_port \<Rightarrow> 'w vif_port \<times> u8 list" where
  "vif_mpg code bs p =
     (let requested = code_num code * 2; words = min requested (words_left bs); dest = (code AND 0xFFFF) * 8;
          p1 = vif_set (\<lambda>v. v\<lparr>mpg_calls := mpg_calls v + 1, mpg_words_written := mpg_words_written v + of_nat words,
                          mpg_last_dest_byte := dest\<rparr>) (upload dest words bs p)
      in (if words < requested
          then vif_set (\<lambda>v. v\<lparr>mpg_pending := True, mpg_pending_addr := dest + of_nat words * 4,
                              mpg_pending_words := requested - words\<rparr>) p1
          else p1,
          drop (4 * words) bs))"

definition unsupported :: "'w vif_port \<Rightarrow> 'w vif_port" where
  "unsupported = vif_set (\<lambda>v. v\<lparr>unsupported_cmds_seen := unsupported_cmds_seen v + 1\<rparr>)"

definition vif_direct :: "'w vif_env \<Rightarrow> u32 \<Rightarrow> u8 list \<Rightarrow> 'w vif_port \<Rightarrow> 'w vif_port \<times> u8 list" where
  "vif_direct env code bs p =
     (if \<not> is_vif1 (vif p) then (unsupported p, bs)
      else
        (let imm = unat (code AND 0xFFFF); words = min ((if imm = 0 then 65536 else imm) * 4) (words_left bs); q = words div 4
         in (if words > 0
             then vif_set (\<lambda>v. v\<lparr>direct_qwords_forwarded := direct_qwords_forwarded v + of_nat q\<rparr>)
                    (p\<lparr>gifw := gif_quads env GIF_PATH_2 (take (16 * q) bs) (gifw p)\<rparr>)
             else p,
             drop (4 * words) bs)))"

definition vif_mscal :: "'w vif_env \<Rightarrow> u32 \<Rightarrow> 'w vif_port \<Rightarrow> 'w vif_port" where
  "vif_mscal env imm p =
     (let (vu', gw') = vu_exec_micro (gif_quads env) (floats env) (vu_msk p) imm (vu p) (gifw p)
      in vif_set (\<lambda>v. v\<lparr>mscal_calls := mscal_calls v + 1, mscal_last_start_byte := imm * 8\<rparr>) (p\<lparr>vu := vu', gifw := gw'\<rparr>))"

definition vif_mscnt :: "'w vif_env \<Rightarrow> 'w vif_port \<Rightarrow> 'w vif_port" where
  "vif_mscnt env p =
     (let (vu', gw') = vu_exec_micro_continue (gif_quads env) (floats env) (vu_msk p) (vu p) (gifw p)
      in vif_set (\<lambda>v. v\<lparr>mscnt_calls := mscnt_calls v + 1,
                    mscnt_last_resume_byte := (if is_vif1 v then tpc (vu p) else mscnt_last_resume_byte v)\<rparr>)
           (p\<lparr>vu := vu', gifw := gw'\<rparr>))"

section \<open>Commands\<close>

fun read_words :: "nat \<Rightarrow> u8 list \<Rightarrow> u32 list" where
  "read_words 0 bs = []"
| "read_words (Suc n) bs = (if words_left bs = 0 then [] else vif_rd_le32 bs # read_words n (drop 4 bs))"

definition overwrite :: "'a list \<Rightarrow> 'a list \<Rightarrow> 'a list" where
  "overwrite new old = new @ drop (length new) old"

text \<open>The codes without a payload: what they do to the registers.\<close>

definition vif_register_cmd :: "nat \<Rightarrow> u32 \<Rightarrow> 'w vif_port \<Rightarrow> 'w vif_port" where
  "vif_register_cmd cmd code p =
     (let imm = code AND 0xFFFF; one = is_vif1 (vif p)
      in if cmd = 0x00 then p
      else if cmd = 0x01 then vif_set (\<lambda>v. v\<lparr>cycle_cl := ucast imm, cycle_wl := ucast (drop_bit 8 imm)\<rparr>) p
      else if cmd = 0x02 then
        (if one then vif_set (\<lambda>v. v\<lparr>vif_ofst := imm AND 0x3FF, vif_tops := vif_base v\<rparr>) p else unsupported p)
      else if cmd = 0x03 then (if one then vif_set (\<lambda>v. v\<lparr>vif_base := imm AND 0x3FF\<rparr>) p else unsupported p)
      else if cmd = 0x04 then vif_set (\<lambda>v. v\<lparr>vif_itops := imm AND (if one then 0x3FF else 0xFF)\<rparr>) p
      else if cmd = 0x05 then vif_set (\<lambda>v. v\<lparr>vif_mode := code AND 3\<rparr>) p
      else if cmd = 0x06 then (if one then p else unsupported p)
      else if cmd = 0x07 then vif_set (\<lambda>v. v\<lparr>vif_mark := imm\<rparr>) p
      else if cmd = 0x10 then p
      else if cmd = 0x11 \<or> cmd = 0x13 then (if one then p else unsupported p)
      else unsupported p)"

definition vif_exec :: "'w vif_env \<Rightarrow> nat \<Rightarrow> u32 \<Rightarrow> u8 list \<Rightarrow> 'w vif_port \<Rightarrow> 'w vif_port \<times> u8 list" where
  "vif_exec env cmd code bs p =
     (if cmd = 0x14 \<or> cmd = 0x15 then (vif_mscal env (code AND 0xFFFF) p, bs)
      else if cmd = 0x17 then (vif_mscnt env p, bs)
      else if cmd = 0x20 then
        (if words_left bs > 0 then (vif_set (\<lambda>v. v\<lparr>vif_mask := vif_rd_le32 bs\<rparr>) p, drop 4 bs) else (p, bs))
      else if cmd = 0x30 then
        (let ws = read_words 4 bs in (vif_set (\<lambda>v. v\<lparr>vif_row := overwrite ws (vif_row v)\<rparr>) p, drop (4 * length ws) bs))
      else if cmd = 0x31 then
        (let ws = read_words 4 bs in (vif_set (\<lambda>v. v\<lparr>vif_col := overwrite ws (vif_col v)\<rparr>) p, drop (4 * length ws) bs))
      else if cmd = 0x4A then vif_mpg code bs p
      else if cmd = 0x50 \<or> cmd = 0x51 then vif_direct env code bs p
      else (vif_register_cmd cmd code p, bs))"

definition code_cmd :: "u32 \<Rightarrow> nat" where
  "code_cmd code = unat (drop_bit 24 code AND 0x7F)"

definition memcpy :: "'a list \<Rightarrow> nat \<Rightarrow> 'a list \<Rightarrow> 'a list" where
  "memcpy src off dst = take off dst @ src @ drop (off + length src) dst"

text \<open>UNPACK: unpack at once when the whole payload is there, keep it for later otherwise.\<close>

definition vif_exec_unpack :: "nat \<Rightarrow> u32 \<Rightarrow> u8 list \<Rightarrow> 'w vif_port \<Rightarrow> 'w vif_port \<times> u8 list option" where
  "vif_exec_unpack cmd code bs p =
     (let needed = vif_unpack_needed_bytes (vif p) cmd (code_num code); avail = words_left bs * 4
      in if needed \<noteq> 0 \<and> needed > avail then
           (let n = min avail 4096
            in (vif_set (\<lambda>v. v\<lparr>unpack_buffer := memcpy (take n bs) 0 (unpack_buffer v), unpack_pending := True,
                    unpack_code := code, unpack_cmd := cmd, unpack_needed_bytes := needed, unpack_have_bytes := n\<rparr>) p,
                Some (drop (n div 4 * 4) bs)))
         else
           (case vif_unpack code cmd bs p of
              (p1, None) \<Rightarrow> (p1, None)
            | (p1, Some words) \<Rightarrow> (p1, Some (drop (4 * words) bs))))"

definition vif_step :: "'w vif_env \<Rightarrow> u8 list \<Rightarrow> 'w vif_port \<Rightarrow> 'w vif_port \<times> u8 list option" where
  "vif_step env bs p =
     (let code = vif_rd_le32 bs; rest = drop 4 bs; cmd = code_cmd code;
          p1 = vif_set (\<lambda>v. v\<lparr>vif_code := code, codes_processed := codes_processed v + 1\<rparr>) p
      in if cmd \<ge> 0x60 then vif_exec_unpack cmd code rest p1
         else (case vif_exec env cmd code rest p1 of (p2, rest2) \<Rightarrow> (p2, Some rest2)))"

section \<open>The loop\<close>

lemma vif_exec_length: "vif_exec env cmd code bs p = (p', bs') \<Longrightarrow> length bs' \<le> length bs"
  by (auto simp: vif_exec_def vif_mpg_def vif_direct_def Let_def split: if_splits)

lemma vif_unpack_length: "vif_exec_unpack cmd code bs p = (p', Some bs') \<Longrightarrow> length bs' \<le> length bs"
  by (auto simp: vif_exec_unpack_def Let_def split: if_splits prod.splits option.splits)

lemma vif_step_length:
  assumes "vif_step env bs p = (p', Some bs')" "words_left bs \<noteq> 0"
  shows "length bs' < length bs"
proof -
  have "length bs' \<le> length (drop 4 bs)"
    using assms(1) by (auto simp: vif_step_def Let_def split: if_splits prod.splits dest: vif_exec_length vif_unpack_length)
  then show ?thesis using assms(2) by (auto simp: words_left_def)
qed

function vif_loop :: "'w vif_env \<Rightarrow> u8 list \<Rightarrow> 'w vif_port \<Rightarrow> 'w vif_port" where
  "vif_loop env bs p =
     (if words_left bs = 0 then p
      else (case vif_step env bs p of (p1, None) \<Rightarrow> p1 | (p1, Some rest) \<Rightarrow> vif_loop env rest p1))"
  by pat_completeness auto
termination
  by (relation "measure (\<lambda>(_, bs, _). length bs)") (auto dest: vif_step_length [OF sym])

declare vif_loop.simps [simp del]

section \<open>Resuming a payload\<close>

definition resume_mpg :: "u8 list \<Rightarrow> 'w vif_port \<Rightarrow> 'w vif_port \<times> u8 list" where
  "resume_mpg bs p =
     (if mpg_pending (vif p) then
        (let v = vif p; words = min (mpg_pending_words v) (words_left bs)
         in (vif_set (\<lambda>v. v\<lparr>mpg_pending_addr := mpg_pending_addr v + of_nat words * 4,
                     mpg_pending_words := mpg_pending_words v - words,
                     mpg_words_written := mpg_words_written v + of_nat words,
                     mpg_pending := (mpg_pending_words v - words \<noteq> 0)\<rparr>)
               (upload (mpg_pending_addr v) words bs p),
             drop (4 * words) bs))
      else (p, bs))"

definition finish_unpack :: "'w vif_port \<Rightarrow> 'w vif_port" where
  "finish_unpack p =
     (let v = vif p
      in vif_set (\<lambda>v. v\<lparr>unpack_pending := False, unpack_have_bytes := 0, unpack_needed_bytes := 0\<rparr>)
           (fst (vif_unpack (unpack_code v) (unpack_cmd v) (take (unpack_needed_bytes v div 4 * 4) (unpack_buffer v)) p)))"

definition buffer_payload :: "nat \<Rightarrow> u8 list \<Rightarrow> 'w vif_port \<Rightarrow> 'w vif_port" where
  "buffer_payload n bs = vif_set (\<lambda>v. v\<lparr>unpack_buffer := memcpy (take n bs) (unpack_have_bytes v) (unpack_buffer v),
     unpack_have_bytes := unpack_have_bytes v + n\<rparr>)"

definition complete_unpack :: "'w vif_port \<Rightarrow> 'w vif_port" where
  "complete_unpack p = (if unpack_have_bytes (vif p) \<ge> unpack_needed_bytes (vif p) then finish_unpack p else p)"

definition resume_unpack :: "u8 list \<Rightarrow> 'w vif_port \<Rightarrow> 'w vif_port \<times> u8 list" where
  "resume_unpack bs p =
     (if unpack_pending (vif p) then
        (let n = min (unpack_needed_bytes (vif p) - unpack_have_bytes (vif p)) (words_left bs * 4)
         in (complete_unpack (buffer_payload n bs p), drop (n div 4 * 4) bs))
      else (p, bs))"

definition vif_process :: "'w vif_env \<Rightarrow> u8 list \<Rightarrow> 'w vif_port \<Rightarrow> 'w vif_port" where
  "vif_process env bs p =
     (let (p1, bs1) = resume_mpg bs p; (p2, bs2) = resume_unpack bs1 p1 in vif_loop env bs2 p2)"

section \<open>The two interfaces\<close>

record 'w vif_pair =
  g_vif0 :: vif_state
  g_vif1 :: vif_state
  g_vu0 :: vu_state
  g_vu1 :: vu_state
  g_gif :: 'w

definition vif_init :: "vu_state \<Rightarrow> vu_state \<Rightarrow> 'w \<Rightarrow> 'w vif_pair" where
  "vif_init u0 u1 w = \<lparr>g_vif0 = vif_zero False, g_vif1 = vif_zero True, g_vu0 = u0, g_vu1 = u1, g_gif = w\<rparr>"

definition vif0_process_quadwords :: "'w vif_env \<Rightarrow> u8 list \<Rightarrow> 'w vif_pair \<Rightarrow> 'w vif_pair" where
  "vif0_process_quadwords env bs s =
     (let p = vif_process env bs \<lparr>vif = g_vif0 s, vu = g_vu0 s, gifw = g_gif s\<rparr>
      in s\<lparr>g_vif0 := vif p, g_vu0 := vu p, g_gif := gifw p\<rparr>)"

definition vif1_process_quadwords :: "'w vif_env \<Rightarrow> u8 list \<Rightarrow> 'w vif_pair \<Rightarrow> 'w vif_pair" where
  "vif1_process_quadwords env bs s =
     (let p = vif_process env bs \<lparr>vif = g_vif1 s, vu = g_vu1 s, gifw = g_gif s\<rparr>
      in s\<lparr>g_vif1 := vif p, g_vu1 := vu p, g_gif := gifw p\<rparr>)"

end
