(* ===== verification/Vu_Props.thy ===== *)
theory Vu_Props
  imports Vu
begin

text \<open>
  Properties of the vector-unit interpreter: what every microprogram keeps whatever it does (the
  hardwired registers, the width of the integer registers, the alignment of the program counter,
  the bounds of the data memory, its own code) and the E-bit delay slot that ends a run.
\<close>

unbundle bit_operations_syntax

section \<open>Well-formed states and bounded changes\<close>

definition vu_ok :: "vu_state \<Rightarrow> bool" where
  "vu_ok st \<longleftrightarrow> (\<forall>l < 4. vf st 0 l = (if l = 3 then 0x3F800000 else 0)) \<and> vi st 0 = 0
     \<and> (\<forall>k < 16. unat (vi st k) < 65536) \<and> 8 dvd unat (tpc st) \<and> 8 dvd unat (branch_target st)"

text \<open>A change within the data memory that leaves the microprogram alone.\<close>

definition vu_within :: "u32 \<Rightarrow> vu_state \<Rightarrow> vu_state \<Rightarrow> bool" where
  "vu_within msk st st' \<longleftrightarrow> vu_micro st' = vu_micro st \<and> (\<forall>a > msk. vu_mem st' a = vu_mem st a)"

definition vu_good :: "u32 \<Rightarrow> vu_state \<Rightarrow> vu_state \<Rightarrow> bool" where
  "vu_good msk st st' \<longleftrightarrow> vu_ok st' \<and> vu_within msk st st'"

definition vu_mask :: "u32 \<Rightarrow> bool" where
  "vu_mask msk \<longleftrightarrow> msk = 0x3FFF \<or> msk = 0xFFF"

lemma vu_good_refl: "vu_ok st \<Longrightarrow> vu_good msk st st"
  by (simp add: vu_good_def vu_within_def)

lemma vu_good_trans: "vu_good msk a b \<Longrightarrow> vu_good msk b c \<Longrightarrow> vu_good msk a c"
  by (simp add: vu_good_def vu_within_def)

lemma vu_goodD: "vu_good msk st st' \<Longrightarrow> vu_ok st'"
  by (simp add: vu_good_def)

section \<open>Alignment and masks\<close>

lemma dvd_mask: "2 ^ n dvd unat x \<Longrightarrow> 2 ^ n dvd unat (x AND m :: u32)"
proof -
  have "2 ^ n dvd unat y \<longleftrightarrow> take_bit n y = 0" for y :: u32
    using unat_take_bit [of n y] by (simp add: dvd_eq_mod_eq_0 unat_eq_0 flip: unat_take_bit)
  then show "2 ^ n dvd unat x \<Longrightarrow> 2 ^ n dvd unat (x AND m)"
    by (simp add: take_bit_and)
qed

lemma dvd8_mask: "8 dvd unat x \<Longrightarrow> 8 dvd unat (x AND m :: u32)"
  using dvd_mask [of 3 x m] by simp

lemma dvd4_mask: "4 dvd unat x \<Longrightarrow> 4 dvd unat (x AND m :: u32)"
  using dvd_mask [of 2 x m] by simp

lemma pow_dvd_word: "n < 32 \<Longrightarrow> (2 :: nat) ^ n dvd 4294967296"
  using le_imp_power_dvd [of n 32 "2 :: nat"] by simp

lemma dvd_word_add: "2 ^ n dvd unat x \<Longrightarrow> 2 ^ n dvd unat y \<Longrightarrow> n < 32 \<Longrightarrow> 2 ^ n dvd unat (x + y :: u32)"
  by (simp add: unat_word_ariths dvd_mod_iff pow_dvd_word)

lemma dvd_word_mult: "2 ^ n dvd unat y \<Longrightarrow> n < 32 \<Longrightarrow> 2 ^ n dvd unat (x * y :: u32)"
  by (simp add: unat_word_ariths dvd_mod_iff pow_dvd_word)

lemma dvd8_add: "8 dvd unat x \<Longrightarrow> 8 dvd unat y \<Longrightarrow> 8 dvd unat (x + y :: u32)"
  using dvd_word_add [of 3 x y] by simp

lemma dvd4_add: "4 dvd unat x \<Longrightarrow> 4 dvd unat y \<Longrightarrow> 4 dvd unat (x + y :: u32)"
  using dvd_word_add [of 2 x y] by simp

lemma dvd8_times: "8 dvd unat (x * 8 :: u32)"
  using dvd_word_mult [of 3 8 x] by simp

lemma dvd4_times: "4 dvd unat (x * 4 :: u32)" "4 dvd unat (x * 16 :: u32)"
  using dvd_word_mult [of 2 4 x] dvd_word_mult [of 2 16 x] by simp_all

lemmas vu_aligned = dvd8_mask dvd8_add dvd8_times dvd4_mask dvd4_add dvd4_times

lemma masked_word_fits:
  assumes "4 dvd unat (addr :: u32)" "vu_mask msk" "a > msk"
  shows "a \<notin> {addr AND msk, (addr AND msk) + 1, (addr AND msk) + 2, (addr AND msk) + 3}"
proof -
  let ?p = "addr AND msk"
  have "unat ?p \<le> unat msk"
    by (simp add: word_le_nat_alt [symmetric] word_and_le1)
  moreover have "4 dvd unat ?p"
    using assms(1) by (rule dvd4_mask)
  ultimately have p: "unat ?p + 3 \<le> unat msk" "unat msk \<le> 0x3FFF"
    using assms(2) by (auto simp: vu_mask_def elim!: dvdE)
  then have "unat (?p + 1) \<le> unat msk" "unat (?p + 2) \<le> unat msk" "unat (?p + 3) \<le> unat msk" "unat ?p \<le> unat msk"
    by (simp_all add: unat_word_ariths)
  then show ?thesis
    using assms(3) by (auto simp: word_less_nat_alt)
qed

section \<open>Every operation is good\<close>

lemma unat_and_ffff: "unat (w AND 0xFFFF :: u32) < 65536"
proof -
  have "w AND 0xFFFF = take_bit 16 w"
    using and_mask_eq [of w 16] by (simp add: mask_eq_exp_minus_1)
  then show ?thesis by (simp add: unat_take_bit)
qed

lemma good_write_dest: "vu_ok st \<Longrightarrow> vu_good msk st (vu_write_dest fd dest r st)"
  by (simp add: vu_good_def vu_within_def vu_ok_def vu_write_dest_def)

lemma good_acc_write: "vu_ok st \<Longrightarrow> vu_good msk st (acc_write dest r st)"
  by (simp add: vu_good_def vu_within_def vu_ok_def acc_write_def)

lemma good_write_vi: "vu_ok st \<Longrightarrow> vu_good msk st (vu_write_vi k v st)"
  by (simp add: vu_good_def vu_within_def vu_ok_def vu_write_vi_def Let_def unat_and_ffff)

lemma good_special_vi: "vu_ok st \<Longrightarrow> 16 \<le> k \<Longrightarrow> vu_good msk st (st\<lparr>vi := (vi st)(k := v)\<rparr>)"
  by (simp add: vu_good_def vu_within_def vu_ok_def)

lemma good_clip: "vu_ok st \<Longrightarrow> vu_good msk st (vu_clip fs ft st)"
  unfolding vu_clip_def Let_def by (rule good_special_vi) simp_all

lemma good_opmula: "vu_ok st \<Longrightarrow> vu_good msk st (opmula F fs ft st)"
  by (simp add: vu_good_def vu_within_def vu_ok_def opmula_def)

lemma good_branch: "vu_ok st \<Longrightarrow> 8 dvd unat target \<Longrightarrow> vu_good msk st (vu_branch target st)"
  by (simp add: vu_good_def vu_within_def vu_ok_def vu_branch_def)

lemma good_load_quad: "vu_ok st \<Longrightarrow> vu_good msk st (vu_load_quad msk addr rt st)"
  by (simp add: vu_good_def vu_within_def vu_ok_def vu_load_quad_def)

lemma good_mem_write32:
  "vu_ok st \<Longrightarrow> vu_mask msk \<Longrightarrow> 4 dvd unat addr \<Longrightarrow> vu_good msk st (vu_mem_write32 msk addr v st)"
  using masked_word_fits [of addr msk]
  by (simp add: vu_good_def vu_within_def vu_ok_def vu_mem_write32_def vu_wr_le32_def)

lemma good_fold:
  assumes "\<And>x s. vu_ok s \<Longrightarrow> vu_good msk s (f x s)"
  shows "vu_ok st \<Longrightarrow> vu_good msk st (fold f xs st)"
  by (induction xs arbitrary: st) (auto intro: vu_good_refl vu_good_trans assms vu_goodD)

lemma good_store_quad: "vu_ok st \<Longrightarrow> vu_mask msk \<Longrightarrow> vu_good msk st (vu_store_quad msk (x * 16) r st)"
  unfolding vu_store_quad_def by (rule good_fold) (auto intro!: good_mem_write32 vu_aligned)

lemmas vu_goods = good_write_dest good_acc_write good_write_vi good_special_vi good_clip good_opmula
  good_branch good_load_quad good_mem_write32 good_store_quad vu_good_refl

lemma good_upper: "vu_exec_upper F w st = Some st' \<Longrightarrow> vu_ok st \<Longrightarrow> vu_good msk st st'"
  by (auto simp: vu_exec_upper_def vu_upper_special_def Let_def intro: vu_goods split: if_splits)

lemma good_lower_slot: "vu_lower_slot F msk w st = Some st' \<Longrightarrow> vu_ok st \<Longrightarrow> vu_mask msk \<Longrightarrow> vu_good msk st st'"
  by (auto simp: vu_lower_slot_def Let_def intro!: vu_goods vu_aligned split: if_splits
      intro: vu_good_trans [OF good_load_quad good_write_vi] vu_good_trans [OF good_store_quad good_write_vi]
        vu_good_trans [OF good_write_vi good_load_quad] vu_good_trans [OF good_write_vi good_store_quad] vu_goodD)

lemma good_lower_special:
  "vu_lower_special F msk w st = Some st' \<Longrightarrow> vu_ok st \<Longrightarrow> vu_mask msk \<Longrightarrow> vu_good msk st st'"
  by (auto simp: vu_lower_special_def Let_def intro: good_write_vi good_lower_slot split: if_splits)

lemma good_link:
  "vu_ok st \<Longrightarrow> 8 dvd unat target \<Longrightarrow> vu_good msk st (vu_branch target (vu_write_vi k v st))"
  by (blast intro: vu_good_trans good_write_vi good_branch vu_goodD)

lemma dvd8_target: "8 dvd unat pc \<Longrightarrow> 8 dvd unat (pc + 8 + x * 8 :: u32)"
  by (intro vu_aligned) simp_all

lemma good_lower:
  assumes "vu_lower_regs F msk w pc st = Some st'" "vu_ok st" "vu_mask msk" "8 dvd unat pc"
  shows "vu_good msk st st'"
  using assms
  by (auto simp: vu_lower_regs_def Let_def simp del: distrib_right_numeral intro!: vu_goods good_link dvd8_target vu_aligned
      split: if_splits dest: good_lower_special)

lemma good_pair:
  assumes "vu_pair gif F msk lower upper pc st gw = (st', gw', ok)" "vu_ok st" "vu_mask msk" "8 dvd unat pc"
  shows "vu_good msk st st'"
proof (cases "bit upper 31")
  case True
  let ?s = "st\<lparr>vi := (vi st)(21 := lower)\<rparr>"
  have "vu_good msk st ?s" using assms(2) by (rule good_special_vi) simp
  then show ?thesis
    using assms True by (auto simp: vu_pair_def Let_def split: option.splits dest: good_upper vu_goodD intro: vu_good_trans)
next
  case False
  let ?s = "case vu_exec_upper F upper st of None \<Rightarrow> st | Some s \<Rightarrow> s"
  have up: "vu_good msk st ?s"
    using assms(2) by (auto split: option.splits intro: vu_good_refl good_upper)
  have "st' = (case vu_lower_regs F msk lower pc ?s of None \<Rightarrow> ?s | Some s \<Rightarrow> s)"
    using assms(1) False by (simp add: vu_pair_def vu_exec_lower_def Let_def)
  moreover have "vu_good msk ?s (case vu_lower_regs F msk lower pc ?s of None \<Rightarrow> ?s | Some s \<Rightarrow> s)"
    using vu_goodD [OF up] assms(3,4) by (auto split: option.split intro: vu_good_refl good_lower)
  ultimately show ?thesis
    using vu_good_trans [OF up] by simp
qed

section \<open>Steps and runs\<close>

lemma good_count: "vu_ok st \<Longrightarrow> vu_good msk st (vu_count ok st)"
  by (simp add: vu_good_def vu_within_def vu_ok_def vu_count_def)

lemma good_branch_tick: "vu_ok st \<Longrightarrow> vu_good msk st (branch_tick m st)"
  by (simp add: vu_good_def vu_within_def vu_ok_def branch_tick_def dvd8_mask)

lemma good_ebit_tick: "vu_ok st \<Longrightarrow> vu_good msk st (fst (ebit_tick st))"
  by (simp add: vu_good_def vu_within_def vu_ok_def ebit_tick_def)

lemma good_fetch:
  "vu_ok st \<Longrightarrow> vu_good msk st (st\<lparr>tpc := ((tpc st AND m) + 8) AND m, ebit_delay := e\<rparr>)"
  by (simp add: vu_good_def vu_within_def vu_ok_def vu_aligned)

lemma good_step:
  assumes "vu_ok st" "vu_mask msk"
  shows "vu_good msk st (fst (vu_micro_step gif F msk micro_mask st gw))"
proof -
  let ?off = "tpc st AND micro_mask"
  let ?e = "if bit (vu_rd_le32 (vu_micro st) (?off + 4)) 30 then 2 else ebit_delay st"
  let ?s1 = "st\<lparr>tpc := (?off + 8) AND micro_mask, ebit_delay := ?e\<rparr>"
  obtain s2 gw2 ok where p:
    "vu_pair gif F msk (vu_rd_le32 (vu_micro st) ?off) (vu_rd_le32 (vu_micro st) (?off + 4)) ?off ?s1 gw = (s2, gw2, ok)"
    by (metis prod_cases3)
  have g1: "vu_good msk st ?s1" using assms(1) by (rule good_fetch)
  have "8 dvd unat ?off" using assms(1) by (simp add: vu_ok_def dvd8_mask)
  then have "vu_good msk ?s1 s2"
    using p vu_goodD [OF g1] assms(2) by (blast intro: good_pair)
  with g1 have g2: "vu_good msk st s2" by (rule vu_good_trans)
  have g3: "vu_good msk s2 (vu_count ok s2)" by (rule good_count [OF vu_goodD [OF g2]])
  have g4: "vu_good msk (vu_count ok s2) (branch_tick micro_mask (vu_count ok s2))"
    by (rule good_branch_tick [OF vu_goodD [OF g3]])
  have "vu_good msk (branch_tick micro_mask (vu_count ok s2)) (fst (ebit_tick (branch_tick micro_mask (vu_count ok s2))))"
    by (rule good_ebit_tick [OF vu_goodD [OF g4]])
  then have "vu_good msk st (fst (ebit_tick (branch_tick micro_mask (vu_count ok s2))))"
    using g2 g3 g4 by (blast intro: vu_good_trans)
  then show ?thesis
    using p by (simp add: vu_micro_step_def Let_def split_beta)
qed

lemma good_run:
  "vu_ok st \<Longrightarrow> vu_mask msk \<Longrightarrow> vu_good msk st (fst (vu_run n gif F msk m st gw))"
proof (induction n arbitrary: st gw)
  case 0
  then show ?case by (simp add: vu_good_refl)
next
  case (Suc n)
  obtain s1 gw1 stop where s: "vu_micro_step gif F msk m st gw = (s1, gw1, stop)"
    by (metis prod_cases3)
  have g: "vu_good msk st s1"
    using good_step [OF Suc.prems, of gif F m gw] s by simp
  show ?case
    using s g Suc.IH [OF vu_goodD [OF g] Suc.prems(2)] by (auto intro: vu_good_trans)
qed

lemma good_start: "vu_ok st \<Longrightarrow> vu_good msk st (st\<lparr>tpc := push_bit 3 start AND m, vu_running := r\<rparr>)"
proof -
  have "8 dvd unat (push_bit 3 start :: u32)"
    using dvd8_times [of start] by (simp add: push_bit_eq_mult)
  then show "vu_ok st \<Longrightarrow> ?thesis"
    by (simp add: vu_good_def vu_within_def vu_ok_def dvd8_mask)
qed

lemma good_running: "vu_ok st \<Longrightarrow> vu_good msk st (st\<lparr>vu_running := r\<rparr>)"
  by (simp add: vu_good_def vu_within_def vu_ok_def)

lemma good_exec:
  assumes "vu_ok st" "vu_mask msk"
  shows "vu_good msk st (fst (vu_exec_micro gif F msk start st gw))"
    and "vu_good msk st (fst (vu_exec_micro_continue gif F msk st gw))"
proof -
  have *: "vu_good msk s (fst (let (st1, gw1) = vu_run n gif F msk msk s gw in (st1\<lparr>vu_running := False\<rparr>, gw1)))"
    if "vu_ok s" for s n
    using good_run [OF that assms(2), of n gif F msk gw]
    by (auto simp: split_beta Let_def intro: vu_good_trans good_running vu_goodD)
  show "vu_good msk st (fst (vu_exec_micro gif F msk start st gw))"
    unfolding vu_exec_micro_def
    by (rule vu_good_trans [OF good_start * [OF vu_goodD [OF good_start]]]) (rule assms(1))+
  show "vu_good msk st (fst (vu_exec_micro_continue gif F msk st gw))"
    unfolding vu_exec_micro_continue_def
    by (rule vu_good_trans [OF good_running * [OF vu_goodD [OF good_running]]]) (rule assms(1))+
qed

section \<open>The end bit\<close>

definition upper_at :: "u32 \<Rightarrow> vu_state \<Rightarrow> u32" where
  "upper_at msk st = vu_rd_le32 (vu_micro st) ((tpc st AND msk) + 4)"

text \<open>An instruction pair does not touch what the step itself keeps.\<close>

definition same_control :: "vu_state \<Rightarrow> vu_state \<Rightarrow> bool" where
  "same_control st st' \<longleftrightarrow> ebit_delay st' = ebit_delay st \<and> vu_instructions st' = vu_instructions st \<and> tpc st' = tpc st"

lemma control_ops [simp]:
  "same_control st st" "same_control st (vu_write_dest fd d r st)" "same_control st (acc_write d r st)"
  "same_control st (vu_write_vi k v st)" "same_control st (vu_clip fs ft st)" "same_control st (opmula F fs ft st)"
  "same_control st (vu_branch t st)" "same_control st (vu_load_quad m a rt st)"
  "same_control st (vu_mem_write32 m a v st)" "same_control st (st\<lparr>vi := f\<rparr>)"
  by (simp_all add: same_control_def vu_write_dest_def acc_write_def vu_write_vi_def Let_def vu_clip_def opmula_def
      vu_branch_def vu_load_quad_def vu_mem_write32_def)

lemma control_trans: "same_control a b \<Longrightarrow> same_control b c \<Longrightarrow> same_control a c"
  by (simp add: same_control_def)

lemma control_store_quad [simp]: "same_control st (vu_store_quad m a r st)"
proof -
  have "same_control s (fold (\<lambda>l. vu_mem_write32 m (a + of_nat l * 4) (vf st r l)) xs s)" for xs s
    by (induction xs arbitrary: s) (auto intro: control_trans control_ops)
  then show ?thesis by (simp add: vu_store_quad_def)
qed

lemma control_upper: "vu_exec_upper F w st = Some st' \<Longrightarrow> same_control st st'"
  by (auto simp: vu_exec_upper_def vu_upper_special_def Let_def split: if_splits)

lemma control_slot: "vu_lower_slot F msk w st = Some st' \<Longrightarrow> same_control st st'"
  by (auto simp: vu_lower_slot_def Let_def split: if_splits
      intro: control_trans [OF control_ops(8) control_ops(4)] control_trans [OF control_store_quad control_ops(4)]
        control_trans [OF control_ops(4) control_ops(8)] control_trans [OF control_ops(4) control_store_quad])

lemma control_lower: "vu_lower_regs F msk w pc st = Some st' \<Longrightarrow> same_control st st'"
  by (auto simp: vu_lower_regs_def vu_lower_special_def Let_def split: if_splits
      intro: control_trans [OF control_ops(4) control_ops(7)] dest: control_slot)

lemma control_pair: "vu_pair gif F msk lower upper pc st gw = (st', gw', ok) \<Longrightarrow> same_control st st'"
  by (auto simp: vu_pair_def vu_exec_lower_def Let_def split: if_splits option.splits
      dest!: control_upper control_lower intro: control_trans [OF control_ops(10)] control_trans)

lemma step_control:
  assumes "vu_micro_step gif F msk m st gw = (st', gw', stop)"
  shows "vu_instructions st' = vu_instructions st + 1"
    and "ebit_delay st' = (if bit (upper_at m st) 30 then 1 else ebit_delay st - (if ebit_delay st > 0 then 1 else 0))"
    and "stop \<longleftrightarrow> \<not> bit (upper_at m st) 30 \<and> ebit_delay st = 1"
proof -
  let ?off = "tpc st AND m"
  let ?e = "if bit (upper_at m st) 30 then 2 else ebit_delay st"
  obtain s2 gw2 ok where p:
    "vu_pair gif F msk (vu_rd_le32 (vu_micro st) ?off) (upper_at m st) ?off
       (st\<lparr>tpc := (?off + 8) AND m, ebit_delay := ?e\<rparr>) gw = (s2, gw2, ok)"
    by (metis prod_cases3)
  have c: "ebit_delay s2 = ?e" "vu_instructions s2 = vu_instructions st"
    using control_pair [OF p] by (simp_all add: same_control_def)
  have "(st', stop) = ebit_tick (branch_tick m (vu_count ok s2))"
    using assms p by (simp add: vu_micro_step_def Let_def upper_at_def split_beta prod_eq_iff)
  then show "vu_instructions st' = vu_instructions st + 1"
    and "ebit_delay st' = (if bit (upper_at m st) 30 then 1 else ebit_delay st - (if ebit_delay st > 0 then 1 else 0))"
    and "stop \<longleftrightarrow> \<not> bit (upper_at m st) 30 \<and> ebit_delay st = 1"
    using c by (auto simp: ebit_tick_def branch_tick_def vu_count_def split: if_splits)
qed

lemma run_two_steps:
  assumes "vu_micro_step gif F msk m st gw = (s1, g1, False)" "vu_micro_step gif F msk m s1 g1 = (s2, g2, True)"
    and "2 \<le> n"
  shows "vu_run n gif F msk m st gw = (s2, g2)"
proof -
  obtain k where "n = Suc (Suc k)" using assms(3) by (metis add_2_eq_Suc le_Suc_ex)
  then show ?thesis using assms(1,2) by simp
qed

text \<open>A concrete arithmetic for the witnesses: the operations on the bit patterns as integers.\<close>

definition pattern_float :: vu_float where
  "pattern_float = \<lparr>fl_add = (+), fl_sub = (-), fl_mul = (*), fl_madd = \<lambda>a x y. a + x * y, fl_msub = \<lambda>a x y. a - x * y,
     fl_div = \<lambda>x _. x, fl_sqrt = id, fl_max = max, fl_min = min, fl_abs = id, fl_itof = \<lambda>_. id, fl_ftoi = \<lambda>_. id\<rparr>"

definition ebit_program :: vu_state where
  "ebit_program = vu1_init\<lparr>vu_micro := vu_wr_le32 0 0x8000033C (vu_wr_le32 4 0x400002FF
     (vu_wr_le32 8 0x1001007B (vu_wr_le32 12 0x2FF (\<lambda>_. 0))))\<rparr>"

section \<open>Properties\<close>

text \<open>C5: Whatever a microprogram does and whatever the float operations compute, a run of a vector
  unit keeps the hardwired registers VF00 and VI00, the sixteen-bit range of the integer registers
  and the alignment of the program counter and branch target; it writes no byte above the data
  memory and does not change the microprogram.
\<close>

theorem vu_run_invariant:
  assumes "vu_ok st" "vu_mask msk"
  shows "vu_good msk st (fst (vu_exec_micro gif F msk start st gw))
       \<and> vu_good msk st (fst (vu_exec_micro_continue gif F msk st gw))"
  by (intro conjI good_exec assms)

theorem vu_run_invariant_witness:
  "vu_ok (fst (vu_exec_micro (\<lambda>_ _ w. w) pattern_float 0x3FFF 4 vu1_init ()))"
proof -
  have "vu_ok vu1_init" "vu_mask 0x3FFF"
    by (simp_all add: vu_ok_def vu1_init_def vu_mask_def)
  then show ?thesis
    using vu_run_invariant [of vu1_init "0x3FFF" "\<lambda>_ _ w. w" pattern_float 4 "()"] by (simp add: vu_good_def)
qed

text \<open>C40: The E bit has one delay slot: a run whose first pair carries the E bit executes that pair and
  exactly the next one (if that one has no E bit itself), wherever the first pair sends the program
  counter, and stops with two more instructions counted; MSCAL starts at the byte address
  \<open>start * 8\<close> of the micro memory.
\<close>

theorem ebit_delay_slot:
  assumes "bit (upper_at msk (st\<lparr>tpc := push_bit 3 start AND msk\<rparr>)) 30"
    and "vu_micro_step gif F msk msk (st\<lparr>tpc := push_bit 3 start AND msk, vu_running := True\<rparr>) gw = (s1, g1, b1)"
    and "\<not> bit (upper_at msk s1) 30"
    and "vu_micro_step gif F msk msk s1 g1 = (s2, g2, b2)"
  shows "vu_exec_micro gif F msk start st gw = (s2\<lparr>vu_running := False\<rparr>, g2)
       \<and> vu_instructions s2 = vu_instructions st + 2 \<and> ebit_delay s2 = 0"
proof -
  let ?s = "st\<lparr>tpc := push_bit 3 start AND msk, vu_running := True\<rparr>"
  have e: "bit (upper_at msk ?s) 30" using assms(1) by (simp add: upper_at_def)
  have 1: "\<not> b1" "ebit_delay s1 = 1" "vu_instructions s1 = vu_instructions st + 1"
    using step_control [OF assms(2)] e by simp_all
  have 2: "b2" "ebit_delay s2 = 0" "vu_instructions s2 = vu_instructions s1 + 1"
    using step_control [OF assms(4)] assms(3) 1(2) by simp_all
  have "vu_run 65536 gif F msk msk ?s gw = (s2, g2)"
    using assms(2,4) 1(1) 2(1) by (intro run_two_steps [of _ _ _ _ _ _ s1 g1]) simp_all
  then show ?thesis
    using 1(3) 2 by (simp add: vu_exec_micro_def)
qed

theorem ebit_delay_slot_witness:
  "vi (fst (vu_exec_micro (\<lambda>_ _ w. w) pattern_float 0x3FFF 0 ebit_program ())) 1 = 0x7B"
proof -
  let ?s = "ebit_program\<lparr>tpc := push_bit 3 0 AND 0x3FFF, vu_running := True\<rparr>"
  let ?step = "\<lambda>s. vu_micro_step (\<lambda>_ _ w. w) pattern_float 0x3FFF 0x3FFF s ()"
  have "bit (upper_at 0x3FFF (ebit_program\<lparr>tpc := push_bit 3 0 AND 0x3FFF\<rparr>)) 30" by code_simp
  moreover have "\<not> bit (upper_at 0x3FFF (fst (?step ?s))) 30" by code_simp
  ultimately have "vu_exec_micro (\<lambda>_ _ w. w) pattern_float 0x3FFF 0 ebit_program ()
      = ((fst (?step (fst (?step ?s))))\<lparr>vu_running := False\<rparr>, ())"
    using ebit_delay_slot [of "0x3FFF" 0 ebit_program "\<lambda>_ _ w. w" pattern_float "()" "fst (?step ?s)" "()"
        "snd (snd (?step ?s))" "fst (?step (fst (?step ?s)))" "()" "snd (snd (?step (fst (?step ?s))))"]
    by (simp add: prod_eq_iff)
  moreover have "vi (fst (?step (fst (?step ?s)))) 1 = 0x7B" by code_simp
  ultimately show ?thesis by simp
qed

end
