(* ===== verification/Vif_Props.thy ===== *)
theory Vif_Props
  imports Vif Vu_Props
begin

text \<open>
  Properties of the vector interfaces. The main one is that the end of a DMA transfer is invisible
  in the middle of an MPG or UNPACK payload: a stream that is cut there leaves the same state as
  the uncut stream. It rests on three facts that are shown first: the dry run computes the size
  that unpacking consumes, unpacking looks at no byte behind that size, and beginning a payload
  and resuming it are the same operation.
\<close>

unbundle bit_operations_syntax

section \<open>The dry run\<close>

definition cycles :: "vif_state \<Rightarrow> u8 \<times> u8" where
  "cycles v = (cycle_cl v, cycle_wl v)"

lemma cursor_step_cong: "cycles v = cycles w \<Longrightarrow> cursor_step v = cursor_step w"
  by (intro ext) (simp add: cursor_step_def cycles_def cl_eff_def wl_eff_def is_fill_def Let_def)

lemma addr_step_cong: "cycles v = cycles w \<Longrightarrow> addr_step v = addr_step w"
  by (intro ext) (simp add: addr_step_def cycles_def cl_eff_def wl_eff_def is_fill_def)

definition start_cursor :: unpack_cursor where
  "start_cursor = \<lparr>src_cursor = 0, max_read_end = 0, block_pos = 0\<rparr>"

text \<open>The registers that only a payload cut by the end of a transfer uses.\<close>

definition pend :: "vif_state \<Rightarrow> bool \<times> u32 \<times> nat \<times> bool \<times> u32 \<times> nat \<times> nat \<times> nat \<times> u8 list" where
  "pend v = (mpg_pending v, mpg_pending_addr v, mpg_pending_words v, unpack_pending v, unpack_code v, unpack_cmd v,
     unpack_needed_bytes v, unpack_have_bytes v, unpack_buffer v)"

definition rows_ok :: "vif_state \<Rightarrow> bool" where
  "rows_ok v \<longleftrightarrow> length (vif_row v) = 4 \<and> length (vif_col v) = 4"

definition kept :: "'w vif_port \<Rightarrow> 'w vif_port \<Rightarrow> bool" where
  "kept p q \<longleftrightarrow> pend (vif q) = pend (vif p) \<and> is_vif1 (vif q) = is_vif1 (vif p) \<and> (rows_ok (vif p) \<longrightarrow> rows_ok (vif q))"

lemma kept_refl [simp]: "kept p p"
  by (simp add: kept_def)

lemma kept_trans: "kept p q \<Longrightarrow> kept q r \<Longrightarrow> kept p r"
  by (simp add: kept_def)

lemma write_lane_kept: "kept p (vif_unpack_write_lane a m e b l d p)
    \<and> cycles (vif (vif_unpack_write_lane a m e b l d p)) = cycles (vif p)"
  by (simp add: kept_def vif_unpack_write_lane_def Let_def vif_set_def cycles_def pend_def rows_ok_def)

lemma fold_lane_kept:
  "kept p (fold (\<lambda>l. vif_unpack_write_lane a m e b l (vals ! l)) ls p)
    \<and> cycles (vif (fold (\<lambda>l. vif_unpack_write_lane a m e b l (vals ! l)) ls p)) = cycles (vif p)"
proof (induction ls arbitrary: p)
  case (Cons l ls)
  let ?q = "vif_unpack_write_lane a m e b l (vals ! l) p"
  show ?case
    using Cons.IH [of ?q] write_lane_kept [of p a m e b l "vals ! l"] by (auto intro: kept_trans)
qed simp

lemma write_vector_kept: "kept p (write_vector a m e b vals p)" "cycles (vif (write_vector a m e b vals p)) = cycles (vif p)"
  using fold_lane_kept [of p a m e b vals "[0 ..< 4]"]
  by (simp_all add: write_vector_def vif_set_def kept_def pend_def cycles_def rows_ok_def)

lemma unpack_loop_cursor:
  "snd (unpack_loop n cmd u m e bs addr c p) = (cursor_step (vif p) cmd ^^ n) c"
proof (induction n arbitrary: addr c p)
  case (Suc n)
  show ?case
    by (simp add: Let_def Suc.IH funpow_swap1 cursor_step_cong [OF write_vector_kept(2)])
qed simp

lemma unpack_loop_kept:
  "kept p (fst (unpack_loop n cmd u m e bs addr c p))"
proof (induction n arbitrary: addr c p)
  case (Suc n)
  show ?case
    by (simp add: Let_def) (rule kept_trans [OF write_vector_kept(1) Suc.IH])
qed simp

lemma max_read_mono: "max_read_end c \<le> max_read_end ((cursor_step v cmd ^^ n) c)"
proof (induction n)
  case (Suc n)
  have "max_read_end c' \<le> max_read_end (cursor_step v cmd c')" for c'
    by (simp add: cursor_step_def Let_def)
  with Suc show ?case by (auto intro: order_trans)
qed simp

lemma this_end_le: "src_cursor c + read_span cmd \<le> max_read_end ((cursor_step v cmd ^^ Suc n) c)"
proof -
  have "src_cursor c + read_span cmd \<le> max_read_end (cursor_step v cmd c)"
    by (simp add: cursor_step_def Let_def)
  then show ?thesis
    using max_read_mono [of "cursor_step v cmd c" n v cmd] by (simp add: funpow_swap1)
qed

section \<open>Reads stay within the payload\<close>

lemma rd_bytes_prefix: "off + w \<le> length xs \<Longrightarrow> vif_rd_bytes_le (xs @ ys) off w = vif_rd_bytes_le xs off w"
  by (auto simp: vif_rd_bytes_le_def nth_append intro!: fold_cong)

lemma lane_values_prefix:
  "src + read_span cmd \<le> length xs \<Longrightarrow> lane_values cmd u (xs @ ys) src = lane_values cmd u xs src"
proof -
  have *: "src + k * w + w \<le> length xs" if "k < n" "src + n * w \<le> length xs" for k n w
  proof -
    have "(k + 1) * w \<le> n * w" using that(1) by (intro mult_right_mono) simp_all
    with that(2) show ?thesis by simp
  qed
  show "src + read_span cmd \<le> length xs \<Longrightarrow> ?thesis"
    by (auto simp: lane_values_def read_span_def Let_def rd_bytes_prefix * split: if_splits)
qed

lemma unpack_loop_prefix:
  "max_read_end ((cursor_step (vif p) cmd ^^ n) c) \<le> length xs \<Longrightarrow>
     unpack_loop n cmd u m e (xs @ ys) addr c p = unpack_loop n cmd u m e xs addr c p"
proof (induction n arbitrary: addr c p)
  case (Suc n)
  have "lane_values cmd u (xs @ ys) (src_cursor c) = lane_values cmd u xs (src_cursor c)"
    using this_end_le [of c cmd n "vif p"] Suc.prems by (intro lane_values_prefix) simp
  then show ?case
    using Suc by (simp add: Let_def funpow_swap1 cursor_step_cong [OF write_vector_kept(2)])
qed simp

section \<open>Size of a payload\<close>

lemma cursor_bounds:
  "src_cursor ((cursor_step v cmd ^^ n) start_cursor) \<le> n * unpack_gsize cmd
   \<and> max_read_end ((cursor_step v cmd ^^ n) start_cursor) \<le> (n - 1) * unpack_gsize cmd + (if n = 0 then 0 else read_span cmd)"
proof (induction n)
  case 0
  then show ?case by (simp add: start_cursor_def)
next
  case (Suc n)
  let ?c = "(cursor_step v cmd ^^ n) start_cursor"
  have step: "src_cursor (cursor_step v cmd ?c) \<le> src_cursor ?c + unpack_gsize cmd"
    "max_read_end (cursor_step v cmd ?c) = max (max_read_end ?c) (src_cursor ?c + read_span cmd)"
    by (simp_all add: cursor_step_def Let_def)
  have "(n - 1) * unpack_gsize cmd \<le> n * unpack_gsize cmd" by (rule mult_right_mono) simp_all
  then have "(n - 1) * unpack_gsize cmd + (if n = 0 then 0 else read_span cmd) \<le> n * unpack_gsize cmd + read_span cmd"
    by (intro add_mono) simp_all
  then have "max_read_end ?c \<le> n * unpack_gsize cmd + read_span cmd"
    using Suc by (blast intro: order_trans)
  then show ?case using Suc step by auto
qed

lemma read_span_gsize: "unpack_gsize cmd \<noteq> 0 \<Longrightarrow> 255 * unpack_gsize cmd + read_span cmd \<le> 4096"
proof -
  have "cmd_vn cmd \<in> {0, 1, 2, 3}" "cmd_vl cmd \<in> {0, 1, 2, 3}"
    by (auto simp: cmd_vn_def cmd_vl_def)
  then show "unpack_gsize cmd \<noteq> 0 \<Longrightarrow> ?thesis"
    by (auto simp: unpack_gsize_def VIF_UNPACK_SIZE_def read_span_def component_width_def Let_def)
qed

lemma code_num_range: "1 \<le> code_num code" "code_num code \<le> 256"
proof -
  have "unat (drop_bit 16 code AND 0xFF) < 256"
    using and_mask_eq [of "drop_bit 16 code" 8] by (simp add: mask_eq_exp_minus_1 unat_take_bit)
  then show "1 \<le> code_num code" "code_num code \<le> 256" by (simp_all add: code_num_def Let_def)
qed

lemma needed_max:
  "unpack_gsize cmd \<noteq> 0 \<Longrightarrow> vif_unpack_needed_bytes v cmd n = (max_read_end ((cursor_step v cmd ^^ n) start_cursor) + 3) div 4 * 4"
  by (simp add: vif_unpack_needed_bytes_def start_cursor_def)

lemma needed_le: "vif_unpack_needed_bytes v cmd (code_num code) \<le> 4096"
proof (cases "unpack_gsize cmd = 0")
  case False
  let ?n = "code_num code"
  have "max_read_end ((cursor_step v cmd ^^ ?n) start_cursor) \<le> (?n - 1) * unpack_gsize cmd + read_span cmd"
    using cursor_bounds [of ?n v cmd] code_num_range(1) [of code] by simp
  also have "\<dots> \<le> 255 * unpack_gsize cmd + read_span cmd"
    using code_num_range(2) [of code] by (intro add_right_mono mult_right_mono) simp_all
  also have "\<dots> \<le> 4096" using False by (rule read_span_gsize)
  finally show ?thesis using False by (simp add: needed_max)
qed (simp add: vif_unpack_needed_bytes_def)

lemma needed_dvd: "4 dvd vif_unpack_needed_bytes v cmd n"
  by (simp add: vif_unpack_needed_bytes_def)

lemma needed_pos: "unpack_gsize cmd \<noteq> 0 \<Longrightarrow> vif_unpack_needed_bytes v cmd (code_num code) > 0"
proof -
  assume g: "unpack_gsize cmd \<noteq> 0"
  obtain k where k: "code_num code = Suc k"
    using code_num_range(1) [of code] by (cases "code_num code") simp_all
  have "read_span cmd > 0" by (simp add: read_span_def component_width_def Let_def)
  then have "max_read_end ((cursor_step v cmd ^^ Suc k) start_cursor) > 0"
    using this_end_le [of start_cursor cmd k v] by simp
  then show ?thesis using g k by (simp add: needed_max div_greater_zero_iff)
qed

text \<open>With the whole payload at hand, unpacking reads only it and consumes exactly its size.\<close>

lemma vif_unpack_payload:
  assumes "unpack_gsize cmd \<noteq> 0" "vif_unpack_needed_bytes (vif p) cmd (code_num code) = n" "n \<le> length bs"
  shows "vif_unpack code cmd bs p = (fst (vif_unpack code cmd (take n bs) p), Some (n div 4))"
proof -
  let ?m = "if cmd_vn cmd = 3 \<and> cmd_vl cmd = 3 then 0 else vif_mode (vif p)"
  let ?run = "\<lambda>bs. unpack_loop (code_num code) cmd (bit code 14) ?m (bit cmd 4) bs (unpack_base (vif p) code) start_cursor p"
  let ?stop = "max_read_end ((cursor_step (vif p) cmd ^^ code_num code) start_cursor)"
  have n: "n = (?stop + 3) div 4 * 4" using assms(1,2) by (simp add: needed_max)
  then have le: "?stop \<le> length (take n bs)" using assms(3) by simp
  have "?run (take n bs @ drop n bs) = ?run (take n bs)"
    using le by (rule unpack_loop_prefix)
  then have eq: "?run bs = ?run (take n bs)" by simp
  have c: "snd (?run bs) = (cursor_step (vif p) cmd ^^ code_num code) start_cursor"
    by (rule unpack_loop_cursor)
  have "(?stop + 3) div 4 \<le> words_left bs"
    using n assms(3) by (simp add: words_left_def less_eq_div_iff_mult_less_eq)
  then show ?thesis
    using assms(1) eq c n by (simp add: vif_unpack_def Let_def start_cursor_def split_beta)
qed

section \<open>Leftovers of finished payloads\<close>

text \<open>
  Once a payload is complete, the registers that tracked it keep stale values that nothing reads.
  \<open>settle\<close> clears them; two ports that agree up to it behave alike.
\<close>

definition idle :: "vif_state \<Rightarrow> bool" where
  "idle v \<longleftrightarrow> \<not> mpg_pending v \<and> \<not> unpack_pending v"

definition settle :: "'w vif_port \<Rightarrow> 'w vif_port" where
  "settle = vif_set (\<lambda>v.
     let v1 = (if mpg_pending v then v else v\<lparr>mpg_pending_addr := 0, mpg_pending_words := 0\<rparr>)
     in if unpack_pending v then v1\<lparr>unpack_buffer := take (unpack_have_bytes v) (unpack_buffer v)\<rparr>
        else v1\<lparr>unpack_code := 0, unpack_cmd := 0, unpack_needed_bytes := 0, unpack_have_bytes := 0, unpack_buffer := []\<rparr>)"

definition stale :: "vif_state \<Rightarrow> 'w vif_port \<Rightarrow> 'w vif_port" where
  "stale s = vif_set (\<lambda>v. v\<lparr>mpg_pending := mpg_pending s, mpg_pending_addr := mpg_pending_addr s, mpg_pending_words := mpg_pending_words s,
     unpack_pending := unpack_pending s, unpack_code := unpack_code s, unpack_cmd := unpack_cmd s, unpack_needed_bytes := unpack_needed_bytes s,
     unpack_have_bytes := unpack_have_bytes s, unpack_buffer := unpack_buffer s\<rparr>)"

lemma settle_stale: "idle (vif p) \<Longrightarrow> idle s \<Longrightarrow> settle (stale s p) = settle p"
  by (simp add: settle_def stale_def vif_set_def idle_def)

lemma settle_pending:
  "settle p = settle q \<Longrightarrow> mpg_pending (vif q) = mpg_pending (vif p) \<and> unpack_pending (vif q) = unpack_pending (vif p)"
proof -
  have "mpg_pending (vif (settle r)) = mpg_pending (vif r) \<and> unpack_pending (vif (settle r)) = unpack_pending (vif r)"
    for r :: "'a vif_port" by (simp add: settle_def vif_set_def Let_def)
  then show "settle p = settle q \<Longrightarrow> ?thesis" by metis
qed

lemma settle_idle_stale:
  assumes "settle p = settle q" "idle (vif p)"
  shows "q = stale (vif q) p"
proof -
  have "idle (vif q)" using settle_pending [OF assms(1)] assms(2) by (simp add: idle_def)
  then show ?thesis
    using assms by (cases p; cases q; cases "vif p"; cases "vif q")
      (simp add: settle_def stale_def vif_set_def idle_def)
qed

lemma stale_simps [simp]:
  "is_vif1 (vif (stale s p)) = is_vif1 (vif p)" "cycle_cl (vif (stale s p)) = cycle_cl (vif p)"
  "cycle_wl (vif (stale s p)) = cycle_wl (vif p)" "vif_mode (vif (stale s p)) = vif_mode (vif p)"
  "vif_tops (vif (stale s p)) = vif_tops (vif p)" "vu (stale s p) = vu p" "gifw (stale s p) = gifw p"
  "vu_msk (stale s p) = vu_msk p" "cycles (vif (stale s p)) = cycles (vif p)"
  "mpg_pending (vif (stale s p)) = mpg_pending s" "unpack_pending (vif (stale s p)) = unpack_pending s"
  by (simp_all add: stale_def vif_set_def vu_msk_def cycles_def)

lemma stale_lane: "vif_unpack_write_lane a m e b l d (stale s p) = stale s (vif_unpack_write_lane a m e b l d p)"
  by (simp add: vif_unpack_write_lane_def Let_def stale_def vif_set_def vu_msk_def)

lemma stale_vector: "write_vector a m e b vals (stale s p) = stale s (write_vector a m e b vals p)"
proof -
  have "fold (\<lambda>l. vif_unpack_write_lane a m e b l (vals ! l)) ls (stale s p)
      = stale s (fold (\<lambda>l. vif_unpack_write_lane a m e b l (vals ! l)) ls p)" for ls
    by (induction ls arbitrary: p) (simp_all add: stale_lane)
  then show ?thesis by (simp add: write_vector_def stale_def vif_set_def)
qed

lemma stale_unpack_loop:
  "unpack_loop n cmd u m e bs addr c (stale s p) = map_prod (stale s) id (unpack_loop n cmd u m e bs addr c p)"
proof (induction n arbitrary: addr c p)
  case (Suc n)
  then show ?case
    by (simp add: Let_def stale_vector cursor_step_cong [OF stale_simps(9)] addr_step_cong [OF stale_simps(9)])
qed simp

lemma stale_unpack: "vif_unpack code cmd bs (stale s p) = map_prod (stale s) id (vif_unpack code cmd bs p)"
proof -
  have "unpack_base (vif (stale s p)) code = unpack_base (vif p) code" by (simp add: unpack_base_def Let_def)
  moreover have "vif_set (\<lambda>v. v\<lparr>unsupported_cmds_seen := unsupported_cmds_seen v + 1\<rparr>) (stale s p)
      = stale s (vif_set (\<lambda>v. v\<lparr>unsupported_cmds_seen := unsupported_cmds_seen v + 1\<rparr>) p)"
    by (simp add: stale_def vif_set_def)
  ultimately show ?thesis
    by (simp add: vif_unpack_def Let_def stale_unpack_loop split_beta)
qed

lemma stale_set:
  "(\<And>v. f (v\<lparr>mpg_pending := mpg_pending s, mpg_pending_addr := mpg_pending_addr s, mpg_pending_words := mpg_pending_words s,
     unpack_pending := unpack_pending s, unpack_code := unpack_code s, unpack_cmd := unpack_cmd s, unpack_needed_bytes := unpack_needed_bytes s,
     unpack_have_bytes := unpack_have_bytes s, unpack_buffer := unpack_buffer s\<rparr>)
   = (f v)\<lparr>mpg_pending := mpg_pending s, mpg_pending_addr := mpg_pending_addr s, mpg_pending_words := mpg_pending_words s,
     unpack_pending := unpack_pending s, unpack_code := unpack_code s, unpack_cmd := unpack_cmd s, unpack_needed_bytes := unpack_needed_bytes s,
     unpack_have_bytes := unpack_have_bytes s, unpack_buffer := unpack_buffer s\<rparr>)
   \<Longrightarrow> vif_set f (stale s p) = stale s (vif_set f p)"
  by (simp add: stale_def vif_set_def)

lemma stale_world: "(stale s p)\<lparr>vu := u\<rparr> = stale s (p\<lparr>vu := u\<rparr>)" "(stale s p)\<lparr>gifw := w\<rparr> = stale s (p\<lparr>gifw := w\<rparr>)"
  by (simp_all add: stale_def vif_set_def)

lemma stale_mscal: "vif_mscal env imm (stale s p) = stale s (vif_mscal env imm p)"
  by (simp add: vif_mscal_def split_beta Let_def stale_world stale_set)

lemma stale_mscnt: "vif_mscnt env (stale s p) = stale s (vif_mscnt env p)"
  unfolding vif_mscnt_def split_beta Let_def stale_world stale_simps by (rule stale_set) simp

lemma stale_unsupported: "unsupported (stale s p) = stale s (unsupported p)"
  by (simp add: unsupported_def stale_set)

lemma stale_direct: "vif_direct env code bs (stale s p) = map_prod (stale s) id (vif_direct env code bs p)"
  unfolding vif_direct_def Let_def stale_world stale_simps if_distrib [of "map_prod (stale s) id"]
    map_prod_simp id_apply if_distrib [of "stale s"]
  by (intro if_cong refl arg_cong2 [where f = Pair] stale_unsupported stale_set) simp

lemma stale_register_cmd: "vif_register_cmd cmd code (stale s p) = stale s (vif_register_cmd cmd code p)"
  unfolding vif_register_cmd_def Let_def stale_simps if_distrib [of "stale s"]
  by (intro if_cong refl stale_unsupported stale_set) simp_all

lemma stale_exec:
  assumes "cmd \<noteq> 0x4A"
  shows "vif_exec env cmd code bs (stale s p) = map_prod (stale s) id (vif_exec env cmd code bs p)"
  unfolding vif_exec_def Let_def stale_mscal stale_mscnt stale_direct stale_register_cmd
    if_distrib [of "map_prod (stale s) id"] map_prod_simp id_apply
  by (intro if_cong refl arg_cong2 [where f = Pair] stale_set) (simp_all add: assms)

end
