(* ===== verification/Vif_Split.thy ===== *)
theory Vif_Split
  imports Vif_Props
begin

text \<open>
  The end of a DMA transfer in the vector interfaces: the invariant of the registers that carry a
  payload over it, and that a stream cut inside an MPG or UNPACK payload has the effect of the
  uncut one.
\<close>

unbundle bit_operations_syntax

section \<open>What a command keeps\<close>

lemma idle_kept: "kept p q \<Longrightarrow> idle (vif q) = idle (vif p)"
  by (simp add: kept_def pend_def idle_def)

lemma kept_set: "(\<And>v. pend (f v) = pend v \<and> is_vif1 (f v) = is_vif1 v \<and> (rows_ok v \<longrightarrow> rows_ok (f v))) \<Longrightarrow> kept p (vif_set f p)"
  by (simp add: kept_def vif_set_def)

lemma kept_world: "kept p (vif_set f q) \<Longrightarrow> vif q' = vif q \<Longrightarrow> kept p (vif_set f q')"
  by (simp add: kept_def vif_set_def)

lemma kept_vif: "vif q = vif p \<Longrightarrow> kept p q"
  by (simp add: kept_def)

lemma kept_set_world:
  assumes "\<And>v. pend (f v) = pend v \<and> is_vif1 (f v) = is_vif1 v \<and> (rows_ok v \<longrightarrow> rows_ok (f v))" "vif q = vif p"
  shows "kept p (vif_set f q)"
  using assms by (simp add: kept_def vif_set_def)

lemma kept_mscal: "kept p (vif_mscal env imm p)"
  unfolding vif_mscal_def split_beta Let_def by (rule kept_set_world) (simp_all add: pend_def rows_ok_def)

lemma kept_mscnt: "kept p (vif_mscnt env p)"
  unfolding vif_mscnt_def split_beta Let_def by (rule kept_set_world) (simp_all add: pend_def rows_ok_def)

lemma kept_unsupported: "kept p (unsupported p)"
  unfolding unsupported_def by (rule kept_set) (simp add: pend_def rows_ok_def)

lemma kept_direct: "kept p (fst (vif_direct env code bs p))"
  by (auto simp: vif_direct_def Let_def kept_unsupported pend_def rows_ok_def intro!: kept_set_world)

lemma kept_register_cmd: "kept p (vif_register_cmd cmd code p)"
  by (simp add: vif_register_cmd_def Let_def kept_unsupported kept_set pend_def rows_ok_def)

lemma read_words_length: "length (read_words n bs) \<le> n"
  by (induction n arbitrary: bs) simp_all

lemma overwrite_length: "length new \<le> length old \<Longrightarrow> length (overwrite new old) = length old"
  by (simp add: overwrite_def)

lemma kept_exec: "cmd \<noteq> 0x4A \<Longrightarrow> kept p (fst (vif_exec env cmd code bs p))"
  using read_words_length [of 4 bs]
  by (auto simp: vif_exec_def Let_def kept_mscal kept_mscnt kept_direct kept_register_cmd
      intro!: kept_set simp: pend_def rows_ok_def overwrite_length)

lemma kept_unpack: "kept p (fst (vif_unpack code cmd bs p))"
proof -
  have "kept p (vif_set (\<lambda>v. v\<lparr>unsupported_cmds_seen := unsupported_cmds_seen v + 1\<rparr>) p)"
    by (rule kept_set) (simp add: pend_def rows_ok_def)
  then show ?thesis by (simp add: vif_unpack_def Let_def split_beta unpack_loop_kept)
qed

section \<open>Commands do not see stale registers\<close>

definition count_code :: "u32 \<Rightarrow> 'w vif_port \<Rightarrow> 'w vif_port" where
  "count_code code = vif_set (\<lambda>v. v\<lparr>vif_code := code, codes_processed := codes_processed v + 1\<rparr>)"

lemma count_code_kept: "kept p (count_code code p)"
  unfolding count_code_def by (rule kept_set) (simp add: pend_def rows_ok_def)

lemma count_code_stale: "count_code code (stale s p) = stale s (count_code code p)"
  unfolding count_code_def by (rule stale_set) simp

lemma words_left_le [simp]: "words_left bs * 4 \<le> length bs" "4 * words_left bs \<le> length bs"
  by (simp_all add: words_left_def)

lemma memcpy_start: "n \<le> length src \<Longrightarrow> take n (memcpy (take n src) 0 dst) = take n src"
  by (simp add: memcpy_def)

lemma needed_cong: "cycles v = cycles w \<Longrightarrow> vif_unpack_needed_bytes v = vif_unpack_needed_bytes w"
  by (drule cursor_step_cong) (intro ext, simp add: vif_unpack_needed_bytes_def)

lemma exec_unpack_stale:
  assumes "idle (vif p)" "idle s"
  shows "snd (vif_exec_unpack cmd code bs (stale s p)) = snd (vif_exec_unpack cmd code bs p)
    \<and> settle (fst (vif_exec_unpack cmd code bs (stale s p))) = settle (fst (vif_exec_unpack cmd code bs p))"
proof (cases "let n = vif_unpack_needed_bytes (vif p) cmd (code_num code) in n \<noteq> 0 \<and> n > words_left bs * 4")
  case True
  then show ?thesis
    using assms
    by (simp add: vif_exec_unpack_def Let_def needed_cong [OF stale_simps(9)])
      (simp add: settle_def stale_def vif_set_def idle_def memcpy_start min.coboundedI1)
next
  case False
  have "idle (vif (fst (vif_unpack code cmd bs p)))"
    using assms(1) idle_kept [OF kept_unpack] by blast
  then show ?thesis
    using False assms(2) by (auto simp: vif_exec_unpack_def Let_def needed_cong [OF stale_simps(9)] stale_unpack settle_stale
        split: prod.split option.split)
qed

lemma mpg_stale:
  assumes "idle (vif p)" "idle s"
  shows "snd (vif_mpg code bs (stale s p)) = snd (vif_mpg code bs p)
    \<and> settle (fst (vif_mpg code bs (stale s p))) = settle (fst (vif_mpg code bs p))"
  using assms
  by (simp add: vif_mpg_def Let_def upload_def) (simp add: settle_def stale_def vif_set_def idle_def)

lemma step_stale:
  assumes "idle (vif p)" "idle s"
  shows "snd (vif_step env bs (stale s p)) = snd (vif_step env bs p)
    \<and> settle (fst (vif_step env bs (stale s p))) = settle (fst (vif_step env bs p))"
proof -
  let ?code = "vif_rd_le32 bs" and ?p = "count_code (vif_rd_le32 bs) p"
  have i: "idle (vif ?p)" using assms(1) idle_kept [OF count_code_kept] by blast
  show ?thesis
  proof (cases "code_cmd ?code \<ge> 0x60")
    case True
    then show ?thesis
      using exec_unpack_stale [OF i assms(2), of "code_cmd ?code" ?code "drop 4 bs"]
      by (simp add: vif_step_def Let_def count_code_stale flip: count_code_def)
  next
    case False
    note step = vif_step_def Let_def count_code_stale count_code_def [symmetric]
    show ?thesis
    proof (cases "code_cmd ?code = 0x4A")
      case True
      then show ?thesis
        using mpg_stale [OF i assms(2), of ?code "drop 4 bs"] by (simp add: step vif_exec_def split_beta)
    next
      case neq: False
      have "idle (vif (fst (vif_exec env (code_cmd ?code) ?code (drop 4 bs) ?p)))"
        using i idle_kept [OF kept_exec [OF neq]] by blast
      then show ?thesis
        using False neq assms(2) by (simp add: step stale_exec split_beta settle_stale)
    qed
  qed
qed

section \<open>Rest of the stream after a command\<close>

lemma words_left_0: "4 dvd length bs \<Longrightarrow> (words_left bs = 0) = (bs = [])"
  by (auto simp: words_left_def)

lemma words_left_4: "4 dvd length bs \<Longrightarrow> words_left bs * 4 = length bs"
  by (simp add: words_left_def)

lemma dvd_drop: "4 dvd n \<Longrightarrow> 4 dvd length bs \<Longrightarrow> 4 dvd length (drop n bs)"
  by (simp add: dvd_diff_nat)

lemma exec_unpack_rest:
  assumes "vif_exec_unpack cmd code bs p = (p1, Some rest)" "4 dvd length bs" "idle (vif p)"
  shows "4 dvd length rest \<and> (idle (vif p1) \<or> rest = [])"
proof -
  let ?n = "vif_unpack_needed_bytes (vif p) cmd (code_num code)"
  show ?thesis
  proof (cases "?n \<noteq> 0 \<and> ?n > words_left bs * 4")
    case True
    then have "words_left bs * 4 \<le> 4096" using needed_le [of "vif p" cmd code] by simp
    then have "rest = []"
      using assms(1,2) True by (auto simp: vif_exec_unpack_def Let_def words_left_4)
    then show ?thesis by simp
  next
    case False
    then obtain words where w: "vif_unpack code cmd bs p = (p1, Some words)" "rest = drop (4 * words) bs"
      using assms(1) by (auto simp: vif_exec_unpack_def Let_def split: prod.splits option.splits)
    have "idle (vif p1)" using idle_kept [OF kept_unpack, of code cmd bs p] assms(3) w(1) by simp
    then show ?thesis using w(2) assms(2) by (simp add: dvd_diff_nat)
  qed
qed

lemma mpg_rest:
  assumes "vif_mpg code bs p = (p1, rest)" "4 dvd length bs" "idle (vif p)"
  shows "4 dvd length rest \<and> (idle (vif p1) \<or> rest = [])"
proof (cases "code_num code * 2 \<le> words_left bs")
  case True
  then have "rest = drop (4 * (code_num code * 2)) bs" "idle (vif p1)"
    using assms(1,3) by (auto simp: vif_mpg_def Let_def min_absorb1 vif_set_def upload_def idle_def)
  then show ?thesis using assms(2) dvd_drop by simp
next
  case False
  then have "rest = drop (4 * words_left bs) bs"
    using assms(1) by (simp add: vif_mpg_def Let_def min_absorb2)
  then show ?thesis using words_left_4 [OF assms(2)] by simp
qed

lemma exec_rest:
  assumes "vif_exec env cmd code bs p = (p1, rest)" "4 dvd length bs" "idle (vif p)"
  shows "4 dvd length rest \<and> (idle (vif p1) \<or> rest = [])"
proof (cases "cmd = 0x4A")
  case True
  then show ?thesis using assms by (intro mpg_rest [of code bs p]) (simp_all add: vif_exec_def)
next
  case False
  have "idle (vif p1)" using idle_kept [OF kept_exec [OF False, of p env code bs]] assms(1,3) by simp
  moreover have "\<exists>k. rest = drop (4 * k) bs"
    using assms(1) False
    by (auto simp: vif_exec_def vif_direct_def Let_def split: if_splits
        intro: exI [of _ 0] exI [of _ 1] exI [of _ "length (read_words 4 bs)"])
  ultimately show ?thesis using assms(2) by (auto intro: dvd_drop)
qed

lemma step_rest:
  assumes "vif_step env bs p = (p1, Some rest)" "4 dvd length bs" "idle (vif p)"
  shows "4 dvd length rest \<and> (idle (vif p1) \<or> rest = [])"
proof -
  let ?code = "vif_rd_le32 bs" and ?p = "count_code (vif_rd_le32 bs) p"
  have i: "idle (vif ?p)" using assms(3) idle_kept [OF count_code_kept] by blast
  have d: "4 dvd length (drop 4 bs)" using assms(2) by (simp add: dvd_diff_nat)
  show ?thesis
    using assms(1) exec_unpack_rest [OF _ d i] exec_rest [OF _ d i]
    by (auto simp: vif_step_def Let_def simp flip: count_code_def split: if_splits prod.splits)
qed

lemma loop_settle:
  assumes "settle p = settle q" "idle (vif p) \<or> bs = []" "4 dvd length bs"
  shows "settle (vif_loop env bs p) = settle (vif_loop env bs q)"
  using assms
proof (induction "length bs" arbitrary: bs p q rule: less_induct)
  case less
  show ?case
  proof (cases "bs = []")
    case True
    then show ?thesis using less.prems(1) by (simp add: vif_loop.simps words_left_def)
  next
    case False
    then have w: "words_left bs \<noteq> 0" using less.prems(3) by (simp add: words_left_0)
    have i: "idle (vif p)" using less.prems(2) False by simp
    have q: "q = stale (vif q) p" using less.prems(1) i by (rule settle_idle_stale)
    have iq: "idle (vif q)" using settle_pending [OF less.prems(1)] i by (simp add: idle_def)
    obtain p1 r where s: "vif_step env bs p = (p1, r)" by (cases "vif_step env bs p")
    obtain q1 r' where s': "vif_step env bs q = (q1, r')" by (cases "vif_step env bs q")
    have eq: "r' = r" "settle p1 = settle q1"
      using step_stale [OF i iq, of env bs] s s' q by simp_all
    show ?thesis
    proof (cases r)
      case None
      then show ?thesis using w s s' eq by (simp add: vif_loop.simps [of env bs])
    next
      case (Some rest)
      have "length rest < length bs" using s Some w by (blast intro: vif_step_length)
      moreover have "4 dvd length rest \<and> (idle (vif p1) \<or> rest = [])"
        using s Some less.prems(3) i step_rest [of env bs p p1 rest] by simp
      ultimately show ?thesis
        using less.hyps [of rest p1 q1] w s s' eq Some by (simp add: vif_loop.simps [of env bs])
    qed
  qed
qed

section \<open>Beginning and resuming a payload\<close>

lemma rd_le32_append: "4 \<le> length a \<Longrightarrow> vif_rd_le32 (a @ b) = vif_rd_le32 a"
  by (cases a rule: vif_rd_le32.cases) auto

lemma micro_upload_append:
  "length a = 4 * n \<Longrightarrow> micro_upload msk (n + k) addr (a @ b) st
     = micro_upload msk k (addr + of_nat n * 4) b (micro_upload msk n addr a st)"
proof (induction n arbitrary: addr a st)
  case (Suc n)
  then show ?case by (simp add: rd_le32_append algebra_simps)
qed simp

lemma micro_upload_prefix:
  "4 * n \<le> length a \<Longrightarrow> micro_upload msk n addr (a @ b) st = micro_upload msk n addr a st"
  by (induction n arbitrary: addr a st) (simp_all add: rd_le32_append)

lemma words_left_append: "4 dvd length a \<Longrightarrow> words_left (a @ b) = words_left a + words_left b"
  by (auto simp: words_left_def)

lemma resume_mpg_done:
  assumes "mpg_pending_words (vif p) \<le> words_left a" "4 dvd length a"
  shows "resume_mpg (a @ b) p = (fst (resume_mpg a p), snd (resume_mpg a p) @ b)"
proof -
  have "4 * mpg_pending_words (vif p) \<le> length a" using assms(1) words_left_4 [OF assms(2)] by simp
  moreover have "mpg_pending_words (vif p) \<le> words_left (a @ b)"
    using assms(1) words_left_append [OF assms(2), of b] by simp
  ultimately show ?thesis using assms by (simp add: resume_mpg_def Let_def min_absorb1 upload_def micro_upload_prefix)
qed

lemma resume_mpg_more:
  assumes "words_left a < mpg_pending_words (vif p)" "4 dvd length a" "mpg_pending (vif p)"
  shows "resume_mpg (a @ b) p = resume_mpg b (fst (resume_mpg a p))"
proof -
  let ?w = "mpg_pending_words (vif p)" and ?n = "words_left a"
  define k where "k = min (?w - ?n) (words_left b)"
  have len: "length a = 4 * ?n" using words_left_4 [OF assms(2)] by simp
  have ab: "min ?w (?n + words_left b) = ?n + k"
    using assms(1) by (simp add: k_def)
  have a: "min ?w ?n = ?n" using assms(1) by simp
  have "drop (4 * (?n + k)) (a @ b) = drop (4 * k) b" using len by simp
  moreover have "?w - ?n \<noteq> 0" using assms(1) by simp
  moreover have "(?w \<le> k + ?n) = (?w \<le> ?n + words_left b)"
    using assms(1) by (auto simp: k_def)
  ultimately show ?thesis
    using assms(3) micro_upload_append [OF len]
    by (simp add: resume_mpg_def Let_def words_left_append [OF assms(2)] ab a upload_def vif_set_def vu_msk_def
        k_def [symmetric] le_diff_conv algebra_simps)
qed

lemma memcpy_twice:
  "off + length a \<le> length dst \<Longrightarrow> memcpy b (off + length a) (memcpy a off dst) = memcpy (a @ b) off dst"
  by (simp add: memcpy_def ac_simps)

definition have_all :: "vif_state \<Rightarrow> u8 list \<Rightarrow> bool" where
  "have_all v a \<longleftrightarrow> unpack_needed_bytes v - unpack_have_bytes v \<le> length a"

lemma resume_unpack_done:
  assumes "have_all (vif p) a" "4 dvd length a"
  shows "resume_unpack (a @ b) p = (fst (resume_unpack a p), snd (resume_unpack a p) @ b)"
proof -
  let ?n = "unpack_needed_bytes (vif p) - unpack_have_bytes (vif p)"
  have n: "?n \<le> length a" using assms(1) by (simp add: have_all_def)
  have "min ?n (words_left (a @ b) * 4) = ?n" "min ?n (words_left a * 4) = ?n"
    using n words_left_append [OF assms(2), of b] words_left_4 [OF assms(2)] by simp_all
  moreover have "drop (?n div 4 * 4) (a @ b) = drop (?n div 4 * 4) a @ b" "take ?n (a @ b) = take ?n a"
    using n div_times_less_eq_dividend [of ?n 4] by simp_all
  ultimately show ?thesis by (simp add: resume_unpack_def Let_def buffer_payload_def del: drop_append take_append)
qed

lemma resume_unpack_more:
  assumes "\<not> have_all (vif p) a" "4 dvd length a" "unpack_pending (vif p)"
    and "unpack_needed_bytes (vif p) \<le> length (unpack_buffer (vif p))"
  shows "resume_unpack (a @ b) p = resume_unpack b (fst (resume_unpack a p))"
proof -
  let ?n = "unpack_needed_bytes (vif p) - unpack_have_bytes (vif p)"
  define k where "k = min (?n - length a) (words_left b * 4)"
  have n: "length a < ?n" using assms(1) by (simp add: have_all_def)
  have wa: "words_left a * 4 = length a" "length a div 4 * 4 = length a"
    using words_left_4 [OF assms(2)] assms(2) by simp_all
  have ab: "min ?n (words_left (a @ b) * 4) = length a + k" "min ?n (length a) = length a"
    using n words_left_append [OF assms(2), of b] wa(1) by (simp_all add: k_def add_mult_distrib)
  have k: "min (unpack_needed_bytes (vif p) - (unpack_have_bytes (vif p) + length a)) (words_left b * 4) = k"
    by (simp add: k_def)
  have "(length a + k) div 4 * 4 = length a + k div 4 * 4"
    using assms(2) by (simp add: div_add div_plus_div_distrib_dvd_left add_mult_distrib)
  then have rest: "drop ((length a + k) div 4 * 4) (a @ b) = drop (k div 4 * 4) b" by simp
  have "memcpy (take k b) (unpack_have_bytes (vif p) + length a) (memcpy a (unpack_have_bytes (vif p)) (unpack_buffer (vif p)))
      = memcpy (a @ take k b) (unpack_have_bytes (vif p)) (unpack_buffer (vif p))"
    using n assms(4) by (intro memcpy_twice) simp
  then have two: "buffer_payload (length a + k) (a @ b) p = buffer_payload k b (buffer_payload (length a) a p)"
    by (simp add: buffer_payload_def vif_set_def add.assoc)
  let ?q = "buffer_payload (length a) a p"
  have q: "unpack_pending (vif ?q)" "unpack_needed_bytes (vif ?q) = unpack_needed_bytes (vif p)"
    "unpack_have_bytes (vif ?q) = unpack_have_bytes (vif p) + length a"
    using assms(3) by (simp_all add: buffer_payload_def vif_set_def)
  have "fst (resume_unpack a p) = ?q"
    using assms(3) n q by (simp add: resume_unpack_def Let_def wa ab complete_unpack_def)
  then show ?thesis
    using assms(3) rest q two by (simp add: resume_unpack_def Let_def ab k)
qed

definition begin_mpg :: "u32 \<Rightarrow> 'w vif_port \<Rightarrow> 'w vif_port" where
  "begin_mpg code = vif_set (\<lambda>v. v\<lparr>mpg_calls := mpg_calls v + 1, mpg_last_dest_byte := (code AND 0xFFFF) * 8,
     mpg_pending := True, mpg_pending_addr := (code AND 0xFFFF) * 8, mpg_pending_words := code_num code * 2\<rparr>)"

lemma mpg_begin_more:
  "words_left bs < code_num code * 2 \<Longrightarrow> vif_mpg code bs p = resume_mpg bs (begin_mpg code p)"
  by (simp add: vif_mpg_def resume_mpg_def begin_mpg_def Let_def min_absorb2 upload_def vif_set_def vu_msk_def)

lemma mpg_begin_done:
  assumes "code_num code * 2 \<le> words_left bs" "\<not> mpg_pending (vif p)"
  shows "snd (vif_mpg code bs p) = snd (resume_mpg bs (begin_mpg code p))
    \<and> settle (fst (vif_mpg code bs p)) = settle (fst (resume_mpg bs (begin_mpg code p)))"
  using assms
  by (simp add: vif_mpg_def resume_mpg_def begin_mpg_def Let_def min_absorb1 upload_def vif_set_def vu_msk_def settle_def)

lemma mpg_begin:
  "\<not> mpg_pending (vif p) \<Longrightarrow> snd (vif_mpg code bs p) = snd (resume_mpg bs (begin_mpg code p))
    \<and> settle (fst (vif_mpg code bs p)) = settle (fst (resume_mpg bs (begin_mpg code p)))"
  using mpg_begin_done [of code bs p] mpg_begin_more [of bs code p] by fastforce

definition begin_unpack :: "nat \<Rightarrow> u32 \<Rightarrow> 'w vif_port \<Rightarrow> 'w vif_port" where
  "begin_unpack cmd code = vif_set (\<lambda>v. v\<lparr>unpack_pending := True, unpack_code := code, unpack_cmd := cmd,
     unpack_needed_bytes := vif_unpack_needed_bytes v cmd (code_num code), unpack_have_bytes := 0\<rparr>)"

lemma begin_unpack_simps [simp]:
  "unpack_pending (vif (begin_unpack cmd code p))" "unpack_have_bytes (vif (begin_unpack cmd code p)) = 0"
  "unpack_needed_bytes (vif (begin_unpack cmd code p)) = vif_unpack_needed_bytes (vif p) cmd (code_num code)"
  "unpack_buffer (vif (begin_unpack cmd code p)) = unpack_buffer (vif p)"
  "mpg_pending (vif (begin_unpack cmd code p)) = mpg_pending (vif p)"
  by (simp_all add: begin_unpack_def vif_set_def)

lemma exec_unpack_more:
  assumes "words_left bs * 4 < vif_unpack_needed_bytes (vif p) cmd (code_num code)"
  shows "vif_exec_unpack cmd code bs p
    = (fst (resume_unpack bs (begin_unpack cmd code p)), Some (snd (resume_unpack bs (begin_unpack cmd code p))))"
proof -
  let ?n = "vif_unpack_needed_bytes (vif p) cmd (code_num code)" and ?k = "words_left bs * 4"
  have k: "min ?k 4096 = ?k" "min ?n ?k = ?k"
    using assms needed_le [of "vif p" cmd code] by simp_all
  have b: "buffer_payload ?k bs (begin_unpack cmd code p)
      = vif_set (\<lambda>v. v\<lparr>unpack_buffer := memcpy (take ?k bs) 0 (unpack_buffer v), unpack_pending := True,
          unpack_code := code, unpack_cmd := cmd, unpack_needed_bytes := ?n, unpack_have_bytes := ?k\<rparr>) p"
    by (simp add: buffer_payload_def begin_unpack_def vif_set_def)
  have "resume_unpack bs (begin_unpack cmd code p) = (complete_unpack (buffer_payload ?k bs (begin_unpack cmd code p)), drop ?k bs)"
    by (simp add: resume_unpack_def Let_def k)
  also have "complete_unpack (buffer_payload ?k bs (begin_unpack cmd code p)) = buffer_payload ?k bs (begin_unpack cmd code p)"
    using assms unfolding b by (simp add: complete_unpack_def vif_set_def)
  finally show ?thesis
    using assms k b by (simp add: vif_exec_unpack_def Let_def)
qed

lemma exec_unpack_done:
  assumes "unpack_gsize cmd \<noteq> 0" "vif_unpack_needed_bytes (vif p) cmd (code_num code) \<le> words_left bs * 4"
    and "idle (vif p)" "length (unpack_buffer (vif p)) = 4096"
  shows "snd (vif_exec_unpack cmd code bs p) = Some (snd (resume_unpack bs (begin_unpack cmd code p)))
    \<and> settle (fst (vif_exec_unpack cmd code bs p)) = settle (fst (resume_unpack bs (begin_unpack cmd code p)))"
proof -
  let ?n = "vif_unpack_needed_bytes (vif p) cmd (code_num code)"
  let ?q = "buffer_payload ?n bs (begin_unpack cmd code p)" and ?x = "fst (vif_unpack code cmd (take ?n bs) p)"
  have n: "?n \<le> length bs" using assms(2) words_left_le(1) le_trans by blast
  have d: "?n div 4 * 4 = ?n" using needed_dvd by simp
  have q: "?q = stale (vif ?q) p" "unpack_code (vif ?q) = code" "unpack_cmd (vif ?q) = cmd"
    "unpack_needed_bytes (vif ?q) = ?n" "unpack_have_bytes (vif ?q) = ?n" "\<not> mpg_pending (vif ?q)"
    "unpack_buffer (vif ?q) = memcpy (take ?n bs) 0 (unpack_buffer (vif p))"
    using assms(3) by (simp_all add: buffer_payload_def begin_unpack_def stale_def vif_set_def idle_def)
  have "fst (vif_unpack code cmd (take ?n bs) ?q) = stale (vif ?q) ?x"
    by (subst q(1)) (simp add: stale_unpack)
  then have "finish_unpack ?q
      = vif_set (\<lambda>v. v\<lparr>unpack_pending := False, unpack_have_bytes := 0, unpack_needed_bytes := 0\<rparr>) (stale (vif ?q) ?x)"
    using n d by (simp add: finish_unpack_def Let_def q(2-5,7) memcpy_start)
  moreover have "idle (vif ?x)" using assms(3) idle_kept [OF kept_unpack] by blast
  ultimately have "settle (finish_unpack ?q) = settle ?x"
    using q(6) by (simp add: settle_def stale_def vif_set_def idle_def)
  moreover have "resume_unpack bs (begin_unpack cmd code p) = (finish_unpack ?q, drop ?n bs)"
    using assms(2) d q(4,5) by (simp add: resume_unpack_def Let_def min_absorb1 complete_unpack_def)
  moreover have "vif_exec_unpack cmd code bs p = (?x, Some (drop ?n bs))"
    using vif_unpack_payload [OF assms(1) refl n] assms(2) d by (simp add: vif_exec_unpack_def Let_def mult.commute)
  ultimately show ?thesis by simp
qed

lemma exec_unpack_begin:
  assumes "unpack_gsize cmd \<noteq> 0" "idle (vif p)" "length (unpack_buffer (vif p)) = 4096"
  shows "snd (vif_exec_unpack cmd code bs p) = Some (snd (resume_unpack bs (begin_unpack cmd code p)))
    \<and> settle (fst (vif_exec_unpack cmd code bs p)) = settle (fst (resume_unpack bs (begin_unpack cmd code p)))"
  using exec_unpack_done [OF assms(1) _ assms(2,3), of code bs] exec_unpack_more [of bs p cmd code]
  by fastforce

section \<open>The invariant\<close>

definition vif_base_ok :: "vif_state \<Rightarrow> bool" where
  "vif_base_ok v \<longleftrightarrow> rows_ok v \<and> length (unpack_buffer v) = 4096"

definition vif_inv :: "vif_state \<Rightarrow> bool" where
  "vif_inv v \<longleftrightarrow> vif_base_ok v \<and> \<not> (mpg_pending v \<and> unpack_pending v)
     \<and> (mpg_pending v \<longrightarrow> 0 < mpg_pending_words v \<and> mpg_pending_words v \<le> 512)
     \<and> (unpack_pending v \<longrightarrow> unpack_have_bytes v < unpack_needed_bytes v \<and> unpack_needed_bytes v \<le> 4096)"

lemma base_ok_kept: "kept p q \<Longrightarrow> vif_base_ok (vif p) \<Longrightarrow> vif_base_ok (vif q)"
  by (simp add: kept_def vif_base_ok_def pend_def)

lemma inv_idle: "idle v \<Longrightarrow> vif_inv v = vif_base_ok v"
  by (auto simp: vif_inv_def idle_def)

lemma inv_kept: "kept p q \<Longrightarrow> idle (vif p) \<Longrightarrow> vif_base_ok (vif p) \<Longrightarrow> vif_inv (vif q)"
  using base_ok_kept [of p q] idle_kept [of p q] by (simp add: inv_idle)

lemma inv_mpg:
  assumes "idle (vif p)" "vif_base_ok (vif p)"
  shows "vif_inv (vif (fst (vif_mpg code bs p)))"
  using assms code_num_range(2) [of code]
  by (simp add: vif_mpg_def Let_def upload_def vif_set_def vif_inv_def vif_base_ok_def rows_ok_def idle_def min_def) linarith

lemma memcpy_length: "off + length src \<le> length dst \<Longrightarrow> length (memcpy src off dst) = length dst"
  by (simp add: memcpy_def)

lemma inv_exec_unpack:
  assumes "idle (vif p)" "vif_base_ok (vif p)"
  shows "vif_inv (vif (fst (vif_exec_unpack cmd code bs p)))"
proof (cases "let n = vif_unpack_needed_bytes (vif p) cmd (code_num code) in n \<noteq> 0 \<and> n > words_left bs * 4")
  case True
  have k: "min (words_left bs * 4) 4096 = words_left bs * 4"
    using True needed_le [of "vif p" cmd code] by (simp add: Let_def)
  have "length (memcpy (take (words_left bs * 4) bs) 0 (unpack_buffer (vif p))) = 4096"
    using assms(2) True needed_le [of "vif p" cmd code] by (subst memcpy_length) (simp_all add: vif_base_ok_def Let_def)
  then show ?thesis
    using True assms needed_le [of "vif p" cmd code]
    by (simp add: vif_exec_unpack_def Let_def k) (simp add: vif_set_def vif_inv_def vif_base_ok_def rows_ok_def idle_def)
next
  case False
  then have "fst (vif_exec_unpack cmd code bs p) = fst (vif_unpack code cmd bs p)"
    by (auto simp: vif_exec_unpack_def Let_def split: prod.split option.split)
  then show ?thesis using inv_kept [OF kept_unpack assms] by simp
qed

lemma inv_step:
  assumes "idle (vif p)" "vif_base_ok (vif p)"
  shows "vif_inv (vif (fst (vif_step env bs p)))"
proof -
  let ?code = "vif_rd_le32 bs" and ?p = "count_code (vif_rd_le32 bs) p"
  have i: "idle (vif ?p)" "vif_base_ok (vif ?p)"
    using assms idle_kept [OF count_code_kept] base_ok_kept [OF count_code_kept] by blast+
  note step = vif_step_def Let_def count_code_def [symmetric]
  consider "code_cmd ?code \<ge> 0x60" | "code_cmd ?code = 0x4A" | "code_cmd ?code < 0x60" "code_cmd ?code \<noteq> 0x4A" by linarith
  then show ?thesis
  proof cases
    case 1
    then show ?thesis using inv_exec_unpack [OF i] by (simp add: step)
  next
    case 2
    then show ?thesis using inv_mpg [OF i] by (simp add: step vif_exec_def split_beta)
  next
    case 3
    then show ?thesis using inv_kept [OF kept_exec [OF 3(2)] i] by (simp add: step split_beta)
  qed
qed

lemma inv_loop:
  assumes "vif_inv (vif p)" "idle (vif p) \<or> bs = []" "4 dvd length bs"
  shows "vif_inv (vif (vif_loop env bs p))"
  using assms
proof (induction "length bs" arbitrary: bs p rule: less_induct)
  case less
  show ?case
  proof (cases "bs = []")
    case True
    then show ?thesis using less.prems(1) by (simp add: vif_loop.simps words_left_def)
  next
    case False
    then have w: "words_left bs \<noteq> 0" using less.prems(3) by (simp add: words_left_0)
    have i: "idle (vif p)" using less.prems(2) False by simp
    obtain p1 r where s: "vif_step env bs p = (p1, r)" by (cases "vif_step env bs p")
    have inv: "vif_inv (vif p1)"
      using inv_step [OF i, of env bs] less.prems(1) i s by (simp add: inv_idle)
    show ?thesis
    proof (cases r)
      case None
      then show ?thesis using w s inv by (simp add: vif_loop.simps [of env bs])
    next
      case (Some rest)
      have "length rest < length bs" using s Some w by (blast intro: vif_step_length)
      moreover have "4 dvd length rest \<and> (idle (vif p1) \<or> rest = [])"
        using s Some less.prems(3) i step_rest [of env bs p p1 rest] by simp
      ultimately show ?thesis
        using less.hyps [of rest p1] w s inv Some by (simp add: vif_loop.simps [of env bs])
    qed
  qed
qed

section \<open>Resuming at the start of a transfer\<close>

definition resume_all :: "u8 list \<Rightarrow> 'w vif_port \<Rightarrow> 'w vif_port \<times> u8 list" where
  "resume_all bs p = (let (p1, bs1) = resume_mpg bs p in resume_unpack bs1 p1)"

lemma process_resume: "vif_process env bs p = (let (q, r) = resume_all bs p in vif_loop env r q)"
  by (simp add: vif_process_def resume_all_def split_beta Let_def)

lemma resume_idle: "idle (vif p) \<Longrightarrow> resume_all bs p = (p, bs)"
  by (simp add: resume_all_def resume_mpg_def resume_unpack_def idle_def)

lemma resume_mpg_fields:
  assumes "mpg_pending (vif p)"
  shows "mpg_pending (vif (fst (resume_mpg bs p))) = (words_left bs < mpg_pending_words (vif p))"
    and "unpack_pending (vif (fst (resume_mpg bs p))) = unpack_pending (vif p)"
    and "snd (resume_mpg bs p) = drop (4 * min (mpg_pending_words (vif p)) (words_left bs)) bs"
    and "vif_inv (vif p) \<Longrightarrow> vif_inv (vif (fst (resume_mpg bs p)))"
  using assms by (auto simp: resume_mpg_def Let_def upload_def vif_set_def vif_inv_def vif_base_ok_def rows_ok_def)

lemma resume_all_mpg: "\<not> unpack_pending (vif p) \<Longrightarrow> resume_all bs p = resume_mpg bs p"
  by (simp add: resume_all_def split_beta Let_def resume_unpack_def resume_mpg_def upload_def vif_set_def)

lemma resume_all_unpack: "\<not> mpg_pending (vif p) \<Longrightarrow> resume_all bs p = resume_unpack bs p"
  by (simp add: resume_all_def resume_mpg_def)

lemma finish_unpack_ok:
  "\<not> mpg_pending (vif p) \<Longrightarrow> vif_base_ok (vif p) \<Longrightarrow> idle (vif (finish_unpack p)) \<and> vif_base_ok (vif (finish_unpack p))"
proof -
  let ?x = "fst (vif_unpack (unpack_code (vif p)) (unpack_cmd (vif p)) (take (unpack_needed_bytes (vif p) div 4 * 4) (unpack_buffer (vif p))) p)"
  have "kept p ?x" by (rule kept_unpack)
  then show "\<not> mpg_pending (vif p) \<Longrightarrow> vif_base_ok (vif p) \<Longrightarrow> ?thesis"
    by (simp add: finish_unpack_def Let_def kept_def pend_def vif_set_def idle_def vif_base_ok_def rows_ok_def)
qed

lemma resume_unpack_fields:
  assumes "unpack_pending (vif p)" "vif_inv (vif p)" "4 dvd length bs"
  shows "vif_inv (vif (fst (resume_unpack bs p)))"
    and "have_all (vif p) bs \<Longrightarrow> idle (vif (fst (resume_unpack bs p)))"
    and "\<not> have_all (vif p) bs \<Longrightarrow> unpack_pending (vif (fst (resume_unpack bs p))) \<and> \<not> mpg_pending (vif (fst (resume_unpack bs p)))
      \<and> snd (resume_unpack bs p) = []"
proof -
  let ?need = "unpack_needed_bytes (vif p) - unpack_have_bytes (vif p)"
  define n where "n = min ?need (length bs)"
  let ?q = "buffer_payload n bs p"
  have inv: "unpack_have_bytes (vif p) < unpack_needed_bytes (vif p)" "unpack_needed_bytes (vif p) \<le> 4096"
    "\<not> mpg_pending (vif p)" "vif_base_ok (vif p)"
    using assms(1,2) by (auto simp: vif_inv_def)
  have q: "unpack_have_bytes (vif ?q) = unpack_have_bytes (vif p) + n" "unpack_needed_bytes (vif ?q) = unpack_needed_bytes (vif p)"
    "unpack_pending (vif ?q)" "\<not> mpg_pending (vif ?q)"
    using assms(1) inv(3) by (simp_all add: buffer_payload_def vif_set_def)
  have "length (memcpy (take n bs) (unpack_have_bytes (vif p)) (unpack_buffer (vif p))) = 4096"
    using inv by (subst memcpy_length) (auto simp: n_def vif_base_ok_def)
  then have base: "vif_base_ok (vif ?q)"
    using inv(4) by (simp add: buffer_payload_def vif_set_def vif_base_ok_def rows_ok_def)
  have r: "resume_unpack bs p = (complete_unpack ?q, drop (n div 4 * 4) bs)"
    using assms(1) words_left_4 [OF assms(3)] by (simp add: resume_unpack_def Let_def n_def)
  have f: "complete_unpack ?q = (if have_all (vif p) bs then finish_unpack ?q else ?q)"
    using inv(1) q by (auto simp: complete_unpack_def have_all_def n_def)
  show idle: "have_all (vif p) bs \<Longrightarrow> idle (vif (fst (resume_unpack bs p)))"
    using finish_unpack_ok [OF q(4) base] r f by simp
  show "\<not> have_all (vif p) bs \<Longrightarrow> unpack_pending (vif (fst (resume_unpack bs p))) \<and> \<not> mpg_pending (vif (fst (resume_unpack bs p)))
      \<and> snd (resume_unpack bs p) = []"
    using r f q assms(3) by (simp add: have_all_def n_def)
  show "vif_inv (vif (fst (resume_unpack bs p)))"
  proof (cases "have_all (vif p) bs")
    case True
    then show ?thesis using finish_unpack_ok [OF q(4) base] r f by (simp add: inv_idle)
  next
    case False
    then show ?thesis using r f q base inv by (auto simp: vif_inv_def have_all_def n_def)
  qed
qed

lemma resume_all_ok:
  assumes "vif_inv (vif p)" "4 dvd length bs"
  shows "vif_inv (vif (fst (resume_all bs p))) \<and> 4 dvd length (snd (resume_all bs p))
    \<and> (idle (vif (fst (resume_all bs p))) \<or> snd (resume_all bs p) = [])"
proof -
  consider (idle) "idle (vif p)" | (mpg) "mpg_pending (vif p)" "\<not> unpack_pending (vif p)"
    | (unpack) "unpack_pending (vif p)" "\<not> mpg_pending (vif p)"
    using assms(1) by (auto simp: vif_inv_def idle_def)
  then show ?thesis
  proof cases
    case idle
    then show ?thesis using assms by (simp add: resume_idle)
  next
    case mpg
    note f = resume_mpg_fields [OF mpg(1), of bs]
    have "4 dvd length (snd (resume_mpg bs p))"
      unfolding f(3) using assms(2) by (intro dvd_drop) simp_all
    moreover have "idle (vif (fst (resume_mpg bs p))) \<or> snd (resume_mpg bs p) = []"
      using f(1,2,3) mpg words_left_4 [OF assms(2)] by (auto simp: idle_def)
    ultimately show ?thesis using f(4) assms(1) mpg(2) by (simp add: resume_all_mpg)
  next
    case unpack
    note f = resume_unpack_fields [OF unpack(1) assms]
    have "4 dvd length (snd (resume_unpack bs p))"
      using assms(2) unpack(1) by (simp add: resume_unpack_def Let_def dvd_diff_nat)
    then show ?thesis
      using f unpack(2) by (cases "have_all (vif p) bs") (simp_all add: resume_all_unpack)
  qed
qed

lemma resume_split:
  assumes "vif_inv (vif p)" "4 dvd length a"
  shows "idle (vif (fst (resume_all a p))) \<and> resume_all (a @ b) p = (fst (resume_all a p), snd (resume_all a p) @ b)
    \<or> snd (resume_all a p) = [] \<and> resume_all (a @ b) p = resume_all b (fst (resume_all a p))"
proof -
  consider (idle) "idle (vif p)" | (mpg) "mpg_pending (vif p)" "\<not> unpack_pending (vif p)"
    | (unpack) "unpack_pending (vif p)" "\<not> mpg_pending (vif p)"
    using assms(1) by (auto simp: vif_inv_def idle_def)
  then show ?thesis
  proof cases
    case idle
    then show ?thesis by (simp add: resume_idle)
  next
    case mpg
    note f = resume_mpg_fields [OF mpg(1), of a]
    show ?thesis
    proof (cases "words_left a < mpg_pending_words (vif p)")
      case True
      have "snd (resume_mpg a p) = []" using True f(3) words_left_4 [OF assms(2)] by simp
      then show ?thesis
        using True f(2) mpg resume_mpg_more [OF True assms(2) mpg(1), of b] by (simp add: resume_all_mpg)
    next
      case False
      then show ?thesis
        using f(1,2) mpg resume_mpg_done [of p a b] assms(2) by (simp add: resume_all_mpg idle_def)
    qed
  next
    case unpack
    note f = resume_unpack_fields [OF unpack(1) assms]
    have "unpack_needed_bytes (vif p) \<le> length (unpack_buffer (vif p))"
      using assms(1) unpack(1) by (simp add: vif_inv_def vif_base_ok_def)
    then show ?thesis
      using f(2,3) unpack resume_unpack_done [of p a b] resume_unpack_more [of p a b] assms(2)
      by (cases "have_all (vif p) a") (simp_all add: resume_all_unpack)
  qed
qed

section \<open>A command at the cut\<close>

text \<open>
  The commands whose payload the code does not carry over: STMASK, STROW, STCOL and, on VIF1,
  DIRECT and DIRECTHL. A cut is clean when it is in the payload of none of them and no reserved
  UNPACK format has stopped the decoder before it.
\<close>

definition payload_whole :: "bool \<Rightarrow> nat \<Rightarrow> u32 \<Rightarrow> u8 list \<Rightarrow> bool" where
  "payload_whole one cmd code bs \<longleftrightarrow>
     (cmd = 0x20 \<longrightarrow> 1 \<le> words_left bs) \<and> (cmd = 0x30 \<or> cmd = 0x31 \<longrightarrow> 4 \<le> words_left bs)
     \<and> ((cmd = 0x50 \<or> cmd = 0x51) \<and> one \<longrightarrow>
          (if code AND 0xFFFF = 0 then 65536 else unat (code AND 0xFFFF)) * 4 \<le> words_left bs)"

function vif_whole :: "'w vif_env \<Rightarrow> u8 list \<Rightarrow> 'w vif_port \<Rightarrow> bool" where
  "vif_whole env bs p =
     (if words_left bs = 0 then True
      else payload_whole (is_vif1 (vif p)) (code_cmd (vif_rd_le32 bs)) (vif_rd_le32 bs) (drop 4 bs)
        \<and> (case vif_step env bs p of (p1, None) \<Rightarrow> False | (p1, Some rest) \<Rightarrow> vif_whole env rest p1))"
  by pat_completeness auto
termination
  by (relation "measure (\<lambda>(_, bs, _). length bs)") (auto dest: vif_step_length [OF sym])

declare vif_whole.simps [simp del]

definition vif_clean :: "'w vif_env \<Rightarrow> u8 list \<Rightarrow> 'w vif_port \<Rightarrow> bool" where
  "vif_clean env bs p = (let (q, r) = resume_all bs p in vif_whole env r q)"

lemma words_left_drop4: "words_left bs \<noteq> 0 \<Longrightarrow> words_left (drop 4 bs) = words_left bs - 1"
  by (auto simp: words_left_def)

lemma words_left_pos: "0 < words_left bs \<longleftrightarrow> 4 \<le> length bs"
  by (auto simp: words_left_def)

lemma read_words_append:
  "n \<le> words_left bs \<Longrightarrow> read_words n (bs @ c) = read_words n bs \<and> length (read_words n bs) = n"
proof (induction n arbitrary: bs)
  case (Suc n)
  have "0 < words_left bs" using Suc.prems by simp
  then have l: "4 \<le> length bs" "words_left bs \<noteq> 0" "words_left (bs @ c) \<noteq> 0" by (auto simp: words_left_pos)
  then show ?case
    using Suc.IH [of "drop 4 bs"] Suc.prems by (simp add: rd_le32_append words_left_drop4)
qed simp

lemma exec_append:
  assumes "vif_exec env cmd code a p = (p1, rest)" "payload_whole (is_vif1 (vif p)) cmd code a" "cmd \<noteq> 0x4A" "4 dvd length a"
  shows "vif_exec env cmd code (a @ b) p = (p1, rest @ b)"
proof -
  have wl: "words_left (a @ b) = words_left a + words_left b" using assms(4) by (rule words_left_append)
  consider "cmd = 0x20" | "cmd = 0x30" | "cmd = 0x31" | "cmd = 0x50 \<or> cmd = 0x51"
    | "cmd \<noteq> 0x20" "cmd \<noteq> 0x30" "cmd \<noteq> 0x31" "cmd \<noteq> 0x50" "cmd \<noteq> 0x51" by blast
  then show ?thesis
  proof cases
    case 1
    then have "0 < words_left a" using assms(2) by (simp add: payload_whole_def)
    then show ?thesis
      using assms(1) 1 wl by (auto simp: vif_exec_def rd_le32_append words_left_pos)
  next
    case 2
    then have "4 \<le> words_left a" using assms(2) by (simp add: payload_whole_def)
    then show ?thesis
      using assms(1) 2 read_words_append [of 4 a b] words_left_4 [OF assms(4)] by (auto simp: vif_exec_def Let_def)
  next
    case 3
    then have "4 \<le> words_left a" using assms(2) by (simp add: payload_whole_def)
    then show ?thesis
      using assms(1) 3 read_words_append [of 4 a b] words_left_4 [OF assms(4)] by (auto simp: vif_exec_def Let_def)
  next
    case 4
    let ?w = "(if unat (code AND 0xFFFF) = 0 then 65536 else unat (code AND 0xFFFF)) * 4"
    have d: "vif_exec env cmd code c p = vif_direct env code c p" for c using 4 by (auto simp: vif_exec_def)
    show ?thesis
    proof (cases "is_vif1 (vif p)")
      case True
      then have w: "?w \<le> words_left a" using assms(2) 4 by (auto simp: payload_whole_def unat_eq_0)
      then have "4 * ?w \<le> length a" using words_left_4 [OF assms(4)] by simp
      moreover have "16 * (?w div 4) = 4 * ?w" by simp
      ultimately show ?thesis
        using assms(1) True w wl unfolding d by (simp add: vif_direct_def Let_def min_absorb1 del: mult_eq_0_iff) auto
    next
      case False
      then show ?thesis using assms(1) unfolding d by (auto simp: vif_direct_def)
    qed
  next
    case 5
    then show ?thesis using assms(1,3) by (auto simp: vif_exec_def split: if_splits)
  qed
qed

definition meets :: "'w vif_port \<times> u8 list option \<Rightarrow> 'w vif_port \<times> u8 list \<Rightarrow> bool" where
  "meets s r \<longleftrightarrow> snd s = Some (snd r) \<and> settle (fst s) = settle (fst r)"

lemma mpg_append:
  assumes "vif_mpg code a p = (p1, rest)" "4 dvd length a" "idle (vif p)"
  shows "idle (vif p1) \<and> vif_mpg code (a @ b) p = (p1, rest @ b)
    \<or> rest = [] \<and> meets (map_prod id Some (vif_mpg code (a @ b) p)) (resume_all b p1)"
proof (cases "code_num code * 2 \<le> words_left a")
  case True
  then have "code_num code * 2 \<le> words_left (a @ b)" "4 * (code_num code * 2) \<le> length a"
    using words_left_append [OF assms(2), of b] words_left_4 [OF assms(2)] by simp_all
  then have "vif_mpg code (a @ b) p = (p1, rest @ b)"
    using assms(1) True by (auto simp: vif_mpg_def Let_def min_absorb1 upload_def micro_upload_prefix)
  moreover have "idle (vif p1)"
    using assms(1,3) True by (auto simp: vif_mpg_def Let_def min_absorb1 upload_def vif_set_def idle_def)
  ultimately show ?thesis by simp
next
  case False
  let ?q = "begin_mpg code p"
  have q: "mpg_pending (vif ?q)" "mpg_pending_words (vif ?q) = code_num code * 2" "\<not> unpack_pending (vif ?q)"
    using assms(3) by (simp_all add: begin_mpg_def vif_set_def idle_def)
  have r: "vif_mpg code a p = resume_mpg a ?q" using False by (intro mpg_begin_more) simp
  then have pr: "resume_mpg a ?q = (p1, rest)" using assms(1) by simp
  note f = resume_mpg_fields [OF q(1), of a, unfolded pr fst_conv snd_conv]
  have "rest = []" "\<not> unpack_pending (vif p1)"
    using f(2,3) q(2,3) False words_left_4 [OF assms(2)] by simp_all
  moreover have "resume_mpg (a @ b) ?q = resume_mpg b p1"
    using resume_mpg_more [OF _ assms(2) q(1), of b] pr q(2) False by simp
  moreover have "\<not> mpg_pending (vif p)" using assms(3) by (simp add: idle_def)
  ultimately show ?thesis
    using mpg_begin [of p code "a @ b"] by (simp add: resume_all_mpg meets_def)
qed

lemma exec_unpack_append:
  assumes "vif_exec_unpack cmd code a p = (p1, Some rest)" "4 dvd length a" "idle (vif p)" "vif_base_ok (vif p)"
  shows "idle (vif p1) \<and> vif_exec_unpack cmd code (a @ b) p = (p1, Some (rest @ b))
    \<or> rest = [] \<and> meets (vif_exec_unpack cmd code (a @ b) p) (resume_all b p1)"
proof -
  let ?n = "vif_unpack_needed_bytes (vif p) cmd (code_num code)"
  have g: "unpack_gsize cmd \<noteq> 0"
  proof
    assume "unpack_gsize cmd = 0"
    then show False using assms(1) by (simp add: vif_exec_unpack_def vif_unpack_needed_bytes_def vif_unpack_def)
  qed
  have d: "?n div 4 * 4 = ?n" using needed_dvd by simp
  have wl: "words_left a * 4 = length a" "words_left (a @ b) * 4 = length a + words_left b * 4"
    using words_left_append [OF assms(2), of b] words_left_4 [OF assms(2)] by simp_all
  show ?thesis
  proof (cases "?n \<le> length a")
    case True
    have x: "vif_exec_unpack cmd code c p = (fst (vif_unpack code cmd (take ?n c) p), Some (drop ?n c))"
      if "?n \<le> length c" "\<not> ?n > words_left c * 4" for c
      using vif_unpack_payload [OF g refl that(1)] that(2) d by (simp add: vif_exec_unpack_def Let_def mult.commute)
    have "vif_exec_unpack cmd code (a @ b) p = (p1, Some (rest @ b))"
      using x [of a] x [of "a @ b"] True wl assms(1) by auto
    moreover have "idle (vif p1)"
      using x [of a] True wl assms(1,3) idle_kept [OF kept_unpack, of code cmd "take ?n a" p] by auto
    ultimately show ?thesis by simp
  next
    case False
    let ?q = "begin_unpack cmd code p"
    have r: "(p1, rest) = resume_unpack a ?q"
      using exec_unpack_more [of a p cmd code] assms(1) False wl(1) by simp
    have h: "\<not> have_all (vif ?q) a" using False by (simp add: have_all_def)
    have "vif_inv (vif ?q)"
      using assms(3,4) needed_le [of "vif p" cmd code] needed_pos [OF g, of "vif p" code]
      by (auto simp: vif_inv_def idle_def) (simp add: begin_unpack_def vif_set_def vif_base_ok_def rows_ok_def)
    then have f: "rest = []" "\<not> mpg_pending (vif p1)"
      using resume_unpack_fields(3) [OF _ _ assms(2) h] r by (metis begin_unpack_simps(1) fst_conv snd_conv)+
    have "resume_unpack (a @ b) ?q = resume_unpack b p1"
      using resume_unpack_more [OF h assms(2), of b] r needed_le [of "vif p" cmd code] assms(4)
      by (metis begin_unpack_simps(1,3,4) fst_conv vif_base_ok_def)
    then show ?thesis
      using f exec_unpack_begin [OF g assms(3), of code "a @ b"] assms(4)
      by (simp add: resume_all_unpack meets_def vif_base_ok_def)
  qed
qed

lemma step_append:
  assumes "vif_step env a p = (p1, Some rest)" "4 dvd length a" "a \<noteq> []" "idle (vif p)" "vif_base_ok (vif p)"
    and "payload_whole (is_vif1 (vif p)) (code_cmd (vif_rd_le32 a)) (vif_rd_le32 a) (drop 4 a)"
  shows "idle (vif p1) \<and> vif_step env (a @ b) p = (p1, Some (rest @ b))
    \<or> rest = [] \<and> meets (vif_step env (a @ b) p) (resume_all b p1)"
proof -
  let ?code = "vif_rd_le32 a" and ?p = "count_code (vif_rd_le32 a) p"
  have l: "4 \<le> length a" using assms(2,3) by (cases a) (auto dest: dvd_imp_le)
  note k = count_code_kept [of p ?code]
  have i: "idle (vif ?p)" "vif_base_ok (vif ?p)" "is_vif1 (vif ?p) = is_vif1 (vif p)"
    using assms(4) idle_kept [OF k] base_ok_kept [OF k assms(5)] k [unfolded kept_def] by simp_all
  have d: "4 dvd length (drop 4 a)" using assms(2) by (intro dvd_drop) simp_all
  have c: "vif_rd_le32 (a @ b) = ?code" "drop 4 (a @ b) = drop 4 a @ b" using l by (simp_all add: rd_le32_append)
  note step = vif_step_def Let_def count_code_def [symmetric]
  consider (unpack) "code_cmd ?code \<ge> 0x60" | (mpg) "code_cmd ?code = 0x4A"
    | (other) "code_cmd ?code < 0x60" "code_cmd ?code \<noteq> 0x4A" by linarith
  then show ?thesis
  proof cases
    case unpack
    then have s: "vif_step env a p = vif_exec_unpack (code_cmd ?code) ?code (drop 4 a) ?p"
      "vif_step env (a @ b) p = vif_exec_unpack (code_cmd ?code) ?code (drop 4 a @ b) ?p"
      using c by (simp_all add: step del: drop_append)
    show ?thesis using exec_unpack_append [OF _ d i(1,2)] assms(1) unfolding s by blast
  next
    case mpg
    then have s: "vif_step env a p = map_prod id Some (vif_mpg ?code (drop 4 a) ?p)"
      "vif_step env (a @ b) p = map_prod id Some (vif_mpg ?code (drop 4 a @ b) ?p)"
      using c by (simp_all add: step vif_exec_def split_beta map_prod_def del: drop_append)
    obtain r where "vif_mpg ?code (drop 4 a) ?p = (p1, r)" "rest = r"
      using assms(1) unfolding s by (auto simp: map_prod_def split: prod.splits)
    then show ?thesis using mpg_append [OF _ d i(1), of ?code p1 r b] unfolding s by auto
  next
    case other
    then have e: "vif_exec env (code_cmd ?code) ?code (drop 4 a) ?p = (p1, rest)"
      using assms(1) by (auto simp: step split: prod.splits)
    have "idle (vif p1)"
      using idle_kept [OF kept_exec [OF other(2), of ?p env ?code "drop 4 a"]] e i(1) by simp
    moreover have "vif_step env (a @ b) p = (p1, Some (rest @ b))"
      using exec_append [OF e _ other(2) d, of b] assms(6) i(3) other(1) c by (simp add: step del: drop_append)
    ultimately show ?thesis by simp
  qed
qed

section \<open>Properties\<close>

lemma loop_split:
  assumes "vif_whole env a p" "idle (vif p)" "vif_base_ok (vif p)" "4 dvd length a" "4 dvd length b"
  shows "settle (vif_loop env (a @ b) p) = settle (vif_process env b (vif_loop env a p))"
  using assms(1-4)
proof (induction "length a" arbitrary: a p rule: less_induct)
  case less
  note i = less.prems(2,3)
  show ?case
  proof (cases "a = []")
    case True
    then show ?thesis using i by (simp add: vif_loop.simps [of env "[]"] words_left_def process_resume resume_idle)
  next
    case False
    then have w: "words_left a \<noteq> 0" "words_left (a @ b) \<noteq> 0"
      using less.prems(4) words_left_append [of a b] by (simp_all add: words_left_0)
    obtain p1 rest where s: "vif_step env a p = (p1, Some rest)" and whole: "vif_whole env rest p1"
      and pw: "payload_whole (is_vif1 (vif p)) (code_cmd (vif_rd_le32 a)) (vif_rd_le32 a) (drop 4 a)"
      using less.prems(1) w(1) by (auto simp: vif_whole.simps [of env a] split: prod.splits option.splits)
    have la: "vif_loop env a p = vif_loop env rest p1" using s w(1) by (simp add: vif_loop.simps [of env a])
    have inv: "vif_inv (vif p1)" using inv_step [OF i, of env a] s by simp
    have rest: "4 dvd length rest" "length rest < length a"
      using step_rest [OF s less.prems(4) i(1)] vif_step_length [OF s w(1)] by simp_all
    from step_append [OF s less.prems(4) False i pw, of b] show ?thesis
    proof (elim disjE conjE)
      assume "idle (vif p1)" "vif_step env (a @ b) p = (p1, Some (rest @ b))"
      then show ?thesis
        using less.hyps [OF rest(2) whole _ _ rest(1)] inv w(2) la by (simp add: vif_loop.simps [of env "a @ b"] inv_idle)
    next
      assume r: "rest = []" and m: "meets (vif_step env (a @ b) p) (resume_all b p1)"
      obtain q c where qc: "resume_all b p1 = (q, c)" by (cases "resume_all b p1")
      obtain q' where q': "vif_step env (a @ b) p = (q', Some c)" "settle q' = settle q"
        using m qc by (cases "vif_step env (a @ b) p") (auto simp: meets_def)
      have ok: "4 dvd length c" "idle (vif q) \<or> c = []"
        using resume_all_ok [OF inv assms(5)] qc by simp_all
      have "vif_process env b (vif_loop env a p) = vif_loop env c q"
        using la r qc by (simp add: vif_loop.simps [of env "[]"] words_left_def process_resume)
      moreover have "vif_loop env (a @ b) p = vif_loop env c q'"
        using q'(1) w(2) by (simp add: vif_loop.simps [of env "a @ b"])
      ultimately show ?thesis
        using loop_settle [of q q' c env] q'(2) ok by simp
    qed
  qed
qed

lemma inv_process: "vif_inv (vif p) \<Longrightarrow> 4 dvd length bs \<Longrightarrow> vif_inv (vif (vif_process env bs p))"
  using resume_all_ok [of p bs] by (auto simp: process_resume split_beta Let_def intro: inv_loop)

text \<open>A stream for the witnesses: an MPG upload of four words, cut after the first, and a MARK.\<close>

definition quiet_env :: "unit vif_env" where
  "quiet_env = \<lparr>gif_quads = \<lambda>_ _ w. w, floats = pattern_float\<rparr>"

definition vif1_port :: "unit vif_port" where
  "vif1_port = \<lparr>vif = vif_zero True, vu = vu1_init, gifw = ()\<rparr>"

definition mpg_head :: "u8 list" where
  "mpg_head = [1, 0, 2, 0x4A, 0xAA, 0, 0, 0]"

definition mpg_tail :: "u8 list" where
  "mpg_tail = [0xBB, 0, 0, 0, 0xCC, 0, 0, 0, 0xDD, 0, 0, 0, 7, 0, 0, 7]"

text \<open>C6: In every state of a vector interface that transfers can lead to, the payload buffer has its
  4096 bytes (no copy into it has left it), at most one payload is outstanding, less of it is
  buffered than needed, never more than 4096 bytes are needed, and the row and column registers
  have four entries.
\<close>

theorem vif_buffer_safe:
  assumes "\<forall>t \<in> set ts. 4 dvd length t"
  shows "vif_inv (vif (fold (vif_process env) ts \<lparr>vif = vif_zero one, vu = u, gifw = w\<rparr>))"
proof -
  have zero: "vif_inv (vif_zero one)"
    by (simp add: vif_inv_def vif_base_ok_def rows_ok_def vif_zero_def)
  have "vif_inv (vif p) \<Longrightarrow> vif_inv (vif (fold (vif_process env) ts p))" for p
    using assms by (induction ts arbitrary: p) (auto intro: inv_process)
  then show ?thesis using zero by simp
qed

theorem vif_buffer_safe_witness:
  "vif_inv (vif (fold (vif_process quiet_env) [mpg_head, mpg_tail] vif1_port))"
proof -
  have "\<forall>t \<in> set [mpg_head, mpg_tail]. 4 dvd length t" by code_simp
  then show ?thesis
    unfolding vif1_port_def by (rule vif_buffer_safe)
qed

text \<open>C4: The end of a transfer inside an MPG or UNPACK payload, or between two codes, is invisible:
  processing the stream in two transfers leaves the same registers, vector-unit memories and GIF
  state as processing it in one, up to the registers that tracked a payload that is complete. The
  first part must not end in the payload of a STMASK, STROW, STCOL or DIRECT code (the code does
  not carry those over) and must not contain a reserved UNPACK format.
\<close>

theorem vif_split_invisible:
  assumes "vif_inv (vif p)" "4 dvd length a" "4 dvd length b" "vif_clean env a p"
  shows "settle (vif_process env (a @ b) p) = settle (vif_process env b (vif_process env a p))"
proof -
  obtain q r where qr: "resume_all a p = (q, r)" by (cases "resume_all a p")
  have ok: "vif_inv (vif q)" "4 dvd length r" "vif_whole env r q"
    using resume_all_ok [OF assms(1,2)] assms(4) qr by (simp_all add: vif_clean_def)
  from resume_split [OF assms(1,2), of b] show ?thesis
  proof (elim disjE conjE)
    assume "idle (vif (fst (resume_all a p)))"
      "resume_all (a @ b) p = (fst (resume_all a p), snd (resume_all a p) @ b)"
    then show ?thesis
      using loop_split [OF ok(3) _ _ ok(2) assms(3)] ok(1) qr by (simp add: process_resume inv_idle)
  next
    assume "snd (resume_all a p) = []" "resume_all (a @ b) p = resume_all b (fst (resume_all a p))"
    then show ?thesis
      using qr by (simp add: process_resume [of env "a @ b"] process_resume [of env a] process_resume [of env b]
          vif_loop.simps [of env "[]"] words_left_def)
  qed
qed

theorem vif_split_invisible_witness:
  "mpg_pending_words (vif (vif_process quiet_env mpg_head vif1_port)) = 3
   \<and> settle (vif_process quiet_env (mpg_head @ mpg_tail) vif1_port)
     = settle (vif_process quiet_env mpg_tail (vif_process quiet_env mpg_head vif1_port))"
proof -
  have "vif_inv (vif vif1_port)"
    by (simp add: vif_inv_def vif_base_ok_def rows_ok_def vif1_port_def vif_zero_def)
  moreover have "vif_clean quiet_env mpg_head vif1_port" by code_simp
  moreover have "4 dvd length mpg_head" "4 dvd length mpg_tail" by code_simp+
  moreover have "mpg_pending_words (vif (vif_process quiet_env mpg_head vif1_port)) = 3" by code_simp
  ultimately show ?thesis
    using vif_split_invisible [of vif1_port mpg_head mpg_tail quiet_env] by blast
qed

end
