(* ===== verification/Spec2Isabelle.thy ===== *)
theory Spec2Isabelle
  imports Iop_Hle_Heap Timers Ee_Misc Iop_Thread_Props Iop_Cpu_Props Iop_Events Ee_Dma_Props Spu2_Props Iop_Dma_Props
    Iop_Step_Props Iop_Cdrom_Props Iop_Bios_Props Iop_Elf_Props Loaders Sif Gs Ee_Mmi_Props Ee_Props Vif_Split
begin

text \<open>
  A verification library for PCSX2-Wii, an emulator of the PlayStation 2: two processors (the EE,
  an R5900, and the IOP, an R3000A), their interrupt controllers, counters, DMA controllers, sound,
  disc, graphics memory and mailbox, and a high-level emulation of the IOP kernel.

  \<^bold>\<open>How the program is put together.\<close> Each processor is an interpreter
  (\<open>source/core/iop/iop_core.c\<close>, \<open>source/core/ee/ee_core.c\<close>) whose memory accesses are offered to the
  register blocks in a fixed order before they reach RAM or the ROM image. A step fetches and executes
  one instruction, advances the clocks of the devices and delivers an interrupt. On the IOP, jumps to
  kernel entry points are trapped and answered by C code (\<open>iop_hle_*.c\<close>). The processors meet in the
  mailbox (\<open>sif.c\<close>), the two DMA controllers (\<open>dma.c\<close>, \<open>iop_dma.c\<close>) and the ICFG register.

  \<^bold>\<open>Conventions.\<close> A \<open>uintN_t\<close> is an \<open>N word\<close>; signed C arithmetic is two's complement. RAM, ROM and large
  register files are functions from the offset; arrays of fixed size are lists whose length is part of
  the invariant. A handler that declines an address is \<open>None\<close> (or \<open>Declined\<close>). A result \<open>None\<close>,
  \<open>Overrun\<close> or \<open>Undefined\<close> is an access outside a C array or another undefined behaviour of the C
  program, so a theorem that a result exists also says there is none. Code of this program that is not
  modelled is an argument: the handlers of a bus, the sinks of the DMA channels, the module loader.

  \<^bold>\<open>Theories, in the order the components call each other.\<close>

  \<^item> \<open>Prelude\<close>: machine types, the collections, and the facts on words, bit fields and arrays. \<open>Rom\<close>: the
    BIOS image.
  \<^item> \<open>Iop_Heap\<close>, \<open>Iop_Heap_Chain\<close>, \<open>Iop_Heap_Spec\<close> (\<open>iop_heap.c\<close>): the block table of the SYSMEM allocator,
    its representation as a chain of blocks, and the contract: every reachable table is a chain of
    adjacent blocks without two adjacent free ones, allocations are disjoint and large enough, freeing
    is exact. \<open>Iop_Hle_Heap\<close> (\<open>iop_hle_heap.c\<close>): the call gates.
  \<^item> \<open>Intc\<close> (\<open>iop_intc.c\<close>, \<open>ee_intc.c\<close>, \<open>iop_icfg.c\<close>): the register-block interface \<open>mmio_block\<close>, which
    every block of registers interprets, and the two interrupt controllers. \<open>Timers\<close> (\<open>iop_timers.c\<close>,
    \<open>ee_timers.c\<close>), \<open>Ee_Misc\<close> (\<open>mch.c\<close>, \<open>ee_sio.c\<close>, \<open>ee_dve.c\<close>).
  \<^item> \<open>Iop_Mem\<close>, \<open>Iop_Cpu\<close>, \<open>Iop_Step\<close> with \<open>Iop_Cpu_Props\<close> and \<open>Iop_Step_Props\<close> (\<open>iop_core.c\<close>): memory,
    instruction set and main loop: store/load round trips, cache isolation, unaligned accesses, delay
    slots, exceptions; an interrupt is delivered to the handler of its line and, when the handler has run and
    returned, invisible to the interrupted code; an idle processor is woken within a frame (615186 ticks).
  \<^item> \<open>Iop_Thread\<close>, \<open>Iop_Thread_Inv\<close>, \<open>Iop_Thread_Gates\<close>, \<open>Iop_Thread_Props\<close> (\<open>iop_hle_thread.c\<close>): threads,
    semaphores, event flags and alarms: the scheduler invariant over every sequence of calls that resumes
    no thread suspended while running and does not exhaust the ready tickets, what goes wrong without the
    first condition, the choice of the best ready thread, context switches, and the contracts of the calls.
  \<^item> \<open>Iop_Intr\<close>, \<open>Iop_Intr_Props\<close> (\<open>iop_hle_intr.c\<close>, \<open>iop_excb.c\<close>), \<open>Iop_Events\<close> (\<open>iop_hle_events.c\<close>,
    \<open>iop_hle_modules.c\<close>), \<open>Iop_Bios\<close>, \<open>Iop_Bios_Props\<close> (\<open>iop_hle_bios.c\<close>), \<open>Iop_Elf\<close>, \<open>Iop_Elf_Props\<close>
    (\<open>iop_elf.c\<close>): the rest of the emulated kernel.
  \<^item> \<open>Ee_Dma\<close>, \<open>Ee_Dma_Props\<close> (\<open>dma.c\<close>), \<open>Iop_Dma\<close>, \<open>Iop_Dma_Props\<close> (\<open>iop_dma.c\<close>): chain transfers deliver
    the data their tags describe and stop; a transfer from the IOP arrives in EE memory.
  \<^item> \<open>Sif\<close> (\<open>sif.c\<close>, \<open>ipu.c\<close>), \<open>Spu2\<close>, \<open>Spu2_Props\<close> (\<open>iop_spu2.c\<close>, \<open>spu2_mixer.c\<close>,
    \<open>iop_spu_legacy.c\<close>), \<open>Iop_Asyncio\<close>, \<open>Iop_Cdrom\<close>, \<open>Iop_Cdrom_Props\<close> (\<open>iop_asyncio.c\<close>,
    \<open>iop_cdrom_legacy.c\<close>), \<open>Loaders\<close> (\<open>bios_loader.c\<close>, \<open>iso_loader.c\<close>), \<open>Gs\<close> (\<open>gs_mem.c\<close>, \<open>gs.c\<close>,
    \<open>gs_wii_output.c\<close>).
  \<^item> \<open>Ee_Mem\<close>, \<open>Ee_Mmi\<close>, \<open>Ee_Cpu\<close>, \<open>Ee_Step\<close> (\<open>ee_core.c\<close>, \<open>ee_core.h\<close>): the EE's state, address translation,
    exceptions, the order of the register blocks and the memory accesses; the 128-bit instructions; the
    other instructions; interrupts and the main loop. \<open>Ee_Mmi_Props\<close>: lane-wise meaning, saturation, the
    funnel shift. \<open>Ee_Props\<close>: the TLB maps pages of every size, interrupts and their return, a store and a
    load through two aliases, and what a TLB miss does to a load.
  \<^item> \<open>Vu\<close>, \<open>Vu_Props\<close> (\<open>vu.c\<close>, \<open>vu_opcodes.h\<close>): the micro-mode interpreter of the vector units over an
    arbitrary float arithmetic: what every microprogram keeps, and how the E bit ends a run after its
    delay slot (the run is bounded by the 65536 steps of the code). \<open>Vif\<close>, \<open>Vif_Props\<close>, \<open>Vif_Split\<close>
    (\<open>vif.c\<close>): the stream decoder in front of them: the dry run of UNPACK is exact and never exceeds the
    buffer, and the end of a transfer inside an MPG or UNPACK payload is invisible.

  \<^bold>\<open>Interfaces.\<close> \<open>mmio_block\<close> (a block claims an address or declines it, by the address alone) is
  interpreted by every register block; \<open>lane_view\<close> (a register is its lanes) by words, halfwords and
  bytes of the 128-bit registers; the other locales are named where the provider interprets them.

  \<^bold>\<open>Bounds and fuel.\<close> The chain walk of the DMA controller stops after \<open>MAX_TAGS_PER_KICK = 4096\<close> tags, the
  bound of the code. \<open>strlen\<close>, \<open>strcmp\<close> and their relatives over guest memory are
  \<open>partial_function (option)\<close>, since a string without a terminator makes the C loop run for ever; that
  they return on terminated strings is proved. The resampling loop of the mixer has as fuel a bound that
  its step size implies. The other loops recurse on their C bounds.

  \<^bold>\<open>Not modelled.\<close> The emulated kernel calls of the EE behind SYSCALL and the boot heuristics, which
  recognise code addresses of particular programs; the floating-point unit, the vector unit in macro mode and
  the rasteriser, which compute with host floating-point numbers; the recompiler (it writes PowerPC machine
  code); the DVD drive, the serial interface, the module loader of the IOP and the
  thread manager of the EE; checkpoints, the menus and the console's main program (host files and video).
\<close>

end
